(* ===== verification/Orion_Prelude.thy ===== *)
theory Orion_Prelude
  imports Main "HOL-Library.Word" "HOL-Library.Monad_Syntax"
begin

section \<open>Shared vocabulary of the Orion development\<close>

text \<open>
  What every component theory uses: the fact collections, C and C++ integers with their
  wrap-around, C strings (a \<^typ>\<open>string\<close> without NUL characters, the view that
  \<^verbatim>\<open>c_str()\<close> gives of a \<^verbatim>\<open>std::string\<close>), the character classes and the
  conversions of the C library that the sources call (\<^verbatim>\<open>isdigit\<close>, \<^verbatim>\<open>isspace\<close>,
  \<^verbatim>\<open>strstr\<close>, \<^verbatim>\<open>strchr\<close>, \<^verbatim>\<open>atoi\<close>, \<^verbatim>\<open>%d\<close>), and generic lemmas on
  lists and finite maps.

  An operation that can run into undefined behaviour of C++ (an out-of-range read, a null
  dereference) has an \<^typ>\<open>'a option\<close> result here, and \<^const>\<open>None\<close> is that behaviour.
\<close>

named_theorems orion_inv \<open>operations keep the invariant of their component\<close>
named_theorems orion_step \<open>unfolding of single operations\<close>
named_theorems cstr \<open>facts about C strings and decimal notation\<close>

subsection \<open>Signed machine integers\<close>

definition wrap32 :: "int \<Rightarrow> int" where
  "wrap32 x = (x + 2 ^ 31) mod 2 ^ 32 - 2 ^ 31"

definition wrap64 :: "int \<Rightarrow> int" where
  "wrap64 x = (x + 2 ^ 63) mod 2 ^ 64 - 2 ^ 63"

abbreviation int_max :: int where "int_max \<equiv> 2147483647"
abbreviation long_max :: int where "long_max \<equiv> 9223372036854775807"

lemma wrap32_id [simp]: "- (2 ^ 31) \<le> x \<Longrightarrow> x < 2 ^ 31 \<Longrightarrow> wrap32 x = x"
  by (simp add: wrap32_def)

lemma wrap64_id [simp]: "- (2 ^ 63) \<le> x \<Longrightarrow> x < 2 ^ 63 \<Longrightarrow> wrap64 x = x"
  by (simp add: wrap64_def)

lemma wrap32_range: "- (2 ^ 31) \<le> wrap32 x \<and> wrap32 x < 2 ^ 31"
proof -
  have "0 \<le> (x + 2 ^ 31) mod 2 ^ 32" and "(x + 2 ^ 31) mod 2 ^ 32 < (2 ^ 32 :: int)"
    by (simp_all add: pos_mod_bound)
  then show ?thesis by (simp add: wrap32_def)
qed

lemma wrap64_add: "wrap64 (wrap64 x + y) = wrap64 (x + y)"
proof -
  have "((x + 2 ^ 63) mod 2 ^ 64 + y) mod 2 ^ 64 = (x + 2 ^ 63 + y) mod (2 ^ 64 :: int)"
    by (rule mod_add_left_eq)
  then show ?thesis by (simp add: wrap64_def ac_simps)
qed

subsection \<open>C strings\<close>

abbreviation NUL :: char where "NUL \<equiv> CHR 0x00"

definition c_str :: "string \<Rightarrow> string" where
  "c_str s = takeWhile (\<lambda>c. c \<noteq> NUL) s"

lemma c_str_no_NUL [simp]: "NUL \<notin> set s \<Longrightarrow> c_str s = s"
  unfolding c_str_def by (rule takeWhile_eq_all_conv [THEN iffD2]) blast

lemma NUL_notin_c_str [simp]: "NUL \<notin> set (c_str s)"
  by (auto simp: c_str_def dest: set_takeWhileD)

definition isspace :: "char \<Rightarrow> bool" where
  "isspace c = (c = CHR '' '' \<or> (9 \<le> (of_char c :: nat) \<and> (of_char c :: nat) \<le> 13))"

definition isdigit :: "char \<Rightarrow> bool" where
  "isdigit c = (48 \<le> (of_char c :: nat) \<and> (of_char c :: nat) \<le> 57)"

definition isxdigit :: "char \<Rightarrow> bool" where
  "isxdigit c = (isdigit c
     \<or> (65 \<le> (of_char c :: nat) \<and> (of_char c :: nat) \<le> 70)
     \<or> (97 \<le> (of_char c :: nat) \<and> (of_char c :: nat) \<le> 102))"

text \<open>
  \<^verbatim>\<open>strstr(hay, needle)\<close>: the part of \<open>hay\<close> before the first occurrence of
  \<open>needle\<close> and the part that starts with it.
\<close>

fun strstr :: "string \<Rightarrow> string \<Rightarrow> (string \<times> string) option" where
  "strstr hay needle =
     (if take (length needle) hay = needle then Some ([], hay)
      else case hay of
             [] \<Rightarrow> None
           | c # cs \<Rightarrow> map_option (\<lambda>(pre, post). (c # pre, post)) (strstr cs needle))"

declare strstr.simps [simp del]

definition strchr :: "string \<Rightarrow> char \<Rightarrow> (string \<times> string) option" where
  "strchr s c = (if c \<in> set s then Some (takeWhile (\<lambda>x. x \<noteq> c) s, dropWhile (\<lambda>x. x \<noteq> c) s)
                 else None)"

lemma strstr_Some_append: "strstr hay needle = Some (pre, post) \<Longrightarrow> hay = pre @ post"
proof (induction hay arbitrary: pre)
  case Nil
  then show ?case by (subst (asm) strstr.simps) (auto split: if_splits)
next
  case (Cons c cs)
  then show ?case by (subst (asm) strstr.simps) (auto split: if_splits)
qed

lemma strstr_Some_prefix: "strstr hay needle = Some (pre, post) \<Longrightarrow> take (length needle) post = needle"
proof (induction hay arbitrary: pre)
  case Nil
  then show ?case by (subst (asm) strstr.simps) (auto split: if_splits)
next
  case (Cons c cs)
  then show ?case by (subst (asm) strstr.simps) (auto split: if_splits)
qed

lemma strstr_None_iff:
  "strstr hay needle = None \<longleftrightarrow> (\<forall>pre post. hay = pre @ post \<longrightarrow> take (length needle) post \<noteq> needle)"
proof (induction hay)
  case Nil
  then show ?case by (subst strstr.simps) auto
next
  case (Cons c cs)
  have split: "(\<forall>pre post. c # cs = pre @ post \<longrightarrow> take (length needle) post \<noteq> needle) \<longleftrightarrow>
      take (length needle) (c # cs) \<noteq> needle \<and>
      (\<forall>pre post. cs = pre @ post \<longrightarrow> take (length needle) post \<noteq> needle)"
    by (metis append_Cons append_Nil list.inject neq_Nil_conv)
  show ?case unfolding split by (subst strstr.simps) (simp add: Cons.IH)
qed

lemma dropWhile_hd_False: "dropWhile P xs = y # ys \<Longrightarrow> \<not> P y"
  by (metis hd_dropWhile list.distinct(1) list.sel(1))

lemma append_eq_suffix: "xs @ ys = us @ vs \<Longrightarrow> length ys = length vs \<Longrightarrow> ys = vs"
  by simp

subsection \<open>Decimal notation\<close>

definition digit_char :: "nat \<Rightarrow> char" where
  "digit_char d = char_of (48 + d)"

fun dec :: "nat \<Rightarrow> string" where
  "dec n = (if n < 10 then [digit_char n] else dec (n div 10) @ [digit_char (n mod 10)])"

declare dec.simps [simp del]

text \<open>\<^verbatim>\<open>printf("%d")\<close> and the zero padding of \<^verbatim>\<open>%0wd\<close> for a non-negative number.\<close>

definition show_int :: "int \<Rightarrow> string" where
  "show_int i = (if i < 0 then CHR ''-'' # dec (nat (- i)) else dec (nat i))"

definition pad0 :: "nat \<Rightarrow> string \<Rightarrow> string" where
  "pad0 w s = replicate (w - length s) (CHR ''0'') @ s"

definition digit_val :: "char \<Rightarrow> nat" where
  "digit_val c = of_char c - 48"

definition num_of :: "string \<Rightarrow> nat" where
  "num_of s = foldl (\<lambda>a c. 10 * a + digit_val c) 0 s"

text \<open>
  \<^verbatim>\<open>atoi\<close> as the C library has it: \<^verbatim>\<open>(int) strtol(s, NULL, 10)\<close>, where
  \<^verbatim>\<open>strtol\<close> skips white space, takes a sign and the longest run of digits, and saturates
  at the range of a 64-bit \<^verbatim>\<open>long\<close>.
\<close>

definition strtol10 :: "string \<Rightarrow> int" where
  "strtol10 s =
     (let s1 = dropWhile isspace s;
          neg = (s1 \<noteq> [] \<and> hd s1 = CHR ''-'');
          s2 = (if s1 \<noteq> [] \<and> (hd s1 = CHR ''-'' \<or> hd s1 = CHR ''+'') then tl s1 else s1);
          n = int (num_of (takeWhile isdigit s2))
      in max (- (2 ^ 63)) (min long_max (if neg then - n else n)))"

definition atoi :: "string \<Rightarrow> int" where
  "atoi s = wrap32 (strtol10 s)"

lemma digit_val_digit_char [simp]: "d < 10 \<Longrightarrow> digit_val (digit_char d) = d"
  by (simp add: digit_val_def digit_char_def)

lemma isdigit_digit_char [simp]: "d < 10 \<Longrightarrow> isdigit (digit_char d)"
  by (simp add: isdigit_def digit_char_def)

lemma num_of_append: "num_of (xs @ [c]) = 10 * num_of xs + digit_val c"
  by (simp add: num_of_def)

lemma num_of_dec [cstr, simp]: "num_of (dec n) = n"
proof (induction n rule: dec.induct)
  case (1 n)
  show ?case
  proof (cases "n < 10")
    case True
    then show ?thesis by (subst dec.simps) (simp add: num_of_def)
  next
    case False
    with 1 show ?thesis by (subst dec.simps) (simp add: num_of_append)
  qed
qed

lemma dec_isdigit [cstr]: "c \<in> set (dec n) \<Longrightarrow> isdigit c"
proof (induction n rule: dec.induct)
  case (1 n)
  then show ?case by (subst (asm) (2) dec.simps) (auto split: if_splits)
qed

lemma dec_not_Nil [cstr, simp]: "dec n \<noteq> []"
  by (subst dec.simps) simp

lemma dec_inject [cstr, simp]: "dec m = dec n \<longleftrightarrow> m = n"
  by (metis num_of_dec)

lemma num_of_zeros [cstr]: "num_of (replicate k (CHR ''0'') @ s) = num_of s"
  by (induction k) (simp_all add: num_of_def digit_val_def)

lemma pad0_dec_inject [cstr]: "pad0 w (dec m) = pad0 w (dec n) \<longleftrightarrow> m = n"
  by (metis num_of_dec num_of_zeros pad0_def)

lemma takeWhile_isdigit_dec [cstr]:
  "rest = [] \<or> \<not> isdigit (hd rest) \<Longrightarrow> takeWhile isdigit (dec n @ rest) = dec n"
  by (cases rest) (auto simp: dec_isdigit takeWhile_append2 takeWhile_tail)

lemma hd_dec_isdigit [cstr]: "isdigit (hd (dec n))"
  by (rule dec_isdigit [OF hd_in_set]) simp

lemma isdigit_not_isspace [cstr]: "isdigit c \<Longrightarrow> \<not> isspace c"
  by (auto simp: isdigit_def isspace_def)

lemma isdigit_not_sign [cstr]: "isdigit c \<Longrightarrow> c \<noteq> CHR ''-'' \<and> c \<noteq> CHR ''+''"
  by (auto simp: isdigit_def)

lemma strtol10_dec [cstr]:
  assumes "n < 2 ^ 63" and "rest = [] \<or> \<not> isdigit (hd rest)"
  shows "strtol10 (dec n @ rest) = int n"
proof -
  have hd: "hd (dec n @ rest) = hd (dec n)" by simp
  have nsp: "\<not> isspace (hd (dec n))" and nsg: "hd (dec n) \<noteq> CHR ''-''" "hd (dec n) \<noteq> CHR ''+''"
    using hd_dec_isdigit isdigit_not_isspace isdigit_not_sign by blast+
  have "dropWhile isspace (dec n @ rest) = dec n @ rest"
    by (metis append_is_Nil_conv dec_not_Nil dropWhile_eq_self_iff hd nsp)
  then show ?thesis
    using assms nsg by (simp add: strtol10_def Let_def takeWhile_isdigit_dec)
qed

lemma atoi_dec [cstr]:
  "n < 2 ^ 31 \<Longrightarrow> rest = [] \<or> \<not> isdigit (hd rest) \<Longrightarrow> atoi (dec n @ rest) = int n"
  by (simp add: atoi_def strtol10_dec)

end
