(* ===== verification/Orion_Clock.thy ===== *)
theory Orion_Clock
  imports Orion_Prelude
begin

section \<open>Time accounting: common/clockFunctions.cpp\<close>

text \<open>
  A \<^verbatim>\<open>struct timespec\<close> with its two fields, the three functions of
  \<^verbatim>\<open>common/clockFunctions.cpp\<close> on it, and the interface \<open>wait_account\<close> of every
  counter of the broker that sums up measured waiting times with them: the accumulated waits of
  the four semaphores of \<^verbatim>\<open>common/sem.cpp\<close>, of the database connection pool and of the
  notification queue. The provider promises that one measurement charges the difference of two
  clock readings; the lemmas of the interface sum up any number of measurements.
\<close>

record timespec =
  tv_sec :: int
  tv_nsec :: int

definition clock_difftime :: "timespec \<Rightarrow> timespec \<Rightarrow> timespec" where
  "clock_difftime endTime startTime =
     (let nsec = tv_nsec endTime - tv_nsec startTime;
          sec = tv_sec endTime - tv_sec startTime
      in if nsec < 0 then \<lparr>tv_sec = sec - 1, tv_nsec = nsec + 1000000000\<rparr>
         else \<lparr>tv_sec = sec, tv_nsec = nsec\<rparr>)"

definition clock_addtime :: "timespec \<Rightarrow> timespec \<Rightarrow> timespec" where
  "clock_addtime accTime diffTime =
     (let nsec = tv_nsec accTime + tv_nsec diffTime;
          sec = tv_sec accTime + tv_sec diffTime
      in if nsec \<ge> 1000000000 then \<lparr>tv_sec = sec + 1, tv_nsec = nsec - 1000000000\<rparr>
         else \<lparr>tv_sec = sec, tv_nsec = nsec\<rparr>)"

definition clock_subtime :: "timespec \<Rightarrow> timespec \<Rightarrow> timespec" where
  "clock_subtime subtrahend minuend =
     (let sec = tv_sec subtrahend - tv_sec minuend;
          nsec = tv_nsec subtrahend - tv_nsec minuend
      in if nsec < 0 then \<lparr>tv_sec = sec - 1, tv_nsec = nsec + 1000000000\<rparr>
         else \<lparr>tv_sec = sec, tv_nsec = nsec\<rparr>)"

definition ts_zero :: timespec where
  "ts_zero = \<lparr>tv_sec = 0, tv_nsec = 0\<rparr>"

text \<open>The abstraction: a time is its number of nanoseconds; a normal one keeps \<open>tv_nsec\<close> below a second.\<close>

definition ts_ns :: "timespec \<Rightarrow> int" where
  "ts_ns t = 1000000000 * tv_sec t + tv_nsec t"

definition ts_normal :: "timespec \<Rightarrow> bool" where
  "ts_normal t \<longleftrightarrow> 0 \<le> tv_nsec t \<and> tv_nsec t < 1000000000"

lemma ts_zero_simps [simp]: "ts_ns ts_zero = 0" "ts_normal ts_zero"
  by (simp_all add: ts_zero_def ts_ns_def ts_normal_def)

lemma ts_ns_difftime [simp]: "ts_ns (clock_difftime e s) = ts_ns e - ts_ns s"
  by (simp add: clock_difftime_def ts_ns_def Let_def)

lemma ts_ns_addtime [simp]: "ts_ns (clock_addtime a d) = ts_ns a + ts_ns d"
  by (simp add: clock_addtime_def ts_ns_def Let_def)

lemma ts_ns_subtime [simp]: "ts_ns (clock_subtime a d) = ts_ns a - ts_ns d"
  by (simp add: clock_subtime_def ts_ns_def Let_def)

lemma ts_normal_difftime [orion_inv]:
  "ts_normal e \<Longrightarrow> ts_normal s \<Longrightarrow> ts_normal (clock_difftime e s)"
  by (auto simp: clock_difftime_def ts_normal_def Let_def)

lemma ts_normal_addtime [orion_inv]:
  "ts_normal a \<Longrightarrow> ts_normal d \<Longrightarrow> ts_normal (clock_addtime a d)"
  by (auto simp: clock_addtime_def ts_normal_def Let_def)

lemma ts_normal_subtime [orion_inv]:
  "ts_normal a \<Longrightarrow> ts_normal d \<Longrightarrow> ts_normal (clock_subtime a d)"
  by (auto simp: clock_subtime_def ts_normal_def Let_def)

text \<open>A normal time is determined by its nanoseconds, so the three functions are exact.\<close>

lemma ts_normal_unique:
  assumes "ts_normal a" and "ts_normal b" and "ts_ns a = ts_ns b"
  shows "a = b"
proof -
  from assms have sec: "tv_sec a = tv_sec b"
    unfolding ts_normal_def ts_ns_def by linarith
  with assms(3) have "tv_nsec a = tv_nsec b" by (simp add: ts_ns_def)
  with sec show ?thesis by simp
qed

subsection \<open>The interface of an accumulated waiting time\<close>

locale wait_account =
  fixes acc :: "'s \<Rightarrow> timespec"
    and charge :: "timespec \<times> timespec \<Rightarrow> 's \<Rightarrow> 's"
  assumes acc_charge: "acc (charge (start, stop) s) = clock_addtime (acc s) (clock_difftime stop start)"
begin

lemma acc_ns_charge: "ts_ns (acc (charge m s)) = ts_ns (acc s) + (ts_ns (snd m) - ts_ns (fst m))"
  by (cases m) (simp add: acc_charge)

lemma acc_normal_charge:
  "ts_normal (acc s) \<Longrightarrow> ts_normal (fst m) \<Longrightarrow> ts_normal (snd m) \<Longrightarrow> ts_normal (acc (charge m s))"
  by (cases m) (simp add: acc_charge orion_inv)

lemma acc_fold_charge:
  "ts_ns (acc (fold charge ms s)) = ts_ns (acc s) + (\<Sum>m\<leftarrow>ms. ts_ns (snd m) - ts_ns (fst m))"
  by (induction ms arbitrary: s) (simp_all add: acc_ns_charge)

lemma acc_fold_normal:
  assumes "ts_normal (acc s)" and "\<And>m. m \<in> set ms \<Longrightarrow> ts_normal (fst m) \<and> ts_normal (snd m)"
  shows "ts_normal (acc (fold charge ms s))"
  using assms by (induction ms arbitrary: s) (simp_all add: acc_normal_charge)

text \<open>
  The whole contract of an account: it stays normal, and from a reset account it is exactly the
  sum of the measured waits.
\<close>

lemma acc_exact:
  assumes "acc s = ts_zero" and "\<And>m. m \<in> set ms \<Longrightarrow> ts_normal (fst m) \<and> ts_normal (snd m)"
  shows "ts_normal (acc (fold charge ms s)) \<and>
    ts_ns (acc (fold charge ms s)) = (\<Sum>m\<leftarrow>ms. ts_ns (snd m) - ts_ns (fst m))"
  using acc_fold_normal [of s ms] assms by (simp add: acc_fold_charge)

end

end
