(* ===== verification/Orion_Sem.thy ===== *)
theory Orion_Sem
  imports Orion_Clock
begin

section \<open>The broker's semaphores: common/sem.cpp\<close>

text \<open>
  The four process-wide semaphores of \<^verbatim>\<open>common/sem.cpp\<close> (\<^verbatim>\<open>reqSem\<close> for requests to
  the database, \<^verbatim>\<open>transSem\<close> for the transaction identifier, \<^verbatim>\<open>cacheSem\<close> for the
  subscription cache, \<^verbatim>\<open>timeStatSem\<close> for timing statistics), the request policy and the
  accumulated waiting times. A semaphore is its value; \<^verbatim>\<open>sem_wait\<close> on the value 0 blocks
  the caller, which is the result \<open>Blocks\<close>. The two readings of
  \<^verbatim>\<open>clock_gettime\<close> around the wait are an input of the operation.

  The interface \<open>binary_lock\<close> says what a client of a semaphore relies on; its lemma is mutual
  exclusion in every interleaving of takes and gives (\<open>lock_reach\<close>).
\<close>

datatype SemOpType = SemReadOp | SemWriteOp | SemReadWriteOp | SemNoneOp

datatype 'a wait = Blocks | Returns 'a

record sems =
  reqSem :: nat
  transSem :: nat
  cacheSem :: nat
  timeStatSem :: nat
  reqPolicy :: SemOpType
  semWaitStatistics :: bool
  accReqSemTime :: timespec
  accTransSemTime :: timespec
  accCacheSemTime :: timespec
  accTimeStatSemTime :: timespec

text \<open>
  \<^verbatim>\<open>semInit\<close>: the argument \<open>init_ok\<close> says for each of the four calls of
  \<^verbatim>\<open>sem_init\<close>, in their order, whether it succeeds.
\<close>

definition semInit :: "(nat \<Rightarrow> bool) \<Rightarrow> SemOpType \<Rightarrow> bool \<Rightarrow> nat \<Rightarrow> sems \<Rightarrow> int \<times> sems" where
  "semInit init_ok policy semTimeStat takenInitially s =
     (if \<not> init_ok 0 then (- 1, s)
      else let s = s\<lparr>reqSem := takenInitially\<rparr>
      in if \<not> init_ok 1 then (- 1, s)
      else let s = s\<lparr>transSem := takenInitially\<rparr>
      in if \<not> init_ok 2 then (- 1, s)
      else let s = s\<lparr>cacheSem := takenInitially\<rparr>
      in if \<not> init_ok 3 then (- 1, s)
      else let s = s\<lparr>timeStatSem := takenInitially\<rparr>
      in (0, s\<lparr>reqPolicy := policy, semWaitStatistics := semTimeStat\<rparr>))"

definition reqSemTryToTake :: "sems \<Rightarrow> int \<times> sems" where
  "reqSemTryToTake s = (if reqSem s = 0 then (- 1, s) else (0, s\<lparr>reqSem := reqSem s - 1\<rparr>))"

definition charge_req :: "timespec \<times> timespec \<Rightarrow> sems \<Rightarrow> sems" where
  "charge_req m s = s\<lparr>accReqSemTime := clock_addtime (accReqSemTime s) (clock_difftime (snd m) (fst m))\<rparr>"

definition charge_trans :: "timespec \<times> timespec \<Rightarrow> sems \<Rightarrow> sems" where
  "charge_trans m s = s\<lparr>accTransSemTime := clock_addtime (accTransSemTime s) (clock_difftime (snd m) (fst m))\<rparr>"

definition charge_cache :: "timespec \<times> timespec \<Rightarrow> sems \<Rightarrow> sems" where
  "charge_cache m s = s\<lparr>accCacheSemTime := clock_addtime (accCacheSemTime s) (clock_difftime (snd m) (fst m))\<rparr>"

definition charge_timeStat :: "timespec \<times> timespec \<Rightarrow> sems \<Rightarrow> sems" where
  "charge_timeStat m s =
     s\<lparr>accTimeStatSemTime := clock_addtime (accTimeStatSemTime s) (clock_difftime (snd m) (fst m))\<rparr>"

text \<open>\<^verbatim>\<open>reqSemTake\<close> returns the result code, the out-parameter \<^verbatim>\<open>*taken\<close> and the state.\<close>

definition reqSemTake ::
    "SemOpType \<Rightarrow> timespec \<times> timespec \<Rightarrow> sems \<Rightarrow> (int \<times> bool \<times> sems) wait" where
  "reqSemTake reqType clocks s =
     (if reqPolicy s = SemNoneOp then Returns (- 1, False, s)
      else if reqPolicy s = SemWriteOp \<and> reqType = SemReadOp then Returns (- 1, False, s)
      else if reqPolicy s = SemReadOp \<and> reqType = SemWriteOp then Returns (- 1, False, s)
      else if reqSem s = 0 then Blocks
      else let s = s\<lparr>reqSem := reqSem s - 1\<rparr>
      in Returns (0, True, if semWaitStatistics s then charge_req clocks s else s))"

definition transSemTake :: "timespec \<times> timespec \<Rightarrow> sems \<Rightarrow> (int \<times> sems) wait" where
  "transSemTake clocks s =
     (if transSem s = 0 then Blocks
      else let s = s\<lparr>transSem := transSem s - 1\<rparr>
      in Returns (0, if semWaitStatistics s then charge_trans clocks s else s))"

definition cacheSemTake :: "timespec \<times> timespec \<Rightarrow> sems \<Rightarrow> (int \<times> sems) wait" where
  "cacheSemTake clocks s =
     (if cacheSem s = 0 then Blocks
      else let s = s\<lparr>cacheSem := cacheSem s - 1\<rparr>
      in Returns (0, if semWaitStatistics s then charge_cache clocks s else s))"

definition timeStatSemTake :: "timespec \<times> timespec \<Rightarrow> sems \<Rightarrow> (int \<times> sems) wait" where
  "timeStatSemTake clocks s =
     (if timeStatSem s = 0 then Blocks
      else let s = s\<lparr>timeStatSem := timeStatSem s - 1\<rparr>
      in Returns (0, if semWaitStatistics s then charge_timeStat clocks s else s))"

definition reqSemGive :: "bool \<Rightarrow> sems \<Rightarrow> int \<times> sems" where
  "reqSemGive semTaken s = (if semTaken = False then (0, s) else (0, s\<lparr>reqSem := reqSem s + 1\<rparr>))"

definition transSemGive :: "sems \<Rightarrow> int \<times> sems" where
  "transSemGive s = (0, s\<lparr>transSem := transSem s + 1\<rparr>)"

definition cacheSemGive :: "sems \<Rightarrow> int \<times> sems" where
  "cacheSemGive s = (0, s\<lparr>cacheSem := cacheSem s + 1\<rparr>)"

definition timeStatSemGive :: "sems \<Rightarrow> int \<times> sems" where
  "timeStatSemGive s = (0, s\<lparr>timeStatSem := timeStatSem s + 1\<rparr>)"

definition semTimeReqReset :: "sems \<Rightarrow> sems" where
  "semTimeReqReset s = s\<lparr>accReqSemTime := ts_zero\<rparr>"

definition semTimeTransReset :: "sems \<Rightarrow> sems" where
  "semTimeTransReset s = s\<lparr>accTransSemTime := ts_zero\<rparr>"

definition semTimeCacheReset :: "sems \<Rightarrow> sems" where
  "semTimeCacheReset s = s\<lparr>accCacheSemTime := ts_zero\<rparr>"

definition semTimeTimeStatReset :: "sems \<Rightarrow> sems" where
  "semTimeTimeStatReset s = s\<lparr>accTimeStatSemTime := ts_zero\<rparr>"

lemmas sem_defs [orion_step] =
  reqSemTake_def transSemTake_def cacheSemTake_def timeStatSemTake_def
  reqSemGive_def transSemGive_def cacheSemGive_def timeStatSemGive_def
  charge_req_def charge_trans_def charge_cache_def charge_timeStat_def

subsection \<open>Interleavings of takes and gives\<close>

text \<open>
  Threads are numbered. A configuration is the state and the set of threads between their take
  and their give. \<open>take\<close> has the clock readings (or any other input) as its first argument.
\<close>

inductive lock_reach ::
    "('i \<Rightarrow> 's \<Rightarrow> 's wait) \<Rightarrow> ('s \<Rightarrow> 's) \<Rightarrow> 's \<Rightarrow> 's \<Rightarrow> nat set \<Rightarrow> bool"
  for tk :: "'i \<Rightarrow> 's \<Rightarrow> 's wait" and gv :: "'s \<Rightarrow> 's" and s0 :: 's where
  start: "lock_reach tk gv s0 s0 {}"
| acquire: "lock_reach tk gv s0 s H \<Longrightarrow> t \<notin> H \<Longrightarrow> tk i s = Returns s' \<Longrightarrow>
    lock_reach tk gv s0 s' (insert t H)"
| release: "lock_reach tk gv s0 s H \<Longrightarrow> t \<in> H \<Longrightarrow> lock_reach tk gv s0 (gv s) (H - {t})"

locale binary_lock =
  fixes sem_value :: "'s \<Rightarrow> nat"
    and usable :: "'s \<Rightarrow> bool"
    and tk :: "'i \<Rightarrow> 's \<Rightarrow> 's wait"
    and gv :: "'s \<Rightarrow> 's"
  assumes take_blocks: "usable s \<Longrightarrow> tk i s = Blocks \<longleftrightarrow> sem_value s = 0"
    and take_value: "usable s \<Longrightarrow> tk i s = Returns s' \<Longrightarrow> sem_value s = Suc (sem_value s') \<and> usable s'"
    and give_value: "usable s \<Longrightarrow> sem_value (gv s) = Suc (sem_value s) \<and> usable (gv s)"
begin

lemma holders_and_value:
  assumes "lock_reach tk gv s0 s H" and "usable s0"
  shows "finite H \<and> usable s \<and> sem_value s + card H = sem_value s0"
  using assms
proof (induction rule: lock_reach.induct)
  case (acquire s H t i s')
  then show ?case using take_value [of s i s'] by simp
next
  case (release s H t)
  then have IH: "finite H" "usable s" "sem_value s + card H = sem_value s0" by auto
  have "Suc (card (H - {t})) = card H"
    using IH(1) release.hyps(2) by (rule card_Suc_Diff1)
  then have "sem_value (gv s) + card (H - {t}) = sem_value s0"
    using give_value [OF IH(2)] IH(3) by linarith
  then show ?case using IH(1) give_value [OF IH(2)] by blast
qed simp

lemma exclusion:
  assumes "sem_value s0 = 1" and "usable s0" and "lock_reach tk gv s0 s H" and "t \<in> H" and "u \<in> H"
  shows "t = u"
proof -
  from holders_and_value [OF assms(3,2)] assms(1) have "finite H" and "card H \<le> 1" by auto
  then show ?thesis using assms(4,5) card_le_Suc0_iff_eq by auto
qed

text \<open>No give is lost: with no holder, a thread that wants the lock is not blocked.\<close>

lemma free_when_unheld:
  assumes "sem_value s0 = 1" and "usable s0" and "lock_reach tk gv s0 s {}"
  shows "\<exists>s'. tk i s = Returns s'"
proof -
  from holders_and_value [OF assms(3,2)] assms(1) have "usable s" and "sem_value s \<noteq> 0" by auto
  then show ?thesis using take_blocks [of s i] by (cases "tk i s") auto
qed

end

text \<open>The takes and gives with their result codes dropped, as the interface has them.\<close>

fun wait_map :: "('a \<Rightarrow> 'b) \<Rightarrow> 'a wait \<Rightarrow> 'b wait" where
  "wait_map f Blocks = Blocks"
| "wait_map f (Returns r) = Returns (f r)"

abbreviation req_take :: "SemOpType \<times> timespec \<times> timespec \<Rightarrow> sems \<Rightarrow> sems wait" where
  "req_take i s \<equiv> wait_map (\<lambda>(r, taken, s'). s') (reqSemTake (fst i) (snd i) s)"

abbreviation trans_take :: "timespec \<times> timespec \<Rightarrow> sems \<Rightarrow> sems wait" where
  "trans_take i s \<equiv> wait_map snd (transSemTake i s)"

abbreviation cache_take :: "timespec \<times> timespec \<Rightarrow> sems \<Rightarrow> sems wait" where
  "cache_take i s \<equiv> wait_map snd (cacheSemTake i s)"

abbreviation timeStat_take :: "timespec \<times> timespec \<Rightarrow> sems \<Rightarrow> sems wait" where
  "timeStat_take i s \<equiv> wait_map snd (timeStatSemTake i s)"

text \<open>
  The request semaphore excludes only under the policy that covers every operation; the other
  three always do.
\<close>

interpretation req_lock: binary_lock reqSem "\<lambda>s. reqPolicy s = SemReadWriteOp"
    req_take "\<lambda>s. snd (reqSemGive True s)"
  by unfold_locales (auto simp: sem_defs Let_def split: if_splits)

interpretation trans_lock: binary_lock transSem "\<lambda>s. True" trans_take "\<lambda>s. snd (transSemGive s)"
  by unfold_locales (auto simp: sem_defs Let_def split: if_splits)

interpretation cache_lock: binary_lock cacheSem "\<lambda>s. True" cache_take "\<lambda>s. snd (cacheSemGive s)"
  by unfold_locales (auto simp: sem_defs Let_def split: if_splits)

interpretation timeStat_lock: binary_lock timeStatSem "\<lambda>s. True" timeStat_take
    "\<lambda>s. snd (timeStatSemGive s)"
  by unfold_locales (auto simp: sem_defs Let_def split: if_splits)

interpretation req_wait: wait_account accReqSemTime charge_req
  by unfold_locales (simp add: charge_req_def)

interpretation trans_wait: wait_account accTransSemTime charge_trans
  by unfold_locales (simp add: charge_trans_def)

interpretation cache_wait: wait_account accCacheSemTime charge_cache
  by unfold_locales (simp add: charge_cache_def)

interpretation timeStat_wait: wait_account accTimeStatSemTime charge_timeStat
  by unfold_locales (simp add: charge_timeStat_def)

subsection \<open>Properties of the semaphores\<close>


definition sems_demo :: sems where
  "sems_demo = \<lparr>reqSem = 1, transSem = 1, cacheSem = 1, timeStatSem = 1, reqPolicy = SemReadWriteOp,
     semWaitStatistics = False, accReqSemTime = ts_zero, accTransSemTime = ts_zero,
     accCacheSemTime = ts_zero, accTimeStatSemTime = ts_zero\<rparr>"

lemma cacheSem_demo_run:
  "lock_reach cache_take (\<lambda>s. snd (cacheSemGive s)) sems_demo (sems_demo\<lparr>cacheSem := 0\<rparr>) {7}"
  by (rule lock_reach.acquire [OF lock_reach.start, where i = "(ts_zero, ts_zero)"])
     (simp_all add: sems_demo_def sem_defs)


text \<open>Which operations a policy covers, as the names of the policies say.\<close>

definition policy_covers :: "SemOpType \<Rightarrow> SemOpType \<Rightarrow> bool" where
  "policy_covers policy reqType =
     (case policy of
        SemReadWriteOp \<Rightarrow> True
      | SemNoneOp \<Rightarrow> False
      | SemReadOp \<Rightarrow> reqType \<noteq> SemWriteOp
      | SemWriteOp \<Rightarrow> reqType \<noteq> SemReadOp)"

text \<open>\<^verbatim>\<open>reqSemTake\<close> takes the request semaphore exactly when the policy covers the
  operation (read-write covers both, write and read cover their own kind, none covers nothing); when
  it does not, the call returns at once with \<^verbatim>\<open>-1\<close>, reports not taken and changes nothing.
  It blocks only when the policy covers the operation and the semaphore is 0, and the matching
  \<^verbatim>\<open>reqSemGive\<close>, given the reported flag, restores the semaphore in every case.\<close>

theorem reqSem_policy:
  "(case reqSemTake reqType clocks s of
      Blocks \<Rightarrow> policy_covers (reqPolicy s) reqType \<and> reqSem s = 0
    | Returns (r, taken, s') \<Rightarrow>
        taken = policy_covers (reqPolicy s) reqType
        \<and> (if taken then r = 0 \<and> reqSem s = Suc (reqSem s') else r = - 1 \<and> s' = s)
        \<and> reqSem (snd (reqSemGive taken s')) = reqSem s)"
  by (cases "reqPolicy s"; cases reqType) (simp_all add: sem_defs policy_covers_def Let_def)

text \<open>Rounds of the request semaphore: each takes it, charging its clock readings, and gives it back.\<close>

fun req_rounds :: "(SemOpType \<times> timespec \<times> timespec) list \<Rightarrow> sems \<Rightarrow> sems wait" where
  "req_rounds [] s = Returns s"
| "req_rounds ((reqType, clocks) # rs) s =
     (case reqSemTake reqType clocks s of
        Blocks \<Rightarrow> Blocks
      | Returns (r, taken, s') \<Rightarrow> req_rounds rs (snd (reqSemGive taken s')))"

lemma charge_req_frame [simp]:
  "reqPolicy (charge_req m s) = reqPolicy s" "reqSem (charge_req m s) = reqSem s"
  "semWaitStatistics (charge_req m s) = semWaitStatistics s"
  by (simp_all add: charge_req_def)

lemma req_rounds_charge:
  assumes "reqPolicy s = SemReadWriteOp" and "semWaitStatistics s" and "reqSem s > 0"
  shows "req_rounds rs s = Returns (fold charge_req (map snd rs) s)"
  using assms
proof (induction rs arbitrary: s)
  case (Cons r rs)
  have "snd (reqSemGive True (charge_req (snd r) (s\<lparr>reqSem := reqSem s - 1\<rparr>))) = charge_req (snd r) s"
    using Cons.prems(3) by (simp add: sem_defs)
  then show ?case using Cons.prems Cons.IH [of "charge_req (snd r) s"]
    by (cases r) (simp add: reqSemTake_def Let_def)
qed simp

text \<open>With waiting statistics on and the read-write policy, any number of rounds of the
  request semaphore return, and the accumulated waiting time since \<^verbatim>\<open>semTimeReqReset\<close> is
  exactly the sum of the measured waits, in normal form (nanoseconds below one second).\<close>

theorem reqSem_wait_time_exact:
  assumes "reqPolicy s = SemReadWriteOp" and "semWaitStatistics s" and "reqSem s = 1"
    and "\<forall>m \<in> set rs. ts_normal (fst (snd m)) \<and> ts_normal (snd (snd m))"
  shows "\<exists>s'. req_rounds rs (semTimeReqReset s) = Returns s' \<and> ts_normal (accReqSemTime s') \<and>
    ts_ns (accReqSemTime s') = (\<Sum>m\<leftarrow>map snd rs. ts_ns (snd m) - ts_ns (fst m))"
proof -
  have "req_rounds rs (semTimeReqReset s) = Returns (fold charge_req (map snd rs) (semTimeReqReset s))"
    by (rule req_rounds_charge) (simp_all add: assms semTimeReqReset_def)
  moreover have "\<And>m. m \<in> set (map snd rs) \<Longrightarrow> ts_normal (fst m) \<and> ts_normal (snd m)"
    using assms(4) by auto
  ultimately show ?thesis
    using req_wait.acc_exact [of "semTimeReqReset s" "map snd rs"] by (simp add: semTimeReqReset_def)
qed

theorem reqSem_wait_time_exact_witness:
  "\<exists>s'. req_rounds
      [(SemReadOp, \<lparr>tv_sec = 1, tv_nsec = 900000000\<rparr>, \<lparr>tv_sec = 3, tv_nsec = 100000000\<rparr>),
       (SemWriteOp, \<lparr>tv_sec = 5, tv_nsec = 0\<rparr>, \<lparr>tv_sec = 5, tv_nsec = 900000000\<rparr>)]
      (semTimeReqReset (sems_demo\<lparr>semWaitStatistics := True\<rparr>)) = Returns s'
    \<and> accReqSemTime s' = \<lparr>tv_sec = 2, tv_nsec = 100000000\<rparr>"
proof -
  let ?rs = "[(SemReadOp, \<lparr>tv_sec = 1, tv_nsec = 900000000\<rparr>, \<lparr>tv_sec = 3, tv_nsec = 100000000\<rparr>),
       (SemWriteOp, \<lparr>tv_sec = 5, tv_nsec = 0\<rparr>, \<lparr>tv_sec = 5, tv_nsec = 900000000\<rparr>)]
       :: (SemOpType \<times> timespec \<times> timespec) list"
  let ?s = "sems_demo\<lparr>semWaitStatistics := True\<rparr>"
  have "\<forall>m \<in> set ?rs. ts_normal (fst (snd m)) \<and> ts_normal (snd (snd m))"
    by (simp add: ts_normal_def)
  then obtain s' where s': "req_rounds ?rs (semTimeReqReset ?s) = Returns s'"
      "ts_normal (accReqSemTime s')"
      "ts_ns (accReqSemTime s') = (\<Sum>m\<leftarrow>map snd ?rs. ts_ns (snd m) - ts_ns (fst m))"
    using reqSem_wait_time_exact [of ?s ?rs] by (auto simp: sems_demo_def)
  then have "accReqSemTime s' = \<lparr>tv_sec = 2, tv_nsec = 100000000\<rparr>"
    by (intro ts_normal_unique) (simp_all add: ts_normal_def ts_ns_def)
  with s'(1) show ?thesis by blast
qed

end
