(* ===== verification/Orion_Alarm.thy ===== *)
theory Orion_Alarm
  imports Orion_Prelude "HOL-Library.AList"
begin

section \<open>The alarm manager: alarmMgr/AlarmManager.cpp\<close>

text \<open>
  The object \<^verbatim>\<open>alarmMgr\<close> of class \<^verbatim>\<open>AlarmManager\<close>: the database alarm, the
  notification alarms (one per URL) and the bad-input alarms (one per client address), each with
  counters of raised and released alarms. The counters are \<^verbatim>\<open>long long\<close> and kept at 64 bits;
  the per-key counters of the two tables are \<^verbatim>\<open>int\<close>. The \<^verbatim>\<open>std::map\<close>s are
  association lists with distinct keys (\<open>alarm_wf\<close>); their order is never observed. The
  log lines are part of the state, since three flags of the object only steer them. The
  thread-local \<^verbatim>\<open>badInputSeen\<close> is an argument and a result of \<open>badInput\<close>.

  The interface \<open>alarm_table\<close> is the contract the comments of the file give (\<^emph>\<open>returns false if
  no effective alarm transition occurs\<close>); the lemmas of the interface are proved once and hold
  for the three kinds of alarm through three interpretations.
\<close>

type_synonym counts = "(string \<times> 32 word) list"

datatype log_level = LM_E | LM_W

record AlarmManager =
  badInputs :: "64 word"
  badInputResets :: "64 word"
  notificationErrors :: "64 word"
  notificationErrorResets :: "64 word"
  dbErrors :: "64 word"
  dbErrorResets :: "64 word"
  dbOk :: bool
  notificationV :: counts
  badInputV :: counts
  notificationErrorLogAlways :: bool
  badInputLogAlways :: bool
  dbErrorLogAlways :: bool
  log_out :: "(log_level \<times> string) list"

definition log_line :: "log_level \<Rightarrow> string \<Rightarrow> AlarmManager \<Rightarrow> AlarmManager" where
  "log_line l msg am = am\<lparr>log_out := log_out am @ [(l, msg)]\<rparr>"

definition AlarmManager_new :: AlarmManager where
  "AlarmManager_new = \<lparr>badInputs = 0, badInputResets = 0, notificationErrors = 0,
     notificationErrorResets = 0, dbErrors = 0, dbErrorResets = 0, dbOk = True,
     notificationV = [], badInputV = [], notificationErrorLogAlways = False,
     badInputLogAlways = False, dbErrorLogAlways = False, log_out = []\<rparr>"

text \<open>\<^verbatim>\<open>init\<close>: \<open>sem_ok\<close> says whether \<^verbatim>\<open>sem_init\<close> succeeds.\<close>

definition alarm_init :: "bool \<Rightarrow> bool \<Rightarrow> AlarmManager \<Rightarrow> int \<times> AlarmManager" where
  "alarm_init sem_ok logAlreadyRaisedAlarms am =
     (let am = am\<lparr>notificationErrorLogAlways := logAlreadyRaisedAlarms,
                  badInputLogAlways := logAlreadyRaisedAlarms,
                  dbErrorLogAlways := logAlreadyRaisedAlarms\<rparr>
      in if sem_ok then (0, am)
         else (- 1, log_line LM_E ''Runtime Error (error initializing 'alarm mgr' semaphore)'' am))"

definition notificationErrorLogAlwaysSet :: "bool \<Rightarrow> AlarmManager \<Rightarrow> AlarmManager" where
  "notificationErrorLogAlwaysSet b am = am\<lparr>notificationErrorLogAlways := b\<rparr>"

definition badInputLogAlwaysSet :: "bool \<Rightarrow> AlarmManager \<Rightarrow> AlarmManager" where
  "badInputLogAlwaysSet b am = am\<lparr>badInputLogAlways := b\<rparr>"

definition dbErrorLogAlwaysSet :: "bool \<Rightarrow> AlarmManager \<Rightarrow> AlarmManager" where
  "dbErrorLogAlwaysSet b am = am\<lparr>dbErrorLogAlways := b\<rparr>"

text \<open>
  \<^verbatim>\<open>dbError\<close> and \<^verbatim>\<open>dbErrorReset\<close> test \<^verbatim>\<open>dbOk\<close> before they take the
  semaphore. The part under the semaphore and the log line after it have names of their own, so
  that the interleavings of two calls can be stated below.
\<close>

definition dbError_commit :: "string \<Rightarrow> AlarmManager \<Rightarrow> AlarmManager" where
  "dbError_commit details am =
     log_line LM_E (''Raising alarm DatabaseError: '' @ c_str details)
       (am\<lparr>dbErrors := dbErrors am + 1, dbOk := False\<rparr>)"

definition dbError :: "string \<Rightarrow> AlarmManager \<Rightarrow> bool \<times> AlarmManager" where
  "dbError details am =
     (if dbOk am = False
      then (False, if dbErrorLogAlways am
                   then log_line LM_E (''Repeated Database Error: '' @ c_str details) am else am)
      else (True, dbError_commit details am))"

definition dbErrorReset_commit :: "AlarmManager \<Rightarrow> AlarmManager" where
  "dbErrorReset_commit am =
     log_line LM_E ''Releasing alarm DatabaseError''
       (am\<lparr>dbErrorResets := dbErrorResets am + 1, dbOk := True\<rparr>)"

definition dbErrorReset :: "AlarmManager \<Rightarrow> bool \<times> AlarmManager" where
  "dbErrorReset am = (if dbOk am = True then (False, am) else (True, dbErrorReset_commit am))"

definition dbErrorsGet :: "AlarmManager \<Rightarrow> bool \<times> 64 word \<times> 64 word" where
  "dbErrorsGet am = (if dbOk am = False then True else False, dbErrors am, dbErrorResets am)"

definition notificationErrorGet :: "AlarmManager \<Rightarrow> 64 word \<times> 64 word \<times> 64 word" where
  "notificationErrorGet am =
     (of_nat (length (notificationV am)), notificationErrors am, notificationErrorResets am)"

definition badInputGet :: "AlarmManager \<Rightarrow> 64 word \<times> 64 word \<times> 64 word" where
  "badInputGet am = (of_nat (length (badInputV am)), badInputs am, badInputResets am)"

definition notificationError :: "string \<Rightarrow> string \<Rightarrow> AlarmManager \<Rightarrow> bool \<times> AlarmManager" where
  "notificationError url details am =
     (case map_of (notificationV am) url of
        Some n \<Rightarrow>
          let am = am\<lparr>notificationV := AList.update url (n + 1) (notificationV am)\<rparr>
          in (False, if notificationErrorLogAlways am
                     then log_line LM_W (''Repeated NotificationError '' @ c_str url @ '': '' @ c_str details) am
                     else am)
      | None \<Rightarrow>
          (True, log_line LM_W (''Raising alarm NotificationError '' @ c_str url @ '': '' @ c_str details)
             (am\<lparr>notificationErrors := notificationErrors am + 1,
                 notificationV := AList.update url 1 (notificationV am)\<rparr>)))"

definition notificationErrorReset :: "string \<Rightarrow> AlarmManager \<Rightarrow> bool \<times> AlarmManager" where
  "notificationErrorReset url am =
     (if map_of (notificationV am) url = None then (False, am)
      else (True, log_line LM_W (''Releasing alarm NotificationError '' @ c_str url)
             (am\<lparr>notificationV := AList.delete url (notificationV am),
                 notificationErrorResets := notificationErrorResets am + 1\<rparr>)))"

text \<open>\<^verbatim>\<open>badInput\<close> returns its result, the new \<^verbatim>\<open>badInputSeen\<close> of the thread and the object.\<close>

definition badInput ::
    "string \<Rightarrow> string \<Rightarrow> bool \<Rightarrow> AlarmManager \<Rightarrow> bool \<times> bool \<times> AlarmManager" where
  "badInput ip details badInputSeen am =
     (if badInputSeen = True then (False, badInputSeen, am)
      else case map_of (badInputV am) ip of
        Some n \<Rightarrow>
          let am = am\<lparr>badInputV := AList.update ip (n + 1) (badInputV am)\<rparr>
          in (False, True, if badInputLogAlways am
                     then log_line LM_W (''Repeated BadInput '' @ c_str ip @ '': '' @ c_str details) am
                     else am)
      | None \<Rightarrow>
          (True, True, log_line LM_W (''Raising alarm BadInput '' @ c_str ip @ '': '' @ c_str details)
             (am\<lparr>badInputs := badInputs am + 1,
                 badInputV := AList.update ip 1 (badInputV am)\<rparr>)))"

definition badInputReset :: "string \<Rightarrow> AlarmManager \<Rightarrow> bool \<times> AlarmManager" where
  "badInputReset ip am =
     (if map_of (badInputV am) ip = None then (False, am)
      else (True, log_line LM_W (''Releasing alarm BadInput '' @ c_str ip)
             (am\<lparr>badInputV := AList.delete ip (badInputV am),
                 badInputResets := badInputResets am + 1\<rparr>)))"

definition alarm_wf :: "AlarmManager \<Rightarrow> bool" where
  "alarm_wf am \<longleftrightarrow> distinct (map fst (notificationV am)) \<and> distinct (map fst (badInputV am))"

lemmas alarm_defs [orion_step] =
  dbError_def dbError_commit_def dbErrorReset_def dbErrorReset_commit_def
  notificationError_def notificationErrorReset_def badInput_def badInputReset_def log_line_def

subsection \<open>The interface of a table of alarms\<close>

text \<open>Events on the alarms of one table, and the run of a list of them with the results of the calls.\<close>

datatype 'k alarm_event = Raise 'k string | Release 'k

fun alarm_run ::
    "('k \<Rightarrow> string \<Rightarrow> 's \<Rightarrow> bool \<times> 's) \<Rightarrow> ('k \<Rightarrow> 's \<Rightarrow> bool \<times> 's) \<Rightarrow>
     'k alarm_event list \<Rightarrow> 's \<Rightarrow> bool list \<times> 's" where
  "alarm_run rse rst [] s = ([], s)"
| "alarm_run rse rst (ev # evs) s =
     (let (b, s1) = (case ev of Raise k d \<Rightarrow> rse k d s | Release k \<Rightarrow> rst k s);
          (bs, s2) = alarm_run rse rst evs s1
      in (b # bs, s2))"

text \<open>
  The effective transitions of one key in a run (\<open>True\<close> for a raise, \<open>False\<close> for a
  release), and the lists in which raises and releases alternate, the first one a raise exactly
  when the alarm is not active at the start.
\<close>

fun transitions :: "'k \<Rightarrow> 'k alarm_event list \<Rightarrow> bool list \<Rightarrow> bool list" where
  "transitions k (Raise k' d # evs) (b # bs) = (if b \<and> k' = k then True # transitions k evs bs else transitions k evs bs)"
| "transitions k (Release k' # evs) (b # bs) = (if b \<and> k' = k then False # transitions k evs bs else transitions k evs bs)"
| "transitions k _ _ = []"

fun alternates :: "bool \<Rightarrow> bool list \<Rightarrow> bool" where
  "alternates active [] = True"
| "alternates active (b # bs) = (b = (\<not> active) \<and> alternates b bs)"

locale alarm_table =
  fixes wf :: "'s \<Rightarrow> bool"
    and active :: "'s \<Rightarrow> 'k set"
    and raised :: "'s \<Rightarrow> 64 word"
    and released :: "'s \<Rightarrow> 64 word"
    and rse :: "'k \<Rightarrow> string \<Rightarrow> 's \<Rightarrow> bool \<times> 's"
    and rst :: "'k \<Rightarrow> 's \<Rightarrow> bool \<times> 's"
  assumes active_finite: "wf s \<Longrightarrow> finite (active s)"
    and raise_law: "wf s \<Longrightarrow> rse k d s = (b, s') \<Longrightarrow>
        wf s' \<and> b = (k \<notin> active s) \<and> active s' = insert k (active s)
        \<and> raised s' = raised s + (if b then 1 else 0) \<and> released s' = released s"
    and reset_law: "wf s \<Longrightarrow> rst k s = (b, s') \<Longrightarrow>
        wf s' \<and> b = (k \<in> active s) \<and> active s' = active s - {k}
        \<and> released s' = released s + (if b then 1 else 0) \<and> raised s' = raised s"
begin

lemma balance_raise:
  assumes "wf s" and "raised s = released s + of_nat (card (active s))" and "rse k d s = (b, s')"
  shows "raised s' = released s' + of_nat (card (active s'))"
  using assms raise_law [OF assms(1,3)] active_finite [OF assms(1)]
  by (auto simp: card_insert_if algebra_simps)

lemma balance_reset:
  assumes "wf s" and "raised s = released s + of_nat (card (active s))" and "rst k s = (b, s')"
  shows "raised s' = released s' + of_nat (card (active s'))"
proof (cases "k \<in> active s")
  case True
  note law = reset_law [OF assms(1,3)]
  have "Suc (card (active s')) = card (active s)"
    using card_Suc_Diff1 [OF active_finite [OF assms(1)] True] law by simp
  then have "raised s = released s + 1 + of_nat (card (active s'))"
    using assms(2) by (metis add.assoc of_nat_Suc)
  then show ?thesis using law True by simp
next
  case False
  with assms(2) reset_law [OF assms(1,3)] show ?thesis by simp
qed

lemma step_invariant:
  assumes "wf s" and "raised s = released s + of_nat (card (active s))"
    and "(case ev of Raise k d \<Rightarrow> rse k d s | Release k \<Rightarrow> rst k s) = (b, s')"
  shows "wf s' \<and> raised s' = released s' + of_nat (card (active s'))"
proof (cases ev)
  case (Raise k d)
  with assms(3) have "rse k d s = (b, s')" by simp
  then show ?thesis using raise_law balance_raise assms(1,2) by blast
next
  case (Release k)
  with assms(3) have "rst k s = (b, s')" by simp
  then show ?thesis using reset_law balance_reset assms(1,2) by blast
qed

lemma run_invariant:
  assumes "wf s" and "raised s = released s + of_nat (card (active s))"
    and "alarm_run rse rst evs s = (bs, s')"
  shows "wf s' \<and> raised s' = released s' + of_nat (card (active s'))"
  using assms
proof (induction evs arbitrary: s bs)
  case (Cons ev evs)
  obtain b s1 bs1 where
    one: "(case ev of Raise k d \<Rightarrow> rse k d s | Release k \<Rightarrow> rst k s) = (b, s1)" and
    rest: "alarm_run rse rst evs s1 = (bs1, s')"
    using Cons.prems(3) by (auto simp: Let_def split: prod.splits)
  have "wf s1 \<and> raised s1 = released s1 + of_nat (card (active s1))"
    using one step_invariant [OF Cons.prems(1,2)] by blast
  then show ?case using Cons.IH rest by blast
qed simp

lemma run_alternates:
  assumes "wf s" and "alarm_run rse rst evs s = (bs, s')"
  shows "alternates (k \<in> active s) (transitions k evs bs)"
  using assms
proof (induction evs arbitrary: s bs)
  case (Cons ev evs)
  show ?case
  proof (cases ev)
    case (Raise k' d)
    then obtain b s1 bs1 where *: "rse k' d s = (b, s1)" "alarm_run rse rst evs s1 = (bs1, s')" "bs = b # bs1"
      using Cons.prems(2) by (auto simp: Let_def split: prod.splits)
    note law = raise_law [OF Cons.prems(1) *(1)]
    then have IH: "alternates (k \<in> active s1) (transitions k evs bs1)"
      using Cons.IH *(2) by blast
    have "k \<in> active s1 \<longleftrightarrow> k = k' \<or> k \<in> active s" and "b \<longleftrightarrow> k' \<notin> active s"
      using law by blast+
    with IH show ?thesis unfolding Raise *(3) by (cases "k = k'") simp_all
  next
    case (Release k')
    then obtain b s1 bs1 where *: "rst k' s = (b, s1)" "alarm_run rse rst evs s1 = (bs1, s')" "bs = b # bs1"
      using Cons.prems(2) by (auto simp: Let_def split: prod.splits)
    note law = reset_law [OF Cons.prems(1) *(1)]
    then have IH: "alternates (k \<in> active s1) (transitions k evs bs1)"
      using Cons.IH *(2) by blast
    have "k \<in> active s1 \<longleftrightarrow> k \<noteq> k' \<and> k \<in> active s" and "b \<longleftrightarrow> k' \<in> active s"
      using law by blast+
    with IH show ?thesis unfolding Release *(3) by (cases "k = k'") simp_all
  qed
qed simp

end

subsection \<open>The three kinds of alarm\<close>

definition keys :: "counts \<Rightarrow> string set" where
  "keys al = fst ` set al"

lemma keys_finite [simp]: "finite (keys al)"
  by (simp add: keys_def)

lemma keys_update [simp]: "keys (AList.update k v al) = insert k (keys al)"
  by (simp add: keys_def dom_update)

lemma keys_delete [simp]: "keys (AList.delete k al) = keys al - {k}"
  unfolding keys_def by (metis delete_keys image_set set_removeAll)

lemma map_of_None_keys: "map_of al k = None \<longleftrightarrow> k \<notin> keys al"
  unfolding keys_def by (rule map_of_eq_None_iff)

lemma map_of_Some_keys: "map_of al k = Some v \<Longrightarrow> k \<in> keys al"
  by (metis map_of_None_keys option.distinct(1))

lemma card_keys: "distinct (map fst al) \<Longrightarrow> card (keys al) = length al"
  unfolding keys_def by (metis distinct_card image_set length_map)

lemmas alist_wf = alarm_wf_def distinct_update distinct_delete map_of_None_keys insert_absorb

interpretation notif: alarm_table alarm_wf "\<lambda>am. keys (notificationV am)"
    notificationErrors notificationErrorResets notificationError notificationErrorReset
proof unfold_locales
  fix am k d b am'
  assume wf: "alarm_wf am"
  show "finite (keys (notificationV am))" by simp
  show "alarm_wf am' \<and> b = (k \<notin> keys (notificationV am)) \<and>
      keys (notificationV am') = insert k (keys (notificationV am)) \<and>
      notificationErrors am' = notificationErrors am + (if b then 1 else 0) \<and>
      notificationErrorResets am' = notificationErrorResets am"
    if "notificationError k d am = (b, am')"
    using that wf map_of_Some_keys [of "notificationV am" k]
    by (auto simp: alarm_defs alist_wf Let_def split: option.splits if_splits)
  show "alarm_wf am' \<and> b = (k \<in> keys (notificationV am)) \<and>
      keys (notificationV am') = keys (notificationV am) - {k} \<and>
      notificationErrorResets am' = notificationErrorResets am + (if b then 1 else 0) \<and>
      notificationErrors am' = notificationErrors am"
    if "notificationErrorReset k am = (b, am')"
    using that wf by (auto simp: alarm_defs alist_wf split: if_splits)
qed

text \<open>A bad input seen by a thread for the first time.\<close>

definition badInput_fresh :: "string \<Rightarrow> string \<Rightarrow> AlarmManager \<Rightarrow> bool \<times> AlarmManager" where
  "badInput_fresh ip details am = (case badInput ip details False am of (b, seen, am') \<Rightarrow> (b, am'))"

interpretation badin: alarm_table alarm_wf "\<lambda>am. keys (badInputV am)"
    badInputs badInputResets badInput_fresh badInputReset
proof unfold_locales
  fix am k d b am'
  assume wf: "alarm_wf am"
  show "finite (keys (badInputV am))" by simp
  show "alarm_wf am' \<and> b = (k \<notin> keys (badInputV am)) \<and>
      keys (badInputV am') = insert k (keys (badInputV am)) \<and>
      badInputs am' = badInputs am + (if b then 1 else 0) \<and> badInputResets am' = badInputResets am"
    if "badInput_fresh k d am = (b, am')"
    using that wf map_of_Some_keys [of "badInputV am" k]
    by (auto simp: badInput_fresh_def alarm_defs alist_wf Let_def split: option.splits if_splits)
  show "alarm_wf am' \<and> b = (k \<in> keys (badInputV am)) \<and>
      keys (badInputV am') = keys (badInputV am) - {k} \<and>
      badInputResets am' = badInputResets am + (if b then 1 else 0) \<and> badInputs am' = badInputs am"
    if "badInputReset k am = (b, am')"
    using that wf by (auto simp: alarm_defs alist_wf split: if_splits)
qed

interpretation dbal: alarm_table alarm_wf "\<lambda>am. if dbOk am then {} else {()}"
    dbErrors dbErrorResets "\<lambda>u. dbError" "\<lambda>u. dbErrorReset"
  by unfold_locales (auto simp: alarm_defs alarm_wf_def split: if_splits)

subsection \<open>Sequences of calls on the whole object\<close>

text \<open>Every call that changes the object; a bad input comes with the number of the calling thread.\<close>

datatype alarm_op =
    DbError string
  | DbErrorReset
  | NotificationError string string
  | NotificationErrorReset string
  | BadInput nat string string
  | BadInputReset string
  | LogAlwaysSet bool bool bool

fun alarm_step :: "alarm_op \<Rightarrow> (nat \<Rightarrow> bool) \<times> AlarmManager \<Rightarrow> (nat \<Rightarrow> bool) \<times> AlarmManager" where
  "alarm_step (DbError d) (seen, am) = (seen, snd (dbError d am))"
| "alarm_step DbErrorReset (seen, am) = (seen, snd (dbErrorReset am))"
| "alarm_step (NotificationError url d) (seen, am) = (seen, snd (notificationError url d am))"
| "alarm_step (NotificationErrorReset url) (seen, am) = (seen, snd (notificationErrorReset url am))"
| "alarm_step (BadInput t ip d) (seen, am) =
     (case badInput ip d (seen t) am of (b, seen', am') \<Rightarrow> (seen(t := seen'), am'))"
| "alarm_step (BadInputReset ip) (seen, am) = (seen, snd (badInputReset ip am))"
| "alarm_step (LogAlwaysSet n b d) (seen, am) =
     (seen, dbErrorLogAlwaysSet d (badInputLogAlwaysSet b (notificationErrorLogAlwaysSet n am)))"

definition alarm_balanced :: "AlarmManager \<Rightarrow> bool" where
  "alarm_balanced am \<longleftrightarrow> alarm_wf am
     \<and> (case dbErrorsGet am of (active, raised, released) \<Rightarrow> raised = released + (if active then 1 else 0))
     \<and> (case notificationErrorGet am of (active, raised, released) \<Rightarrow> raised = released + active)
     \<and> (case badInputGet am of (active, raised, released) \<Rightarrow> raised = released + active)"

text \<open>The same invariant in the vocabulary of the interface.\<close>

lemma alarm_balanced_iff:
  "alarm_balanced am \<longleftrightarrow> alarm_wf am
     \<and> dbErrors am = dbErrorResets am + of_nat (card (if dbOk am then {} else {()}))
     \<and> notificationErrors am = notificationErrorResets am + of_nat (card (keys (notificationV am)))
     \<and> badInputs am = badInputResets am + of_nat (card (keys (badInputV am)))"
  by (auto simp: alarm_balanced_def alarm_wf_def card_keys dbErrorsGet_def notificationErrorGet_def
      badInputGet_def)

definition db_part :: "AlarmManager \<Rightarrow> bool \<times> 64 word \<times> 64 word" where
  "db_part am = (dbOk am, dbErrors am, dbErrorResets am)"

definition notif_part :: "AlarmManager \<Rightarrow> counts \<times> 64 word \<times> 64 word" where
  "notif_part am = (notificationV am, notificationErrors am, notificationErrorResets am)"

definition badin_part :: "AlarmManager \<Rightarrow> counts \<times> 64 word \<times> 64 word" where
  "badin_part am = (badInputV am, badInputs am, badInputResets am)"

lemmas alarm_parts = db_part_def notif_part_def badin_part_def

text \<open>Every operation writes the part of one table only.\<close>

lemma alarm_frame [simp]:
  "notif_part (snd (dbError d am)) = notif_part am" "badin_part (snd (dbError d am)) = badin_part am"
  "notif_part (snd (dbErrorReset am)) = notif_part am" "badin_part (snd (dbErrorReset am)) = badin_part am"
  "db_part (snd (notificationError u d am)) = db_part am"
  "badin_part (snd (notificationError u d am)) = badin_part am"
  "db_part (snd (notificationErrorReset u am)) = db_part am"
  "badin_part (snd (notificationErrorReset u am)) = badin_part am"
  "db_part (snd (badInput_fresh ip d am)) = db_part am"
  "notif_part (snd (badInput_fresh ip d am)) = notif_part am"
  "db_part (snd (badInputReset ip am)) = db_part am"
  "notif_part (snd (badInputReset ip am)) = notif_part am"
  by (simp_all add: alarm_defs alarm_parts badInput_fresh_def Let_def split: option.splits)

lemma balanced_dbError [orion_inv]: "alarm_balanced am \<Longrightarrow> alarm_balanced (snd (dbError d am))"
  using dbal.step_invariant [of am "Raise () d" "fst (dbError d am)" "snd (dbError d am)"]
    alarm_frame(1) [of d am] alarm_frame(2) [of d am]
  by (simp add: alarm_balanced_iff alarm_parts)

lemma balanced_dbErrorReset [orion_inv]: "alarm_balanced am \<Longrightarrow> alarm_balanced (snd (dbErrorReset am))"
  using dbal.step_invariant [of am "Release ()" "fst (dbErrorReset am)" "snd (dbErrorReset am)"]
    alarm_frame(3) [of am] alarm_frame(4) [of am]
  by (simp add: alarm_balanced_iff alarm_parts)

lemma balanced_notificationError [orion_inv]: "alarm_balanced am \<Longrightarrow> alarm_balanced (snd (notificationError u d am))"
  using notif.step_invariant [of am "Raise u d" "fst (notificationError u d am)" "snd (notificationError u d am)"]
    alarm_frame(5) [of u d am] alarm_frame(6) [of u d am]
  by (simp add: alarm_balanced_iff alarm_parts)

lemma balanced_notificationErrorReset [orion_inv]: "alarm_balanced am \<Longrightarrow> alarm_balanced (snd (notificationErrorReset u am))"
  using notif.step_invariant [of am "Release u" "fst (notificationErrorReset u am)" "snd (notificationErrorReset u am)"]
    alarm_frame(7) [of u am] alarm_frame(8) [of u am]
  by (simp add: alarm_balanced_iff alarm_parts)

lemma balanced_badInput_fresh [orion_inv]: "alarm_balanced am \<Longrightarrow> alarm_balanced (snd (badInput_fresh ip d am))"
  using badin.step_invariant [of am "Raise ip d" "fst (badInput_fresh ip d am)" "snd (badInput_fresh ip d am)"]
    alarm_frame(9) [of ip d am] alarm_frame(10) [of ip d am]
  by (simp add: alarm_balanced_iff alarm_parts)

lemma balanced_badInputReset [orion_inv]: "alarm_balanced am \<Longrightarrow> alarm_balanced (snd (badInputReset ip am))"
  using badin.step_invariant [of am "Release ip" "fst (badInputReset ip am)" "snd (badInputReset ip am)"]
    alarm_frame(11) [of ip am] alarm_frame(12) [of ip am]
  by (simp add: alarm_balanced_iff alarm_parts)

lemma badInput_cases:
  "badInput ip d seen am = (if seen then (False, True, am)
     else (fst (badInput_fresh ip d am), True, snd (badInput_fresh ip d am)))"
  by (simp add: badInput_def badInput_fresh_def Let_def split: option.splits)

lemma alarm_step_balanced [orion_inv]:
  "alarm_balanced am \<Longrightarrow> alarm_balanced (snd (alarm_step opn (seen, am)))"
proof (cases opn)
  case (BadInput t ip d)
  assume "alarm_balanced am"
  then show ?thesis by (simp add: BadInput badInput_cases orion_inv)
next
  case (LogAlwaysSet n b d)
  assume "alarm_balanced am"
  then show ?thesis
    by (simp add: LogAlwaysSet alarm_balanced_iff alarm_wf_def dbErrorLogAlwaysSet_def
        badInputLogAlwaysSet_def notificationErrorLogAlwaysSet_def)
qed (simp_all add: orion_inv)

lemma alarm_fold_balanced:
  "alarm_balanced (snd st) \<Longrightarrow> alarm_balanced (snd (fold alarm_step ops st))"
proof (induction ops arbitrary: st)
  case (Cons x ops)
  then show ?case using alarm_step_balanced [of "snd st" x "fst st"] by simp
qed simp

text \<open>C38: after any sequence of calls on the alarm manager, by any threads, the counters that the
  log summary reads are consistent: for the database alarm, the notification alarms and the
  bad-input alarms, the number of raised alarms is the number of released ones plus the number of
  active ones (in 64-bit arithmetic), and no key has two entries.\<close>

theorem alarms_balanced: "alarm_balanced (snd (fold alarm_step ops (\<lambda>t. False, AlarmManager_new)))"
  by (rule alarm_fold_balanced)
     (simp add: alarm_balanced_iff alarm_wf_def AlarmManager_new_def keys_def)

text \<open>A URL's notification alarm is raised and released in turn: among the calls of
  \<^verbatim>\<open>notificationError\<close> and \<^verbatim>\<open>notificationErrorReset\<close> that report an effective
  transition for that URL, raises and releases alternate, starting with a raise. Repeated errors and
  repeated resets are reported as no transition.\<close>

theorem notification_transitions_alternate:
  "alarm_run notificationError notificationErrorReset evs AlarmManager_new = (bs, am) \<Longrightarrow>
   alternates False (transitions url evs bs)"
  using notif.run_alternates [of AlarmManager_new evs bs am url]
  by (simp add: AlarmManager_new_def alarm_wf_def keys_def)

theorem notification_transitions_alternate_witness:
  "alternates False (transitions ''u'' [Raise ''u'' ''x'', Raise ''v'' ''y'', Raise ''u'' ''z'', Release ''u'']
      [True, True, False, True])
   \<and> transitions ''u'' [Raise ''u'' ''x'', Raise ''v'' ''y'', Raise ''u'' ''z'', Release ''u'']
      [True, True, False, True] = [True, False]"
proof -
  let ?evs = "[Raise ''u'' ''x'', Raise ''v'' ''y'', Raise ''u'' ''z'', Release ''u''] :: string alarm_event list"
  have "fst (alarm_run notificationError notificationErrorReset ?evs AlarmManager_new) = [True, True, False, True]"
    by (simp add: alarm_defs AlarmManager_new_def Let_def)
  then obtain am where "alarm_run notificationError notificationErrorReset ?evs AlarmManager_new
      = ([True, True, False, True], am)" by (metis prod.collapse)
  from notification_transitions_alternate [OF this, of "''u''"] show ?thesis by simp
qed

text \<open>\<^verbatim>\<open>badInputSeen\<close> is set by the first bad input of a thread and nothing clears it:
  whatever calls come in between, every later bad input of that thread is ignored, for every client
  address. The comment on the variable asks for one bad input per request.\<close>

theorem badInput_once_per_thread:
  "fst (badInput ip' d' (fst (fold alarm_step ops (alarm_step (BadInput t ip d) st)) t) am) = False"
proof -
  have step: "fst st t \<Longrightarrow> fst (alarm_step opn st) t" for opn st
    by (cases st; cases opn) (auto simp: badInput_cases)
  have all: "fst st t \<Longrightarrow> fst (fold alarm_step ops st) t" for ops st
    by (induction ops arbitrary: st) (simp_all add: step)
  have "fst (alarm_step (BadInput t ip d) st) t"
    by (cases st) (simp add: badInput_cases)
  then show ?thesis using all by (simp add: badInput_cases)
qed

subsection \<open>Interleavings of the database alarm\<close>

text \<open>
  \<^verbatim>\<open>dbError\<close> tests \<^verbatim>\<open>dbOk\<close> outside the semaphore. A thread in the call is before
  the test (\<open>DbOut\<close>) or between the test and the semaphore (\<open>DbIn\<close>, with its details); the
  section under the semaphore is one step. The calls that were answered with an effective
  transition are counted.
\<close>

datatype db_pc = DbOut | DbIn string

inductive db_race :: "AlarmManager \<Rightarrow> AlarmManager \<Rightarrow> (nat \<Rightarrow> db_pc) \<Rightarrow> nat \<Rightarrow> bool"
  for am0 :: AlarmManager where
  race_start: "db_race am0 am0 (\<lambda>t. DbOut) 0"
| race_test: "db_race am0 am pcs n \<Longrightarrow> pcs t = DbOut \<Longrightarrow> dbOk am \<Longrightarrow> db_race am0 am (pcs(t := DbIn d)) n"
| race_refused: "db_race am0 am pcs n \<Longrightarrow> pcs t = DbOut \<Longrightarrow> \<not> dbOk am \<Longrightarrow>
    db_race am0 (snd (dbError d am)) pcs n"
| race_commit: "db_race am0 am pcs n \<Longrightarrow> pcs t = DbIn d \<Longrightarrow>
    db_race am0 (dbError_commit d am) (pcs(t := DbOut)) (Suc n)"

lemma db_race_counts: "db_race am0 am pcs n \<Longrightarrow> dbErrors am = dbErrors am0 + of_nat n"
  by (induction rule: db_race.induct) (auto simp: alarm_defs)

lemma two_raises: "db_race AlarmManager_new
    (dbError_commit ''b'' (dbError_commit ''a'' AlarmManager_new)) (\<lambda>t. DbOut) 2"
proof -
  have "db_race AlarmManager_new AlarmManager_new ((\<lambda>t. DbOut)(0 := DbIn ''a'')) 0"
    by (rule db_race.race_test [OF db_race.race_start]) (simp_all add: AlarmManager_new_def)
  then have "db_race AlarmManager_new AlarmManager_new ((\<lambda>t. DbOut)(0 := DbIn ''a'', 1 := DbIn ''b'')) 0"
    by (rule db_race.race_test) (simp_all add: AlarmManager_new_def)
  then have "db_race AlarmManager_new (dbError_commit ''a'' AlarmManager_new)
      (((\<lambda>t. DbOut)(0 := DbIn ''a'', 1 := DbIn ''b''))(0 := DbOut)) 1"
    using db_race.race_commit [of _ _ _ _ 0 "''a''"] by fastforce
  then have "db_race AlarmManager_new (dbError_commit ''b'' (dbError_commit ''a'' AlarmManager_new))
      ((((\<lambda>t. DbOut)(0 := DbIn ''a'', 1 := DbIn ''b''))(0 := DbOut))(1 := DbOut)) (Suc 1)"
    by (rule db_race.race_commit) simp
  moreover have "(((\<lambda>t :: nat. DbOut)(0 := DbIn ''a'', 1 := DbIn ''b''))(0 := DbOut))(1 := DbOut) = (\<lambda>t. DbOut)"
    by auto
  ultimately show ?thesis by (simp add: numeral_2_eq_2)
qed

text \<open>Because \<^verbatim>\<open>dbError\<close> tests \<^verbatim>\<open>dbOk\<close> before it takes the semaphore, two
  threads can both report that they raised the database alarm although it was never released in
  between; the raised counter is then one ahead of the released counter plus the one active alarm.\<close>

theorem dbError_double_raise:
  "\<exists>am. db_race AlarmManager_new am (\<lambda>t. DbOut) 2 \<and> dbErrorsGet am = (True, 2, 0) \<and> \<not> alarm_balanced am"
  using two_raises
  by (intro exI [of _ "dbError_commit ''b'' (dbError_commit ''a'' AlarmManager_new)"])
     (simp add: dbErrorsGet_def alarm_balanced_def alarm_defs AlarmManager_new_def)

end
