(* ===== verification/Orion_String.thy ===== *)
theory Orion_String
  imports Complex_Main Orion_Prelude "HOL-Library.Signed_Division"
begin

section \<open>Strings: common/string.cpp, common/wsStrip.cpp, parse/forbiddenChars.cpp\<close>

text \<open>
  The string functions of the broker, one definition per C++ function. A function with
  out-parameters takes their old values and returns the new ones, so what a failing call leaves in
  them is part of the model. A call of \<^verbatim>\<open>alarmMgr.badInput\<close> inside a function is recorded as
  the details string it passes, in a list returned with the result.

  The conversion \<^verbatim>\<open>strtod\<close> of the C library is a parameter: it gives the value, the unread
  rest of the string and whether \<^verbatim>\<open>errno\<close> was set to \<^verbatim>\<open>ERANGE\<close>. A
  \<^verbatim>\<open>double\<close> is a NaN, an infinity or a rational number, with the comparisons of C.
\<close>

subsection \<open>Doubles\<close>

datatype dbl = NaN | PInf | NInf | Fin rat

fun dlt :: "dbl \<Rightarrow> dbl \<Rightarrow> bool" where
  "dlt NaN _ = False"
| "dlt _ NaN = False"
| "dlt (Fin a) (Fin b) = (a < b)"
| "dlt (Fin a) b = (b = PInf)"
| "dlt NInf b = (b \<noteq> NInf)"
| "dlt PInf b = False"

fun deq :: "dbl \<Rightarrow> dbl \<Rightarrow> bool" where
  "deq NaN _ = False"
| "deq a b = (a = b)"

lemma dlt_irrefl [simp]: "\<not> dlt a a"
  by (cases a) simp_all

lemma dlt_trans: "dlt a b \<Longrightarrow> dlt b c \<Longrightarrow> dlt a c"
  by (cases a; cases b; cases c) simp_all

lemma dlt_linear: "a \<noteq> NaN \<Longrightarrow> b \<noteq> NaN \<Longrightarrow> dlt a b \<or> a = b \<or> dlt b a"
  by (cases a; cases b) auto

subsection \<open>White space: wsStrip and onlyWs\<close>

definition isWs :: "char \<Rightarrow> bool" where
  "isWs c = (c = CHR '' '' \<or> c = CHR 0x09 \<or> c = CHR 0x0A)"

text \<open>
  The second loop of \<^verbatim>\<open>wsStrip\<close> moves \<^verbatim>\<open>end\<close> backwards while it is beyond the
  first character; on the reversed string that is a recursion from the front.
\<close>

fun wsStrip_end :: "string \<Rightarrow> string" where
  "wsStrip_end [] = []"
| "wsStrip_end [c] = [c]"
| "wsStrip_end (c # d # cs) = (if isWs c then wsStrip_end (d # cs) else c # d # cs)"

definition wsStrip :: "string \<Rightarrow> string" where
  "wsStrip s = (let s = dropWhile isWs s in if s = [] then s else rev (wsStrip_end (rev s)))"

fun onlyWs :: "string \<Rightarrow> bool" where
  "onlyWs [] = True"
| "onlyWs (c # cs) = (if c \<noteq> CHR '' '' \<and> c \<noteq> CHR 0x09 \<and> c \<noteq> CHR 0x0A then False else onlyWs cs)"

lemma onlyWs_iff: "onlyWs s \<longleftrightarrow> list_all isWs s"
  by (induction s) (auto simp: isWs_def)

lemma wsStrip_end_suffix: "\<exists>ws. s = ws @ wsStrip_end s \<and> list_all isWs ws"
proof (induction s rule: wsStrip_end.induct)
  case (3 c d cs)
  then show ?case
    by (cases "isWs c") (auto intro: exI [of _ "c # ws" for ws])
qed auto

lemma wsStrip_end_hd:
  "s \<noteq> [] \<Longrightarrow> \<not> isWs (last s) \<Longrightarrow> wsStrip_end s \<noteq> [] \<and> \<not> isWs (hd (wsStrip_end s))"
  by (induction s rule: wsStrip_end.induct) (auto split: if_splits)

lemma wsStrip_cases:
  "(wsStrip s = [] \<and> onlyWs s) \<or>
   (\<exists>a b. s = a @ wsStrip s @ b \<and> onlyWs a \<and> onlyWs b \<and> wsStrip s \<noteq> []
      \<and> \<not> isWs (hd (wsStrip s)) \<and> \<not> isWs (last (wsStrip s)))"
proof (cases "dropWhile isWs s = []")
  case True
  moreover from True have "onlyWs s" unfolding onlyWs_iff list_all_iff by (simp only: dropWhile_eq_Nil_conv)
  ultimately show ?thesis by (simp only: wsStrip_def Let_def) simp
next
  case False
  define t where "t = dropWhile isWs s"
  have t: "t \<noteq> []" "\<not> isWs (hd t)"
    using False hd_dropWhile [of isWs s] by (auto simp: t_def)
  obtain ws where ws: "rev t = ws @ wsStrip_end (rev t)" "list_all isWs ws"
    using wsStrip_end_suffix by blast
  have strip: "wsStrip s = rev (wsStrip_end (rev t))"
    using False by (simp only: wsStrip_def t_def Let_def if_False)
  have split: "t = wsStrip s @ rev ws"
    unfolding strip using ws(1) by (metis rev_append rev_rev_ident)
  have ends: "wsStrip s \<noteq> []" "\<not> isWs (last (wsStrip s))"
    using wsStrip_end_hd [of "rev t"] t by (simp_all only: strip last_rev rev_is_Nil_conv not_False_eq_True)
  have "hd (wsStrip s) = hd t" using split ends(1) by (metis hd_append2)
  moreover have "s = takeWhile isWs s @ wsStrip s @ rev ws"
    using split t_def by (metis takeWhile_dropWhile_id)
  moreover have "onlyWs (takeWhile isWs s)" and "onlyWs (rev ws)"
    using ws(2) by (auto simp: onlyWs_iff list_all_iff dest: set_takeWhileD)
  ultimately show ?thesis using ends t(2) by metis
qed

lemma wsStrip_fix: "s = [] \<or> \<not> isWs (hd s) \<and> \<not> isWs (last s) \<Longrightarrow> wsStrip s = s"
proof (cases s)
  case (Cons c cs)
  assume "s = [] \<or> \<not> isWs (hd s) \<and> \<not> isWs (last s)"
  then have ends: "\<not> isWs c" "\<not> isWs (last s)" using Cons by auto
  have "wsStrip_end r = r" if "r \<noteq> []" "\<not> isWs (hd r)" for r
    using that by (cases r rule: wsStrip_end.cases) auto
  from this [of "rev s"] have "wsStrip_end (rev s) = rev s"
    using ends(2) Cons by (simp only: hd_rev rev_is_Nil_conv list.distinct simp_thms)
  then show ?thesis using ends(1) Cons by (simp add: wsStrip_def)
qed (simp add: wsStrip_def)

lemma wsStrip_idem [simp]: "wsStrip (wsStrip s) = wsStrip s"
  using wsStrip_cases [of s] wsStrip_fix [of "wsStrip s"] by auto

lemma wsStrip_not_Nil: "s \<noteq> [] \<Longrightarrow> \<not> isWs (hd s) \<Longrightarrow> wsStrip s \<noteq> []"
  using wsStrip_cases [of s] by (cases s) (auto simp: isWs_def)

lemma set_wsStrip: "set (wsStrip s) \<subseteq> set s"
  using wsStrip_cases [of s] by (metis empty_subsetI le_supI1 le_supI2 list.set(1) order_refl set_append)

subsection \<open>Forbidden characters\<close>

definition commonForbidden :: "char \<Rightarrow> bool" where
  "commonForbidden c = (c \<in> set ''<>=;()'' \<or> c = CHR 0x22 \<or> c = CHR 0x27)"

text \<open>A null pointer is \<^const>\<open>None\<close>, for the string and for the exceptions.\<close>

definition exempt :: "string option \<Rightarrow> char \<Rightarrow> bool" where
  "exempt exceptions c = (case exceptions of None \<Rightarrow> False | Some e \<Rightarrow> strchr e c \<noteq> None)"

fun forbiddenChars_loop :: "string option \<Rightarrow> string \<Rightarrow> bool" where
  "forbiddenChars_loop exceptions [] = False"
| "forbiddenChars_loop exceptions (c # s) =
     (if exempt exceptions c then forbiddenChars_loop exceptions s
      else if commonForbidden c then True
      else forbiddenChars_loop exceptions s)"

definition forbiddenChars :: "string option \<Rightarrow> string option \<Rightarrow> bool" where
  "forbiddenChars s exceptions = (case s of None \<Rightarrow> False | Some s \<Rightarrow> forbiddenChars_loop exceptions s)"

definition signed_char :: "char \<Rightarrow> int" where
  "signed_char c = (let n = int (of_char c) in if n < 128 then n else n - 256)"

fun forbiddenIdChars_loop :: "string option \<Rightarrow> string \<Rightarrow> bool" where
  "forbiddenIdChars_loop exceptions [] = False"
| "forbiddenIdChars_loop exceptions (c # s) =
     (if exempt exceptions c then forbiddenIdChars_loop exceptions s
      else if signed_char c \<ge> 127 \<or> signed_char c \<le> 32 then True
      else if c \<in> set ''?/#&'' then True
      else if commonForbidden c then True
      else forbiddenIdChars_loop exceptions s)"

definition forbiddenIdChars :: "bool \<Rightarrow> string \<Rightarrow> string option \<Rightarrow> string option \<Rightarrow> bool" where
  "forbiddenIdChars checkIdv1 api s exceptions =
     (if api = ''v1'' \<and> \<not> checkIdv1 then forbiddenChars s exceptions
      else case s of None \<Rightarrow> False | Some s \<Rightarrow> forbiddenIdChars_loop exceptions s)"

lemma forbiddenChars_loop_iff:
  "forbiddenChars_loop e s \<longleftrightarrow> (\<exists>c \<in> set s. \<not> exempt e c \<and> commonForbidden c)"
  by (induction s) auto

lemma forbiddenIdChars_loop_iff:
  "forbiddenIdChars_loop e s \<longleftrightarrow> (\<exists>c \<in> set s. \<not> exempt e c \<and>
     (signed_char c \<ge> 127 \<or> signed_char c \<le> 32 \<or> c \<in> set ''?/#&'' \<or> commonForbidden c))"
  by (induction s) auto

subsection \<open>Numbers and texts\<close>

type_synonym strtod_fun = "string \<Rightarrow> dbl \<times> string \<times> bool"

text \<open>
  What the manual page of \<^verbatim>\<open>strtod\<close>, quoted in the source, says: the rest is a suffix of
  the argument; where no conversion is performed the value is zero, the rest is the argument itself
  and no range error is reported, and a string without any digit or letter converts to nothing.
\<close>

definition strtod_spec :: "strtod_fun \<Rightarrow> bool" where
  "strtod_spec strtod \<longleftrightarrow>
     (\<forall>s d rest erange. strtod s = (d, rest, erange) \<longrightarrow> (\<exists>used. s = used @ rest))
     \<and> (\<forall>s. list_all isspace s \<longrightarrow> strtod s = (Fin 0, s, False))"

text \<open>\<^verbatim>\<open>str2double\<close>: \<^const>\<open>Some\<close> of the value for a return of true.\<close>

definition str2double :: "strtod_fun \<Rightarrow> string \<Rightarrow> dbl option" where
  "str2double strtod s =
     (let (d, rest, erange) = strtod s
      in if erange then None
         else if dropWhile isspace rest \<noteq> [] then None
         else Some d)"

definition quoted :: "string \<Rightarrow> string" where
  "quoted s = [CHR 0x27] @ s @ [CHR 0x27]"

record coords_out =
  latitude :: dbl
  longitude :: dbl

text \<open>
  \<^verbatim>\<open>string2coords\<close>: the result, the out-parameters and the details of bad-input alarms. The
  text \<^verbatim>\<open>initial\<close> printed in them is what is left of the copy after its comma and trailing
  blanks were overwritten.
\<close>

definition string2coords ::
    "strtod_fun \<Rightarrow> string \<Rightarrow> coords_out \<Rightarrow> bool \<times> coords_out \<times> string list" where
  "string2coords strtod s out =
     (let lead = takeWhile isWs (c_str s); cP = wsStrip (c_str s)
      in case strchr cP (CHR '','') of
           None \<Rightarrow> (False, out, [])
         | Some (number1, comma) \<Rightarrow>
             let number2 = wsStrip (tl comma); number1 = wsStrip number1; initial = lead @ number1
             in (case str2double strtod number1 of
                   None \<Rightarrow> (False, out, [''bad latitude value in coordinate string '' @ quoted initial])
                 | Some newLatitude \<Rightarrow>
                     if dlt (Fin 90) newLatitude \<or> dlt newLatitude (Fin (- 90))
                     then (False, out, [''bad latitude value in coordinate string '' @ quoted initial])
                     else case str2double strtod number2 of
                       None \<Rightarrow> (False, out, [''bad longitude value in coordinate string '' @ quoted initial])
                     | Some newLongitude \<Rightarrow>
                         if dlt (Fin 180) newLongitude \<or> dlt newLongitude (Fin (- 180))
                         then (False, out, [''bad longitude value in coordinate string '' @ quoted initial])
                         else (True, \<lparr>latitude = newLatitude, longitude = newLongitude\<rparr>, [])))"

record version_out =
  mayor :: int
  minor :: int
  bugFix :: string

definition versionParse :: "string \<Rightarrow> version_out \<Rightarrow> bool \<times> version_out" where
  "versionParse version out =
     (let s = wsStrip (c_str version)
      in case strchr s (CHR ''.'') of
           None \<Rightarrow> (False, out)
         | Some (s, dotP) \<Rightarrow>
             let s = wsStrip s; out = out\<lparr>mayor := atoi s\<rparr>
             in if \<not> list_all isdigit s then (False, out)
             else let s = tl dotP
             in (case strchr s (CHR ''.'') of
                   Some (s, dotP) \<Rightarrow>
                     let s = wsStrip s; out = out\<lparr>minor := atoi s\<rparr>
                     in if \<not> list_all isdigit s then (False, out)
                        else (True, out\<lparr>bugFix := wsStrip (tl dotP)\<rparr>)
                 | None \<Rightarrow>
                     let out = out\<lparr>bugFix := []\<rparr>; s = wsStrip s; out = out\<lparr>minor := atoi s\<rparr>
                     in if \<not> list_all isdigit s then (False, out) else (True, out)))"

text \<open>The loop of \<^verbatim>\<open>atoF\<close> that counts dots; \<^const>\<open>None\<close> where a dot is the last character.\<close>

fun atoF_dots :: "string \<Rightarrow> nat \<Rightarrow> nat option" where
  "atoF_dots [] noOf = Some noOf"
| "atoF_dots (c # cs) noOf =
     (if c = CHR ''.'' then if cs = [] then None else atoF_dots cs (noOf + 1)
      else atoF_dots cs noOf)"

text \<open>\<^verbatim>\<open>atoF\<close>: the value and \<^verbatim>\<open>*errorMsg\<close>; \<^verbatim>\<open>atof\<close> of the C library is a parameter.\<close>

definition atoF :: "(string \<Rightarrow> dbl) \<Rightarrow> string \<Rightarrow> dbl \<times> string" where
  "atoF atof s =
     (if s = [] then (Fin 0, ''empty string'')
      else let signed = (hd s = CHR ''-'' \<or> hd s = CHR ''+''); cP = (if signed then tl s else s)
      in if signed \<and> (cP = [] \<or> \<not> isdigit (hd cP) \<and> hd cP \<noteq> CHR ''.'')
         then (Fin 0, ''non-digit after unary minus/plus'')
      else case atoF_dots cP 0 of
             None \<Rightarrow> (Fin 0, ''last character in a double cannot be a dot'')
           | Some noOf \<Rightarrow>
               if noOf > 1 then (Fin 0, ''more than one dot'')
               else if \<not> list_all (\<lambda>c. c = CHR ''.'' \<or> isdigit c) cP
               then (Fin 0, ''invalid characters in string to convert'')
               else (atof s, []))"

definition lower_char :: "char \<Rightarrow> char" where
  "lower_char c = (if 65 \<le> (of_char c :: nat) \<and> (of_char c :: nat) \<le> 90 then char_of ((of_char c :: nat) + 32) else c)"

text \<open>\<^verbatim>\<open>strcasecmp(s, t) == 0\<close>.\<close>

definition strcasecmp_eq :: "string \<Rightarrow> string \<Rightarrow> bool" where
  "strcasecmp_eq s t = (map lower_char (c_str s) = map lower_char (c_str t))"

text \<open>
  \<^verbatim>\<open>strToLower\<close> into a buffer of \<^verbatim>\<open>toSize\<close> bytes: the string it leaves there, or
  \<^const>\<open>None\<close> when the terminating zero is written past the end of the buffer.
\<close>

definition strToLower :: "string \<Rightarrow> int \<Rightarrow> string option" where
  "strToLower from toSize =
     (let fromSize = int (length from);
          fromSize = (if toSize < fromSize + 1 then toSize else fromSize);
          ix = nat fromSize
      in if int ix < toSize then Some (map lower_char (take ix from)) else None)"

fun servicePathCheck_loop :: "string \<Rightarrow> string \<times> string list" where
  "servicePathCheck_loop [] = (''OK'', [])"
| "servicePathCheck_loop (c # cs) =
     (if 65 \<le> (of_char c :: nat) \<and> (of_char c :: nat) \<le> 90 then servicePathCheck_loop cs
      else if 97 \<le> (of_char c :: nat) \<and> (of_char c :: nat) \<le> 122 then servicePathCheck_loop cs
      else if 48 \<le> (of_char c :: nat) \<and> (of_char c :: nat) \<le> 57 then servicePathCheck_loop cs
      else if c = CHR ''_'' then servicePathCheck_loop cs
      else if c = CHR ''/'' then servicePathCheck_loop cs
      else (''Bad Character in Service-Path'', [''Invalid character '' @ quoted [c] @ '' in Service-Path'']))"

definition servicePathCheck :: "string option \<Rightarrow> string \<times> string list" where
  "servicePathCheck servicePath =
     (case servicePath of
        None \<Rightarrow> (''No Service Path'', [])
      | Some s \<Rightarrow> if s = [] then (''OK'', []) else servicePathCheck_loop s)"

definition i2s :: "int \<Rightarrow> nat \<Rightarrow> string" where
  "i2s i placeholderSize = take (placeholderSize - 1) (show_int i)"

definition parsedUptime :: "int \<Rightarrow> string" where
  "parsedUptime uptime =
     (let minutes = uptime sdiv 60; seconds = uptime smod 60;
          hours = minutes sdiv 60; minutes = minutes smod 60;
          days = hours sdiv 24; hours = hours smod 24
      in take 49 (show_int days @ '' d, '' @ show_int hours @ '' h, '' @ show_int minutes @ '' m, ''
           @ show_int seconds @ '' s''))"

lemma strchr_append: "c \<notin> set a \<Longrightarrow> strchr (a @ c # b) c = Some (a, c # b)"
  by (auto simp: strchr_def takeWhile_append takeWhile_tail dropWhile_append)

lemma strchr_absent: "c \<notin> set a \<Longrightarrow> strchr a c = None"
  by (simp add: strchr_def)

lemma strchr_SomeD:
  "strchr s c = Some (a, r) \<Longrightarrow> \<exists>b. r = c # b \<and> s = a @ c # b \<and> c \<notin> set a"
  by (auto simp: strchr_def split: if_splits dest!: split_list_first)
     (simp_all add: takeWhile_append takeWhile_tail dropWhile_append)

subsection \<open>Properties of the string functions\<close>

text \<open>\<^verbatim>\<open>wsStrip\<close> removes exactly the blanks, tabs and newlines at both ends: the rest is
  an infix of the string between two runs of white space, it has white space at neither end, and
  stripping again changes nothing. A string of white space only gives the empty string.\<close>

theorem wsStrip_correct:
  "(wsStrip s = [] \<longleftrightarrow> onlyWs s) \<and>
   (\<exists>a b. s = a @ wsStrip s @ b \<and> onlyWs a \<and> onlyWs b) \<and>
   (wsStrip s = [] \<or> (\<not> isWs (hd (wsStrip s)) \<and> \<not> isWs (last (wsStrip s)))) \<and>
   wsStrip (wsStrip s) = wsStrip s"
proof -
  have "onlyWs s \<Longrightarrow> wsStrip s = []"
    by (simp add: wsStrip_def onlyWs_iff list_all_iff)
  moreover have "\<exists>a b. s = a @ b \<and> onlyWs a \<and> onlyWs b" if "onlyWs s"
    using that by (intro exI [of _ s] exI [of _ "[]"]) simp
  ultimately show ?thesis using wsStrip_cases [of s] by auto
qed

lemma strToLower_eq:
  "strToLower from toSize = (if int (length from) < toSize then Some (map lower_char from) else None)"
  by (auto simp: strToLower_def Let_def)

text \<open>\<^verbatim>\<open>strToLower\<close> gives the lower-case string exactly when it fits, with its
  terminator, into the buffer; in the remaining case, which its size check is there for, it writes one
  byte past the end of the buffer.\<close>

theorem strToLower_overflow:
  "(strToLower from toSize = None \<longleftrightarrow> toSize < int (length from) + 1)
   \<and> (toSize \<ge> int (length from) + 1 \<longrightarrow> strToLower from toSize = Some (map lower_char from))"
  by (auto simp: strToLower_eq)

theorem strToLower_overflow_witness:
  "strToLower (replicate 51 (CHR ''T'')) 51 = None \<and> strToLower ''TeSt'' 51 = Some ''test''"
proof -
  have "map lower_char ''TeSt'' = ''test''" by code_simp
  then show ?thesis
    using strToLower_overflow [of "replicate 51 (CHR ''T'')" 51] strToLower_overflow [of "''TeSt''" 51]
    by simp
qed

definition service_path_char :: "char \<Rightarrow> bool" where
  "service_path_char c \<longleftrightarrow> c \<in> set ''ABCDEFGHIJKLMNOPQRSTUVWXYZabcdefghijklmnopqrstuvwxyz0123456789_/''"

lemma service_path_char_ranges: "service_path_char c \<longleftrightarrow>
    (65 \<le> (of_char c :: nat) \<and> (of_char c :: nat) \<le> 90)
    \<or> (97 \<le> (of_char c :: nat) \<and> (of_char c :: nat) \<le> 122)
    \<or> (48 \<le> (of_char c :: nat) \<and> (of_char c :: nat) \<le> 57) \<or> c = CHR ''_'' \<or> c = CHR ''/''"
proof -
  have "list_all (\<lambda>c. service_path_char c = (
      (65 \<le> (of_char c :: nat) \<and> (of_char c :: nat) \<le> 90)
      \<or> (97 \<le> (of_char c :: nat) \<and> (of_char c :: nat) \<le> 122)
      \<or> (48 \<le> (of_char c :: nat) \<and> (of_char c :: nat) \<le> 57) \<or> c = CHR ''_'' \<or> c = CHR ''/'')) Enum.enum"
    by code_simp
  then show ?thesis using in_enum [of c] by (simp only: list_all_iff)
qed

text \<open>\<^verbatim>\<open>servicePathCheck\<close> accepts exactly the service paths made of letters, digits,
  underscores and slashes (the empty one included), and raises a bad-input alarm exactly when it
  refuses a character.\<close>

theorem servicePathCheck_iff:
  "fst (servicePathCheck (Some s)) =
     (if list_all service_path_char s then ''OK'' else ''Bad Character in Service-Path'')
   \<and> (snd (servicePathCheck (Some s)) = [] \<longleftrightarrow> list_all service_path_char s)"
proof -
  note char = service_path_char_ranges
  have "fst (servicePathCheck_loop s) =
     (if list_all service_path_char s then ''OK'' else ''Bad Character in Service-Path'')
     \<and> (snd (servicePathCheck_loop s) = [] \<longleftrightarrow> list_all service_path_char s)"
  proof (induction s)
    case (Cons c cs)
    show ?case
    proof (cases "service_path_char c")
      case True
      then have "servicePathCheck_loop (c # cs) = servicePathCheck_loop cs"
        unfolding char by auto
      with Cons True show ?thesis by simp
    next
      case False
      then have "servicePathCheck_loop (c # cs) = (''Bad Character in Service-Path'',
          [''Invalid character '' @ quoted [c] @ '' in Service-Path''])"
        unfolding char by auto
      with False show ?thesis by simp
    qed
  qed simp
  then show ?thesis by (cases s) (simp_all add: servicePathCheck_def)
qed

text \<open>A simple instance of \<^verbatim>\<open>strtod\<close>, for strings of decimal digits, used in witnesses.\<close>

definition strtod_nat :: strtod_fun where
  "strtod_nat s =
     (let t = dropWhile isspace s; ds = takeWhile isdigit t
      in if t = ''nan'' then (NaN, [], False)
         else if ds = [] then (Fin 0, s, False)
         else (Fin (of_nat (num_of ds)), dropWhile isdigit t, False))"

lemma strtod_nat_spec: "strtod_spec strtod_nat"
proof -
  have suffix: "\<exists>used. s = used @ dropWhile P (dropWhile Q s)" for s :: string and P Q
    by (metis append.assoc takeWhile_dropWhile_id)
  have "strtod_nat s = (Fin 0, s, False)" if "list_all isspace s" for s
  proof -
    have "dropWhile isspace s = []" using that by (simp only: list_all_iff dropWhile_eq_Nil_conv)
    then show ?thesis by (simp only: strtod_nat_def Let_def) simp
  qed
  moreover have "\<exists>used. s = used @ rest" if "strtod_nat s = (d, rest, erange)" for s d rest erange
    using that suffix [of s isdigit isspace]
    by (auto simp: strtod_nat_def Let_def split: if_splits)
  ultimately show ?thesis unfolding strtod_spec_def by blast
qed

text \<open>The comment on \<^verbatim>\<open>str2double\<close> asks that a conversion has been performed, but the code
  does not check it: an empty or blank string is a valid double, zero. So the coordinate string that is
  a single comma is accepted by \<^verbatim>\<open>string2coords\<close> as latitude 0, longitude 0.\<close>

theorem str2double_accepts_blank:
  assumes "strtod_spec strtod" and "list_all isspace s"
  shows "str2double strtod s = Some (Fin 0)
    \<and> string2coords strtod '','' out = (True, \<lparr>latitude = Fin 0, longitude = Fin 0\<rparr>, [])"
proof -
  have blank: "str2double strtod t = Some (Fin 0)" if "list_all isspace t" for t
    using that assms(1) by (auto simp: str2double_def strtod_spec_def list_all_iff)
  then have "str2double strtod [] = Some (Fin 0)" by simp
  then show ?thesis using blank [OF assms(2)]
    by (simp add: string2coords_def c_str_def wsStrip_def isWs_def strchr_def)
qed

definition coords_demo :: coords_out where
  "coords_demo = \<lparr>latitude = Fin 1, longitude = Fin 1\<rparr>"

theorem str2double_accepts_blank_witness:
  "str2double strtod_nat '' '' = Some (Fin 0)
   \<and> string2coords strtod_nat '','' coords_demo = (True, \<lparr>latitude = Fin 0, longitude = Fin 0\<rparr>, [])"
  using str2double_accepts_blank [OF strtod_nat_spec, of "'' ''" coords_demo] by (simp add: isspace_def)

text \<open>When \<^verbatim>\<open>string2coords\<close> returns true, the latitude is not below -90 and not above
  90 and the longitude not below -180 and not above 180 in the comparisons of C, no alarm is raised,
  and both numbers come from the two sides of the first comma; when it returns false the
  out-parameters are unchanged. A NaN passes the comparisons.\<close>

theorem string2coords_range:
  assumes "string2coords strtod s out = (ok, out', alarms)"
  shows "(if ok then alarms = [] \<and> \<not> dlt (latitude out') (Fin (- 90)) \<and> \<not> dlt (Fin 90) (latitude out')
             \<and> \<not> dlt (longitude out') (Fin (- 180)) \<and> \<not> dlt (Fin 180) (longitude out')
             \<and> (\<exists>a b. wsStrip (c_str s) = a @ '','' @ b \<and> CHR '','' \<notin> set a
                  \<and> str2double strtod (wsStrip a) = Some (latitude out')
                  \<and> str2double strtod (wsStrip b) = Some (longitude out'))
          else out' = out)"
proof (cases "strchr (wsStrip (c_str s)) (CHR '','')")
  case None
  with assms show ?thesis by (auto simp: string2coords_def Let_def)
next
  case (Some ab)
  then obtain a b where ab: "strchr (wsStrip (c_str s)) (CHR '','') = Some (a, CHR '','' # b)"
      "wsStrip (c_str s) = a @ '','' @ b" "CHR '','' \<notin> set a"
    using strchr_SomeD by (cases ab) fastforce
  from assms ab(1) have "(if ok then alarms = [] \<and> \<not> dlt (latitude out') (Fin (- 90))
      \<and> \<not> dlt (Fin 90) (latitude out') \<and> \<not> dlt (longitude out') (Fin (- 180))
      \<and> \<not> dlt (Fin 180) (longitude out') \<and> str2double strtod (wsStrip a) = Some (latitude out')
      \<and> str2double strtod (wsStrip b) = Some (longitude out') else out' = out)"
    by (auto simp: string2coords_def Let_def split: option.splits if_splits)
  with ab(2,3) show ?thesis by (cases ok) (simp_all only: if_True if_False, blast)
qed

theorem string2coords_range_witness:
  "string2coords strtod_nat '' 40 , 3 '' coords_demo = (True, \<lparr>latitude = Fin 40, longitude = Fin 3\<rparr>, [])
   \<and> \<not> dlt (Fin 40) (Fin (- 90)) \<and> \<not> dlt (Fin 90) (Fin 40)
   \<and> string2coords strtod_nat ''nan,nan'' coords_demo = (True, \<lparr>latitude = NaN, longitude = NaN\<rparr>, [])"
proof -
  have run: "string2coords strtod_nat '' 40 , 3 '' coords_demo = (True, \<lparr>latitude = Fin 40, longitude = Fin 3\<rparr>, [])"
    by (simp add: string2coords_def c_str_def wsStrip_def isWs_def strchr_def str2double_def
        strtod_nat_def isspace_def isdigit_def coords_demo_def num_of_def digit_val_def)
  have nan: "string2coords strtod_nat ''nan,nan'' coords_demo = (True, \<lparr>latitude = NaN, longitude = NaN\<rparr>, [])"
    by (simp add: string2coords_def c_str_def wsStrip_def isWs_def strchr_def str2double_def
        strtod_nat_def isspace_def isdigit_def coords_demo_def)
  from string2coords_range [OF run] run nan show ?thesis by simp
qed

lemma dec_chars: "c \<in> set (dec n) \<Longrightarrow> c \<noteq> CHR ''.'' \<and> \<not> isWs c \<and> c \<noteq> NUL"
  using dec_isdigit [of c n] by (auto simp: isdigit_def isWs_def)

lemma wsStrip_dec [simp]: "wsStrip (dec n) = dec n"
  using dec_chars by (intro wsStrip_fix) (metis dec_not_Nil hd_in_set last_in_set)

text \<open>\<^verbatim>\<open>versionParse\<close> reads back a version number: from the decimal major and minor number
  and an optional bug-fix part without surrounding white space, separated by dots, it returns exactly
  these three (an absent bug-fix part as the empty string).\<close>

theorem versionParse_roundtrip:
  assumes "a < 2 ^ 31" and "b < 2 ^ 31"
    and "case bf of None \<Rightarrow> True | Some f \<Rightarrow> NUL \<notin> set f \<and> (f = [] \<or> \<not> isWs (hd f) \<and> \<not> isWs (last f))"
  shows "versionParse (dec a @ ''.'' @ dec b @ (case bf of None \<Rightarrow> [] | Some f \<Rightarrow> ''.'' @ f)) out
    = (True, \<lparr>mayor = int a, minor = int b, bugFix = (case bf of None \<Rightarrow> [] | Some f \<Rightarrow> f)\<rparr>)"
proof -
  let ?tail = "case bf of None \<Rightarrow> [] | Some f \<Rightarrow> ''.'' @ f"
  let ?v = "dec a @ ''.'' @ dec b @ ?tail"
  have digits: "list_all isdigit (dec n)" and nodot: "CHR ''.'' \<notin> set (dec n)" for n
    using dec_isdigit dec_chars by (auto simp: list_all_iff)
  have "NUL \<notin> set ?v" using dec_chars assms(3) by (auto split: option.splits)
  moreover have "wsStrip ?v = ?v"
  proof (rule wsStrip_fix)
    have "\<not> isWs (last ?v)"
    proof (cases bf)
      case None
      then show ?thesis using dec_chars [of "last (dec b)" b] by simp
    next
      case (Some f)
      then show ?thesis using assms(3) by (cases "f = []") (auto simp: isWs_def)
    qed
    moreover have "\<not> isWs (hd ?v)" using dec_chars [of "hd (dec a)" a] by simp
    ultimately show "?v = [] \<or> \<not> isWs (hd ?v) \<and> \<not> isWs (last ?v)" by blast
  qed
  ultimately have v: "wsStrip (c_str ?v) = ?v" by simp
  have at: "atoi (dec n) = int n" if "n < 2 ^ 31" for n using atoi_dec [of n "[]"] that by simp
  show ?thesis
  proof (cases bf)
    case None
    then show ?thesis using v assms nodot
      by (cases out) (simp add: versionParse_def Let_def strchr_append strchr_absent digits at)
  next
    case (Some f)
    then have "wsStrip f = f" using assms(3) by (simp add: wsStrip_fix)
    then show ?thesis using Some v assms nodot
      by (cases out) (simp add: versionParse_def Let_def strchr_append digits at)
  qed
qed

theorem versionParse_roundtrip_witness:
  "versionParse (dec 2 @ ''.'' @ dec 6 @ ''.'' @ ''11-rc'') \<lparr>mayor = 0, minor = 0, bugFix = []\<rparr>
   = (True, \<lparr>mayor = 2, minor = 6, bugFix = ''11-rc''\<rparr>)"
  using versionParse_roundtrip [of 2 6 "Some ''11-rc''" "\<lparr>mayor = 0, minor = 0, bugFix = []\<rparr>"] by (simp add: isWs_def)

lemma sdiv_smod_nat:
  "int n sdiv 60 = int (n div 60)" "int n smod 60 = int (n mod 60)"
  "int n sdiv 24 = int (n div 24)" "int n smod 24 = int (n mod 24)"
  by (simp_all add: signed_divide_int_def signed_modulo_int_def zdiv_int zmod_int minus_mult_div_eq_mod sgn_if)

lemma show_int_nat [cstr]: "show_int (int n) = dec n"
  by (simp add: show_int_def)

text \<open>For a non-negative uptime \<^verbatim>\<open>parsedUptime\<close> prints days, hours, minutes and seconds
  that are the uptime in mixed radix: hours below 24, minutes and seconds below 60.\<close>

theorem parsedUptime_exact:
  assumes "0 \<le> uptime" and "uptime \<le> int_max"
  shows "\<exists>d h m s. parsedUptime uptime
      = take 49 (dec d @ '' d, '' @ dec h @ '' h, '' @ dec m @ '' m, '' @ dec s @ '' s'')
    \<and> uptime = ((int d * 24 + int h) * 60 + int m) * 60 + int s \<and> h < 24 \<and> m < 60 \<and> s < 60"
proof -
  define u where "u = nat uptime"
  have u: "uptime = int u" using assms(1) by (simp add: u_def)
  have "parsedUptime uptime = take 49 (dec (u div 60 div 60 div 24) @ '' d, '' @ dec (u div 60 div 60 mod 24)
      @ '' h, '' @ dec (u div 60 mod 60) @ '' m, '' @ dec (u mod 60) @ '' s'')"
    by (simp only: parsedUptime_def Let_def u sdiv_smod_nat show_int_nat)
  moreover have "u = ((u div 60 div 60 div 24 * 24 + u div 60 div 60 mod 24) * 60 + u div 60 mod 60) * 60 + u mod 60"
    by (metis div_mult_mod_eq)
  then have "uptime = ((int (u div 60 div 60 div 24) * 24 + int (u div 60 div 60 mod 24)) * 60
      + int (u div 60 mod 60)) * 60 + int (u mod 60)"
    unfolding u by (metis of_nat_add of_nat_mult of_nat_numeral)
  ultimately show ?thesis
    by (intro exI conjI) (assumption | simp)+
qed

theorem parsedUptime_exact_witness:
  "\<exists>d h m s. parsedUptime 93784
      = take 49 (dec d @ '' d, '' @ dec h @ '' h, '' @ dec m @ '' m, '' @ dec s @ '' s'')
    \<and> 93784 = ((int d * 24 + int h) * 60 + int m) * 60 + int s \<and> h < 24 \<and> m < 60 \<and> s < 60"
  using parsedUptime_exact [of 93784] by simp

end
