(* ===== verification/Orion_Url.thy ===== *)
theory Orion_Url
  imports Orion_String
begin

section \<open>URLs: stringSplit, isIPv6, getIPv6Port and parseUrl of common/string.cpp\<close>

text \<open>
  The functions that take a notification URL apart, as loops over the string like the code, and
  the reference definition \<open>split_on\<close> (all pieces between delimiters) that they are proved
  equivalent to.
\<close>

subsection \<open>The code\<close>

definition checkGroupIPv6 :: "string \<Rightarrow> bool" where
  "checkGroupIPv6 s =
     (if s = [] then False
      else if s = '':'' then True
      else if length s > 5 then False
      else list_all isxdigit (take (length s - 1) s))"

lemma strchr_length: "strchr s c = Some (pre, post) \<Longrightarrow> length (tl post) < length s"
proof -
  assume *: "strchr s c = Some (pre, post)"
  then have "c \<in> set s" and post: "post = dropWhile (\<lambda>x. x \<noteq> c) s"
    by (auto simp: strchr_def split: if_splits)
  then have "post \<noteq> []" by (auto simp: dropWhile_eq_Nil_conv)
  then have "length (tl post) < length post" by (cases post) simp_all
  also have "\<dots> \<le> length s" using post by (simp add: length_dropWhile_le)
  finally show ?thesis .
qed

text \<open>The loop of \<^verbatim>\<open>isIPv6\<close>: \<^const>\<open>None\<close> for the early return of false, else the count.\<close>

function isIPv6_loop :: "string \<Rightarrow> int \<Rightarrow> int option" where
  "isIPv6_loop staux cont =
     (case strchr staux (CHR '':'') of
        None \<Rightarrow> Some cont
      | Some (pre, post) \<Rightarrow>
          if checkGroupIPv6 (pre @ '':'') = False then None
          else isIPv6_loop (tl post) (cont + 1))"
  by pat_completeness auto
termination
  by (relation "measure (\<lambda>(s, n). length s)") (auto dest: strchr_length)

declare isIPv6_loop.simps [simp del]

definition isIPv6 :: "string \<Rightarrow> bool" where
  "isIPv6 s = (case isIPv6_loop s 0 of None \<Rightarrow> False | Some cont \<Rightarrow> cont > 1 \<and> cont < 8)"

text \<open>The loop of \<^verbatim>\<open>getIPv6Port\<close>: what it moved to \<^verbatim>\<open>res\<close>, and the rest.\<close>

function getIPv6Port_loop :: "string \<Rightarrow> string \<Rightarrow> string \<times> string" where
  "getIPv6Port_loop staux res =
     (case strchr staux (CHR '':'') of
        None \<Rightarrow> (res, staux)
      | Some (pre, post) \<Rightarrow> getIPv6Port_loop (tl post) (res @ pre @ '':''))"
  by pat_completeness auto
termination
  by (relation "measure (\<lambda>(s, n). length s)") (auto dest: strchr_length)

declare getIPv6Port_loop.simps [simp del]

text \<open>Result, \<^verbatim>\<open>outIp\<close> and \<^verbatim>\<open>outPort\<close>, from their old values.\<close>

definition getIPv6Port :: "string \<Rightarrow> string \<Rightarrow> string \<Rightarrow> bool \<times> string \<times> string" where
  "getIPv6Port s outIp outPort =
     (let (res, staux) = getIPv6Port_loop s []
      in if res = [] then (False, outIp, outPort)
         else (isIPv6 res, take (length res - 1) res, staux))"

text \<open>
  \<^verbatim>\<open>stringSplit\<close> overwrites the delimiters with NUL in a copy and then walks over the
  components with \<^verbatim>\<open>strlen\<close>.
\<close>

fun pick_components :: "nat \<Rightarrow> string \<Rightarrow> string list" where
  "pick_components 0 buf = []"
| "pick_components (Suc n) buf =
     (let piece = takeWhile (\<lambda>c. c \<noteq> NUL) buf
      in piece # pick_components n (drop (length piece + 1) buf))"

definition stringSplit :: "string \<Rightarrow> char \<Rightarrow> string list \<Rightarrow> nat \<times> string list" where
  "stringSplit s delimiter outV =
     (let start = dropWhile (\<lambda>c. c = delimiter) (c_str s)
      in if start = [] then (0, outV)
         else let components = 1 + length (filter (\<lambda>c. c = delimiter) start);
                  buf = map (\<lambda>c. if c = delimiter then NUL else c) start
              in (components, outV @ pick_components components buf))"

record url_out =
  host :: string
  port :: int
  path :: string
  protocol :: string

text \<open>
  \<^verbatim>\<open>parseUrl\<close>. Reading \<^verbatim>\<open>hostTokens[0]\<close> from an empty vector is undefined
  behaviour, the result \<^const>\<open>None\<close>.
\<close>

definition parseUrl :: "string \<Rightarrow> url_out \<Rightarrow> (bool \<times> url_out) option" where
  "parseUrl url out =
     (if url = [] then Some (False, out)
      else let (components, urlTokens) = stringSplit url (CHR ''/'') []
      in if urlTokens = [] \<or> (urlTokens ! 0 \<noteq> ''https:'' \<and> urlTokens ! 0 \<noteq> ''http:'')
         then Some (False, out)
      else let out = out\<lparr>protocol := urlTokens ! 0\<rparr>
      in if length urlTokens < 3 \<or> urlTokens ! 2 = [] then Some (False, out)
      else if components < 3 \<or> (components = 3 \<and> length (urlTokens ! 2) = 0) then Some (False, out)
      else let path1 = concat (map (\<lambda>t. CHR ''/'' # t) (drop 3 urlTokens));
               out = out\<lparr>path := (if path1 = [] then ''/'' else path1)\<rparr>
      in case getIPv6Port (urlTokens ! 2) [] [] of
           (True, auxIp, auxPort) \<Rightarrow> Some (True, out\<lparr>host := auxIp, port := atoi (c_str auxPort)\<rparr>)
         | (False, auxIp, auxPort) \<Rightarrow>
             (let (components, hostTokens) = stringSplit (urlTokens ! 2) (CHR '':'') []
              in if components > 2 then Some (False, out)
                 else if hostTokens = [] then None
                 else let out = out\<lparr>host := hostTokens ! 0\<rparr>
                 in if components = 2
                    then if length (hostTokens ! 1) = 0 then Some (False, out)
                         else Some (True, out\<lparr>port := atoi (c_str (hostTokens ! 1))\<rparr>)
                    else Some (True, out\<lparr>port := (if urlTokens ! 0 = ''https:'' then 443 else 80)\<rparr>)))"

subsection \<open>The reference definition of splitting\<close>

fun split_on :: "char \<Rightarrow> string \<Rightarrow> string list" where
  "split_on d [] = [[]]"
| "split_on d (c # cs) =
     (if c = d then [] # split_on d cs
      else case split_on d cs of [] \<Rightarrow> [[c]] | g # gs \<Rightarrow> (c # g) # gs)"

fun join_with :: "char \<Rightarrow> string list \<Rightarrow> string" where
  "join_with d [] = []"
| "join_with d [g] = g"
| "join_with d (g # h # gs) = g @ d # join_with d (h # gs)"

lemma split_on_not_Nil [simp]: "split_on d s \<noteq> []"
  by (cases s) (auto split: list.splits)

lemma split_on_append [simp]: "d \<notin> set g \<Longrightarrow> split_on d (g @ d # s) = g # split_on d s"
  by (induction g) auto

lemma split_on_single [simp]: "d \<notin> set g \<Longrightarrow> split_on d g = [g]"
  by (induction g) auto

lemma join_split [simp]: "join_with d (split_on d s) = s"
proof (induction s)
  case (Cons c cs)
  then show ?case by (cases "split_on d cs" rule: list.exhaust; cases "tl (split_on d cs)")
      (auto simp: neq_Nil_conv)
qed simp

lemma split_on_pieces: "g \<in> set (split_on d s) \<Longrightarrow> d \<notin> set g \<and> set g \<subseteq> set s"
proof (induction s arbitrary: g)
  case (Cons c cs)
  then show ?case by (cases "split_on d cs") (auto split: if_splits, blast+)
qed simp

lemma length_split_on: "length (split_on d s) = Suc (length (filter (\<lambda>c. c = d) s))"
proof (induction s)
  case (Cons c cs)
  then show ?case by (cases "split_on d cs") auto
qed simp

text \<open>Every string is either one piece or a first piece, a delimiter and the rest.\<close>

lemma split_on_cases:
  obtains (one) "d \<notin> set s" "split_on d s = [s]" "strchr s d = None"
  | (more) pre rest where "s = pre @ d # rest" "d \<notin> set pre" "split_on d s = pre # split_on d rest"
      "strchr s d = Some (pre, d # rest)"
proof (cases "d \<in> set s")
  case True
  then obtain pre rest where *: "s = pre @ d # rest" "d \<notin> set pre" by (meson split_list_first)
  then have "strchr s d = Some (pre, d # rest)"
    by (auto simp: strchr_def takeWhile_tail takeWhile_append dropWhile_append)
  with * show ?thesis using more by simp
next
  case False
  then show ?thesis using one by (simp add: strchr_def)
qed

subsection \<open>The code against the reference\<close>

lemma pick_components_split:
  assumes "NUL \<notin> set s" and "d \<noteq> NUL"
  shows "pick_components (length (split_on d s)) (map (\<lambda>c. if c = d then NUL else c) s) = split_on d s"
  using assms(1)
proof (induction "length s" arbitrary: s rule: less_induct)
  case less
  have keep: "map (\<lambda>c. if c = d then NUL else c) g = g" if "d \<notin> set g" for g
    using that by (induction g) auto
  have upto: "takeWhile (\<lambda>c. c \<noteq> NUL) (g @ NUL # r) = g" if "NUL \<notin> set g" for g r
    using that by (induction g) auto
  have all: "takeWhile (\<lambda>c. c \<noteq> NUL) g = g" if "NUL \<notin> set g" for g
    using that by (induction g) auto
  show ?case
  proof (cases rule: split_on_cases [of d s])
    case one
    then show ?thesis using less.prems by (simp add: keep all)
  next
    case (more pre rest)
    then have "pick_components (length (split_on d rest)) (map (\<lambda>c. if c = d then NUL else c) rest)
        = split_on d rest"
      using less.prems by (intro less.hyps) simp_all
    then show ?thesis using more less.prems by (simp add: keep upto)
  qed
qed

lemma stringSplit_eq:
  assumes "d \<noteq> NUL"
  shows "stringSplit s d outV =
    (let t = dropWhile (\<lambda>c. c = d) (c_str s)
     in if t = [] then (0, outV) else (length (split_on d t), outV @ split_on d t))"
proof -
  have "NUL \<notin> set (dropWhile (\<lambda>c. c = d) (c_str s))"
    using NUL_notin_c_str set_dropWhileD by fast
  from pick_components_split [OF this assms] show ?thesis
    by (simp add: stringSplit_def Let_def length_split_on)
qed

lemma checkGroup_iff: "checkGroupIPv6 (g @ '':'') \<longleftrightarrow> length g \<le> 4 \<and> list_all isxdigit g"
  by (auto simp: checkGroupIPv6_def)

lemma isIPv6_loop_eq:
  "isIPv6_loop s n =
     (if list_all (\<lambda>g. length g \<le> 4 \<and> list_all isxdigit g) (butlast (split_on (CHR '':'') s))
      then Some (n + int (length (split_on (CHR '':'') s)) - 1) else None)"
proof (induction "length s" arbitrary: s n rule: less_induct)
  case less
  show ?case
  proof (cases rule: split_on_cases [of "CHR '':''" s])
    case one
    then show ?thesis by (subst isIPv6_loop.simps) simp
  next
    case (more pre rest)
    then have "length rest < length s" by simp
    from less.hyps [OF this] show ?thesis
      using more by (subst isIPv6_loop.simps) (auto simp: checkGroup_iff)
  qed
qed

lemma getIPv6Port_loop_eq:
  "getIPv6Port_loop s res =
     (res @ concat (map (\<lambda>g. g @ '':'') (butlast (split_on (CHR '':'') s))), last (split_on (CHR '':'') s))"
proof (induction "length s" arbitrary: s res rule: less_induct)
  case less
  show ?case
  proof (cases rule: split_on_cases [of "CHR '':''" s])
    case one
    then show ?thesis by (subst getIPv6Port_loop.simps) simp
  next
    case (more pre rest)
    then have "length rest < length s" by simp
    from less.hyps [OF this] show ?thesis
      using more by (subst getIPv6Port_loop.simps) simp
  qed
qed

lemma concat_split: "concat (map (\<lambda>t. d # t) (split_on d q)) = d # q"
proof (induction "length q" arbitrary: q rule: less_induct)
  case less
  show ?case
  proof (cases rule: split_on_cases [of d q])
    case one
    then show ?thesis by simp
  next
    case (more pre rest)
    then show ?thesis using less.hyps [of rest] by simp
  qed
qed

text \<open>The components that \<^verbatim>\<open>stringSplit\<close> finds by overwriting delimiters in a copy and
  walking over it are exactly the pieces between delimiters after the leading delimiters; the return
  value counts them, no piece contains a delimiter, and joining them gives the string back.\<close>

theorem stringSplit_correct:
  assumes "d \<noteq> NUL" and "stringSplit s d [] = (n, pieces)"
  shows "n = length pieces \<and> join_with d pieces = dropWhile (\<lambda>c. c = d) (c_str s)
    \<and> (\<forall>g \<in> set pieces. d \<notin> set g) \<and> (n = 0 \<longleftrightarrow> dropWhile (\<lambda>c. c = d) (c_str s) = [])"
proof -
  define t where "t = dropWhile (\<lambda>c. c = d) (c_str s)"
  have "stringSplit s d [] = (if t = [] then (0, []) else (length (split_on d t), split_on d t))"
    by (simp add: stringSplit_eq [OF assms(1)] t_def [symmetric])
  with assms(2) show ?thesis
    using split_on_pieces unfolding t_def [symmetric] by (cases "t = []") auto
qed

theorem stringSplit_correct_witness:
  "stringSplit ''//a//b/'' (CHR ''/'') [] = (4, [''a'', [], ''b'', []])
   \<and> join_with (CHR ''/'') [''a'', [], ''b'', []] = ''a//b/''"
proof -
  have run: "stringSplit ''//a//b/'' (CHR ''/'') [] = (4, [''a'', [], ''b'', []])"
    by (simp add: stringSplit_def c_str_def)
  from stringSplit_correct [OF _ run] run show ?thesis by (simp add: c_str_def)
qed

text \<open>\<^verbatim>\<open>isIPv6\<close> accepts exactly the strings with two to seven colons in which every
  group before a colon has at most four characters, all hexadecimal digits. The text after the last
  colon is not looked at.\<close>

theorem isIPv6_iff:
  "isIPv6 s \<longleftrightarrow>
     (let groups = split_on (CHR '':'') s
      in 3 \<le> length groups \<and> length groups \<le> 8
         \<and> (\<forall>g \<in> set (butlast groups). length g \<le> 4 \<and> (\<forall>c \<in> set g. isxdigit c)))"
  by (auto simp: isIPv6_def isIPv6_loop_eq Let_def list_all_iff)

theorem isIPv6_iff_witness:
  "isIPv6 ''2001:db8::7334'' \<and> isIPv6 ''1:2:zzzz'' \<and> \<not> isIPv6 ''1:zz:3''"
  unfolding isIPv6_iff by (simp add: isxdigit_def isdigit_def)

definition default_port :: "string \<Rightarrow> int" where
  "default_port proto = (if proto = ''https:'' then 443 else 80)"

definition url_of :: "string \<Rightarrow> string \<Rightarrow> nat option \<Rightarrow> string \<Rightarrow> string" where
  "url_of proto h po p =
     proto @ ''//'' @ h @ (case po of None \<Rightarrow> [] | Some n \<Rightarrow> '':'' @ dec n) @ p"

lemma set_dec_digits: "c \<in> set (dec n) \<Longrightarrow> c \<noteq> CHR ''/'' \<and> c \<noteq> CHR '':'' \<and> c \<noteq> NUL"
  using dec_isdigit [of c n] by (auto simp: isdigit_def)

definition authority :: "string \<Rightarrow> nat option \<Rightarrow> string" where
  "authority h po = h @ (case po of None \<Rightarrow> [] | Some n \<Rightarrow> '':'' @ dec n)"

lemma authority_chars:
  assumes "CHR ''/'' \<notin> set h" and "NUL \<notin> set h" and "h \<noteq> []"
  shows "CHR ''/'' \<notin> set (authority h po)" and "NUL \<notin> set (authority h po)" and "authority h po \<noteq> []"
  using assms set_dec_digits by (auto simp: authority_def split: option.splits)

lemma stringSplit_url:
  assumes "proto = ''http:'' \<or> proto = ''https:''"
    and "CHR ''/'' \<notin> set a" and "NUL \<notin> set a" and "NUL \<notin> set p" and "p = [] \<or> hd p = CHR ''/''"
  shows "stringSplit (proto @ ''//'' @ a @ p) (CHR ''/'') []
    = (3 + (if p = [] then 0 else length (split_on (CHR ''/'') (tl p))),
       [proto, [], a] @ (if p = [] then [] else split_on (CHR ''/'') (tl p)))"
proof -
  have np: "CHR ''/'' \<notin> set proto" "NUL \<notin> set proto" "proto \<noteq> []" "hd proto = CHR ''h''"
    using assms(1) by auto
  have "c_str (proto @ ''//'' @ a @ p) = proto @ ''//'' @ a @ p"
    by (rule c_str_no_NUL) (use np assms(3,4) in auto)
  moreover have "dropWhile (\<lambda>c. c = CHR ''/'') (proto @ r) = proto @ r" for r
    using np(3,4) by (cases proto) auto
  moreover have "split_on (CHR ''/'') (proto @ ''//'' @ a @ p)
      = [proto, [], a] @ (if p = [] then [] else split_on (CHR ''/'') (tl p))"
  proof (cases p)
    case (Cons c q)
    then have "c = CHR ''/''" using assms(5) by simp
    then show ?thesis using Cons np(1) assms(2) by simp
  qed (use np(1) assms(2) in simp)
  ultimately show ?thesis using np(3) by (simp add: stringSplit_eq)
qed

lemma getIPv6Port_authority:
  assumes "CHR '':'' \<notin> set h"
  shows "fst (getIPv6Port (authority h po) ip pt) = False"
proof (cases po)
  case None
  then show ?thesis using assms by (simp add: getIPv6Port_def getIPv6Port_loop_eq authority_def)
next
  case (Some n)
  have "split_on (CHR '':'') (dec n) = [dec n]" using set_dec_digits by (intro split_on_single) blast
  then have "getIPv6Port_loop (authority h po) [] = (h @ '':'', dec n)"
    using assms Some by (simp add: getIPv6Port_loop_eq authority_def)
  moreover have "\<not> isIPv6 (h @ '':'')" using assms by (simp add: isIPv6_iff)
  ultimately show ?thesis by (simp add: getIPv6Port_def)
qed

lemma stringSplit_authority:
  assumes "CHR '':'' \<notin> set h" and "NUL \<notin> set h" and "h \<noteq> []"
  shows "stringSplit (authority h po) (CHR '':'') []
    = (case po of None \<Rightarrow> (1, [h]) | Some n \<Rightarrow> (2, [h, dec n]))"
proof -
  have "c_str (authority h po) = authority h po"
    by (rule c_str_no_NUL) (use assms set_dec_digits in \<open>auto simp: authority_def split: option.splits\<close>)
  moreover have "dropWhile (\<lambda>c. c = CHR '':'') (authority h po) = authority h po"
    using assms by (cases h) (auto simp: authority_def)
  moreover have "split_on (CHR '':'') (dec n) = [dec n]" for n
    using set_dec_digits by (intro split_on_single) blast
  ultimately show ?thesis using assms
    by (auto simp: stringSplit_eq authority_def split: option.splits)
qed



text \<open>A URL whose host part is a single colon passes every check and then reads the first
  element of an empty vector: \<^verbatim>\<open>parseUrl\<close> has undefined behaviour on it.\<close>

theorem parseUrl_colon_host_undefined: "parseUrl ''http://:/notify'' out = None"
proof -
  have "stringSplit ''http://:/notify'' (CHR ''/'') [] = (4, [''http:'', [], '':'', ''notify''])"
    by (simp add: stringSplit_def c_str_def)
  moreover have "stringSplit '':'' (CHR '':'') [] = (0, [])"
    by (simp add: stringSplit_def c_str_def)
  moreover have "getIPv6Port '':'' [] [] = (False, [], [])"
    by (simp add: getIPv6Port_def getIPv6Port_loop_eq isIPv6_iff)
  ultimately show ?thesis by (simp add: parseUrl_def)
qed

end
