(* ===== verification/Orion_Globals.thy ===== *)
theory Orion_Globals
  imports Orion_String
begin

section \<open>Globals: common/globals.cpp\<close>

text \<open>
  The running transaction number and the transaction identifier (\<^verbatim>\<open>transactionIdGet\<close>,
  \<^verbatim>\<open>transactionIdSet\<close>), the flags of the API (\<^verbatim>\<open>isTrue\<close>, \<^verbatim>\<open>isFalse\<close>),
  ISO 8601 durations (\<^verbatim>\<open>toSeconds\<close>, \<^verbatim>\<open>parse8601\<close>) and the corners of a box. The
  running number is a 32-bit \<^verbatim>\<open>int\<close> whose increment wraps around; the accumulated duration is
  a 64-bit integer. The seconds of a duration are read with \<^verbatim>\<open>(int) round(atof(start))\<close>
  through a \<^verbatim>\<open>float\<close>: this conversion is the parameter \<open>secs\<close>.
\<close>

subsection \<open>Transaction identifiers\<close>

text \<open>\<^verbatim>\<open>transactionIdGet(readonly)\<close> on its static variable: the result is the new value.\<close>

definition transactionIdGet :: "bool \<Rightarrow> 32 word \<Rightarrow> 32 word" where
  "transactionIdGet readonly transactionId =
     (if readonly = False
      then let transactionId = transactionId + 1
           in if sint transactionId < 0 then 1 else transactionId
      else transactionId)"

record trans_state =
  trans_no :: "32 word"
  firstTime :: bool
  start_sec :: nat
  start_usec :: nat
  transactionId :: string

definition transactionIdSet :: "trans_state \<Rightarrow> trans_state" where
  "transactionIdSet st =
     (let transaction = transactionIdGet False (trans_no st);
          usec = (if firstTime st = False \<and> transaction = 1 then start_usec st + 1 else start_usec st)
      in st\<lparr>trans_no := transaction, start_usec := usec,
            transactionId := dec (start_sec st) @ ''-'' @ pad0 3 (dec (usec div 1000)) @ ''-''
              @ pad0 11 (show_int (sint transaction)),
            firstTime := False\<rparr>)"

text \<open>The state before the first transaction.\<close>

definition trans_init :: "nat \<Rightarrow> nat \<Rightarrow> trans_state" where
  "trans_init sec usec = \<lparr>trans_no = 0, firstTime = True, start_sec = sec, start_usec = usec,
     transactionId = ''N/A''\<rparr>"

subsection \<open>Flags\<close>

definition isTrue :: "string \<Rightarrow> bool" where
  "isTrue s = (if s = ''true'' \<or> s = ''1'' then True else False)"

definition isFalse :: "string \<Rightarrow> bool" where
  "isFalse s = (if s = ''false'' \<or> s = ''0'' then True else False)"

subsection \<open>Durations\<close>

text \<open>\<^verbatim>\<open>toSeconds\<close>, with the details of the alarm it raises.\<close>

definition toSeconds :: "int \<Rightarrow> char \<Rightarrow> bool \<Rightarrow> int \<times> string list" where
  "toSeconds val what dayPart =
     (let result =
        (if dayPart = True
         then if what = CHR ''Y'' then 365 * 24 * 3600 * val
              else if what = CHR ''M'' then 30 * 24 * 3600 * val
              else if what = CHR ''W'' then 7 * 24 * 3600 * val
              else if what = CHR ''D'' then 24 * 3600 * val
              else - 1
         else if what = CHR ''H'' then 3600 * val
              else if what = CHR ''M'' then 60 * val
              else if what = CHR ''S'' then val
              else - 1)
      in (result, if result = - 1 then [''ERROR in duration string''] else []))"

text \<open>
  The loop of \<^verbatim>\<open>parse8601\<close>: the rest of the string, the text between \<^verbatim>\<open>start\<close> and
  the current character, and the local variables of the loop.
\<close>

primrec parse8601_loop ::
    "(string \<Rightarrow> int) \<Rightarrow> string \<Rightarrow> string \<Rightarrow> bool \<Rightarrow> int \<Rightarrow> bool \<Rightarrow> string list \<Rightarrow> int \<times> string list" where
  "parse8601_loop secs [] start dayPart accumulated digitsPending alarms =
     (if digitsPending then (- 1, alarms) else (accumulated, alarms))"
| "parse8601_loop secs (c # duration) start dayPart accumulated digitsPending alarms =
     (if isdigit c \<or> c = CHR ''.'' \<or> c = CHR '',''
      then parse8601_loop secs duration (start @ [c]) dayPart accumulated True alarms
      else if dayPart \<and> c \<in> set ''YMDW''
      then let val = atoi start
           in if val = 0 \<and> (start = [] \<or> hd start \<noteq> CHR ''0'')
              then (- 1, alarms @ [''parse error for duration '' @ quoted start])
              else let (t, al) = toSeconds val c dayPart
                   in parse8601_loop secs duration [] dayPart (wrap64 (accumulated + t)) False (alarms @ al)
      else if dayPart \<and> c = CHR ''T''
      then parse8601_loop secs duration [] False accumulated False alarms
      else if \<not> dayPart \<and> c \<in> set ''HMS''
      then let val = (if c = CHR ''S'' then secs start else atoi start);
               (t, al) = toSeconds val c dayPart
           in parse8601_loop secs duration [] dayPart (wrap64 (accumulated + t)) False (alarms @ al)
      else (- 1, alarms))"

definition parse8601 :: "(string \<Rightarrow> int) \<Rightarrow> string \<Rightarrow> int \<times> string list" where
  "parse8601 secs s =
     (if s = [] then (- 1, [])
      else let duration = c_str s
      in if duration = [] \<or> hd duration \<noteq> CHR ''P'' then (- 1, [])
      else if tl duration = [] then (- 1, [])
      else parse8601_loop secs (tl duration) [] True 0 False [])"

text \<open>\<^verbatim>\<open>orderCoordsForBox\<close>: \<^const>\<open>None\<close> for a degenerate box, else the four bounds.\<close>

definition orderCoordsForBox :: "dbl \<Rightarrow> dbl \<Rightarrow> dbl \<Rightarrow> dbl \<Rightarrow> (dbl \<times> dbl \<times> dbl \<times> dbl) option" where
  "orderCoordsForBox lat1 lat2 lon1 lon2 =
     (if deq lat1 lat2 \<or> deq lon1 lon2 then None
      else Some (if dlt lat1 lat2 then lat1 else lat2, if dlt lat2 lat1 then lat1 else lat2,
                 if dlt lon1 lon2 then lon1 else lon2, if dlt lon2 lon1 then lon1 else lon2))"

subsection \<open>The running number\<close>

text \<open>Below the maximum the number counts; from the maximum it goes back to one.\<close>

lemma transactionIdGet_val:
  assumes "0 \<le> sint t"
  shows "sint (transactionIdGet False t) = (if sint t = int_max then 1 else sint t + 1)"
proof -
  have up: "sint t \<le> int_max" using sint_lt [of t] by simp
  have wrap: "sint (t + 1) = signed_take_bit 31 (sint t + 1)"
    by (simp add: sint_word_ariths)
  show ?thesis
  proof (cases "sint t = int_max")
    case True
    then have "sint (t + 1) < 0" unfolding wrap by (simp add: signed_take_bit_eq_take_bit_shift take_bit_eq_mod)
    then show ?thesis using True by (simp add: transactionIdGet_def)
  next
    case False
    then have "sint (t + 1) = sint t + 1"
      unfolding wrap using assms up by (intro signed_take_bit_int_eq_self) simp_all
    then show ?thesis using False assms by (simp add: transactionIdGet_def)
  qed
qed

text \<open>The number after \<open>k + 1\<close> transactions: it runs through 1 to the maximum, again and again.\<close>

lemma trans_no_iterate:
  "sint (((transactionIdGet False) ^^ Suc k) 0) = int (k mod 2147483647) + 1"
proof (induction k)
  case 0
  show ?case using transactionIdGet_val [of 0] by simp
next
  case (Suc k)
  let ?t = "((transactionIdGet False) ^^ Suc k) 0"
  have "sint (((transactionIdGet False) ^^ Suc (Suc k)) 0) = sint (transactionIdGet False ?t)" by simp
  also have "\<dots> = (if sint ?t = int_max then 1 else sint ?t + 1)"
    using Suc by (intro transactionIdGet_val) (simp del: funpow.simps)
  also have "\<dots> = int (Suc k mod 2147483647) + 1"
    unfolding Suc by (simp add: mod_Suc)
  finally show ?case .
qed

lemma transactionIdSet_iterate:
  "(transactionIdSet ^^ Suc k) (trans_init sec usec) =
     \<lparr>trans_no = ((transactionIdGet False) ^^ Suc k) 0, firstTime = False, start_sec = sec,
      start_usec = usec + k div 2147483647,
      transactionId = dec sec @ ''-'' @ pad0 3 (dec ((usec + k div 2147483647) div 1000)) @ ''-''
        @ pad0 11 (dec (k mod 2147483647 + 1))\<rparr>"
proof (induction k)
  case 0
  have "sint (transactionIdGet False 0) = 1" using trans_no_iterate [of 0] by simp
  then show ?case by (simp add: transactionIdSet_def trans_init_def Let_def show_int_def)
next
  case (Suc k)
  let ?t = "((transactionIdGet False) ^^ Suc (Suc k)) 0"
  have t: "transactionIdGet False (((transactionIdGet False) ^^ Suc k) 0) = ?t" by simp
  have val: "sint ?t = int (Suc k mod 2147483647) + 1" by (rule trans_no_iterate)
  have one: "?t = 1 \<longleftrightarrow> Suc k mod 2147483647 = 0"
  proof
    assume "?t = 1"
    then have "sint ?t = 1" by (simp del: funpow.simps)
    with val show "Suc k mod 2147483647 = 0" by simp
  next
    assume "Suc k mod 2147483647 = 0"
    with val have "sint ?t = sint (1 :: 32 word)" by simp
    then show "?t = 1" by (rule signed_word_eqI)
  qed
  have "Suc k div 2147483647 = (if Suc k mod 2147483647 = 0 then Suc (k div 2147483647) else k div 2147483647)"
    by (simp add: div_Suc)
  moreover have "show_int (int (Suc k mod 2147483647) + 1) = dec (Suc k mod 2147483647 + 1)"
    using show_int_nat [of "Suc k mod 2147483647 + 1"] by (simp only: of_nat_add of_nat_1)
  moreover have "(transactionIdSet ^^ Suc (Suc k)) (trans_init sec usec)
      = transactionIdSet ((transactionIdSet ^^ Suc k) (trans_init sec usec))" by simp
  ultimately show ?case
    unfolding Suc transactionIdSet_def by (simp add: t one val Let_def del: funpow.simps)
qed

lemma length_dec: "n < 10 ^ Suc k \<Longrightarrow> length (dec n) \<le> Suc k"
proof (induction k arbitrary: n)
  case 0
  then show ?case by (subst dec.simps) simp
next
  case (Suc k)
  show ?case
  proof (cases "n < 10")
    case True
    then show ?thesis by (subst dec.simps) simp
  next
    case False
    have "n div 10 < 10 ^ Suc k" using Suc.prems by auto
    with Suc.IH have "length (dec (n div 10)) \<le> Suc k" by blast
    then show ?thesis using False by (subst dec.simps) simp
  qed
qed

lemma length_pad0_11: "n < 10 ^ 11 \<Longrightarrow> length (pad0 11 (dec n)) = 11"
  using length_dec [of n 10] by (simp add: pad0_def)

text \<open>The transaction identifiers of fewer than 2147483647 consecutive transactions are
  pairwise different, also across the point where the running number starts again from 1.\<close>

theorem transactionId_distinct:
  assumes "i < j" and "j - i < 2147483647"
  shows "transactionId ((transactionIdSet ^^ Suc i) (trans_init sec usec))
    \<noteq> transactionId ((transactionIdSet ^^ Suc j) (trans_init sec usec))"
proof
  let ?n = "\<lambda>k. k mod 2147483647 + 1 :: nat"
  assume "transactionId ((transactionIdSet ^^ Suc i) (trans_init sec usec))
    = transactionId ((transactionIdSet ^^ Suc j) (trans_init sec usec))"
  then have eq: "dec sec @ ''-'' @ pad0 3 (dec ((usec + i div 2147483647) div 1000)) @ ''-'' @ pad0 11 (dec (?n i))
      = dec sec @ ''-'' @ pad0 3 (dec ((usec + j div 2147483647) div 1000)) @ ''-'' @ pad0 11 (dec (?n j))"
    unfolding transactionIdSet_iterate by (simp only: trans_state.simps)
  have "?n k < 10 ^ 11" for k
    using mod_less_divisor [of 2147483647 k] by simp
  then have len: "length (pad0 11 (dec (?n k))) = 11" for k by (rule length_pad0_11)
  let ?p = "\<lambda>k. dec sec @ ''-'' @ pad0 3 (dec ((usec + k div 2147483647) div 1000)) @ ''-''"
  from eq have "?p i @ pad0 11 (dec (?n i)) = ?p j @ pad0 11 (dec (?n j))"
    by (simp only: append_assoc)
  then have "pad0 11 (dec (?n i)) = pad0 11 (dec (?n j))"
    by (rule append_eq_suffix) (simp only: len)
  then have "i mod 2147483647 = j mod 2147483647" by (simp add: pad0_dec_inject)
  then have "(2147483647 :: nat) dvd j - i" using assms(1) by (metis less_imp_le mod_eq_dvd_iff_nat)
  then show False using assms by (meson dvd_imp_le not_less zero_less_diff)
qed

theorem transactionId_distinct_witness:
  "transactionId ((transactionIdSet ^^ Suc 5) (trans_init 1400000000 250123))
   \<noteq> transactionId ((transactionIdSet ^^ Suc 6) (trans_init 1400000000 250123))"
  using transactionId_distinct [of 5 6] by simp

text \<open>When the running number overflows, the code adds one microsecond to the start time, not
  the millisecond its comment promises; the identifier prints milliseconds, so unless the start time
  was in the last microsecond of a millisecond the first transaction after the overflow has the
  identifier of the very first one.\<close>

theorem transactionId_repeats:
  assumes "usec mod 1000 \<noteq> 999"
  shows "transactionId ((transactionIdSet ^^ Suc 2147483647) (trans_init sec usec))
    = transactionId (transactionIdSet (trans_init sec usec))"
proof -
  have "(usec + 1) div 1000 = usec div 1000" using assms by (simp add: div_Suc mod_Suc)
  moreover have "transactionIdSet (trans_init sec usec) = (transactionIdSet ^^ Suc 0) (trans_init sec usec)"
    by simp
  ultimately show ?thesis unfolding transactionIdSet_iterate by (simp only: trans_state.simps) simp
qed

theorem transactionId_repeats_witness:
  "transactionId ((transactionIdSet ^^ Suc 2147483647) (trans_init 1400000000 250123))
    = transactionId (transactionIdSet (trans_init 1400000000 250123))"
  by (rule transactionId_repeats) simp

subsection \<open>Durations read back\<close>

text \<open>The text of a list of numbers with their designators, and the seconds they stand for.\<close>

definition render_parts :: "(nat \<times> char) list \<Rightarrow> string" where
  "render_parts ps = concat (map (\<lambda>p. dec (fst p) @ [snd p]) ps)"

definition parts_seconds :: "bool \<Rightarrow> (nat \<times> char) list \<Rightarrow> int" where
  "parts_seconds dayPart ps = (\<Sum>p\<leftarrow>ps. fst (toSeconds (int (fst p)) (snd p) dayPart))"

definition duration_text :: "(nat \<times> char) list \<Rightarrow> (nat \<times> char) list \<Rightarrow> string" where
  "duration_text ds ts = ''P'' @ render_parts ds @ (if ts = [] then [] else ''T'' @ render_parts ts)"

text \<open>
  What the loop relies on for whole seconds: up to \<open>2 ^ 24\<close> a \<^verbatim>\<open>float\<close> holds every
  integer exactly.
\<close>

definition secs_exact :: "(string \<Rightarrow> int) \<Rightarrow> bool" where
  "secs_exact secs \<longleftrightarrow> (\<forall>n \<le> 2 ^ 24. secs (dec n) = int n)"

lemma parse8601_digits:
  "list_all isdigit ds \<Longrightarrow> parse8601_loop secs (ds @ rest) start dp acc pend al
     = parse8601_loop secs rest (start @ ds) dp acc (pend \<or> ds \<noteq> []) al"
  by (induction ds arbitrary: start pend) simp_all

lemma list_all_dec: "list_all isdigit (dec n)"
  using dec_isdigit by (auto simp: list_all_iff)

lemma unit_not_digit:
  "u \<in> set ''YMDWTHS'' \<Longrightarrow> \<not> isdigit u \<and> u \<noteq> CHR ''.'' \<and> u \<noteq> CHR '',''"
  by (auto simp: isdigit_def)

lemma atoi_dec_plain: "n < 2 ^ 31 \<Longrightarrow> atoi (dec n) = int n"
  using atoi_dec [of n "[]"] by simp

lemma dec_0: "dec 0 = ''0''"
  by (subst dec.simps) (simp add: digit_char_def, code_simp)

lemma toSeconds_nonneg:
  "u \<in> set (if dp then ''YMDW'' else ''HMS'') \<Longrightarrow> 0 \<le> fst (toSeconds (int n) u dp) \<and> snd (toSeconds (int n) u dp) = []"
  by (auto simp: toSeconds_def Let_def split: if_splits)

lemma parse8601_day:
  assumes "n < 2 ^ 31" and "u \<in> set ''YMDW''"
  shows "parse8601_loop secs (dec n @ u # rest) [] True acc pend al
    = parse8601_loop secs rest [] True (wrap64 (acc + fst (toSeconds (int n) u True))) False al"
proof -
  have nd: "\<not> isdigit u \<and> u \<noteq> CHR ''.'' \<and> u \<noteq> CHR '',''"
    using assms(2) by (intro unit_not_digit) auto
  have zero: "\<not> (atoi (dec n) = 0 \<and> (dec n = [] \<or> hd (dec n) \<noteq> CHR ''0''))"
    using assms(1) by (cases "n = 0") (simp_all add: atoi_dec_plain dec_0)
  have "parse8601_loop secs (dec n @ u # rest) [] True acc pend al
      = parse8601_loop secs (u # rest) (dec n) True acc True al"
    by (simp only: parse8601_digits [OF list_all_dec] append_Nil dec_not_Nil) simp
  also have "\<dots> = parse8601_loop secs rest [] True (wrap64 (acc + fst (toSeconds (int n) u True))) False al"
    using nd zero assms toSeconds_nonneg [of u True n]
    by (simp only: parse8601_loop.simps Let_def atoi_dec_plain if_False if_True simp_thms split_beta append_Nil2)
  finally show ?thesis .
qed

lemma parse8601_time:
  assumes "n < 2 ^ 31" and "u \<in> set ''HMS''" and "secs_exact secs" and "u = CHR ''S'' \<Longrightarrow> n \<le> 2 ^ 24"
  shows "parse8601_loop secs (dec n @ u # rest) [] False acc pend al
    = parse8601_loop secs rest [] False (wrap64 (acc + fst (toSeconds (int n) u False))) False al"
proof -
  have nd: "\<not> isdigit u \<and> u \<noteq> CHR ''.'' \<and> u \<noteq> CHR '',''"
    using assms(2) by (intro unit_not_digit) auto
  have val: "(if u = CHR ''S'' then secs (dec n) else atoi (dec n)) = int n"
    using assms by (auto simp: atoi_dec_plain secs_exact_def)
  have "parse8601_loop secs (dec n @ u # rest) [] False acc pend al
      = parse8601_loop secs (u # rest) (dec n) False acc True al"
    by (simp only: parse8601_digits [OF list_all_dec] append_Nil dec_not_Nil) simp
  also have "\<dots> = parse8601_loop secs rest [] False (wrap64 (acc + fst (toSeconds (int n) u False))) False al"
    using nd assms(2) toSeconds_nonneg [of u False n]
    by (simp only: parse8601_loop.simps Let_def val if_False if_True simp_thms split_beta append_Nil2)
  finally show ?thesis .
qed

lemma parse8601_days:
  "\<forall>p \<in> set ds. fst p < 2 ^ 31 \<and> snd p \<in> set ''YMDW'' \<Longrightarrow>
   parse8601_loop secs (render_parts ds @ rest) [] True (wrap64 acc) False al
     = parse8601_loop secs rest [] True (wrap64 (acc + parts_seconds True ds)) False al"
proof (induction ds arbitrary: acc)
  case (Cons p ds)
  have "parse8601_loop secs (dec (fst p) @ snd p # (render_parts ds @ rest)) [] True (wrap64 acc) False al
      = parse8601_loop secs (render_parts ds @ rest) [] True
          (wrap64 (acc + fst (toSeconds (int (fst p)) (snd p) True))) False al"
    using Cons.prems by (subst parse8601_day) (auto simp: wrap64_add)
  with Cons show ?case by (simp add: render_parts_def parts_seconds_def add.assoc)
qed (simp add: render_parts_def parts_seconds_def)

lemma parse8601_times:
  "secs_exact secs \<Longrightarrow>
   \<forall>p \<in> set ts. fst p < 2 ^ 31 \<and> snd p \<in> set ''HMS'' \<and> (snd p = CHR ''S'' \<longrightarrow> fst p \<le> 2 ^ 24) \<Longrightarrow>
   parse8601_loop secs (render_parts ts) [] False (wrap64 acc) False al
     = (wrap64 (acc + parts_seconds False ts), al)"
proof (induction ts arbitrary: acc)
  case (Cons p ts)
  have "parse8601_loop secs (dec (fst p) @ snd p # render_parts ts) [] False (wrap64 acc) False al
      = parse8601_loop secs (render_parts ts) [] False
          (wrap64 (acc + fst (toSeconds (int (fst p)) (snd p) False))) False al"
    using Cons.prems by (subst parse8601_time) (auto simp: wrap64_add)
  with Cons show ?case by (simp add: render_parts_def parts_seconds_def add.assoc)
qed (simp add: render_parts_def parts_seconds_def)

lemma render_parts_chars: "\<forall>p \<in> set ps. snd p \<noteq> NUL \<Longrightarrow> NUL \<notin> set (render_parts ps)"
  using dec_chars by (auto simp: render_parts_def)

text \<open>\<^verbatim>\<open>parse8601\<close> reads a duration back: for any list of numbers with the designators
  Y, M, W, D, followed by any list with H, M, S after a T, the result is the sum of their seconds
  (a year is 365 days, a month 30), in 64-bit arithmetic, and no alarm is raised.\<close>

theorem parse8601_roundtrip:
  assumes "secs_exact secs" and "ds \<noteq> [] \<or> ts \<noteq> []"
    and "\<forall>p \<in> set ds. fst p < 2 ^ 31 \<and> snd p \<in> set ''YMDW''"
    and "\<forall>p \<in> set ts. fst p < 2 ^ 31 \<and> snd p \<in> set ''HMS'' \<and> (snd p = CHR ''S'' \<longrightarrow> fst p \<le> 2 ^ 24)"
  shows "parse8601 secs (duration_text ds ts) = (wrap64 (parts_seconds True ds + parts_seconds False ts), [])"
proof -
  let ?tail = "if ts = [] then [] else ''T'' @ render_parts ts"
  have "\<forall>p \<in> set ds. snd p \<noteq> NUL" and "\<forall>p \<in> set ts. snd p \<noteq> NUL"
    using assms(3,4) by fastforce+
  then have "NUL \<notin> set (duration_text ds ts)"
    using render_parts_chars [of ds] render_parts_chars [of ts]
    by (simp add: duration_text_def)
  moreover have "render_parts ds @ ?tail \<noteq> []"
    using assms(2) by (cases ds) (simp_all add: render_parts_def)
  ultimately have "parse8601 secs (duration_text ds ts)
      = parse8601_loop secs (render_parts ds @ ?tail) [] True (wrap64 0) False []"
    by (simp add: parse8601_def duration_text_def Let_def)
  also have "\<dots> = parse8601_loop secs ?tail [] True (wrap64 (parts_seconds True ds)) False []"
    using parse8601_days [OF assms(3), of secs ?tail 0 "[]"] by simp
  also have "\<dots> = (wrap64 (parts_seconds True ds + parts_seconds False ts), [])"
    using parse8601_times [OF assms(1,4), of "parts_seconds True ds" "[]"]
    by (simp add: parts_seconds_def isdigit_def)
  finally show ?thesis .
qed

theorem parse8601_roundtrip_witness:
  "parse8601 (\<lambda>s. int (num_of s)) (duration_text [(1, CHR ''Y''), (2, CHR ''D'')] [(3, CHR ''H''), (4, CHR ''S'')])
   = (31719604, [])"
  by (subst parse8601_roundtrip) (auto simp: secs_exact_def parts_seconds_def toSeconds_def)

text \<open>For numbers that are not NaN, \<^verbatim>\<open>orderCoordsForBox\<close> refuses exactly the degenerate
  boxes, and otherwise the bounds are the given latitudes and longitudes in strictly increasing order.\<close>

theorem orderCoordsForBox_ordered:
  assumes "lat1 \<noteq> NaN" and "lat2 \<noteq> NaN" and "lon1 \<noteq> NaN" and "lon2 \<noteq> NaN"
  shows "case orderCoordsForBox lat1 lat2 lon1 lon2 of
      None \<Rightarrow> lat1 = lat2 \<or> lon1 = lon2
    | Some (minLat, maxLat, minLon, maxLon) \<Rightarrow>
        dlt minLat maxLat \<and> dlt minLon maxLon
        \<and> {minLat, maxLat} = {lat1, lat2} \<and> {minLon, maxLon} = {lon1, lon2}"
proof -
  have deq_iff: "deq a b \<longleftrightarrow> a = b" if "a \<noteq> NaN" for a b using that by (cases a) auto
  have antisym: "dlt a b \<Longrightarrow> \<not> dlt b a" for a b using dlt_trans [of a b a] by auto
  show ?thesis
    using assms dlt_linear [of lat1 lat2] dlt_linear [of lon1 lon2] antisym [of lat1 lat2]
      antisym [of lat2 lat1] antisym [of lon1 lon2] antisym [of lon2 lon1]
    by (auto simp: orderCoordsForBox_def deq_iff)
qed

theorem orderCoordsForBox_ordered_witness:
  "orderCoordsForBox (Fin 5) (Fin 2) (Fin 1) (Fin 7) = Some (Fin 2, Fin 5, Fin 1, Fin 7)
   \<and> dlt (Fin 2) (Fin 5) \<and> dlt (Fin 1) (Fin 7)"
proof -
  have "orderCoordsForBox (Fin 5) (Fin 2) (Fin 1) (Fin 7) = Some (Fin 2, Fin 5, Fin 1, Fin 7)"
    by (simp add: orderCoordsForBox_def)
  with orderCoordsForBox_ordered [of "Fin 5" "Fin 2" "Fin 1" "Fin 7"] show ?thesis by simp
qed

end
