(* ===== verification/Orion_LogSummary.thy ===== *)
theory Orion_LogSummary
  imports Orion_Globals Orion_Alarm
begin

section \<open>The log summary: logSummary/logSummary.cpp\<close>

text \<open>
  The thread \<^verbatim>\<open>logSummary\<close> wakes up periodically and reports the transactions and alarms
  since its last report. One turn of its loop is \<open>logSummary_round\<close>, on the static variables of the
  file and on what it reads: the running transaction number (\<^verbatim>\<open>transactionIdGet()\<close>) and the
  alarm manager. Its four log lines are the record \<open>summary\<close>.
\<close>

record log_state =
  transactionsAtLastSummary :: int
  deRaisedInLastSummary :: int
  deReleasedInLastSummary :: int
  neRaisedInLastSummary :: int
  neReleasedInLastSummary :: int
  biRaisedInLastSummary :: int
  biReleasedInLastSummary :: int

definition log_state0 :: log_state where
  "log_state0 = \<lparr>transactionsAtLastSummary = 0, deRaisedInLastSummary = 0, deReleasedInLastSummary = 0,
     neRaisedInLastSummary = 0, neReleasedInLastSummary = 0, biRaisedInLastSummary = 0,
     biReleasedInLastSummary = 0\<rparr>"

record summary =
  transactionsNow :: int
  transactionsNew :: int
  deActive :: bool
  deRaised :: int
  deRaisedNew :: int
  deReleased :: int
  deReleasedNew :: int
  neActive :: int
  neRaised :: int
  neRaisedNew :: int
  neReleased :: int
  neReleasedNew :: int
  biActive :: int
  biRaised :: int
  biRaisedNew :: int
  biReleased :: int
  biReleasedNew :: int

text \<open>The difference of two readings of a counter, with the correction for a wrapped counter.\<close>

definition counter_new :: "int \<Rightarrow> int \<Rightarrow> int" where
  "counter_new now prev =
     (let new = wrap64 (now - prev) in if new < 0 then wrap64 (long_max - prev + now) else new)"

definition logSummary_round :: "32 word \<Rightarrow> AlarmManager \<Rightarrow> log_state \<Rightarrow> summary \<times> log_state" where
  "logSummary_round tr am st =
     (let transNow = sint (transactionIdGet True tr);
          prev = transactionsAtLastSummary st;
          diff = (if transNow < prev then int_max - prev + transNow else transNow - prev);
          (deAct, deRai, deRel) = dbErrorsGet am;
          (biAct, biRai, biRel) = badInputGet am;
          (neAct, neRai, neRel) = notificationErrorGet am
      in (\<lparr>transactionsNow = transNow, transactionsNew = diff,
           deActive = deAct, deRaised = sint deRai,
           deRaisedNew = counter_new (sint deRai) (deRaisedInLastSummary st),
           deReleased = sint deRel, deReleasedNew = counter_new (sint deRel) (deReleasedInLastSummary st),
           neActive = sint neAct, neRaised = sint neRai,
           neRaisedNew = counter_new (sint neRai) (neRaisedInLastSummary st),
           neReleased = sint neRel, neReleasedNew = counter_new (sint neRel) (neReleasedInLastSummary st),
           biActive = sint biAct, biRaised = sint biRai,
           biRaisedNew = counter_new (sint biRai) (biRaisedInLastSummary st),
           biReleased = sint biRel, biReleasedNew = counter_new (sint biRel) (biReleasedInLastSummary st)\<rparr>,
          \<lparr>transactionsAtLastSummary = transNow,
           deRaisedInLastSummary = sint deRai, deReleasedInLastSummary = sint deRel,
           neRaisedInLastSummary = sint neRai, neReleasedInLastSummary = sint neRel,
           biRaisedInLastSummary = sint biRai, biReleasedInLastSummary = sint biRel\<rparr>))"

text \<open>The loop, over the readings of its successive turns.\<close>

fun logSummary_loop :: "(32 word \<times> AlarmManager) list \<Rightarrow> log_state \<Rightarrow> summary list" where
  "logSummary_loop [] st = []"
| "logSummary_loop ((t, am) # rs) st =
     (let (s, st') = logSummary_round t am st in s # logSummary_loop rs st')"

subsection \<open>Transactions per summary\<close>

abbreviation trans_after :: "nat \<Rightarrow> 32 word" where
  "trans_after n \<equiv> ((transactionIdGet False) ^^ n) 0"

lemma trans_after_val: "sint (trans_after n) = (if n = 0 then 0 else int ((n - 1) mod 2147483647) + 1)"
proof (cases n)
  case (Suc k)
  then show ?thesis using trans_no_iterate [of k] by (simp del: funpow.simps)
qed simp

lemma mod_step:
  assumes "k < (m :: nat)"
  shows "(x + k) mod m = (if x mod m + k < m then x mod m + k else x mod m + k - m)"
proof -
  have "(x + k) mod m = (x mod m + k) mod m" by (simp add: mod_add_left_eq)
  also have "\<dots> = (if x mod m + k < m then x mod m + k else x mod m + k - m)"
  proof (cases "x mod m + k < m")
    case False
    have "x mod m < m" using assms by (intro mod_less_divisor) simp
    then have "x mod m + k - m < m" using assms by linarith
    moreover from False have "(x mod m + k) mod m = (x mod m + k - m) mod m"
      by (intro le_mod_geq) simp
    ultimately show ?thesis using False by (simp only: if_False mod_less)
  qed simp
  finally show ?thesis .
qed

lemma round_transactions:
  assumes "transactionsAtLastSummary st = sint (trans_after n)" and "k < 2147483647"
  shows "transactionsNew (fst (logSummary_round (trans_after (n + k)) am st)) = int k
    \<and> transactionsAtLastSummary (snd (logSummary_round (trans_after (n + k)) am st)) = sint (trans_after (n + k))"
proof -
  let ?now = "sint (trans_after (n + k))" and ?last = "sint (trans_after n)"
  have "(if ?now < ?last then int_max - ?last + ?now else ?now - ?last) = int k"
  proof (cases n)
    case 0
    then show ?thesis using assms(2) by (simp add: trans_after_val del: funpow.simps)
  next
    case (Suc x)
    have "?last = int (x mod 2147483647) + 1" "?now = int ((x + k) mod 2147483647) + 1"
      by (simp_all only: trans_after_val Suc) simp_all
    then show ?thesis
      using mod_step [OF assms(2), of x] mod_less_divisor [of 2147483647 x] assms(2)
      by (auto split: if_splits)
  qed
  then show ?thesis
    using assms(1) by (simp add: logSummary_round_def transactionIdGet_def split_beta Let_def)
qed

text \<open>
  The readings when \<open>k\<close> transactions happen before each turn, for a list of such numbers and of
  states of the alarm manager.
\<close>

fun readings :: "nat \<Rightarrow> (nat \<times> AlarmManager) list \<Rightarrow> (32 word \<times> AlarmManager) list" where
  "readings n [] = []"
| "readings n ((k, am) # ks) = (trans_after (n + k), am) # readings (n + k) ks"

lemma summaries_transactions:
  assumes "\<forall>p \<in> set ks. fst p < 2147483647" and "transactionsAtLastSummary st = sint (trans_after n)"
  shows "map transactionsNew (logSummary_loop (readings n ks) st) = map (int \<circ> fst) ks"
  using assms
proof (induction ks arbitrary: n st)
  case (Cons p ks)
  obtain k am where p: "p = (k, am)" by (cases p)
  with Cons.prems have k: "k < 2147483647" by simp
  let ?r = "logSummary_round (trans_after (n + k)) am st"
  from round_transactions [OF Cons.prems(2) k]
  have r: "transactionsNew (fst ?r) = int k" "transactionsAtLastSummary (snd ?r) = sint (trans_after (n + k))"
    by auto
  have "map transactionsNew (logSummary_loop (readings (n + k) ks) (snd ?r)) = map (int \<circ> fst) ks"
    using Cons.prems(1) r(2) by (intro Cons.IH) auto
  with r(1) show ?case by (simp add: p split_beta Let_def)
qed simp

text \<open>The number of new transactions in each log summary is exactly the number of calls of
  \<^verbatim>\<open>transactionIdSet\<close> since the summary before, also when the running number has overflowed and
  started again from 1 in between, as long as fewer than 2147483647 transactions happen between two
  summaries.\<close>

theorem logSummary_counts_transactions:
  assumes "\<forall>p \<in> set ks. fst p < 2147483647"
  shows "map transactionsNew (logSummary_loop (readings 0 ks) log_state0) = map (int \<circ> fst) ks"
  using assms by (rule summaries_transactions) (simp add: log_state0_def)

theorem logSummary_counts_transactions_witness:
  "map transactionsNew (logSummary_loop (readings 0
      [(2147483646, AlarmManager_new), (5, AlarmManager_new)]) log_state0) = [2147483646, 5]"
  by (subst logSummary_counts_transactions) simp_all

end
