(* ===== verification/Orion_Pool.thy ===== *)
theory Orion_Pool
  imports Orion_Sem
begin

section \<open>The database connection pool: mongoBackend/mongoConnectionPool.cpp\<close>

text \<open>
  The vector of connections with its two semaphores: \<^verbatim>\<open>connectionSem\<close> counts the free
  connections, \<^verbatim>\<open>connectionPoolSem\<close> protects the vector. A connection is a pointer of the
  database driver, here a number, with \<^const>\<open>None\<close> for the null pointer that
  \<^verbatim>\<open>mongoConnect\<close> returns when it fails; what \<^verbatim>\<open>mongoConnect\<close> returns for each
  entry is a parameter of the initialisation.

  The two searches through the vector are \<open>pool_claim\<close> and \<open>pool_release\<close>. The whole
  operations are given twice: as sequential functions, and as the steps of \<open>pool_reach\<close>, in which
  any number of threads interleave at the semaphores. The interface \<open>slot_pool\<close> is what the threads
  rely on; its lemmas (a connection has one user, the search never comes back empty, nothing leaks)
  are proved for every interleaving.
\<close>

record MongoConnection =
  connection :: "nat option"
  free :: bool

record conn_pool =
  connectionPool :: "MongoConnection list"
  connectionPoolSem :: nat
  connectionSem :: nat
  semWaitingTime :: timespec
  semStatistics :: bool

text \<open>
  \<^verbatim>\<open>mongoConnectionPoolInit\<close>: \<open>connect ix\<close> is the result of \<^verbatim>\<open>mongoConnect\<close>
  for the entry \<open>ix\<close>; the flags say whether \<^verbatim>\<open>calloc\<close> and the two \<^verbatim>\<open>sem_init\<close>
  succeed.
\<close>

definition mongoConnectionPoolInit ::
    "bool \<Rightarrow> bool \<Rightarrow> bool \<Rightarrow> (nat \<Rightarrow> nat option) \<Rightarrow> nat \<Rightarrow> bool \<Rightarrow> conn_pool \<Rightarrow> int \<times> conn_pool" where
  "mongoConnectionPoolInit calloc_ok poolSem_ok connSem_ok connect poolSize semTimeStat p =
     (if \<not> calloc_ok then (- 1, p\<lparr>connectionPool := []\<rparr>)
      else let p = p\<lparr>connectionPool := map (\<lambda>ix. \<lparr>connection = connect ix, free = True\<rparr>) [0..<poolSize]\<rparr>
      in if \<not> poolSem_ok then (- 1, p)
      else let p = p\<lparr>connectionPoolSem := 1\<rparr>
      in if \<not> connSem_ok then (- 1, p)
      else (0, p\<lparr>connectionSem := poolSize, semStatistics := semTimeStat\<rparr>))"

text \<open>The search of \<^verbatim>\<open>mongoPoolConnectionGet\<close>: the first free entry; a null pointer if there is none.\<close>

fun pool_claim :: "MongoConnection list \<Rightarrow> nat option \<times> MongoConnection list" where
  "pool_claim [] = (None, [])"
| "pool_claim (m # ms) =
     (if free m = True then (connection m, m\<lparr>free := False\<rparr> # ms)
      else let (c, ms') = pool_claim ms in (c, m # ms'))"

text \<open>The search of \<^verbatim>\<open>mongoPoolConnectionRelease\<close>, and whether it found the connection.\<close>

fun pool_release :: "nat option \<Rightarrow> MongoConnection list \<Rightarrow> bool \<times> MongoConnection list" where
  "pool_release c [] = (False, [])"
| "pool_release c (m # ms) =
     (if connection m = c then (True, m\<lparr>free := True\<rparr> # ms)
      else let (found, ms') = pool_release c ms in (found, m # ms'))"

definition charge_pool :: "timespec \<times> timespec \<Rightarrow> conn_pool \<Rightarrow> conn_pool" where
  "charge_pool m p = p\<lparr>semWaitingTime := clock_addtime (semWaitingTime p) (clock_difftime (snd m) (fst m))\<rparr>"

definition mongoPoolConnectionGet :: "timespec \<times> timespec \<Rightarrow> conn_pool \<Rightarrow> (nat option \<times> conn_pool) wait" where
  "mongoPoolConnectionGet clocks p =
     (if connectionSem p = 0 then Blocks
      else let p = p\<lparr>connectionSem := connectionSem p - 1\<rparr>
      in if connectionPoolSem p = 0 then Blocks
      else let p = p\<lparr>connectionPoolSem := connectionPoolSem p - 1\<rparr>;
               p = (if semStatistics p then charge_pool clocks p else p);
               (c, ms) = pool_claim (connectionPool p)
           in Returns (c, p\<lparr>connectionPool := ms, connectionPoolSem := connectionPoolSem p + 1\<rparr>))"

definition mongoPoolConnectionRelease :: "nat option \<Rightarrow> conn_pool \<Rightarrow> conn_pool wait" where
  "mongoPoolConnectionRelease c p =
     (if connectionPoolSem p = 0 then Blocks
      else let p = p\<lparr>connectionPoolSem := connectionPoolSem p - 1\<rparr>;
               (found, ms) = pool_release c (connectionPool p);
               p = p\<lparr>connectionPool := ms\<rparr>;
               p = (if found then p\<lparr>connectionSem := connectionSem p + 1\<rparr> else p)
           in Returns (p\<lparr>connectionPoolSem := connectionPoolSem p + 1\<rparr>))"

definition mongoPoolConnectionSemWaitingTimeReset :: "conn_pool \<Rightarrow> conn_pool" where
  "mongoPoolConnectionSemWaitingTimeReset p = p\<lparr>semWaitingTime := ts_zero\<rparr>"

interpretation pool_wait: wait_account semWaitingTime charge_pool
  by unfold_locales (simp add: charge_pool_def)

subsection \<open>Interleavings\<close>

text \<open>
  Where a thread is: outside, after the first \<^verbatim>\<open>sem_wait\<close> of a get, after the second one, with
  a connection, or after the \<^verbatim>\<open>sem_wait\<close> of the release of one.
\<close>

datatype 'c pool_pc = Idle | GetWait | GetCrit | Holding "'c option" | RelCrit "'c option"

text \<open>Configurations: the vector, \<^verbatim>\<open>connectionSem\<close>, \<^verbatim>\<open>connectionPoolSem\<close> and the threads.\<close>

inductive pool_reach ::
    "('s \<Rightarrow> 'c option \<times> 's) \<Rightarrow> ('c option \<Rightarrow> 's \<Rightarrow> bool \<times> 's) \<Rightarrow> 's \<Rightarrow> nat \<Rightarrow>
     's \<Rightarrow> nat \<Rightarrow> nat \<Rightarrow> (nat \<Rightarrow> 'c pool_pc) \<Rightarrow> bool"
  for claim :: "'s \<Rightarrow> 'c option \<times> 's" and release :: "'c option \<Rightarrow> 's \<Rightarrow> bool \<times> 's"
    and s0 :: 's and n0 :: nat where
  pool_start: "pool_reach claim release s0 n0 s0 n0 1 (\<lambda>t. Idle)"
| get_wait: "pool_reach claim release s0 n0 s n m pcs \<Longrightarrow> pcs t = Idle \<Longrightarrow> n > 0 \<Longrightarrow>
    pool_reach claim release s0 n0 s (n - 1) m (pcs(t := GetWait))"
| get_enter: "pool_reach claim release s0 n0 s n m pcs \<Longrightarrow> pcs t = GetWait \<Longrightarrow> m > 0 \<Longrightarrow>
    pool_reach claim release s0 n0 s n (m - 1) (pcs(t := GetCrit))"
| get_claim: "pool_reach claim release s0 n0 s n m pcs \<Longrightarrow> pcs t = GetCrit \<Longrightarrow> claim s = (c, s') \<Longrightarrow>
    pool_reach claim release s0 n0 s' n (m + 1) (pcs(t := Holding c))"
| rel_enter: "pool_reach claim release s0 n0 s n m pcs \<Longrightarrow> pcs t = Holding c \<Longrightarrow> m > 0 \<Longrightarrow>
    pool_reach claim release s0 n0 s n (m - 1) (pcs(t := RelCrit c))"
| rel_leave: "pool_reach claim release s0 n0 s n m pcs \<Longrightarrow> pcs t = RelCrit c \<Longrightarrow> release c s = (found, s') \<Longrightarrow>
    pool_reach claim release s0 n0 s' (if found then n + 1 else n) (m + 1) (pcs(t := Idle))"

fun conn_of :: "'c pool_pc \<Rightarrow> 'c option option" where
  "conn_of (Holding c) = Some c"
| "conn_of (RelCrit c) = Some c"
| "conn_of _ = None"

fun waits :: "'c pool_pc \<Rightarrow> bool" where
  "waits GetWait = True"
| "waits GetCrit = True"
| "waits _ = False"

fun in_crit :: "'c pool_pc \<Rightarrow> bool" where
  "in_crit GetCrit = True"
| "in_crit (RelCrit _) = True"
| "in_crit _ = False"

text \<open>Counting the threads with a property when one of them moves.\<close>

lemma count_move:
  fixes f :: "nat \<Rightarrow> 'a"
  assumes "finite {t. P (f t)}"
  shows "finite {t. P ((f(i := v)) t)}"
    and "card {t. P ((f(i := v)) t)} + (if P (f i) then 1 else 0) = card {t. P (f t)} + (if P v then 1 else 0)"
proof -
  let ?S = "{t. P (f t)}"
  have upd: "{t. P ((f(i := v)) t)} = (if P v then insert i (?S - {i}) else ?S - {i})" by auto
  have rem: "card (?S - {i}) + (if P (f i) then 1 else 0) = card ?S"
    using assms card_Suc_Diff1 [of ?S i] by (cases "P (f i)") simp_all
  show "finite {t. P ((f(i := v)) t)}" unfolding upd using assms by simp
  have ins: "card (insert i (?S - {i})) = Suc (card (?S - {i}))"
    using assms by (intro card_insert_disjoint) simp_all
  show "card {t. P ((f(i := v)) t)} + (if P (f i) then 1 else 0) = card ?S + (if P v then 1 else 0)"
    unfolding upd using rem ins by (cases "P v") auto
qed

lemma held_update:
  "conn_of (pcs t) = None \<Longrightarrow> {x. \<exists>u. conn_of ((pcs(t := v)) u) = Some (Some x)}
     = {x. conn_of v = Some (Some x)} \<union> {x. \<exists>u. conn_of (pcs u) = Some (Some x)}"
proof (intro set_eqI iffI; clarsimp split: if_splits)
  fix x u
  assume "conn_of (pcs t) = None" "conn_of v = Some (Some x) \<or> (\<exists>u. conn_of (pcs u) = Some (Some x))"
  then show "\<exists>u. (u = t \<longrightarrow> conn_of v = Some (Some x)) \<and> (u \<noteq> t \<longrightarrow> conn_of (pcs u) = Some (Some x))"
    by (metis option.distinct(1))
qed

lemma held_drop:
  assumes "conn_of (pcs t) = Some (Some c)" "conn_of v = None"
    and "\<And>u. conn_of (pcs u) = Some (Some c) \<Longrightarrow> u = t"
  shows "{x. \<exists>u. conn_of ((pcs(t := v)) u) = Some (Some x)} = {x. \<exists>u. conn_of (pcs u) = Some (Some x)} - {c}"
  (is "?A = ?B")
proof
  show "?A \<subseteq> ?B"
  proof
    fix x
    assume "x \<in> ?A"
    then obtain u where "conn_of ((pcs(t := v)) u) = Some (Some x)" by blast
    moreover from this have "u \<noteq> t" using assms(2) by (metis fun_upd_same option.distinct(1))
    ultimately have "conn_of (pcs u) = Some (Some x)" "x \<noteq> c" using assms(3) [of u] by auto
    then show "x \<in> ?B" by blast
  qed
  show "?B \<subseteq> ?A"
  proof
    fix x
    assume "x \<in> ?B"
    then obtain u where u: "conn_of (pcs u) = Some (Some x)" and "x \<noteq> c" by blast
    then have "u \<noteq> t" using assms(1) by auto
    then show "x \<in> ?A" using u by (auto intro: exI [of _ u])
  qed
qed

locale slot_pool =
  fixes wf :: "'s \<Rightarrow> bool"
    and slots :: "'s \<Rightarrow> 'c set"
    and busy :: "'s \<Rightarrow> 'c set"
    and claim :: "'s \<Rightarrow> 'c option \<times> 's"
    and release :: "'c option \<Rightarrow> 's \<Rightarrow> bool \<times> 's"
  assumes slots_finite: "wf s \<Longrightarrow> finite (slots s) \<and> busy s \<subseteq> slots s"
    and claim_law: "wf s \<Longrightarrow> claim s = (c, s') \<Longrightarrow> wf s' \<and> slots s' = slots s \<and>
        (case c of None \<Rightarrow> busy s = slots s | Some x \<Rightarrow> x \<in> slots s - busy s \<and> busy s' = insert x (busy s))"
    and release_law: "wf s \<Longrightarrow> x \<in> slots s \<Longrightarrow> release (Some x) s = (found, s') \<Longrightarrow>
        wf s' \<and> slots s' = slots s \<and> found \<and> busy s' = busy s - {x}"
begin

definition pool_inv :: "'c set \<Rightarrow> 's \<Rightarrow> nat \<Rightarrow> nat \<Rightarrow> (nat \<Rightarrow> 'c pool_pc) \<Rightarrow> bool" where
  "pool_inv A s n m pcs \<longleftrightarrow> wf s \<and> slots s = A
     \<and> finite {t. waits (pcs t)} \<and> finite {t. conn_of (pcs t) \<noteq> None} \<and> finite {t. in_crit (pcs t)}
     \<and> (\<forall>t. conn_of (pcs t) \<noteq> Some None)
     \<and> busy s = {x. \<exists>t. conn_of (pcs t) = Some (Some x)}
     \<and> (\<forall>t u x. conn_of (pcs t) = Some (Some x) \<longrightarrow> conn_of (pcs u) = Some (Some x) \<longrightarrow> t = u)
     \<and> n + card {t. waits (pcs t)} + card {t. conn_of (pcs t) \<noteq> None} = card A
     \<and> m + card {t. in_crit (pcs t)} = 1"

text \<open>Users and busy connections correspond one to one.\<close>

lemma users_busy:
  assumes "pool_inv A s n m pcs"
  shows "card {t. conn_of (pcs t) \<noteq> None} = card (busy s)"
proof -
  have "bij_betw (\<lambda>t. the (the (conn_of (pcs t)))) {t. conn_of (pcs t) \<noteq> None} (busy s)"
    unfolding bij_betw_def inj_on_def image_def
    using assms by (auto simp: pool_inv_def) (metis not_None_eq option.sel)+
  then show ?thesis by (rule bij_betw_same_card)
qed

lemma inv_move:
  assumes inv: "pool_inv A s n m pcs" and ok: "wf s'" "slots s' = A"
    and n': "n' + (if waits v then 1 else 0) + (if conn_of v \<noteq> None then 1 else 0)
       = n + (if waits (pcs t) then 1 else 0) + (if conn_of (pcs t) \<noteq> None then 1 else 0)"
    and m': "m' + (if in_crit v then 1 else 0) = m + (if in_crit (pcs t) then 1 else (0::nat))"
    and v: "conn_of v \<noteq> Some None"
    and own: "\<And>u x. conn_of v = Some (Some x) \<Longrightarrow> u \<noteq> t \<Longrightarrow> conn_of (pcs u) \<noteq> Some (Some x)"
    and busy: "busy s' = {x. \<exists>u. conn_of ((pcs(t := v)) u) = Some (Some x)}"
  shows "pool_inv A s' n' m' (pcs(t := v))"
proof -
  note c = count_move [of waits pcs t v] count_move [of "\<lambda>q. conn_of q \<noteq> None" pcs t v] count_move [of in_crit pcs t v]
  have fin: "finite {t. waits (pcs t)}" "finite {t. conn_of (pcs t) \<noteq> None}" "finite {t. in_crit (pcs t)}"
    and sums: "n + card {t. waits (pcs t)} + card {t. conn_of (pcs t) \<noteq> None} = card A"
      "m + card {t. in_crit (pcs t)} = 1"
    and old: "\<And>t. conn_of (pcs t) \<noteq> Some None"
    and uniq: "\<And>t u x. conn_of (pcs t) = Some (Some x) \<Longrightarrow> conn_of (pcs u) = Some (Some x) \<Longrightarrow> t = u"
    using inv unfolding pool_inv_def by blast+
  note c = c(1,2) [OF fin(1)] c(3,4) [OF fin(2)] c(5,6) [OF fin(3)]
  have "n' + card {u. waits ((pcs(t := v)) u)} + card {u. conn_of ((pcs(t := v)) u) \<noteq> None} = card A"
    using sums(1) n' c(2,4) by linarith
  moreover have "m' + card {u. in_crit ((pcs(t := v)) u)} = 1" using sums(2) m' c(6) by linarith
  moreover have "\<forall>u. conn_of ((pcs(t := v)) u) \<noteq> Some None" using old v by simp
  moreover have "\<forall>u w x. conn_of ((pcs(t := v)) u) = Some (Some x) \<longrightarrow> conn_of ((pcs(t := v)) w) = Some (Some x) \<longrightarrow> u = w"
    using uniq own by (auto split: if_splits)
  ultimately show ?thesis unfolding pool_inv_def using ok busy c(1,3,5) by blast
qed

text \<open>A step through a semaphore: the thread keeps what it holds.\<close>

lemma inv_move_same:
  assumes inv: "pool_inv A s n m pcs" and same: "conn_of v = conn_of (pcs t)"
    and n': "n' + (if waits v then 1 else 0) = n + (if waits (pcs t) then 1 else 0)"
    and m': "m' + (if in_crit v then 1 else 0) = m + (if in_crit (pcs t) then 1 else (0::nat))"
  shows "pool_inv A s n' m' (pcs(t := v))"
proof -
  have eq: "\<And>u. conn_of ((pcs(t := v)) u) = conn_of (pcs u)" using same by simp
  have inv': "wf s" "slots s = A" "\<And>t. conn_of (pcs t) \<noteq> Some None"
      "busy s = {x. \<exists>t. conn_of (pcs t) = Some (Some x)}"
    and uniq: "\<And>t u x. conn_of (pcs t) = Some (Some x) \<Longrightarrow> conn_of (pcs u) = Some (Some x) \<Longrightarrow> t = u"
    using inv unfolding pool_inv_def by blast+
  show ?thesis
  proof (rule inv_move [OF inv inv'(1,2) _ m'])
    show "conn_of v \<noteq> Some None" using same inv'(3) by simp
    show "busy s = {x. \<exists>u. conn_of ((pcs(t := v)) u) = Some (Some x)}" unfolding eq by (rule inv'(4))
  qed (use n' same uniq in auto)
qed

lemma claim_some:
  assumes inv: "pool_inv A s n m pcs" and at: "pcs t = GetCrit" and c: "claim s = (c, s')"
  obtains x where "c = Some x" "x \<in> A - busy s" "busy s' = insert x (busy s)" "wf s'" "slots s' = A"
proof (cases c)
  case None
  have wf: "wf s" "slots s = A" "finite {t. waits (pcs t)}"
    and sum: "n + card {t. waits (pcs t)} + card {t. conn_of (pcs t) \<noteq> None} = card A"
    using inv unfolding pool_inv_def by blast+
  have "card {t. conn_of (pcs t) \<noteq> None} = card A"
    using users_busy [OF inv] claim_law [OF wf(1) c] None wf(2) by simp
  then have "{t. waits (pcs t)} = {}" using sum wf(3) by simp
  then show ?thesis using at by (metis (mono_tags) empty_Collect_eq waits.simps(2))
next
  case (Some x)
  have "wf s" "slots s = A" using inv unfolding pool_inv_def by blast+
  then show ?thesis using that claim_law [OF _ c] Some by simp
qed

lemma pool_inv_reach:
  assumes s0: "wf s0" "busy s0 = {}"
    and reach: "pool_reach claim release s0 (card (slots s0)) s n m pcs"
  shows "pool_inv (slots s0) s n m pcs"
  using reach
proof induction
  case pool_start
  then show ?case using s0 by (simp add: pool_inv_def)
next
  case (get_wait s n m pcs t)
  then show ?case by (intro inv_move_same [OF get_wait.IH]) simp_all
next
  case (get_enter s n m pcs t)
  then show ?case by (intro inv_move_same [OF get_enter.IH]) simp_all
next
  case (get_claim s n m pcs t c s')
  then obtain x where x: "c = Some x" "x \<in> slots s0 - busy s" "busy s' = insert x (busy s)" "wf s'" "slots s' = slots s0"
    by (blast elim: claim_some)
  have b: "busy s = {x. \<exists>t. conn_of (pcs t) = Some (Some x)}" using get_claim.IH unfolding pool_inv_def by blast
  show ?case
  proof (rule inv_move [OF get_claim.IH x(4,5)])
    show "busy s' = {y. \<exists>u. conn_of ((pcs(t := Holding c)) u) = Some (Some y)}"
      using x(1,3) b held_update [of pcs t "Holding c"] get_claim.hyps(2) by auto
  qed (use x b get_claim.hyps(2) in auto)
next
  case (rel_enter s n m pcs t c)
  then show ?case by (intro inv_move_same [OF rel_enter.IH]) simp_all
next
  case (rel_leave s n m pcs t c found s')
  have inv: "wf s" "slots s = slots s0" "busy s \<subseteq> slots s"
      "busy s = {x. \<exists>t. conn_of (pcs t) = Some (Some x)}" "conn_of (pcs t) \<noteq> Some None"
    and uniq: "\<And>t u x. conn_of (pcs t) = Some (Some x) \<Longrightarrow> conn_of (pcs u) = Some (Some x) \<Longrightarrow> t = u"
    using rel_leave.IH slots_finite unfolding pool_inv_def by blast+
  from inv(5) rel_leave.hyps(2) obtain x where x: "c = Some x" by (cases c) auto
  have at: "conn_of (pcs t) = Some (Some x)" using rel_leave.hyps(2) x by simp
  then have "x \<in> slots s" using inv(3,4) by blast
  then have r: "wf s'" "slots s' = slots s0" "found" "busy s' = busy s - {x}"
    using release_law [OF inv(1)] rel_leave.hyps(3) x inv(2) by metis+
  show ?case
  proof (rule inv_move [OF rel_leave.IH r(1,2)])
    show "busy s' = {y. \<exists>u. conn_of ((pcs(t := Idle)) u) = Some (Some y)}"
      unfolding r(4) inv(4)
      by (rule held_drop [where pcs = pcs and t = t and c = x, symmetric, OF at]) (simp, rule uniq [OF _ at])
  qed (use r rel_leave.hyps(2) in auto)
qed

text \<open>What the users of a pool rely on, in every interleaving.\<close>

lemma pool_safe:
  assumes "wf s0" "busy s0 = {}" "pool_reach claim release s0 (card (slots s0)) s n m pcs"
  shows "pcs t \<noteq> Holding None"
    and "conn_of (pcs t) = Some (Some x) \<Longrightarrow> conn_of (pcs u) = Some (Some x) \<Longrightarrow> t = u"
    and "(\<forall>t. pcs t = Idle) \<Longrightarrow> n = card (slots s0) \<and> m = 1 \<and> busy s = {}"
    and "in_crit (pcs t) \<Longrightarrow> in_crit (pcs u) \<Longrightarrow> t = u"
proof -
  note inv = pool_inv_reach [OF assms, unfolded pool_inv_def]
  show "pcs t \<noteq> Holding None" using inv conn_of.simps(1) by metis
  show "conn_of (pcs t) = Some (Some x) \<Longrightarrow> conn_of (pcs u) = Some (Some x) \<Longrightarrow> t = u" using inv by blast
  show "(\<forall>t. pcs t = Idle) \<Longrightarrow> n = card (slots s0) \<and> m = 1 \<and> busy s = {}" using inv by simp
  have "finite {t. in_crit (pcs t)}" "card {t. in_crit (pcs t)} \<le> 1" using inv by auto
  then have "\<And>t u. t \<in> {t. in_crit (pcs t)} \<Longrightarrow> u \<in> {t. in_crit (pcs t)} \<Longrightarrow> t = u"
    by (auto simp: card_le_Suc0_iff_eq)
  then show "in_crit (pcs t) \<Longrightarrow> in_crit (pcs u) \<Longrightarrow> t = u" by simp
qed

end

subsection \<open>The vector of connections is such a pool\<close>

definition conns_wf :: "MongoConnection list \<Rightarrow> bool" where
  "conns_wf ms \<longleftrightarrow> distinct (map connection ms) \<and> None \<notin> set (map connection ms)"

definition conns_all :: "MongoConnection list \<Rightarrow> nat set" where
  "conns_all ms = {x. Some x \<in> set (map connection ms)}"

definition conns_busy :: "MongoConnection list \<Rightarrow> nat set" where
  "conns_busy ms = {x. \<exists>m \<in> set ms. connection m = Some x \<and> \<not> free m}"

lemma conns_Nil [simp]: "conns_wf []" "conns_all [] = {}" "conns_busy [] = {}"
  by (simp_all add: conns_wf_def conns_all_def conns_busy_def)

lemma conns_Cons:
  "conns_wf (m # ms) \<longleftrightarrow> conns_wf ms \<and> (\<exists>x. connection m = Some x \<and> x \<notin> conns_all ms)"
  "connection m = Some x \<Longrightarrow> conns_all (m # ms) = insert x (conns_all ms)"
  "connection m = Some x \<Longrightarrow> conns_busy (m # ms) = (if free m then conns_busy ms else insert x (conns_busy ms))"
  by (cases "connection m"; force simp: conns_wf_def conns_all_def conns_busy_def)
    (force simp: conns_wf_def conns_all_def conns_busy_def)+

lemma conns_busy_subset: "conns_busy ms \<subseteq> conns_all ms"
  by (force simp: conns_all_def conns_busy_def)

lemma conns_finite: "finite (conns_all ms)"
proof -
  have "x \<in> the ` set (map connection ms)" if "x \<in> conns_all ms" for x
    using that image_eqI [of x the "Some x"] by (simp add: conns_all_def)
  then show ?thesis by (intro finite_subset [of "conns_all ms" "the ` set (map connection ms)"]) auto
qed

lemma conns_card: "conns_wf ms \<Longrightarrow> card (conns_all ms) = length ms"
  by (induction ms) (auto simp: conns_Cons conns_finite)

lemma pool_claim_law:
  "conns_wf ms \<Longrightarrow> pool_claim ms = (c, ms') \<Longrightarrow> conns_wf ms' \<and> conns_all ms' = conns_all ms \<and>
     (case c of None \<Rightarrow> conns_busy ms = conns_all ms
      | Some x \<Rightarrow> x \<in> conns_all ms - conns_busy ms \<and> conns_busy ms' = insert x (conns_busy ms))"
proof (induction ms arbitrary: ms')
  case (Cons m ms)
  from Cons.prems(1) obtain x where x: "connection m = Some x" "x \<notin> conns_all ms" "conns_wf ms" by (auto simp: conns_Cons(1))
  show ?case
  proof (cases "free m")
    case True
    then have "c = Some x" "ms' = m\<lparr>free := False\<rparr> # ms" using Cons.prems x by auto
    then show ?thesis using True x conns_busy_subset [of ms] by (auto simp: conns_Cons(1) conns_Cons(2,3) [where x = x])
  next
    case False
    then obtain ms2 where s: "pool_claim ms = (c, ms2)" "ms' = m # ms2" using Cons.prems by (auto split: prod.splits)
    show ?thesis using Cons.IH [OF x(3) s(1)] s(2) x False
      by (cases c) (auto simp: conns_Cons(1) conns_Cons(2,3) [where x = x])
  qed
qed simp

lemma pool_release_law:
  "conns_wf ms \<Longrightarrow> x \<in> conns_all ms \<Longrightarrow> pool_release (Some x) ms = (found, ms') \<Longrightarrow>
     conns_wf ms' \<and> conns_all ms' = conns_all ms \<and> found \<and> conns_busy ms' = conns_busy ms - {x}"
proof (induction ms arbitrary: ms')
  case (Cons m ms)
  from Cons.prems(1) obtain y where y: "connection m = Some y" "y \<notin> conns_all ms" "conns_wf ms" by (auto simp: conns_Cons(1))
  show ?case
  proof (cases "x = y")
    case True
    then have "found" "ms' = m\<lparr>free := True\<rparr> # ms" using Cons.prems y by auto
    then show ?thesis using True y conns_busy_subset [of ms] by (auto simp: conns_Cons(1) conns_Cons(2,3) [where x = y])
  next
    case False
    then obtain ms2 where s: "pool_release (Some x) ms = (found, ms2)" "ms' = m # ms2"
      using Cons.prems y by (auto split: prod.splits)
    have "x \<in> conns_all ms" using Cons.prems(2) y(1) False by (simp add: conns_Cons(2))
    from Cons.IH [OF y(3) this s(1)] show ?thesis using s(2) y False
      by (auto simp: conns_Cons(1) conns_Cons(2,3) [where x = y])
  qed
qed simp

interpretation mongo: slot_pool conns_wf conns_all conns_busy pool_claim pool_release
proof
  show "finite (conns_all s) \<and> conns_busy s \<subseteq> conns_all s" for s
    using conns_finite conns_busy_subset by blast
qed (erule (1) pool_claim_law, erule (2) pool_release_law)

subsection \<open>The operations\<close>

text \<open>The sequential operations are paths of the step relation, with the same vector and semaphores.\<close>

lemma get_path:
  assumes "mongoPoolConnectionGet clocks p = Returns (c, p')" "pcs t = Idle"
    and r: "pool_reach pool_claim pool_release s0 n0 (connectionPool p) (connectionSem p) (connectionPoolSem p) pcs"
  shows "pool_reach pool_claim pool_release s0 n0 (connectionPool p') (connectionSem p') (connectionPoolSem p')
     (pcs(t := Holding c))"
proof -
  from assms(1) have pos: "connectionSem p > 0" "connectionPoolSem p > 0"
    and cl: "pool_claim (connectionPool p) = (c, connectionPool p')"
    and sems: "connectionSem p' = connectionSem p - 1" "connectionPoolSem p' = connectionPoolSem p - 1 + 1"
    by (auto simp: mongoPoolConnectionGet_def charge_pool_def Let_def split: if_splits prod.splits)
  from pool_reach.get_claim [OF pool_reach.get_enter [OF pool_reach.get_wait [OF r assms(2) pos(1)] _ pos(2)], of t t, OF _ _ cl]
  show ?thesis using sems by simp
qed

lemma release_path:
  assumes "mongoPoolConnectionRelease c p = Returns p'" "pcs t = Holding c"
    and r: "pool_reach pool_claim pool_release s0 n0 (connectionPool p) (connectionSem p) (connectionPoolSem p) pcs"
  shows "pool_reach pool_claim pool_release s0 n0 (connectionPool p') (connectionSem p') (connectionPoolSem p')
     (pcs(t := Idle))"
proof -
  obtain found ms where rl: "pool_release c (connectionPool p) = (found, ms)" by fastforce
  from assms(1) rl have pos: "connectionPoolSem p > 0" and eq: "ms = connectionPool p'"
    "connectionSem p' = (if found then connectionSem p + 1 else connectionSem p)"
    "connectionPoolSem p' = connectionPoolSem p - 1 + 1"
    by (auto simp: mongoPoolConnectionRelease_def Let_def split: if_splits)
  from pool_reach.rel_leave [OF pool_reach.rel_enter [OF r assms(2) pos], of t c found ms] rl
  show ?thesis using eq by simp
qed

lemma pool_init_wf:
  assumes "mongoConnectionPoolInit a b c connect poolSize stat p = (0, p0)"
    and "\<forall>ix < poolSize. connect ix \<noteq> None" and "inj_on connect {..<poolSize}"
  shows "conns_wf (connectionPool p0)" "conns_busy (connectionPool p0) = {}"
    "card (conns_all (connectionPool p0)) = poolSize" "connectionSem p0 = poolSize"
proof -
  from assms(1) have p0: "connectionPool p0 = map (\<lambda>ix. \<lparr>connection = connect ix, free = True\<rparr>) [0..<poolSize]"
      "connectionSem p0 = poolSize"
    by (auto simp: mongoConnectionPoolInit_def Let_def split: if_splits)
  have "map connection (connectionPool p0) = map connect [0..<poolSize]" unfolding p0 by simp
  then show wf: "conns_wf (connectionPool p0)"
    using assms(2,3) by (auto simp: conns_wf_def distinct_map atLeast0LessThan)
  show "conns_busy (connectionPool p0) = {}" unfolding p0 by (auto simp: conns_busy_def)
  show "card (conns_all (connectionPool p0)) = poolSize" using conns_card [OF wf] p0(1) by simp
  show "connectionSem p0 = poolSize" by (rule p0(2))
qed


definition pool_demo :: conn_pool where
  "pool_demo = \<lparr>connectionPool = [\<lparr>connection = Some 0, free = True\<rparr>, \<lparr>connection = Some 1, free = True\<rparr>],
     connectionPoolSem = 1, connectionSem = 2, semWaitingTime = ts_zero, semStatistics = False\<rparr>"


lemma release_claim:
  "conns_wf ms \<Longrightarrow> pool_claim ms = (Some x, ms') \<Longrightarrow> pool_release (Some x) ms' = (True, ms)"
proof (induction ms arbitrary: ms')
  case (Cons m ms)
  show ?case
  proof (cases "free m")
    case True
    then show ?thesis using Cons.prems(2) by (cases m) auto
  next
    case False
    then obtain ms2 where s: "pool_claim ms = (Some x, ms2)" "ms' = m # ms2"
      using Cons.prems(2) by (auto split: prod.splits)
    have wf: "conns_wf ms" "connection m \<noteq> Some x"
      using Cons.prems(1) pool_claim_law [OF _ s(1)] by (auto simp: conns_Cons(1))
    then show ?thesis using Cons.IH [OF wf(1) s(1)] s(2) by simp
  qed
qed simp

text \<open>A get that returns a connection takes exactly that one out of the free ones and a
  release of it puts back the vector and the counters as they were before the get; only the
  accumulated waiting time may have changed.\<close>

theorem pool_get_release:
  assumes "conns_wf (connectionPool p)" "mongoPoolConnectionGet clocks p = Returns (Some x, p1)"
  shows "x \<in> conns_all (connectionPool p) - conns_busy (connectionPool p)
     \<and> conns_busy (connectionPool p1) = insert x (conns_busy (connectionPool p))
     \<and> (\<exists>p2. mongoPoolConnectionRelease (Some x) p1 = Returns p2 \<and> p2\<lparr>semWaitingTime := semWaitingTime p\<rparr> = p)"
proof -
  from assms(2) have cl: "pool_claim (connectionPool p) = (Some x, connectionPool p1)"
    and pos: "connectionSem p > 0" "connectionPoolSem p > 0"
    and p1: "connectionPoolSem p1 = connectionPoolSem p" "connectionSem p1 = connectionSem p - 1"
      "semStatistics p1 = semStatistics p"
    by (auto simp: mongoPoolConnectionGet_def charge_pool_def Let_def split: if_splits prod.splits)
  have "mongoPoolConnectionRelease (Some x) p1
      = Returns (p1\<lparr>connectionPool := connectionPool p, connectionSem := connectionSem p\<rparr>)"
    using release_claim [OF assms(1) cl] pos p1 by (cases p1) (simp add: mongoPoolConnectionRelease_def)
  moreover have "p1\<lparr>connectionPool := connectionPool p, connectionSem := connectionSem p, semWaitingTime := semWaitingTime p\<rparr> = p"
    using p1 by (cases p; cases p1) simp
  ultimately show ?thesis using pool_claim_law [OF assms(1) cl] by simp
qed

theorem pool_get_release_witness:
  "\<exists>p1. mongoPoolConnectionGet (ts_zero, ts_zero) pool_demo = Returns (Some 0, p1)
     \<and> (\<exists>p2. mongoPoolConnectionRelease (Some 0) p1 = Returns p2 \<and> p2\<lparr>semWaitingTime := ts_zero\<rparr> = pool_demo)"
proof -
  obtain p1 where p1: "mongoPoolConnectionGet (ts_zero, ts_zero) pool_demo = Returns (Some 0, p1)"
    by (simp add: pool_demo_def mongoPoolConnectionGet_def)
  have "conns_wf (connectionPool pool_demo)" by (simp add: pool_demo_def conns_wf_def)
  from pool_get_release [OF this p1] p1 show ?thesis by (simp add: pool_demo_def)
qed

end
