(* ===== verification/Orion_Formats.thy ===== *)
theory Orion_Formats
  imports Orion_String
begin

section \<open>Render formats and mime types: common/RenderFormat.cpp, common/MimeType.cpp\<close>

text \<open>
  The two enumerations with their printers and parsers. \<^verbatim>\<open>mimeTypeParse\<close> works on the
  characters of its argument up to the terminator; it returns the mime type and the character set if
  there is one (the overwriting of the caller's buffer with terminators is not part of the result).
\<close>

datatype RenderFormat =
    NO_FORMAT
  | NGSI_V1_LEGACY
  | NGSI_V2_NORMALIZED
  | NGSI_V2_KEYVALUES
  | NGSI_V2_VALUES
  | NGSI_V2_UNIQUE_VALUES

abbreviation DEFAULT_RENDER_FORMAT :: RenderFormat where
  "DEFAULT_RENDER_FORMAT \<equiv> NGSI_V2_NORMALIZED"

fun renderFormatToString :: "RenderFormat \<Rightarrow> bool \<Rightarrow> string" where
  "renderFormatToString NGSI_V1_LEGACY noDefault = ''JSON''"
| "renderFormatToString NGSI_V2_NORMALIZED noDefault = ''normalized''"
| "renderFormatToString NGSI_V2_KEYVALUES noDefault = ''keyValues''"
| "renderFormatToString NGSI_V2_VALUES noDefault = ''values''"
| "renderFormatToString NGSI_V2_UNIQUE_VALUES noDefault = ''uniqueValues''"
| "renderFormatToString NO_FORMAT noDefault = (if noDefault = True then ''no render format'' else ''JSON'')"

definition stringToRenderFormat :: "string \<Rightarrow> bool \<Rightarrow> RenderFormat" where
  "stringToRenderFormat s noDefault =
     (if s = ''JSON'' then NGSI_V1_LEGACY
      else if s = ''legacy'' then NGSI_V1_LEGACY
      else if s = ''normalized'' then NGSI_V2_NORMALIZED
      else if s = ''keyValues'' then NGSI_V2_KEYVALUES
      else if s = ''values'' then NGSI_V2_VALUES
      else if s = ''uniqueValues'' then NGSI_V2_UNIQUE_VALUES
      else if noDefault = False then DEFAULT_RENDER_FORMAT else NO_FORMAT)"

datatype MimeType = JSON | TEXT | HTML | NOMIMETYPE

fun mimeTypeToString :: "MimeType \<Rightarrow> string" where
  "mimeTypeToString JSON = ''JSON''"
| "mimeTypeToString TEXT = ''TEXT''"
| "mimeTypeToString HTML = ''HTML''"
| "mimeTypeToString NOMIMETYPE = ''NOMIMETYPE''"

definition stringToMimeType :: "string \<Rightarrow> MimeType" where
  "stringToMimeType s = (if s = ''JSON'' then JSON else NOMIMETYPE)"

definition mimeTypeParse :: "string \<Rightarrow> MimeType \<times> string option" where
  "mimeTypeParse mimeTypeString =
     (let cP = c_str mimeTypeString;
          (cP, charset) =
            (case strstr cP '';'' of
               None \<Rightarrow> (cP, None)
             | Some (pre, post) \<Rightarrow>
                 let s = wsStrip (tl post)
                 in (pre, if take 8 s = ''charset='' then Some (drop 8 s) else None));
          mimeType = wsStrip cP
      in (if mimeType = ''*/*'' then JSON
          else if mimeType = ''text/json'' then JSON
          else if mimeType = ''application/json'' then JSON
          else if mimeType = ''text/plain'' then TEXT
          else JSON, charset))"

text \<open>Every content type but \<^verbatim>\<open>text/plain\<close> is taken for JSON, whatever its parameters.\<close>

lemma mimeTypeParse_TEXT:
  "fst (mimeTypeParse s) = (if wsStrip (takeWhile (\<lambda>c. c \<noteq> CHR '';'') (c_str s)) = ''text/plain'' then TEXT else JSON)"
proof -
  have "(case strstr b '';'' of None \<Rightarrow> b | Some (pre, post) \<Rightarrow> pre) = takeWhile (\<lambda>c. c \<noteq> CHR '';'') b" for b
    by (induction b) (subst strstr.simps; auto split: option.splits)+
  from this [of "c_str s"] show ?thesis
    by (cases "strstr (c_str s) '';''") (auto simp: mimeTypeParse_def Let_def)
qed

text \<open>Printing a render format and parsing it back gives it again, for every format and both
  ways of printing and parsing, except that the missing format printed with a default comes back as
  the NGSIv1 one and, printed without, as what the parser makes of unknown names.\<close>

theorem renderFormat_roundtrip:
  "stringToRenderFormat (renderFormatToString f noDefault) noDefault' =
     (if f \<noteq> NO_FORMAT then f
      else if \<not> noDefault then NGSI_V1_LEGACY
      else if noDefault' then NO_FORMAT else DEFAULT_RENDER_FORMAT)"
  by (cases f) (auto simp: stringToRenderFormat_def)

end
