(* ===== verification/Orion_Queue.thy ===== *)
theory Orion_Queue
  imports Orion_Sem Orion_Alarm Orion_Url Orion_Formats
begin

section \<open>Notifications: common/SyncQOverflow.h and ngsiNotify/\<close>

text \<open>
  The bounded queue between the threads that process updates and the workers that send the
  notifications (\<^verbatim>\<open>SyncQOverflow\<close>), its counters (\<^verbatim>\<open>QueueStatistics\<close>, 32-bit
  and wrapping), the producer \<^verbatim>\<open>QueueNotifier::sendNotifyContextRequest\<close>, one round of the
  consumer \<^verbatim>\<open>workerFunc\<close>, and the notification mode with a thread per notification
  (\<^verbatim>\<open>Notifier\<close>, \<^verbatim>\<open>startSenderThread\<close>).

  Parameters: the payload that the request renders to, the result of \<^verbatim>\<open>httpRequestSend\<close>,
  the readings of the clock, the result of \<^verbatim>\<open>pthread_create\<close>. The interface of the queue is
  the locale \<open>bounded_fifo\<close>, in which the interleavings of any number of producers and workers are
  analysed.
\<close>

subsection \<open>The queue\<close>

record 'a SyncQOverflow =
  queue :: "'a list"
  max_size :: nat

definition try_push :: "'a \<Rightarrow> 'a SyncQOverflow \<Rightarrow> bool \<times> 'a SyncQOverflow" where
  "try_push element q =
     (if length (queue q) < max_size q then (True, q\<lparr>queue := queue q @ [element]\<rparr>) else (False, q))"

definition pop :: "'a SyncQOverflow \<Rightarrow> ('a \<times> 'a SyncQOverflow) wait" where
  "pop q = (case queue q of [] \<Rightarrow> Blocks | element # es \<Rightarrow> Returns (element, q\<lparr>queue := es\<rparr>))"

definition q_size :: "'a SyncQOverflow \<Rightarrow> nat" where
  "q_size q = length (queue q)"

subsection \<open>The counters\<close>

record QueueStatistics =
  noOfNotificationsQueueIn :: "32 word"
  noOfNotificationsQueueOut :: "32 word"
  noOfNotificationsQueueReject :: "32 word"
  noOfNotificationsQueueSentOK :: "32 word"
  noOfNotificationsQueueSentError :: "32 word"
  timeInQ :: timespec
  queueSize :: nat

definition incIn :: "QueueStatistics \<Rightarrow> QueueStatistics" where
  "incIn s = s\<lparr>noOfNotificationsQueueIn := noOfNotificationsQueueIn s + 1\<rparr>"

definition incOut :: "QueueStatistics \<Rightarrow> QueueStatistics" where
  "incOut s = s\<lparr>noOfNotificationsQueueOut := noOfNotificationsQueueOut s + 1\<rparr>"

definition incReject :: "QueueStatistics \<Rightarrow> QueueStatistics" where
  "incReject s = s\<lparr>noOfNotificationsQueueReject := noOfNotificationsQueueReject s + 1\<rparr>"

definition incSentOK :: "QueueStatistics \<Rightarrow> QueueStatistics" where
  "incSentOK s = s\<lparr>noOfNotificationsQueueSentOK := noOfNotificationsQueueSentOK s + 1\<rparr>"

definition incSentError :: "QueueStatistics \<Rightarrow> QueueStatistics" where
  "incSentError s = s\<lparr>noOfNotificationsQueueSentError := noOfNotificationsQueueSentError s + 1\<rparr>"

definition addTimeInQWithSize :: "timespec \<Rightarrow> nat \<Rightarrow> QueueStatistics \<Rightarrow> QueueStatistics" where
  "addTimeInQWithSize diff qSize s = (let s = s\<lparr>queueSize := qSize\<rparr> in s\<lparr>timeInQ := clock_addtime (timeInQ s) diff\<rparr>)"

definition queueStatistics_reset :: "QueueStatistics \<Rightarrow> QueueStatistics" where
  "queueStatistics_reset s =
     s\<lparr>noOfNotificationsQueueIn := 0, noOfNotificationsQueueOut := 0, noOfNotificationsQueueReject := 0,
       noOfNotificationsQueueSentOK := 0, noOfNotificationsQueueSentError := 0, timeInQ := ts_zero\<rparr>"

lemmas stat_defs [orion_step] =
  incIn_def incOut_def incReject_def incSentOK_def incSentError_def addTimeInQWithSize_def queueStatistics_reset_def

text \<open>The time in the queue is an account of waits, kept as \<^verbatim>\<open>workerFunc\<close> keeps it.\<close>

interpretation q_wait: wait_account timeInQ "\<lambda>m. addTimeInQWithSize (clock_difftime (snd m) (fst m)) n" for n
  by unfold_locales (simp add: addTimeInQWithSize_def)

subsection \<open>Notifications and the state around them\<close>

record SenderThreadParams =
  p_ip :: string
  p_port :: "16 word"
  p_protocol :: string
  p_verb :: string
  p_tenant :: string
  p_servicePath :: string
  p_xauthToken :: string
  p_resource :: string
  p_content_type :: string
  p_content :: string
  p_transactionId :: string
  p_mimeType :: MimeType
  p_renderFormat :: string
  p_fiwareCorrelator :: string
  p_timeStamp :: timespec

text \<open>
  The counters that \<^verbatim>\<open>statisticsUpdate(NotifyContextSent, JSON)\<close> increments, the counter of
  simulated notifications and the flag of the simulation go with the queue, its counters and the
  alarms. The lines that \<^verbatim>\<open>LM_E\<close> writes go to the log of the alarms.
\<close>

record notify_state =
  ns_queue :: "SenderThreadParams SyncQOverflow"
  ns_stats :: QueueStatistics
  ns_alarms :: AlarmManager
  noOfJsonRequests :: "32 word"
  noOfRequestsWithoutPayload :: "32 word"
  noOfNotificationsSent :: "32 word"
  noOfSimulatedNotifications :: "32 word"
  simulatedNotification :: bool

definition statisticsUpdate_sent :: "MimeType \<Rightarrow> notify_state \<Rightarrow> notify_state" where
  "statisticsUpdate_sent mime st =
     (if mime = JSON then st\<lparr>noOfJsonRequests := noOfJsonRequests st + 1\<rparr>
      else if mime = NOMIMETYPE then st\<lparr>noOfRequestsWithoutPayload := noOfRequestsWithoutPayload st + 1\<rparr>
      else st)
       \<lparr>noOfNotificationsSent := noOfNotificationsSent st + 1\<rparr>"

text \<open>The variables of a thread that the functions read, and the arguments of a notification.\<close>

record thread_vars =
  clientIp :: string
  transactionId_buf :: string
  badInputSeen :: bool

record notification =
  n_servicePaths :: "string list"
  n_url :: string
  n_tenant :: string
  n_xauthToken :: string
  n_correlator :: string
  n_renderFormat :: RenderFormat

text \<open>\<^verbatim>\<open>strncpy\<close> into a buffer of \<open>n\<close> characters, of which at most \<open>n\<close> are read later.\<close>

definition strncpy :: "nat \<Rightarrow> string \<Rightarrow> string" where
  "strncpy n s = take n (c_str s)"

text \<open>The value of the service path header: the loop over the entities and the reset after it.\<close>

fun spathList_loop :: "string list \<Rightarrow> string \<Rightarrow> bool \<Rightarrow> string \<times> bool" where
  "spathList_loop [] spathList atLeastOneNotDefault = (spathList, atLeastOneNotDefault)"
| "spathList_loop (sp # sps) spathList atLeastOneNotDefault =
     spathList_loop sps ((if spathList \<noteq> [] then spathList @ '','' else spathList) @ sp)
       (atLeastOneNotDefault \<or> sp \<noteq> ''/'')"

definition servicePath_header :: "string list \<Rightarrow> string" where
  "servicePath_header sps =
     (case spathList_loop sps [] False of (spathList, atLeastOneNotDefault) \<Rightarrow>
        if \<not> atLeastOneNotDefault then [] else spathList)"

text \<open>
  The parameters of a notification that was parsed: \<^verbatim>\<open>port\<close> is an \<^verbatim>\<open>unsigned short\<close>, the
  members that are not assigned keep the value of the default initialisation.
\<close>

definition params_of :: "notification \<Rightarrow> url_out \<Rightarrow> string \<Rightarrow> thread_vars \<Rightarrow> bool \<Rightarrow> timespec \<Rightarrow> SenderThreadParams" where
  "params_of n u payload tv noDefault now =
     \<lparr>p_ip = host u, p_port = word_of_int (port u), p_protocol = protocol u, p_verb = ''POST'', p_tenant = n_tenant n,
      p_servicePath = servicePath_header (n_servicePaths n), p_xauthToken = n_xauthToken n, p_resource = path u,
      p_content_type = ''application/json'', p_content = payload,
      p_transactionId = strncpy 64 (transactionId_buf tv), p_mimeType = JSON,
      p_renderFormat = renderFormatToString (n_renderFormat n) noDefault,
      p_fiwareCorrelator = n_correlator n, p_timeStamp = now\<rparr>"

definition url_init :: url_out where
  "url_init = \<lparr>host = [], port = 0, path = [], protocol = []\<rparr>"

text \<open>
  \<^verbatim>\<open>QueueNotifier::sendNotifyContextRequest\<close>. \<open>payload\<close> is what \<^verbatim>\<open>ncr->toJson\<close>
  returns and \<open>now\<close> the reading of the clock; the result \<^const>\<open>None\<close> is the undefined behaviour of
  \<^verbatim>\<open>parseUrl\<close>.
\<close>

definition queue_sendNotifyContextRequest ::
    "notification \<Rightarrow> string \<Rightarrow> timespec \<Rightarrow> thread_vars \<times> notify_state \<Rightarrow> (thread_vars \<times> notify_state) option" where
  "queue_sendNotifyContextRequest n payload now = (\<lambda>(tv, st).
     case parseUrl (n_url n) url_init of
       None \<Rightarrow> None
     | Some (False, u) \<Rightarrow>
         (let details = ''sending NotifyContextRequest: malformed URL: '' @ [CHR 0x27] @ n_url n @ [CHR 0x27];
              (r, seen, am) = badInput (clientIp tv) details (badInputSeen tv) (ns_alarms st)
          in Some (tv\<lparr>badInputSeen := seen\<rparr>, st\<lparr>ns_alarms := am\<rparr>))
     | Some (True, u) \<Rightarrow>
         (let (enqueued, q) = try_push (params_of n u payload tv False now) (ns_queue st)
          in if \<not> enqueued
             then Some (tv, st\<lparr>ns_stats := incReject (ns_stats st),
                    ns_alarms := log_line LM_E ''Runtime Error (notification queue is full)'' (ns_alarms st)\<rparr>)
             else Some (tv, st\<lparr>ns_queue := q, ns_stats := incIn (ns_stats st)\<rparr>)))"

text \<open>The URL under which the alarms of a notification are kept.\<close>

definition alarm_url :: "SenderThreadParams \<Rightarrow> string" where
  "alarm_url p = p_ip p @ '':'' @ show_int (uint (p_port p)) @ p_resource p"

text \<open>
  One round of the loop of \<^verbatim>\<open>workerFunc\<close>: \<open>send p\<close> is the result of
  \<^verbatim>\<open>httpRequestSendWithCurl\<close>, \<open>now\<close> the reading of the clock.
\<close>

definition worker_round ::
    "(SenderThreadParams \<Rightarrow> int) \<Rightarrow> timespec \<Rightarrow> thread_vars \<times> notify_state \<Rightarrow> (thread_vars \<times> notify_state) wait" where
  "worker_round send now = (\<lambda>(tv, st).
     case pop (ns_queue st) of
       Blocks \<Rightarrow> Blocks
     | Returns (p, q) \<Rightarrow>
         (let st = st\<lparr>ns_queue := q\<rparr>;
              stats = incOut (ns_stats st);
              howlong = clock_difftime now (p_timeStamp p);
              estimatedQSize = q_size (ns_queue st);
              st = st\<lparr>ns_stats := addTimeInQWithSize howlong estimatedQSize stats\<rparr>;
              tv = tv\<lparr>transactionId_buf := strncpy 64 (p_transactionId p)\<rparr>
          in Returns (tv,
            if simulatedNotification st
            then st\<lparr>noOfSimulatedNotifications := noOfSimulatedNotifications st + 1\<rparr>
            else if send p = 0
            then let st = statisticsUpdate_sent (p_mimeType p) st
                 in st\<lparr>ns_stats := incSentOK (ns_stats st),
                       ns_alarms := snd (notificationErrorReset (alarm_url p) (ns_alarms st))\<rparr>
            else st\<lparr>ns_stats := incSentError (ns_stats st),
                    ns_alarms := snd (notificationError (alarm_url p) ''notification failure for queue worker'' (ns_alarms st))\<rparr>)))"

text \<open>\<^verbatim>\<open>startSenderThread\<close>, the body of a thread of the other mode, after its parameters are in place.\<close>

definition startSenderThread ::
    "(SenderThreadParams \<Rightarrow> int) \<Rightarrow> SenderThreadParams \<Rightarrow> thread_vars \<times> notify_state \<Rightarrow> thread_vars \<times> notify_state" where
  "startSenderThread send p = (\<lambda>(tv, st).
     (let url = alarm_url p;
          tv = tv\<lparr>transactionId_buf := strncpy 64 (p_transactionId p)\<rparr>
      in (tv,
        if \<not> simulatedNotification st
        then if send p = 0
             then let st = statisticsUpdate_sent (p_mimeType p) st
                  in st\<lparr>ns_alarms := snd (notificationErrorReset url (ns_alarms st))\<rparr>
             else st
        else st\<lparr>noOfSimulatedNotifications := noOfSimulatedNotifications st + 1,
                ns_alarms := snd (notificationError url ''notification failure for sender-thread'' (ns_alarms st))\<rparr>)))"

text \<open>
  \<^verbatim>\<open>Notifier::sendNotifyContextRequest\<close> and
  \<^verbatim>\<open>Notifier::sendNotifyContextAvailabilityRequest\<close>: the parameters handed to the new thread, if
  one is created (\<open>create\<close> is the result of \<^verbatim>\<open>pthread_create\<close>), with the lines logged.
\<close>

definition sendNotifyContextRequest ::
    "int \<Rightarrow> notification \<Rightarrow> string \<Rightarrow> thread_vars \<times> notify_state \<Rightarrow>
     (SenderThreadParams option \<times> thread_vars \<times> notify_state) option" where
  "sendNotifyContextRequest create n payload = (\<lambda>(tv, st).
     case parseUrl (n_url n) url_init of
       None \<Rightarrow> None
     | Some (False, u) \<Rightarrow>
         Some (None, tv, st\<lparr>ns_alarms := log_line LM_E (''Runtime Error (not sending NotifyContextRequest: malformed URL: ''
           @ [CHR 0x27] @ c_str (n_url n) @ [CHR 0x27] @ '')'') (ns_alarms st)\<rparr>)
     | Some (True, u) \<Rightarrow>
         (let params = params_of n u payload tv True ts_zero
          in if create \<noteq> 0
             then Some (None, tv, st\<lparr>ns_alarms := log_line LM_E (''Runtime Error (error creating thread: ''
                    @ show_int create @ '')'') (ns_alarms st)\<rparr>)
             else Some (Some params, tv, st)))"

definition sendNotifyContextAvailabilityRequest ::
    "int \<Rightarrow> notification \<Rightarrow> string \<Rightarrow> thread_vars \<times> notify_state \<Rightarrow>
     (SenderThreadParams option \<times> thread_vars \<times> notify_state) option" where
  "sendNotifyContextAvailabilityRequest create n payload = (\<lambda>(tv, st).
     case parseUrl (n_url n) url_init of
       None \<Rightarrow> None
     | Some (False, u) \<Rightarrow>
         (let details = ''sending NotifyContextAvailabilityRequest: malformed URL: '' @ [CHR 0x27] @ n_url n @ [CHR 0x27];
              (r, seen, am) = badInput (clientIp tv) details (badInputSeen tv) (ns_alarms st)
          in Some (None, tv\<lparr>badInputSeen := seen\<rparr>, st\<lparr>ns_alarms := am\<rparr>))
     | Some (True, u) \<Rightarrow>
         (let params = (params_of n u payload tv True ts_zero)\<lparr>p_protocol := [], p_servicePath := [], p_xauthToken := []\<rparr>
          in if create \<noteq> 0
             then Some (None, tv, st\<lparr>ns_alarms := log_line LM_E (''Runtime Error (error creating thread: ''
                    @ show_int create @ '')'') (ns_alarms st)\<rparr>)
             else Some (Some params, tv, st)))"

subsection \<open>Producers and workers in any interleaving\<close>

text \<open>
  The steps are the atomic actions: pushing, popping, and incrementing a counter, which each thread
  does some time after its push or pop. A configuration has the queue, the counters, how many
  accepted, rejected and popped notifications their threads have not counted yet, and what was
  accepted and delivered so far.
\<close>

record 'a q_ghost =
  to_count_in :: nat
  to_count_out :: nat
  to_count_reject :: nat
  accepted :: "'a list"
  delivered :: "'a list"
  rejected :: "'a list"

definition q_ghost0 :: "'a q_ghost" where
  "q_ghost0 = \<lparr>to_count_in = 0, to_count_out = 0, to_count_reject = 0, accepted = [], delivered = [], rejected = []\<rparr>"

inductive queue_reach ::
    "('a \<Rightarrow> 'q \<Rightarrow> bool \<times> 'q) \<Rightarrow> ('q \<Rightarrow> ('a \<times> 'q) wait) \<Rightarrow> 'q \<Rightarrow> QueueStatistics \<Rightarrow>
     'q \<Rightarrow> QueueStatistics \<Rightarrow> 'a q_ghost \<Rightarrow> bool"
  for psh :: "'a \<Rightarrow> 'q \<Rightarrow> bool \<times> 'q" and pp :: "'q \<Rightarrow> ('a \<times> 'q) wait" and q0 :: 'q and s0 :: QueueStatistics where
  q_start: "queue_reach psh pp q0 s0 q0 s0 q_ghost0"
| q_push: "queue_reach psh pp q0 s0 q s g \<Longrightarrow> psh x q = (True, q') \<Longrightarrow>
    queue_reach psh pp q0 s0 q' s (g\<lparr>to_count_in := to_count_in g + 1, accepted := accepted g @ [x]\<rparr>)"
| q_reject: "queue_reach psh pp q0 s0 q s g \<Longrightarrow> psh x q = (False, q') \<Longrightarrow>
    queue_reach psh pp q0 s0 q' s (g\<lparr>to_count_reject := to_count_reject g + 1, rejected := rejected g @ [x]\<rparr>)"
| q_count_in: "queue_reach psh pp q0 s0 q s g \<Longrightarrow> to_count_in g = Suc n \<Longrightarrow>
    queue_reach psh pp q0 s0 q (incIn s) (g\<lparr>to_count_in := n\<rparr>)"
| q_count_reject: "queue_reach psh pp q0 s0 q s g \<Longrightarrow> to_count_reject g = Suc n \<Longrightarrow>
    queue_reach psh pp q0 s0 q (incReject s) (g\<lparr>to_count_reject := n\<rparr>)"
| q_pop: "queue_reach psh pp q0 s0 q s g \<Longrightarrow> pp q = Returns (x, q') \<Longrightarrow>
    queue_reach psh pp q0 s0 q' s (g\<lparr>to_count_out := to_count_out g + 1, delivered := delivered g @ [x]\<rparr>)"
| q_count_out: "queue_reach psh pp q0 s0 q s g \<Longrightarrow> to_count_out g = Suc n \<Longrightarrow>
    queue_reach psh pp q0 s0 q (incOut s) (g\<lparr>to_count_out := n\<rparr>)"

locale bounded_fifo =
  fixes contents :: "'q \<Rightarrow> 'a list"
    and cap :: "'q \<Rightarrow> nat"
    and psh :: "'a \<Rightarrow> 'q \<Rightarrow> bool \<times> 'q"
    and pp :: "'q \<Rightarrow> ('a \<times> 'q) wait"
  assumes push_law: "psh x q = (ok, q') \<Longrightarrow> cap q' = cap q \<and> ok = (length (contents q) < cap q)
      \<and> contents q' = (if ok then contents q @ [x] else contents q)"
    and pop_blocks: "pp q = Blocks \<longleftrightarrow> contents q = []"
    and pop_law: "pp q = Returns (x, q') \<Longrightarrow> contents q = x # contents q' \<and> cap q' = cap q"
begin

lemma fifo:
  assumes "queue_reach psh pp q0 s0 q s g" "contents q0 = []"
  shows "accepted g = delivered g @ contents q \<and> length (contents q) \<le> cap q \<and> cap q = cap q0"
  using assms(1)
proof induction
  case q_start
  then show ?case using assms(2) by (simp add: q_ghost0_def)
next
  case (q_push q s g x q')
  then show ?case using push_law [OF q_push.hyps(2)] by simp
next
  case (q_reject q s g x q')
  then show ?case using push_law [OF q_reject.hyps(2)] by simp
next
  case (q_pop q s g x q')
  then show ?case using pop_law [OF q_pop.hyps(2)] by simp
qed simp_all

lemma counted:
  assumes "queue_reach psh pp q0 s0 q s g"
  shows "noOfNotificationsQueueIn s + of_nat (to_count_in g) = noOfNotificationsQueueIn s0 + of_nat (length (accepted g))
     \<and> noOfNotificationsQueueOut s + of_nat (to_count_out g) = noOfNotificationsQueueOut s0 + of_nat (length (delivered g))
     \<and> noOfNotificationsQueueReject s + of_nat (to_count_reject g) = noOfNotificationsQueueReject s0 + of_nat (length (rejected g))"
  using assms
  by induction (simp_all add: q_ghost0_def stat_defs algebra_simps)

text \<open>A rejection means a full queue, and a worker waits only on an empty one.\<close>

lemma no_spurious:
  assumes "queue_reach psh pp q0 s0 q s g" "contents q0 = []"
  shows "fst (psh x q) = (length (accepted g) - length (delivered g) < cap q0)"
    and "pp q = Blocks \<longleftrightarrow> accepted g = delivered g"
proof -
  note f = fifo [OF assms]
  show "fst (psh x q) = (length (accepted g) - length (delivered g) < cap q0)"
    using f push_law [of x q "fst (psh x q)" "snd (psh x q)"] by simp
  show "pp q = Blocks \<longleftrightarrow> accepted g = delivered g" using f pop_blocks by simp
qed

end

interpretation syncq: bounded_fifo queue max_size try_push pop
  by unfold_locales (auto simp: try_push_def pop_def split: if_splits list.splits)

definition stats_zero :: QueueStatistics where
  "stats_zero = \<lparr>noOfNotificationsQueueIn = 0, noOfNotificationsQueueOut = 0, noOfNotificationsQueueReject = 0,
     noOfNotificationsQueueSentOK = 0, noOfNotificationsQueueSentError = 0, timeInQ = ts_zero, queueSize = 0\<rparr>"

text \<open>C35: in every interleaving of producers and workers that starts with an empty queue and reset
  counters: notifications are delivered in the order in which they were accepted and none is lost
  or duplicated, the queue never exceeds its size, a notification is rejected exactly when as many as
  the size of the queue are accepted and not delivered, a worker waits only when everything
  accepted was delivered, and once all threads have counted, the counters of the statistics are
  the numbers of accepted, delivered and rejected notifications (modulo the 32 bits).\<close>

theorem queue_fifo_accounting:
  assumes "queue q0 = []"
    and reach: "queue_reach try_push pop q0 (queueStatistics_reset s) q s' g"
  shows "accepted g = delivered g @ queue q \<and> length (queue q) \<le> max_size q0
     \<and> fst (try_push x q) = (length (accepted g) - length (delivered g) < max_size q0)
     \<and> (pop q = Blocks \<longleftrightarrow> accepted g = delivered g)
     \<and> (to_count_in g = 0 \<longrightarrow> noOfNotificationsQueueIn s' = of_nat (length (accepted g)))
     \<and> (to_count_out g = 0 \<longrightarrow> noOfNotificationsQueueOut s' = of_nat (length (delivered g)))
     \<and> (to_count_reject g = 0 \<longrightarrow> noOfNotificationsQueueReject s' = of_nat (length (rejected g)))"
  using syncq.fifo [OF reach assms(1)] syncq.counted [OF reach] syncq.no_spurious [OF reach assms(1)]
  by (auto simp: queueStatistics_reset_def)

theorem queue_fifo_accounting_witness:
  "\<exists>q s' g. queue_reach try_push pop \<lparr>queue = [], max_size = 1\<rparr> (queueStatistics_reset stats_zero) q s' g
     \<and> accepted g = [3 :: nat, 5] \<and> delivered g = [3] \<and> rejected g = [4] \<and> to_count_in g = 0
     \<and> noOfNotificationsQueueIn s' = 2 \<and> queue q = [5]"
proof -
  let ?q0 = "\<lparr>queue = [], max_size = 1\<rparr> :: nat SyncQOverflow" and ?s0 = "queueStatistics_reset stats_zero"
  note r1 = q_push [OF q_start, of try_push 3 ?q0 "?q0\<lparr>queue := [3]\<rparr>" pop ?s0]
  note r2 = q_count_in [OF r1, of 0]
  note r3 = q_reject [OF r2, of 4 "?q0\<lparr>queue := [3]\<rparr>"]
  note r4 = q_pop [OF r3, of 3 ?q0]
  note r5 = q_push [OF r4, of 5 "?q0\<lparr>queue := [5]\<rparr>"]
  note r6 = q_count_in [OF r5, of 0]
  have r: "queue_reach try_push pop ?q0 ?s0 (?q0\<lparr>queue := [5]\<rparr>) (incIn (incIn ?s0))
      \<lparr>to_count_in = 0, to_count_out = 1, to_count_reject = 1, accepted = [3, 5], delivered = [3], rejected = [4]\<rparr>"
    using r6 by (simp add: try_push_def pop_def q_ghost0_def)
  have "queue ?q0 = []" by simp
  from queue_fifo_accounting [OF this r, of 9] r show ?thesis
    by (intro exI [of _ "?q0\<lparr>queue := [5]\<rparr>"] exI [of _ "incIn (incIn ?s0)"]
        exI [of _ "\<lparr>to_count_in = 0, to_count_out = 1, to_count_reject = 1, accepted = [3, 5], delivered = [3], rejected = [4]\<rparr>"]) simp
qed

subsection \<open>What the counters and alarms say about the notifications\<close>

text \<open>Requests to notify and rounds of workers, one after the other; a worker without work waits.\<close>

datatype notify_event =
    Notify notification string timespec thread_vars
  | Work int timespec thread_vars

fun notify_run :: "notify_event list \<Rightarrow> notify_state \<Rightarrow> notify_state option" where
  "notify_run [] st = Some st"
| "notify_run (Notify n payload now tv # evs) st =
     (case queue_sendNotifyContextRequest n payload now (tv, st) of
        None \<Rightarrow> None
      | Some (tv', st') \<Rightarrow> notify_run evs st')"
| "notify_run (Work r now tv # evs) st =
     (case worker_round (\<lambda>p. r) now (tv, st) of
        Blocks \<Rightarrow> notify_run evs st
      | Returns (tv', st') \<Rightarrow> notify_run evs st')"

text \<open>The books: what went in is out or queued, what went out was sent, failed or simulated.\<close>

definition books :: "32 word \<Rightarrow> notify_state \<Rightarrow> bool" where
  "books sim0 st \<longleftrightarrow>
     noOfNotificationsQueueIn (ns_stats st) = noOfNotificationsQueueOut (ns_stats st) + of_nat (length (queue (ns_queue st)))
   \<and> noOfNotificationsQueueOut (ns_stats st) + sim0 = noOfNotificationsQueueSentOK (ns_stats st)
       + noOfNotificationsQueueSentError (ns_stats st) + noOfSimulatedNotifications st
   \<and> length (queue (ns_queue st)) \<le> max_size (ns_queue st)
   \<and> alarm_balanced (ns_alarms st)"

lemma balanced_log [simp]: "alarm_balanced (log_line l m am) = alarm_balanced am"
  by (simp add: alarm_balanced_def alarm_wf_def log_line_def dbErrorsGet_def notificationErrorGet_def badInputGet_def)

lemma balanced_badInput:
  assumes "alarm_balanced am" "badInput ip d seen am = (b, seen', am')"
  shows "alarm_balanced am'"
proof (cases seen)
  case True
  then show ?thesis using assms by (simp add: badInput_def)
next
  case False
  then show ?thesis using balanced_badInput_fresh [OF assms(1), of ip d] assms(2) by (simp add: badInput_fresh_def)
qed

lemma statisticsUpdate_sent_frame [simp]:
  "ns_queue (statisticsUpdate_sent m st) = ns_queue st" "ns_stats (statisticsUpdate_sent m st) = ns_stats st"
  "ns_alarms (statisticsUpdate_sent m st) = ns_alarms st"
  "noOfSimulatedNotifications (statisticsUpdate_sent m st) = noOfSimulatedNotifications st"
  "simulatedNotification (statisticsUpdate_sent m st) = simulatedNotification st"
  by (simp_all add: statisticsUpdate_sent_def)

lemma notify_books:
  assumes "books sim0 st" "queue_sendNotifyContextRequest n payload now (tv, st) = Some (tv', st')"
  shows "books sim0 st'"
  using assms balanced_badInput
  by (auto simp: queue_sendNotifyContextRequest_def books_def try_push_def stat_defs Let_def algebra_simps
      split: option.splits prod.splits bool.splits if_splits)

lemma worker_books:
  assumes "books sim0 st" "worker_round send now (tv, st) = Returns (tv', st')"
  shows "books sim0 st'"
  using assms
  by (auto simp: worker_round_def books_def pop_def stat_defs Let_def algebra_simps
      intro: balanced_notificationError balanced_notificationErrorReset split: list.splits if_splits)

text \<open>C36: after any sequence of notifications and worker rounds from an empty queue with reset
  counters, whatever the sends return, and as long as no URL leads \<^verbatim>\<open>parseUrl\<close> into undefined
  behaviour: in = out + queued, out = sent + failed + simulated (modulo the 32 bits), the queue is
  within its size, and the alarms stay balanced.\<close>

theorem notification_books:
  assumes "queue (ns_queue st) = []" "ns_stats st = queueStatistics_reset s" "alarm_balanced (ns_alarms st)"
    and "notify_run evs st = Some st'"
  shows "books (noOfSimulatedNotifications st) st'"
proof -
  have "books sim0 st \<Longrightarrow> notify_run evs st = Some st' \<Longrightarrow> books sim0 st'" for sim0
    by (induction evs st rule: notify_run.induct)
      (auto split: option.splits wait.splits dest: notify_books worker_books)
  then show ?thesis using assms by (simp add: books_def queueStatistics_reset_def)
qed

text \<open>A worker round takes the oldest notification out of the queue, and with the simulation off
  the alarm of its URL is active afterwards exactly when the send failed, every other URL keeping
  its state.\<close>

theorem worker_alarm:
  assumes "alarm_wf (ns_alarms st)" "\<not> simulatedNotification st"
    and "worker_round send now (tv, st) = Returns (tv', st')"
  shows "\<exists>p. queue (ns_queue st) = p # queue (ns_queue st')
     \<and> keys (notificationV (ns_alarms st')) =
         (if send p = 0 then keys (notificationV (ns_alarms st)) - {alarm_url p}
          else insert (alarm_url p) (keys (notificationV (ns_alarms st))))"
proof -
  obtain p ps where q: "queue (ns_queue st) = p # ps"
    using assms(3) by (auto simp: worker_round_def pop_def split: list.splits)
  obtain b am where n: "notificationError (alarm_url p) ''notification failure for queue worker'' (ns_alarms st) = (b, am)" by fastforce
  obtain b2 am2 where r: "notificationErrorReset (alarm_url p) (ns_alarms st) = (b2, am2)" by fastforce
  have st': "queue (ns_queue st') = ps" "ns_alarms st' = (if send p = 0 then am2 else am)"
    using assms(2,3) q n r by (auto simp: worker_round_def pop_def Let_def split: if_splits)
  show ?thesis
    using q st' conjunct1 [OF conjunct2 [OF conjunct2 [OF notif.raise_law [OF assms(1) n]]]]
      conjunct1 [OF conjunct2 [OF conjunct2 [OF notif.reset_law [OF assms(1) r]]]]
    by (intro exI [of _ p]) simp
qed

definition params_demo :: SenderThreadParams where
  "params_demo = \<lparr>p_ip = ''h'', p_port = 1028, p_protocol = ''http:'', p_verb = ''POST'', p_tenant = [],
     p_servicePath = [], p_xauthToken = [], p_resource = ''/n'', p_content_type = ''application/json'',
     p_content = ''{}'', p_transactionId = ''t'', p_mimeType = JSON, p_renderFormat = ''JSON'',
     p_fiwareCorrelator = [], p_timeStamp = ts_zero\<rparr>"

definition notify_demo :: "SenderThreadParams list \<Rightarrow> notify_state" where
  "notify_demo ps = \<lparr>ns_queue = \<lparr>queue = ps, max_size = 2\<rparr>, ns_stats = queueStatistics_reset stats_zero,
     ns_alarms = AlarmManager_new, noOfJsonRequests = 0, noOfRequestsWithoutPayload = 0, noOfNotificationsSent = 0,
     noOfSimulatedNotifications = 0, simulatedNotification = False\<rparr>"

definition tv_demo :: thread_vars where
  "tv_demo = \<lparr>clientIp = ''1.1.1.1'', transactionId_buf = ''t'', badInputSeen = False\<rparr>"

lemma demo_wf: "alarm_wf AlarmManager_new" "alarm_balanced AlarmManager_new"
  by (simp_all add: alarm_wf_def AlarmManager_new_def alarm_balanced_def dbErrorsGet_def notificationErrorGet_def badInputGet_def)

theorem worker_alarm_witness:
  "\<exists>tv' st'. worker_round (\<lambda>p. 1) ts_zero (tv_demo, notify_demo [params_demo]) = Returns (tv', st')
     \<and> keys (notificationV (ns_alarms st')) = {alarm_url params_demo}"
proof -
  obtain tv' st' where w: "worker_round (\<lambda>p. 1) ts_zero (tv_demo, notify_demo [params_demo]) = Returns (tv', st')"
    by (simp add: worker_round_def notify_demo_def pop_def Let_def)
  have "alarm_wf (ns_alarms (notify_demo [params_demo]))" "\<not> simulatedNotification (notify_demo [params_demo])"
    by (simp_all add: notify_demo_def demo_wf)
  from worker_alarm [OF this w] w show ?thesis
    by (simp add: notify_demo_def AlarmManager_new_def keys_def)
qed

text \<open>The thread-per-notification mode is the other way round: a send that fails leaves every
  alarm as it is, and a simulated notification raises the alarm of its URL.\<close>

theorem sender_thread_alarm:
  assumes "alarm_wf (ns_alarms st)"
  shows "keys (notificationV (ns_alarms (snd (startSenderThread send p (tv, st))))) =
     (if simulatedNotification st then insert (alarm_url p) (keys (notificationV (ns_alarms st)))
      else if send p = 0 then keys (notificationV (ns_alarms st)) - {alarm_url p}
      else keys (notificationV (ns_alarms st)))"
proof -
  obtain b am where n: "notificationError (alarm_url p) ''notification failure for sender-thread'' (ns_alarms st) = (b, am)" by fastforce
  obtain b2 am2 where r: "notificationErrorReset (alarm_url p) (ns_alarms st) = (b2, am2)" by fastforce
  show ?thesis
    using n r notif.raise_law [OF assms n] notif.reset_law [OF assms r]
    by (simp add: startSenderThread_def Let_def)
qed

theorem sender_thread_alarm_witness:
  "keys (notificationV (ns_alarms (snd (startSenderThread (\<lambda>p. 1) params_demo (tv_demo, notify_demo []))))) = {}
   \<and> keys (notificationV (ns_alarms (snd (startSenderThread (\<lambda>p. 0) params_demo
        (tv_demo, (notify_demo [])\<lparr>simulatedNotification := True\<rparr>))))) = {alarm_url params_demo}"
  using sender_thread_alarm [of "notify_demo []" "\<lambda>p. 1" params_demo tv_demo]
    sender_thread_alarm [of "(notify_demo [])\<lparr>simulatedNotification := True\<rparr>" "\<lambda>p. 0" params_demo tv_demo]
  by (simp add: notify_demo_def demo_wf) (simp add: AlarmManager_new_def keys_def)

text \<open>The service path header.\<close>

lemma join_with_Cons: "join_with d (g # gs) = g @ concat (map (\<lambda>h. d # h) gs)"
  by (induction gs arbitrary: g) simp_all

lemma spathList_loop_append:
  "acc \<noteq> [] \<Longrightarrow> spathList_loop sps acc b = (acc @ concat (map (\<lambda>sp. CHR '','' # sp) sps), b \<or> (\<exists>sp \<in> set sps. sp \<noteq> ''/''))"
  by (induction sps arbitrary: acc b) auto

text \<open>For entities whose service paths are not empty, the service path header of a notification
  is the comma-separated list of the service paths in the order of the entities, and it is empty
  exactly when all of them are the default path.\<close>

theorem servicePath_header_join:
  assumes "[] \<notin> set sps"
  shows "servicePath_header sps = (if \<exists>sp \<in> set sps. sp \<noteq> ''/'' then join_with (CHR '','') sps else [])"
proof (cases sps)
  case Nil
  then show ?thesis by (simp add: servicePath_header_def)
next
  case (Cons sp sps')
  then have "sp \<noteq> []" using assms by auto
  then show ?thesis
    unfolding Cons servicePath_header_def
    by (simp add: spathList_loop_append join_with_Cons)
qed

theorem servicePath_header_join_witness: "servicePath_header [''/'', ''/a'', ''/''] = ''/,/a,/''"
  using servicePath_header_join [of "[''/'', ''/a'', ''/'']"] by simp

theorem notification_books_witness:
  "\<exists>st'. notify_run [Work 0 ts_zero tv_demo, Notify \<lparr>n_servicePaths = [], n_url = ''http://h/'', n_tenant = [], n_xauthToken = [],
       n_correlator = [], n_renderFormat = NO_FORMAT\<rparr> ''{}'' ts_zero tv_demo, Work 7 ts_zero tv_demo] (notify_demo []) = Some st'
     \<and> books 0 st'"
proof -
  let ?evs = "[Work 0 ts_zero tv_demo, Notify \<lparr>n_servicePaths = [], n_url = ''http://h/'', n_tenant = [], n_xauthToken = [],
       n_correlator = [], n_renderFormat = NO_FORMAT\<rparr> ''{}'' ts_zero tv_demo, Work 7 ts_zero tv_demo]"
  have "notify_run ?evs (notify_demo []) \<noteq> None" by code_simp
  then obtain st' where r: "notify_run ?evs (notify_demo []) = Some st'" by blast
  have "queue (ns_queue (notify_demo [])) = []" "ns_stats (notify_demo []) = queueStatistics_reset stats_zero"
    "alarm_balanced (ns_alarms (notify_demo []))" by (simp_all add: notify_demo_def demo_wf)
  from notification_books [OF this r] r show ?thesis by (simp add: notify_demo_def)
qed

end
