(* ===== verification/Orion_Number.thy ===== *)
theory Orion_Number
  imports Orion_String
begin

section \<open>Numbers as text\<close>

text \<open>
  The two ways in which the broker writes a \<^verbatim>\<open>double\<close>: the template \<^verbatim>\<open>toString\<close> of
  \<^verbatim>\<open>common/string.h\<close>, which is \<^verbatim>\<open>operator<<\<close> of a stream with its default precision of
  six significant digits (the conversion \<^verbatim>\<open>%g\<close>), and \<^verbatim>\<open>snprintf\<close> with
  \<^verbatim>\<open>%f\<close> into a buffer of 64 bytes. Both round the exact value to the nearest decimal, ties
  to even. Negative zero is not distinguished from zero. \<open>number_value\<close> is the value of a number of JSON.

  Integers below a million survive \<^verbatim>\<open>toString\<close>; larger ones lose digits.
\<close>

definition pow10 :: "int \<Rightarrow> rat" where
  "pow10 e = (if 0 \<le> e then 10 ^ nat e else 1 / 10 ^ nat (- e))"

definition round_even :: "rat \<Rightarrow> int" where
  "round_even r =
     (let f = \<lfloor>r\<rfloor>; d = r - of_int f
      in if d < 1 / 2 then f else if 1 / 2 < d then f + 1 else if even f then f else f + 1)"

text \<open>The exponent of the first digit of a positive number.\<close>

definition dec_exponent :: "rat \<Rightarrow> int" where
  "dec_exponent r =
     (let (n, d) = quotient_of r; e = int (length (dec (nat n))) - int (length (dec (nat d)))
      in if pow10 e \<le> r then e else e - 1)"

definition strip_zeros :: "string \<Rightarrow> string" where
  "strip_zeros s = rev (dropWhile (\<lambda>c. c = CHR ''0'') (rev s))"

definition with_fraction :: "string \<Rightarrow> string \<Rightarrow> string" where
  "with_fraction i f = (let f = strip_zeros f in if f = [] then i else i @ ''.'' @ f)"

definition show_g_pos :: "rat \<Rightarrow> string" where
  "show_g_pos r =
     (let e = dec_exponent r; m = round_even (r / pow10 (e - 5));
          (e, m) = (if m = 1000000 then (e + 1, 100000) else (e, m));
          ds = dec (nat m)
      in if -4 \<le> e \<and> e < 6
         then if 0 \<le> e then with_fraction (take (nat e + 1) ds) (drop (nat e + 1) ds)
              else with_fraction ''0'' (replicate (nat (- e) - 1) (CHR ''0'') @ ds)
         else with_fraction (take 1 ds) (drop 1 ds) @ ''e'' @ (if e < 0 then ''-'' else ''+'')
                @ pad0 2 (dec (nat \<bar>e\<bar>)))"

fun toString_double :: "dbl \<Rightarrow> string" where
  "toString_double NaN = ''nan''"
| "toString_double PInf = ''inf''"
| "toString_double NInf = ''-inf''"
| "toString_double (Fin r) =
     (if r = 0 then ''0'' else if r < 0 then CHR ''-'' # show_g_pos (- r) else show_g_pos r)"

text \<open>\<open>k\<close> decimals: \<^verbatim>\<open>%f\<close> has six, a stream with \<^verbatim>\<open>std::fixed\<close> those of its precision.\<close>

definition show_fixed_pos :: "nat \<Rightarrow> rat \<Rightarrow> string" where
  "show_fixed_pos k r =
     (let m = nat (round_even (r * 10 ^ k)) in dec (m div 10 ^ k) @ ''.'' @ pad0 k (dec (m mod 10 ^ k)))"

fun show_fixed :: "nat \<Rightarrow> dbl \<Rightarrow> string" where
  "show_fixed k NaN = ''nan''"
| "show_fixed k PInf = ''inf''"
| "show_fixed k NInf = ''-inf''"
| "show_fixed k (Fin r) = (if r < 0 then CHR ''-'' # show_fixed_pos k (- r) else show_fixed_pos k r)"

definition snprintf_f :: "dbl \<Rightarrow> string" where
  "snprintf_f d = take 63 (show_fixed 6 d)"

text \<open>Rounding to a significand of \<open>k\<close> bits, to nearest and ties to even: 24 for \<^verbatim>\<open>float\<close>, 53 for
  \<^verbatim>\<open>double\<close>. The values here are far from the limits of the exponent.\<close>

fun bits :: "nat \<Rightarrow> nat" where
  "bits n = (if n = 0 then 0 else Suc (bits (n div 2)))"

declare bits.simps [simp del]

definition pow2 :: "int \<Rightarrow> rat" where
  "pow2 e = (if 0 \<le> e then 2 ^ nat e else 1 / 2 ^ nat (- e))"

definition round_bits :: "nat \<Rightarrow> rat \<Rightarrow> rat" where
  "round_bits k r =
     (if r = 0 then 0
      else let (n, d) = quotient_of \<bar>r\<bar>; e = int (bits (nat n)) - int (bits (nat d));
               e = (if pow2 e \<le> \<bar>r\<bar> then e else e - 1); u = pow2 (e - int k + 1)
           in (if r < 0 then -1 else 1) * of_int (round_even (\<bar>r\<bar> / u)) * u)"

subsection \<open>The value of a JSON number\<close>

definition frac_value :: "string \<Rightarrow> rat" where
  "frac_value ds = of_nat (num_of ds) / 10 ^ length ds"

definition number_int :: "string \<Rightarrow> (rat \<times> string) option" where
  "number_int s =
     (let ds = takeWhile isdigit s
      in if ds = [] \<or> (hd ds = CHR ''0'' \<and> length ds \<noteq> 1) then None
         else Some (of_nat (num_of ds), dropWhile isdigit s))"

definition number_frac :: "string \<Rightarrow> (rat \<times> string) option" where
  "number_frac s =
     (if s \<noteq> [] \<and> hd s = CHR ''.''
      then let ds = takeWhile isdigit (tl s)
           in if ds = [] then None else Some (frac_value ds, dropWhile isdigit (tl s))
      else Some (0, s))"

definition number_exp :: "string \<Rightarrow> (rat \<times> string) option" where
  "number_exp s =
     (if s \<noteq> [] \<and> (hd s = CHR ''e'' \<or> hd s = CHR ''E'')
      then let t = tl s; neg = (t \<noteq> [] \<and> hd t = CHR ''-'');
               t = (if t \<noteq> [] \<and> (hd t = CHR ''-'' \<or> hd t = CHR ''+'') then tl t else t);
               ds = takeWhile isdigit t
           in if ds = [] then None
              else Some (pow10 (if neg then - int (num_of ds) else int (num_of ds)), dropWhile isdigit t)
      else Some (1, s))"

definition unsigned_value :: "string \<Rightarrow> rat option" where
  "unsigned_value s =
     do { (i, s) \<leftarrow> number_int s; (f, s) \<leftarrow> number_frac s; (e, s) \<leftarrow> number_exp s;
          if s = [] then Some ((i + f) * e) else None }"

definition number_value :: "string \<Rightarrow> rat option" where
  "number_value s =
     (if s \<noteq> [] \<and> hd s = CHR ''-'' then map_option uminus (unsigned_value (tl s)) else unsigned_value s)"

subsection \<open>Integers below a million survive\<close>

lemma digit_char_0: "digit_char 0 = CHR ''0''"
  by code_simp

lemma dec_step: "10 \<le> n \<Longrightarrow> dec n = dec (n div 10) @ [digit_char (n mod 10)]"
  by (subst dec.simps) simp

lemma dec_zeros: "0 < n \<Longrightarrow> dec (n * 10 ^ k) = dec n @ replicate k (CHR ''0'')"
proof (induction k)
  case (Suc k)
  have "dec (n * 10 ^ Suc k) = dec (n * 10 ^ k) @ [digit_char 0]"
    using Suc.prems by (subst dec_step) simp_all
  also have "digit_char 0 = CHR ''0''" by (rule digit_char_0)
  finally show ?case using Suc by (simp add: replicate_append_same)
qed simp

lemma dec_length_bounds: "n < 10 ^ length (dec n)" "0 < n \<Longrightarrow> 10 ^ (length (dec n) - 1) \<le> n"
proof (induction n rule: dec.induct)
  case (1 n)
  {
    case 1
    show ?case
    proof (cases "n < 10")
      case False
      then have "n div 10 < 10 ^ length (dec (n div 10))" using "1.IH"(1) by simp
      then show ?thesis using False by (simp add: dec_step)
    qed (subst dec.simps, simp)
  next
    case 2
    show ?case
    proof (cases "n < 10")
      case True
      then show ?thesis using 2 by (subst dec.simps) simp
    next
      case False
      then have "10 ^ (length (dec (n div 10)) - 1) \<le> n div 10" using "1.IH"(2) by simp
      then have "10 ^ Suc (length (dec (n div 10)) - 1) \<le> n" unfolding power_Suc by linarith
      moreover have "0 < length (dec (n div 10))" by simp
      then have "length (dec n) - 1 = Suc (length (dec (n div 10)) - 1)"
        using False by (simp only: dec_step not_less length_append) simp
      ultimately show ?thesis by (simp only:)
    qed
  }
qed

lemma dec_length_le: "0 < n \<Longrightarrow> n < 10 ^ k \<Longrightarrow> length (dec n) \<le> k"
proof (rule ccontr)
  assume "0 < n" "n < 10 ^ k" "\<not> length (dec n) \<le> k"
  then have "(10::nat) ^ k \<le> 10 ^ (length (dec n) - 1)" by (intro power_increasing) simp_all
  then show False using dec_length_bounds(2) [OF \<open>0 < n\<close>] \<open>n < 10 ^ k\<close> by linarith
qed

lemma strip_zeros_replicate [simp]: "strip_zeros (replicate k (CHR ''0'')) = []"
  by (simp add: strip_zeros_def rev_replicate)

lemma round_even_of_int [simp]: "round_even (of_int i) = i"
  by (simp add: round_even_def)

lemma show_g_pos_nat:
  assumes "0 < n" "n < 1000000"
  shows "show_g_pos (of_nat n) = dec n"
proof -
  define k where "k = length (dec n) - 1"
  have len: "length (dec n) = Suc k" by (cases "dec n") (simp_all add: k_def)
  have k: "k \<le> 5" using dec_length_le [OF assms(1), of 6] assms(2) len by simp
  have le: "(10::nat) ^ k \<le> n" using dec_length_bounds(2) [OF assms(1)] by (simp add: k_def)
  have q: "quotient_of (of_nat n) = (int n, 1)"
    by (simp add: Fract_of_nat_eq [symmetric] quotient_of_Fract normalize_def)
  have one: "length (dec (Suc 0)) = 1" by (subst dec.simps) simp
  have p: "pow10 (int k) = of_nat (10 ^ k)" by (simp add: pow10_def)
  have "pow10 (int k) \<le> of_nat n" unfolding p using le by (simp only: of_nat_le_iff)
  then have e: "dec_exponent (of_nat n) = int k" by (simp add: dec_exponent_def q len one Let_def)
  have sc: "of_nat n / pow10 (int k - 5) = (of_int (int (n * 10 ^ (5 - k))) :: rat)"
    using k by (auto simp: pow10_def of_nat_diff nat_diff_distrib)
  have lt: "n * 10 ^ (5 - k) < 1000000"
  proof -
    have "n < 10 ^ Suc k" using dec_length_bounds(1) [of n] len by simp
    then have "n * 10 ^ (5 - k) < 10 ^ Suc k * 10 ^ (5 - k)" by (intro mult_strict_right_mono) simp_all
    also have "\<dots> = 10 ^ 6" using k by (simp flip: power_add)
    finally show ?thesis by simp
  qed
  have m: "round_even (of_nat n / pow10 (int k - 5)) = int (n * 10 ^ (5 - k))"
    unfolding sc by (rule round_even_of_int)
  show ?thesis
    using k lt len unfolding show_g_pos_def e m Let_def
    by (simp add: dec_zeros [OF assms(1)] with_fraction_def del: of_nat_mult of_nat_power)
qed

lemma toString_double_int:
  assumes "\<bar>i\<bar> < 1000000"
  shows "toString_double (Fin (of_int i)) = show_int i"
proof -
  have z: "dec 0 = ''0''" by (subst dec.simps) (simp add: digit_char_0)
  consider "i = 0" | n where "0 < n" "i = int n" | n where "0 < n" "i = - int n"
    by (metis int_cases2 of_nat_0 of_nat_0_eq_iff neq0_conv minus_zero)
  then show ?thesis
  proof cases
    case 2
    then show ?thesis using assms by (simp add: show_int_def show_g_pos_nat)
  next
    case 3
    then show ?thesis using assms by (simp add: show_int_def show_g_pos_nat)
  qed (simp add: show_int_def z)
qed

declare toString_double.simps [simp del] show_fixed.simps [simp del]

end
