(* ===== verification/Orion_Json.thy ===== *)
theory Orion_Json
  imports Orion_Number
begin

section \<open>JSON values and their text\<close>

text \<open>
  The reference against which the parsers and renderers of the broker are judged: JSON values, a compact
  printer that writes strings as they are between quotes, and a parser of JSON text as RFC 8259 has it
  (white space between tokens, escapes in strings, decimal numbers). The parser takes fuel for the nesting;
  \<open>json_parse\<close> gives it the length of the text, and \<open>json_parse_jprint\<close> shows that this is enough for
  every text that is printed. Objects are lists of members, so that repeated names can be spoken of.

  Of the escapes \<^verbatim>\<open>\uXXXX\<close> those of the characters below 128 are understood, which are all that the
  broker writes.
\<close>

datatype json =
    JNull
  | JBool bool
  | JNum dbl
  | JStr string
  | JArr "json list"
  | JObj "(string \<times> json) list"

definition jstr :: "string \<Rightarrow> string" where
  "jstr s = CHR 0x22 # s @ [CHR 0x22]"

fun commas :: "string list \<Rightarrow> string" where
  "commas [] = []"
| "commas [x] = x"
| "commas (x # y # xs) = x @ '','' @ commas (y # xs)"

fun jprint :: "json \<Rightarrow> string" where
  "jprint JNull = ''null''"
| "jprint (JBool b) = (if b then ''true'' else ''false'')"
| "jprint (JNum d) = toString_double d"
| "jprint (JStr s) = jstr s"
| "jprint (JArr vs) = ''['' @ commas (map jprint vs) @ '']''"
| "jprint (JObj ms) = ''{'' @ commas (map (\<lambda>(k, v). jstr k @ '':'' @ jprint v) ms) @ ''}''"

subsection \<open>Reading JSON\<close>

definition jws :: "char \<Rightarrow> bool" where
  "jws c = (c = CHR '' '' \<or> c = CHR 0x09 \<or> c = CHR 0x0A \<or> c = CHR 0x0D)"

definition hex_val :: "char \<Rightarrow> nat" where
  "hex_val c = (if isdigit c then of_char c - 48 else if 97 \<le> (of_char c :: nat) then of_char c - 87 else of_char c - 55)"

definition unescape1 :: "string \<Rightarrow> (char \<times> string) option" where
  "unescape1 s =
     (case s of
        [] \<Rightarrow> None
      | c # r \<Rightarrow>
          if c = CHR 0x22 \<or> c = CHR 0x5C \<or> c = CHR ''/'' then Some (c, r)
          else if c = CHR ''b'' then Some (CHR 0x08, r)
          else if c = CHR ''f'' then Some (CHR 0x0C, r)
          else if c = CHR ''n'' then Some (CHR 0x0A, r)
          else if c = CHR ''r'' then Some (CHR 0x0D, r)
          else if c = CHR ''t'' then Some (CHR 0x09, r)
          else if c = CHR ''u''
          then (case r of
                  z1 # z2 # h1 # h2 # r \<Rightarrow>
                    if z1 = CHR ''0'' \<and> z2 = CHR ''0'' \<and> isxdigit h1 \<and> isxdigit h2 \<and> 16 * hex_val h1 + hex_val h2 < 128
                    then Some (char_of (16 * hex_val h1 + hex_val h2), r) else None
                | _ \<Rightarrow> None)
          else None)"

lemma unescape1_shorter: "unescape1 s = Some (c, r) \<Longrightarrow> length r < length s"
  by (auto simp: unescape1_def split: list.splits if_splits)

text \<open>The text of a string after its opening quote.\<close>

function pstr :: "string \<Rightarrow> (string \<times> string) option" where
  "pstr s =
     (case s of
        [] \<Rightarrow> None
      | c # r \<Rightarrow>
          if c = CHR 0x22 then Some ([], r)
          else if c = CHR 0x5C
          then (case unescape1 r of
                  None \<Rightarrow> None
                | Some (d, r') \<Rightarrow> map_option (\<lambda>(t, q). (d # t, q)) (pstr r'))
          else if (of_char c :: nat) < 32 then None
          else map_option (\<lambda>(t, q). (c # t, q)) (pstr r))"
  by pat_completeness auto
termination
  by (relation "measure length") (auto dest: unescape1_shorter)

declare pstr.simps [simp del]

definition number_char :: "char \<Rightarrow> bool" where
  "number_char c = (isdigit c \<or> c = CHR ''-'' \<or> c = CHR ''+'' \<or> c = CHR ''.'' \<or> c = CHR ''e'' \<or> c = CHR ''E'')"

fun pval :: "nat \<Rightarrow> string \<Rightarrow> (json \<times> string) option"
  and pmembers :: "nat \<Rightarrow> string \<Rightarrow> ((string \<times> json) list \<times> string) option"
  and pelems :: "nat \<Rightarrow> string \<Rightarrow> (json list \<times> string) option" where
  "pval 0 s = None"
| "pval (Suc n) s =
     (case dropWhile jws s of
        [] \<Rightarrow> None
      | c # r \<Rightarrow>
          if c = CHR 0x22 then map_option (\<lambda>(t, q). (JStr t, q)) (pstr r)
          else if c = CHR ''{'' then
            (case dropWhile jws r of
               [] \<Rightarrow> None
             | d # r' \<Rightarrow> if d = CHR ''}'' then Some (JObj [], r')
                        else map_option (\<lambda>(ms, q). (JObj ms, q)) (pmembers n (d # r')))
          else if c = CHR ''['' then
            (case dropWhile jws r of
               [] \<Rightarrow> None
             | d # r' \<Rightarrow> if d = CHR '']'' then Some (JArr [], r')
                        else map_option (\<lambda>(vs, q). (JArr vs, q)) (pelems n (d # r')))
          else if take 4 (c # r) = ''true'' then Some (JBool True, drop 4 (c # r))
          else if take 5 (c # r) = ''false'' then Some (JBool False, drop 5 (c # r))
          else if take 4 (c # r) = ''null'' then Some (JNull, drop 4 (c # r))
          else map_option (\<lambda>x. (JNum (Fin x), dropWhile number_char (c # r)))
                 (number_value (takeWhile number_char (c # r))))"
| "pmembers 0 s = None"
| "pmembers (Suc n) s =
     (case dropWhile jws s of
        [] \<Rightarrow> None
      | c # r \<Rightarrow>
          if c \<noteq> CHR 0x22 then None
          else do { (k, r) \<leftarrow> pstr r;
                    r \<leftarrow> (case dropWhile jws r of [] \<Rightarrow> None | c # r \<Rightarrow> if c = CHR '':'' then Some r else None);
                    (v, r) \<leftarrow> pval n r;
                    (case dropWhile jws r of
                       [] \<Rightarrow> None
                     | c # r \<Rightarrow> if c = CHR '','' then map_option (\<lambda>(ms, q). ((k, v) # ms, q)) (pmembers n r)
                                else if c = CHR ''}'' then Some ([(k, v)], r) else None) })"
| "pelems 0 s = None"
| "pelems (Suc n) s =
     do { (v, r) \<leftarrow> pval n s;
          (case dropWhile jws r of
             [] \<Rightarrow> None
           | c # r \<Rightarrow> if c = CHR '','' then map_option (\<lambda>(vs, q). (v # vs, q)) (pelems n r)
                      else if c = CHR '']'' then Some ([v], r) else None) }"

definition json_parse :: "string \<Rightarrow> json option" where
  "json_parse s =
     (case pval (Suc (length s)) s of
        None \<Rightarrow> None
      | Some (v, r) \<Rightarrow> if dropWhile jws r = [] then Some v else None)"

subsection \<open>What is printed is read back\<close>

definition plain_char :: "char \<Rightarrow> bool" where
  "plain_char c = (c \<noteq> CHR 0x22 \<and> c \<noteq> CHR 0x5C \<and> 32 \<le> (of_char c :: nat))"

definition plain :: "string \<Rightarrow> bool" where
  "plain s = list_all plain_char s"

fun num_plain :: "dbl \<Rightarrow> bool" where
  "num_plain (Fin r) = (number_value (toString_double (Fin r)) = Some r \<and> list_all number_char (toString_double (Fin r)))"
| "num_plain _ = False"

fun json_plain :: "json \<Rightarrow> bool" where
  "json_plain JNull = True"
| "json_plain (JBool b) = True"
| "json_plain (JNum d) = num_plain d"
| "json_plain (JStr s) = plain s"
| "json_plain (JArr vs) = list_all json_plain vs"
| "json_plain (JObj ms) = list_all (\<lambda>(k, v). plain k \<and> json_plain v) ms"

definition stops :: "string \<Rightarrow> bool" where
  "stops rest = (rest = [] \<or> \<not> number_char (hd rest))"

text \<open>
  \<open>reads_str t s\<close>: the text \<open>t\<close> between quotes is the string \<open>s\<close>. \<open>reads t v\<close>: the text \<open>t\<close> is the value
  \<open>v\<close>, wherever it stands. The texts of arrays and objects are put together from those of their parts.
\<close>

definition reads_str :: "string \<Rightarrow> string \<Rightarrow> bool" where
  "reads_str t s = (\<forall>r. pstr (t @ CHR 0x22 # r) = Some (s, r))"

definition reads :: "string \<Rightarrow> json \<Rightarrow> bool" where
  "reads t v = (t \<noteq> [] \<and> \<not> jws (hd t) \<and> hd t \<noteq> CHR '']''
     \<and> (\<forall>n r. length t \<le> n \<longrightarrow> stops r \<longrightarrow> pval n (t @ r) = Some (v, r)))"

definition member_text :: "string \<times> string \<Rightarrow> string" where
  "member_text m = jstr (fst m) @ '':'' @ snd m"

definition reads_member :: "string \<times> string \<Rightarrow> string \<times> json \<Rightarrow> bool" where
  "reads_member t m = (reads_str (fst t) (fst m) \<and> reads (snd t) (snd m))"

lemma stops_simps [simp]: "stops []" "stops (CHR '','' # r)" "stops (CHR '']'' # r)" "stops (CHR ''}'' # r)"
  by (auto simp: stops_def number_char_def isdigit_def)

lemma not_jws [simp]: "\<not> jws (CHR 0x22)" "\<not> jws (CHR ''{'')" "\<not> jws (CHR ''['')" "\<not> jws (CHR '','')"
  "\<not> jws (CHR ''}'')" "\<not> jws (CHR '']'')" "\<not> jws (CHR '':'')" "\<not> jws (CHR ''t'')" "\<not> jws (CHR ''f'')" "\<not> jws (CHR ''n'')"
  by (simp_all add: jws_def)

lemma commas_Cons: "xs \<noteq> [] \<Longrightarrow> commas (x # xs) = x @ '','' @ commas xs"
  by (cases xs) simp_all

lemma readsD: "reads t v \<Longrightarrow> length t \<le> n \<Longrightarrow> stops r \<Longrightarrow> pval n (t @ r) = Some (v, r)"
  by (simp add: reads_def)

lemma readsI:
  assumes "t \<noteq> []" "\<not> jws (hd t)" "hd t \<noteq> CHR '']''"
    and "\<And>m r. length t \<le> Suc m \<Longrightarrow> stops r \<Longrightarrow> pval (Suc m) (t @ r) = Some (v, r)"
  shows "reads t v"
proof -
  have "pval n (t @ r) = Some (v, r)" if "length t \<le> n" "stops r" for n r
    using that assms(1) assms(4) [of "n - 1" r] by (cases n) simp_all
  then show ?thesis using assms(1-3) by (simp add: reads_def)
qed

lemma reads_str_plain [intro]: "plain s \<Longrightarrow> reads_str s s"
  unfolding reads_str_def
proof (induction s)
  case Nil
  then show ?case by (subst pstr.simps) simp
next
  case (Cons c s)
  then have "plain_char c" and "\<forall>r. pstr (s @ CHR 0x22 # r) = Some (s, r)" by (simp_all add: plain_def)
  then show ?case by (subst pstr.simps) (simp add: plain_char_def)
qed

lemma reads_jstr [intro]: "reads_str t s \<Longrightarrow> reads (jstr t) (JStr s)"
  by (rule readsI) (simp_all add: reads_str_def jstr_def)

lemma reads_const [intro]: "reads ''null'' JNull" "reads ''true'' (JBool True)" "reads ''false'' (JBool False)"
  by (rule readsI; simp)+

lemma number_char_not:
  "number_char c \<Longrightarrow> c \<noteq> CHR 0x22 \<and> c \<noteq> CHR ''{'' \<and> c \<noteq> CHR ''['' \<and> c \<noteq> CHR ''t'' \<and> c \<noteq> CHR ''f''
     \<and> c \<noteq> CHR ''n'' \<and> c \<noteq> CHR '']'' \<and> \<not> jws c"
  by (auto simp: number_char_def isdigit_def jws_def)

lemma reads_number:
  assumes v: "number_value t = Some x" and nc: "list_all number_char t"
  shows "reads t (JNum (Fin x))"
proof -
  have "t \<noteq> []" using v by (auto simp: number_value_def unsigned_value_def number_int_def)
  then obtain c s where t: "t = c # s" by (cases t) auto
  have c: "number_char c" using nc t by simp
  show ?thesis
  proof (rule readsI)
    fix m r
    assume r: "stops r"
    have tw: "takeWhile number_char (t @ r) = t" "dropWhile number_char (t @ r) = r"
      using nc r by (cases r; simp add: list_all_iff stops_def)+
    have dw: "dropWhile jws (t @ r) = c # s @ r" using number_char_not [OF c] t by simp
    show "pval (Suc m) (t @ r) = Some (JNum (Fin x), r)" using number_char_not [OF c] tw v by (simp add: dw t)
  qed (use number_char_not [OF c] t in simp_all)
qed

lemma pelems_reads:
  "list_all2 reads ts vs \<Longrightarrow> ts \<noteq> [] \<Longrightarrow> length (commas ts) < n \<Longrightarrow>
   pelems n (commas ts @ CHR '']'' # r) = Some (vs, r)"
proof (induction ts vs arbitrary: n rule: list_all2_induct)
  case (Cons t ts v vs)
  then obtain m where n: "n = Suc m" by (cases n) auto
  show ?case
  proof (cases "ts = []")
    case True
    then show ?thesis using Cons n readsD [of t v m] by simp
  next
    case False
    then have c: "commas (t # ts) = t @ '','' @ commas ts" by (rule commas_Cons)
    have "t \<noteq> []" using Cons.hyps by (simp add: reads_def)
    then have len: "length t \<le> m" "length (commas ts) < m"
      using Cons.prems n unfolding c by (cases t; simp)+
    have "pelems m (commas ts @ CHR '']'' # r) = Some (vs, r)" using Cons.IH False len by simp
    then show ?thesis unfolding c n using readsD [OF Cons.hyps(1) len(1)] by simp
  qed
qed simp

lemma pmembers_reads:
  "list_all2 reads_member ts ms \<Longrightarrow> ts \<noteq> [] \<Longrightarrow> length (commas (map member_text ts)) < n \<Longrightarrow>
   pmembers n (commas (map member_text ts) @ CHR ''}'' # r) = Some (ms, r)"
proof (induction ts ms arbitrary: n rule: list_all2_induct)
  case (Cons t ts mb ms)
  obtain kt vt k v where t: "t = (kt, vt)" and mb: "mb = (k, v)" by (cases t; cases mb)
  have rk: "pstr (kt @ CHR 0x22 # r) = Some (k, r)" for r
    using Cons.hyps by (simp add: t mb reads_member_def reads_str_def)
  have rv: "reads vt v" using Cons.hyps by (simp add: t mb reads_member_def)
  from Cons.prems obtain m where n: "n = Suc m" by (cases n) auto
  show ?case
  proof (cases "ts = []")
    case True
    then have "ms = []" using Cons.hyps by simp
    then show ?thesis using Cons.prems True n rk readsD [OF rv, of m]
      by (simp add: t mb member_text_def jstr_def)
  next
    case False
    then have c: "commas (map member_text (t # ts)) = member_text t @ '','' @ commas (map member_text ts)"
      by (simp add: commas_Cons)
    have len: "length vt \<le> m" "length (commas (map member_text ts)) < m"
      using Cons.prems n unfolding c by (simp_all add: jstr_def t member_text_def)
    have "pmembers m (commas (map member_text ts) @ CHR ''}'' # r) = Some (ms, r)"
      using Cons.IH False len by simp
    then show ?thesis unfolding c n using rk readsD [OF rv len(1)]
      by (simp add: t mb jstr_def member_text_def)
  qed
qed simp

lemma reads_array:
  assumes "list_all2 reads ts vs"
  shows "reads (''['' @ commas ts @ '']'') (JArr vs)"
proof -
  have "pval (Suc m) ((''['' @ commas ts @ '']'') @ r) = Some (JArr vs, r)"
    if len: "length (''['' @ commas ts @ '']'') \<le> Suc m" for m r
  proof -
    show ?thesis
    proof (cases ts)
      case Nil
      then show ?thesis using assms by simp
    next
      case (Cons t us)
      then obtain c s where "commas ts = c # s" "\<not> jws c" "c \<noteq> CHR '']''"
        using assms by (cases t; cases us) (auto simp: list_all2_Cons1 reads_def)
      then show ?thesis using pelems_reads [OF assms, of m r] Cons len by simp
    qed
  qed
  then show ?thesis by (intro readsI) simp_all
qed

lemma reads_object:
  assumes "list_all2 reads_member ts ms"
  shows "reads (''{'' @ commas (map member_text ts) @ ''}'') (JObj ms)"
proof -
  have "pval (Suc m) ((''{'' @ commas (map member_text ts) @ ''}'') @ r) = Some (JObj ms, r)"
    if len: "length (''{'' @ commas (map member_text ts) @ ''}'') \<le> Suc m" for m r
  proof -
    show ?thesis
    proof (cases ts)
      case Nil
      then show ?thesis using assms by simp
    next
      case (Cons t us)
      then obtain s where "commas (map member_text ts) = CHR 0x22 # s"
        by (cases us) (auto simp: member_text_def jstr_def)
      then show ?thesis using pmembers_reads [OF assms, of m r] Cons len by simp
    qed
  qed
  then show ?thesis by (intro readsI) simp_all
qed

lemma reads_parse: "reads t v \<Longrightarrow> json_parse t = Some v"
  using readsD [of t v "Suc (length t)" "[]"] by (simp add: json_parse_def del: pval.simps)

subsection \<open>Printed values\<close>

lemma reads_num_plain: "num_plain d \<Longrightarrow> reads (toString_double d) (JNum d)"
  by (cases d) (simp_all add: reads_number)

lemma jprint_obj_text: "jprint (JObj ms) = ''{'' @ commas (map member_text (map (\<lambda>m. (fst m, jprint (snd m))) ms)) @ ''}''"
  by (simp add: member_text_def comp_def case_prod_unfold)

theorem reads_jprint: "json_plain v \<Longrightarrow> reads (jprint v) v"
proof (induction v)
  case (JArr vs)
  then have "list_all2 reads (map jprint vs) vs" by (auto simp: list_all2_conv_all_nth list_all_length)
  then show ?case using reads_array by simp
next
  case (JObj ms)
  have "reads_member (fst m, jprint (snd m)) m" if "m \<in> set ms" for m
    using JObj that by (cases m) (auto simp: list_all_iff reads_member_def)
  then have "list_all2 reads_member (map (\<lambda>m. (fst m, jprint (snd m))) ms) ms"
    by (simp add: list_all2_conv_all_nth)
  then show ?case unfolding jprint_obj_text by (rule reads_object)
qed (auto intro: reads_num_plain)

lemma json_parse_jprint: "json_plain v \<Longrightarrow> json_parse (jprint v) = Some v"
  by (rule reads_parse) (rule reads_jprint)

subsection \<open>Integers\<close>

lemma dec_leading: "0 < n \<Longrightarrow> hd (dec n) \<noteq> CHR ''0''"
proof (induction n rule: dec.induct)
  case (1 n)
  show ?case
  proof (cases "n < 10")
    case True
    then have "hd (dec n) = digit_char n" by (subst dec.simps) simp
    then show ?thesis using "1.prems" True by (metis digit_char_0 digit_val_digit_char less_numeral_extra(3) zero_less_numeral)
  next
    case False
    then show ?thesis using "1.IH" by (simp add: dec_step)
  qed
qed

lemma dec_number_int:
  assumes "s = [] \<or> \<not> isdigit (hd s)"
  shows "number_int (dec n @ s) = Some (of_nat n, s)"
proof -
  have tw: "takeWhile isdigit (dec n @ s) = dec n" "dropWhile isdigit (dec n @ s) = s"
    using assms by (cases s; simp add: dec_isdigit)+
  have "n < 10 \<Longrightarrow> length (dec n) = 1" by (subst dec.simps) simp
  then have "\<not> (hd (dec n) = CHR ''0'' \<and> length (dec n) \<noteq> 1)" using dec_leading [of n] by (cases "n = 0") auto
  then show ?thesis by (simp add: number_int_def tw Let_def)
qed

lemma number_value_show_int: "number_value (show_int i) = Some (of_int i)"
proof -
  have u: "unsigned_value (dec n) = Some (of_nat n)" for n
    using dec_number_int [of "[]" n] by (simp add: unsigned_value_def number_frac_def number_exp_def)
  have "hd (dec (nat i)) \<noteq> CHR ''-''" using hd_dec_isdigit isdigit_not_sign by blast
  then show ?thesis by (simp add: show_int_def number_value_def u)
qed

lemma show_int_number_chars: "list_all number_char (show_int i)"
  by (auto simp: show_int_def list_all_iff number_char_def dec_isdigit)

lemma num_plain_int: "\<bar>i\<bar> < 1000000 \<Longrightarrow> num_plain (Fin (of_int i))"
  by (simp add: toString_double_int number_value_show_int show_int_number_chars)

lemma reads_show_int [intro]: "reads (show_int i) (JNum (Fin (of_int i)))"
  by (rule reads_number) (simp_all add: number_value_show_int show_int_number_chars)

end
