(* ===== verification/Orion_Date.thy ===== *)
theory Orion_Date
  imports Orion_Prelude
begin

section \<open>Dates: isodate2str and parse8601Time\<close>

text \<open>
  \<^verbatim>\<open>isodate2str\<close> of \<^verbatim>\<open>common/string.cpp\<close> and \<^verbatim>\<open>parse8601Time\<close> of
  \<^verbatim>\<open>common/globals.cpp\<close>, on a model of the functions of the C library they call:
  \<^verbatim>\<open>gmtime\<close>, \<^verbatim>\<open>timegm\<close>, \<^verbatim>\<open>strftime\<close> and \<^verbatim>\<open>strptime\<close> for the
  conversions that occur in their formats. A broken-down time is a record with the fields of
  \<^verbatim>\<open>struct tm\<close> that are used, the year and the month counted as people do.

  The theorem is the round trip: a date that is written is read back to the same second.
\<close>

record tm =
  tm_year :: int
  tm_mon :: int
  tm_mday :: int
  tm_hour :: int
  tm_min :: int
  tm_sec :: int

subsection \<open>The calendar\<close>

definition leap :: "int \<Rightarrow> bool" where
  "leap y = (y mod 4 = 0 \<and> y mod 100 \<noteq> 0 \<or> y mod 400 = 0)"

definition year_days :: "int \<Rightarrow> int" where
  "year_days y = (if leap y then 366 else 365)"

definition leaps_to :: "int \<Rightarrow> int" where
  "leaps_to y = y div 4 - y div 100 + y div 400"

text \<open>Days from 1 January 1970 to 1 January of the year.\<close>

definition days_to_year :: "int \<Rightarrow> int" where
  "days_to_year y = 365 * (y - 1970) + leaps_to (y - 1) - leaps_to 1969"

definition month_lengths :: "int \<Rightarrow> int list" where
  "month_lengths y = [31, if leap y then 29 else 28, 31, 30, 31, 30, 31, 31, 30, 31, 30, 31]"

text \<open>\<^verbatim>\<open>timegm\<close>, for fields in the ranges that \<^verbatim>\<open>strptime\<close> gives.\<close>

definition timegm :: "tm \<Rightarrow> int" where
  "timegm t =
     (days_to_year (tm_year t) + sum_list (take (nat (tm_mon t - 1)) (month_lengths (tm_year t)))
        + tm_mday t - 1) * 86400
     + tm_hour t * 3600 + tm_min t * 60 + tm_sec t"

function gm_year :: "int \<Rightarrow> int \<Rightarrow> int \<times> int" where
  "gm_year y d =
     (if d < 0 then gm_year (y - 1) (d + year_days (y - 1))
      else if year_days y \<le> d then gm_year (y + 1) (d - year_days y)
      else (y, d))"
  by pat_completeness auto
termination
  by (relation "measure (\<lambda>(y, d). if d < 0 then nat (1000 - d) else nat d)") (auto simp: year_days_def split: if_splits)

declare gm_year.simps [simp del]

fun gm_month :: "int list \<Rightarrow> int \<Rightarrow> int \<Rightarrow> int \<times> int" where
  "gm_month [] m d = (m, d)"
| "gm_month (l # ls) m d = (if d < l then (m, d) else gm_month ls (m + 1) (d - l))"

definition gmtime :: "int \<Rightarrow> tm" where
  "gmtime t =
     (let (y, yd) = gm_year 1970 (t div 86400); (m, md) = gm_month (month_lengths y) 1 yd; s = t mod 86400
      in \<lparr>tm_year = y, tm_mon = m, tm_mday = md + 1,
          tm_hour = s div 3600, tm_min = s mod 3600 div 60, tm_sec = s mod 60\<rparr>)"

subsection \<open>Writing and reading\<close>

abbreviation two :: "int \<Rightarrow> string" where
  "two n \<equiv> pad0 2 (show_int n)"

definition strftime_iso :: "tm \<Rightarrow> string" where
  "strftime_iso t =
     show_int (tm_year t) @ ''-'' @ two (tm_mon t) @ ''-'' @ two (tm_mday t) @ ''T''
       @ two (tm_hour t) @ '':'' @ two (tm_min t) @ '':'' @ two (tm_sec t) @ ''.00Z''"

definition isodate2str :: "int \<Rightarrow> string" where
  "isodate2str timestamp = strftime_iso (gmtime timestamp)"

text \<open>
  A numeric field of \<^verbatim>\<open>strptime\<close>: white space is skipped, then at most \<open>n\<close> digits are
  read as long as another digit could keep the value within the upper limit.
\<close>

primrec get_digits :: "nat \<Rightarrow> int \<Rightarrow> int \<Rightarrow> string \<Rightarrow> int \<times> string" where
  "get_digits 0 hi v s = (v, s)"
| "get_digits (Suc n) hi v s =
     (if s \<noteq> [] \<and> isdigit (hd s) \<and> v * 10 \<le> hi
      then get_digits n hi (v * 10 + int (digit_val (hd s))) (tl s) else (v, s))"

definition get_number :: "int \<Rightarrow> int \<Rightarrow> nat \<Rightarrow> string \<Rightarrow> (int \<times> string) option" where
  "get_number lo hi n s =
     (let s = dropWhile isspace s
      in if s = [] \<or> \<not> isdigit (hd s) then None
         else let (v, rest) = get_digits n hi 0 s
              in if v < lo \<or> hi < v then None else Some (v, rest))"

definition get_lit :: "char \<Rightarrow> string \<Rightarrow> string option" where
  "get_lit c s = (if s \<noteq> [] \<and> hd s = c then Some (tl s) else None)"

definition strptime_iso :: "string \<Rightarrow> tm option" where
  "strptime_iso s =
     do { (y, s) \<leftarrow> get_number 0 9999 4 (dropWhile isspace s);
          s \<leftarrow> get_lit (CHR ''-'') s;
          (m, s) \<leftarrow> get_number 1 12 2 s;
          s \<leftarrow> get_lit (CHR ''-'') s;
          (d, s) \<leftarrow> get_number 1 31 2 s;
          s \<leftarrow> get_lit (CHR ''T'') s;
          (h, s) \<leftarrow> get_number 0 23 2 s;
          s \<leftarrow> get_lit (CHR '':'') s;
          (mi, s) \<leftarrow> get_number 0 59 2 s;
          s \<leftarrow> get_lit (CHR '':'') s;
          (sec, s) \<leftarrow> get_number 0 61 2 s;
          Some \<lparr>tm_year = y, tm_mon = m, tm_mday = d, tm_hour = h, tm_min = mi, tm_sec = sec\<rparr> }"

definition parse8601Time :: "string \<Rightarrow> int" where
  "parse8601Time s = (case strptime_iso (c_str s) of None \<Rightarrow> -1 | Some t \<Rightarrow> timegm t)"

subsection \<open>The calendar is consistent\<close>

lemma div_pred:
  fixes y k :: int
  assumes "0 < k"
  shows "y div k = (y - 1) div k + (if y mod k = 0 then 1 else 0)"
proof -
  define q r where "q = (y - 1) div k" and "r = (y - 1) mod k"
  have y: "y = k * q + (r + 1)" and r: "0 \<le> r" "r < k"
    using assms mult_div_mod_eq [of k "y - 1"] by (simp_all add: q_def r_def)
  show ?thesis
  proof (cases "r + 1 < k")
    case True
    then have "y div k = q" and "y mod k = r + 1"
      using y r by (auto intro: int_div_pos_eq int_mod_pos_eq)
    then show ?thesis using r by (simp add: q_def)
  next
    case False
    then have "y = k * (q + 1) + 0" using y r by (simp add: algebra_simps)
    then have "y div k = q + 1" and "y mod k = 0"
      using assms by (auto intro: int_div_pos_eq int_mod_pos_eq)
    then show ?thesis by (simp add: q_def)
  qed
qed

lemma days_to_year_Suc: "days_to_year (y + 1) = days_to_year y + year_days y"
proof -
  have d: "y div 4 = (y - 1) div 4 + (if y mod 4 = 0 then 1 else 0)"
    "y div 100 = (y - 1) div 100 + (if y mod 100 = 0 then 1 else 0)"
    "y div 400 = (y - 1) div 400 + (if y mod 400 = 0 then 1 else 0)"
    by (rule div_pred; simp)+
  have m: "y mod 400 = 0 \<Longrightarrow> y mod 100 = 0" "y mod 100 = 0 \<Longrightarrow> y mod 4 = 0"
    by (auto simp: mod_eq_0_iff_dvd intro: dvd_trans [of _ 400] dvd_trans [of _ 100])
  have "leaps_to y = leaps_to (y - 1) + (if leap y then 1 else 0)"
    unfolding leaps_to_def leap_def d using m by simp
  then show ?thesis by (simp add: days_to_year_def year_days_def)
qed

lemma gm_year_spec:
  "gm_year y d = (y', d') \<Longrightarrow> days_to_year y' + d' = days_to_year y + d \<and> 0 \<le> d' \<and> d' < year_days y'"
proof (induction y d rule: gm_year.induct)
  case (1 y d)
  consider "d < 0" | "0 \<le> d" "year_days y \<le> d" | "0 \<le> d" "d < year_days y" by linarith
  then show ?case
  proof cases
    case 1
    then have "gm_year (y - 1) (d + year_days (y - 1)) = (y', d')"
      using "1.prems" by (simp add: gm_year.simps [of y d])
    then show ?thesis using "1.IH"(1) 1 days_to_year_Suc [of "y - 1"] by simp
  next
    case 2
    then have "gm_year (y + 1) (d - year_days y) = (y', d')"
      using "1.prems" by (simp add: gm_year.simps [of y d])
    then show ?thesis using "1.IH"(2) 2 days_to_year_Suc [of y] by simp
  next
    case 3
    then show ?thesis using "1.prems" by (simp add: gm_year.simps [of y d])
  qed
qed

lemma gm_month_spec:
  assumes "gm_month ls m d = (m', d')" and "0 \<le> d" and "d < sum_list ls"
  shows "m \<le> m' \<and> m' < m + int (length ls) \<and> 0 \<le> d' \<and> d' < ls ! nat (m' - m)
    \<and> sum_list (take (nat (m' - m)) ls) + d' = d"
  using assms
proof (induction ls arbitrary: m d)
  case Nil
  then show ?case by simp
next
  case (Cons l ls)
  show ?case
  proof (cases "d < l")
    case True
    then show ?thesis using Cons.prems by simp
  next
    case False
    then have "gm_month ls (m + 1) (d - l) = (m', d')" and "0 \<le> d - l" and "d - l < sum_list ls"
      using Cons.prems by simp_all
    note ih = Cons.IH [OF this]
    then have "nat (m' - m) = Suc (nat (m' - (m + 1)))" by linarith
    then show ?thesis using ih by simp
  qed
qed

lemma sum_month_lengths: "sum_list (month_lengths y) = year_days y"
  by (simp add: month_lengths_def year_days_def)

lemma month_length_le: "i < 12 \<Longrightarrow> month_lengths y ! i \<le> 31"
  by (auto simp: month_lengths_def less_Suc_eq numeral_eq_Suc)

lemma clock_parts:
  fixes s :: int
  shows "s div 3600 * 3600 + s mod 3600 div 60 * 60 + s mod 60 = s"
    and "0 \<le> s \<Longrightarrow> s < 86400 \<Longrightarrow> s div 3600 \<le> 23"
    and "0 \<le> s \<Longrightarrow> s < 86400 \<Longrightarrow> s mod 3600 div 60 \<le> 59"
proof -
  have s: "s = 3600 * (s div 3600) + s mod 3600" "0 \<le> s mod 3600" "s mod 3600 < 3600" by simp_all
  have r: "s mod 3600 = 60 * (s mod 3600 div 60) + s mod 3600 mod 60" "0 \<le> s mod 3600 mod 60" by simp_all
  have mm: "s mod 3600 mod 60 = s mod 60" by (simp add: mod_mod_cancel)
  show "s div 3600 * 3600 + s mod 3600 div 60 * 60 + s mod 60 = s" using s(1) r(1) mm by linarith
  show "0 \<le> s \<Longrightarrow> s < 86400 \<Longrightarrow> s div 3600 \<le> 23" using s by linarith
  show "0 \<le> s \<Longrightarrow> s < 86400 \<Longrightarrow> s mod 3600 div 60 \<le> 59" using s(3) r by linarith
qed

lemma gmtime_fields:
  "1 \<le> tm_mon (gmtime t) \<and> tm_mon (gmtime t) \<le> 12 \<and> 1 \<le> tm_mday (gmtime t) \<and> tm_mday (gmtime t) \<le> 31
   \<and> 0 \<le> tm_hour (gmtime t) \<and> tm_hour (gmtime t) \<le> 23 \<and> 0 \<le> tm_min (gmtime t) \<and> tm_min (gmtime t) \<le> 59
   \<and> 0 \<le> tm_sec (gmtime t) \<and> tm_sec (gmtime t) \<le> 59 \<and> timegm (gmtime t) = t"
proof -
  obtain y yd where y: "gm_year 1970 (t div 86400) = (y, yd)" by fastforce
  obtain m md where m: "gm_month (month_lengths y) 1 yd = (m, md)" by fastforce
  have y70: "days_to_year 1970 = 0" by (simp add: days_to_year_def)
  have ys: "days_to_year y + yd = t div 86400" "0 \<le> yd" "yd < year_days y"
    using gm_year_spec [OF y] y70 by simp_all
  have len: "length (month_lengths y) = 12" by (simp add: month_lengths_def)
  have ms: "1 \<le> m" "m < 13" "0 \<le> md" "md < month_lengths y ! nat (m - 1)"
    "sum_list (take (nat (m - 1)) (month_lengths y)) + md = yd"
    using gm_month_spec [OF m] ys len by (simp_all add: sum_month_lengths)
  have "month_lengths y ! nat (m - 1) \<le> 31" using ms by (intro month_length_le) simp
  define s where "s = t mod 86400"
  define h mi se where "h = s div 3600" and "mi = s mod 3600 div 60" and "se = s mod 60"
  have s: "0 \<le> s" "s < 86400" by (simp_all add: s_def)
  have clk: "h * 3600 + mi * 60 + se = s" "h \<le> 23" "mi \<le> 59" "0 \<le> h" "0 \<le> mi" "0 \<le> se" "se < 60"
    using clock_parts(1) [of s] clock_parts(2,3) [OF s] s
    by (simp_all add: h_def mi_def se_def pos_imp_zdiv_nonneg_iff)
  have g: "gmtime t = \<lparr>tm_year = y, tm_mon = m, tm_mday = md + 1, tm_hour = h, tm_min = mi, tm_sec = se\<rparr>"
    by (simp only: gmtime_def y m Let_def split h_def mi_def se_def s_def)
  have "timegm (gmtime t) = (t div 86400) * 86400 + (h * 3600 + mi * 60 + se)"
    using ms(5) ys(1) by (simp add: g timegm_def)
  also have "\<dots> = t" unfolding clk(1) s_def by simp
  finally have "timegm (gmtime t) = t" .
  then show ?thesis
    unfolding g tm.simps using ms clk \<open>month_lengths y ! nat (m - 1) \<le> 31\<close> by linarith
qed

subsection \<open>Reading back what was written\<close>

definition digits_val :: "int \<Rightarrow> string \<Rightarrow> int" where
  "digits_val v ds = foldl (\<lambda>a c. a * 10 + int (digit_val c)) v ds"

lemma digits_val_ge: "0 \<le> v \<Longrightarrow> v \<le> digits_val v ds"
  unfolding digits_val_def
proof (induction ds arbitrary: v)
  case (Cons c ds)
  then have "v * 10 + int (digit_val c) \<le> foldl (\<lambda>a c. a * 10 + int (digit_val c)) v (c # ds)" by simp
  then show ?case using Cons.prems by linarith
qed simp

lemma digits_val_num_of: "digits_val 0 ds = int (num_of ds)"
  by (induction ds rule: rev_induct) (simp_all add: digits_val_def num_of_def ac_simps)

lemma get_digits_all:
  "list_all isdigit ds \<Longrightarrow> length ds \<le> n \<Longrightarrow> length ds = n \<or> rest = [] \<or> \<not> isdigit (hd rest) \<Longrightarrow>
   0 \<le> v \<Longrightarrow> digits_val v ds \<le> hi \<Longrightarrow> get_digits n hi v (ds @ rest) = (digits_val v ds, rest)"
proof (induction ds arbitrary: n v)
  case Nil
  then show ?case by (cases n) (auto simp: digits_val_def)
next
  case (Cons c ds)
  then obtain k where n: "n = Suc k" by (cases n) auto
  let ?v = "v * 10 + int (digit_val c)"
  have step: "digits_val v (c # ds) = digits_val ?v ds" by (simp add: digits_val_def)
  have "?v \<le> digits_val ?v ds" using Cons.prems by (intro digits_val_ge) simp
  then have "v * 10 \<le> hi" using Cons.prems(5) step by linarith
  moreover have "get_digits k hi ?v (ds @ rest) = (digits_val ?v ds, rest)"
    using Cons.prems n step by (intro Cons.IH) auto
  ultimately show ?case using Cons.prems n step by simp
qed

lemma get_number_all:
  assumes "list_all isdigit ds" "ds \<noteq> []" "length ds = n" "lo \<le> int (num_of ds)" "int (num_of ds) \<le> hi"
  shows "get_number lo hi n (ds @ rest) = Some (int (num_of ds), rest)"
proof -
  have hd: "isdigit (hd (ds @ rest))" using assms(1,2) by (cases ds) auto
  then have "\<not> isspace (hd (ds @ rest))" by (rule isdigit_not_isspace)
  then have "dropWhile isspace (ds @ rest) = ds @ rest" using assms(2) by (simp add: dropWhile_eq_self_iff)
  then show ?thesis
    using assms hd by (simp add: get_number_def Let_def get_digits_all digits_val_num_of)
qed

lemma dec_length_cases: "n < 10 \<Longrightarrow> length (dec n) = 1" "10 \<le> n \<Longrightarrow> length (dec n) = Suc (length (dec (n div 10)))"
  by (subst dec.simps; simp)+

lemma dec_two: "length (pad0 2 (dec n)) = 2" if "n < 100" for n
proof (cases "n < 10")
  case False
  then have "n div 10 < 10" using that by simp
  then show ?thesis using False by (simp add: pad0_def dec_length_cases)
qed (simp add: pad0_def dec_length_cases)

lemma dec_four: "length (dec n) = 4" if "1000 \<le> n" "n < 10000" for n
  using that by (simp add: dec_length_cases div_mult2_eq [symmetric])

lemma get_number_two:
  "lo \<le> v \<Longrightarrow> 0 \<le> v \<Longrightarrow> v \<le> hi \<Longrightarrow> v < 100 \<Longrightarrow> get_number lo hi 2 (two v @ rest) = Some (v, rest)"
proof -
  assume v: "lo \<le> v" "0 \<le> v" "v \<le> hi" "v < 100"
  let ?ds = "pad0 2 (dec (nat v))"
  have t: "two v = ?ds" using v by (simp add: show_int_def)
  have n: "num_of ?ds = nat v" by (simp add: pad0_def num_of_zeros)
  have l: "length ?ds = 2" using v by (intro dec_two) simp
  have "isdigit c" if "c \<in> set ?ds" for c
    using that by (auto simp: pad0_def dec_isdigit isdigit_def [of "CHR ''0''"])
  then have "list_all isdigit ?ds" by (simp add: list_all_iff)
  moreover have "?ds \<noteq> []" using l by auto
  ultimately have "get_number lo hi 2 (?ds @ rest) = Some (int (num_of ?ds), rest)"
    using l v n by (intro get_number_all) simp_all
  then show ?thesis using v by (simp add: t n)
qed

lemma get_number_year:
  "1000 \<le> v \<Longrightarrow> v \<le> 9999 \<Longrightarrow> get_number 0 9999 4 (show_int v @ rest) = Some (v, rest)"
proof -
  assume v: "1000 \<le> v" "v \<le> 9999"
  let ?ds = "dec (nat v)"
  have "get_number 0 9999 4 (?ds @ rest) = Some (int (num_of ?ds), rest)"
    using v by (intro get_number_all) (auto simp: list_all_iff dec_isdigit dec_four)
  then show ?thesis using v by (simp add: show_int_def)
qed

lemma get_lit_same [simp]: "get_lit c (c # s) = Some s"
  by (simp add: get_lit_def)

lemma strptime_strftime:
  assumes "1000 \<le> tm_year t" "tm_year t \<le> 9999" "1 \<le> tm_mon t" "tm_mon t \<le> 12" "1 \<le> tm_mday t" "tm_mday t \<le> 31"
    "0 \<le> tm_hour t" "tm_hour t \<le> 23" "0 \<le> tm_min t" "tm_min t \<le> 59" "0 \<le> tm_sec t" "tm_sec t \<le> 59"
  shows "strptime_iso (strftime_iso t) = Some t"
proof -
  have "dropWhile isspace (show_int (tm_year t) @ r) = show_int (tm_year t) @ r" for r
  proof -
    have "\<not> isspace (hd (dec (nat (tm_year t))))" by (intro isdigit_not_isspace hd_dec_isdigit)
    then show ?thesis using assms(1) by (simp add: show_int_def dropWhile_eq_self_iff)
  qed
  then show ?thesis
    using assms by (simp add: strptime_iso_def strftime_iso_def get_number_year get_number_two)
qed

lemma days_to_year_mono: "y \<le> z \<Longrightarrow> days_to_year y \<le> days_to_year z"
proof (induction "nat (z - y)" arbitrary: z)
  case (Suc n)
  then have "days_to_year y \<le> days_to_year (z - 1)" by simp
  moreover have "0 \<le> year_days (z - 1)" by (simp add: year_days_def)
  ultimately show ?case using days_to_year_Suc [of "z - 1"] by simp
qed simp

lemma gmtime_year:
  assumes "0 \<le> t" "t < 253402300800"
  shows "1970 \<le> tm_year (gmtime t) \<and> tm_year (gmtime t) \<le> 9999"
proof -
  obtain y d where y: "gm_year 1970 (t div 86400) = (y, d)" by fastforce
  have y70: "days_to_year 1970 = 0" and y10: "days_to_year 10000 = 2932897"
    by (simp_all add: days_to_year_def leaps_to_def)
  have ys: "days_to_year y + d = t div 86400" "0 \<le> d" "days_to_year (y + 1) > t div 86400"
    using gm_year_spec [OF y] y70 days_to_year_Suc [of y] by simp_all
  have D: "0 \<le> t div 86400" using assms by simp
  have "t = 86400 * (t div 86400) + t mod 86400" and "0 \<le> t mod 86400" by simp_all
  then have D2: "t div 86400 < 2932897" using assms by linarith
  have "1970 \<le> y" using days_to_year_mono [of "y + 1" 1970] ys D y70 by linarith
  moreover have "y \<le> 9999" using days_to_year_mono [of 10000 y] ys D2 y10 by linarith
  moreover have "tm_year (gmtime t) = y" by (simp add: gmtime_def y Let_def split: prod.split)
  ultimately show ?thesis by simp
qed

lemma NUL_not_digit: "\<not> isdigit NUL"
  by (simp add: isdigit_def)

lemma NUL_notin_show_int [simp]: "NUL \<notin> set (show_int i)"
  using NUL_not_digit by (auto simp: show_int_def dec_isdigit dest: dec_isdigit)

lemma NUL_notin_pad0 [simp]: "NUL \<notin> set s \<Longrightarrow> NUL \<notin> set (pad0 w s)"
  by (simp add: pad0_def)

lemma parse8601Time_isodate2str:
  assumes "0 \<le> t" and "t < 253402300800"
  shows "parse8601Time (isodate2str t) = t"
proof -
  have "c_str (isodate2str t) = isodate2str t"
    by (rule c_str_no_NUL) (simp add: isodate2str_def strftime_iso_def)
  moreover have "strptime_iso (isodate2str t) = Some (gmtime t)"
    unfolding isodate2str_def using gmtime_year [OF assms] gmtime_fields [of t]
    by (intro strptime_strftime) simp_all
  ultimately show ?thesis using gmtime_fields [of t] by (simp add: parse8601Time_def)
qed

text \<open>C32: A date that isodate2str writes is read back by parse8601Time to the same second, for every
  timestamp from 1970 to the end of the year 9999, across leap years and the ends of months.\<close>

theorem isodate_roundtrip:
  assumes "0 \<le> t" and "t < 253402300800"
  shows "parse8601Time (isodate2str t) = t"
  using assms by (rule parse8601Time_isodate2str)

theorem isodate_roundtrip_witness:
  "parse8601Time (isodate2str 951827696) = 951827696 \<and> isodate2str 951827696 = ''2000-02-29T12:34:56.00Z''"
proof
  show "parse8601Time (isodate2str 951827696) = 951827696" by (rule isodate_roundtrip) simp_all
  show "isodate2str 951827696 = ''2000-02-29T12:34:56.00Z''" by code_simp
qed

end
