(* ===== verification/Orion_Tag.thy ===== *)
theory Orion_Tag
  imports Orion_Json Orion_Date
begin

section \<open>Rendering helpers: common/tag.cpp, common/JsonHelper.cpp\<close>

text \<open>
  The functions that all renderers use. \<^verbatim>\<open>htmlEscape\<close> writes into a buffer of six times the length of
  its input; its result is a list here, and \<open>htmlEscape_fits\<close> is the bound. Allocations succeed. The macros
  \<^verbatim>\<open>JSON_STR\<close>, \<^verbatim>\<open>JSON_PROP\<close>, \<^verbatim>\<open>JSON_VALUE\<close>, \<^verbatim>\<open>JSON_VALUE_NUMBER\<close> and
  \<^verbatim>\<open>JSON_VALUE_BOOL\<close> of \<^verbatim>\<open>common/tag.h\<close> are definitions with their names.
\<close>

subsection \<open>common/tag.h\<close>

definition JSON_STR :: "string \<Rightarrow> string" where
  "JSON_STR value = [CHR 0x22] @ value @ [CHR 0x22]"

definition JSON_BOOL :: "bool \<Rightarrow> string" where
  "JSON_BOOL bvalue = (if bvalue then ''true'' else ''false'')"

definition JSON_PROP :: "string \<Rightarrow> string" where
  "JSON_PROP name = [CHR 0x22] @ name @ [CHR 0x22] @ '':''"

definition JSON_VALUE :: "string \<Rightarrow> string \<Rightarrow> string" where
  "JSON_VALUE name value = JSON_PROP name @ JSON_STR value"

definition JSON_VALUE_NUMBER :: "string \<Rightarrow> string \<Rightarrow> string" where
  "JSON_VALUE_NUMBER name value = JSON_PROP name @ value"

definition JSON_VALUE_BOOL :: "string \<Rightarrow> bool \<Rightarrow> string" where
  "JSON_VALUE_BOOL name value = JSON_PROP name @ (if value then ''true'' else ''false'')"

subsection \<open>Escaping\<close>

definition htmlEscape_char :: "char \<Rightarrow> string" where
  "htmlEscape_char c =
     (if c = CHR ''<'' then ''&lt;''
      else if c = CHR ''>'' then ''&gt;''
      else if c = CHR ''('' then ''&#40;''
      else if c = CHR '')'' then ''&#41;''
      else if c = CHR ''='' then ''&#61;''
      else if c = CHR 0x27 then ''&#39;''
      else if c = CHR 0x22 then ''&quot;''
      else if c = CHR '';'' then ''&#59;''
      else [c])"

primrec htmlEscape :: "string \<Rightarrow> string" where
  "htmlEscape [] = []"
| "htmlEscape (c # s) = htmlEscape_char c @ htmlEscape s"

definition intToHex :: string where
  "intToHex = ''0123456789ABCDEF''"

definition json_escape_char :: "char \<Rightarrow> string" where
  "json_escape_char ch =
     (if ch = CHR 0x5C then [CHR 0x5C, CHR 0x5C]
      else if ch = CHR 0x22 then [CHR 0x5C, CHR 0x22]
      else if ch = CHR 0x08 then [CHR 0x5C, CHR ''b'']
      else if ch = CHR 0x0C then [CHR 0x5C, CHR ''f'']
      else if ch = CHR 0x0A then [CHR 0x5C, CHR ''n'']
      else if ch = CHR 0x0D then [CHR 0x5C, CHR ''r'']
      else if ch = CHR 0x09 then [CHR 0x5C, CHR ''t'']
      else if 0 \<le> signed_char ch \<and> signed_char ch \<le> 31
      then [CHR 0x5C] @ ''u00'' @ [intToHex ! (of_char ch div 16), intToHex ! (of_char ch mod 16)]
      else [ch])"

primrec jsonInvalidCharsTransformation :: "string \<Rightarrow> string" where
  "jsonInvalidCharsTransformation [] = []"
| "jsonInvalidCharsTransformation (ch # input) = json_escape_char ch @ jsonInvalidCharsTransformation input"

subsection \<open>Tags\<close>

abbreviation NL :: string where
  "NL \<equiv> [CHR 0x0A]"

definition startTag1 :: "string \<Rightarrow> string \<Rightarrow> bool \<Rightarrow> bool \<Rightarrow> string" where
  "startTag1 indent key showKey isToplevel =
     (if isToplevel
      then if \<not> showKey then indent @ ''{'' @ NL @ indent @ ''  {'' @ NL
           else indent @ ''{'' @ NL @ indent @ ''  '' @ [CHR 0x22] @ key @ [CHR 0x22] @ '' : {'' @ NL
      else if \<not> showKey then indent @ ''{'' @ NL
      else indent @ [CHR 0x22] @ key @ [CHR 0x22] @ '' : {'' @ NL)"

definition startTag2 :: "string \<Rightarrow> string \<Rightarrow> bool \<Rightarrow> bool \<Rightarrow> string" where
  "startTag2 indent key isVector showKey =
     (if isVector \<and> showKey then indent @ [CHR 0x22] @ key @ [CHR 0x22] @ '' : ['' @ NL
      else if isVector \<and> \<not> showKey then indent @ ''['' @ NL
      else if \<not> isVector \<and> showKey then indent @ [CHR 0x22] @ key @ [CHR 0x22] @ '' : {'' @ NL
      else indent @ ''{'' @ NL)"

definition endTag :: "string \<Rightarrow> bool \<Rightarrow> bool \<Rightarrow> bool \<Rightarrow> bool \<Rightarrow> string" where
  "endTag indent comma isVector nl isToplevel =
     (if isToplevel then indent @ ''}'' @ NL @ ''}'' @ NL
      else indent @ (if isVector then '']'' else ''}'') @ (if comma then '','' else []) @ (if nl then NL else [])
             @ (if isToplevel then ''}'' else []))"

abbreviation endTag_plain :: "string \<Rightarrow> bool \<Rightarrow> bool \<Rightarrow> string" where
  "endTag_plain indent comma isVector \<equiv> endTag indent comma isVector True False"

definition valueTag1 :: "string \<Rightarrow> string \<Rightarrow> string \<Rightarrow> bool \<Rightarrow> bool \<Rightarrow> bool \<Rightarrow> string" where
  "valueTag1 indent key unescapedValue showComma isVectorElement withoutQuotes =
     (let value = (if unescapedValue = [] then [] else htmlEscape (c_str unescapedValue));
          effectiveValue = jsonInvalidCharsTransformation value;
          effectiveValue = (if withoutQuotes then effectiveValue else [CHR 0x22] @ effectiveValue @ [CHR 0x22])
      in if showComma
         then if isVectorElement then indent @ effectiveValue @ '','' @ NL
              else indent @ [CHR 0x22] @ key @ [CHR 0x22] @ '' : '' @ effectiveValue @ '','' @ NL
         else if isVectorElement then indent @ effectiveValue @ NL
              else indent @ [CHR 0x22] @ key @ [CHR 0x22] @ '' : '' @ effectiveValue @ NL)"

definition valueTag :: "string \<Rightarrow> string \<Rightarrow> int \<Rightarrow> bool \<Rightarrow> string" where
  "valueTag indent key value showComma =
     (let val = show_int value
      in if showComma then indent @ [CHR 0x22] @ key @ [CHR 0x22] @ '' : '' @ [CHR 0x22] @ val @ [CHR 0x22] @ '','' @ NL
         else indent @ [CHR 0x22] @ key @ [CHR 0x22] @ '' : '' @ [CHR 0x22] @ val @ [CHR 0x22] @ NL)"

definition valueTag2 :: "string \<Rightarrow> string \<Rightarrow> string \<Rightarrow> bool \<Rightarrow> bool \<Rightarrow> string" where
  "valueTag2 indent key value showComma withoutQuotes =
     (let eValue = jsonInvalidCharsTransformation value;
          eValue = (if withoutQuotes then eValue else JSON_STR eValue)
      in if key = [] then if showComma then indent @ eValue @ '','' @ NL else indent @ eValue @ NL
         else if showComma then indent @ [CHR 0x22] @ key @ [CHR 0x22] @ '' : '' @ eValue @ '','' @ NL
         else indent @ [CHR 0x22] @ key @ [CHR 0x22] @ '' : '' @ eValue @ NL)"

subsection \<open>common/JsonHelper.cpp\<close>

primrec toJsonString_loop :: "string \<Rightarrow> string" where
  "toJsonString_loop [] = []"
| "toJsonString_loop (ch # input) = json_escape_char ch @ toJsonString_loop input"

definition toJsonString :: "string \<Rightarrow> string" where
  "toJsonString input = [CHR 0x22] @ toJsonString_loop input @ [CHR 0x22]"

fun vectorToJson_rest :: "string list \<Rightarrow> string" where
  "vectorToJson_rest [] = []"
| "vectorToJson_rest (x # list) = '','' @ toJsonString x @ vectorToJson_rest list"

definition vectorToJson :: "string list \<Rightarrow> string" where
  "vectorToJson list =
     (case list of
        [] \<Rightarrow> ''[]''
      | [x] \<Rightarrow> ''['' @ toJsonString x @ '']''
      | x # rest \<Rightarrow> ''['' @ toJsonString x @ vectorToJson_rest rest @ '']'')"

record JsonHelper =
  jh_ss :: string
  jh_empty :: bool

definition JsonHelper_new :: JsonHelper where
  "JsonHelper_new = \<lparr>jh_ss = ''{'', jh_empty = True\<rparr>"

definition addRaw :: "string \<Rightarrow> string \<Rightarrow> JsonHelper \<Rightarrow> JsonHelper" where
  "addRaw key value jh =
     \<lparr>jh_ss = jh_ss jh @ (if \<not> jh_empty jh then '','' else []) @ toJsonString key @ '':'' @ value, jh_empty = False\<rparr>"

definition addString :: "string \<Rightarrow> string \<Rightarrow> JsonHelper \<Rightarrow> JsonHelper" where
  "addString key value jh =
     \<lparr>jh_ss = jh_ss jh @ (if \<not> jh_empty jh then '','' else []) @ toJsonString key @ '':'' @ toJsonString value,
      jh_empty = False\<rparr>"

definition addNumber :: "string \<Rightarrow> int \<Rightarrow> JsonHelper \<Rightarrow> JsonHelper" where
  "addNumber key value jh =
     \<lparr>jh_ss = jh_ss jh @ (if \<not> jh_empty jh then '','' else []) @ toJsonString key @ '':'' @ show_int value,
      jh_empty = False\<rparr>"

definition addFloat :: "string \<Rightarrow> dbl \<Rightarrow> JsonHelper \<Rightarrow> JsonHelper" where
  "addFloat key value jh =
     \<lparr>jh_ss = jh_ss jh @ (if \<not> jh_empty jh then '','' else []) @ toJsonString key @ '':'' @ show_fixed 9 value,
      jh_empty = False\<rparr>"

definition addDate :: "string \<Rightarrow> int \<Rightarrow> JsonHelper \<Rightarrow> JsonHelper" where
  "addDate key timestamp jh =
     \<lparr>jh_ss = jh_ss jh @ (if \<not> jh_empty jh then '','' else []) @ toJsonString key @ '':''
               @ toJsonString (isodate2str timestamp),
      jh_empty = False\<rparr>"

definition jh_str :: "JsonHelper \<Rightarrow> string" where
  "jh_str jh = jh_ss jh @ ''}''"

subsection \<open>Escaping is undone by reading\<close>

lemma toJsonString_loop_eq: "toJsonString_loop s = jsonInvalidCharsTransformation s"
  by (induction s) simp_all

lemma intToHex_char: "n < 16 \<Longrightarrow> isxdigit (intToHex ! n) \<and> hex_val (intToHex ! n) = n"
proof -
  have "list_all (\<lambda>n. isxdigit (intToHex ! n) \<and> hex_val (intToHex ! n) = n) [0..<16]" by code_simp
  then show "n < 16 \<Longrightarrow> ?thesis" by (simp add: list_all_iff)
qed

lemma unescape_hex:
  assumes "(of_char c :: nat) < 32"
  shows "unescape1 (''u00'' @ [intToHex ! (of_char c div 16), intToHex ! (of_char c mod 16)] @ r) = Some (c, r)"
proof -
  have "(of_char c :: nat) div 16 < 16" "(of_char c :: nat) mod 16 < 16" using assms by simp_all
  note h = intToHex_char [OF this(1)] intToHex_char [OF this(2)]
  have v: "16 * hex_val (intToHex ! (of_char c div 16)) + hex_val (intToHex ! (of_char c mod 16)) = of_char c"
    using h by simp
  then show ?thesis
    using h assms unfolding unescape1_def by (simp add: v)
qed

lemma pstr_escaped_char: "pstr (json_escape_char c @ r) = map_option (\<lambda>(t, q). (c # t, q)) (pstr r)"
proof -
  have sc: "0 \<le> signed_char c \<and> signed_char c \<le> 31 \<longleftrightarrow> (of_char c :: nat) < 32"
    using nat_of_char_less_256 [of c] unfolding signed_char_def Let_def by (auto simp del: nat_of_char_less_256 split: if_splits)
  show ?thesis
  proof (cases "json_escape_char c = [c]")
    case True
    then have "c \<noteq> CHR 0x5C" "c \<noteq> CHR 0x22" "\<not> (of_char c :: nat) < 32"
      using sc by (auto simp: json_escape_char_def split: if_splits)
    then show ?thesis unfolding True by (subst pstr.simps) simp
  next
    case False
    then obtain e where e: "json_escape_char c = CHR 0x5C # e" and u: "unescape1 (e @ r) = Some (c, r)"
    proof (cases "c \<in> {CHR 0x5C, CHR 0x22, CHR 0x08, CHR 0x0C, CHR 0x0A, CHR 0x0D, CHR 0x09}")
      case True
      then show ?thesis by (intro that [of "tl (json_escape_char c)"]) (auto simp: json_escape_char_def unescape1_def)
    next
      case F: False
      then have lt: "(of_char c :: nat) < 32"
        using False sc by (auto simp: json_escape_char_def split: if_splits)
      then have "json_escape_char c = CHR 0x5C # ''u00'' @ [intToHex ! (of_char c div 16), intToHex ! (of_char c mod 16)]"
        using F sc by (simp add: json_escape_char_def)
      then show ?thesis using unescape_hex [OF lt, of r]
        by (intro that [of "tl (json_escape_char c)"]) simp_all
    qed
    show ?thesis unfolding e by (subst pstr.simps) (simp add: u)
  qed
qed

lemma reads_escaped [intro]: "reads_str (jsonInvalidCharsTransformation s) s"
  unfolding reads_str_def
proof (induction s)
  case Nil
  show ?case by (subst pstr.simps) simp
next
  case (Cons c s)
  then show ?case by (simp add: pstr_escaped_char)
qed

lemma toJsonString_reads [intro]: "reads (toJsonString s) (JStr s)"
  using reads_jstr [OF reads_escaped [of s]] by (simp add: toJsonString_def toJsonString_loop_eq jstr_def)

subsection \<open>HTML escaping\<close>

text \<open>The reader of the escapes: an ampersand starts one of eight entities or stands for itself.\<close>

definition entities :: "(string \<times> char) list" where
  "entities = [(''lt;'', CHR ''<''), (''gt;'', CHR ''>''), (''#40;'', CHR ''(''), (''#41;'', CHR '')''), (''#61;'', CHR ''=''),
     (''#39;'', CHR 0x27), (''quot;'', CHR 0x22), (''#59;'', CHR '';'')]"

definition entity_at :: "string \<Rightarrow> (string \<times> char) option" where
  "entity_at s = find (\<lambda>(e, c). take (length e) s = e) entities"

function htmlUnescape :: "string \<Rightarrow> string" where
  "htmlUnescape s =
     (case s of
        [] \<Rightarrow> []
      | c # r \<Rightarrow>
          if c = CHR ''&''
          then (case entity_at r of Some (e, d) \<Rightarrow> d # htmlUnescape (drop (length e) r) | None \<Rightarrow> c # htmlUnescape r)
          else c # htmlUnescape r)"
  by pat_completeness auto
termination
  by (relation "measure length") auto

declare htmlUnescape.simps [simp del]

lemma htmlEscape_char_cases:
  "(c \<noteq> CHR '';'' \<and> htmlEscape_char c = [c]) \<or>
   (\<exists>e. htmlEscape_char c = CHR ''&'' # e @ '';'' \<and> CHR ''&'' \<notin> set e \<and> CHR '';'' \<notin> set e \<and>
        (\<forall>r. entity_at (e @ '';'' @ r) = Some (e @ '';'', c)))"
proof (cases "c \<in> snd ` set entities")
  case True
  then have "\<exists>e. htmlEscape_char c = CHR ''&'' # e @ '';'' \<and> CHR ''&'' \<notin> set e \<and> CHR '';'' \<notin> set e \<and>
        (\<forall>r. entity_at (e @ '';'' @ r) = Some (e @ '';'', c))"
    by (intro exI [of _ "tl (butlast (htmlEscape_char c))"])
       (auto simp: entities_def htmlEscape_char_def entity_at_def)
  then show ?thesis by blast
next
  case False
  then show ?thesis by (auto simp: entities_def htmlEscape_char_def)
qed

text \<open>A semicolon of the result ends an entity, so what precedes it has an ampersand.\<close>

lemma htmlEscape_semicolon: "htmlEscape s = p @ '';'' @ q \<Longrightarrow> CHR ''&'' \<in> set p"
proof (induction s arbitrary: p)
  case (Cons c s)
  consider "c \<noteq> CHR '';''" "htmlEscape_char c = [c]" | e where "htmlEscape_char c = CHR ''&'' # e"
    using htmlEscape_char_cases [of c] by blast
  then show ?case
  proof cases
    case 1
    then obtain p' where "p = c # p'" "htmlEscape s = p' @ '';'' @ q" using Cons.prems by (cases p) auto
    then show ?thesis using Cons.IH by simp
  next
    case 2
    then show ?thesis using Cons.prems by (cases p) auto
  qed
qed simp

lemma entity_at_escaped: "entity_at (htmlEscape s) = None"
proof -
  have "take (length e) (htmlEscape s) \<noteq> e" if "(e, c) \<in> set entities" for e c
  proof
    assume "take (length e) (htmlEscape s) = e"
    then have "htmlEscape s = e @ drop (length e) (htmlEscape s)" by (metis append_take_drop_id)
    moreover have "e = butlast e @ '';''" "CHR ''&'' \<notin> set (butlast e)" using that by (auto simp: entities_def)
    ultimately show False using htmlEscape_semicolon [of s "butlast e"] by (metis append.assoc)
  qed
  then show ?thesis by (auto simp: entity_at_def find_None_iff)
qed

lemma htmlUnescape_htmlEscape: "htmlUnescape (htmlEscape s) = s"
proof (induction s)
  case Nil
  show ?case by (subst htmlUnescape.simps) simp
next
  case (Cons c s)
  from htmlEscape_char_cases [of c] show ?case
  proof (elim disjE exE conjE)
    assume "htmlEscape_char c = [c]"
    then show ?thesis using Cons by (subst htmlUnescape.simps) (simp add: entity_at_escaped)
  next
    fix e
    assume "htmlEscape_char c = CHR ''&'' # e @ '';''" "\<forall>r. entity_at (e @ '';'' @ r) = Some (e @ '';'', c)"
    then show ?thesis using Cons by (subst htmlUnescape.simps) simp
  qed
qed

lemma htmlEscape_char_length: "length (htmlEscape_char c) \<le> 6"
  by (simp add: htmlEscape_char_def)

lemma htmlEscape_length: "length (htmlEscape s) \<le> 6 * length s"
  by (induction s) (use htmlEscape_char_length in \<open>auto simp: add_le_mono\<close>)

lemma htmlEscape_char_forbidden: "d \<in> set (htmlEscape_char c) \<Longrightarrow> commonForbidden d \<Longrightarrow> d = CHR '';''"
  by (auto simp: htmlEscape_char_def commonForbidden_def split: if_splits)

lemma htmlEscape_forbidden: "d \<in> set (htmlEscape s) \<Longrightarrow> commonForbidden d \<Longrightarrow> d = CHR '';''"
  by (induction s) (auto dest: htmlEscape_char_forbidden)

text \<open>HtmlEscape stays within the buffer of six bytes per character and one for the terminator, leaves none of
  the characters that are forbidden in values except the semicolons of its entities, and loses nothing: the
  entities can be read back.\<close>

theorem htmlEscape_correct:
  "length (htmlEscape s) + 1 \<le> length s * 6 + 1 \<and> (\<forall>d \<in> set (htmlEscape s). commonForbidden d \<longrightarrow> d = CHR '';'')
   \<and> htmlUnescape (htmlEscape s) = s"
  using htmlEscape_length [of s] htmlEscape_forbidden [of _ s] htmlUnescape_htmlEscape [of s] by (simp add: mult.commute)

theorem htmlEscape_correct_witness:
  "length (htmlEscape ''a<b;&lt;'') + 1 \<le> 49 \<and> htmlUnescape (htmlEscape ''a<b;&lt;'') = ''a<b;&lt;''
   \<and> htmlEscape ''a<b;&lt;'' = ''a&lt;b&#59;&lt&#59;''"
  using htmlEscape_correct [of "''a<b;&lt;''"] by (simp add: htmlEscape_char_def)

subsection \<open>What JsonHelper writes is read as the object that was meant\<close>

datatype jh_op =
    AddString string string
  | AddRaw string string
  | AddNumber string int
  | AddFloat string dbl
  | AddDate string int

fun jh_apply :: "jh_op \<Rightarrow> JsonHelper \<Rightarrow> JsonHelper" where
  "jh_apply (AddString k v) = addString k v"
| "jh_apply (AddRaw k v) = addRaw k v"
| "jh_apply (AddNumber k v) = addNumber k v"
| "jh_apply (AddFloat k v) = addFloat k v"
| "jh_apply (AddDate k v) = addDate k v"

definition fixed_value :: "nat \<Rightarrow> rat \<Rightarrow> rat" where
  "fixed_value k r = (if r < 0 then - of_int (round_even (- r * 10 ^ k)) / 10 ^ k else of_int (round_even (r * 10 ^ k)) / 10 ^ k)"

text \<open>The member that an addition means; the text of a raw value has to be that of a JSON value.\<close>

fun jh_means :: "jh_op \<Rightarrow> string \<times> json \<Rightarrow> bool" where
  "jh_means (AddString k v) m = (m = (k, JStr v))"
| "jh_means (AddRaw k v) m = (fst m = k \<and> reads v (snd m))"
| "jh_means (AddNumber k v) m = (m = (k, JNum (Fin (of_int v))))"
| "jh_means (AddFloat k v) m = (\<exists>r. v = Fin r \<and> m = (k, JNum (Fin (fixed_value 9 r))))"
| "jh_means (AddDate k v) m = (m = (k, JStr (isodate2str v)))"

fun jh_key :: "jh_op \<Rightarrow> string" where
  "jh_key (AddString k v) = k"
| "jh_key (AddRaw k v) = k"
| "jh_key (AddNumber k v) = k"
| "jh_key (AddFloat k v) = k"
| "jh_key (AddDate k v) = k"

fun jh_text :: "jh_op \<Rightarrow> string" where
  "jh_text (AddString k v) = toJsonString v"
| "jh_text (AddRaw k v) = v"
| "jh_text (AddNumber k v) = show_int v"
| "jh_text (AddFloat k v) = show_fixed 9 v"
| "jh_text (AddDate k v) = toJsonString (isodate2str v)"

lemma jh_apply_raw: "jh_apply op jh = addRaw (jh_key op) (jh_text op) jh"
  by (cases op) (simp_all add: addRaw_def addString_def addNumber_def addFloat_def addDate_def)

lemma jh_run:
  "fold jh_apply ops JsonHelper_new =
     \<lparr>jh_ss = ''{'' @ commas (map (\<lambda>op. toJsonString (jh_key op) @ '':'' @ jh_text op) ops), jh_empty = (ops = [])\<rparr>"
proof (induction ops rule: rev_induct)
  case Nil
  then show ?case by (simp add: JsonHelper_new_def)
next
  case (snoc op ops)
  have "commas (xs @ [x]) = (if xs = [] then x else commas xs @ '','' @ x)" for x and xs :: "string list"
    by (induction xs rule: commas.induct) simp_all
  then show ?case
    unfolding fold_append comp_apply snoc by (simp add: jh_apply_raw addRaw_def)
qed

lemma pad0_dec_digits: "list_all isdigit (pad0 k (dec n))"
  by (auto simp: list_all_iff pad0_def dec_isdigit isdigit_def [of "CHR ''0''"])

lemma length_pad0_dec: "0 < k \<Longrightarrow> n < 10 ^ k \<Longrightarrow> length (pad0 k (dec n)) = k"
proof (cases "n = 0")
  case False
  assume "n < 10 ^ k"
  then show ?thesis using dec_length_le [of n k] False by (simp add: pad0_def)
qed (simp add: pad0_def dec_length_cases)

lemma unsigned_value_fixed:
  assumes "0 < k"
  shows "unsigned_value (show_fixed_pos k r) = Some (of_nat (nat (round_even (r * 10 ^ k))) / 10 ^ k)"
proof -
  define m where "m = nat (round_even (r * 10 ^ k))"
  let ?f = "pad0 k (dec (m mod 10 ^ k))"
  have d: "takeWhile isdigit ?f = ?f" "dropWhile isdigit ?f = []"
    using pad0_dec_digits by (simp_all add: takeWhile_eq_all_conv dropWhile_eq_Nil_conv list_all_iff)
  have len: "length ?f = k" using assms by (intro length_pad0_dec) simp_all
  then have ne: "?f \<noteq> []" using assms by auto
  have "num_of ?f = m mod 10 ^ k" by (simp add: pad0_def num_of_zeros)
  then have fv: "frac_value ?f = of_nat (m mod 10 ^ k) / 10 ^ k" by (simp add: frac_value_def len)
  have "(of_nat (m div 10 ^ k) :: rat) + of_nat (m mod 10 ^ k) / 10 ^ k = of_nat (10 ^ k * (m div 10 ^ k) + m mod 10 ^ k) / 10 ^ k"
    by (simp only: of_nat_add of_nat_mult of_nat_power of_nat_numeral add_divide_distrib) simp
  also have "\<dots> = of_nat m / 10 ^ k" by (simp only: mult_div_mod_eq)
  finally have sum: "(of_nat (m div 10 ^ k) :: rat) + of_nat (m mod 10 ^ k) / 10 ^ k = of_nat m / 10 ^ k" .
  have nd: "\<not> isdigit (CHR ''.'')" by (simp add: isdigit_def)
  show ?thesis
    unfolding show_fixed_pos_def m_def [symmetric] Let_def
    by (simp add: unsigned_value_def dec_number_int nd number_frac_def d ne fv number_exp_def sum Let_def)
qed

lemma reads_show_fixed: "0 < k \<Longrightarrow> reads (show_fixed k (Fin r)) (JNum (Fin (fixed_value k r)))"
proof (rule reads_number)
  assume k: "0 < k"
  have pos: "0 \<le> x \<Longrightarrow> 0 \<le> round_even (x * 10 ^ k)" for x
    by (auto simp: round_even_def Let_def)
  have h: "hd (show_fixed_pos k x) \<noteq> CHR ''-''" "show_fixed_pos k x \<noteq> []" for x
    using hd_dec_isdigit isdigit_not_sign by (auto simp: show_fixed_pos_def Let_def hd_append)
  show "number_value (show_fixed k (Fin r)) = Some (fixed_value k r)"
    using pos [of r] pos [of "- r"]
    by (auto simp: show_fixed.simps number_value_def h unsigned_value_fixed [OF k] fixed_value_def)
  have "list_all number_char (show_fixed_pos k x)" for x
    using pad0_dec_digits [of k] dec_isdigit
    by (auto simp: show_fixed_pos_def Let_def list_all_iff number_char_def)
  then show "list_all number_char (show_fixed k (Fin r))"
    by (simp add: show_fixed.simps number_char_def)
qed

lemma jh_means_reads:
  "jh_means op m \<Longrightarrow> reads_member (jsonInvalidCharsTransformation (jh_key op), jh_text op) m"
  by (cases op) (auto simp: reads_member_def reads_show_fixed)

text \<open>The text that JsonHelper has collected after any sequence of additions is JSON, and it is read as the object
  whose members are the added ones in their order: keys and strings with all their characters, numbers exactly,
  floats to nine decimals, dates as isodate2str writes them.\<close>

theorem JsonHelper_reads:
  assumes "list_all2 jh_means ops ms"
  shows "json_parse (jh_str (fold jh_apply ops JsonHelper_new)) = Some (JObj ms)"
proof -
  let ?ts = "map (\<lambda>op. (jsonInvalidCharsTransformation (jh_key op), jh_text op)) ops"
  have "list_all2 reads_member ?ts ms"
    using assms by (auto simp: list_all2_conv_all_nth jh_means_reads)
  then have "reads (''{'' @ commas (map member_text ?ts) @ ''}'') (JObj ms)" by (rule reads_object)
  moreover have "map member_text ?ts = map (\<lambda>op. toJsonString (jh_key op) @ '':'' @ jh_text op) ops"
    by (simp add: member_text_def toJsonString_def toJsonString_loop_eq jstr_def)
  ultimately have "reads (''{'' @ commas (map (\<lambda>op. toJsonString (jh_key op) @ '':'' @ jh_text op) ops) @ ''}'') (JObj ms)"
    by (simp only:)
  then show ?thesis by (intro reads_parse) (simp add: jh_run jh_str_def)
qed

theorem JsonHelper_reads_witness:
  "json_parse (jh_str (addNumber ''n'' (-5) (addString [CHR 0x22] [CHR 0x0A] JsonHelper_new)))
     = Some (JObj [([CHR 0x22], JStr [CHR 0x0A]), (''n'', JNum (Fin (-5)))])"
  using JsonHelper_reads [of "[AddString [CHR 0x22] [CHR 0x0A], AddNumber ''n'' (-5)]"
      "[([CHR 0x22], JStr [CHR 0x0A]), (''n'', JNum (Fin (-5)))]"] by simp

lemma vectorToJson_text: "vectorToJson xs = ''['' @ commas (map toJsonString xs) @ '']''"
proof -
  have r: "commas (toJsonString x # map toJsonString ys) = toJsonString x @ vectorToJson_rest ys" for x ys
    by (induction ys arbitrary: x) simp_all
  show ?thesis by (cases xs; cases "tl xs") (auto simp: vectorToJson_def r [simplified] simp flip: r)
qed

lemma vectorToJson_reads: "json_parse (vectorToJson xs) = Some (JArr (map JStr xs))"
  unfolding vectorToJson_text
  by (intro reads_parse reads_array) (auto simp: list_all2_conv_all_nth)

end
