(* ===== verification/Orion_Compound.thy ===== *)
theory Orion_Compound
  imports Orion_Tag
begin

section \<open>Compound values: parse/CompoundValueNode.cpp and its users\<close>

text \<open>
  The tree in which the broker keeps an attribute value that is a JSON object or array:
  \<^verbatim>\<open>parse/CompoundValueNode.cpp\<close>, the code that builds it from a parsed JSON document
  (\<^verbatim>\<open>jsonParseV2/parseContextAttributeCompoundValue.cpp\<close>), the code that stores it in a document of the
  database (\<^verbatim>\<open>compoundValueBson\<close> of \<^verbatim>\<open>ngsi/ContextAttribute.cpp\<close>) and the code that makes it
  of such a document again (\<^verbatim>\<open>mongoBackend/compoundResponses.cpp\<close>).

  A node is a value of the datatype \<open>CompoundValueNode\<close> with the children inside. The member
  \<^verbatim>\<open>container\<close> is the node above, or the node itself at the top: \<^verbatim>\<open>add\<close> and the parser set it so
  for every child they push. What the code reads of it is passed down as \<open>container\<close>. The test
  \<^verbatim>\<open>rootP == this\<close> holds exactly at the top. The member \<^verbatim>\<open>error\<close> of the top node is a result
  of \<open>check\<close>.

  A JSON document is the value that rapidjson makes of a text; the type of a member is the name that
  \<^verbatim>\<open>jsonParseTypeNames\<close> gives it. A document of the database is a list of names with values in the
  order in which they were appended.
\<close>

subsection \<open>Data\<close>

datatype ValueType =
    ValueTypeUnknown
  | ValueTypeString
  | ValueTypeNumber
  | ValueTypeBoolean
  | ValueTypeVector
  | ValueTypeObject
  | ValueTypeNone

fun orion_valueTypeName :: "ValueType \<Rightarrow> string" where
  "orion_valueTypeName ValueTypeString = ''String''"
| "orion_valueTypeName ValueTypeNumber = ''Number''"
| "orion_valueTypeName ValueTypeBoolean = ''Boolean''"
| "orion_valueTypeName ValueTypeVector = ''Vector''"
| "orion_valueTypeName ValueTypeObject = ''Object''"
| "orion_valueTypeName ValueTypeNone = ''None''"
| "orion_valueTypeName ValueTypeUnknown = ''Unknown''"

datatype CompoundValueNode =
  CVN (cv_name: string) (cv_valueType: ValueType) (cv_stringValue: string) (cv_numberValue: dbl) (cv_boolValue: bool)
      (cv_childV: "CompoundValueNode list") (cv_siblingNo: int) (cv_path: string) (cv_level: int)

datatype container = Self | Within ValueType nat

datatype bson =
    BNum dbl
  | BStr string
  | BBool bool
  | BNull
  | BArr "bson list"
  | BObj "(string \<times> bson) list"
  | BLong int
  | BInt int
  | BOid string

subsection \<open>Construction\<close>

text \<open>The constructors: of an empty node, of a top node, of a node with a value under a container.\<close>

definition CompoundValueNode_empty :: CompoundValueNode where
  "CompoundValueNode_empty = CVN ''Unset'' ValueTypeUnknown [] (Fin 0) False [] 0 ''Unset'' 0"

definition CompoundValueNode_top :: "ValueType \<Rightarrow> CompoundValueNode" where
  "CompoundValueNode_top type = CVN ''toplevel'' type [] (Fin 0) False [] 0 ''/'' 0"

definition CompoundValueNode_string ::
  "CompoundValueNode \<Rightarrow> string \<Rightarrow> string \<Rightarrow> string \<Rightarrow> int \<Rightarrow> ValueType \<Rightarrow> CompoundValueNode" where
  "CompoundValueNode_string container path name value siblingNo type =
     CVN name type value (Fin 0) False [] siblingNo path (cv_level container + 1)"

definition CompoundValueNode_number ::
  "CompoundValueNode \<Rightarrow> string \<Rightarrow> string \<Rightarrow> dbl \<Rightarrow> int \<Rightarrow> ValueType \<Rightarrow> CompoundValueNode" where
  "CompoundValueNode_number container path name value siblingNo type =
     CVN name type [] value False [] siblingNo path (cv_level container + 1)"

definition CompoundValueNode_bool ::
  "CompoundValueNode \<Rightarrow> string \<Rightarrow> string \<Rightarrow> bool \<Rightarrow> int \<Rightarrow> ValueType \<Rightarrow> CompoundValueNode" where
  "CompoundValueNode_bool container path name value siblingNo type =
     CVN name type [] (Fin 0) value [] siblingNo path (cv_level container + 1)"

fun cv_place :: "int \<Rightarrow> int \<Rightarrow> CompoundValueNode \<Rightarrow> CompoundValueNode" where
  "cv_place siblingNo level (CVN name type sv nv bv cs _ path _) = CVN name type sv nv bv cs siblingNo path level"

fun cv_add :: "CompoundValueNode \<Rightarrow> CompoundValueNode \<Rightarrow> CompoundValueNode" where
  "cv_add (CVN name type sv nv bv cs sib path level) node =
     CVN name type sv nv bv (cs @ [cv_place (int (length cs)) (level + 1) node]) sib path level"

definition child_path :: "CompoundValueNode \<Rightarrow> string \<Rightarrow> string" where
  "child_path parent name = (if cv_path parent = ''/'' then cv_path parent @ name else cv_path parent @ ''/'' @ name)"

definition cv_add_string :: "CompoundValueNode \<Rightarrow> ValueType \<Rightarrow> string \<Rightarrow> string \<Rightarrow> CompoundValueNode" where
  "cv_add_string parent type name value =
     cv_add parent (CompoundValueNode_string parent (child_path parent name) name value (int (length (cv_childV parent))) type)"

definition cv_add_number :: "CompoundValueNode \<Rightarrow> ValueType \<Rightarrow> string \<Rightarrow> dbl \<Rightarrow> CompoundValueNode" where
  "cv_add_number parent type name value =
     cv_add parent (CompoundValueNode_number parent (child_path parent name) name value (int (length (cv_childV parent))) type)"

definition cv_add_bool :: "CompoundValueNode \<Rightarrow> ValueType \<Rightarrow> string \<Rightarrow> bool \<Rightarrow> CompoundValueNode" where
  "cv_add_bool parent type name value =
     cv_add parent (CompoundValueNode_bool parent (child_path parent name) name value (int (length (cv_childV parent))) type)"

subsection \<open>Checking\<close>

record check_result =
  cc_res :: string
  cc_rootError :: "string option"
  cc_alarm :: "string option"

abbreviation cv_ok :: check_result where
  "cv_ok \<equiv> \<lparr>cc_res = ''OK'', cc_rootError = None, cc_alarm = None\<rparr>"

text \<open>The first child of a vector whose name is not that of the child before all others.\<close>

fun odd_name :: "string \<Rightarrow> string list \<Rightarrow> string option" where
  "odd_name first [] = None"
| "odd_name first (n # ns) = (if n \<noteq> first then Some n else odd_name first ns)"

text \<open>The first name of an object that occurs again.\<close>

fun dup_name :: "string list \<Rightarrow> string option" where
  "dup_name [] = None"
| "dup_name (n # ns) = (if n \<in> set ns then Some n else dup_name ns)"

fun first_bad :: "check_result list \<Rightarrow> check_result" where
  "first_bad [] = cv_ok"
| "first_bad (r # rs) = (if cc_res r \<noteq> ''OK'' then r else first_bad rs)"

fun cv_check :: "CompoundValueNode \<Rightarrow> check_result" where
  "cv_check (CVN name type sv nv bv cs sib path level) =
     (let own = (if type = ValueTypeVector
                 then (case map cv_name cs of
                         [] \<Rightarrow> None
                       | first # ns \<Rightarrow>
                           map_option (\<lambda>n. let e = ''bad tag-name of vector item: /'' @ n @ ''/, should be /'' @ first @ ''/''
                                           in \<lparr>cc_res = e, cc_rootError = Some e, cc_alarm = Some e\<rparr>)
                             (odd_name first ns))
                 else if type = ValueTypeObject
                 then map_option (\<lambda>n. let e = ''duplicated tag-name: /'' @ n @ ''/ in path: '' @ path
                                      in \<lparr>cc_res = e, cc_rootError = Some e, cc_alarm = Some e\<rparr>)
                        (dup_name (map cv_name cs))
                 else if forbiddenChars (Some (c_str sv)) None
                 then Some \<lparr>cc_res = ''Invalid characters in attribute value'', cc_rootError = None,
                            cc_alarm = Some ''found a forbidden character in the value of an attribute''\<rparr>
                 else None)
      in case own of Some r \<Rightarrow> r | None \<Rightarrow> first_bad (map cv_check cs))"

definition cv_finish :: "CompoundValueNode \<Rightarrow> string \<times> string option" where
  "cv_finish node =
     (let r = cv_check node in (case cc_rootError r of Some e \<Rightarrow> e | None \<Rightarrow> ''OK'', cc_alarm r))"

subsection \<open>Rendering\<close>

fun container_type :: "container \<Rightarrow> ValueType \<Rightarrow> ValueType" where
  "container_type Self own = own"
| "container_type (Within t n) own = t"

fun container_size :: "container \<Rightarrow> nat \<Rightarrow> nat" where
  "container_size Self own = own"
| "container_size (Within t n) own = n"

fun cv_toJson :: "container \<Rightarrow> CompoundValueNode \<Rightarrow> string" where
  "cv_toJson cont (CVN name type sv nv bv cs sib path level) =
     (let jsonComma = (cont \<noteq> Self \<and> sib < int (container_size cont (length cs)) - 1);
          inVector = (container_type cont type = ValueTypeVector);
          key = (if inVector then ''item'' else name);
          children = concat (map (cv_toJson (Within type (length cs))) cs);
          out = (if type = ValueTypeString
                 then if inVector then JSON_STR sv else JSON_STR key @ '':'' @ JSON_STR sv
                 else if type = ValueTypeNumber
                 then if inVector then toString_double nv else JSON_STR key @ '':'' @ toString_double nv
                 else if type = ValueTypeBoolean
                 then if inVector then JSON_BOOL bv else JSON_STR key @ '':'' @ JSON_BOOL bv
                 else if type = ValueTypeNone
                 then if inVector then ''null'' else JSON_STR key @ '':'' @ ''null''
                 else if type = ValueTypeVector \<and> cont = Self then children
                 else if type = ValueTypeVector \<and> inVector then ''['' @ children @ '']''
                 else if type = ValueTypeVector then JSON_STR name @ '':['' @ children @ '']''
                 else if type = ValueTypeObject \<and> inVector then ''{'' @ children @ ''}''
                 else if type = ValueTypeObject
                 then if cont \<noteq> Self then JSON_STR name @ '':{'' @ children @ ''}'' else children
                 else [])
      in out @ (if jsonComma then '','' else []))"

text \<open>The rendering of version 1, with indentation; \<open>v2\<close> is the test of the API version.\<close>

fun cv_render :: "bool \<Rightarrow> container \<Rightarrow> string \<Rightarrow> CompoundValueNode \<Rightarrow> string" where
  "cv_render v2 cont indent (CVN name type sv nv bv cs sib path level) =
     (let jsonComma = (sib < int (container_size cont (length cs)) - 1);
          inVector = (container_type cont type = ValueTypeVector);
          key = (if inVector then ''item'' else name);
          children = (\<lambda>ind. concat (map (cv_render v2 (Within type (length cs)) ind) cs))
      in if v2 then cv_toJson cont (CVN name type sv nv bv cs sib path level)
         else if type = ValueTypeString then valueTag1 indent key sv jsonComma inVector False
         else if type = ValueTypeNumber then valueTag1 indent key (toString_double nv) jsonComma inVector True
         else if type = ValueTypeBoolean then valueTag1 indent key (if bv then ''true'' else ''false'') jsonComma inVector True
         else if type = ValueTypeNone then valueTag1 indent key ''null'' jsonComma inVector True
         else if type = ValueTypeVector \<and> cont \<noteq> Self
         then startTag2 indent key True (container_type cont type = ValueTypeObject) @ children (indent @ ''  '')
                @ endTag_plain indent jsonComma True
         else if type = ValueTypeVector then children indent
         else if type = ValueTypeObject \<and> inVector
         then startTag2 indent [] False False @ children (indent @ ''  '') @ endTag_plain indent jsonComma False
         else if type = ValueTypeObject
         then if cont \<noteq> Self
              then startTag2 indent key False True @ children (indent @ ''  '') @ endTag_plain indent jsonComma False
              else children indent
         else [])"

subsection \<open>Cloning\<close>

text \<open>The copy of a node without its children; \<^const>\<open>None\<close> is the null pointer of the default case.\<close>

definition clone_self :: "bool \<Rightarrow> CompoundValueNode \<Rightarrow> CompoundValueNode \<Rightarrow> CompoundValueNode option" where
  "clone_self isRoot container n =
     (if isRoot then Some (CompoundValueNode_top (cv_valueType n))
      else case cv_valueType n of
             ValueTypeNumber \<Rightarrow>
               Some (CompoundValueNode_number container (cv_path n) (cv_name n) (cv_numberValue n) (cv_siblingNo n) ValueTypeNumber)
           | ValueTypeBoolean \<Rightarrow>
               Some (CompoundValueNode_bool container (cv_path n) (cv_name n) (cv_boolValue n) (cv_siblingNo n) ValueTypeBoolean)
           | ValueTypeUnknown \<Rightarrow> None
           | t \<Rightarrow> Some (CompoundValueNode_string container (cv_path n) (cv_name n) (cv_stringValue n) (cv_siblingNo n) t))"

fun add_all :: "CompoundValueNode \<Rightarrow> CompoundValueNode option list \<Rightarrow> CompoundValueNode option" where
  "add_all me [] = Some me"
| "add_all me (None # cs) = None"
| "add_all me (Some c # cs) = add_all (cv_add me c) cs"

fun cv_clone :: "bool \<Rightarrow> CompoundValueNode \<Rightarrow> CompoundValueNode \<Rightarrow> CompoundValueNode option" where
  "cv_clone isRoot container (CVN name type sv nv bv cs sib path level) =
     (case clone_self isRoot container (CVN name type sv nv bv cs sib path level) of
        None \<Rightarrow> None
      | Some me \<Rightarrow> add_all me (map (cv_clone False (CVN name type sv nv bv cs sib path level)) cs))"

subsection \<open>From JSON\<close>

fun json_type_name :: "json \<Rightarrow> string" where
  "json_type_name JNull = ''Null''"
| "json_type_name (JBool b) = (if b then ''True'' else ''False'')"
| "json_type_name (JObj ms) = ''Object''"
| "json_type_name (JArr vs) = ''Array''"
| "json_type_name (JStr s) = ''String''"
| "json_type_name (JNum d) = ''Number''"

definition stringToCompoundType :: "string \<Rightarrow> ValueType" where
  "stringToCompoundType nodeType =
     (if nodeType = ''String'' then ValueTypeString
      else if nodeType = ''Number'' then ValueTypeNumber
      else if nodeType = ''True'' then ValueTypeBoolean
      else if nodeType = ''False'' then ValueTypeBoolean
      else if nodeType = ''Object'' then ValueTypeObject
      else if nodeType = ''Array'' then ValueTypeVector
      else if nodeType = ''Null'' then ValueTypeNone
      else ValueTypeString)"

definition itemNo :: "nat \<Rightarrow> string" where
  "itemNo counter = take 3 (pad0 3 (dec counter))"

text \<open>
  The children that a JSON array or object gives to a node with the given path and level: the loops of
  \<^verbatim>\<open>parseContextAttributeCompoundValue\<close>, the same in its three versions. A node of an array keeps the
  name \<^verbatim>\<open>Unset\<close> of the constructor.
\<close>

fun cv_parse_item :: "string \<Rightarrow> string \<Rightarrow> int \<Rightarrow> nat \<Rightarrow> json \<Rightarrow> CompoundValueNode"
  and cv_parse_elems :: "string \<Rightarrow> int \<Rightarrow> nat \<Rightarrow> json list \<Rightarrow> CompoundValueNode list"
  and cv_parse_members :: "string \<Rightarrow> int \<Rightarrow> nat \<Rightarrow> (string \<times> json) list \<Rightarrow> CompoundValueNode list" where
  "cv_parse_item name path level counter v =
     (let nodeType = json_type_name v; type = stringToCompoundType nodeType
      in case v of
           JStr s \<Rightarrow> CVN name type (c_str s) (Fin 0) False [] (int counter) path (level + 1)
         | JNum d \<Rightarrow> CVN name type [] d False [] (int counter) path (level + 1)
         | JBool b \<Rightarrow> CVN name type [] (Fin 0) (nodeType = ''True'') [] (int counter) path (level + 1)
         | JNull \<Rightarrow> CVN name ValueTypeNone [] (Fin 0) False [] (int counter) path (level + 1)
         | JObj ms \<Rightarrow> CVN name ValueTypeObject [] (Fin 0) False (cv_parse_members (path @ ''/'') (level + 1) 0 ms)
                       (int counter) (path @ ''/'') (level + 1)
         | JArr vs \<Rightarrow> CVN name ValueTypeVector [] (Fin 0) False (cv_parse_elems (path @ ''/'') (level + 1) 0 vs)
                       (int counter) (path @ ''/'') (level + 1))"
| "cv_parse_elems path level counter [] = []"
| "cv_parse_elems path level counter (v # vs) =
     cv_parse_item ''Unset'' (path @ ''['' @ itemNo counter @ '']'') level counter v
       # cv_parse_elems path level (Suc counter) vs"
| "cv_parse_members path level counter [] = []"
| "cv_parse_members path level counter ((n, v) # ms) =
     cv_parse_item (c_str n) (path @ c_str n) level counter v # cv_parse_members path level (Suc counter) ms"

definition cv_parse_children :: "json \<Rightarrow> CompoundValueNode list" where
  "cv_parse_children v =
     (case v of JArr vs \<Rightarrow> cv_parse_elems ''/'' 0 0 vs | JObj ms \<Rightarrow> cv_parse_members ''/'' 0 0 ms | _ \<Rightarrow> [])"

text \<open>
  The version that is called for a member of the payload. When the attribute has no compound value yet, the top
  node is made; else the parent stays the null pointer that was passed, and a child is undefined behaviour.
\<close>

definition parseContextAttributeCompoundValue ::
  "CompoundValueNode option \<Rightarrow> json \<Rightarrow> CompoundValueNode option" where
  "parseContextAttributeCompoundValue compoundValueP v =
     (case compoundValueP of
        None \<Rightarrow> Some (CVN ''TOP'' (stringToCompoundType (json_type_name v)) [] (Fin 0) False (cv_parse_children v) 0 ''/'' 0)
      | Some c \<Rightarrow> if cv_parse_children v = [] then Some c else None)"

definition parseContextAttributeCompoundValueStandAlone :: "ValueType \<Rightarrow> json \<Rightarrow> CompoundValueNode" where
  "parseContextAttributeCompoundValueStandAlone valueType v =
     CVN ''TOP'' valueType [] (Fin 0) False
       (if valueType = ValueTypeVector \<or> valueType = ValueTypeObject then cv_parse_children v else []) 0 ''/'' 0"

subsection \<open>To and from the database\<close>

definition dbDotEncode :: "string \<Rightarrow> string" where
  "dbDotEncode s = map (\<lambda>c. if c = CHR ''.'' then CHR ''='' else c) s"

definition dbDotDecode :: "string \<Rightarrow> string" where
  "dbDotDecode s = map (\<lambda>c. if c = CHR ''='' then CHR ''.'' else c) s"

text \<open>What a child appends to the builder of its parent: nothing when its type is unknown.\<close>

fun node_bson :: "CompoundValueNode \<Rightarrow> bson list" where
  "node_bson (CVN name type sv nv bv cs sib path level) =
     (if type = ValueTypeString then [BStr sv]
      else if type = ValueTypeNumber then [BNum nv]
      else if type = ValueTypeBoolean then [BBool bv]
      else if type = ValueTypeNone then [BNull]
      else if type = ValueTypeVector then [BArr (concat (map node_bson cs))]
      else if type = ValueTypeObject
      then [BObj (concat (map (\<lambda>c. map (Pair (dbDotEncode (cv_name c))) (node_bson c)) cs))]
      else [])"

definition compoundValueBson_array :: "CompoundValueNode list \<Rightarrow> bson list" where
  "compoundValueBson_array children = concat (map node_bson children)"

definition compoundValueBson_object :: "CompoundValueNode list \<Rightarrow> (string \<times> bson) list" where
  "compoundValueBson_object children = concat (map (\<lambda>c. map (Pair (dbDotEncode (cv_name c))) (node_bson c)) children)"

fun cv_set_scalar :: "ValueType \<Rightarrow> string \<Rightarrow> dbl \<Rightarrow> bool \<Rightarrow> CompoundValueNode \<Rightarrow> CompoundValueNode" where
  "cv_set_scalar type sv nv bv (CVN name _ _ _ _ cs sib path level) = CVN name type sv nv bv cs sib path level"

fun cv_set_name :: "string \<Rightarrow> CompoundValueNode \<Rightarrow> CompoundValueNode" where
  "cv_set_name name (CVN _ type sv nv bv cs sib path level) = CVN name type sv nv bv cs sib path level"

text \<open>
  \<^verbatim>\<open>addCompoundNode\<close>: the child is made as a top node, gets its own children, and is added last. An
  element whose type is not one of those of a compound value is left out.
\<close>

fun addCompoundNode :: "CompoundValueNode \<Rightarrow> string \<Rightarrow> bson \<Rightarrow> CompoundValueNode"
  and addCompoundNodes :: "CompoundValueNode \<Rightarrow> (string \<times> bson) list \<Rightarrow> CompoundValueNode"
  and addCompoundItems :: "CompoundValueNode \<Rightarrow> nat \<Rightarrow> bson list \<Rightarrow> CompoundValueNode" where
  "addCompoundNode cvP fieldName e =
     (let child = cv_set_name (dbDotDecode fieldName) (CompoundValueNode_top ValueTypeObject)
      in case e of
           BStr s \<Rightarrow> cv_add cvP (cv_set_scalar ValueTypeString s (Fin 0) False child)
         | BBool b \<Rightarrow> cv_add cvP (cv_set_scalar ValueTypeBoolean [] (Fin 0) b child)
         | BNum d \<Rightarrow> cv_add cvP (cv_set_scalar ValueTypeNumber [] d False child)
         | BNull \<Rightarrow> cv_add cvP (cv_set_scalar ValueTypeNone [] (Fin 0) False child)
         | BObj es \<Rightarrow> cv_add cvP (addCompoundNodes (cv_set_scalar ValueTypeObject [] (Fin 0) False child) es)
         | BArr es \<Rightarrow> cv_add cvP (addCompoundItems (cv_set_scalar ValueTypeVector [] (Fin 0) False child) 0 es)
         | BLong i \<Rightarrow> cvP
         | BInt i \<Rightarrow> cvP
         | BOid s \<Rightarrow> cvP)"
| "addCompoundNodes cvP [] = cvP"
| "addCompoundNodes cvP ((n, e) # es) = addCompoundNodes (addCompoundNode cvP n e) es"
| "addCompoundItems cvP i [] = cvP"
| "addCompoundItems cvP i (e # es) = addCompoundItems (addCompoundNode cvP (dec i) e) (Suc i) es"

definition compoundObjectResponse :: "CompoundValueNode \<Rightarrow> (string \<times> bson) list \<Rightarrow> CompoundValueNode" where
  "compoundObjectResponse cvP obj =
     addCompoundNodes (CVN (cv_name cvP) ValueTypeObject (cv_stringValue cvP) (cv_numberValue cvP) (cv_boolValue cvP)
       (cv_childV cvP) (cv_siblingNo cvP) (cv_path cvP) (cv_level cvP)) obj"

definition compoundVectorResponse :: "CompoundValueNode \<Rightarrow> bson list \<Rightarrow> CompoundValueNode" where
  "compoundVectorResponse cvP vec =
     addCompoundItems (CVN (cv_name cvP) ValueTypeVector (cv_stringValue cvP) (cv_numberValue cvP) (cv_boolValue cvP)
       (cv_childV cvP) (cv_siblingNo cvP) (cv_path cvP) (cv_level cvP)) 0 vec"

subsection \<open>The JSON value of a tree\<close>

fun json_of_node :: "CompoundValueNode \<Rightarrow> json" where
  "json_of_node (CVN name type sv nv bv cs sib path level) =
     (case type of
        ValueTypeString \<Rightarrow> JStr sv
      | ValueTypeNumber \<Rightarrow> JNum nv
      | ValueTypeBoolean \<Rightarrow> JBool bv
      | ValueTypeVector \<Rightarrow> JArr (map json_of_node cs)
      | ValueTypeObject \<Rightarrow> JObj (map (\<lambda>c. (cv_name c, json_of_node c)) cs)
      | _ \<Rightarrow> JNull)"

text \<open>The children are numbered from zero, all the way down, and no type is unknown.\<close>

fun cv_linked :: "CompoundValueNode \<Rightarrow> bool" where
  "cv_linked (CVN name type sv nv bv cs sib path level) =
     (type \<noteq> ValueTypeUnknown \<and> map cv_siblingNo cs = map int [0..<length cs] \<and> list_all cv_linked cs)"

definition cv_compound :: "CompoundValueNode \<Rightarrow> bool" where
  "cv_compound n = (cv_valueType n = ValueTypeVector \<or> cv_valueType n = ValueTypeObject)"

lemma concat_commas:
  "map sib cs = map int [i..<i + length cs] \<Longrightarrow> n = i + length cs \<Longrightarrow>
   concat (map (\<lambda>c. f c @ (if sib c < int n - 1 then '','' else [])) cs) = commas (map f cs)"
proof (induction cs arbitrary: i)
  case (Cons c cs)
  have u: "[i..<i + length (c # cs)] = i # [Suc i..<Suc i + length cs]"
    using upt_conv_Cons [of i "i + length (c # cs)"] by simp
  have s: "sib c = int i" and ss: "map sib cs = map int [Suc i..<Suc i + length cs]"
    using Cons.prems(1) unfolding u by simp_all
  have ih: "concat (map (\<lambda>c. f c @ (if sib c < int n - 1 then '','' else [])) cs) = commas (map f cs)"
    using Cons.prems(2) by (intro Cons.IH [OF ss]) simp
  show ?case
  proof (cases cs)
    case Nil
    then show ?thesis using s Cons.prems(2) by simp
  next
    case (Cons d ds)
    then have "sib c < int n - 1" using s Cons.prems(2) by simp
    then show ?thesis using ih by (simp add: Cons)
  qed
qed simp

definition child_text :: "ValueType \<Rightarrow> CompoundValueNode \<Rightarrow> string" where
  "child_text t c = (if t = ValueTypeVector then [] else JSON_STR (cv_name c) @ '':'') @ jprint (json_of_node c)"

lemma cv_toJson_children:
  assumes "map cv_siblingNo cs = map int [0..<length cs]"
    and "\<And>c. c \<in> set cs \<Longrightarrow> cv_toJson (Within t (length cs)) c =
            child_text t c @ (if cv_siblingNo c < int (length cs) - 1 then '','' else [])"
  shows "concat (map (cv_toJson (Within t (length cs))) cs) = commas (map (child_text t) cs)"
proof -
  have "map (cv_toJson (Within t (length cs))) cs
      = map (\<lambda>c. child_text t c @ (if cv_siblingNo c < int (length cs) - 1 then '','' else [])) cs"
    using assms(2) by (intro map_cong refl)
  then show ?thesis
    using concat_commas [of cv_siblingNo cs 0 "length cs" "child_text t"] assms(1) by (simp only: add_0 refl)
qed

lemma child_text_vector: "child_text ValueTypeVector = (\<lambda>c. jprint (json_of_node c))"
  by (rule ext) (simp add: child_text_def)

lemma child_text_object: "child_text ValueTypeObject = (\<lambda>c. jstr (cv_name c) @ '':'' @ jprint (json_of_node c))"
  by (rule ext) (simp add: child_text_def JSON_STR_def jstr_def)

lemma jprint_vector:
  "cv_valueType n = ValueTypeVector \<Longrightarrow>
   jprint (json_of_node n) = ''['' @ commas (map (child_text ValueTypeVector) (cv_childV n)) @ '']''"
  by (cases n) (simp add: child_text_vector comp_def)

lemma jprint_object:
  "cv_valueType n = ValueTypeObject \<Longrightarrow>
   jprint (json_of_node n) = ''{'' @ commas (map (child_text ValueTypeObject) (cv_childV n)) @ ''}''"
  by (cases n) (simp add: child_text_object comp_def)

declare cv_toJson.simps [simp del]

lemma cv_toJson_child:
  "cv_linked n \<Longrightarrow> t = ValueTypeVector \<or> t = ValueTypeObject \<Longrightarrow>
   cv_toJson (Within t k) n = child_text t n @ (if cv_siblingNo n < int k - 1 then '','' else [])"
proof (induction n arbitrary: t k)
  case (CVN name type sv nv bv cs sib path level)
  let ?n = "CVN name type sv nv bv cs sib path level"
  have sibs: "map cv_siblingNo cs = map int [0..<length cs]" using CVN.prems(1) by simp
  have ch: "concat (map (cv_toJson (Within type (length cs))) cs) = commas (map (child_text type) cs)"
    if "type = ValueTypeVector \<or> type = ValueTypeObject"
    using CVN that by (intro cv_toJson_children [OF sibs]) (auto simp: list_all_iff)
  consider "type = ValueTypeVector" | "type = ValueTypeObject"
    | "type \<noteq> ValueTypeVector" "type \<noteq> ValueTypeObject" "type \<noteq> ValueTypeUnknown"
    using CVN.prems(1) by auto
  then show ?case
  proof cases
    case 1
    then show ?thesis using ch CVN.prems(2) jprint_vector [of ?n]
      by (auto simp: cv_toJson.simps child_text_def [of t] Let_def simp del: json_of_node.simps)
  next
    case 2
    then show ?thesis using ch CVN.prems(2) jprint_object [of ?n]
      by (auto simp: cv_toJson.simps child_text_def [of t] Let_def simp del: json_of_node.simps)
  next
    case 3
    then show ?thesis using CVN.prems(2)
      by (cases type) (auto simp: cv_toJson.simps child_text_def Let_def JSON_STR_def jstr_def JSON_BOOL_def)
  qed
qed

lemma cv_toJson_top:
  assumes "cv_linked n" and "cv_compound n"
  shows "cv_toJson Self n = commas (map (child_text (cv_valueType n)) (cv_childV n))"
proof (cases n)
  case (CVN name type sv nv bv cs sib path level)
  have sibs: "map cv_siblingNo cs = map int [0..<length cs]" using assms(1) CVN by simp
  have "concat (map (cv_toJson (Within type (length cs))) cs) = commas (map (child_text type) cs)"
    using assms CVN by (intro cv_toJson_children [OF sibs] cv_toJson_child) (auto simp: list_all_iff cv_compound_def)
  then show ?thesis using assms CVN by (auto simp: cv_toJson.simps cv_compound_def Let_def)
qed

definition brackets :: "CompoundValueNode \<Rightarrow> string \<Rightarrow> string" where
  "brackets n s = (if cv_valueType n = ValueTypeVector then ''['' @ s @ '']'' else ''{'' @ s @ ''}'')"

lemma cv_toJson_jprint:
  "cv_linked n \<Longrightarrow> cv_compound n \<Longrightarrow> brackets n (cv_toJson Self n) = jprint (json_of_node n)"
  by (auto simp: cv_toJson_top brackets_def cv_compound_def jprint_vector jprint_object)

subsection \<open>The parser builds a linked tree of the value\<close>

fun json_no_NUL :: "json \<Rightarrow> bool" where
  "json_no_NUL (JStr s) = (NUL \<notin> set s)"
| "json_no_NUL (JArr vs) = list_all json_no_NUL vs"
| "json_no_NUL (JObj ms) = list_all (\<lambda>(k, v). NUL \<notin> set k \<and> json_no_NUL v) ms"
| "json_no_NUL v = True"

lemma cv_parse_sibling: "cv_siblingNo (cv_parse_item name path level counter v) = int counter"
  by (cases v) (simp_all add: Let_def)

lemma cv_parse_name: "cv_name (cv_parse_item name path level counter v) = name"
  by (cases v) (simp_all add: Let_def)

lemma cv_parse_elems_siblings:
  "map cv_siblingNo (cv_parse_elems path level i vs) = map int [i..<i + length vs]"
  "length (cv_parse_elems path level i vs) = length vs"
  by (induction vs arbitrary: i) (simp_all add: cv_parse_sibling upt_conv_Cons del: cv_parse_item.simps upt_Suc)

lemma cv_parse_members_siblings:
  "map cv_siblingNo (cv_parse_members path level i ms) = map int [i..<i + length ms]"
  "length (cv_parse_members path level i ms) = length ms"
  by (induction ms arbitrary: i) (auto simp: cv_parse_sibling upt_conv_Cons simp del: cv_parse_item.simps upt_Suc)

lemma cv_parse_item_correct:
  "json_no_NUL v \<Longrightarrow>
     cv_linked (cv_parse_item name path level counter v) \<and> json_of_node (cv_parse_item name path level counter v) = v"
  "list_all json_no_NUL vs \<Longrightarrow>
     list_all cv_linked (cv_parse_elems path level counter vs) \<and> map json_of_node (cv_parse_elems path level counter vs) = vs"
  "list_all (\<lambda>(k, v). NUL \<notin> set k \<and> json_no_NUL v) ms \<Longrightarrow>
     list_all cv_linked (cv_parse_members path level counter ms) \<and>
     map (\<lambda>c. (cv_name c, json_of_node c)) (cv_parse_members path level counter ms) = ms"
proof (induction name path level counter v and path level counter vs and path level counter ms
    rule: cv_parse_item_cv_parse_elems_cv_parse_members.induct)
  case (1 name path level counter v)
  then show ?case
    by (cases v)
       (auto simp: Let_def stringToCompoundType_def cv_parse_elems_siblings cv_parse_members_siblings)
qed (auto simp: cv_parse_name simp del: cv_parse_item.simps)

definition json_compound :: "json \<Rightarrow> bool" where
  "json_compound v = ((\<exists>vs. v = JArr vs) \<or> (\<exists>ms. v = JObj ms))"

lemma parse_compound_correct:
  assumes "json_no_NUL v" and "json_compound v"
  obtains n where "parseContextAttributeCompoundValue None v = Some n" "cv_linked n" "cv_compound n" "json_of_node n = v"
    "cv_valueType n = (if json_type_name v = ''Array'' then ValueTypeVector else ValueTypeObject)"
proof -
  from assms(2) consider vs where "v = JArr vs" | ms where "v = JObj ms" by (auto simp: json_compound_def)
  then show thesis
  proof cases
    case 1
    then show thesis
      using assms(1) cv_parse_item_correct(2) [of vs "''/''" 0 0]
      by (intro that [of "CVN ''TOP'' ValueTypeVector [] (Fin 0) False (cv_parse_elems ''/'' 0 0 vs) 0 ''/'' 0"])
         (simp_all add: parseContextAttributeCompoundValue_def stringToCompoundType_def cv_parse_children_def
            cv_compound_def cv_parse_elems_siblings)
  next
    case 2
    then show thesis
      using assms(1) cv_parse_item_correct(3) [of ms "''/''" 0 0]
      by (intro that [of "CVN ''TOP'' ValueTypeObject [] (Fin 0) False (cv_parse_members ''/'' 0 0 ms) 0 ''/'' 0"])
         (simp_all add: parseContextAttributeCompoundValue_def stringToCompoundType_def cv_parse_children_def
            cv_compound_def cv_parse_members_siblings)
  qed
qed

subsection \<open>Adding children\<close>

fun place_from :: "nat \<Rightarrow> int \<Rightarrow> CompoundValueNode list \<Rightarrow> CompoundValueNode list" where
  "place_from i level [] = []"
| "place_from i level (c # cs) = cv_place (int i) level c # place_from (Suc i) level cs"

lemma foldl_cv_add:
  "foldl cv_add (CVN name type sv nv bv ds sib path level) cs =
     CVN name type sv nv bv (ds @ place_from (length ds) (level + 1) cs) sib path level"
  by (induction cs arbitrary: ds) simp_all

lemma cv_place_simps [simp]:
  "cv_siblingNo (cv_place i l c) = i" "cv_name (cv_place i l c) = cv_name c"
  "json_of_node (cv_place i l c) = json_of_node c" "cv_linked (cv_place i l c) = cv_linked c"
  by (cases c; simp)+

lemma place_from_simps [simp]:
  "length (place_from i l cs) = length cs"
  "map json_of_node (place_from i l cs) = map json_of_node cs"
  "map (\<lambda>c. (cv_name c, json_of_node c)) (place_from i l cs) = map (\<lambda>c. (cv_name c, json_of_node c)) cs"
  "list_all cv_linked (place_from i l cs) = list_all cv_linked cs"
  by (induction cs arbitrary: i) simp_all

lemma place_from_siblings: "map cv_siblingNo (place_from i l cs) = map int [i..<i + length cs]"
  by (induction cs arbitrary: i) (simp_all add: upt_conv_Cons del: upt_Suc)

lemma foldl_cv_add_empty:
  shows "list_all cv_linked cs \<Longrightarrow> type \<noteq> ValueTypeUnknown \<Longrightarrow>
      cv_linked (foldl cv_add (CVN name type sv nv bv [] sib path level) cs)"
    and "json_of_node (foldl cv_add (CVN name ValueTypeObject sv nv bv [] sib path level) cs)
           = JObj (map (\<lambda>c. (cv_name c, json_of_node c)) cs)"
    and "json_of_node (foldl cv_add (CVN name ValueTypeVector sv nv bv [] sib path level) cs) = JArr (map json_of_node cs)"
    and "cv_name (foldl cv_add (CVN name type sv nv bv [] sib path level) cs) = name"
    and "cv_valueType (foldl cv_add (CVN name type sv nv bv [] sib path level) cs) = type"
  by (simp_all add: foldl_cv_add place_from_siblings)

subsection \<open>Storing a tree and reading it back\<close>

fun bson_of_json :: "json \<Rightarrow> bson" where
  "bson_of_json JNull = BNull"
| "bson_of_json (JBool b) = BBool b"
| "bson_of_json (JNum d) = BNum d"
| "bson_of_json (JStr s) = BStr s"
| "bson_of_json (JArr vs) = BArr (map bson_of_json vs)"
| "bson_of_json (JObj ms) = BObj (map (\<lambda>(k, v). (dbDotEncode k, bson_of_json v)) ms)"

text \<open>The value with every equals sign in a member name replaced by a dot.\<close>

fun json_undot :: "json \<Rightarrow> json" where
  "json_undot (JArr vs) = JArr (map json_undot vs)"
| "json_undot (JObj ms) = JObj (map (\<lambda>(k, v). (dbDotDecode k, json_undot v)) ms)"
| "json_undot v = v"

lemma node_bson_linked: "cv_linked n \<Longrightarrow> node_bson n = [bson_of_json (json_of_node n)]"
proof (induction n)
  case (CVN name type sv nv bv cs sib path level)
  then have c: "\<And>c. c \<in> set cs \<Longrightarrow> node_bson c = [bson_of_json (json_of_node c)]" by (auto simp: list_all_iff)
  have "concat (map node_bson cs) = map (\<lambda>c. bson_of_json (json_of_node c)) cs"
    using c by (induction cs) simp_all
  moreover have "concat (map (\<lambda>c. map (Pair (dbDotEncode (cv_name c))) (node_bson c)) cs)
      = map (\<lambda>c. (dbDotEncode (cv_name c), bson_of_json (json_of_node c))) cs"
    using c by (induction cs) simp_all
  ultimately show ?case using CVN.prems by (cases type) (simp_all add: comp_def)
qed

lemma dbDotDecode_dbDotEncode [simp]: "dbDotDecode (dbDotEncode s) = dbDotDecode s"
  by (simp add: dbDotDecode_def dbDotEncode_def)

lemma dbDotDecode_id: "CHR ''='' \<notin> set s \<Longrightarrow> dbDotDecode s = s"
  by (induction s) (auto simp: dbDotDecode_def)

lemma addCompound_reads_back:
  "e = bson_of_json v \<Longrightarrow>
     \<exists>c. addCompoundNode p n e = cv_add p c \<and> cv_linked c \<and> json_of_node c = json_undot v \<and> cv_name c = dbDotDecode n"
  "es = map (\<lambda>(k, v). (dbDotEncode k, bson_of_json v)) ms \<Longrightarrow>
     \<exists>cs. addCompoundNodes p es = foldl cv_add p cs \<and> list_all cv_linked cs \<and>
       map (\<lambda>c. (cv_name c, json_of_node c)) cs = map (\<lambda>(k, v). (dbDotDecode k, json_undot v)) ms"
  "fs = map bson_of_json vs \<Longrightarrow>
     \<exists>cs. addCompoundItems p i fs = foldl cv_add p cs \<and> list_all cv_linked cs \<and> map json_of_node cs = map json_undot vs"
proof (induction p n e and p es and p i fs arbitrary: v and ms and vs
    rule: addCompoundNode_addCompoundNodes_addCompoundItems.induct)
  case (1 p n e)
  let ?t = "cv_set_name (dbDotDecode n) (CompoundValueNode_top ValueTypeObject)"
  show ?case
  proof (cases v)
    case (JObj ms)
    then obtain cs where "addCompoundNodes (cv_set_scalar ValueTypeObject [] (Fin 0) False ?t) (map (\<lambda>(k, v). (dbDotEncode k, bson_of_json v)) ms)
          = foldl cv_add (cv_set_scalar ValueTypeObject [] (Fin 0) False ?t) cs" "list_all cv_linked cs"
        "map (\<lambda>c. (cv_name c, json_of_node c)) cs = map (\<lambda>(k, v). (dbDotDecode k, json_undot v)) ms"
      using 1 by fastforce
    then show ?thesis using JObj "1.prems"
      by (intro exI [of _ "foldl cv_add (cv_set_scalar ValueTypeObject [] (Fin 0) False ?t) cs"])
         (simp add: CompoundValueNode_top_def foldl_cv_add_empty)
  next
    case (JArr vs)
    then obtain cs where "addCompoundItems (cv_set_scalar ValueTypeVector [] (Fin 0) False ?t) 0 (map bson_of_json vs)
          = foldl cv_add (cv_set_scalar ValueTypeVector [] (Fin 0) False ?t) cs" "list_all cv_linked cs"
        "map json_of_node cs = map json_undot vs"
      using 1 by fastforce
    then show ?thesis using JArr "1.prems"
      by (intro exI [of _ "foldl cv_add (cv_set_scalar ValueTypeVector [] (Fin 0) False ?t) cs"])
         (simp add: CompoundValueNode_top_def foldl_cv_add_empty)
  qed (use 1 in \<open>auto simp: CompoundValueNode_top_def intro!: exI [of _ "CVN _ _ _ _ _ _ _ _ _"]\<close>)
next
  case (3 p n e es)
  then obtain k v ms' where ms: "ms = (k, v) # ms'" "n = dbDotEncode k" "e = bson_of_json v"
      "es = map (\<lambda>(k, v). (dbDotEncode k, bson_of_json v)) ms'" by (cases ms) auto
  obtain c where c: "addCompoundNode p n e = cv_add p c" "cv_linked c" "json_of_node c = json_undot v" "cv_name c = dbDotDecode n"
    using "3.IH"(1) [OF ms(3)] by blast
  obtain cs where "addCompoundNodes (addCompoundNode p n e) es = foldl cv_add (addCompoundNode p n e) cs" "list_all cv_linked cs"
      "map (\<lambda>c. (cv_name c, json_of_node c)) cs = map (\<lambda>(k, v). (dbDotDecode k, json_undot v)) ms'"
    using "3.IH"(2) [OF ms(4)] by blast
  then show ?case using c ms by (intro exI [of _ "c # cs"]) (simp del: addCompoundNode.simps)
next
  case (5 p i e es)
  then obtain v vs' where vs: "vs = v # vs'" "e = bson_of_json v" "es = map bson_of_json vs'" by (cases vs) auto
  obtain c where c: "addCompoundNode p (dec i) e = cv_add p c" "cv_linked c" "json_of_node c = json_undot v"
    using "5.IH"(1) [OF vs(2)] by blast
  obtain cs where "addCompoundItems (addCompoundNode p (dec i) e) (Suc i) es = foldl cv_add (addCompoundNode p (dec i) e) cs"
      "list_all cv_linked cs" "map json_of_node cs = map json_undot vs'"
    using "5.IH"(2) [OF vs(3)] by blast
  then show ?case using c vs by (intro exI [of _ "c # cs"]) (simp del: addCompoundNode.simps)
qed (auto intro!: exI [of _ "[]"])

definition cv_of_bson :: "bson \<Rightarrow> CompoundValueNode" where
  "cv_of_bson b =
     (case b of
        BObj es \<Rightarrow> compoundObjectResponse (CompoundValueNode_top ValueTypeObject) es
      | BArr es \<Rightarrow> compoundVectorResponse (CompoundValueNode_top ValueTypeVector) es
      | _ \<Rightarrow> CompoundValueNode_top ValueTypeUnknown)"

lemma cv_of_bson_json:
  assumes "json_compound v"
  shows "cv_linked (cv_of_bson (bson_of_json v)) \<and> json_of_node (cv_of_bson (bson_of_json v)) = json_undot v \<and>
    cv_compound (cv_of_bson (bson_of_json v))"
proof -
  from assms consider vs where "v = JArr vs" | ms where "v = JObj ms" by (auto simp: json_compound_def)
  then show ?thesis
  proof cases
    case 1
    let ?t = "CVN ''toplevel'' ValueTypeVector [] (Fin 0) False [] 0 ''/'' 0"
    obtain cs where "addCompoundItems ?t 0 (map bson_of_json vs) = foldl cv_add ?t cs"
        "list_all cv_linked cs" "map json_of_node cs = map json_undot vs"
      using addCompound_reads_back(3) [OF refl, of ?t 0 vs] by blast
    then show ?thesis using 1
      by (simp add: cv_of_bson_def compoundVectorResponse_def CompoundValueNode_top_def foldl_cv_add_empty cv_compound_def)
  next
    case 2
    let ?t = "CVN ''toplevel'' ValueTypeObject [] (Fin 0) False [] 0 ''/'' 0"
    obtain cs where "addCompoundNodes ?t (map (\<lambda>(k, v). (dbDotEncode k, bson_of_json v)) ms) = foldl cv_add ?t cs"
        "list_all cv_linked cs" "map (\<lambda>c. (cv_name c, json_of_node c)) cs = map (\<lambda>(k, v). (dbDotDecode k, json_undot v)) ms"
      using addCompound_reads_back(2) [OF refl, of ?t ms] by blast
    then show ?thesis using 2
      by (simp add: cv_of_bson_def compoundObjectResponse_def CompoundValueNode_top_def foldl_cv_add_empty cv_compound_def)
  qed
qed

fun json_no_equals :: "json \<Rightarrow> bool" where
  "json_no_equals (JArr vs) = list_all json_no_equals vs"
| "json_no_equals (JObj ms) = list_all (\<lambda>(k, v). CHR ''='' \<notin> set k \<and> json_no_equals v) ms"
| "json_no_equals v = True"

lemma json_undot_id: "json_no_equals v \<Longrightarrow> json_undot v = v"
proof (induction v)
  case (JArr vs)
  then show ?case by (simp add: list_all_iff map_idI)
next
  case (JObj ms)
  then show ?case by (auto simp: list_all_iff dbDotDecode_id intro!: map_idI)
qed simp_all

lemma plain_no_NUL: "plain s \<Longrightarrow> NUL \<notin> set s"
proof -
  have "\<not> plain_char NUL" by code_simp
  then show "plain s \<Longrightarrow> NUL \<notin> set s" unfolding plain_def list_all_iff by metis
qed

lemma json_plain_no_NUL: "json_plain v \<Longrightarrow> json_no_NUL v"
proof (induction v)
  case (JArr vs)
  then show ?case by (simp add: list_all_iff)
next
  case (JObj ms)
  then show ?case by (fastforce simp: list_all_iff dest: plain_no_NUL)
qed (simp_all add: plain_no_NUL)


definition compound_demo :: json where
  "compound_demo = JObj [(''a.b'', JArr [JNum (Fin 7), JBool True, JNull]), (''c'', JStr ''x y'')]"

lemma compound_demo_plain: "json_plain compound_demo" "json_compound compound_demo" "json_no_equals compound_demo"
proof -
  have "num_plain (Fin 7)" using num_plain_int [of 7] by simp
  then show "json_plain compound_demo" by (simp add: compound_demo_def plain_def plain_char_def del: num_plain.simps)
qed (simp_all add: compound_demo_def json_compound_def)


text \<open>The name of a member is not checked, so an equals sign in it is lost on the way through the database.\<close>

lemma equals_sign_lost:
  "json_undot (JObj [(''a=b'', JNull)]) = JObj [(''a.b'', JNull)]"
  by code_simp

subsection \<open>Copies\<close>

lemma add_all_Some: "add_all me (map Some cs) = Some (foldl cv_add me cs)"
  by (induction cs arbitrary: me) simp_all

lemma cv_clone_linked:
  "cv_linked n \<Longrightarrow> isRoot \<longrightarrow> cv_compound n \<Longrightarrow>
   \<exists>m. cv_clone isRoot c n = Some m \<and> cv_linked m \<and> json_of_node m = json_of_node n
       \<and> (\<not> isRoot \<longrightarrow> cv_name m = cv_name n) \<and> cv_valueType m = cv_valueType n"
proof (induction n arbitrary: isRoot c)
  case (CVN name type sv nv bv cs sib path level)
  let ?n = "CVN name type sv nv bv cs sib path level"
  have "\<forall>x \<in> set cs. \<exists>m. cv_clone False ?n x = Some m \<and> cv_linked m \<and> json_of_node m = json_of_node x \<and> cv_name m = cv_name x"
  proof
    fix x assume x: "x \<in> set cs"
    then have "cv_linked x" using CVN.prems(1) by (simp add: list_all_iff)
    then show "\<exists>m. cv_clone False ?n x = Some m \<and> cv_linked m \<and> json_of_node m = json_of_node x \<and> cv_name m = cv_name x"
      using CVN.IH [OF x, of False ?n] by blast
  qed
  then obtain f where f: "\<And>x. x \<in> set cs \<Longrightarrow> cv_clone False ?n x = Some (f x) \<and> cv_linked (f x)
      \<and> json_of_node (f x) = json_of_node x \<and> cv_name (f x) = cv_name x" by metis
  then have m: "map (cv_clone False ?n) cs = map Some (map f cs)" by simp
  have l: "list_all cv_linked (map f cs)" using f by (simp add: list_all_iff)
  have j: "map json_of_node (map f cs) = map json_of_node cs"
    "map (\<lambda>c. (cv_name c, json_of_node c)) (map f cs) = map (\<lambda>c. (cv_name c, json_of_node c)) cs"
    using f by simp_all
  obtain name' sv' nv' bv' sib' path' level'
    where me: "clone_self isRoot c ?n = Some (CVN name' type sv' nv' bv' [] sib' path' level')"
      and eq: "\<not> isRoot \<Longrightarrow> name' = name" "type = ValueTypeString \<Longrightarrow> sv' = sv" "type = ValueTypeNumber \<Longrightarrow> nv' = nv"
        "type = ValueTypeBoolean \<Longrightarrow> bv' = bv"
  proof (cases isRoot)
    case True
    then show ?thesis using CVN.prems that by (auto simp: clone_self_def CompoundValueNode_top_def cv_compound_def)
  next
    case False
    then show ?thesis using CVN.prems(1) that
      by (cases type) (simp_all add: clone_self_def CompoundValueNode_string_def CompoundValueNode_number_def CompoundValueNode_bool_def)
  qed
  have "cv_clone isRoot c ?n = Some (CVN name' type sv' nv' bv' (place_from 0 (level' + 1) (map f cs)) sib' path' level')"
    unfolding cv_clone.simps me m by (simp add: add_all_Some foldl_cv_add del: map_map)
  moreover have "json_of_node (CVN name' type sv' nv' bv' (place_from 0 (level' + 1) (map f cs)) sib' path' level') = json_of_node ?n"
    using eq j by (cases type) (simp_all del: map_map)
  moreover have "cv_linked (CVN name' type sv' nv' bv' (place_from 0 (level' + 1) (map f cs)) sib' path' level')"
    using CVN.prems(1) l by (simp add: place_from_siblings)
  ultimately show ?case using eq(1) by simp
qed

text \<open>The copy of a compound value always succeeds and is rendered as the original.\<close>

theorem cv_clone_exact:
  assumes "cv_linked n" and "cv_compound n"
  shows "\<exists>m. cv_clone True n n = Some m \<and> cv_linked m \<and> brackets m (cv_toJson Self m) = brackets n (cv_toJson Self n)"
proof -
  obtain m where m: "cv_clone True n n = Some m" "cv_linked m" "json_of_node m = json_of_node n" "cv_valueType m = cv_valueType n"
    using cv_clone_linked [OF assms(1), of True n] assms(2) by blast
  then have "cv_compound m" using assms(2) by (simp add: cv_compound_def)
  then show ?thesis using m assms cv_toJson_jprint by metis
qed

lemma compound_demo_tree:
  obtains n where "parseContextAttributeCompoundValue None compound_demo = Some n" "cv_linked n" "cv_compound n"
  using parse_compound_correct [OF json_plain_no_NUL [OF compound_demo_plain(1)] compound_demo_plain(2)] by metis

theorem cv_clone_exact_witness:
  "\<exists>n m. parseContextAttributeCompoundValue None compound_demo = Some n \<and> cv_clone True n n = Some m
     \<and> brackets m (cv_toJson Self m) = brackets n (cv_toJson Self n)"
  using compound_demo_tree cv_clone_exact by metis

subsection \<open>What check accepts\<close>

fun cv_accepted :: "CompoundValueNode \<Rightarrow> bool" where
  "cv_accepted (CVN name type sv nv bv cs sib path level) =
     ((type = ValueTypeVector \<longrightarrow> (\<forall>c \<in> set cs. cv_name c = cv_name (hd cs)))
      \<and> (type = ValueTypeObject \<longrightarrow> distinct (map cv_name cs))
      \<and> (type \<noteq> ValueTypeVector \<and> type \<noteq> ValueTypeObject \<longrightarrow> (\<forall>c \<in> set (c_str sv). \<not> commonForbidden c))
      \<and> list_all cv_accepted cs)"

lemma odd_name_None: "odd_name first ns = None \<longleftrightarrow> (\<forall>n \<in> set ns. n = first)"
  by (induction ns) auto

lemma dup_name_None: "dup_name ns = None \<longleftrightarrow> distinct ns"
  by (induction ns) auto

lemma first_bad_OK: "cc_res (first_bad rs) = ''OK'' \<longleftrightarrow> list_all (\<lambda>r. cc_res r = ''OK'') rs"
  by (induction rs) simp_all

lemma first_bad_cases: "first_bad rs = cv_ok \<or> first_bad rs \<in> set rs"
  by (induction rs) auto

lemma forbidden_value: "forbiddenChars (Some s) None \<longleftrightarrow> (\<exists>c \<in> set s. commonForbidden c)"
  by (simp add: forbiddenChars_def forbiddenChars_loop_iff exempt_def)

lemma cv_check_OK: "cc_res (cv_check n) = ''OK'' \<longleftrightarrow> cv_accepted n"
proof (induction n)
  case (CVN name type sv nv bv cs sib path level)
  have rest: "cc_res (first_bad (map cv_check cs)) = ''OK'' \<longleftrightarrow> list_all cv_accepted cs"
    using CVN by (auto simp: first_bad_OK list_all_iff)
  consider (vec) "type = ValueTypeVector" | (obj) "type = ValueTypeObject"
    | (leaf) "type \<noteq> ValueTypeVector" "type \<noteq> ValueTypeObject" by blast
  then show ?case
  proof cases
    case vec
    show ?thesis
    proof (cases cs)
      case (Cons c ds)
      show ?thesis
      proof (cases "odd_name (cv_name c) (map cv_name ds)")
        case None
        then have "\<forall>d \<in> set ds. cv_name d = cv_name c" by (simp add: odd_name_None)
        then show ?thesis using vec rest Cons None by simp
      next
        case (Some n)
        then have "\<not> (\<forall>d \<in> set ds. cv_name d = cv_name c)" using odd_name_None [of "cv_name c" "map cv_name ds"] by auto
        then show ?thesis using vec Cons Some by (auto simp: Let_def)
      qed
    qed (simp add: vec)
  next
    case obj
    then show ?thesis using rest dup_name_None [of "map cv_name cs"]
      by (cases "dup_name (map cv_name cs)") (simp_all add: Let_def)
  next
    case leaf
    then show ?thesis using rest forbidden_value [of "c_str sv"] by (auto simp: Let_def)
  qed
qed

abbreviation bad_value_msg :: string where
  "bad_value_msg \<equiv> ''Invalid characters in attribute value''"

lemma cv_check_rootError:
  "cc_rootError (cv_check n) = (if cc_res (cv_check n) = ''OK'' \<or> cc_res (cv_check n) = bad_value_msg then None
                                else Some (cc_res (cv_check n)))"
proof (induction n)
  case (CVN name type sv nv bv cs sib path level)
  have rest: "cc_rootError (first_bad (map cv_check cs)) =
      (if cc_res (first_bad (map cv_check cs)) = ''OK'' \<or> cc_res (first_bad (map cv_check cs)) = bad_value_msg then None
       else Some (cc_res (first_bad (map cv_check cs))))"
    using first_bad_cases [of "map cv_check cs"] CVN by auto
  then show ?case by (auto simp: Let_def split: list.split option.split)
qed

text \<open>C30: check accepts exactly the trees in which the members of an object have different names, the items of an array
  the same name, and no value a forbidden character. finish reports the first violation, but not a forbidden
  character: that is returned by check and not kept in the error of the top node that finish reads.\<close>

theorem cv_check_exact:
  "(cc_res (cv_check n) = ''OK'' \<longleftrightarrow> cv_accepted n)
   \<and> (fst (cv_finish n) = ''OK'' \<longleftrightarrow> cv_accepted n \<or> cc_res (cv_check n) = bad_value_msg)"
proof -
  have "fst (cv_finish n) = ''OK'' \<longleftrightarrow> cc_res (cv_check n) = ''OK'' \<or> cc_res (cv_check n) = bad_value_msg"
    by (auto simp: cv_finish_def Let_def cv_check_rootError)
  then show ?thesis using cv_check_OK by simp
qed

lemma cv_finish_forbidden:
  "let n = CVN ''TOP'' ValueTypeObject [] (Fin 0) False [CVN ''a'' ValueTypeString ''<'' (Fin 0) False [] 0 ''/a'' 1] 0 ''/'' 0
   in cc_res (cv_check n) = bad_value_msg \<and> fst (cv_finish n) = ''OK''"
  by code_simp

end
