(* ===== verification/Orion_Metadata.thy ===== *)
theory Orion_Metadata
  imports Orion_Compound Orion_Formats
begin

section \<open>Metadata of attributes: ngsi/Metadata.cpp, ngsi/MetadataVector.cpp, jsonParseV2/parseMetadata.cpp\<close>

text \<open>
  The record \<open>Metadata\<close> has the members of the struct. A member that a constructor leaves uninitialised is zero
  or false here; it is read only when the type of the value selects it. A vector of metadata is a list.

  A function that calls \<^verbatim>\<open>alarmMgr.badInput\<close> gives the list of the details it passes beside its result.
\<close>

abbreviation DEFAULT_TYPE :: string where
  "DEFAULT_TYPE \<equiv> ''none''"

abbreviation DATE_TYPE :: string where
  "DATE_TYPE \<equiv> ''date''"

abbreviation MAX_ID_LEN :: nat where
  "MAX_ID_LEN \<equiv> 256"

abbreviation MIN_ID_LEN :: nat where
  "MIN_ID_LEN \<equiv> 1"

record Metadata =
  md_name :: string
  md_type :: string
  md_valueType :: ValueType
  md_stringValue :: string
  md_numberValue :: dbl
  md_boolValue :: bool
  md_typeGiven :: bool

definition Metadata_new :: Metadata where
  "Metadata_new = \<lparr>md_name = [], md_type = [], md_valueType = ValueTypeString, md_stringValue = [],
     md_numberValue = Fin 0, md_boolValue = False, md_typeGiven = False\<rparr>"

definition Metadata_copy :: "Metadata \<Rightarrow> bool \<Rightarrow> Metadata" where
  "Metadata_copy mP useDefaultType =
     (if useDefaultType \<and> \<not> md_typeGiven mP then mP\<lparr>md_type := DEFAULT_TYPE\<rparr> else mP)"

definition Metadata_string :: "string \<Rightarrow> string \<Rightarrow> string \<Rightarrow> Metadata" where
  "Metadata_string name type value = Metadata_new\<lparr>md_name := name, md_type := type, md_stringValue := value\<rparr>"

definition Metadata_number :: "string \<Rightarrow> string \<Rightarrow> dbl \<Rightarrow> Metadata" where
  "Metadata_number name type value =
     Metadata_new\<lparr>md_name := name, md_type := type, md_valueType := ValueTypeNumber, md_numberValue := value\<rparr>"

definition Metadata_bool :: "string \<Rightarrow> string \<Rightarrow> bool \<Rightarrow> Metadata" where
  "Metadata_bool name type value =
     Metadata_new\<lparr>md_name := name, md_type := type, md_valueType := ValueTypeBoolean, md_boolValue := value\<rparr>"

subsection \<open>Rendering and checking\<close>

definition Metadata_render :: "Metadata \<Rightarrow> string \<Rightarrow> bool \<Rightarrow> string" where
  "Metadata_render m indent comma =
     startTag2 indent ''contextMetadata'' False False
     @ valueTag1 (indent @ ''  '') ''name'' (md_name m) True False False
     @ valueTag1 (indent @ ''  '') ''type'' (md_type m) True False False
     @ valueTag1 (indent @ ''  '') ''value'' (md_stringValue m) False False False
     @ endTag_plain indent comma False"

definition length_error :: "string \<Rightarrow> nat \<Rightarrow> string \<Rightarrow> nat \<Rightarrow> string" where
  "length_error what len minmax limit =
     what @ '' length: '' @ dec len @ '', '' @ minmax @ '' length supported: '' @ dec limit"

text \<open>\<open>idv1\<close> is the option of the broker that has identifiers of version 1 checked as those of version 2.\<close>

definition Metadata_check :: "bool \<Rightarrow> string \<Rightarrow> Metadata \<Rightarrow> string \<times> string list" where
  "Metadata_check idv1 apiVersion m =
     (let nlen = length (c_str (md_name m)); tlen = length (c_str (md_type m))
      in if md_name m = [] then (''missing metadata name'', [''missing metadata name''])
         else if MAX_ID_LEN < nlen
         then (let e = length_error ''metadata name'' nlen ''max'' MAX_ID_LEN in (e, [e]))
         else if forbiddenIdChars idv1 apiVersion (Some (c_str (md_name m))) None
         then (''Invalid characters in metadata name'', [''found a forbidden character in the name of a Metadata''])
         else if MAX_ID_LEN < tlen
         then (let e = length_error ''metadata type'' tlen ''max'' MAX_ID_LEN in (e, [e]))
         else if apiVersion = ''v2'' \<and> tlen < MIN_ID_LEN
         then (let e = length_error ''metadata type'' tlen ''min'' MIN_ID_LEN in (e, [e]))
         else if forbiddenIdChars idv1 apiVersion (Some (c_str (md_type m))) None
         then (''Invalid characters in metadata type'', [''found a forbidden character in the type of a Metadata''])
         else if md_valueType m = ValueTypeString \<and> forbiddenChars (Some (c_str (md_stringValue m))) None
         then (''Invalid characters in metadata value'', [''found a forbidden character in the value of a Metadata''])
         else if md_valueType m = ValueTypeString \<and> md_stringValue m = []
         then (''missing metadata value'', [''missing metadata value''])
         else (''OK'', []))"

definition Metadata_fill :: "Metadata \<Rightarrow> Metadata \<Rightarrow> Metadata" where
  "Metadata_fill this md = this\<lparr>md_name := md_name md, md_type := md_type md, md_stringValue := md_stringValue md\<rparr>"

definition Metadata_toStringValue :: "Metadata \<Rightarrow> string" where
  "Metadata_toStringValue m =
     (case md_valueType m of
        ValueTypeString \<Rightarrow> md_stringValue m
      | ValueTypeNumber \<Rightarrow> snprintf_f (md_numberValue m)
      | ValueTypeBoolean \<Rightarrow> if md_boolValue m then ''true'' else ''false''
      | _ \<Rightarrow> ''<unknown type>'')"

definition Metadata_toJson :: "Metadata \<Rightarrow> bool \<Rightarrow> string" where
  "Metadata_toJson m isLastElement =
     JSON_STR (md_name m) @ '':{''
     @ (if md_type m \<noteq> [] then JSON_VALUE ''type'' (md_type m) else JSON_VALUE ''type'' DEFAULT_TYPE)
     @ '',''
     @ (if md_valueType m = ValueTypeString then JSON_VALUE ''value'' (md_stringValue m)
        else if md_valueType m = ValueTypeNumber then JSON_VALUE_NUMBER ''value'' (toString_double (md_numberValue m))
        else if md_valueType m = ValueTypeBoolean then JSON_VALUE_BOOL ''value'' (md_boolValue m)
        else if md_valueType m = ValueTypeNone then JSON_STR ''value'' @ '':null''
        else JSON_VALUE ''value'' (md_stringValue m))
     @ ''}''
     @ (if \<not> isLastElement then '','' else [])"

subsection \<open>Vectors\<close>

fun MetadataVector_render_loop :: "Metadata list \<Rightarrow> string \<Rightarrow> string" where
  "MetadataVector_render_loop [] indent = []"
| "MetadataVector_render_loop (m # ms) indent = Metadata_render m indent (ms \<noteq> []) @ MetadataVector_render_loop ms indent"

definition MetadataVector_render :: "Metadata list \<Rightarrow> string \<Rightarrow> bool \<Rightarrow> string" where
  "MetadataVector_render vec indent comma =
     (if vec = [] then []
      else startTag2 indent ''metadatas'' True True @ MetadataVector_render_loop vec (indent @ ''  '')
             @ endTag_plain indent comma True)"

definition md_hidden :: "Metadata \<Rightarrow> bool" where
  "md_hidden m = (md_name m = ''value'' \<or> md_name m = ''type'')"

fun validMetadatas :: "Metadata list \<Rightarrow> nat" where
  "validMetadatas [] = 0"
| "validMetadatas (m # ms) = (if md_hidden m then validMetadatas ms else Suc (validMetadatas ms))"

fun MetadataVector_toJson_loop :: "nat \<Rightarrow> nat \<Rightarrow> Metadata list \<Rightarrow> string" where
  "MetadataVector_toJson_loop valid rendered [] = []"
| "MetadataVector_toJson_loop valid rendered (m # ms) =
     (if md_hidden m then MetadataVector_toJson_loop valid rendered ms
      else Metadata_toJson m (Suc rendered = valid) @ MetadataVector_toJson_loop valid (Suc rendered) ms)"

definition MetadataVector_toJson :: "Metadata list \<Rightarrow> bool \<Rightarrow> string" where
  "MetadataVector_toJson vec isLastElement =
     (if vec = [] then []
      else MetadataVector_toJson_loop (validMetadatas vec) 0 vec @ (if \<not> isLastElement then '','' else []))"

fun MetadataVector_check :: "bool \<Rightarrow> string \<Rightarrow> Metadata list \<Rightarrow> string \<times> string list" where
  "MetadataVector_check idv1 apiVersion [] = (''OK'', [])"
| "MetadataVector_check idv1 apiVersion (m # ms) =
     (let r = Metadata_check idv1 apiVersion m in if fst r \<noteq> ''OK'' then r else MetadataVector_check idv1 apiVersion ms)"

definition MetadataVector_fill :: "Metadata list \<Rightarrow> Metadata list \<Rightarrow> Metadata list" where
  "MetadataVector_fill vec mv = vec @ map (\<lambda>m. Metadata_copy m False) mv"

fun MetadataVector_lookupByName :: "Metadata list \<Rightarrow> string \<Rightarrow> Metadata option" where
  "MetadataVector_lookupByName [] name = None"
| "MetadataVector_lookupByName (m # ms) name = (if md_name m = name then Some m else MetadataVector_lookupByName ms name)"

definition MetadataVector_at :: "Metadata list \<Rightarrow> nat \<Rightarrow> Metadata option" where
  "MetadataVector_at vec ix = (if ix < length vec then Some (vec ! ix) else None)"

subsection \<open>Parsing\<close>

fun md_set_value :: "json \<Rightarrow> Metadata \<Rightarrow> Metadata option" where
  "md_set_value (JStr s) m = Some (m\<lparr>md_stringValue := c_str s, md_valueType := ValueTypeString\<rparr>)"
| "md_set_value (JNum d) m = Some (m\<lparr>md_valueType := ValueTypeNumber, md_numberValue := d\<rparr>)"
| "md_set_value (JBool b) m = Some (m\<lparr>md_valueType := ValueTypeBoolean, md_boolValue := b\<rparr>)"
| "md_set_value JNull m = Some (m\<lparr>md_valueType := ValueTypeNone\<rparr>)"
| "md_set_value v m = None"

fun parseMetadataObject :: "(string \<times> json) list \<Rightarrow> Metadata \<Rightarrow> string \<times> string list \<times> Metadata" where
  "parseMetadataObject [] m =
     (''OK'', [], if md_typeGiven m then m else m\<lparr>md_type := DEFAULT_TYPE\<rparr>)"
| "parseMetadataObject ((n, v) # ms) m =
     (let name = c_str n
      in if name = ''type''
         then (case v of
                 JStr s \<Rightarrow> parseMetadataObject ms (m\<lparr>md_type := c_str s, md_typeGiven := True\<rparr>)
               | _ \<Rightarrow> (''invalid JSON type for attribute metadata type'',
                        [''ContextAttribute::Metadata::type must be a String''], m))
         else if name = ''value''
         then (case md_set_value v m of
                 Some m \<Rightarrow> parseMetadataObject ms m
               | None \<Rightarrow> (''invalid JSON type for attribute metadata value'',
                           [''ContextAttribute::Metadata::type is '' @ quoted (json_type_name v)], m))
         else (''invalid JSON field for attribute metadata'', [''invalid JSON field for attribute metadata''], m))"

definition parseMetadata :: "json \<Rightarrow> Metadata \<Rightarrow> string \<times> string list \<times> Metadata" where
  "parseMetadata val m =
     (case val of
        JObj ms \<Rightarrow> parseMetadataObject ms m
      | _ \<Rightarrow>
          (let m = m\<lparr>md_type := []\<rparr>
           in case md_set_value val m of
                None \<Rightarrow> (''invalid JSON type for attribute metadata value'',
                          [''bad type for EntityId::ContextAttribute::Metadata''], m)
              | Some m \<Rightarrow> (''OK'', [], if md_typeGiven m then m else m\<lparr>md_type := DEFAULT_TYPE\<rparr>)))"

fun parseMetadataVector_loop :: "(string \<times> json) list \<Rightarrow> Metadata list \<Rightarrow> string \<times> string list \<times> Metadata list" where
  "parseMetadataVector_loop [] vec = (''OK'', [], vec)"
| "parseMetadataVector_loop ((n, v) # ms) vec =
     (case parseMetadata v (Metadata_new\<lparr>md_name := c_str n\<rparr>) of
        (r, al, m) \<Rightarrow> if r \<noteq> ''OK'' then (r, al, vec @ [m]) else parseMetadataVector_loop ms (vec @ [m]))"

definition parseMetadataVector :: "json \<Rightarrow> Metadata list \<Rightarrow> string \<times> string list \<times> Metadata list" where
  "parseMetadataVector node vec =
     (case node of
        JObj ms \<Rightarrow> parseMetadataVector_loop ms vec
      | _ \<Rightarrow> (''metadata not a JSON object'', [], vec))"

end
