(* ===== verification/Orion_Request.thy ===== *)
theory Orion_Request
  imports Orion_Prelude
begin

section \<open>The kinds of requests: ngsi/Request.h, ngsi/Request.cpp\<close>

text \<open>
  The enumeration \<^verbatim>\<open>RequestType\<close> with the numbers that its enumerators have in the source, and the
  table of their names. The numbers of different enumerators differ, which \<open>requestTypes_distinct\<close> states.
\<close>

datatype RequestType = RequestType int

abbreviation NoRequest :: RequestType where "NoRequest \<equiv> RequestType 0"
abbreviation RegisterContext :: RequestType where "RegisterContext \<equiv> RequestType 1"
abbreviation DiscoverContextAvailability :: RequestType where "DiscoverContextAvailability \<equiv> RequestType 2"
abbreviation SubscribeContextAvailability :: RequestType where "SubscribeContextAvailability \<equiv> RequestType 3"
abbreviation RtSubscribeContextAvailabilityResponse :: RequestType where "RtSubscribeContextAvailabilityResponse \<equiv> RequestType 4"
abbreviation UpdateContextAvailabilitySubscription :: RequestType where "UpdateContextAvailabilitySubscription \<equiv> RequestType 5"
abbreviation RtUpdateContextAvailabilitySubscriptionResponse :: RequestType where "RtUpdateContextAvailabilitySubscriptionResponse \<equiv> RequestType 6"
abbreviation UnsubscribeContextAvailability :: RequestType where "UnsubscribeContextAvailability \<equiv> RequestType 7"
abbreviation RtUnsubscribeContextAvailabilityResponse :: RequestType where "RtUnsubscribeContextAvailabilityResponse \<equiv> RequestType 8"
abbreviation NotifyContextAvailability :: RequestType where "NotifyContextAvailability \<equiv> RequestType 9"
abbreviation QueryContext :: RequestType where "QueryContext \<equiv> RequestType 11"
abbreviation RtQueryContextResponse :: RequestType where "RtQueryContextResponse \<equiv> RequestType 12"
abbreviation SubscribeContext :: RequestType where "SubscribeContext \<equiv> RequestType 13"
abbreviation UpdateContextSubscription :: RequestType where "UpdateContextSubscription \<equiv> RequestType 14"
abbreviation UnsubscribeContext :: RequestType where "UnsubscribeContext \<equiv> RequestType 15"
abbreviation RtUnsubscribeContextResponse :: RequestType where "RtUnsubscribeContextResponse \<equiv> RequestType 16"
abbreviation NotifyContext :: RequestType where "NotifyContext \<equiv> RequestType 17"
abbreviation UpdateContext :: RequestType where "UpdateContext \<equiv> RequestType 18"
abbreviation RtUpdateContextResponse :: RequestType where "RtUpdateContextResponse \<equiv> RequestType 19"
abbreviation NotifyContextSent :: RequestType where "NotifyContextSent \<equiv> RequestType 20"
abbreviation ContextEntitiesByEntityId :: RequestType where "ContextEntitiesByEntityId \<equiv> RequestType 21"
abbreviation ContextEntityAttributes :: RequestType where "ContextEntityAttributes \<equiv> RequestType 22"
abbreviation EntityByIdAttributeByName :: RequestType where "EntityByIdAttributeByName \<equiv> RequestType 23"
abbreviation ContextEntityTypes :: RequestType where "ContextEntityTypes \<equiv> RequestType 24"
abbreviation ContextEntityTypeAttributeContainer :: RequestType where "ContextEntityTypeAttributeContainer \<equiv> RequestType 25"
abbreviation ContextEntityTypeAttribute :: RequestType where "ContextEntityTypeAttribute \<equiv> RequestType 26"
abbreviation Ngsi9SubscriptionsConvOp :: RequestType where "Ngsi9SubscriptionsConvOp \<equiv> RequestType 27"
abbreviation IndividualContextEntity :: RequestType where "IndividualContextEntity \<equiv> RequestType 31"
abbreviation IndividualContextEntityAttributes :: RequestType where "IndividualContextEntityAttributes \<equiv> RequestType 32"
abbreviation IndividualContextEntityAttribute :: RequestType where "IndividualContextEntityAttribute \<equiv> RequestType 33"
abbreviation IndividualContextEntityAttributeWithTypeAndId :: RequestType where "IndividualContextEntityAttributeWithTypeAndId \<equiv> RequestType 34"
abbreviation AttributeValueInstance :: RequestType where "AttributeValueInstance \<equiv> RequestType 35"
abbreviation AttributeValueInstanceWithTypeAndId :: RequestType where "AttributeValueInstanceWithTypeAndId \<equiv> RequestType 36"
abbreviation Ngsi10ContextEntityTypes :: RequestType where "Ngsi10ContextEntityTypes \<equiv> RequestType 37"
abbreviation Ngsi10ContextEntityTypesAttributeContainer :: RequestType where "Ngsi10ContextEntityTypesAttributeContainer \<equiv> RequestType 38"
abbreviation Ngsi10ContextEntityTypesAttribute :: RequestType where "Ngsi10ContextEntityTypesAttribute \<equiv> RequestType 39"
abbreviation Ngsi10SubscriptionsConvOp :: RequestType where "Ngsi10SubscriptionsConvOp \<equiv> RequestType 40"
abbreviation UpdateContextElement :: RequestType where "UpdateContextElement \<equiv> RequestType 41"
abbreviation AppendContextElement :: RequestType where "AppendContextElement \<equiv> RequestType 42"
abbreviation UpdateContextAttribute :: RequestType where "UpdateContextAttribute \<equiv> RequestType 43"
abbreviation LogTraceRequest :: RequestType where "LogTraceRequest \<equiv> RequestType 51"
abbreviation LogLevelRequest :: RequestType where "LogLevelRequest \<equiv> RequestType 52"
abbreviation VersionRequest :: RequestType where "VersionRequest \<equiv> RequestType 53"
abbreviation ExitRequest :: RequestType where "ExitRequest \<equiv> RequestType 54"
abbreviation LeakRequest :: RequestType where "LeakRequest \<equiv> RequestType 55"
abbreviation StatisticsRequest :: RequestType where "StatisticsRequest \<equiv> RequestType 56"
abbreviation RegisterResponse :: RequestType where "RegisterResponse \<equiv> RequestType 57"
abbreviation RtSubscribeResponse :: RequestType where "RtSubscribeResponse \<equiv> RequestType 58"
abbreviation RtSubscribeError :: RequestType where "RtSubscribeError \<equiv> RequestType 59"
abbreviation RtContextElementResponse :: RequestType where "RtContextElementResponse \<equiv> RequestType 60"
abbreviation RtContextAttributeResponse :: RequestType where "RtContextAttributeResponse \<equiv> RequestType 61"
abbreviation EntityTypes :: RequestType where "EntityTypes \<equiv> RequestType 62"
abbreviation AttributesForEntityType :: RequestType where "AttributesForEntityType \<equiv> RequestType 63"
abbreviation RtEntityTypesResponse :: RequestType where "RtEntityTypesResponse \<equiv> RequestType 64"
abbreviation RtAttributesForEntityTypeResponse :: RequestType where "RtAttributesForEntityTypeResponse \<equiv> RequestType 65"
abbreviation AllContextEntities :: RequestType where "AllContextEntities \<equiv> RequestType 66"
abbreviation AllEntitiesWithTypeAndId :: RequestType where "AllEntitiesWithTypeAndId \<equiv> RequestType 67"
abbreviation ContextEntitiesByEntityIdAndType :: RequestType where "ContextEntitiesByEntityIdAndType \<equiv> RequestType 68"
abbreviation EntityByIdAttributeByNameIdAndType :: RequestType where "EntityByIdAttributeByNameIdAndType \<equiv> RequestType 69"
abbreviation EntitiesRequest :: RequestType where "EntitiesRequest \<equiv> RequestType 70"
abbreviation EntitiesResponse :: RequestType where "EntitiesResponse \<equiv> RequestType 71"
abbreviation EntryPointsRequest :: RequestType where "EntryPointsRequest \<equiv> RequestType 72"
abbreviation EntryPointsResponse :: RequestType where "EntryPointsResponse \<equiv> RequestType 73"
abbreviation EntityRequest :: RequestType where "EntityRequest \<equiv> RequestType 74"
abbreviation EntityResponse :: RequestType where "EntityResponse \<equiv> RequestType 75"
abbreviation EntityAttributeRequest :: RequestType where "EntityAttributeRequest \<equiv> RequestType 76"
abbreviation EntityAttributeResponse :: RequestType where "EntityAttributeResponse \<equiv> RequestType 77"
abbreviation EntityAttributeValueRequest :: RequestType where "EntityAttributeValueRequest \<equiv> RequestType 78"
abbreviation EntityAttributeValueResponse :: RequestType where "EntityAttributeValueResponse \<equiv> RequestType 79"
abbreviation PostEntity :: RequestType where "PostEntity \<equiv> RequestType 80"
abbreviation PostAttributes :: RequestType where "PostAttributes \<equiv> RequestType 81"
abbreviation DeleteEntity :: RequestType where "DeleteEntity \<equiv> RequestType 82"
abbreviation EntityTypeRequest :: RequestType where "EntityTypeRequest \<equiv> RequestType 83"
abbreviation EntityAllTypesRequest :: RequestType where "EntityAllTypesRequest \<equiv> RequestType 84"
abbreviation SubscriptionsRequest :: RequestType where "SubscriptionsRequest \<equiv> RequestType 85"
abbreviation IndividualSubscriptionRequest :: RequestType where "IndividualSubscriptionRequest \<equiv> RequestType 86"
abbreviation BatchQueryRequest :: RequestType where "BatchQueryRequest \<equiv> RequestType 87"
abbreviation BatchUpdateRequest :: RequestType where "BatchUpdateRequest \<equiv> RequestType 88"
abbreviation InvalidRequest :: RequestType where "InvalidRequest \<equiv> RequestType 100"

definition requestTypes :: "RequestType list" where
  "requestTypes = [NoRequest,
     RegisterContext,
     DiscoverContextAvailability,
     SubscribeContextAvailability,
     RtSubscribeContextAvailabilityResponse,
     UpdateContextAvailabilitySubscription,
     RtUpdateContextAvailabilitySubscriptionResponse,
     UnsubscribeContextAvailability,
     RtUnsubscribeContextAvailabilityResponse,
     NotifyContextAvailability,
     QueryContext,
     RtQueryContextResponse,
     SubscribeContext,
     UpdateContextSubscription,
     UnsubscribeContext,
     RtUnsubscribeContextResponse,
     NotifyContext,
     UpdateContext,
     RtUpdateContextResponse,
     NotifyContextSent,
     ContextEntitiesByEntityId,
     ContextEntityAttributes,
     EntityByIdAttributeByName,
     ContextEntityTypes,
     ContextEntityTypeAttributeContainer,
     ContextEntityTypeAttribute,
     Ngsi9SubscriptionsConvOp,
     IndividualContextEntity,
     IndividualContextEntityAttributes,
     IndividualContextEntityAttribute,
     IndividualContextEntityAttributeWithTypeAndId,
     AttributeValueInstance,
     AttributeValueInstanceWithTypeAndId,
     Ngsi10ContextEntityTypes,
     Ngsi10ContextEntityTypesAttributeContainer,
     Ngsi10ContextEntityTypesAttribute,
     Ngsi10SubscriptionsConvOp,
     UpdateContextElement,
     AppendContextElement,
     UpdateContextAttribute,
     LogTraceRequest,
     LogLevelRequest,
     VersionRequest,
     ExitRequest,
     LeakRequest,
     StatisticsRequest,
     RegisterResponse,
     RtSubscribeResponse,
     RtSubscribeError,
     RtContextElementResponse,
     RtContextAttributeResponse,
     EntityTypes,
     AttributesForEntityType,
     RtEntityTypesResponse,
     RtAttributesForEntityTypeResponse,
     AllContextEntities,
     AllEntitiesWithTypeAndId,
     ContextEntitiesByEntityIdAndType,
     EntityByIdAttributeByNameIdAndType,
     EntitiesRequest,
     EntitiesResponse,
     EntryPointsRequest,
     EntryPointsResponse,
     EntityRequest,
     EntityResponse,
     EntityAttributeRequest,
     EntityAttributeResponse,
     EntityAttributeValueRequest,
     EntityAttributeValueResponse,
     PostEntity,
     PostAttributes,
     DeleteEntity,
     EntityTypeRequest,
     EntityAllTypesRequest,
     SubscriptionsRequest,
     IndividualSubscriptionRequest,
     BatchQueryRequest,
     BatchUpdateRequest,
     InvalidRequest]"

definition requestType_table :: "(RequestType \<times> string) list" where
  "requestType_table = [
     (NoRequest, ''NoRequest''),
     (RegisterContext, ''RegisterContextRequest''),
     (RegisterResponse, ''RegisterContextResponse''),
     (DiscoverContextAvailability, ''DiscoverContextAvailabilityRequest''),
     (SubscribeContextAvailability, ''SubscribeContextAvailabilityRequest''),
     (UpdateContextAvailabilitySubscription, ''UpdateContextAvailabilitySubscriptionRequest''),
     (UnsubscribeContextAvailability, ''UnsubscribeContextAvailabilityRequest''),
     (NotifyContextAvailability, ''NotifyContextAvailabilityRequest''),
     (QueryContext, ''QueryContextRequest''),
     (RtQueryContextResponse, ''QueryContextResponse''),
     (SubscribeContext, ''SubscribeContextRequest''),
     (UpdateContextSubscription, ''UpdateContextSubscriptionRequest''),
     (UnsubscribeContext, ''UnsubscribeContextRequest''),
     (NotifyContext, ''NotifyContextRequest''),
     (NotifyContextSent, ''NotifyContextRequestSent''),
     (UpdateContext, ''UpdateContextRequest''),
     (RtUpdateContextResponse, ''UpdateContextResponse''),
     (ContextEntitiesByEntityId, ''ContextEntitiesByEntityId''),
     (ContextEntityAttributes, ''ContextEntityAttributes''),
     (EntityByIdAttributeByName, ''EntityByIdAttributeByName''),
     (ContextEntityTypes, ''ContextEntityTypes''),
     (ContextEntityTypeAttributeContainer, ''ContextEntityTypeAttributeContainer''),
     (ContextEntityTypeAttribute, ''ContextEntityTypeAttribute''),
     (Ngsi9SubscriptionsConvOp, ''Ngsi9SubscriptionsConvOp''),
     (IndividualContextEntity, ''IndividualContextEntity''),
     (IndividualContextEntityAttributes, ''IndividualContextEntityAttributes''),
     (AttributeValueInstance, ''AttributeValueInstance''),
     (AttributeValueInstanceWithTypeAndId, ''AttributeValueInstanceWithTypeAndId''),
     (IndividualContextEntityAttribute, ''IndividualContextEntityAttribute''),
     (IndividualContextEntityAttributeWithTypeAndId, ''IndividualContextEntityAttributeWithTypeAndId''),
     (UpdateContextElement, ''UpdateContextElement''),
     (AppendContextElement, ''AppendContextElement''),
     (UpdateContextAttribute, ''UpdateContextAttribute''),
     (Ngsi10ContextEntityTypes, ''Ngsi10ContextEntityTypes''),
     (Ngsi10ContextEntityTypesAttributeContainer, ''Ngsi10ContextEntityTypesAttributeContainer''),
     (Ngsi10ContextEntityTypesAttribute, ''Ngsi10ContextEntityTypesAttribute''),
     (Ngsi10SubscriptionsConvOp, ''Ngsi10SubscriptionsConvOp''),
     (LogTraceRequest, ''LogTrace''),
     (LogLevelRequest, ''LogLevel''),
     (VersionRequest, ''Version''),
     (StatisticsRequest, ''Statistics''),
     (ExitRequest, ''Exit''),
     (LeakRequest, ''Leak''),
     (InvalidRequest, ''InvalidRequest''),
     (RtSubscribeContextAvailabilityResponse, ''SubscribeContextAvailabilityResponse''),
     (RtUpdateContextAvailabilitySubscriptionResponse, ''UpdateContextAvailabilitySubscriptionResponse''),
     (RtUnsubscribeContextAvailabilityResponse, ''UnsubscribeContextAvailabilityResponse''),
     (RtUnsubscribeContextResponse, ''UnsubscribeContextResponse''),
     (RtSubscribeResponse, ''SubscribeResponse''),
     (RtSubscribeError, ''SubscribeError''),
     (RtContextElementResponse, ''ContextElementResponse''),
     (RtContextAttributeResponse, ''ContextAttributeResponse''),
     (RtEntityTypesResponse, ''EntityTypesResponse''),
     (RtAttributesForEntityTypeResponse, ''AttributesForEntityTypeResponse''),
     (EntityTypes, ''EntityTypes''),
     (AttributesForEntityType, ''AttributesForEntityType''),
     (AllContextEntities, ''AllContextEntities''),
     (AllEntitiesWithTypeAndId, ''AllEntitiesWithTypeAndId''),
     (ContextEntitiesByEntityIdAndType, ''ContextEntitiesByEntityIdAndType''),
     (EntityByIdAttributeByNameIdAndType, ''EntityByIdAttributeByNameIdAndType''),
     (EntitiesRequest, ''EntitiesRequest''),
     (EntitiesResponse, ''EntitiesResponse''),
     (EntryPointsRequest, ''EntryPointsRequest''),
     (EntryPointsResponse, ''EntryPointsResponse''),
     (EntityRequest, ''EntityRequest''),
     (EntityResponse, ''EntityResponse''),
     (EntityAttributeRequest, ''EntityAttributeRequest''),
     (EntityAttributeResponse, ''EntityAttributeResponse''),
     (EntityAttributeValueRequest, ''EntityAttributeValueRequest''),
     (EntityAttributeValueResponse, ''EntityAttributeValueResponse''),
     (PostEntity, ''PostEntity''),
     (PostAttributes, ''PostAttributes''),
     (DeleteEntity, ''DeleteEntity''),
     (EntityTypeRequest, ''EntityTypeRequest''),
     (EntityAllTypesRequest, ''EntityAllTypesRequest''),
     (SubscriptionsRequest, ''SubscriptionsRequest''),
     (IndividualSubscriptionRequest, ''IndividualSubscriptionRequest''),
     (BatchQueryRequest, ''BatchQueryRequest''),
     (BatchUpdateRequest, ''BatchUpdateRequest'')]"

definition requestType :: "RequestType \<Rightarrow> string" where
  "requestType rt = (case map_of requestType_table rt of Some name \<Rightarrow> name | None \<Rightarrow> [])"

lemma requestTypes_distinct: "distinct requestTypes"
  by code_simp

end
