(* ===== verification/Orion_Status.thy ===== *)
theory Orion_Status
  imports Orion_Tag Orion_Request Orion_Formats
begin

section \<open>Status codes, errors and the connection: rest/HttpStatusCode.cpp, rest/errorAdaptation.cpp, rest/OrionError.cpp,
  ngsi/StatusCode.cpp, apiTypesV2/ErrorCode.cpp, rest/ConnectionInfo.h, strReplace of common/string.cpp\<close>

text \<open>
  The values that carry an error to the client, and their rendering. The functions that render an object and change
  its members on the way give the changed object beside the text; those that change the connection give the changed
  connection. Of \<^verbatim>\<open>class ConnectionInfo\<close> the record has the members that the parsers, checkers and renderers
  of the development read or write.
\<close>

subsection \<open>rest/HttpStatusCode.cpp\<close>

datatype HttpStatusCode =
    SccNone
  | SccOk
  | SccCreated
  | SccNoContent
  | SccBadRequest
  | SccForbidden
  | SccContextElementNotFound
  | SccBadVerb
  | SccNotAcceptable
  | SccConflict
  | SccLengthRequired
  | SccRequestEntityTooLarge
  | SccUnsupportedMediaType
  | SccInvalidModification
  | SccSubscriptionIdNotFound
  | SccMissingParameter
  | SccInvalidParameter
  | SccErrorInMetadata
  | SccEntityIdReNotAllowed
  | SccEntityTypeRequired
  | SccAttributeListRequired
  | SccReceiverInternalError
  | SccNotImplemented

text \<open>The numbers of the enumerators.\<close>

fun scc :: "HttpStatusCode \<Rightarrow> int" where
  "scc SccNone = 0"
| "scc SccOk = 200"
| "scc SccCreated = 201"
| "scc SccNoContent = 204"
| "scc SccBadRequest = 400"
| "scc SccForbidden = 403"
| "scc SccContextElementNotFound = 404"
| "scc SccBadVerb = 405"
| "scc SccNotAcceptable = 406"
| "scc SccConflict = 409"
| "scc SccLengthRequired = 411"
| "scc SccRequestEntityTooLarge = 413"
| "scc SccUnsupportedMediaType = 415"
| "scc SccInvalidModification = 422"
| "scc SccSubscriptionIdNotFound = 470"
| "scc SccMissingParameter = 471"
| "scc SccInvalidParameter = 472"
| "scc SccErrorInMetadata = 473"
| "scc SccEntityIdReNotAllowed = 480"
| "scc SccEntityTypeRequired = 481"
| "scc SccAttributeListRequired = 482"
| "scc SccReceiverInternalError = 500"
| "scc SccNotImplemented = 501"

fun httpStatusCodeString :: "HttpStatusCode \<Rightarrow> string" where
  "httpStatusCodeString SccOk = ''OK''"
| "httpStatusCodeString SccCreated = ''Created''"
| "httpStatusCodeString SccBadRequest = ''Bad Request''"
| "httpStatusCodeString SccForbidden = ''Forbidden''"
| "httpStatusCodeString SccContextElementNotFound = ''No context element found''"
| "httpStatusCodeString SccBadVerb = ''Method Not Allowed''"
| "httpStatusCodeString SccNotAcceptable = ''Not Acceptable''"
| "httpStatusCodeString SccConflict = ''Too Many Results''"
| "httpStatusCodeString SccLengthRequired = ''Length Required''"
| "httpStatusCodeString SccRequestEntityTooLarge = ''Request Entity Too Large''"
| "httpStatusCodeString SccUnsupportedMediaType = ''Unsupported Media Type''"
| "httpStatusCodeString SccInvalidModification = ''Invalid Modification''"
| "httpStatusCodeString SccSubscriptionIdNotFound = ''subscriptionId does not correspond to an active subscription''"
| "httpStatusCodeString SccMissingParameter = ''parameter missing in the request''"
| "httpStatusCodeString SccInvalidParameter = ''request parameter is invalid/not allowed''"
| "httpStatusCodeString SccErrorInMetadata = ''Generic error in metadata''"
| "httpStatusCodeString SccEntityIdReNotAllowed = ''Regular Expression for EntityId is not allowed by receiver''"
| "httpStatusCodeString SccEntityTypeRequired = ''EntityType required by the receiver''"
| "httpStatusCodeString SccAttributeListRequired = ''Attribute List required by the receiver''"
| "httpStatusCodeString SccReceiverInternalError = ''Internal Server Error''"
| "httpStatusCodeString SccNotImplemented = ''Not Implemented''"
| "httpStatusCodeString _ = ''Undefined''"

subsection \<open>rest/ConnectionInfo.h\<close>

record ConnectionInfo =
  ci_apiVersion :: string
  ci_outMimeType :: MimeType
  ci_httpStatusCode :: HttpStatusCode
  ci_uriParam :: "string \<Rightarrow> string"
  ci_uriParamOptions :: "string \<Rightarrow> bool"
  ci_payload :: string

text \<open>A new connection; the payload is the text up to its terminator, and the maps give the empty string and false for keys that are not set.\<close>

definition ConnectionInfo_new :: ConnectionInfo where
  "ConnectionInfo_new = \<lparr>ci_apiVersion = ''v1'', ci_outMimeType = JSON, ci_httpStatusCode = SccOk, ci_uriParam = (\<lambda>_. []),
     ci_uriParamOptions = (\<lambda>_. False), ci_payload = []\<rparr>"

subsection \<open>common/string.cpp\<close>

text \<open>
  \<^verbatim>\<open>strReplace\<close> writes into the buffer \<open>to\<close>; \<^const>\<open>None\<close> is a write past its end, a buffer without
  a terminator, or, for an empty \<open>oldString\<close>, the loop that does not advance.
\<close>

definition buf_write :: "nat \<Rightarrow> char \<Rightarrow> string \<Rightarrow> string option" where
  "buf_write ix c to = (if ix < length to then Some (to[ix := c]) else None)"

definition strncat :: "string \<Rightarrow> string \<Rightarrow> nat \<Rightarrow> string option" where
  "strncat to s n =
     (let len = length (c_str to); s = take n s
      in if NUL \<in> set to \<and> len + length s < length to
         then Some (take len to @ s @ [NUL] @ drop (len + length s + 1) to) else None)"

function strReplace_loop :: "nat \<Rightarrow> string \<Rightarrow> string \<Rightarrow> string \<Rightarrow> nat \<Rightarrow> string \<Rightarrow> string option" where
  "strReplace_loop toLen oldString newString from toIx to =
     (if from = [] then buf_write toIx NUL to
      else if take (length oldString) from = oldString
      then if oldString = [] then None
           else case strncat to newString (toLen - length (c_str to)) of
                  None \<Rightarrow> None
                | Some to \<Rightarrow> strReplace_loop toLen oldString newString (drop (length oldString) from)
                               (toIx + length newString) to
      else case buf_write toIx (hd from) to of
             None \<Rightarrow> None
           | Some to \<Rightarrow> strReplace_loop toLen oldString newString (tl from) (toIx + 1) to)"
  by pat_completeness auto
termination
  by (relation "measure (\<lambda>(_, _, _, from, _, _). length from)") auto

definition strReplace :: "string \<Rightarrow> nat \<Rightarrow> string \<Rightarrow> string \<Rightarrow> string \<Rightarrow> string option" where
  "strReplace to toLen from oldString newString = strReplace_loop toLen oldString newString from 0 to"

text \<open>
  The escaping of quotes that \<^verbatim>\<open>ErrorCode::toJson\<close>, \<^verbatim>\<open>StatusCode::render\<close> and
  \<^verbatim>\<open>StatusCode::toJson\<close> do with it, in a zeroed buffer of twice the length and one.
\<close>

definition escape_quotes :: "string \<Rightarrow> string option" where
  "escape_quotes s =
     (case strstr (c_str s) [CHR 0x22] of
        None \<Rightarrow> Some s
      | Some _ \<Rightarrow> map_option c_str (strReplace (replicate (2 * length s + 1) NUL) (2 * length s) (c_str s)
                                   [CHR 0x22] [CHR 0x5C, CHR 0x22]))"

subsection \<open>apiTypesV2/ErrorCode.cpp\<close>

record ErrorCode =
  ec_error :: string
  ec_description :: string

definition ErrorCode_new :: ErrorCode where
  "ErrorCode_new = \<lparr>ec_error = ''OK'', ec_description = []\<rparr>"

definition ErrorCode_fill :: "string \<Rightarrow> string \<Rightarrow> ErrorCode" where
  "ErrorCode_fill error description = \<lparr>ec_error = error, ec_description = description\<rparr>"

definition ErrorCode_toJson :: "ErrorCode \<Rightarrow> bool \<Rightarrow> (string \<times> ErrorCode) option" where
  "ErrorCode_toJson ec isLastElement =
     (if ec_description ec = [] \<and> (ec_error ec = [] \<or> ec_error ec = ''OK'') then Some ([], ec)
      else case escape_quotes (ec_description ec) of
             None \<Rightarrow> None
           | Some d \<Rightarrow>
               (let comma = (ec_error ec \<noteq> [] \<and> ec_error ec \<noteq> ''OK'')
                in Some (''{'' @ (if comma then JSON_VALUE ''error'' (ec_error ec) else [])
                         @ (if d \<noteq> [] then (if comma then '','' else []) @ JSON_VALUE ''description'' d else [])
                         @ ''}'' @ (if isLastElement = False then '','' else []),
                         ec\<lparr>ec_description := d\<rparr>)))"

subsection \<open>ngsi/StatusCode.cpp\<close>

record StatusCode =
  sc_code :: HttpStatusCode
  sc_reasonPhrase :: string
  sc_details :: string
  sc_keyName :: string

definition StatusCode_new :: "string \<Rightarrow> StatusCode" where
  "StatusCode_new keyName = \<lparr>sc_code = SccNone, sc_reasonPhrase = [], sc_details = [], sc_keyName = keyName\<rparr>"

definition StatusCode_of :: "HttpStatusCode \<Rightarrow> string \<Rightarrow> string \<Rightarrow> StatusCode" where
  "StatusCode_of code details keyName =
     \<lparr>sc_code = code, sc_reasonPhrase = httpStatusCodeString code, sc_details = details, sc_keyName = keyName\<rparr>"

definition StatusCode_fill :: "StatusCode \<Rightarrow> HttpStatusCode \<Rightarrow> string \<Rightarrow> StatusCode" where
  "StatusCode_fill sc code details =
     sc\<lparr>sc_code := code, sc_reasonPhrase := httpStatusCodeString code, sc_details := details\<rparr>"

definition StatusCode_fill_from :: "StatusCode \<Rightarrow> StatusCode \<Rightarrow> StatusCode" where
  "StatusCode_fill_from sc from = StatusCode_fill sc (sc_code from) (sc_details from)"

definition StatusCode_render :: "StatusCode \<Rightarrow> string \<Rightarrow> bool \<Rightarrow> bool \<Rightarrow> (string \<times> StatusCode) option" where
  "StatusCode_render sc indent comma showKey =
     (case escape_quotes (sc_details sc) of
        None \<Rightarrow> None
      | Some d \<Rightarrow>
          (let sc = sc\<lparr>sc_details := d\<rparr>;
               sc = (if sc_code sc = SccNone
                     then (let sc = StatusCode_fill sc SccReceiverInternalError []
                           in sc\<lparr>sc_details := sc_details sc @ '' - ZERO code set to 500''\<rparr>)
                     else sc)
           in Some (startTag1 indent (sc_keyName sc) showKey False
                    @ valueTag (indent @ ''  '') ''code'' (scc (sc_code sc)) True
                    @ valueTag1 (indent @ ''  '') ''reasonPhrase'' (sc_reasonPhrase sc) (sc_details sc \<noteq> []) False False
                    @ (if sc_details sc \<noteq> [] then valueTag1 (indent @ ''  '') ''details'' (sc_details sc) False False False else [])
                    @ endTag_plain indent comma False, sc)))"

definition StatusCode_toJson :: "StatusCode \<Rightarrow> bool \<Rightarrow> (string \<times> StatusCode) option" where
  "StatusCode_toJson sc isLastElement =
     (case escape_quotes (sc_details sc) of
        None \<Rightarrow> None
      | Some d \<Rightarrow>
          Some (''{'' @ JSON_STR ''code'' @ '':'' @ JSON_STR (show_int (scc (sc_code sc)))
                @ (if d \<noteq> [] then '','' @ JSON_STR ''details'' @ '':'' @ JSON_STR d else [])
                @ ''}'' @ (if \<not> isLastElement then '','' else []), sc\<lparr>sc_details := d\<rparr>))"

definition StatusCode_check :: "StatusCode \<Rightarrow> string" where
  "StatusCode_check sc =
     (if sc_code sc = SccNone then ''no code'' else if sc_reasonPhrase sc = [] then ''no reason phrase'' else ''OK'')"

definition ErrorCode_fill_status :: "StatusCode \<Rightarrow> ErrorCode" where
  "ErrorCode_fill_status sc = \<lparr>ec_error = sc_reasonPhrase sc, ec_description = sc_details sc\<rparr>"

subsection \<open>rest/errorAdaptation.cpp, rest/OrionError.cpp\<close>

record OrionError =
  oe_code :: HttpStatusCode
  oe_reasonPhrase :: string
  oe_details :: string

definition OrionError_new :: OrionError where
  "OrionError_new = \<lparr>oe_code = SccNone, oe_reasonPhrase = [], oe_details = []\<rparr>"

definition OrionError_of :: "HttpStatusCode \<Rightarrow> string \<Rightarrow> string \<Rightarrow> OrionError" where
  "OrionError_of code details reasonPhrase =
     \<lparr>oe_code = code, oe_reasonPhrase = (if reasonPhrase = [] then httpStatusCodeString code else reasonPhrase),
      oe_details = details\<rparr>"

definition OrionError_status :: "StatusCode \<Rightarrow> OrionError" where
  "OrionError_status sc =
     \<lparr>oe_code = sc_code sc, oe_reasonPhrase = httpStatusCodeString (sc_code sc), oe_details = sc_details sc\<rparr>"

definition OrionError_fill :: "HttpStatusCode \<Rightarrow> string \<Rightarrow> string \<Rightarrow> OrionError" where
  "OrionError_fill code details reasonPhrase =
     \<lparr>oe_code = code, oe_reasonPhrase = (if reasonPhrase \<noteq> [] then reasonPhrase else httpStatusCodeString code),
      oe_details = details\<rparr>"

definition errorStringForV2 :: "string \<Rightarrow> string" where
  "errorStringForV2 reasonPhrase =
     (if reasonPhrase = ''Bad Request'' then ''BadRequest''
      else if reasonPhrase = ''Length Required'' then ''LengthRequired''
      else if reasonPhrase = ''Request Entity Too Large'' then ''RequestEntityTooLarge''
      else if reasonPhrase = ''Unsupported Media Type'' then ''UnsupportedMediaType''
      else if reasonPhrase = ''Invalid Modification'' then ''InvalidModification''
      else if reasonPhrase = ''Too Many Results'' then ''TooManyResults''
      else if reasonPhrase = ''No context element found'' then ''NotFound''
      else reasonPhrase)"

definition invalidParameterForNgsiv2 :: "string \<Rightarrow> OrionError option" where
  "invalidParameterForNgsiv2 details =
     (if strstr details ''geo'' \<noteq> None
      then if strstr details ''more than one'' \<noteq> None \<or> strstr details ''another one has been previously defined'' \<noteq> None
           then Some (OrionError_fill SccRequestEntityTooLarge ''No more than one geo-location attribute allowed''
                        ''NoResourcesAvailable'')
           else Some (OrionError_fill SccBadRequest details [])
      else None)"

definition OrionError_render :: "OrionError \<Rightarrow> ConnectionInfo \<Rightarrow> string \<Rightarrow> string \<times> ConnectionInfo" where
  "OrionError_render oe ci initialIndent =
     (if ci_apiVersion ci = ''v2''
      then (let ci = (if ci_httpStatusCode ci = SccOk \<or> ci_httpStatusCode ci = SccNone
                      then ci\<lparr>ci_httpStatusCode := SccBadRequest\<rparr> else ci);
                details = (if oe_details oe = ''Already Exists'' then ''Entity already exists'' else oe_details oe);
                reasonPhrase = errorStringForV2 (oe_reasonPhrase oe)
            in (''{'' @ JSON_STR ''error'' @ '':'' @ JSON_STR reasonPhrase @ '',''
                @ JSON_STR ''description'' @ '':'' @ JSON_STR details @ ''}'', ci))
      else (let indent = initialIndent @ ''  ''
            in (initialIndent @ ''{'' @ NL
                @ startTag1 indent ''orionError'' True False
                @ valueTag (indent @ ''  '') ''code'' (scc (oe_code oe)) True
                @ valueTag1 (indent @ ''  '') ''reasonPhrase'' (oe_reasonPhrase oe) (oe_details oe \<noteq> []) False False
                @ (if oe_details oe \<noteq> [] then valueTag1 (indent @ ''  '') ''details'' (oe_details oe) False False False else [])
                @ endTag_plain indent False False
                @ initialIndent @ ''}'' @ NL, ci)))"

subsection \<open>Escaping of quotes\<close>

definition quote_escaped :: "string \<Rightarrow> string" where
  "quote_escaped s = concat (map (\<lambda>c. if c = CHR 0x22 then [CHR 0x5C, CHR 0x22] else [c]) s)"

lemma quote_escaped_simps [simp]:
  "quote_escaped [] = []"
  "quote_escaped (c # s) = (if c = CHR 0x22 then [CHR 0x5C, CHR 0x22] else [c]) @ quote_escaped s"
  by (simp_all add: quote_escaped_def)

lemma quote_escaped_length: "length (quote_escaped s) \<le> 2 * length s"
  by (induction s) auto

lemma quote_escaped_no_NUL: "NUL \<notin> set s \<Longrightarrow> NUL \<notin> set (quote_escaped s)"
  by (induction s) auto

lemma quote_escaped_id: "CHR 0x22 \<notin> set s \<Longrightarrow> quote_escaped s = s"
  by (induction s) auto

lemma c_str_append_NUL: "NUL \<notin> set d \<Longrightarrow> c_str (d @ NUL # x) = d"
  by (induction d) (auto simp: c_str_def)

lemma buf_write_next: "buf_write (length d) c (d @ replicate (Suc k) NUL) = Some ((d @ [c]) @ replicate k NUL)"
  by (simp add: buf_write_def list_update_append)

lemma strncat_next:
  assumes "NUL \<notin> set d" and "length s \<le> n"
  shows "strncat (d @ replicate (Suc (length s + k)) NUL) s n = Some ((d @ s) @ replicate (Suc k) NUL)"
proof -
  have "length (c_str (d @ replicate (Suc (length s + k)) NUL)) = length d"
    using c_str_append_NUL [OF assms(1)] by simp
  then show ?thesis using assms(2) by (simp add: strncat_def Let_def)
qed

lemma strReplace_quotes_loop:
  "NUL \<notin> set from \<Longrightarrow> NUL \<notin> set d \<Longrightarrow> length d + length (quote_escaped from) + k = toLen \<Longrightarrow>
   strReplace_loop toLen [CHR 0x22] [CHR 0x5C, CHR 0x22] from (length d) (d @ replicate (Suc (length (quote_escaped from) + k)) NUL)
     = Some ((d @ quote_escaped from) @ replicate (Suc k) NUL)"
proof (induction "from" arbitrary: d)
  case Nil
  then show ?case using buf_write_next [of d NUL k] by (subst strReplace_loop.simps) simp
next
  case (Cons c cs)
  show ?case
  proof (cases "c = CHR 0x22")
    case True
    let ?esc = "[CHR 0x5C, CHR 0x22]" and ?to = "d @ replicate (Suc (length (quote_escaped (c # cs)) + k)) NUL"
    have "length (c_str ?to) = length d" using c_str_append_NUL [OF Cons.prems(2)] by simp
    then have s: "strncat ?to ?esc (toLen - length (c_str ?to)) = Some ((d @ ?esc) @ replicate (Suc (length (quote_escaped cs) + k)) NUL)"
      using Cons.prems True strncat_next [of d ?esc "toLen - length d" "length (quote_escaped cs) + k"] by simp
    show ?thesis using Cons.IH [of "d @ ?esc"] Cons.prems True s by (subst strReplace_loop.simps) simp
  next
    case False
    have "buf_write (length d) c (d @ replicate (Suc (length (quote_escaped (c # cs)) + k)) NUL)
        = Some ((d @ [c]) @ replicate (Suc (length (quote_escaped cs) + k)) NUL)"
      using False buf_write_next [of d c "Suc (length (quote_escaped cs) + k)"] by simp
    then show ?thesis using Cons.IH [of "d @ [c]"] Cons.prems False by (subst strReplace_loop.simps) simp
  qed
qed

lemma escape_quotes_eq:
  assumes "NUL \<notin> set s"
  shows "escape_quotes s = Some (quote_escaped s)"
proof (cases "strstr s [CHR 0x22]")
  case None
  then have none: "\<forall>pre post. s = pre @ post \<longrightarrow> take 1 post \<noteq> [CHR 0x22]"
    using strstr_None_iff [of s "[CHR 0x22]"] by simp
  have "CHR 0x22 \<notin> set s"
  proof
    assume "CHR 0x22 \<in> set s"
    then obtain xs ys where "s = xs @ CHR 0x22 # ys" by (meson split_list)
    then show False using none [rule_format, of xs "CHR 0x22 # ys"] by simp
  qed
  then show ?thesis using None assms by (simp add: escape_quotes_def quote_escaped_id)
next
  case (Some p)
  define k where "k = 2 * length s - length (quote_escaped s)"
  have k: "2 * length s = length (quote_escaped s) + k" using quote_escaped_length [of s] by (simp add: k_def)
  have "strReplace (replicate (2 * length s + 1) NUL) (2 * length s) s [CHR 0x22] [CHR 0x5C, CHR 0x22]
      = Some (quote_escaped s @ replicate (Suc k) NUL)"
    using strReplace_quotes_loop [of s "[]" k "2 * length s"] assms k by (simp add: strReplace_def)
  then show ?thesis
    using Some assms c_str_append_NUL [OF quote_escaped_no_NUL [OF assms]] by (simp add: escape_quotes_def)
qed

text \<open>The characters that stand for themselves between quotes, and the quote itself.\<close>

definition quotable :: "string \<Rightarrow> bool" where
  "quotable s = list_all (\<lambda>c. plain_char c \<or> c = CHR 0x22) s"

lemma reads_quote_escaped: "quotable s \<Longrightarrow> reads_str (quote_escaped s) s"
  unfolding reads_str_def
proof (induction s)
  case Nil
  show ?case by (subst pstr.simps) simp
next
  case (Cons c s)
  then have r: "pstr (quote_escaped s @ CHR 0x22 # r) = Some (s, r)" for r by (simp add: quotable_def)
  show ?case
  proof (cases "c = CHR 0x22")
    case True
    then show ?thesis using r by (subst pstr.simps) (simp add: unescape1_def)
  next
    case False
    then have "plain_char c" using Cons.prems by (simp add: quotable_def)
    then show ?thesis using False r by (subst pstr.simps) (simp add: plain_char_def)
  qed
qed

subsection \<open>Errors are JSON\<close>

lemma JSON_STR_jstr: "JSON_STR s = jstr s"
  by (simp add: JSON_STR_def jstr_def)

lemma JSON_VALUE_member: "JSON_VALUE k v = member_text (k, jstr v)"
  by (simp add: JSON_VALUE_def JSON_PROP_def JSON_STR_def member_text_def jstr_def)

lemma member_reads: "reads_str kt k \<Longrightarrow> reads vt v \<Longrightarrow> reads_member (kt, vt) (k, v)"
  by (simp add: reads_member_def)

lemma reads_object_parse: "list_all2 reads_member ts ms \<Longrightarrow> t = ''{'' @ commas (map member_text ts) @ ''}'' \<Longrightarrow> json_parse t = Some (JObj ms)"
  by (simp only: reads_object reads_parse)

lemma plain_key [simp]: "plain ''error''" "plain ''description''" "plain ''code''" "plain ''details''"
  by code_simp+

lemma quotable_plain: "plain s \<Longrightarrow> quotable s"
  by (simp add: plain_def quotable_def list_all_iff)

lemma plain_char_no_NUL: "plain_char NUL = False"
  by (simp add: plain_char_def)

lemma quotable_no_NUL: "quotable s \<Longrightarrow> NUL \<notin> set s"
  by (auto simp: quotable_def list_all_iff plain_char_no_NUL)

definition error_members :: "ErrorCode \<Rightarrow> (string \<times> json) list" where
  "error_members ec =
     (if ec_error ec \<noteq> [] \<and> ec_error ec \<noteq> ''OK'' then [(''error'', JStr (ec_error ec))] else [])
     @ (if ec_description ec \<noteq> [] then [(''description'', JStr (ec_description ec))] else [])"

lemma quote_escaped_Nil: "quote_escaped s = [] \<longleftrightarrow> s = []"
  by (cases s) auto

text \<open>The error of a response of version 2, whose description may contain quotes, is rendered within the buffer of
  \<^verbatim>\<open>strReplace\<close> as JSON text, and a JSON parser reads from it the object with the error (unless it is
  empty or OK) and the description (unless it is empty).\<close>

theorem ErrorCode_toJson_reads:
  assumes "plain (ec_error ec)" and "quotable (ec_description ec)" and "error_members ec \<noteq> []"
  shows "\<exists>out ec'. ErrorCode_toJson ec True = Some (out, ec') \<and> json_parse out = Some (JObj (error_members ec))"
proof -
  let ?d = "quote_escaped (ec_description ec)"
  define ts where "ts = (if ec_error ec \<noteq> [] \<and> ec_error ec \<noteq> ''OK'' then [(''error'', jstr (ec_error ec))] else [])
     @ (if ec_description ec \<noteq> [] then [(''description'', jstr ?d)] else [])"
  have e: "escape_quotes (ec_description ec) = Some ?d" using escape_quotes_eq quotable_no_NUL assms(2) by blast
  have out: "ErrorCode_toJson ec True = Some (''{'' @ commas (map member_text ts) @ ''}'', ec\<lparr>ec_description := ?d\<rparr>)"
    using assms(3) by (auto simp: ErrorCode_toJson_def e ts_def JSON_VALUE_member quote_escaped_Nil error_members_def)
  have "list_all2 reads_member ts (error_members ec)"
    using assms(1) reads_quote_escaped [OF assms(2)] by (auto simp: ts_def error_members_def intro!: member_reads)
  then show ?thesis unfolding out by (blast intro: reads_object_parse)
qed

theorem ErrorCode_toJson_reads_witness:
  "\<exists>out ec'. ErrorCode_toJson (ErrorCode_fill ''BadRequest'' [CHR ''a'', CHR 0x22]) True = Some (out, ec')
     \<and> json_parse out = Some (JObj [(''error'', JStr ''BadRequest''), (''description'', JStr [CHR ''a'', CHR 0x22])])"
  using ErrorCode_toJson_reads [of "ErrorCode_fill ''BadRequest'' [CHR ''a'', CHR 0x22]"]
  by (simp add: ErrorCode_fill_def error_members_def plain_def quotable_def plain_char_def)

text \<open>
  The escaping is done on the member of the object, so rendering it twice escapes the quote but not the backslash of the
  first time; and the errors of \<^verbatim>\<open>OrionError\<close> are not escaped at all in version 2.
\<close>

lemma ErrorCode_rendered_twice:
  "(case ErrorCode_toJson (ErrorCode_fill ''BadRequest'' [CHR 0x22]) True of
      Some (_, ec) \<Rightarrow> map_option (json_parse \<circ> fst) (ErrorCode_toJson ec True)) = Some None"
  by code_simp

lemma OrionError_unescaped:
  "json_parse (fst (OrionError_render (OrionError_of SccBadRequest [CHR 0x22] []) (ConnectionInfo_new\<lparr>ci_apiVersion := ''v2''\<rparr>) [])) = None"
  by code_simp

text \<open>The errors that the dispatcher and the service routines report in version 2 are JSON when their details have
  neither quotes nor backslashes nor control characters: the reason in its compact form and the details. The status of the
  connection is then never that of a success.\<close>

lemma OrionError_render_reads:
  assumes "ci_apiVersion ci = ''v2''" and "plain (oe_reasonPhrase oe)" and "plain (oe_details oe)"
    and "oe_details oe \<noteq> ''Already Exists''"
  shows "json_parse (fst (OrionError_render oe ci indent))
           = Some (JObj [(''error'', JStr (errorStringForV2 (oe_reasonPhrase oe))), (''description'', JStr (oe_details oe))])"
    and "ci_httpStatusCode (snd (OrionError_render oe ci indent)) \<notin> {SccOk, SccNone}"
proof -
  have "plain (errorStringForV2 (oe_reasonPhrase oe))"
    using assms(2) by (simp add: errorStringForV2_def) (simp add: plain_def plain_char_def)
  then have "list_all2 reads_member [(''error'', jstr (errorStringForV2 (oe_reasonPhrase oe))), (''description'', jstr (oe_details oe))]
      [(''error'', JStr (errorStringForV2 (oe_reasonPhrase oe))), (''description'', JStr (oe_details oe))]"
    using assms(3) by (auto intro!: member_reads)
  then show "json_parse (fst (OrionError_render oe ci indent))
      = Some (JObj [(''error'', JStr (errorStringForV2 (oe_reasonPhrase oe))), (''description'', JStr (oe_details oe))])"
    by (rule reads_object_parse) (use assms in \<open>simp add: OrionError_render_def Let_def JSON_STR_jstr member_text_def\<close>)
  show "ci_httpStatusCode (snd (OrionError_render oe ci indent)) \<notin> {SccOk, SccNone}"
    using assms(1) by (simp add: OrionError_render_def Let_def)
qed

end
