(* ===== verification/Orion_Attribute.thy ===== *)
theory Orion_Attribute
  imports Orion_Metadata Orion_Status
begin

section \<open>Attributes: ngsi/ContextAttribute.cpp, ngsi/ContextAttributeVector.cpp, jsonParseV2/parseContextAttribute.cpp\<close>

text \<open>
  The record \<open>ContextAttribute\<close> has the members of the struct; the pointer to a compound value is an option. A
  member that a constructor leaves uninitialised is zero or false; it is read only when the type of the value selects it.
  A vector of attributes is a list. \<^verbatim>\<open>present\<close> and \<^verbatim>\<open>release\<close>, which trace and free, have no
  counterpart. A function that calls \<^verbatim>\<open>alarmMgr.badInput\<close> gives the list of the details it passes beside
  its result, and \<^const>\<open>None\<close> is the use of a null pointer.
\<close>

record ProvidingApplication =
  pa_string :: string
  pa_mimeType :: MimeType

record ContextAttribute =
  ca_name :: string
  ca_type :: string
  ca_metadataVector :: "Metadata list"
  ca_valueType :: ValueType
  ca_stringValue :: string
  ca_numberValue :: dbl
  ca_boolValue :: bool
  ca_providingApplication :: ProvidingApplication
  ca_found :: bool
  ca_skip :: bool
  ca_compoundValueP :: "CompoundValueNode option"
  ca_typeGiven :: bool

subsection \<open>Construction\<close>

definition ContextAttribute_new :: ContextAttribute where
  "ContextAttribute_new = \<lparr>ca_name = [], ca_type = [], ca_metadataVector = [], ca_valueType = ValueTypeString,
     ca_stringValue = [], ca_numberValue = Fin 0, ca_boolValue = False,
     ca_providingApplication = \<lparr>pa_string = [], pa_mimeType = NOMIMETYPE\<rparr>, ca_found = False, ca_skip = False,
     ca_compoundValueP = None, ca_typeGiven = False\<rparr>"

text \<open>The copy takes the compound value away from its source: both are given.\<close>

definition ContextAttribute_copy :: "ContextAttribute \<Rightarrow> bool \<Rightarrow> ContextAttribute \<times> ContextAttribute" where
  "ContextAttribute_copy caP useDefaultType =
     (caP\<lparr>ca_skip := False,
          ca_metadataVector := map (\<lambda>m. Metadata_copy m useDefaultType) (ca_metadataVector caP),
          ca_type := (if useDefaultType \<and> \<not> ca_typeGiven caP then DEFAULT_TYPE else ca_type caP)\<rparr>,
      caP\<lparr>ca_compoundValueP := None\<rparr>)"

definition ContextAttribute_string :: "string \<Rightarrow> string \<Rightarrow> string \<Rightarrow> bool \<Rightarrow> ContextAttribute" where
  "ContextAttribute_string name type value found =
     ContextAttribute_new\<lparr>ca_name := name, ca_type := type, ca_stringValue := value, ca_found := found\<rparr>"

definition ContextAttribute_number :: "string \<Rightarrow> string \<Rightarrow> dbl \<Rightarrow> bool \<Rightarrow> ContextAttribute" where
  "ContextAttribute_number name type value found =
     ContextAttribute_new\<lparr>ca_name := name, ca_type := type, ca_numberValue := value, ca_valueType := ValueTypeNumber,
       ca_found := found\<rparr>"

definition ContextAttribute_bool :: "string \<Rightarrow> string \<Rightarrow> bool \<Rightarrow> bool \<Rightarrow> ContextAttribute" where
  "ContextAttribute_bool name type value found =
     ContextAttribute_new\<lparr>ca_name := name, ca_type := type, ca_boolValue := value, ca_valueType := ValueTypeBoolean,
       ca_found := found\<rparr>"

definition ContextAttribute_compound :: "string \<Rightarrow> string \<Rightarrow> CompoundValueNode \<Rightarrow> ContextAttribute option" where
  "ContextAttribute_compound name type compoundValue =
     map_option (\<lambda>c. ContextAttribute_new\<lparr>ca_name := name, ca_type := type, ca_compoundValueP := Some c,
                       ca_valueType := ValueTypeObject\<rparr>)
       (cv_clone True CompoundValueNode_empty compoundValue)"

subsection \<open>Special metadata and types\<close>

fun getId_loop :: "Metadata list \<Rightarrow> string" where
  "getId_loop [] = []"
| "getId_loop (m # ms) = (if md_name m = ''ID'' then md_stringValue m else getId_loop ms)"

definition getId :: "ContextAttribute \<Rightarrow> string" where
  "getId ca = getId_loop (ca_metadataVector ca)"

fun location_md :: "Metadata list \<Rightarrow> string option" where
  "location_md [] = None"
| "location_md (m # ms) = (if md_name m = ''location'' then Some (md_stringValue m) else location_md ms)"

definition getLocation :: "ContextAttribute \<Rightarrow> string \<Rightarrow> string" where
  "getLocation ca apiVersion =
     (if apiVersion = ''v1''
      then (case location_md (ca_metadataVector ca) of
              Some s \<Rightarrow> s
            | None \<Rightarrow> if ca_type ca = ''geo:point'' then ''WGS84'' else [])
      else if ca_type ca = ''geo:point'' \<or> ca_type ca = ''geo:line'' \<or> ca_type ca = ''geo:box''
              \<or> ca_type ca = ''geo:polygon'' \<or> ca_type ca = ''geo:json'' then ''WGS84'' else [])"

subsection \<open>To the database\<close>

text \<open>The member that is appended under the name \<^verbatim>\<open>value\<close>, or none when the type of the value is not known.\<close>

definition bsonAppendAttrValue :: "ContextAttribute \<Rightarrow> (string \<times> bson) list" where
  "bsonAppendAttrValue ca =
     (case ca_valueType ca of
        ValueTypeString \<Rightarrow> [(''value'', BStr (ca_stringValue ca))]
      | ValueTypeNumber \<Rightarrow> [(''value'', BNum (ca_numberValue ca))]
      | ValueTypeBoolean \<Rightarrow> [(''value'', BBool (ca_boolValue ca))]
      | ValueTypeNone \<Rightarrow> [(''value'', BNull)]
      | _ \<Rightarrow> [])"

definition valueBson :: "ContextAttribute \<Rightarrow> (string \<times> bson) list" where
  "valueBson ca =
     (case ca_compoundValueP ca of
        None \<Rightarrow> bsonAppendAttrValue ca
      | Some n \<Rightarrow>
          (case cv_valueType n of
             ValueTypeVector \<Rightarrow> [(''value'', BArr (compoundValueBson_array (cv_childV n)))]
           | ValueTypeObject \<Rightarrow> [(''value'', BObj (compoundValueBson_object (cv_childV n)))]
           | ValueTypeString \<Rightarrow> [(''value'', BStr (cv_stringValue n))]
           | ValueTypeNumber \<Rightarrow> [(''value'', BNum (cv_numberValue n))]
           | ValueTypeBoolean \<Rightarrow> [(''value'', BBool (cv_boolValue n))]
           | ValueTypeNone \<Rightarrow> [(''value'', BNull)]
           | _ \<Rightarrow> []))"

subsection \<open>Rendering, version 1\<close>

text \<open>A double as the argument of \<^verbatim>\<open>isodate2str\<close>, which takes an integer: the fraction is cut off.\<close>

definition dbl_trunc :: "dbl \<Rightarrow> int" where
  "dbl_trunc d = (case d of Fin r \<Rightarrow> if 0 \<le> r then \<lfloor>r\<rfloor> else \<lceil>r\<rceil> | _ \<Rightarrow> - (2 ^ 63))"

text \<open>The text of a value that is not compound, and whether it is written without quotes.\<close>

definition effective_value :: "ContextAttribute \<Rightarrow> string \<times> bool" where
  "effective_value ca =
     (case ca_valueType ca of
        ValueTypeString \<Rightarrow> (ca_stringValue ca, False)
      | ValueTypeBoolean \<Rightarrow> (if ca_boolValue ca then ''true'' else ''false'', True)
      | ValueTypeNumber \<Rightarrow>
          if ca_type ca = DATE_TYPE then (isodate2str (dbl_trunc (ca_numberValue ca)), False)
          else (toString_double (ca_numberValue ca), True)
      | ValueTypeNone \<Rightarrow> (''null'', True)
      | _ \<Rightarrow> ([], False))"

definition render_compound :: "ConnectionInfo \<Rightarrow> string \<Rightarrow> bool \<Rightarrow> CompoundValueNode \<Rightarrow> string" where
  "render_compound ci indent comma n =
     (let isCompoundVector = (cv_valueType n = ValueTypeVector)
      in startTag2 (indent @ ''  '') ''value'' isCompoundVector True
         @ cv_render (ci_apiVersion ci = ''v2'') Self (indent @ ''    '') n
         @ endTag_plain (indent @ ''  '') comma isCompoundVector)"

definition renderAsJsonObject :: "ContextAttribute \<Rightarrow> ConnectionInfo \<Rightarrow> RequestType \<Rightarrow> string \<Rightarrow> bool \<Rightarrow> bool \<Rightarrow> string" where
  "renderAsJsonObject ca ci request indent comma omitValue =
     (let commaAfterContextValue = (ca_metadataVector ca \<noteq> []);
          commaAfterType = (\<not> omitValue \<or> commaAfterContextValue);
          (value, withoutQuotes) = effective_value ca
      in startTag2 indent (ca_name ca) False True
         @ valueTag1 (indent @ ''  '') ''type'' (ca_type ca) commaAfterType False False
         @ (case ca_compoundValueP ca of
              None \<Rightarrow>
                if omitValue = False
                then valueTag1 (indent @ ''  '') ''value'' (if request \<noteq> RtUpdateContextResponse then value else [])
                       commaAfterContextValue False withoutQuotes
                else []
            | Some n \<Rightarrow> render_compound ci indent commaAfterContextValue n)
         @ (if omitValue = False then MetadataVector_render (ca_metadataVector ca) (indent @ ''  '') False else [])
         @ endTag_plain indent comma False)"

definition renderAsNameString :: "ContextAttribute \<Rightarrow> string \<Rightarrow> bool \<Rightarrow> string" where
  "renderAsNameString ca indent comma =
     (if comma then indent @ [CHR 0x22] @ ca_name ca @ [CHR 0x22] @ '','' @ NL
      else indent @ [CHR 0x22] @ ca_name ca @ [CHR 0x22] @ NL)"

definition as_object :: "ConnectionInfo \<Rightarrow> bool" where
  "as_object ci = (ci_uriParam ci ''attributeFormat'' = ''object'' \<and> ci_outMimeType ci = JSON)"

definition ContextAttribute_render :: "ContextAttribute \<Rightarrow> ConnectionInfo \<Rightarrow> RequestType \<Rightarrow> string \<Rightarrow> bool \<Rightarrow> bool \<Rightarrow> string" where
  "ContextAttribute_render ca ci request indent comma omitValue =
     (let valueRendered = (ca_compoundValueP ca \<noteq> None \<or> omitValue = False \<or> request = RtUpdateContextResponse);
          commaAfterContextValue = (ca_metadataVector ca \<noteq> []);
          commaAfterType = valueRendered;
          (value, withoutQuotes) = effective_value ca
      in if as_object ci then renderAsJsonObject ca ci request indent comma omitValue
         else startTag2 indent ''attribute'' False False
              @ valueTag1 (indent @ ''  '') ''name'' (ca_name ca) True False False
              @ valueTag1 (indent @ ''  '') ''type'' (ca_type ca) commaAfterType False False
              @ (case ca_compoundValueP ca of
                   None \<Rightarrow>
                     if omitValue = False
                     then valueTag2 (indent @ ''  '') ''value'' (if request \<noteq> RtUpdateContextResponse then value else [])
                            commaAfterContextValue withoutQuotes
                     else if request = RtUpdateContextResponse
                     then valueTag1 (indent @ ''  '') ''value'' [] commaAfterContextValue False False
                     else []
                 | Some n \<Rightarrow> render_compound ci indent commaAfterContextValue n)
              @ MetadataVector_render (ca_metadataVector ca) (indent @ ''  '') False
              @ endTag_plain indent comma False)"

subsection \<open>Rendering, version 2\<close>

definition ContextAttribute_toJson :: "ContextAttribute \<Rightarrow> bool \<Rightarrow> RenderFormat \<Rightarrow> RequestType \<Rightarrow> string" where
  "ContextAttribute_toJson ca isLastElement renderFormat request =
     (if renderFormat = NGSI_V2_VALUES \<or> renderFormat = NGSI_V2_KEYVALUES \<or> renderFormat = NGSI_V2_UNIQUE_VALUES
      then (if renderFormat = NGSI_V2_KEYVALUES then JSON_STR (ca_name ca) @ '':'' else [])
           @ (case ca_compoundValueP ca of
                Some n \<Rightarrow>
                  if cv_valueType n = ValueTypeObject then ''{'' @ cv_toJson Self n @ ''}''
                  else if cv_valueType n = ValueTypeVector then ''['' @ cv_toJson Self n @ '']''
                  else []
              | None \<Rightarrow>
                  if ca_valueType ca = ValueTypeNumber
                  then if ca_type ca = DATE_TYPE then JSON_STR (isodate2str (dbl_trunc (ca_numberValue ca)))
                       else toString_double (ca_numberValue ca)
                  else if ca_valueType ca = ValueTypeString then JSON_STR (ca_stringValue ca)
                  else if ca_valueType ca = ValueTypeBoolean then if ca_boolValue ca = True then ''true'' else ''false''
                  else if ca_valueType ca = ValueTypeNone then ''null''
                  else [])
      else (if request \<noteq> EntityAttributeResponse then JSON_STR (ca_name ca) @ '':{'' else [])
           @ (if ca_type ca \<noteq> [] then JSON_VALUE ''type'' (ca_type ca) else JSON_VALUE ''type'' DEFAULT_TYPE)
           @ '',''
           @ (case ca_compoundValueP ca of
                Some n \<Rightarrow>
                  if cv_valueType n = ValueTypeObject then JSON_STR ''value'' @ '':{'' @ cv_toJson Self n @ ''}''
                  else if cv_valueType n = ValueTypeVector then JSON_STR ''value'' @ '':['' @ cv_toJson Self n @ '']''
                  else []
              | None \<Rightarrow>
                  if ca_valueType ca = ValueTypeNumber
                  then if ca_type ca = DATE_TYPE then JSON_VALUE ''value'' (isodate2str (dbl_trunc (ca_numberValue ca)))
                       else JSON_VALUE_NUMBER ''value'' (toString_double (ca_numberValue ca))
                  else if ca_valueType ca = ValueTypeString then JSON_VALUE ''value'' (ca_stringValue ca)
                  else if ca_valueType ca = ValueTypeBoolean then JSON_VALUE_BOOL ''value'' (ca_boolValue ca)
                  else if ca_valueType ca = ValueTypeNone then JSON_STR ''value'' @ '':'' @ ''null''
                  else JSON_VALUE ''value'' (ca_stringValue ca))
           @ '',''
           @ JSON_STR ''metadata'' @ '':'' @ ''{'' @ MetadataVector_toJson (ca_metadataVector ca) True @ ''}''
           @ (if request \<noteq> EntityAttributeResponse then ''}'' else []))
     @ (if \<not> isLastElement then '','' else [])"

definition toJsonAsValue :: "ContextAttribute \<Rightarrow> ConnectionInfo \<Rightarrow> (string \<times> ConnectionInfo) option" where
  "toJsonAsValue ca ci =
     (case ca_compoundValueP ca of
        Some n \<Rightarrow>
          Some (if cv_valueType n = ValueTypeVector then ''['' @ cv_toJson Self n @ '']''
                else ''{'' @ cv_toJson Self n @ ''}'', ci)
      | None \<Rightarrow>
          if ci_outMimeType ci = JSON
          then map_option (\<lambda>(out, _). (out, ci\<lparr>ci_httpStatusCode := SccNotAcceptable\<rparr>))
                 (ErrorCode_toJson (ErrorCode_fill ''NotAcceptable'' ''accepted MIME types: text/plain'') True)
          else Some (case ca_valueType ca of
                       ValueTypeString \<Rightarrow> ca_stringValue ca
                     | ValueTypeNumber \<Rightarrow>
                         if ca_type ca = DATE_TYPE then isodate2str (dbl_trunc (ca_numberValue ca))
                         else snprintf_f (ca_numberValue ca)
                     | ValueTypeBoolean \<Rightarrow> if ca_boolValue ca then ''true'' else ''false''
                     | _ \<Rightarrow> ''ERROR'', ci))"

definition ContextAttribute_getValue :: "ContextAttribute \<Rightarrow> string" where
  "ContextAttribute_getValue ca =
     (case ca_valueType ca of
        ValueTypeString \<Rightarrow> ca_stringValue ca
      | ValueTypeNumber \<Rightarrow> snprintf_f (ca_numberValue ca)
      | ValueTypeBoolean \<Rightarrow> if ca_boolValue ca then ''true'' else ''false''
      | _ \<Rightarrow> ''<unknown type>'')"

subsection \<open>Checking\<close>

definition ContextAttribute_check :: "bool \<Rightarrow> string \<Rightarrow> RequestType \<Rightarrow> ContextAttribute \<Rightarrow> string \<times> string list" where
  "ContextAttribute_check idv1 apiVersion request ca =
     (let nlen = length (c_str (ca_name ca)); tlen = length (c_str (ca_type ca))
      in if ca_name ca = [] \<and> request \<noteq> EntityAttributeValueRequest then (''missing attribute name'', [])
         else if MAX_ID_LEN < nlen
         then (let e = length_error ''attribute name'' nlen ''max'' MAX_ID_LEN in (e, [e]))
         else if forbiddenIdChars idv1 apiVersion (Some (c_str (ca_name ca))) None
         then (''Invalid characters in attribute name'', [''found a forbidden character in the name of an attribute''])
         else if MAX_ID_LEN < tlen
         then (let e = length_error ''attribute type'' tlen ''max'' MAX_ID_LEN in (e, [e]))
         else if apiVersion = ''v2'' \<and> request \<noteq> EntityAttributeValueRequest \<and> tlen < MIN_ID_LEN
         then (let e = length_error ''attribute type'' tlen ''min'' MIN_ID_LEN in (e, [e]))
         else if request \<noteq> EntityAttributeValueRequest \<and> forbiddenIdChars idv1 apiVersion (Some (c_str (ca_type ca))) None
         then (''Invalid characters in attribute type'', [''found a forbidden character in the type of an attribute''])
         else case ca_compoundValueP ca of
                Some n \<Rightarrow>
                  if cv_childV n \<noteq> []
                  then (let r = cv_check n in (cc_res r, case cc_alarm r of None \<Rightarrow> [] | Some a \<Rightarrow> [a]))
                  else if ca_valueType ca = ValueTypeString \<and> forbiddenChars (Some (c_str (ca_stringValue ca))) None
                  then (''Invalid characters in attribute value'', [''found a forbidden character in the value of an attribute''])
                  else MetadataVector_check idv1 apiVersion (ca_metadataVector ca)
              | None \<Rightarrow>
                  if ca_valueType ca = ValueTypeString \<and> forbiddenChars (Some (c_str (ca_stringValue ca))) None
                  then (''Invalid characters in attribute value'', [''found a forbidden character in the value of an attribute''])
                  else MetadataVector_check idv1 apiVersion (ca_metadataVector ca))"

subsection \<open>Vectors\<close>

text \<open>The order of \<^verbatim>\<open>std::string\<close>, by which \<^verbatim>\<open>std::map\<close> is sorted.\<close>

fun str_less :: "string \<Rightarrow> string \<Rightarrow> bool" where
  "str_less s [] = False"
| "str_less [] (d # t) = True"
| "str_less (c # s) (d # t) =
     ((of_char c :: nat) < of_char d \<or> (c = d \<and> str_less s t))"

fun map_insert :: "string \<Rightarrow> ('a \<Rightarrow> 'a) \<Rightarrow> 'a \<Rightarrow> (string \<times> 'a) list \<Rightarrow> (string \<times> 'a) list" where
  "map_insert k f d [] = [(k, f d)]"
| "map_insert k f d ((k', v) # m) =
     (if k = k' then (k', f v) # m
      else if str_less k k' then (k, f d) # (k', v) # m
      else (k', v) # map_insert k f d m)"

definition perAttrTypes :: "ContextAttribute list \<Rightarrow> (string \<times> (string \<times> int) list) list" where
  "perAttrTypes vec = foldl (\<lambda>m ca. map_insert (ca_name ca) (map_insert (ca_type ca) (\<lambda>_. 1) 0) [] m) [] vec"

fun toJsonTypes_types :: "(string \<times> int) list \<Rightarrow> string" where
  "toJsonTypes_types [] = []"
| "toJsonTypes_types ((type, _) # ts) = JSON_STR type @ (if ts \<noteq> [] then '','' else []) @ toJsonTypes_types ts"

fun toJsonTypes_attrs :: "(string \<times> (string \<times> int) list) list \<Rightarrow> string" where
  "toJsonTypes_attrs [] = []"
| "toJsonTypes_attrs ((name, types) # as) =
     JSON_STR name @ '':{'' @ JSON_STR ''types'' @ '':['' @ toJsonTypes_types types @ '']}''
     @ (if as \<noteq> [] then '','' else []) @ toJsonTypes_attrs as"

definition toJsonTypes :: "ContextAttribute list \<Rightarrow> string" where
  "toJsonTypes vec = toJsonTypes_attrs (perAttrTypes vec)"

fun ca_lookup :: "ContextAttribute list \<Rightarrow> string \<Rightarrow> ContextAttribute option" where
  "ca_lookup [] attributeName = None"
| "ca_lookup (ca # vec) attributeName = (if ca_name ca = attributeName then Some ca else ca_lookup vec attributeName)"

definition ca_hidden :: "ContextAttribute \<Rightarrow> bool" where
  "ca_hidden ca = (ca_name ca = ''id'' \<or> ca_name ca = ''type'')"

definition ca_unique :: "RenderFormat \<Rightarrow> ContextAttribute \<Rightarrow> bool" where
  "ca_unique renderFormat ca = (renderFormat = NGSI_V2_UNIQUE_VALUES \<and> ca_valueType ca = ValueTypeString)"

fun validAttributes :: "RenderFormat \<Rightarrow> string list \<Rightarrow> ContextAttribute list \<Rightarrow> nat" where
  "validAttributes renderFormat uniqueMap [] = 0"
| "validAttributes renderFormat uniqueMap (ca # vec) =
     (if ca_hidden ca then validAttributes renderFormat uniqueMap vec
      else if ca_unique renderFormat ca
      then if ca_stringValue ca \<in> set uniqueMap then validAttributes renderFormat uniqueMap vec
           else Suc (validAttributes renderFormat (ca_stringValue ca # uniqueMap) vec)
      else Suc (validAttributes renderFormat uniqueMap vec))"

fun toJson_all :: "RenderFormat \<Rightarrow> nat \<Rightarrow> nat \<Rightarrow> string list \<Rightarrow> ContextAttribute list \<Rightarrow> string" where
  "toJson_all renderFormat valid rendered uniqueMap [] = []"
| "toJson_all renderFormat valid rendered uniqueMap (ca # vec) =
     (if ca_hidden ca then toJson_all renderFormat valid rendered uniqueMap vec
      else let rendered = Suc rendered
           in if ca_unique renderFormat ca
              then if ca_stringValue ca \<in> set uniqueMap then toJson_all renderFormat valid rendered uniqueMap vec
                   else ContextAttribute_toJson ca (rendered = valid) renderFormat NoRequest
                          @ toJson_all renderFormat valid rendered (ca_stringValue ca # uniqueMap) vec
              else ContextAttribute_toJson ca (rendered = valid) renderFormat NoRequest
                     @ toJson_all renderFormat valid rendered uniqueMap vec)"

fun toJson_filtered :: "RenderFormat \<Rightarrow> nat \<Rightarrow> nat \<Rightarrow> ContextAttribute list \<Rightarrow> string list \<Rightarrow> string" where
  "toJson_filtered renderFormat valid rendered vec [] = []"
| "toJson_filtered renderFormat valid rendered vec (name # attrsFilter) =
     (case ca_lookup vec name of
        None \<Rightarrow> toJson_filtered renderFormat valid rendered vec attrsFilter
      | Some ca \<Rightarrow>
          (let rendered = Suc rendered
           in ContextAttribute_toJson ca (rendered = valid) renderFormat NoRequest
                @ toJson_filtered renderFormat valid rendered vec attrsFilter))"

definition ContextAttributeVector_toJson :: "ContextAttribute list \<Rightarrow> RenderFormat \<Rightarrow> string list \<Rightarrow> string" where
  "ContextAttributeVector_toJson vec renderFormat attrsFilter =
     (if vec = [] then []
      else if attrsFilter = [] then toJson_all renderFormat (validAttributes renderFormat [] vec) 0 [] vec
      else toJson_filtered renderFormat (length (filter (\<lambda>name. ca_lookup vec name \<noteq> None) attrsFilter)) 0 vec attrsFilter)"

definition addedLookup :: "string list \<Rightarrow> string \<Rightarrow> string" where
  "addedLookup added value = (if value \<in> set added then value else [])"

text \<open>The loop that erases attributes with a name already used: after an erasure the index moves on, past the attribute
  that took the place of the erased one.\<close>

fun erase_copies :: "string list \<Rightarrow> ContextAttribute list \<Rightarrow> ContextAttribute list" where
  "erase_copies added [] = []"
| "erase_copies added (ca # vec) =
     (if addedLookup added (ca_name ca) = [] then ca # erase_copies (added @ [ca_name ca]) vec
      else case vec of [] \<Rightarrow> [] | ca' # vec' \<Rightarrow> ca' # erase_copies added vec')"

fun render_attrs :: "ContextAttribute list \<Rightarrow> ConnectionInfo \<Rightarrow> RequestType \<Rightarrow> string \<Rightarrow> bool \<Rightarrow> bool \<Rightarrow> string" where
  "render_attrs [] ci request indent omitValue attrsAsName = []"
| "render_attrs (ca # vec) ci request indent omitValue attrsAsName =
     (if attrsAsName then renderAsNameString ca (indent @ ''  '') (vec \<noteq> [])
      else ContextAttribute_render ca ci request (indent @ ''  '') (vec \<noteq> []) omitValue)
     @ render_attrs vec ci request indent omitValue attrsAsName"

definition ContextAttributeVector_render ::
  "ContextAttribute list \<Rightarrow> ConnectionInfo \<Rightarrow> RequestType \<Rightarrow> string \<Rightarrow> bool \<Rightarrow> bool \<Rightarrow> bool \<Rightarrow> string \<times> ContextAttribute list" where
  "ContextAttributeVector_render vec ci request indent comma omitValue attrsAsName =
     (if vec = [] then ([], vec)
      else if as_object ci
      then (let vec = erase_copies [] vec
            in (startTag2 indent ''attributes'' attrsAsName True @ render_attrs vec ci request indent omitValue attrsAsName
                @ endTag_plain indent comma attrsAsName, vec))
      else (startTag2 indent ''attributes'' True True @ render_attrs vec ci request indent omitValue attrsAsName
            @ endTag_plain indent comma True, vec))"

fun ContextAttributeVector_check :: "bool \<Rightarrow> string \<Rightarrow> RequestType \<Rightarrow> ContextAttribute list \<Rightarrow> string \<times> string list" where
  "ContextAttributeVector_check idv1 apiVersion request [] = (''OK'', [])"
| "ContextAttributeVector_check idv1 apiVersion request (ca # vec) =
     (let r = ContextAttribute_check idv1 apiVersion request ca
      in if fst r \<noteq> ''OK'' then r else ContextAttributeVector_check idv1 apiVersion request vec)"

text \<open>Filling from another vector, which loses its compound values; both vectors are given.\<close>

definition ContextAttributeVector_fill ::
  "ContextAttribute list \<Rightarrow> ContextAttribute list \<Rightarrow> bool \<Rightarrow> ContextAttribute list \<times> ContextAttribute list" where
  "ContextAttributeVector_fill vec cav useDefaultType =
     (vec @ map (\<lambda>ca. fst (ContextAttribute_copy ca useDefaultType)) cav, map (\<lambda>ca. snd (ContextAttribute_copy ca useDefaultType)) cav)"

definition ContextAttributeVector_at :: "ContextAttribute list \<Rightarrow> nat \<Rightarrow> ContextAttribute option" where
  "ContextAttributeVector_at vec ix = (if ix < length vec then Some (vec ! ix) else None)"

subsection \<open>Parsing\<close>

fun ca_set_scalar :: "json \<Rightarrow> ContextAttribute \<Rightarrow> ContextAttribute option" where
  "ca_set_scalar (JStr s) ca = Some (ca\<lparr>ca_stringValue := c_str s, ca_valueType := ValueTypeString\<rparr>)"
| "ca_set_scalar (JNum d) ca = Some (ca\<lparr>ca_numberValue := d, ca_valueType := ValueTypeNumber\<rparr>)"
| "ca_set_scalar (JBool b) ca = Some (ca\<lparr>ca_boolValue := b, ca_valueType := ValueTypeBoolean\<rparr>)"
| "ca_set_scalar JNull ca = Some (ca\<lparr>ca_valueType := ValueTypeNone\<rparr>)"
| "ca_set_scalar _ ca = None"

text \<open>A compound value of the attribute; \<open>t\<close> is the type of value that the caller sets.\<close>

definition ca_set_compound :: "ValueType \<Rightarrow> json \<Rightarrow> ContextAttribute \<Rightarrow> ContextAttribute option" where
  "ca_set_compound t v ca =
     map_option (\<lambda>n. ca\<lparr>ca_valueType := t, ca_compoundValueP := Some n\<rparr>)
       (parseContextAttributeCompoundValue (ca_compoundValueP ca) v)"

fun attr_members :: "(string \<times> json) list \<Rightarrow> ContextAttribute \<Rightarrow> (string \<times> string list \<times> ContextAttribute) option" where
  "attr_members [] ca = Some (''OK'', [], ca)"
| "attr_members ((n, v) # ms) ca =
     (let name = c_str n
      in if name = ''type''
         then (case v of
                 JStr s \<Rightarrow> attr_members ms (ca\<lparr>ca_type := c_str s, ca_typeGiven := True\<rparr>)
               | _ \<Rightarrow> Some (''invalid JSON type for attribute type'', [''ContextAttributeObject::type must be a String''], ca))
         else if name = ''value''
         then (case ca_set_scalar v ca of
                 Some ca \<Rightarrow> attr_members ms ca
               | None \<Rightarrow>
                   (case ca_set_compound (case v of JArr _ \<Rightarrow> ValueTypeVector | _ \<Rightarrow> ValueTypeObject) v ca of
                      None \<Rightarrow> None
                    | Some ca \<Rightarrow> attr_members ms ca))
         else if name = ''metadata''
         then (case parseMetadataVector v (ca_metadataVector ca) of
                 (r, al, mds) \<Rightarrow>
                   (let ca = ca\<lparr>ca_metadataVector := mds\<rparr>
                    in if r \<noteq> ''OK'' then Some (r, al @ [''error parsing Metadata: '' @ r], ca)
                       else attr_members ms ca))
         else Some (''unrecognized property for context attribute'', [], ca))"

definition parseContextAttributeObject ::
  "(string \<times> json) list \<Rightarrow> ContextAttribute \<Rightarrow> (string \<times> string list \<times> ContextAttribute) option" where
  "parseContextAttributeObject start ca =
     (case attr_members start (ca\<lparr>ca_valueType := ValueTypeNone\<rparr>) of
        None \<Rightarrow> None
      | Some (r, al, ca) \<Rightarrow>
          if r \<noteq> ''OK'' then Some (r, al, ca)
          else if ca_type ca = DATE_TYPE
          then (let t = parse8601Time (ca_stringValue ca); ca = ca\<lparr>ca_numberValue := Fin (of_int t)\<rparr>
                in if t = -1 then Some (''date has invalid format'', al, ca)
                   else Some (''OK'', al, ca\<lparr>ca_stringValue := [], ca_valueType := ValueTypeNumber\<rparr>))
          else Some (''OK'', al, ca))"

text \<open>The result, the details of the alarms, the attribute and the connection, whose status is set on an error.\<close>

type_synonym attr_result = "string \<times> string list \<times> ContextAttribute \<times> ConnectionInfo"

abbreviation bad_request :: "ConnectionInfo \<Rightarrow> ConnectionInfo" where
  "bad_request ci \<equiv> ci\<lparr>ci_httpStatusCode := SccBadRequest\<rparr>"

definition no_value_error :: string where
  "no_value_error = ''no '' @ quoted ''value'' @ '' for ContextAttribute without keyValues''"

definition no_name_error :: string where
  "no_name_error = ''no '' @ quoted ''name'' @ '' for ContextAttribute''"

text \<open>What both branches of \<^verbatim>\<open>parseContextAttribute\<close> end with.\<close>

definition attr_finish :: "string list \<Rightarrow> ContextAttribute \<Rightarrow> ConnectionInfo \<Rightarrow> attr_result" where
  "attr_finish al ca ci =
     (if ca_name ca = [] then (no_name_error, al @ [no_name_error], ca, bad_request ci)
      else (''OK'', al, if ca_typeGiven ca then ca else ca\<lparr>ca_type := DEFAULT_TYPE\<rparr>, ci))"

definition parseContextAttribute :: "ConnectionInfo \<Rightarrow> string \<times> json \<Rightarrow> ContextAttribute \<Rightarrow> attr_result option" where
  "parseContextAttribute ci iter ca =
     (let ca = ca\<lparr>ca_name := c_str (fst iter)\<rparr>
      in if ci_uriParamOptions ci ''keyValues''
         then (case ca_set_scalar (snd iter) (ca\<lparr>ca_type := []\<rparr>) of
                 Some ca \<Rightarrow> Some (attr_finish [] ca ci)
               | None \<Rightarrow> map_option (\<lambda>ca. attr_finish [] ca ci) (ca_set_compound ValueTypeObject (snd iter) ca))
         else case snd iter of
                JObj ms \<Rightarrow>
                  if ''value'' \<in> fst ` set ms \<or> ci_apiVersion ci = ''v2''
                  then (case parseContextAttributeObject ms ca of
                          None \<Rightarrow> None
                        | Some (r, al, ca) \<Rightarrow>
                            Some (if r \<noteq> ''OK''
                                  then (r, al @ [''JSON parse error in ContextAttribute::Object''], ca, bad_request ci)
                                  else attr_finish al ca ci))
                  else Some (no_value_error, [no_value_error], ca, bad_request ci)
              | _ \<Rightarrow> (let details = ''attribute must be a JSON object, unless keyValues option is used''
                      in Some (details, [details], ca, bad_request ci)))"

definition parseContextAttribute_payload :: "ConnectionInfo \<Rightarrow> ContextAttribute \<Rightarrow> attr_result option" where
  "parseContextAttribute_payload ci ca =
     (case json_parse (ci_payload ci) of
        None \<Rightarrow>
          (case OrionError_render (OrionError_of SccBadRequest ''Errors found in incoming JSON buffer'' ''ParseError'')
                  (bad_request ci) [] of
             (out, ci) \<Rightarrow> Some (out, [''JSON parse error''], ca, ci))
      | Some (JObj ms) \<Rightarrow>
          (case parseContextAttributeObject ms ca of
             None \<Rightarrow> None
           | Some (r, al, ca) \<Rightarrow>
               if r \<noteq> ''OK''
               then (case OrionError_render (OrionError_of SccBadRequest r []) (bad_request ci) [] of
                       (out, ci) \<Rightarrow> Some (out, al, ca, ci))
               else Some (r, al, if ca_typeGiven ca then ca else ca\<lparr>ca_type := DEFAULT_TYPE\<rparr>, ci))
      | Some _ \<Rightarrow>
          (case OrionError_render (OrionError_of SccBadRequest ''Error parsing incoming JSON buffer'' ''ParseError'')
                  (bad_request ci) [] of
             (out, ci) \<Rightarrow> Some (out, [''JSON Parse Error''], ca, ci)))"

subsection \<open>What version 2 renders is JSON\<close>

text \<open>The values of metadata and attributes as JSON values, and the objects that the normalized rendering stands for.\<close>

definition md_value :: "Metadata \<Rightarrow> json" where
  "md_value m =
     (case md_valueType m of
        ValueTypeString \<Rightarrow> JStr (md_stringValue m)
      | ValueTypeNumber \<Rightarrow> JNum (md_numberValue m)
      | ValueTypeBoolean \<Rightarrow> JBool (md_boolValue m)
      | _ \<Rightarrow> JNull)"

definition md_json :: "Metadata \<Rightarrow> json" where
  "md_json m = JObj [(''type'', JStr (md_type m)), (''value'', md_value m)]"

definition ca_value :: "ContextAttribute \<Rightarrow> json" where
  "ca_value ca =
     (case ca_compoundValueP ca of
        Some n \<Rightarrow> json_of_node n
      | None \<Rightarrow>
          (case ca_valueType ca of
             ValueTypeString \<Rightarrow> JStr (ca_stringValue ca)
           | ValueTypeNumber \<Rightarrow>
               if ca_type ca = DATE_TYPE then JStr (isodate2str (dbl_trunc (ca_numberValue ca))) else JNum (ca_numberValue ca)
           | ValueTypeBoolean \<Rightarrow> JBool (ca_boolValue ca)
           | _ \<Rightarrow> JNull))"

definition ca_json :: "ContextAttribute \<Rightarrow> json" where
  "ca_json ca = JObj [(''type'', JStr (ca_type ca)), (''value'', ca_value ca),
     (''metadata'', JObj (map (\<lambda>m. (md_name m, md_json m)) (ca_metadataVector ca)))]"

text \<open>
  Well-formed metadata and attributes: they have a type, their texts need no escaping, their numbers are printed
  exactly (six digits), and dates are whole seconds before the year 10000.
\<close>

definition scalar_type :: "ValueType \<Rightarrow> bool" where
  "scalar_type t = (t = ValueTypeString \<or> t = ValueTypeNumber \<or> t = ValueTypeBoolean \<or> t = ValueTypeNone)"

definition md_wf :: "Metadata \<Rightarrow> bool" where
  "md_wf m = (plain (md_name m) \<and> \<not> md_hidden m \<and> plain (md_type m) \<and> md_type m \<noteq> [] \<and> scalar_type (md_valueType m)
     \<and> json_plain (md_value m))"

definition date_ok :: "dbl \<Rightarrow> bool" where
  "date_ok d = (d = Fin (of_int (dbl_trunc d)) \<and> 0 \<le> dbl_trunc d \<and> dbl_trunc d < 253402300800)"

definition ca_wf :: "ContextAttribute \<Rightarrow> bool" where
  "ca_wf ca = (plain (ca_name ca) \<and> ca_name ca \<noteq> [] \<and> plain (ca_type ca) \<and> ca_type ca \<noteq> [] \<and> list_all md_wf (ca_metadataVector ca)
     \<and> (case ca_compoundValueP ca of
          Some n \<Rightarrow> cv_linked n \<and> cv_compound n \<and> json_plain (json_of_node n) \<and> ca_type ca \<noteq> DATE_TYPE
        | None \<Rightarrow> if ca_type ca = DATE_TYPE then ca_valueType ca = ValueTypeNumber \<and> date_ok (ca_numberValue ca)
                  else scalar_type (ca_valueType ca) \<and> json_plain (ca_value ca)))"

lemma plain_keys [simp]: "plain ''type''" "plain ''value''" "plain ''metadata''" "plain ''id''" "plain ''none''" "plain ''date''"
  by code_simp+

definition md_text :: "Metadata \<Rightarrow> string" where
  "md_text m = ''{'' @ commas (map member_text [(''type'', jstr (md_type m)), (''value'', jprint (md_value m))]) @ ''}''"

lemma Metadata_toJson_text:
  assumes "md_wf m"
  shows "Metadata_toJson m l = member_text (md_name m, md_text m) @ (if l then [] else '','')"
  using assms by (cases "md_valueType m")
    (simp_all add: md_wf_def scalar_type_def md_text_def md_value_def Metadata_toJson_def member_text_def JSON_STR_jstr jstr_def
      JSON_VALUE_def JSON_VALUE_NUMBER_def JSON_VALUE_BOOL_def JSON_PROP_def)

lemma md_reads: "md_wf m \<Longrightarrow> reads_member (md_name m, md_text m) (md_name m, md_json m)"
  unfolding md_text_def md_json_def md_wf_def
  by (intro member_reads reads_object) (auto intro!: member_reads reads_jprint)

lemma MetadataVector_toJson_loop_text:
  "list_all md_wf ms \<Longrightarrow> valid = rendered + length ms \<Longrightarrow>
   MetadataVector_toJson_loop valid rendered ms = commas (map (\<lambda>m. member_text (md_name m, md_text m)) ms)"
proof (induction ms arbitrary: rendered)
  case (Cons m ms)
  then have "\<not> md_hidden m" "md_wf m" by (simp_all add: md_wf_def)
  then show ?case using Cons by (cases ms) (simp_all add: Metadata_toJson_text)
qed simp

lemma validMetadatas_all: "list_all md_wf ms \<Longrightarrow> validMetadatas ms = length ms"
  by (induction ms) (simp_all add: md_wf_def)

lemma MetadataVector_toJson_text:
  "list_all md_wf ms \<Longrightarrow> MetadataVector_toJson ms True = commas (map member_text (map (\<lambda>m. (md_name m, md_text m)) ms))"
  by (simp add: MetadataVector_toJson_def validMetadatas_all MetadataVector_toJson_loop_text comp_def)

lemma metadata_reads:
  assumes "list_all md_wf ms"
  shows "reads (''{'' @ MetadataVector_toJson ms True @ ''}'') (JObj (map (\<lambda>m. (md_name m, md_json m)) ms))"
  unfolding MetadataVector_toJson_text [OF assms]
  by (rule reads_object) (use assms in \<open>auto simp: list_all2_conv_all_nth list_all_length intro: md_reads\<close>)

lemma plain_digits: "list_all isdigit s \<Longrightarrow> plain s"
  by (auto simp: plain_def list_all_iff plain_char_def isdigit_def)

lemma plain_text_simps: "plain []" "plain (c # s) \<longleftrightarrow> plain_char c \<and> plain s" "plain (s @ t) \<longleftrightarrow> plain s \<and> plain t"
  by (simp_all add: plain_def)

lemma plain_show_int [simp]: "plain (show_int i)"
  using plain_digits [of "dec (nat i)"] plain_digits [of "dec (nat (- i))"]
  by (simp add: show_int_def list_all_iff dec_isdigit plain_char_def plain_text_simps)

lemma plain_pad0 [simp]: "plain s \<Longrightarrow> plain (pad0 k s)"
proof -
  have "plain (replicate n (CHR ''0''))" for n by (induction n) (simp_all add: plain_text_simps plain_char_def)
  then show "plain s \<Longrightarrow> ?thesis" by (simp add: pad0_def plain_text_simps)
qed

lemma plain_isodate2str [simp]: "plain (isodate2str t)"
  by (simp add: isodate2str_def strftime_iso_def plain_char_def plain_text_simps)

lemma ca_value_plain: "ca_wf ca \<Longrightarrow> json_plain (ca_value ca)"
  by (auto simp: ca_wf_def ca_value_def split: option.splits if_splits)

lemma ca_value_text:
  assumes "ca_wf ca"
  shows "jprint (ca_value ca) =
     (case ca_compoundValueP ca of
        Some n \<Rightarrow> if cv_valueType n = ValueTypeObject then ''{'' @ cv_toJson Self n @ ''}'' else ''['' @ cv_toJson Self n @ '']''
      | None \<Rightarrow>
          (case ca_valueType ca of
             ValueTypeString \<Rightarrow> jstr (ca_stringValue ca)
           | ValueTypeNumber \<Rightarrow> if ca_type ca = DATE_TYPE then jstr (isodate2str (dbl_trunc (ca_numberValue ca)))
                                else toString_double (ca_numberValue ca)
           | ValueTypeBoolean \<Rightarrow> if ca_boolValue ca then ''true'' else ''false''
           | _ \<Rightarrow> ''null''))"
proof (cases "ca_compoundValueP ca")
  case None
  then show ?thesis by (simp add: ca_value_def split: ValueType.split)
next
  case (Some n)
  then have "cv_linked n" "cv_compound n" using assms by (simp_all add: ca_wf_def)
  then show ?thesis using Some cv_toJson_jprint [of n] by (auto simp: ca_value_def brackets_def cv_compound_def)
qed

definition ca_text :: "ContextAttribute \<Rightarrow> string" where
  "ca_text ca = ''{'' @ commas (map member_text [(''type'', jstr (ca_type ca)), (''value'', jprint (ca_value ca)),
      (''metadata'', ''{'' @ MetadataVector_toJson (ca_metadataVector ca) True @ ''}'')]) @ ''}''"

lemma ca_reads: "ca_wf ca \<Longrightarrow> reads (ca_text ca) (ca_json ca)"
  unfolding ca_text_def ca_json_def
  by (intro reads_object)
    (use ca_value_plain [of ca] metadata_reads [of "ca_metadataVector ca"] in \<open>auto simp: ca_wf_def intro!: member_reads reads_jprint\<close>)

lemma ca_kinds:
  assumes "ca_wf ca"
  shows "(\<exists>n. ca_compoundValueP ca = Some n \<and> cv_valueType n = ValueTypeVector)
    \<or> (\<exists>n. ca_compoundValueP ca = Some n \<and> cv_valueType n = ValueTypeObject)
    \<or> (ca_compoundValueP ca = None \<and> scalar_type (ca_valueType ca))"
  using assms by (auto simp: ca_wf_def cv_compound_def scalar_type_def split: option.splits if_splits)

lemma toJson_normalized_text:
  assumes wf: "ca_wf ca" and "request \<noteq> EntityAttributeResponse"
  shows "ContextAttribute_toJson ca l NGSI_V2_NORMALIZED request = member_text (ca_name ca, ca_text ca) @ (if l then [] else '','')"
proof -
  define md where "md = MetadataVector_toJson (ca_metadataVector ca) True"
  note texts = ContextAttribute_toJson_def ca_text_def member_text_def JSON_STR_def jstr_def JSON_VALUE_def JSON_PROP_def
      JSON_VALUE_NUMBER_def JSON_VALUE_BOOL_def
  have "ca_type ca \<noteq> []" using wf by (simp add: ca_wf_def)
  then show ?thesis
    using ca_kinds [OF wf] ca_value_text [OF wf] assms(2)
    unfolding scalar_type_def md_def [symmetric]
    by (elim disjE conjE exE; simp add: texts flip: md_def)
qed

lemma toJson_keyValues_text:
  assumes wf: "ca_wf ca"
  shows "ContextAttribute_toJson ca l NGSI_V2_KEYVALUES request
     = member_text (ca_name ca, jprint (ca_value ca)) @ (if l then [] else '','')"
  using ca_kinds [OF wf] ca_value_text [OF wf] unfolding scalar_type_def
  by (elim disjE conjE exE; simp add: ContextAttribute_toJson_def member_text_def JSON_STR_jstr)

lemma toJson_values_text:
  assumes wf: "ca_wf ca" and fmt: "fmt = NGSI_V2_VALUES \<or> fmt = NGSI_V2_UNIQUE_VALUES"
  shows "ContextAttribute_toJson ca l fmt request = jprint (ca_value ca) @ (if l then [] else '','')"
proof -
  have f: "fmt \<noteq> NGSI_V2_KEYVALUES" "fmt = NGSI_V2_VALUES \<or> fmt = NGSI_V2_KEYVALUES \<or> fmt = NGSI_V2_UNIQUE_VALUES"
    using fmt by auto
  show ?thesis using ca_kinds [OF wf] ca_value_text [OF wf] unfolding scalar_type_def
    by (elim disjE conjE exE; simp add: ContextAttribute_toJson_def JSON_STR_jstr f fmt)
qed

text \<open>The commas of a vector: both passes agree, except when equal values are left out.\<close>

lemma toJson_all_text:
  assumes "fmt \<noteq> NGSI_V2_UNIQUE_VALUES"
    and "\<And>ca l. ca \<in> set vec \<Longrightarrow> \<not> ca_hidden ca \<Longrightarrow> ContextAttribute_toJson ca l fmt NoRequest = body ca @ (if l then [] else '','')"
    and "valid = rendered + length (filter (\<lambda>ca. \<not> ca_hidden ca) vec)"
  shows "toJson_all fmt valid rendered u vec = commas (map body (filter (\<lambda>ca. \<not> ca_hidden ca) vec))"
  using assms(2,3)
proof (induction vec arbitrary: rendered)
  case (Cons ca vec)
  show ?case
  proof (cases "ca_hidden ca")
    case True
    then show ?thesis using Cons by simp
  next
    case False
    have "ContextAttribute_toJson ca l fmt NoRequest = body ca @ (if l then [] else '','')" for l
      using Cons.prems(1) False by simp
    moreover have "toJson_all fmt valid (Suc rendered) u vec = commas (map body (filter (\<lambda>ca. \<not> ca_hidden ca) vec))"
      using Cons.IH [of "Suc rendered"] Cons.prems False by simp
    ultimately show ?thesis using assms(1) False Cons.prems(2)
      by (cases "filter (\<lambda>ca. \<not> ca_hidden ca) vec") (simp_all add: ca_unique_def)
  qed
qed simp

lemma validAttributes_count: "fmt \<noteq> NGSI_V2_UNIQUE_VALUES \<Longrightarrow> validAttributes fmt u vec = length (filter (\<lambda>ca. \<not> ca_hidden ca) vec)"
  by (induction vec) (simp_all add: ca_unique_def)

lemma toJson_filtered_text:
  assumes "\<And>ca l. ca \<in> set vec \<Longrightarrow> ContextAttribute_toJson ca l fmt NoRequest = body ca @ (if l then [] else '','')"
    and "valid = rendered + length (filter (\<lambda>name. ca_lookup vec name \<noteq> None) names)"
  shows "toJson_filtered fmt valid rendered vec names = commas (map body (List.map_filter (ca_lookup vec) names))"
  using assms(2)
proof (induction names arbitrary: rendered)
  case (Cons name names)
  have l: "ca_lookup vec name = Some ca \<Longrightarrow> ca \<in> set vec" for ca
    by (induction vec) (auto split: if_splits)
  have n: "List.map_filter (ca_lookup vec) names = [] \<longleftrightarrow> filter (\<lambda>name. ca_lookup vec name \<noteq> None) names = []"
    by (induction names) (simp_all add: map_filter_simps split: option.split)
  show ?case
  proof (cases "ca_lookup vec name")
    case None
    then show ?thesis using Cons by (simp add: map_filter_simps)
  next
    case (Some ca)
    then have "toJson_filtered fmt valid (Suc rendered) vec names = commas (map body (List.map_filter (ca_lookup vec) names))"
      using Cons.IH [of "Suc rendered"] Cons.prems by simp
    then show ?thesis using assms(1) [OF l [OF Some]] Some Cons.prems n
      by (cases "List.map_filter (ca_lookup vec) names") (simp_all add: map_filter_simps)
  qed
qed (simp add: map_filter_simps)

text \<open>The attributes of an entity that are rendered: those the filter names, or all but those named id or type.\<close>

definition shown :: "string list \<Rightarrow> ContextAttribute list \<Rightarrow> ContextAttribute list" where
  "shown attrsFilter vec =
     (if attrsFilter = [] then filter (\<lambda>ca. \<not> ca_hidden ca) vec else List.map_filter (ca_lookup vec) attrsFilter)"

lemma vector_text:
  assumes "fmt \<noteq> NGSI_V2_UNIQUE_VALUES"
    and "\<And>ca l. ca \<in> set vec \<Longrightarrow> ContextAttribute_toJson ca l fmt NoRequest = body ca @ (if l then [] else '','')"
  shows "ContextAttributeVector_toJson vec fmt attrsFilter = commas (map body (shown attrsFilter vec))"
proof (cases "vec = []")
  case True
  moreover have "List.map_filter (ca_lookup []) attrsFilter = []" by (induction attrsFilter) (simp_all add: map_filter_simps)
  ultimately show ?thesis by (simp add: ContextAttributeVector_toJson_def shown_def)
next
  case False
  have "toJson_all fmt (validAttributes fmt [] vec) 0 [] vec = commas (map body (filter (\<lambda>ca. \<not> ca_hidden ca) vec))"
    using assms by (intro toJson_all_text) (simp_all add: validAttributes_count)
  moreover have "toJson_filtered fmt (length (filter (\<lambda>name. ca_lookup vec name \<noteq> None) attrsFilter)) 0 vec attrsFilter
      = commas (map body (List.map_filter (ca_lookup vec) attrsFilter))"
    using assms(2) by (intro toJson_filtered_text) simp_all
  ultimately show ?thesis using False by (simp add: ContextAttributeVector_toJson_def shown_def)
qed

text \<open>Two equal string values and a third one, rendered as unique values: the comma of the second counts the skipped one.\<close>

lemma unique_values_comma:
  "json_parse (''['' @ ContextAttributeVector_toJson
      [ContextAttribute_string ''a'' ''T'' ''x'' True, ContextAttribute_string ''b'' ''T'' ''x'' True,
       ContextAttribute_string ''c'' ''T'' ''y'' True] NGSI_V2_UNIQUE_VALUES [] @ '']'') = None"
  by code_simp

lemma erase_copies_keeps_copy:
  "map ca_name (erase_copies [] (map (\<lambda>v. ContextAttribute_string ''a'' ''T'' v True) [''1'', ''2'', ''3''])) = [''a'', ''a'']"
  by code_simp

subsection \<open>What is rendered is parsed back\<close>

lemma no_NUL_plain: "plain s \<Longrightarrow> c_str s = s"
  by (rule c_str_no_NUL) (auto simp: plain_def list_all_iff plain_char_no_NUL)

lemma json_plain_no_NULs: "json_plain v \<Longrightarrow> json_no_NUL v"
  by (rule json_plain_no_NUL)

lemma parse_metadata_back:
  assumes "md_wf m"
  shows "\<exists>m'. parseMetadata (md_json m) (Metadata_new\<lparr>md_name := md_name m\<rparr>) = (''OK'', [], m')
    \<and> md_name m' = md_name m \<and> md_type m' = md_type m \<and> md_value m' = md_value m \<and> scalar_type (md_valueType m')
    \<and> md_typeGiven m'"
  using assms unfolding md_wf_def scalar_type_def
  by (elim disjE conjE exE; simp add: md_json_def parseMetadata_def md_value_def no_NUL_plain Metadata_new_def)

definition md_same :: "Metadata \<Rightarrow> Metadata \<Rightarrow> bool" where
  "md_same m' m = (md_name m' = md_name m \<and> md_type m' = md_type m \<and> md_value m' = md_value m \<and> scalar_type (md_valueType m'))"

lemma md_same_wf: "md_same m' m \<Longrightarrow> md_wf m \<Longrightarrow> md_wf m'"
  by (simp add: md_same_def md_wf_def md_hidden_def)

lemma parse_metadatas_back:
  "list_all md_wf ms \<Longrightarrow>
   \<exists>ms'. parseMetadataVector_loop (map (\<lambda>m. (md_name m, md_json m)) ms) vec = (''OK'', [], vec @ ms') \<and> list_all2 md_same ms' ms"
proof (induction ms arbitrary: vec)
  case (Cons m ms)
  then have wf: "md_wf m" by simp
  then obtain m' where m': "parseMetadata (md_json m) (Metadata_new\<lparr>md_name := md_name m\<rparr>) = (''OK'', [], m')" "md_same m' m"
    using parse_metadata_back unfolding md_same_def by metis
  obtain ms' where "parseMetadataVector_loop (map (\<lambda>m. (md_name m, md_json m)) ms) (vec @ [m']) = (''OK'', [], (vec @ [m']) @ ms')"
    "list_all2 md_same ms' ms" using Cons.IH [of "vec @ [m']"] Cons.prems by auto
  then show ?case using m' no_NUL_plain [of "md_name m"] wf
    by (intro exI [of _ "m' # ms'"]) (simp add: md_wf_def)
qed simp

definition ca_same :: "ContextAttribute \<Rightarrow> ContextAttribute \<Rightarrow> bool" where
  "ca_same ca' ca = (ca_name ca' = ca_name ca \<and> ca_type ca' = ca_type ca \<and> ca_value ca' = ca_value ca
     \<and> list_all2 md_same (ca_metadataVector ca') (ca_metadataVector ca))"

lemma date_back: "date_ok d \<Longrightarrow> parse8601Time (isodate2str (dbl_trunc d)) = dbl_trunc d"
  by (simp add: date_ok_def parse8601Time_isodate2str)

text \<open>The value of a well-formed attribute is taken into a new attribute.\<close>

definition takes_value :: "json \<Rightarrow> ContextAttribute \<Rightarrow> ContextAttribute \<Rightarrow> bool" where
  "takes_value v ca ca' =
     (case ca_set_scalar v ca of
        Some c \<Rightarrow> ca' = c
      | None \<Rightarrow> ca_set_compound (case v of JArr _ \<Rightarrow> ValueTypeVector | _ \<Rightarrow> ValueTypeObject) v ca = Some ca')"

lemma attr_members_three:
  assumes "takes_value v (ca0\<lparr>ca_type := c_str ty, ca_typeGiven := True\<rparr>) ca1"
    and "parseMetadataVector_loop mds (ca_metadataVector ca1) = (''OK'', [], ms)"
  shows "attr_members [(''type'', JStr ty), (''value'', v), (''metadata'', JObj mds)] ca0
    = Some (''OK'', [], ca1\<lparr>ca_metadataVector := ms\<rparr>)"
  using assms by (simp add: takes_value_def parseMetadataVector_def split: option.splits)

lemma ca_value_taken:
  assumes wf: "ca_wf ca" and c0: "ca_compoundValueP ca0 = None" and ty: "ca_type ca0 = ca_type ca"
  shows "\<exists>ca1. takes_value (ca_value ca) ca0 ca1 \<and> ca_name ca1 = ca_name ca0 \<and> ca_type ca1 = ca_type ca0
    \<and> ca_metadataVector ca1 = ca_metadataVector ca0 \<and> ca_typeGiven ca1 = ca_typeGiven ca0
    \<and> (if ca_type ca = DATE_TYPE then ca_compoundValueP ca1 = None \<and> ca_stringValue ca1 = isodate2str (dbl_trunc (ca_numberValue ca))
       else ca_value ca1 = ca_value ca)"
proof (cases "ca_compoundValueP ca")
  case (Some n)
  then have n: "cv_compound n" "json_plain (json_of_node n)" "ca_type ca \<noteq> DATE_TYPE" using wf by (simp_all add: ca_wf_def)
  have v: "ca_value ca = json_of_node n" using Some by (simp add: ca_value_def)
  have c: "json_compound (json_of_node n)" using n(1) by (cases n) (auto simp: cv_compound_def json_compound_def)
  obtain n' where n': "parseContextAttributeCompoundValue None (json_of_node n) = Some n'" "json_of_node n' = json_of_node n"
    using parse_compound_correct [OF json_plain_no_NULs [OF n(2)] c] by metis
  have "ca_set_scalar (json_of_node n) ca0 = None" using c by (auto simp: json_compound_def)
  then show ?thesis using n' c0 n(3) unfolding v takes_value_def ca_set_compound_def by (auto simp: ca_value_def)
next
  case None
  show ?thesis
  proof (cases "ca_type ca = DATE_TYPE")
    case True
    then show ?thesis using None wf c0 no_NUL_plain [OF plain_isodate2str]
      by (auto simp: ca_wf_def ca_value_def takes_value_def)
  next
    case False
    then have "scalar_type (ca_valueType ca)" "json_plain (ca_value ca)" using wf None by (simp_all add: ca_wf_def)
    then show ?thesis using None False c0 ty unfolding scalar_type_def
      by (elim disjE; auto simp: ca_value_def takes_value_def no_NUL_plain)
  qed
qed

lemma parse_attribute_object_back:
  assumes wf: "ca_wf ca" and ca0: "ca_compoundValueP ca0 = None" "ca_metadataVector ca0 = []" "ca_name ca0 = ca_name ca"
  shows "\<exists>ms ca'. ca_json ca = JObj ms \<and> parseContextAttributeObject ms ca0 = Some (''OK'', [], ca') \<and> ca_same ca' ca \<and> ca_typeGiven ca'"
proof -
  let ?ca0 = "ca0\<lparr>ca_valueType := ValueTypeNone, ca_type := ca_type ca, ca_typeGiven := True\<rparr>"
  obtain ca1 where t: "takes_value (ca_value ca) ?ca0 ca1" and f: "ca_name ca1 = ca_name ca" "ca_type ca1 = ca_type ca"
    "ca_metadataVector ca1 = []" "ca_typeGiven ca1"
    and v: "if ca_type ca = DATE_TYPE then ca_compoundValueP ca1 = None \<and> ca_stringValue ca1 = isodate2str (dbl_trunc (ca_numberValue ca))
       else ca_value ca1 = ca_value ca"
    using ca_value_taken [OF wf, of ?ca0] ca0 by auto
  obtain ms where ms: "parseMetadataVector_loop (map (\<lambda>m. (md_name m, md_json m)) (ca_metadataVector ca)) [] = (''OK'', [], ms)"
    "list_all2 md_same ms (ca_metadataVector ca)"
    using parse_metadatas_back [of "ca_metadataVector ca" "[]"] wf by (auto simp: ca_wf_def)
  have ty: "c_str (ca_type ca) = ca_type ca" using wf by (simp add: ca_wf_def no_NUL_plain)
  have am: "attr_members [(''type'', JStr (ca_type ca)), (''value'', ca_value ca),
      (''metadata'', JObj (map (\<lambda>m. (md_name m, md_json m)) (ca_metadataVector ca)))] (ca0\<lparr>ca_valueType := ValueTypeNone\<rparr>)
      = Some (''OK'', [], ca1\<lparr>ca_metadataVector := ms\<rparr>)"
    by (rule attr_members_three) (use t ms f ty in simp_all)
  show ?thesis
  proof (cases "ca_type ca = DATE_TYPE")
    case True
    then have d: "ca_compoundValueP ca = None" "ca_valueType ca = ValueTypeNumber" "date_ok (ca_numberValue ca)"
      using wf by (auto simp: ca_wf_def split: option.splits)
    define i where "i = dbl_trunc (ca_numberValue ca)"
    have i: "parse8601Time (isodate2str i) = i" "i \<noteq> -1" "dbl_trunc (Fin (of_int i)) = i"
      using date_back [OF d(3)] d(3) by (simp_all add: i_def date_ok_def dbl_trunc_def)
    then show ?thesis using am f v True d ms(2) unfolding ca_json_def parseContextAttributeObject_def i_def [symmetric]
      by (simp add: ca_same_def ca_value_def flip: i_def)
  next
    case False
    have "ca_value (ca1\<lparr>ca_metadataVector := ms\<rparr>) = ca_value ca1"
      by (cases "ca_compoundValueP ca1"; cases "ca_valueType ca1") (simp_all add: ca_value_def)
    then show ?thesis using am f v False ms(2) by (simp add: ca_json_def parseContextAttributeObject_def ca_same_def)
  qed
qed

lemma parse_attribute_back:
  assumes wf: "ca_wf ca" and ci: "ci_apiVersion ci = ''v2''" "\<not> ci_uriParamOptions ci ''keyValues''"
  shows "\<exists>ca'. parseContextAttribute ci (ca_name ca, ca_json ca) ContextAttribute_new = Some (''OK'', [], ca', ci) \<and> ca_same ca' ca"
proof -
  have n: "c_str (ca_name ca) = ca_name ca" "ca_name ca \<noteq> []" using wf by (simp_all add: ca_wf_def no_NUL_plain)
  obtain ms ca' where "ca_json ca = JObj ms" "parseContextAttributeObject ms (ContextAttribute_new\<lparr>ca_name := ca_name ca\<rparr>) = Some (''OK'', [], ca')"
    "ca_same ca' ca" "ca_typeGiven ca'"
    using parse_attribute_object_back [OF wf, of "ContextAttribute_new\<lparr>ca_name := ca_name ca\<rparr>"]
    by (auto simp: ContextAttribute_new_def)
  then show ?thesis using n ci by (simp add: parseContextAttribute_def attr_finish_def ca_same_def)
qed

text \<open>C28: Rendering and parsing of an attribute in version 2 fit together: the normalized rendering of a well-formed
  attribute is JSON, and parseContextAttribute, given the member a JSON parser reads from it, accepts it without an alarm
  and builds an attribute with the same name, type, value (compound values and dates included) and metadata.\<close>

theorem attribute_roundtrip:
  assumes "ca_wf ca" and "ci_apiVersion ci = ''v2''" and "\<not> ci_uriParamOptions ci ''keyValues''"
  shows "\<exists>v ca'. json_parse (''{'' @ ContextAttribute_toJson ca True NGSI_V2_NORMALIZED NoRequest @ ''}'') = Some (JObj [(ca_name ca, v)])
    \<and> parseContextAttribute ci (ca_name ca, v) ContextAttribute_new = Some (''OK'', [], ca', ci) \<and> ca_same ca' ca"
proof -
  have "reads_member (ca_name ca, ca_text ca) (ca_name ca, ca_json ca)"
    using ca_reads [OF assms(1)] assms(1) by (intro member_reads) (auto simp: ca_wf_def)
  then have "json_parse (''{'' @ ContextAttribute_toJson ca True NGSI_V2_NORMALIZED NoRequest @ ''}'') = Some (JObj [(ca_name ca, ca_json ca)])"
    by (intro reads_object_parse [of "[(ca_name ca, ca_text ca)]"]) (simp_all add: toJson_normalized_text [OF assms(1)])
  then show ?thesis using parse_attribute_back [OF assms] by blast
qed

definition attr_demo :: ContextAttribute where
  "attr_demo = (ContextAttribute_number ''when'' ''date'' (Fin 951827696) True)
     \<lparr>ca_metadataVector := [Metadata_string ''accuracy'' ''text'' ''high'']\<rparr>"

theorem attribute_roundtrip_witness:
  "\<exists>v ca'. json_parse (''{'' @ ContextAttribute_toJson attr_demo True NGSI_V2_NORMALIZED NoRequest @ ''}'') = Some (JObj [(''when'', v)])
    \<and> parseContextAttribute (ConnectionInfo_new\<lparr>ci_apiVersion := ''v2''\<rparr>) (''when'', v) ContextAttribute_new
        = Some (''OK'', [], ca', ConnectionInfo_new\<lparr>ci_apiVersion := ''v2''\<rparr>) \<and> ca_same ca' attr_demo"
proof -
  have "ca_wf attr_demo" by code_simp
  then show ?thesis using attribute_roundtrip [of attr_demo "ConnectionInfo_new\<lparr>ci_apiVersion := ''v2''\<rparr>"]
    by (simp add: attr_demo_def ContextAttribute_number_def ContextAttribute_new_def ConnectionInfo_new_def)
qed

subsection \<open>Checks\<close>

text \<open>The check of an attribute with a compound value that has children returns the result of the compound value
  without looking at the metadata: whatever metadata the attribute has, forbidden characters and missing values
  included, the result is the same, and an attribute whose compound value is accepted is accepted.\<close>

theorem compound_metadata_unchecked:
  assumes "ca_compoundValueP ca = Some n" and "cv_childV n \<noteq> []"
  shows "ContextAttribute_check idv1 api request (ca\<lparr>ca_metadataVector := ms\<rparr>) = ContextAttribute_check idv1 api request ca
    \<and> (fst (ContextAttribute_check idv1 api request (ca\<lparr>ca_compoundValueP := None, ca_valueType := ValueTypeNone, ca_metadataVector := []\<rparr>)) = ''OK''
       \<and> cc_res (cv_check n) = ''OK'' \<longrightarrow> fst (ContextAttribute_check idv1 api request ca) = ''OK'')"
  using assms by (auto simp: ContextAttribute_check_def Let_def)

theorem compound_metadata_unchecked_witness:
  "fst (ContextAttribute_check False ''v2'' NoRequest
     (ContextAttribute_new\<lparr>ca_name := ''a'', ca_type := ''t'', ca_metadataVector := [Metadata_string ''m'' ''t'' ''<bad>''],
        ca_compoundValueP := Some (cv_add_string (CompoundValueNode_top ValueTypeObject) ValueTypeString ''k'' ''v'')\<rparr>)) = ''OK''
   \<and> fst (Metadata_check False ''v2'' (Metadata_string ''m'' ''t'' ''<bad>'')) \<noteq> ''OK''"
proof
  let ?n = "cv_add_string (CompoundValueNode_top ValueTypeObject) ValueTypeString ''k'' ''v''"
  let ?ca = "ContextAttribute_new\<lparr>ca_name := ''a'', ca_type := ''t'', ca_metadataVector := [Metadata_string ''m'' ''t'' ''<bad>''],
        ca_compoundValueP := Some ?n\<rparr>"
  have "cv_childV ?n \<noteq> []" "cc_res (cv_check ?n) = ''OK''"
    "fst (ContextAttribute_check False ''v2'' NoRequest (?ca\<lparr>ca_compoundValueP := None, ca_valueType := ValueTypeNone, ca_metadataVector := []\<rparr>)) = ''OK''"
    by code_simp+
  then show "fst (ContextAttribute_check False ''v2'' NoRequest ?ca) = ''OK''"
    using compound_metadata_unchecked [of ?ca ?n False "''v2''" NoRequest] by simp
  show "fst (Metadata_check False ''v2'' (Metadata_string ''m'' ''t'' ''<bad>'')) \<noteq> ''OK''" by code_simp
qed

text \<open>Commas of version 1 when values are left out but there are metadata: none after the type in the rendering as a
  vector element, one too many after the type in the rendering as an object.\<close>

lemma omitValue_comma:
  "json_parse (ContextAttribute_render (ContextAttribute_new\<lparr>ca_name := ''a'', ca_type := ''t'', ca_metadataVector := [Metadata_string ''m'' ''t'' ''v'']\<rparr>)
      ConnectionInfo_new NoRequest [] False True) = None"
  "json_parse (''{'' @ renderAsJsonObject (ContextAttribute_new\<lparr>ca_name := ''a'', ca_type := ''t'', ca_metadataVector := [Metadata_string ''m'' ''t'' ''v'']\<rparr>)
      ConnectionInfo_new NoRequest [] False True @ ''}'') = None"
  by code_simp+

end
