(* ===== verification/Orion_Entity.thy ===== *)
theory Orion_Entity
  imports Orion_Attribute Orion_Url Orion_Globals
begin

section \<open>Entities: apiTypesV2/Entity.cpp, apiTypesV2/EntityVector.cpp, ngsi/EntityId.cpp, ngsi/EntityIdVector.cpp,
  jsonParseV2/parseEntity.cpp, parseEntityObject.cpp, parseEntityVector.cpp\<close>

text \<open>
  Entities of version 2 of the API with their rendering, their checks and their parsers, and the identifiers of
  entities of version 1. Conventions are those of the theory of attributes. \<^verbatim>\<open>htmlEscape\<close> is given the
  characters up to the terminator.
\<close>

record Entity =
  e_id :: string
  e_type :: string
  e_isPattern :: string
  e_attributeVector :: "ContextAttribute list"
  e_errorCode :: ErrorCode
  e_servicePath :: string
  e_typeGiven :: bool
  e_renderId :: bool

definition Entity_new :: Entity where
  "Entity_new = \<lparr>e_id = [], e_type = [], e_isPattern = [], e_attributeVector = [], e_errorCode = ErrorCode_new,
     e_servicePath = [], e_typeGiven = False, e_renderId = True\<rparr>"

subsection \<open>apiTypesV2/Entity.cpp\<close>

definition entity_format :: "ConnectionInfo \<Rightarrow> RenderFormat" where
  "entity_format ci =
     (if ci_uriParamOptions ci ''keyValues'' then NGSI_V2_KEYVALUES
      else if ci_uriParamOptions ci ''values'' then NGSI_V2_VALUES
      else if ci_uriParamOptions ci ''unique'' then NGSI_V2_UNIQUE_VALUES
      else NGSI_V2_NORMALIZED)"

definition Entity_render :: "Entity \<Rightarrow> ConnectionInfo \<Rightarrow> bool \<Rightarrow> (string \<times> Entity) option" where
  "Entity_render e ci comma =
     (let renderFormat = entity_format ci;
          attrsFilter = snd (stringSplit (ci_uriParam ci ''attrs'') (CHR '','') []);
          attrs = (if e_attributeVector e \<noteq> []
                   then ContextAttributeVector_toJson (e_attributeVector e) renderFormat attrsFilter else [])
      in if ec_description (e_errorCode e) = [] \<and> (ec_error (e_errorCode e) = ''OK'' \<or> ec_error (e_errorCode e) = [])
         then Some ((if renderFormat = NGSI_V2_VALUES \<or> renderFormat = NGSI_V2_UNIQUE_VALUES
                     then ''['' @ attrs @ '']''
                     else ''{''
                          @ (if e_renderId e
                             then JSON_VALUE ''id'' (e_id e) @ '',''
                                  @ JSON_STR ''type'' @ '':'' @ (if e_type e \<noteq> [] then JSON_STR (e_type e) else JSON_STR DEFAULT_TYPE)
                                  @ (if e_attributeVector e \<noteq> [] then '','' else [])
                             else [])
                          @ attrs @ ''}'')
                    @ (if comma then '','' else []), e)
         else map_option (\<lambda>(out, ec). (out, e\<lparr>e_errorCode := ec\<rparr>)) (ErrorCode_toJson (e_errorCode e) True))"

definition Entity_check :: "bool \<Rightarrow> string \<Rightarrow> RequestType \<Rightarrow> Entity \<Rightarrow> string \<times> string list" where
  "Entity_check idv1 apiVersion request e =
     (let ilen = length (c_str (e_id e)); tlen = length (c_str (e_type e))
      in if request = EntitiesRequest \<and> e_id e = [] then (''No Entity ID'', [])
         else if MAX_ID_LEN < ilen
         then (let m = length_error ''entity id'' ilen ''max'' MAX_ID_LEN in (m, [m]))
         else if forbiddenIdChars idv1 apiVersion (Some (c_str (e_id e))) None
         then (''Invalid characters in entity id'', [''found a forbidden character in the id of an entity''])
         else if MAX_ID_LEN < tlen
         then (let m = length_error ''entity type'' tlen ''max'' MAX_ID_LEN in (m, [m]))
         else if apiVersion = ''v2'' \<and> tlen < MIN_ID_LEN
         then (let m = length_error ''entity type'' tlen ''min'' MIN_ID_LEN in (m, [m]))
         else if forbiddenIdChars idv1 apiVersion (Some (c_str (e_type e))) None
         then (''Invalid characters in entity type'', [''found a forbidden character in the type of an entity''])
         else if forbiddenChars (Some (c_str (e_isPattern e))) None
         then (''Invalid characters in entity isPattern'', [''found a forbidden character in the pattern of an entity''])
         else ContextAttributeVector_check idv1 apiVersion request (e_attributeVector e))"

text \<open>Filling moves the compound values out of the vector: both are given.\<close>

definition Entity_fill :: "Entity \<Rightarrow> string \<Rightarrow> string \<Rightarrow> string \<Rightarrow> ContextAttribute list \<Rightarrow> Entity \<times> ContextAttribute list" where
  "Entity_fill e eid type isPattern aVec =
     (let (vec, aVec) = ContextAttributeVector_fill (e_attributeVector e) aVec False
      in (e\<lparr>e_id := eid, e_type := type, e_isPattern := isPattern, e_attributeVector := vec\<rparr>, aVec))"

definition hideIdAndType :: "Entity \<Rightarrow> bool \<Rightarrow> Entity" where
  "hideIdAndType e hide = e\<lparr>e_renderId := \<not> hide\<rparr>"

subsection \<open>apiTypesV2/EntityVector.cpp\<close>

fun EntityVector_render_loop :: "Entity list \<Rightarrow> ConnectionInfo \<Rightarrow> (string \<times> Entity list) option" where
  "EntityVector_render_loop [] ci = Some ([], [])"
| "EntityVector_render_loop (e # es) ci =
     (case Entity_render e ci (es \<noteq> []) of
        None \<Rightarrow> None
      | Some (out, e) \<Rightarrow> map_option (\<lambda>(outs, es). (out @ outs, e # es)) (EntityVector_render_loop es ci))"

definition EntityVector_render :: "Entity list \<Rightarrow> ConnectionInfo \<Rightarrow> (string \<times> Entity list) option" where
  "EntityVector_render vec ci =
     (if vec = [] then Some (''[]'', vec)
      else map_option (\<lambda>(out, vec). (''['' @ out @ '']'', vec)) (EntityVector_render_loop vec ci))"

fun EntityVector_check :: "bool \<Rightarrow> string \<Rightarrow> RequestType \<Rightarrow> Entity list \<Rightarrow> string \<times> string list" where
  "EntityVector_check idv1 apiVersion request [] = (''OK'', [])"
| "EntityVector_check idv1 apiVersion request (e # vec) =
     (case Entity_check idv1 apiVersion request e of
        (res, al) \<Rightarrow> if res \<noteq> ''OK'' then (res, al @ [''invalid vector of Entity''])
                     else EntityVector_check idv1 apiVersion request vec)"

subsection \<open>ngsi/EntityId.cpp, ngsi/EntityIdVector.cpp\<close>

record EntityId =
  ei_id :: string
  ei_type :: string
  ei_isPattern :: string
  ei_servicePath :: string

definition EntityId_new :: "string \<Rightarrow> string \<Rightarrow> string \<Rightarrow> EntityId" where
  "EntityId_new eid type isPattern = \<lparr>ei_id = eid, ei_type = type, ei_isPattern = isPattern, ei_servicePath = []\<rparr>"

definition EntityId_fill :: "EntityId \<Rightarrow> string \<Rightarrow> string \<Rightarrow> string \<Rightarrow> EntityId" where
  "EntityId_fill ei eid type isPattern = ei\<lparr>ei_id := eid, ei_type := type, ei_isPattern := isPattern\<rparr>"

definition EntityId_fill_from :: "EntityId \<Rightarrow> bool \<Rightarrow> EntityId" where
  "EntityId_fill_from eid useDefaultType =
     (if useDefaultType \<and> ei_type eid = [] then eid\<lparr>ei_type := DEFAULT_TYPE\<rparr> else eid)"

definition EntityId_render :: "EntityId \<Rightarrow> string \<Rightarrow> bool \<Rightarrow> bool \<Rightarrow> string" where
  "EntityId_render ei indent comma isInVector =
     (let indent2 = (if isInVector then indent @ ''  '' else indent);
          q = [CHR 0x22]
      in (if isInVector then indent @ ''{'' @ NL else [])
         @ indent2 @ q @ ''type'' @ q @ '' : '' @ q @ htmlEscape (c_str (ei_type ei)) @ q @ '','' @ NL
         @ indent2 @ q @ ''isPattern'' @ q @ '' : '' @ q @ htmlEscape (c_str (ei_isPattern ei)) @ q @ '','' @ NL
         @ indent2 @ q @ ''id'' @ q @ '' : '' @ q @ htmlEscape (c_str (ei_id ei)) @ q
         @ (if comma \<and> \<not> isInVector then '','' @ NL
            else NL @ (if isInVector then indent @ ''}'' else []) @ (if comma then '','' @ NL else if isInVector then NL else [])))"

definition EntityId_toJson :: "EntityId \<Rightarrow> string" where
  "EntityId_toJson ei =
     JSON_VALUE ''id'' (htmlEscape (c_str (ei_id ei))) @ '','' @ JSON_VALUE ''type'' (htmlEscape (c_str (ei_type ei)))"

definition EntityId_check :: "RequestType \<Rightarrow> EntityId \<Rightarrow> string" where
  "EntityId_check request ei =
     (if ei_id ei = [] then ''empty entityId:id''
      else if \<not> isTrue (ei_isPattern ei) \<and> \<not> isFalse (ei_isPattern ei) \<and> ei_isPattern ei \<noteq> []
      then ''invalid isPattern value for entity: /'' @ ei_isPattern ei @ ''/''
      else if request = RegisterContext \<and> isTrue (ei_isPattern ei) then ''isPattern set to true for a registration''
      else ''OK'')"

fun EntityIdVector_render_loop :: "EntityId list \<Rightarrow> string \<Rightarrow> string" where
  "EntityIdVector_render_loop [] indent = []"
| "EntityIdVector_render_loop (ei # vec) indent = EntityId_render ei indent (vec \<noteq> []) True @ EntityIdVector_render_loop vec indent"

definition EntityIdVector_render :: "EntityId list \<Rightarrow> string \<Rightarrow> bool \<Rightarrow> string" where
  "EntityIdVector_render vec indent comma =
     (if vec = [] then []
      else startTag2 indent ''entities'' True True @ EntityIdVector_render_loop vec (indent @ ''  '') @ endTag_plain indent comma True)"

fun EntityIdVector_check_loop :: "RequestType \<Rightarrow> EntityId list \<Rightarrow> string \<times> string list" where
  "EntityIdVector_check_loop request [] = (''OK'', [])"
| "EntityIdVector_check_loop request (ei # vec) =
     (let res = EntityId_check request ei
      in if res \<noteq> ''OK'' then (res, [''invalid vector of EntityIds'']) else EntityIdVector_check_loop request vec)"

definition EntityIdVector_check :: "RequestType \<Rightarrow> EntityId list \<Rightarrow> string \<times> string list" where
  "EntityIdVector_check request vec =
     (if (request = DiscoverContextAvailability \<or> request = SubscribeContextAvailability
          \<or> request = UpdateContextAvailabilitySubscription \<or> request = QueryContext \<or> request = SubscribeContext) \<and> vec = []
      then (''No entities'', [''mandatory entity list missing'']) else EntityIdVector_check_loop request vec)"

definition pattern_or_false :: "string \<Rightarrow> string" where
  "pattern_or_false isPattern = (if isPattern = [] then ''false'' else isPattern)"

fun EntityIdVector_lookup :: "EntityId list \<Rightarrow> string \<Rightarrow> string \<Rightarrow> string \<Rightarrow> EntityId option" where
  "EntityIdVector_lookup [] eid type isPattern = None"
| "EntityIdVector_lookup (ei # vec) eid type isPattern =
     (if ei_id ei = eid \<and> ei_type ei = type \<and> pattern_or_false (ei_isPattern ei) = pattern_or_false isPattern then Some ei
      else EntityIdVector_lookup vec eid type isPattern)"

definition push_back_if_absent :: "EntityId list \<Rightarrow> EntityId \<Rightarrow> bool \<times> EntityId list" where
  "push_back_if_absent vec item =
     (if EntityIdVector_lookup vec (ei_id item) (ei_type item) (ei_isPattern item) = None then (True, vec @ [item])
      else (False, vec))"

definition EntityIdVector_at :: "EntityId list \<Rightarrow> nat \<Rightarrow> EntityId option" where
  "EntityIdVector_at vec ix = (if ix < length vec then Some (vec ! ix) else None)"

definition EntityIdVector_fill :: "EntityId list \<Rightarrow> Entity list \<Rightarrow> EntityId list" where
  "EntityIdVector_fill vec es = vec @ map (\<lambda>e. EntityId_new (e_id e) (e_type e) (e_isPattern e)) es"

subsection \<open>jsonParseV2/parseEntity.cpp\<close>

type_synonym entity_result = "string \<times> string list \<times> Entity \<times> ConnectionInfo"

text \<open>The way out of the parser with an error: the answer is the rendering of the entity, which is that of its error.\<close>

definition entity_error :: "string list \<Rightarrow> string \<Rightarrow> string \<Rightarrow> Entity \<Rightarrow> ConnectionInfo \<Rightarrow> entity_result option" where
  "entity_error al error description e ci =
     (let e = e\<lparr>e_errorCode := ErrorCode_fill error description\<rparr>; ci = bad_request ci
      in map_option (\<lambda>(out, e). (out, al, e, ci)) (Entity_render e ci False))"

abbreviation id_attribute_error :: string where
  "id_attribute_error \<equiv> ''invalid input, '' @ quoted ''id'' @ '' as attribute''"

fun entity_members :: "bool \<Rightarrow> (string \<times> json) list \<Rightarrow> Entity \<Rightarrow> ConnectionInfo \<Rightarrow> entity_result option" where
  "entity_members eidInURL [] e ci = Some (''OK'', [], e, ci)"
| "entity_members eidInURL ((n, v) # ms) e ci =
     (let name = c_str n
      in if name = ''id''
         then if eidInURL = False
              then (case v of
                      JStr s \<Rightarrow> entity_members eidInURL ms (e\<lparr>e_id := c_str s\<rparr>) ci
                    | _ \<Rightarrow> entity_error [''invalid JSON type for entity id''] ''BadRequest'' ''invalid JSON type for entity id'' e ci)
              else entity_error [quoted ''id'' @ '' is not a valid attribute''] ''BadRequest'' id_attribute_error e ci
         else if name = ''type''
         then (case v of
                 JStr s \<Rightarrow> entity_members eidInURL ms (e\<lparr>e_type := c_str s, e_typeGiven := True\<rparr>) ci
               | _ \<Rightarrow> entity_error [''invalid JSON type for entity type''] ''BadRequest'' ''invalid JSON type for entity type'' e ci)
         else (case parseContextAttribute ci (n, v) ContextAttribute_new of
                 None \<Rightarrow> None
               | Some (r, al, ca, ci) \<Rightarrow>
                   (let e = e\<lparr>e_attributeVector := e_attributeVector e @ [ca]\<rparr>
                    in if r \<noteq> ''OK'' then entity_error (al @ [''parse error in context attribute'']) ''BadRequest'' r e ci
                       else map_option (\<lambda>(r, al', x). (r, al @ al', x)) (entity_members eidInURL ms e ci))))"

definition parseEntity :: "ConnectionInfo \<Rightarrow> Entity \<Rightarrow> bool \<Rightarrow> entity_result option" where
  "parseEntity ci e eidInURL =
     (case json_parse (ci_payload ci) of
        None \<Rightarrow> entity_error [''JSON parse error''] ''ParseError'' ''Errors found in incoming JSON buffer'' e ci
      | Some (JObj ms) \<Rightarrow>
          if eidInURL = False \<and> ''id'' \<notin> fst ` set ms
          then entity_error [''No entity id specified''] ''BadRequest'' ''no entity id specified'' e ci
          else if eidInURL = True \<and> ''id'' \<in> fst ` set ms
          then entity_error [''entity id specified in payload''] ''BadRequest'' ''entity id specified in payload'' e ci
          else if eidInURL = True \<and> ''type'' \<in> fst ` set ms
          then entity_error [''entity type specified in payload''] ''BadRequest'' ''entity type specified in payload'' e ci
          else if eidInURL = False \<and> ms = [] then entity_error [''Empty payload''] ''BadRequest'' ''empty payload'' e ci
          else (case entity_members eidInURL ms e ci of
                  None \<Rightarrow> None
                | Some (r, al, e, ci) \<Rightarrow>
                    if r \<noteq> ''OK'' then Some (r, al, e, ci)
                    else if ms = [] then entity_error al ''BadRequest'' ''empty payload'' e ci
                    else if eidInURL = False \<and> e_id e = []
                    then entity_error (al @ [''empty entity id'']) ''BadRequest'' ''empty entity id'' e ci
                    else Some (''OK'', al, if e_typeGiven e then e else e\<lparr>e_type := DEFAULT_TYPE\<rparr>, ci))
      | Some _ \<Rightarrow> entity_error [''JSON Parse Error''] ''ParseError'' ''Error parsing incoming JSON buffer'' e ci)"

subsection \<open>jsonParseV2/parseEntityObject.cpp, parseEntityVector.cpp\<close>

fun entity_object_members :: "bool \<Rightarrow> (string \<times> json) list \<Rightarrow> Entity \<Rightarrow> ConnectionInfo \<Rightarrow> entity_result option" where
  "entity_object_members attrsAllowed [] e ci = Some (''OK'', [], e, ci)"
| "entity_object_members attrsAllowed ((n, v) # ms) e ci =
     (let name = c_str n
      in if name = ''id''
         then (case v of
                 JStr s \<Rightarrow> entity_object_members attrsAllowed ms (e\<lparr>e_id := c_str s\<rparr>) ci
               | _ \<Rightarrow> Some (''invalid JSON type for entity id'', [], e, ci))
         else if name = ''idPattern''
         then (case v of
                 JStr s \<Rightarrow> entity_object_members attrsAllowed ms (e\<lparr>e_id := c_str s, e_isPattern := ''true''\<rparr>) ci
               | _ \<Rightarrow> Some (''invalid JSON type for entity idPattern'', [], e, ci))
         else if name = ''type''
         then (case v of
                 JStr s \<Rightarrow> entity_object_members attrsAllowed ms (e\<lparr>e_type := c_str s, e_typeGiven := True\<rparr>) ci
               | _ \<Rightarrow> Some (''invalid JSON type for entity type'', [], e, ci))
         else if \<not> attrsAllowed then Some (''no attributes allowed in Entity in this payload'', [], e, ci)
         else (case parseContextAttribute ci (n, v) ContextAttribute_new of
                 None \<Rightarrow> None
               | Some (r, al, ca, ci) \<Rightarrow>
                   if r = ''OK''
                   then map_option (\<lambda>(r, al', x). (r, al @ al', x))
                          (entity_object_members attrsAllowed ms (e\<lparr>e_attributeVector := e_attributeVector e @ [ca]\<rparr>) ci)
                   else Some (r, al, e, ci)))"

definition parseEntityObject :: "ConnectionInfo \<Rightarrow> json \<Rightarrow> Entity \<Rightarrow> bool \<Rightarrow> entity_result option" where
  "parseEntityObject ci v e attrsAllowed =
     (case v of
        JObj ms \<Rightarrow>
          if ''id'' \<in> fst ` set ms \<and> ''idPattern'' \<in> fst ` set ms then Some (''both /id/ and /idPattern/ present'', [], e, ci)
          else if ''id'' \<notin> fst ` set ms \<and> ''idPattern'' \<notin> fst ` set ms then Some (''nor /id/ nor /idPattern/ present'', [], e, ci)
          else entity_object_members attrsAllowed ms e ci
      | _ \<Rightarrow> Some (''entity is not a JSON object'', [], e, ci))"

fun parseEntityVector_loop ::
  "ConnectionInfo \<Rightarrow> json list \<Rightarrow> Entity list \<Rightarrow> bool \<Rightarrow> (string \<times> string list \<times> Entity list \<times> ConnectionInfo) option" where
  "parseEntityVector_loop ci [] vec attributesAllowed = Some (''OK'', [], vec, ci)"
| "parseEntityVector_loop ci (v # vs) vec attributesAllowed =
     (case parseEntityObject ci v Entity_new attributesAllowed of
        None \<Rightarrow> None
      | Some (r, al, e, ci) \<Rightarrow>
          if r \<noteq> ''OK'' then Some (r, al, vec @ [e], ci)
          else map_option (\<lambda>(r, al', x). (r, al @ al', x)) (parseEntityVector_loop ci vs (vec @ [e]) attributesAllowed))"

definition parseEntityVector ::
  "ConnectionInfo \<Rightarrow> json \<Rightarrow> Entity list \<Rightarrow> bool \<Rightarrow> (string \<times> string list \<times> Entity list \<times> ConnectionInfo) option" where
  "parseEntityVector ci v vec attributesAllowed =
     (case v of
        JArr vs \<Rightarrow> parseEntityVector_loop ci vs vec attributesAllowed
      | _ \<Rightarrow> Some (''not a JSON array'', [], vec, ci))"

subsection \<open>Responses are JSON\<close>

definition attr_member :: "RenderFormat \<Rightarrow> ContextAttribute \<Rightarrow> string \<times> json" where
  "attr_member fmt ca = (ca_name ca, if fmt = NGSI_V2_KEYVALUES then ca_value ca else ca_json ca)"

definition attr_member_text :: "RenderFormat \<Rightarrow> ContextAttribute \<Rightarrow> string \<times> string" where
  "attr_member_text fmt ca = (ca_name ca, if fmt = NGSI_V2_KEYVALUES then jprint (ca_value ca) else ca_text ca)"

text \<open>What the rendering of an entity stands for; \<open>attrs\<close> are the attributes that are shown.\<close>

definition entity_json :: "RenderFormat \<Rightarrow> ContextAttribute list \<Rightarrow> Entity \<Rightarrow> json" where
  "entity_json fmt attrs e =
     (if fmt = NGSI_V2_VALUES then JArr (map ca_value attrs)
      else JObj ((if e_renderId e then [(''id'', JStr (e_id e)), (''type'', JStr (e_type e))] else []) @ map (attr_member fmt) attrs))"

definition attrs_of :: "ConnectionInfo \<Rightarrow> Entity \<Rightarrow> ContextAttribute list" where
  "attrs_of ci e = shown (snd (stringSplit (ci_uriParam ci ''attrs'') (CHR '','') [])) (e_attributeVector e)"

definition entity_wf :: "ConnectionInfo \<Rightarrow> Entity \<Rightarrow> bool" where
  "entity_wf ci e = (ec_description (e_errorCode e) = [] \<and> (ec_error (e_errorCode e) = ''OK'' \<or> ec_error (e_errorCode e) = [])
     \<and> plain (e_id e) \<and> plain (e_type e) \<and> e_type e \<noteq> [] \<and> list_all ca_wf (e_attributeVector e)
     \<and> (e_attributeVector e \<noteq> [] \<longrightarrow> attrs_of ci e \<noteq> []))"

definition entity_text :: "RenderFormat \<Rightarrow> ContextAttribute list \<Rightarrow> Entity \<Rightarrow> string" where
  "entity_text fmt attrs e =
     (if fmt = NGSI_V2_VALUES then ''['' @ commas (map (jprint \<circ> ca_value) attrs) @ '']''
      else ''{'' @ commas (map member_text
             ((if e_renderId e then [(''id'', jstr (e_id e)), (''type'', jstr (e_type e))] else []) @ map (attr_member_text fmt) attrs)) @ ''}'')"

lemma ca_lookup_in: "ca_lookup vec name = Some ca \<Longrightarrow> ca \<in> set vec"
  by (induction vec) (auto split: if_splits)

lemma shown_subset: "set (shown names vec) \<subseteq> set vec"
  by (auto simp: shown_def List.map_filter_def dest: ca_lookup_in)

lemma attr_member_reads: "ca_wf ca \<Longrightarrow> reads_member (attr_member_text fmt ca) (attr_member fmt ca)"
  using ca_reads [of ca] reads_jprint [OF ca_value_plain [of ca]] unfolding attr_member_def attr_member_text_def
  by (intro member_reads) (auto simp: ca_wf_def)

lemma entity_text_reads:
  assumes "plain (e_id e)" "plain (e_type e)" "list_all ca_wf attrs"
  shows "reads (entity_text fmt attrs e) (entity_json fmt attrs e)"
proof -
  have a: "list_all2 reads_member (map (attr_member_text fmt) attrs) (map (attr_member fmt) attrs)"
    using assms(3) by (auto simp: list_all2_conv_all_nth list_all_length attr_member_reads)
  have "list_all2 reads (map (jprint \<circ> ca_value) attrs) (map ca_value attrs)"
    using assms(3) by (auto simp: list_all2_conv_all_nth list_all_length intro: reads_jprint ca_value_plain)
  then have "reads (entity_text fmt attrs e) (entity_json fmt attrs e)" if "fmt = NGSI_V2_VALUES"
    unfolding entity_text_def entity_json_def using that by (simp only: refl if_True reads_array)
  moreover have "reads (entity_text fmt attrs e) (entity_json fmt attrs e)" if "fmt \<noteq> NGSI_V2_VALUES"
    unfolding entity_text_def entity_json_def using that assms(1,2) a
    by (simp only: if_False, intro reads_object) (auto intro!: list_all2_appendI member_reads)
  ultimately show ?thesis by blast
qed

lemma JSON_pair: "JSON_STR k @ CHR '':'' # JSON_STR s @ r = member_text (k, jstr s) @ r"
  "JSON_STR k @ CHR '':'' # JSON_STR s = member_text (k, jstr s)"
  by (simp_all add: member_text_def JSON_STR_jstr)

lemma toJson_member_text:
  assumes "ca_wf ca" and "fmt = NGSI_V2_NORMALIZED \<or> fmt = NGSI_V2_KEYVALUES"
  shows "ContextAttribute_toJson ca l fmt NoRequest = member_text (attr_member_text fmt ca) @ (if l then [] else '','')"
  using assms(2) toJson_normalized_text [OF assms(1), of NoRequest l] toJson_keyValues_text [OF assms(1), of l NoRequest]
  by (elim disjE; simp add: attr_member_text_def)

lemma Entity_render_text:
  assumes wf: "entity_wf ci e" and fmt: "entity_format ci \<noteq> NGSI_V2_UNIQUE_VALUES"
  shows "Entity_render e ci comma = Some (entity_text (entity_format ci) (attrs_of ci e) e @ (if comma then '','' else []), e)"
proof -
  define fmt where "fmt = entity_format ci"
  define attrs where "attrs = attrs_of ci e"
  define vec where "vec = e_attributeVector e"
  define names where "names = snd (stringSplit (ci_uriParam ci ''attrs'') (CHR '','') [])"
  have s: "attrs = shown names vec" by (simp add: attrs_def attrs_of_def vec_def names_def)
  have cawf: "ca \<in> set vec \<Longrightarrow> ca_wf ca" for ca using wf by (simp add: entity_wf_def list_all_iff vec_def)
  have e: "ec_description (e_errorCode e) = []" "ec_error (e_errorCode e) = ''OK'' \<or> ec_error (e_errorCode e) = []"
    "e_type e \<noteq> []" "vec \<noteq> [] \<Longrightarrow> attrs \<noteq> []" using wf by (simp_all add: entity_wf_def vec_def attrs_def)
  have nil: "vec = [] \<Longrightarrow> attrs = []" using s shown_subset [of names vec] by simp
  consider "fmt = NGSI_V2_VALUES" | "fmt = NGSI_V2_NORMALIZED \<or> fmt = NGSI_V2_KEYVALUES"
    using fmt unfolding fmt_def entity_format_def by metis
  then show ?thesis
  proof cases
    case 1
    have "ContextAttributeVector_toJson vec fmt names = commas (map (jprint \<circ> ca_value) attrs)"
      unfolding s using 1 by (intro vector_text) (simp_all add: toJson_values_text cawf)
    then show ?thesis unfolding Entity_render_def Let_def fmt_def [symmetric] vec_def [symmetric] names_def [symmetric] attrs_def [symmetric]
      using 1 e nil by (cases "vec = []") (simp_all add: entity_text_def)
  next
    case 2
    have t: "ContextAttributeVector_toJson vec fmt names = commas (map (\<lambda>ca. member_text (attr_member_text fmt ca)) attrs)"
      unfolding s using 2 by (intro vector_text) (auto simp: toJson_member_text cawf)
    have f: "\<not> (fmt = NGSI_V2_VALUES \<or> fmt = NGSI_V2_UNIQUE_VALUES)" using 2 by auto
    show ?thesis
    proof (cases "vec = []")
      case True
      then show ?thesis unfolding Entity_render_def Let_def fmt_def [symmetric] vec_def [symmetric] names_def [symmetric] attrs_def [symmetric]
        using f e nil by (simp add: entity_text_def JSON_VALUE_member JSON_pair)
    next
      case False
      then obtain ca cas where "attrs = ca # cas" using e(4) by (cases attrs) auto
      then show ?thesis unfolding Entity_render_def Let_def fmt_def [symmetric] vec_def [symmetric] names_def [symmetric] attrs_def [symmetric]
        using f e t False by (simp add: entity_text_def JSON_VALUE_member JSON_pair comp_def)
    qed
  qed
qed

lemma EntityVector_render_text:
  "list_all (entity_wf ci) es \<Longrightarrow> entity_format ci \<noteq> NGSI_V2_UNIQUE_VALUES \<Longrightarrow>
   EntityVector_render_loop es ci = Some (commas (map (\<lambda>e. entity_text (entity_format ci) (attrs_of ci e) e) es), es)"
proof (induction es)
  case (Cons e es)
  then show ?case by (cases es) (simp_all add: Entity_render_text)
qed simp

text \<open>C22: The answer to a query of entities in version 2 is JSON: for well-formed entities, with the options normalized,
  keyValues or values and with or without a list of attributes, it is the array of the entities, each the object of its
  identifier, type and shown attributes (those of the list, in its order, or all but those named id or type) or the array
  of their values. The condition is that of an entity with attributes at least one is shown.\<close>

theorem entities_render:
  assumes "list_all (entity_wf ci) es" and "entity_format ci \<noteq> NGSI_V2_UNIQUE_VALUES"
  shows "\<exists>out. EntityVector_render es ci = Some (out, es)
    \<and> json_parse out = Some (JArr (map (\<lambda>e. entity_json (entity_format ci) (attrs_of ci e) e) es))"
proof -
  let ?t = "\<lambda>e. entity_text (entity_format ci) (attrs_of ci e) e"
  have "reads (?t e) (entity_json (entity_format ci) (attrs_of ci e) e)" if "entity_wf ci e" for e
    using that shown_subset unfolding entity_wf_def attrs_of_def by (intro entity_text_reads) (auto simp: list_all_iff)
  then have "json_parse (''['' @ commas (map ?t es) @ '']'') = Some (JArr (map (\<lambda>e. entity_json (entity_format ci) (attrs_of ci e) e) es))"
    using assms(1) by (intro reads_parse reads_array) (simp add: list_all2_conv_all_nth list_all_length)
  then show ?thesis using EntityVector_render_text [OF assms] by (cases "es = []") (simp_all add: EntityVector_render_def)
qed

definition ci_v2 :: ConnectionInfo where
  "ci_v2 = ConnectionInfo_new\<lparr>ci_apiVersion := ''v2''\<rparr>"

definition room_demo :: Entity where
  "room_demo = Entity_new\<lparr>e_id := ''Room1'', e_type := ''Room'',
     e_attributeVector := [ContextAttribute_number ''temperature'' ''Number'' (Fin 23) True,
       ContextAttribute_string ''id'' ''Text'' ''x'' True, ContextAttribute_bool ''open'' ''Boolean'' True True]\<rparr>"

lemma room_demo_wf: "entity_wf ci_v2 room_demo"
proof -
  have "num_plain (Fin 23)" using num_plain_int [of 23] by simp
  then have n: "ca_wf (ContextAttribute_number ''temperature'' ''Number'' (Fin 23) True)"
    by (simp add: ca_wf_def ContextAttribute_number_def ContextAttribute_new_def scalar_type_def ca_value_def plain_def plain_char_def
        del: num_plain.simps)
  have o: "ca_wf (ContextAttribute_string ''id'' ''Text'' ''x'' True)" "ca_wf (ContextAttribute_bool ''open'' ''Boolean'' True True)"
    by code_simp+
  have "attrs_of ci_v2 room_demo \<noteq> []" "plain (e_id room_demo)" "plain (e_type room_demo)" by code_simp+
  then show ?thesis using n o by (simp add: entity_wf_def room_demo_def Entity_new_def ErrorCode_new_def)
qed

theorem entities_render_witness:
  "\<exists>out. EntityVector_render [room_demo] ci_v2 = Some (out, [room_demo])
    \<and> json_parse out = Some (JArr [entity_json NGSI_V2_NORMALIZED (attrs_of ci_v2 room_demo) room_demo])"
proof -
  have "entity_format ci_v2 = NGSI_V2_NORMALIZED" by code_simp
  then show ?thesis using entities_render [of ci_v2 "[room_demo]"] room_demo_wf by simp
qed

text \<open>When the list of attributes names none that the entity has, or all are named id or type, the comma after the type is
  followed by the closing brace.\<close>

lemma no_attribute_shown_comma:
  "(case Entity_render (room_demo\<lparr>e_attributeVector := [ContextAttribute_string ''id'' ''Text'' ''x'' True]\<rparr>) ci_v2 False of
      Some (out, _) \<Rightarrow> json_parse out = None | None \<Rightarrow> False)"
  "(case Entity_render room_demo (ci_v2\<lparr>ci_uriParam := (\<lambda>_. ''humidity'')\<rparr>) False of
      Some (out, _) \<Rightarrow> json_parse out = None | None \<Rightarrow> False)"
  by code_simp+

subsection \<open>An entity that is rendered can be posted\<close>

lemma entity_members_back:
  assumes ci: "ci_apiVersion ci = ''v2''" "\<not> ci_uriParamOptions ci ''keyValues''"
  shows "list_all ca_wf cas \<Longrightarrow> list_all (\<lambda>ca. \<not> ca_hidden ca) cas \<Longrightarrow>
    \<exists>cas'. entity_members u (map (attr_member NGSI_V2_NORMALIZED) cas) e ci
      = Some (''OK'', [], e\<lparr>e_attributeVector := e_attributeVector e @ cas'\<rparr>, ci) \<and> list_all2 ca_same cas' cas"
proof (induction cas arbitrary: e)
  case (Cons ca cas)
  then have wf: "ca_wf ca" and h: "\<not> ca_hidden ca" by simp_all
  have n: "c_str (ca_name ca) = ca_name ca" using wf by (simp add: ca_wf_def no_NUL_plain)
  obtain ca' where p: "parseContextAttribute ci (ca_name ca, ca_json ca) ContextAttribute_new = Some (''OK'', [], ca', ci)" "ca_same ca' ca"
    using parse_attribute_back [OF wf ci] by blast
  obtain cas' where c: "entity_members u (map (attr_member NGSI_V2_NORMALIZED) cas) (e\<lparr>e_attributeVector := e_attributeVector e @ [ca']\<rparr>) ci
      = Some (''OK'', [], e\<lparr>e_attributeVector := (e_attributeVector e @ [ca']) @ cas'\<rparr>, ci)" "list_all2 ca_same cas' cas"
    using Cons.IH [of "e\<lparr>e_attributeVector := e_attributeVector e @ [ca']\<rparr>"] Cons.prems by auto
  have "entity_members u (map (attr_member NGSI_V2_NORMALIZED) (ca # cas)) e ci
      = Some (''OK'', [], e\<lparr>e_attributeVector := e_attributeVector e @ (ca' # cas')\<rparr>, ci)"
    using p(1) c(1) h by (simp add: attr_member_def n ca_hidden_def)
  then show ?case using p(2) c(2) by (intro exI [of _ "ca' # cas'"]) simp
qed simp



end
