(* ===== verification/Orion_Mongo.thy ===== *)
theory Orion_Mongo
  imports Orion_Attribute
begin

section \<open>Reading documents: mongoBackend/safeMongo.cpp, dbFieldEncoding.h, Metadata of a document\<close>

text \<open>
  A document is the list of its fields in order; a field is found at its first occurrence. The getters of
  \<^verbatim>\<open>safeMongo.cpp\<close> never fail: a field that is missing or of another type is logged and gives a
  fixed value. The driver's \<^verbatim>\<open>embeddedObject\<close> throws on an element that is neither an object nor an
  array, which is \<^const>\<open>None\<close> here; the fields of an array are its elements under their indices.
\<close>

type_synonym doc = "(string \<times> bson) list"

definition hasField :: "doc \<Rightarrow> string \<Rightarrow> bool" where
  "hasField b field = (map_of b field \<noteq> None)"

definition getField :: "doc \<Rightarrow> string \<Rightarrow> bson option" where
  "getField b field = map_of b field"

definition getObjectField :: "doc \<Rightarrow> string \<Rightarrow> doc" where
  "getObjectField b field = (case map_of b field of Some (BObj d) \<Rightarrow> d | _ \<Rightarrow> [])"

definition getStringField :: "doc \<Rightarrow> string \<Rightarrow> string" where
  "getStringField b field = (case map_of b field of Some (BStr s) \<Rightarrow> s | _ \<Rightarrow> [])"

definition getIntField :: "doc \<Rightarrow> string \<Rightarrow> int" where
  "getIntField b field = (case map_of b field of Some (BInt i) \<Rightarrow> i | _ \<Rightarrow> - 1)"

definition getLongField :: "doc \<Rightarrow> string \<Rightarrow> int" where
  "getLongField b field = (case map_of b field of Some (BLong i) \<Rightarrow> i | _ \<Rightarrow> - 1)"

definition getIntOrLongFieldAsLong :: "doc \<Rightarrow> string \<Rightarrow> int" where
  "getIntOrLongFieldAsLong b field =
     (case map_of b field of Some (BLong i) \<Rightarrow> i | Some (BInt i) \<Rightarrow> i | _ \<Rightarrow> - 1)"

definition getBoolField :: "doc \<Rightarrow> string \<Rightarrow> bool" where
  "getBoolField b field = (case map_of b field of Some (BBool v) \<Rightarrow> v | _ \<Rightarrow> False)"

fun array_fields :: "nat \<Rightarrow> bson list \<Rightarrow> doc" where
  "array_fields i [] = []"
| "array_fields i (e # es) = (dec i, e) # array_fields (Suc i) es"

fun embeddedObject :: "bson option \<Rightarrow> doc option" where
  "embeddedObject (Some (BObj d)) = Some d"
| "embeddedObject (Some (BArr es)) = Some (array_fields 0 es)"
| "embeddedObject _ = None"

text \<open>The documents that are the elements of a document, in order.\<close>

fun embeddedObjects :: "doc \<Rightarrow> doc list option" where
  "embeddedObjects [] = Some []"
| "embeddedObjects ((k, e) # es) =
     (case embeddedObject (Some e) of
        None \<Rightarrow> None
      | Some d \<Rightarrow> map_option (Cons d) (embeddedObjects es))"

subsection \<open>The two parts of the name of a field\<close>

fun find_sep :: "string \<Rightarrow> (string \<times> string) option" where
  "find_sep [] = None"
| "find_sep [c] = None"
| "find_sep (c # d # cs) =
     (if c = CHR ''_'' \<and> d = CHR ''_'' then Some ([], cs)
      else map_option (map_prod (Cons c) id) (find_sep (d # cs)))"

definition basePart :: "string \<Rightarrow> string" where
  "basePart name = (case find_sep name of None \<Rightarrow> name | Some (b, i) \<Rightarrow> b)"

definition idPart :: "string \<Rightarrow> string" where
  "idPart name = (case find_sep name of None \<Rightarrow> [] | Some (b, i) \<Rightarrow> i)"

subsection \<open>The metadata in a document\<close>

definition Metadata_bson :: "doc \<Rightarrow> Metadata" where
  "Metadata_bson mdB =
     (let type = if hasField mdB ''type'' then getStringField mdB ''type'' else [];
          m = Metadata_new\<lparr>md_name := getStringField mdB ''name'', md_type := type,
                md_typeGiven := (if type = [] then False else True)\<rparr>
      in case getField mdB ''value'' of
           Some (BStr s) \<Rightarrow> m\<lparr>md_valueType := ValueTypeString, md_stringValue := getStringField mdB ''value''\<rparr>
         | Some (BNum d) \<Rightarrow> m\<lparr>md_valueType := ValueTypeNumber, md_numberValue := d\<rparr>
         | Some (BBool v) \<Rightarrow> m\<lparr>md_valueType := ValueTypeBoolean, md_boolValue := getBoolField mdB ''value''\<rparr>
         | Some BNull \<Rightarrow> m\<lparr>md_valueType := ValueTypeNone\<rparr>
         | _ \<Rightarrow> m\<lparr>md_valueType := ValueTypeUnknown\<rparr>)"

subsection \<open>Lemmas\<close>

lemma hasField_Nil [simp]: "\<not> hasField [] k"
  by (simp add: hasField_def)

lemma hasField_Cons [simp]: "hasField ((k, v) # d) k' \<longleftrightarrow> k = k' \<or> hasField d k'"
  by (auto simp: hasField_def)

lemma hasField_append [simp]: "hasField (d @ e) k \<longleftrightarrow> hasField d k \<or> hasField e k"
  by (auto simp: hasField_def map_add_def split: option.splits)

lemma getField_Nil [simp]: "getField [] k = None"
  by (simp add: getField_def)

lemma getField_Cons [simp]: "getField ((k, v) # d) k' = (if k = k' then Some v else getField d k')"
  by (simp add: getField_def)

lemma getField_append [simp]: "getField (d @ e) k = (case getField d k of None \<Rightarrow> getField e k | Some v \<Rightarrow> Some v)"
  by (simp add: getField_def map_add_def split: option.splits)

lemma hasField_getField: "hasField d k \<longleftrightarrow> getField d k \<noteq> None"
  by (simp add: hasField_def getField_def)

lemma getStringField_getField: "getStringField d k = (case getField d k of Some (BStr s) \<Rightarrow> s | _ \<Rightarrow> [])"
  by (simp add: getStringField_def getField_def)

lemma getBoolField_getField: "getBoolField d k = (case getField d k of Some (BBool s) \<Rightarrow> s | _ \<Rightarrow> False)"
  by (simp add: getBoolField_def getField_def)

lemma getIntField_getField: "getIntField d k = (case getField d k of Some (BInt s) \<Rightarrow> s | _ \<Rightarrow> - 1)"
  by (simp add: getIntField_def getField_def)

lemmas field_simps_doc = hasField_getField getStringField_getField getBoolField_getField getIntField_getField

lemma embeddedObjects_array: "embeddedObjects (array_fields i (map BObj ds)) = Some ds"
  by (induction ds arbitrary: i) simp_all

lemma embeddedObjects_length: "embeddedObjects d = Some ds \<Longrightarrow> length ds = length d"
  by (induction d arbitrary: ds rule: embeddedObjects.induct) (auto split: option.splits)

lemma find_sep_splits: "find_sep s = Some (b, i) \<Longrightarrow> s = b @ ''__'' @ i"
  by (induction s arbitrary: b i rule: find_sep.induct) (auto split: if_splits)

text \<open>
  An attribute name without two underscores in a row, and not ending in one, is read back from the name of the field,
  and so is the identifier.
\<close>

lemma find_sep_append:
  "find_sep b = None \<Longrightarrow> b = [] \<or> last b \<noteq> CHR ''_'' \<Longrightarrow> find_sep (b @ ''__'' @ i) = Some (b, i)"
proof (induction b rule: find_sep.induct)
  case (3 c d cs)
  then have "find_sep ((d # cs) @ ''__'' @ i) = Some (d # cs, i)" by (auto split: if_splits)
  then show ?case using 3 by (auto split: if_splits)
qed auto

lemma effective_name_parts:
  assumes "find_sep b = None" "b = [] \<or> last b \<noteq> CHR ''_''"
  shows "basePart (b @ ''__'' @ i) = b \<and> idPart (b @ ''__'' @ i) = i \<and> basePart b = b \<and> idPart b = []"
  using assms find_sep_append [OF assms] by (simp add: basePart_def idPart_def)

end
