(* ===== verification/Orion_Element.thy ===== *)
theory Orion_Element
  imports Orion_Entity Orion_Mongo
begin

section \<open>Context elements and their responses: ngsi/ContextElement.cpp, ngsi/ContextElementVector.cpp,
  ngsi/ContextElementResponse.cpp, ngsi/ContextElementResponseVector.cpp, ngsi/AttributeDomainName.cpp\<close>

text \<open>
  The records have the members of the structs, vectors are lists. Members that a constructor leaves uninitialised are
  zero. A copy of a vector of attributes takes the compound values away from its source, so the operations that copy
  give both. A rendering can change what it renders (copies of attributes are erased, quotes escaped), so it gives the
  object back. \<^const>\<open>None\<close> is the use of a null pointer, a write out of bounds, or an exception of the
  driver that nothing catches.
\<close>

subsection \<open>Identifiers and domain names\<close>

definition EntityId_toString :: "EntityId \<Rightarrow> bool \<Rightarrow> string \<Rightarrow> string" where
  "EntityId_toString ei useIsPattern delimiter =
     ei_id ei @ delimiter @ ei_type ei @ (if useIsPattern then delimiter @ ei_isPattern ei else [])"

definition isPatternIsTrue :: "EntityId \<Rightarrow> bool" where
  "isPatternIsTrue ei = isTrue (ei_isPattern ei)"

definition EntityId_equal :: "EntityId \<Rightarrow> EntityId \<Rightarrow> bool" where
  "EntityId_equal ei e =
     (if ei_id e \<noteq> ei_id ei then False
      else if ei_type e \<noteq> ei_type ei then False
      else isPatternIsTrue e = isPatternIsTrue ei)"

definition AttributeDomainName_render :: "string \<Rightarrow> string \<Rightarrow> bool \<Rightarrow> string" where
  "AttributeDomainName_render s indent comma =
     (if s = [] then [] else valueTag1 indent ''attributeDomainName'' s comma False False)"

definition AttributeDomainName_check :: "string \<Rightarrow> string" where
  "AttributeDomainName_check s = ''OK''"

subsection \<open>Context elements\<close>

record ContextElement =
  ce_entityId :: EntityId
  ce_attributeDomainName :: string
  contextAttributeVector :: "ContextAttribute list"
  ce_domainMetadataVector :: "Metadata list"
  creDate :: dbl
  modDate :: dbl
  ce_providingApplicationList :: "ProvidingApplication list"

definition ContextElement_of :: "string \<Rightarrow> string \<Rightarrow> string \<Rightarrow> ContextElement" where
  "ContextElement_of eid type isPattern =
     \<lparr>ce_entityId = EntityId_new eid type isPattern, ce_attributeDomainName = [], contextAttributeVector = [],
      ce_domainMetadataVector = [], creDate = Fin 0, modDate = Fin 0, ce_providingApplicationList = []\<rparr>"

definition ContextElement_new :: ContextElement where
  "ContextElement_new = ContextElement_of [] [] ''false''"

definition ContextElement_entity :: "EntityId \<Rightarrow> ContextElement" where
  "ContextElement_entity ei = (ContextElement_of [] [] [])\<lparr>ce_entityId := EntityId_fill_from ei False\<rparr>"

definition ContextElement_render ::
    "ContextElement \<Rightarrow> ConnectionInfo \<Rightarrow> RequestType \<Rightarrow> string \<Rightarrow> bool \<Rightarrow> bool \<Rightarrow> string \<times> ContextElement" where
  "ContextElement_render ce ci request indent comma omitAttributeValues =
     (let attributeDomainNameRendered = (ce_attributeDomainName ce \<noteq> []);
          contextAttributeVectorRendered = (contextAttributeVector ce \<noteq> []);
          domainMetadataVectorRendered = (ce_domainMetadataVector ce \<noteq> []);
          commaAfterContextAttributeVector = domainMetadataVectorRendered;
          commaAfterAttributeDomainName = (domainMetadataVectorRendered \<or> contextAttributeVectorRendered);
          commaAfterEntityId = (commaAfterAttributeDomainName \<or> attributeDomainNameRendered);
          (attrs, vec) = ContextAttributeVector_render (contextAttributeVector ce) ci request (indent @ ''  '')
                           commaAfterContextAttributeVector omitAttributeValues False
      in (startTag2 indent ''contextElement'' False (request \<noteq> UpdateContext)
          @ EntityId_render (ce_entityId ce) (indent @ ''  '') commaAfterEntityId False
          @ AttributeDomainName_render (ce_attributeDomainName ce) (indent @ ''  '') commaAfterAttributeDomainName
          @ attrs
          @ MetadataVector_render (ce_domainMetadataVector ce) (indent @ ''  '') False
          @ endTag_plain indent comma False,
          ce\<lparr>contextAttributeVector := vec\<rparr>))"

definition ContextElement_toJson :: "ContextElement \<Rightarrow> RenderFormat \<Rightarrow> string list \<Rightarrow> string" where
  "ContextElement_toJson ce renderFormat attrsFilter =
     (if renderFormat \<noteq> NGSI_V2_VALUES then EntityId_toJson (ce_entityId ce) @ '','' else [])
     @ (if contextAttributeVector ce \<noteq> []
        then ContextAttributeVector_toJson (contextAttributeVector ce) renderFormat attrsFilter else [])"

fun getAttribute_loop :: "ContextAttribute list \<Rightarrow> string \<Rightarrow> ContextAttribute option" where
  "getAttribute_loop [] attrName = None"
| "getAttribute_loop (ca # cas) attrName = (if ca_name ca = attrName then Some ca else getAttribute_loop cas attrName)"

definition getAttribute :: "ContextElement \<Rightarrow> string \<Rightarrow> ContextAttribute option" where
  "getAttribute ce attrName = getAttribute_loop (contextAttributeVector ce) attrName"

definition ContextElement_check :: "bool \<Rightarrow> string \<Rightarrow> RequestType \<Rightarrow> ContextElement \<Rightarrow> string \<times> string list" where
  "ContextElement_check idv1 apiVersion request ce =
     (let res = EntityId_check request (ce_entityId ce)
      in if res \<noteq> ''OK'' then (res, [])
         else if AttributeDomainName_check (ce_attributeDomainName ce) \<noteq> ''OK''
         then (AttributeDomainName_check (ce_attributeDomainName ce), [])
         else let r = ContextAttributeVector_check idv1 apiVersion request (contextAttributeVector ce)
              in if fst r \<noteq> ''OK'' then r
                 else let m = MetadataVector_check idv1 apiVersion (ce_domainMetadataVector ce)
                      in if fst m \<noteq> ''OK'' then m else (''OK'', []))"

text \<open>Filling from another element: the result, and the other one, which loses its compound values. The dates are left as they are.\<close>

definition ContextElement_fill :: "ContextElement \<Rightarrow> ContextElement \<Rightarrow> bool \<Rightarrow> ContextElement \<times> ContextElement" where
  "ContextElement_fill this ce useDefaultType =
     (let (vec, src) = ContextAttributeVector_fill (contextAttributeVector this) (contextAttributeVector ce) useDefaultType
      in (this\<lparr>ce_entityId := EntityId_fill_from (ce_entityId ce) useDefaultType,
               ce_attributeDomainName := ce_attributeDomainName ce,
               contextAttributeVector := vec,
               ce_domainMetadataVector := MetadataVector_fill (ce_domainMetadataVector this) (ce_domainMetadataVector ce),
               ce_providingApplicationList := ce_providingApplicationList ce\<rparr>,
          ce\<lparr>contextAttributeVector := src\<rparr>))"

fun ContextElementVector_render_loop ::
    "ContextElement list \<Rightarrow> ConnectionInfo \<Rightarrow> RequestType \<Rightarrow> string \<Rightarrow> string \<times> ContextElement list" where
  "ContextElementVector_render_loop [] ci request indent = ([], [])"
| "ContextElementVector_render_loop (ce # vec) ci request indent =
     (let (out, ce) = ContextElement_render ce ci request indent (vec \<noteq> []) False;
          (outs, vec) = ContextElementVector_render_loop vec ci request indent
      in (out @ outs, ce # vec))"

definition ContextElementVector_render ::
    "ContextElement list \<Rightarrow> ConnectionInfo \<Rightarrow> RequestType \<Rightarrow> string \<Rightarrow> bool \<Rightarrow> string \<times> ContextElement list" where
  "ContextElementVector_render vec ci request indent comma =
     (if vec = [] then ([], vec)
      else let (out, vec) = ContextElementVector_render_loop vec ci request (indent @ ''  '')
           in (startTag2 indent ''contextElements'' True True @ out @ endTag_plain indent comma True, vec))"

fun ContextElementVector_check_loop :: "bool \<Rightarrow> string \<Rightarrow> RequestType \<Rightarrow> ContextElement list \<Rightarrow> string \<times> string list" where
  "ContextElementVector_check_loop idv1 apiVersion request [] = (''OK'', [])"
| "ContextElementVector_check_loop idv1 apiVersion request (ce # vec) =
     (let r = ContextElement_check idv1 apiVersion request ce
      in if fst r \<noteq> ''OK'' then r else ContextElementVector_check_loop idv1 apiVersion request vec)"

definition ContextElementVector_check :: "bool \<Rightarrow> string \<Rightarrow> RequestType \<Rightarrow> ContextElement list \<Rightarrow> string \<times> string list" where
  "ContextElementVector_check idv1 apiVersion request vec =
     (if request = UpdateContext \<and> vec = [] then (''No context elements'', [])
      else ContextElementVector_check_loop idv1 apiVersion request vec)"

fun ContextElementVector_lookup :: "ContextElement list \<Rightarrow> EntityId \<Rightarrow> ContextElement option" where
  "ContextElementVector_lookup [] ei = None"
| "ContextElementVector_lookup (ce # vec) ei =
     (if ei_id (ce_entityId ce) = ei_id ei \<and> ei_type (ce_entityId ce) = ei_type ei then Some ce
      else ContextElementVector_lookup vec ei)"

subsection \<open>Responses\<close>

record ContextElementResponse =
  contextElement :: ContextElement
  statusCode :: StatusCode
  cer_prune :: bool

definition ContextElementResponse_new :: ContextElementResponse where
  "ContextElementResponse_new =
     \<lparr>contextElement = ContextElement_new, statusCode = StatusCode_new ''statusCode'', cer_prune = False\<rparr>"

definition ContextElementResponse_attr ::
    "EntityId \<Rightarrow> ContextAttribute option \<Rightarrow> ContextElementResponse \<times> ContextAttribute option" where
  "ContextElementResponse_attr ei aP =
     (let ce = ContextElement_new\<lparr>ce_entityId := EntityId_fill_from ei False\<rparr>
      in case aP of
           None \<Rightarrow> (ContextElementResponse_new\<lparr>contextElement := ce\<rparr>, None)
         | Some ca \<Rightarrow>
             (let (c, src) = ContextAttribute_copy ca False
              in (ContextElementResponse_new\<lparr>contextElement := ce\<lparr>contextAttributeVector := [c]\<rparr>\<rparr>, Some src)))"

definition ContextElementResponse_fill ::
    "ContextElementResponse \<Rightarrow> ContextElementResponse \<Rightarrow> ContextElementResponse \<times> ContextElementResponse" where
  "ContextElementResponse_fill this cer =
     (let (ce, src) = ContextElement_fill (contextElement this) (contextElement cer) False
      in (this\<lparr>contextElement := ce, statusCode := StatusCode_fill_from (statusCode this) (statusCode cer)\<rparr>,
          cer\<lparr>contextElement := src\<rparr>))"

definition ContextElementResponse_copy ::
    "ContextElementResponse \<Rightarrow> ContextElementResponse \<times> ContextElementResponse" where
  "ContextElementResponse_copy cer = ContextElementResponse_fill ContextElementResponse_new cer"

definition ContextElementResponse_element ::
    "ContextElement \<Rightarrow> bool \<Rightarrow> ContextElementResponse \<times> ContextElement" where
  "ContextElementResponse_element ce useDefaultType =
     (let (c, src) = ContextElement_fill ContextElement_new ce useDefaultType
      in (ContextElementResponse_new\<lparr>contextElement := c\<rparr>, src))"

fun includedAttribute_loop :: "string \<Rightarrow> string list \<Rightarrow> bool" where
  "includedAttribute_loop name [] = False"
| "includedAttribute_loop name (a # attrsV) = (if a = name then True else includedAttribute_loop name attrsV)"

definition includedAttribute :: "ContextAttribute \<Rightarrow> string list \<Rightarrow> bool" where
  "includedAttribute attr attrsV = (if attrsV = [] then True else includedAttribute_loop (ca_name attr) attrsV)"

text \<open>The names of the fields of a document as a set of C++, in its order.\<close>

definition field_names :: "doc \<Rightarrow> string list" where
  "field_names d = map fst (foldl (\<lambda>m k. map_insert k id () m) [] (map fst d))"

text \<open>
  The attribute of one field of the document. The outer option is an exception or a null pointer: a value of a type
  that is not known leaves the pointer null, and the pointer is used for the metadata, or stored. The inner option is
  the attribute that is left out.
\<close>

definition bson_value :: "string \<Rightarrow> string \<Rightarrow> bool \<Rightarrow> doc \<Rightarrow> ContextAttribute option option" where
  "bson_value name type includeEmpty attr =
     (case getField attr ''value'' of
        None \<Rightarrow> Some (Some (ContextAttribute_string name type [] True))
      | Some (BStr s) \<Rightarrow>
          if \<not> includeEmpty \<and> s = [] then Some None else Some (Some (ContextAttribute_string name type s True))
      | Some (BNum d) \<Rightarrow> Some (Some (ContextAttribute_number name type d True))
      | Some (BInt i) \<Rightarrow> Some (Some (ContextAttribute_number name type (Fin (of_int i)) True))
      | Some (BBool b) \<Rightarrow> Some (Some (ContextAttribute_bool name type b True))
      | Some BNull \<Rightarrow> Some (Some ((ContextAttribute_string name type [] True)\<lparr>ca_valueType := ValueTypeNone\<rparr>))
      | Some (BObj d) \<Rightarrow>
          Some (Some ((ContextAttribute_string name type [] True)\<lparr>ca_compoundValueP :=
            Some (compoundObjectResponse (CompoundValueNode_top ValueTypeObject) d)\<rparr>))
      | Some (BArr es) \<Rightarrow>
          Some (Some ((ContextAttribute_string name type [] True)\<lparr>ca_compoundValueP :=
            Some (compoundVectorResponse (CompoundValueNode_top ValueTypeVector) es)\<rparr>))
      | Some (BLong i) \<Rightarrow> None
      | Some (BOid s) \<Rightarrow> None)"

definition bson_metadata :: "doc \<Rightarrow> Metadata list option" where
  "bson_metadata attr =
     (case getField attr ''md'' of
        None \<Rightarrow> Some []
      | Some (BArr es) \<Rightarrow> map_option (map Metadata_bson) (embeddedObjects (array_fields 0 es))
      | _ \<Rightarrow> None)"

definition bson_attribute ::
    "string \<Rightarrow> string list \<Rightarrow> bool \<Rightarrow> string \<Rightarrow> string \<Rightarrow> bson \<Rightarrow> ContextAttribute option option" where
  "bson_attribute locAttr attrL includeEmpty apiVersion attrName e =
     (case embeddedObject (Some e) of
        None \<Rightarrow> None
      | Some attr \<Rightarrow>
          (let name = dbDotDecode (basePart attrName); mdId = idPart attrName; type = getStringField attr ''type''
           in if \<not> includedAttribute (ContextAttribute_new\<lparr>ca_name := name, ca_type := type\<rparr>) attrL then Some None
              else case bson_value name type includeEmpty attr of
                     None \<Rightarrow> None
                   | Some None \<Rightarrow> Some None
                   | Some (Some ca) \<Rightarrow>
                       map_option (\<lambda>mds.
                         Some (ca\<lparr>ca_metadataVector :=
                           (if mdId \<noteq> [] then [Metadata_string ''ID'' ''string'' mdId] else [])
                           @ (if apiVersion = ''v1'' \<and> locAttr = name \<and> type \<noteq> ''geo:point''
                              then [Metadata_string ''location'' ''string'' ''WGS84''] else [])
                           @ mds\<rparr>)) (bson_metadata attr)))"

fun bson_attributes ::
    "string \<Rightarrow> string list \<Rightarrow> bool \<Rightarrow> string \<Rightarrow> doc \<Rightarrow> string list \<Rightarrow> ContextAttribute list option" where
  "bson_attributes locAttr attrL includeEmpty apiVersion attrs [] = Some []"
| "bson_attributes locAttr attrL includeEmpty apiVersion attrs (attrName # names) =
     (case getField attrs attrName of
        None \<Rightarrow> None
      | Some e \<Rightarrow>
          (case bson_attribute locAttr attrL includeEmpty apiVersion attrName e of
             None \<Rightarrow> None
           | Some None \<Rightarrow> bson_attributes locAttr attrL includeEmpty apiVersion attrs names
           | Some (Some ca) \<Rightarrow> map_option (Cons ca) (bson_attributes locAttr attrL includeEmpty apiVersion attrs names)))"

definition date_attribute :: "bool \<Rightarrow> doc \<Rightarrow> string \<Rightarrow> string \<Rightarrow> ContextAttribute list" where
  "date_attribute include entityDoc field name =
     (if include \<and> hasField entityDoc field
      then [ContextAttribute_number name DATE_TYPE (Fin (of_int (getIntOrLongFieldAsLong entityDoc field))) True] else [])"

definition ContextElementResponse_bson ::
    "doc \<Rightarrow> string list \<Rightarrow> bool \<Rightarrow> bool \<Rightarrow> bool \<Rightarrow> string \<Rightarrow> ContextElementResponse option" where
  "ContextElementResponse_bson entityDoc attrL includeEmpty includeCreDate includeModDate apiVersion =
     (case embeddedObject (getField entityDoc ''_id'') of
        None \<Rightarrow> None
      | Some eid \<Rightarrow>
          (case embeddedObject (getField entityDoc ''attrs'') of
             None \<Rightarrow> None
           | Some attrs \<Rightarrow>
               (let type = (if hasField eid ''type'' then getStringField eid ''type'' else []);
                    sp = (if hasField eid ''servicePath'' then getStringField eid ''servicePath'' else []);
                    ei = (EntityId_new (getStringField eid ''id'') type ''false'')\<lparr>ei_servicePath := sp\<rparr>;
                    locAttr = (if hasField entityDoc ''location''
                               then getStringField (getObjectField entityDoc ''location'') ''attrName'' else [])
                in map_option (\<lambda>cas.
                     ContextElementResponse_new\<lparr>contextElement := ContextElement_new\<lparr>ce_entityId := ei,
                       contextAttributeVector := cas
                         @ date_attribute includeCreDate entityDoc ''creDate'' ''dateCreated''
                         @ date_attribute includeModDate entityDoc ''modDate'' ''dateModified''\<rparr>\<rparr>)
                     (bson_attributes locAttr attrL includeEmpty apiVersion attrs (field_names attrs)))))"

definition ContextElementResponse_render ::
    "ContextElementResponse \<Rightarrow> ConnectionInfo \<Rightarrow> RequestType \<Rightarrow> string \<Rightarrow> bool \<Rightarrow> bool \<Rightarrow> (string \<times> ContextElementResponse) option" where
  "ContextElementResponse_render cer ci request indent comma omitAttributeValues =
     (let (ceOut, ce) = ContextElement_render (contextElement cer) ci request (indent @ ''  '') True omitAttributeValues
      in map_option (\<lambda>(scOut, sc).
           (startTag2 indent ''contextElement'' False False @ ceOut @ scOut @ endTag_plain indent comma False,
            cer\<lparr>contextElement := ce, statusCode := sc\<rparr>))
           (StatusCode_render (statusCode cer) (indent @ ''  '') False True))"

definition ContextElementResponse_toJson :: "ContextElementResponse \<Rightarrow> RenderFormat \<Rightarrow> string list \<Rightarrow> string" where
  "ContextElementResponse_toJson cer renderFormat attrsFilter =
     ContextElement_toJson (contextElement cer) renderFormat attrsFilter"

definition ContextElementResponse_check ::
    "bool \<Rightarrow> string \<Rightarrow> RequestType \<Rightarrow> ContextElementResponse \<Rightarrow> string \<times> string list" where
  "ContextElementResponse_check idv1 apiVersion request cer =
     (let r = ContextElement_check idv1 apiVersion request (contextElement cer)
      in if fst r \<noteq> ''OK'' then r
         else if StatusCode_check (statusCode cer) \<noteq> ''OK'' then (StatusCode_check (statusCode cer), [])
         else (''OK'', []))"

subsection \<open>Vectors of responses\<close>

fun cerV_render_loop ::
    "ContextElementResponse list \<Rightarrow> ConnectionInfo \<Rightarrow> RequestType \<Rightarrow> string \<Rightarrow> bool \<Rightarrow> (string \<times> ContextElementResponse list) option" where
  "cerV_render_loop [] ci request indent omitAttributeValues = Some ([], [])"
| "cerV_render_loop (cer # vec) ci request indent omitAttributeValues =
     (case ContextElementResponse_render cer ci request indent (vec \<noteq> []) omitAttributeValues of
        None \<Rightarrow> None
      | Some (out, cer) \<Rightarrow>
          map_option (\<lambda>(outs, vec). (out @ outs, cer # vec)) (cerV_render_loop vec ci request indent omitAttributeValues))"

definition ContextElementResponseVector_render ::
    "ContextElementResponse list \<Rightarrow> ConnectionInfo \<Rightarrow> RequestType \<Rightarrow> string \<Rightarrow> bool \<Rightarrow> bool
       \<Rightarrow> (string \<times> ContextElementResponse list) option" where
  "ContextElementResponseVector_render vec ci request indent comma omitAttributeValues =
     (if vec = [] then Some ([], vec)
      else map_option (\<lambda>(out, vec). (startTag2 indent ''contextResponses'' True True @ out @ endTag_plain indent comma True, vec))
             (cerV_render_loop vec ci request (indent @ ''  '') omitAttributeValues))"

fun ContextElementResponseVector_toJson :: "ContextElementResponse list \<Rightarrow> RenderFormat \<Rightarrow> string list \<Rightarrow> string" where
  "ContextElementResponseVector_toJson [] renderFormat attrsFilter = []"
| "ContextElementResponseVector_toJson (cer # vec) renderFormat attrsFilter =
     (if renderFormat = NGSI_V2_VALUES then ''['' else ''{'')
     @ ContextElementResponse_toJson cer renderFormat attrsFilter
     @ (if renderFormat = NGSI_V2_VALUES then '']'' else ''}'')
     @ (if vec \<noteq> [] then '','' else []) @ ContextElementResponseVector_toJson vec renderFormat attrsFilter"

fun ContextElementResponseVector_check ::
    "bool \<Rightarrow> string \<Rightarrow> RequestType \<Rightarrow> ContextElementResponse list \<Rightarrow> string \<times> string list" where
  "ContextElementResponseVector_check idv1 apiVersion request [] = (''OK'', [])"
| "ContextElementResponseVector_check idv1 apiVersion request (cer # vec) =
     (let r = ContextElementResponse_check idv1 apiVersion request cer
      in if fst r \<noteq> ''OK'' then r else ContextElementResponseVector_check idv1 apiVersion request vec)"

text \<open>The index of the response that is found.\<close>

fun cerV_lookup :: "ContextElementResponse list \<Rightarrow> EntityId \<Rightarrow> HttpStatusCode \<Rightarrow> nat option" where
  "cerV_lookup [] ei code = None"
| "cerV_lookup (cer # vec) ei code =
     (if EntityId_equal (ce_entityId (contextElement cer)) ei \<and> (code = SccNone \<or> sc_code (statusCode cer) = code) then Some 0
      else map_option Suc (cerV_lookup vec ei code))"

definition ContextElementResponseVector_fill ::
    "ContextElementResponse list \<Rightarrow> ContextElementResponse list \<Rightarrow> ContextElementResponse list \<times> ContextElementResponse list" where
  "ContextElementResponseVector_fill this cerV =
     (this @ map (fst \<circ> ContextElementResponse_copy) cerV, map (snd \<circ> ContextElementResponse_copy) cerV)"

end
