(* ===== verification/Orion_StringFilter.thy ===== *)
theory Orion_StringFilter
  imports Orion_Element
begin

section \<open>The q filter: rest/StringFilter.cpp\<close>

text \<open>
  The filter that the parameter \<^verbatim>\<open>q\<close> of a query or subscription carries: parsing of the
  filter and of its items, the database query made of it, and the evaluation of it against an entity
  in memory. \<^verbatim>\<open>StringFilter\<close> is a list of \<^verbatim>\<open>StringFilterItem\<close>s and of the queries.

  Parameters, collected in \<open>sf_env\<close>: \<^verbatim>\<open>strtod\<close>, \<^verbatim>\<open>regcomp\<close> (whether a pattern compiles) and
  \<^verbatim>\<open>regexec\<close> (whether a compiled pattern matches). A parser gives the error text or the
  object. Strings that the code cuts into pieces in place are lists without terminator; where the
  code reads the character before an empty string (the opening quote) that is written out.

  A document of the database is a list of keys with values, in the order in which they are appended.
\<close>

subsection \<open>Data\<close>

datatype StringFilterOp =
    SfopExists
  | SfopNotExists
  | SfopEquals
  | SfopDiffers
  | SfopGreaterThan
  | SfopGreaterThanOrEqual
  | SfopLessThan
  | SfopLessThanOrEqual
  | SfopMatchPattern

datatype StringFilterValueType =
    SfvtString
  | SfvtBool
  | SfvtNumber
  | SfvtNull
  | SfvtDate
  | SfvtNumberRange
  | SfvtDateRange
  | SfvtStringRange
  | SfvtNumberList
  | SfvtDateList
  | SfvtStringList

record StringFilterItem =
  sf_left :: string
  sf_op :: StringFilterOp
  sf_valueType :: StringFilterValueType
  sf_numberValue :: dbl
  sf_stringValue :: string
  sf_patternValue :: "string option"
  sf_boolValue :: bool
  sf_stringList :: "string list"
  sf_numberList :: "dbl list"
  sf_numberRangeFrom :: dbl
  sf_numberRangeTo :: dbl
  sf_stringRangeFrom :: string
  sf_stringRangeTo :: string
  sf_attributeName :: string
  sf_compiledPattern :: bool

text \<open>The constructor; what it leaves indeterminate is never read before it is assigned.\<close>

definition StringFilterItem_new :: StringFilterItem where
  "StringFilterItem_new = \<lparr>sf_left = [], sf_op = SfopExists, sf_valueType = SfvtString, sf_numberValue = Fin 0,
     sf_stringValue = [], sf_patternValue = None, sf_boolValue = False, sf_stringList = [], sf_numberList = [],
     sf_numberRangeFrom = Fin 0, sf_numberRangeTo = Fin 0, sf_stringRangeFrom = [], sf_stringRangeTo = [],
     sf_attributeName = [], sf_compiledPattern = False\<rparr>"

record StringFilter =
  filters :: "StringFilterItem list"
  mongoFilters :: "bson list"

record sf_env =
  e_strtod :: strtod_fun
  regcomp :: "string \<Rightarrow> bool"
  regexec :: "string \<Rightarrow> string \<Rightarrow> bool"

abbreviation quote_char :: char where
  "quote_char \<equiv> CHR 0x27"

subsection \<open>Names\<close>

fun opName :: "StringFilterOp \<Rightarrow> string" where
  "opName SfopExists = ''Exists''"
| "opName SfopNotExists = ''NotExists''"
| "opName SfopEquals = ''Equals''"
| "opName SfopDiffers = ''Differs''"
| "opName SfopGreaterThan = ''GreaterThan''"
| "opName SfopGreaterThanOrEqual = ''GreaterThanOrEqual''"
| "opName SfopLessThan = ''LessThan''"
| "opName SfopLessThanOrEqual = ''LessThanOrEqual''"
| "opName SfopMatchPattern = ''MatchPattern''"

fun valueTypeName :: "StringFilterValueType \<Rightarrow> string" where
  "valueTypeName SfvtString = ''String''"
| "valueTypeName SfvtBool = ''Bool''"
| "valueTypeName SfvtNumber = ''Number''"
| "valueTypeName SfvtNull = ''Null''"
| "valueTypeName SfvtDate = ''Date''"
| "valueTypeName SfvtNumberRange = ''NumberRange''"
| "valueTypeName SfvtDateRange = ''DateRange''"
| "valueTypeName SfvtStringRange = ''StringRange''"
| "valueTypeName SfvtNumberList = ''NumberList''"
| "valueTypeName SfvtDateList = ''DateList''"
| "valueTypeName SfvtStringList = ''StringList''"

subsection \<open>Values\<close>

text \<open>The out-parameters of \<^verbatim>\<open>valueGet\<close> that a successful call has assigned.\<close>

record value_out =
  vo_type :: StringFilterValueType
  vo_double :: "dbl option"
  vo_string :: "string option"
  vo_bool :: "bool option"

definition valueGet :: "sf_env \<Rightarrow> string \<Rightarrow> string + value_out" where
  "valueGet env s =
     (if s \<noteq> [] \<and> hd s = quote_char then
        let s = tl s
        in if s \<noteq> [] \<and> last s \<noteq> quote_char then Inl ''non-terminated forced string''
           else let s = butlast s
                in if strchr s quote_char \<noteq> None then Inl ''quote in forced string''
                   else Inr \<lparr>vo_type = SfvtString, vo_double = None, vo_string = Some s, vo_bool = None\<rparr>
      else case str2double (e_strtod env) s of
        Some d \<Rightarrow> Inr \<lparr>vo_type = SfvtNumber, vo_double = Some d, vo_string = None, vo_bool = None\<rparr>
      | None \<Rightarrow>
          let t = parse8601Time s; d = Some (Fin (of_int t))
          in if t \<noteq> - 1 then Inr \<lparr>vo_type = SfvtDate, vo_double = d, vo_string = None, vo_bool = None\<rparr>
             else if s = ''true'' then Inr \<lparr>vo_type = SfvtBool, vo_double = d, vo_string = None, vo_bool = Some True\<rparr>
             else if s = ''false'' then Inr \<lparr>vo_type = SfvtBool, vo_double = d, vo_string = None, vo_bool = Some False\<rparr>
             else if s = ''null'' then Inr \<lparr>vo_type = SfvtNull, vo_double = d, vo_string = None, vo_bool = None\<rparr>
             else Inr \<lparr>vo_type = SfvtString, vo_double = d, vo_string = Some s, vo_bool = None\<rparr>)"

definition assigned :: "'a option \<Rightarrow> 'a \<Rightarrow> 'a" where
  "assigned v old = (case v of None \<Rightarrow> old | Some x \<Rightarrow> x)"

definition regex_error :: "string \<Rightarrow> string" where
  "regex_error p = ''error compiling filter regex: '' @ [quote_char] @ p @ [quote_char]"

definition valueParse :: "sf_env \<Rightarrow> string \<Rightarrow> StringFilterItem \<Rightarrow> string + StringFilterItem" where
  "valueParse env s it =
     (case valueGet env s of
        Inl e \<Rightarrow> Inl e
      | Inr v \<Rightarrow>
          let it = it\<lparr>sf_valueType := vo_type v, sf_numberValue := assigned (vo_double v) (sf_numberValue it),
                      sf_stringValue := assigned (vo_string v) (sf_stringValue it),
                      sf_boolValue := assigned (vo_bool v) (sf_boolValue it)\<rparr>
          in if sf_op it = SfopEquals \<or> sf_op it = SfopDiffers then Inr it
             else if (sf_op it = SfopGreaterThan \<or> sf_op it = SfopGreaterThanOrEqual \<or> sf_op it = SfopLessThan
                      \<or> sf_op it = SfopLessThanOrEqual)
                  \<and> sf_valueType it \<noteq> SfvtNumber \<and> sf_valueType it \<noteq> SfvtDate \<and> sf_valueType it \<noteq> SfvtString
             then Inl (''values of type /'' @ valueTypeName (sf_valueType it) @ ''/ not supported for operator /''
                       @ opName (sf_op it) @ ''/'')
             else if sf_op it = SfopMatchPattern
             then if \<not> regcomp env (c_str (sf_stringValue it)) then Inl (regex_error (sf_stringValue it))
                  else Inr (it\<lparr>sf_patternValue := Some (c_str (sf_stringValue it)), sf_compiledPattern := True\<rparr>)
             else Inr it)"

text \<open>\<^verbatim>\<open>rangeParse\<close>: the bounds that \<^verbatim>\<open>valueGet\<close> leaves unassigned keep their value.\<close>

definition rangeParse :: "sf_env \<Rightarrow> string \<Rightarrow> StringFilterItem \<Rightarrow> string + StringFilterItem" where
  "rangeParse env s it =
     (if sf_op it \<noteq> SfopEquals \<and> sf_op it \<noteq> SfopDiffers then Inl ''ranges only valid for == and != ops''
      else case strstr s ''..'' of
        None \<Rightarrow> Inl ''not a range''
      | Some (fromString, dotdot) \<Rightarrow>
          let toString = wsStrip (drop 2 dotdot); fromString = wsStrip fromString
          in if toString = [] \<or> fromString = [] then Inl ''empty item in range''
             else case valueGet env fromString of
               Inl e \<Rightarrow> Inl e
             | Inr vf \<Rightarrow>
                 let it = it\<lparr>sf_numberRangeFrom := assigned (vo_double vf) (sf_numberRangeFrom it),
                             sf_stringRangeFrom := assigned (vo_string vf) (sf_stringRangeFrom it)\<rparr>
                 in if vo_type vf \<noteq> SfvtString \<and> vo_type vf \<noteq> SfvtNumber \<and> vo_type vf \<noteq> SfvtDate
                    then Inl ''invalid data type for /range-from/''
                    else case valueGet env toString of
                      Inl e \<Rightarrow> Inl e
                    | Inr vt \<Rightarrow>
                        let it = it\<lparr>sf_numberRangeTo := assigned (vo_double vt) (sf_numberRangeTo it),
                                    sf_stringRangeTo := assigned (vo_string vt) (sf_stringRangeTo it)\<rparr>
                        in if vo_type vt \<noteq> SfvtString \<and> vo_type vt \<noteq> SfvtNumber \<and> vo_type vt \<noteq> SfvtDate
                           then Inl ''invalid data type for /range-to/''
                           else if vo_type vt \<noteq> vo_type vf then Inl ''invalid range: types mixed''
                           else if vo_type vf = SfvtNumber then Inr (it\<lparr>sf_valueType := SfvtNumberRange\<rparr>)
                           else if vo_type vf = SfvtString then Inr (it\<lparr>sf_valueType := SfvtStringRange\<rparr>)
                           else if vo_type vf = SfvtDate then Inr (it\<lparr>sf_valueType := SfvtDateRange\<rparr>)
                           else Inl ''invalid data type for range'')"

definition listItemAdd :: "sf_env \<Rightarrow> string \<Rightarrow> StringFilterItem \<Rightarrow> string + StringFilterItem" where
  "listItemAdd env s it =
     (let s = wsStrip s
      in if s = [] then Inl ''empty item in list''
         else case valueGet env s of
           Inl e \<Rightarrow> Inl e
         | Inr v \<Rightarrow>
             let str = assigned (vo_string v) []; d = assigned (vo_double v) (Fin 0)
             in if sf_stringList it = [] \<and> sf_numberList it = []
                then if vo_type v = SfvtString
                     then Inr (it\<lparr>sf_valueType := SfvtStringList, sf_stringList := [str]\<rparr>)
                     else if vo_type v = SfvtDate
                     then Inr (it\<lparr>sf_valueType := SfvtDateList, sf_numberList := [d]\<rparr>)
                     else if vo_type v = SfvtNumber
                     then Inr (it\<lparr>sf_valueType := SfvtNumberList, sf_numberList := [d]\<rparr>)
                     else Inl ''invalid JSON value type in list''
                else if vo_type v = SfvtString \<and> sf_valueType it = SfvtStringList
                then Inr (it\<lparr>sf_stringList := sf_stringList it @ [str]\<rparr>)
                else if vo_type v = SfvtDate \<and> sf_valueType it = SfvtDateList
                then Inr (it\<lparr>sf_numberList := sf_numberList it @ [d]\<rparr>)
                else if vo_type v = SfvtNumber \<and> sf_valueType it = SfvtNumberList
                then Inr (it\<lparr>sf_numberList := sf_numberList it @ [d]\<rparr>)
                else Inl ''invalid JSON value type in list'')"

text \<open>
  The loop of \<^verbatim>\<open>listParse\<close>: \<open>cur\<close> is the text from \<^verbatim>\<open>itemStart\<close> up to \<^verbatim>\<open>cP\<close>
  (with the terminators that closing quotes have become), the third argument the text from \<^verbatim>\<open>cP\<close> on.
\<close>

fun listParse_loop :: "sf_env \<Rightarrow> string \<Rightarrow> string \<Rightarrow> bool \<Rightarrow> StringFilterItem \<Rightarrow> string + StringFilterItem" where
  "listParse_loop env cur [] inString it =
     (if cur \<noteq> [] then listItemAdd env (c_str cur) it else Inr it)"
| "listParse_loop env cur (c # cs) inString it =
     (if c = quote_char
      then if \<not> inString then listParse_loop env (tl (cur @ [c])) cs True it
           else listParse_loop env (cur @ [NUL]) cs False it
      else if c = CHR '','' \<and> inString = False
      then case listItemAdd env (c_str cur) it of
             Inl e \<Rightarrow> Inl e
           | Inr it \<Rightarrow> if cs = [] then Inl ''empty item in list'' else listParse_loop env [] cs inString it
      else listParse_loop env (cur @ [c]) cs inString it)"

definition listParse :: "sf_env \<Rightarrow> string \<Rightarrow> StringFilterItem \<Rightarrow> string + StringFilterItem" where
  "listParse env s it =
     (if sf_op it \<noteq> SfopEquals \<and> sf_op it \<noteq> SfopDiffers then Inl ''lists only valid for == and != ops''
      else listParse_loop env [] (wsStrip s) False it)"

subsection \<open>An item\<close>

text \<open>
  The search for the operator: the operator, the text before it and the text after it. Without
  an operator both sides are the whole text.
\<close>

definition find_op :: "string \<Rightarrow> StringFilterOp \<times> string \<times> string" where
  "find_op s =
     (case strstr s ''=='' of Some (l, r) \<Rightarrow> (SfopEquals, l, drop 2 r) | None \<Rightarrow>
      case strstr s ''~='' of Some (l, r) \<Rightarrow> (SfopMatchPattern, l, drop 2 r) | None \<Rightarrow>
      case strstr s ''!='' of Some (l, r) \<Rightarrow> (SfopDiffers, l, drop 2 r) | None \<Rightarrow>
      case strstr s ''<='' of Some (l, r) \<Rightarrow> (SfopLessThanOrEqual, l, drop 2 r) | None \<Rightarrow>
      case strstr s ''<'' of Some (l, r) \<Rightarrow> (SfopLessThan, l, drop 1 r) | None \<Rightarrow>
      case strstr s ''>='' of Some (l, r) \<Rightarrow> (SfopGreaterThanOrEqual, l, drop 2 r) | None \<Rightarrow>
      case strstr s ''>'' of Some (l, r) \<Rightarrow> (SfopGreaterThan, l, drop 1 r) | None \<Rightarrow>
      case strstr s '':'' of Some (l, r) \<Rightarrow> (SfopEquals, l, drop 1 r) | None \<Rightarrow>
      if s \<noteq> [] \<and> hd s = CHR ''!'' then (SfopNotExists, [], tl s)
      else (SfopExists, s, s))"

text \<open>The quotes around a whole item.\<close>

definition unquote :: "string \<Rightarrow> string + string" where
  "unquote s =
     (if s \<noteq> [] \<and> hd s = quote_char then
        let s = tl s
        in if s \<noteq> [] \<and> last s \<noteq> quote_char then Inl ''non-terminated forced string''
           else let s = butlast s
                in if strchr s quote_char \<noteq> None then Inl ''quote in forced string'' else Inr s
      else Inr s)"

definition item_parse :: "sf_env \<Rightarrow> string \<Rightarrow> string + StringFilterItem" where
  "item_parse env qItem =
     (let s = wsStrip (c_str qItem)
      in if s = [] then Inl ''empty q-item''
         else case unquote s of
           Inl e \<Rightarrow> Inl e
         | Inr s \<Rightarrow>
             (case find_op s of (operator, lhs, rhs) \<Rightarrow>
                let it = StringFilterItem_new\<lparr>sf_op := operator\<rparr>; lhs = wsStrip lhs; rhs = wsStrip rhs
                in if lhs = [] \<and> operator \<noteq> SfopNotExists \<and> operator \<noteq> SfopExists
                   then Inl ''empty left-hand-side in q-item''
                   else if forbiddenChars (Some lhs) (Some [])
                   then Inl ''invalid character found in URI param /q/''
                   else let it = it\<lparr>sf_left := lhs\<rparr>
                   in if rhs = [] then Inl ''empty right-hand-side in q-item''
                   else if operator = SfopNotExists \<or> operator = SfopExists
                   then Inr (it\<lparr>sf_attributeName := rhs\<rparr>)
                   else if strstr rhs ''..'' \<noteq> None then rangeParse env rhs it
                   else if strstr rhs '','' \<noteq> None then listParse env rhs it
                   else valueParse env rhs it))"

text \<open>\<^verbatim>\<open>StringFilterItem::fill\<close>: the copy of an item, its pattern compiled anew.\<close>

definition item_fill :: "sf_env \<Rightarrow> StringFilterItem \<Rightarrow> string + StringFilterItem" where
  "item_fill env sfi =
     (let it = sfi\<lparr>sf_patternValue := sf_patternValue StringFilterItem_new\<rparr>
      in if sf_compiledPattern it
         then if \<not> regcomp env (c_str (sf_stringValue it)) then Inl (regex_error (sf_stringValue it))
              else Inr (it\<lparr>sf_patternValue := Some (c_str (sf_stringValue it))\<rparr>)
         else Inr it)"

subsection \<open>The database query\<close>

definition filter_key :: "StringFilterItem \<Rightarrow> string" where
  "filter_key it =
     (if sf_left it = ''dateCreated'' then ''creDate''
      else if sf_left it = ''dateModified'' then ''modDate''
      else ''attrs'' @ ''.'' @ sf_left it @ ''.'' @ ''value'')"

definition query_equals :: "StringFilterItem \<Rightarrow> string \<Rightarrow> string + bson" where
  "query_equals it k =
     (if sf_valueType it = SfvtNumberRange \<or> sf_valueType it = SfvtDateRange
      then Inr (BObj [(k, BObj [(''$gte'', BNum (sf_numberRangeFrom it)), (''$lte'', BNum (sf_numberRangeTo it))])])
      else if sf_valueType it = SfvtStringRange
      then Inr (BObj [(k, BObj [(''$gte'', BStr (sf_stringRangeFrom it)), (''$lte'', BStr (sf_stringRangeTo it))])])
      else if sf_valueType it = SfvtNumberList \<or> sf_valueType it = SfvtDateList
      then Inr (BObj [(k, BObj [(''$in'', BArr (map BNum (sf_numberList it)))])])
      else if sf_valueType it = SfvtStringList
      then Inr (BObj [(k, BObj [(''$in'', BArr (map BStr (sf_stringList it)))])])
      else if sf_valueType it = SfvtBool
      then Inr (BObj [(k, BObj [(''$exists'', BBool True), (''$in'', BArr [BBool (sf_boolValue it)])])])
      else if sf_valueType it = SfvtNull then Inl ''null values not supported''
      else if sf_valueType it = SfvtNumber \<or> sf_valueType it = SfvtDate
      then Inr (BObj [(k, BObj [(''$exists'', BBool True), (''$in'', BArr [BNum (sf_numberValue it)])])])
      else if sf_valueType it = SfvtString
      then Inr (BObj [(k, BObj [(''$in'', BArr [BStr (sf_stringValue it)])])])
      else Inl ''invalid valueType for q-item'')"

definition query_differs :: "StringFilterItem \<Rightarrow> string \<Rightarrow> string + bson" where
  "query_differs it k =
     (if sf_valueType it = SfvtNumberRange \<or> sf_valueType it = SfvtDateRange
      then Inr (BObj [(k, BObj [(''$exists'', BBool True),
             (''$not'', BObj [(''$gte'', BNum (sf_numberRangeFrom it)), (''$lte'', BNum (sf_numberRangeTo it))])])])
      else if sf_valueType it = SfvtNumberList \<or> sf_valueType it = SfvtDateList
      then Inr (BObj [(k, BObj [(''$exists'', BBool True), (''$nin'', BArr (map BNum (sf_numberList it)))])])
      else if sf_valueType it = SfvtStringRange
      then Inr (BObj [(k, BObj [(''$exists'', BBool True),
             (''$not'', BObj [(''$gte'', BStr (sf_stringRangeFrom it)), (''$lte'', BStr (sf_stringRangeTo it))])])])
      else if sf_valueType it = SfvtStringList
      then Inr (BObj [(k, BObj [(''$exists'', BBool True), (''$nin'', BArr (map BStr (sf_stringList it)))])])
      else if sf_valueType it = SfvtBool
      then Inr (BObj [(k, BObj [(''$exists'', BBool True), (''$nin'', BArr [BBool (sf_boolValue it)])])])
      else if sf_valueType it = SfvtNull then Inl ''null values not supported''
      else if sf_valueType it = SfvtNumber \<or> sf_valueType it = SfvtDate
      then Inr (BObj [(k, BObj [(''$exists'', BBool True), (''$nin'', BArr [BNum (sf_numberValue it)])])])
      else if sf_valueType it = SfvtString
      then Inr (BObj [(k, BObj [(''$exists'', BBool True), (''$nin'', BArr [BStr (sf_stringValue it)])])])
      else Inr (BObj []))"

definition query_compare :: "string \<Rightarrow> StringFilterItem \<Rightarrow> string \<Rightarrow> bson" where
  "query_compare cmp it k =
     BObj [(k, BObj [(cmp, if sf_valueType it = SfvtString then BStr (sf_stringValue it) else BNum (sf_numberValue it))])]"

text \<open>One round of \<^verbatim>\<open>mongoFilterPopulate\<close>: the queries that it pushes (none for the \<^verbatim>\<open>continue\<close>).\<close>

definition item_query :: "StringFilterItem \<Rightarrow> string + bson list" where
  "item_query it =
     (let k = filter_key it; one = map_sum id (\<lambda>b. [b])
      in case sf_op it of
           SfopExists \<Rightarrow> Inr [BObj [(''attrs'' @ ''.'' @ sf_attributeName it, BObj [(''$exists'', BBool True)])]]
         | SfopNotExists \<Rightarrow> Inr [BObj [(''attrs'' @ ''.'' @ sf_attributeName it, BObj [(''$exists'', BBool False)])]]
         | SfopEquals \<Rightarrow> one (query_equals it k)
         | SfopDiffers \<Rightarrow> one (query_differs it k)
         | SfopGreaterThan \<Rightarrow> Inr [query_compare ''$gt'' it k]
         | SfopGreaterThanOrEqual \<Rightarrow> Inr [query_compare ''$gte'' it k]
         | SfopLessThan \<Rightarrow> Inr [query_compare ''$lt'' it k]
         | SfopLessThanOrEqual \<Rightarrow> Inr [query_compare ''$lte'' it k]
         | SfopMatchPattern \<Rightarrow>
             if sf_valueType it \<noteq> SfvtString then Inr []
             else Inr [BObj [(k, BObj [(''$regex'', BStr (sf_stringValue it))])]])"

fun mongoFilterPopulate_loop :: "StringFilterItem list \<Rightarrow> bson list \<Rightarrow> string + bson list" where
  "mongoFilterPopulate_loop [] qs = Inr qs"
| "mongoFilterPopulate_loop (it # its) qs =
     (case item_query it of Inl e \<Rightarrow> Inl e | Inr q \<Rightarrow> mongoFilterPopulate_loop its (qs @ q))"

definition mongoFilterPopulate :: "StringFilter \<Rightarrow> string + StringFilter" where
  "mongoFilterPopulate sf =
     (case mongoFilterPopulate_loop (filters sf) (mongoFilters sf) of
        Inl e \<Rightarrow> Inl e
      | Inr qs \<Rightarrow> Inr (sf\<lparr>mongoFilters := qs\<rparr>))"

subsection \<open>The whole filter\<close>

text \<open>The loop over the tokens that \<^verbatim>\<open>strtok_r\<close> gives: the non-empty pieces between semicolons.\<close>

fun parse_loop :: "sf_env \<Rightarrow> string list \<Rightarrow> StringFilterItem list \<Rightarrow> string + StringFilterItem list" where
  "parse_loop env [] fs = Inr fs"
| "parse_loop env (s # ss) fs =
     (let s = wsStrip s
      in if s = [] then Inl ''empty q-item (only whitespace)''
         else case item_parse env s of
           Inl e \<Rightarrow> Inl e
         | Inr item \<Rightarrow> parse_loop env ss (fs @ [item]))"

definition filter_parse :: "sf_env \<Rightarrow> string \<Rightarrow> StringFilter \<Rightarrow> string + StringFilter" where
  "filter_parse env q sf =
     (let q = c_str q
      in if q = [] \<or> q = '';'' then Inl ''empty q''
         else if strstr q '';;'' \<noteq> None then Inl ''empty q-item''
         else let s = wsStrip q; str = takeWhile isWs q @ s
         in if s \<noteq> [] \<and> last s = CHR '';'' then Inl ''empty q-item''
         else case parse_loop env (filter (\<lambda>t. t \<noteq> []) (split_on (CHR '';'') str)) (filters sf) of
           Inl e \<Rightarrow> Inl e
         | Inr fs \<Rightarrow> mongoFilterPopulate (sf\<lparr>filters := fs\<rparr>))"

fun fill_loop :: "sf_env \<Rightarrow> StringFilterItem list \<Rightarrow> StringFilterItem list \<Rightarrow> string + StringFilterItem list" where
  "fill_loop env [] fs = Inr fs"
| "fill_loop env (it # its) fs =
     (case item_fill env it of Inl e \<Rightarrow> Inl e | Inr sfi \<Rightarrow> fill_loop env its (fs @ [sfi]))"

definition StringFilter_new :: StringFilter where
  "StringFilter_new = \<lparr>filters = [], mongoFilters = []\<rparr>"

definition filter_clone :: "sf_env \<Rightarrow> StringFilter \<Rightarrow> string + StringFilter" where
  "filter_clone env sf =
     (case fill_loop env (filters sf) (filters StringFilter_new) of
        Inl e \<Rightarrow> Inl e
      | Inr fs \<Rightarrow> Inr (StringFilter_new\<lparr>filters := fs, mongoFilters := mongoFilters sf\<rparr>))"

definition filter_fill :: "sf_env \<Rightarrow> StringFilter \<Rightarrow> StringFilter \<Rightarrow> string + StringFilter" where
  "filter_fill env sf this =
     (case fill_loop env (filters sf) (filters this) of
        Inl e \<Rightarrow> Inl e
      | Inr fs \<Rightarrow> Inr (this\<lparr>filters := fs, mongoFilters := mongoFilters sf\<rparr>))"

subsection \<open>Evaluation in memory\<close>

text \<open>\<^verbatim>\<open>strcmp\<close>: the characters compare as unsigned.\<close>

fun strcmp_loop :: "string \<Rightarrow> string \<Rightarrow> int" where
  "strcmp_loop [] [] = 0"
| "strcmp_loop [] (d # ds) = - 1"
| "strcmp_loop (c # cs) [] = 1"
| "strcmp_loop (c # cs) (d # ds) =
     (if (of_char c :: nat) < of_char d then - 1
      else if (of_char d :: nat) < of_char c then 1 else strcmp_loop cs ds)"

definition strcmp :: "string \<Rightarrow> string \<Rightarrow> int" where
  "strcmp s t = strcmp_loop (c_str s) (c_str t)"

definition matchEquals :: "StringFilterItem \<Rightarrow> ContextAttribute \<Rightarrow> bool" where
  "matchEquals it ca =
     (if sf_valueType it = SfvtNumberRange \<or> sf_valueType it = SfvtDateRange
      then \<not> (dlt (ca_numberValue ca) (sf_numberRangeFrom it) \<or> dlt (sf_numberRangeTo it) (ca_numberValue ca))
      else if sf_valueType it = SfvtStringRange
      then \<not> (strcmp (ca_stringValue ca) (sf_stringRangeFrom it) < 0 \<or> strcmp (ca_stringValue ca) (sf_stringRangeTo it) > 0)
      else if sf_valueType it = SfvtNumberList \<or> sf_valueType it = SfvtDateList
      then list_ex (\<lambda>d. deq (ca_numberValue ca) d) (sf_numberList it)
      else if sf_valueType it = SfvtStringList
      then list_ex (\<lambda>s. ca_stringValue ca = s) (sf_stringList it)
      else if sf_valueType it = SfvtNumber \<or> sf_valueType it = SfvtDate
      then deq (ca_numberValue ca) (sf_numberValue it)
      else if sf_valueType it = SfvtString
      then ca_stringValue ca = sf_stringValue it
      else False)"

text \<open>A pattern that was never compiled is never evaluated, see the invariant of the items below.\<close>

definition matchPattern :: "sf_env \<Rightarrow> StringFilterItem \<Rightarrow> ContextAttribute \<Rightarrow> bool" where
  "matchPattern env it ca =
     (if ca_valueType ca \<noteq> ValueTypeString then False
      else case sf_patternValue it of None \<Rightarrow> False | Some p \<Rightarrow> regexec env p (c_str (ca_stringValue ca)))"

definition compatibleType :: "StringFilterItem \<Rightarrow> ContextAttribute \<Rightarrow> bool" where
  "compatibleType it ca =
     (if ca_valueType ca = ValueTypeNumber \<and> (sf_valueType it = SfvtNumber \<or> sf_valueType it = SfvtDate) then True
      else if ca_valueType ca = ValueTypeString \<and> sf_valueType it = SfvtString then True
      else False)"

definition matchGreaterThan :: "StringFilterItem \<Rightarrow> ContextAttribute \<Rightarrow> bool" where
  "matchGreaterThan it ca =
     (if \<not> compatibleType it ca then False
      else if ca_valueType ca = ValueTypeNumber then dlt (sf_numberValue it) (ca_numberValue ca)
      else if ca_valueType ca = ValueTypeString then strcmp (ca_stringValue ca) (sf_stringValue it) > 0
      else False)"

definition matchLessThan :: "StringFilterItem \<Rightarrow> ContextAttribute \<Rightarrow> bool" where
  "matchLessThan it ca =
     (if \<not> compatibleType it ca then False
      else if ca_valueType ca = ValueTypeNumber then dlt (ca_numberValue ca) (sf_numberValue it)
      else if ca_valueType ca = ValueTypeString then strcmp (ca_stringValue ca) (sf_stringValue it) < 0
      else False)"

text \<open>The attribute a binary operator looks at: a date of the entity or one of its attributes.\<close>

definition filter_attr :: "StringFilterItem \<Rightarrow> ContextElement \<Rightarrow> ContextAttribute option" where
  "filter_attr it ce =
     (if sf_left it = ''dateCreated'' \<or> sf_left it = ''dateModified''
      then Some (ContextAttribute_new\<lparr>ca_valueType := ValueTypeNumber,
                 ca_numberValue := (if sf_left it = ''dateCreated'' then creDate ce else modDate ce)\<rparr>)
      else getAttribute ce (sf_left it))"

primrec match_loop :: "sf_env \<Rightarrow> StringFilterItem list \<Rightarrow> ContextElement \<Rightarrow> bool" where
  "match_loop env [] ce = True"
| "match_loop env (it # its) ce =
     (if sf_op it = SfopExists \<and> getAttribute ce (sf_attributeName it) = None then False
      else if sf_op it = SfopNotExists \<and> getAttribute ce (sf_attributeName it) \<noteq> None then False
      else if sf_op it = SfopNotExists then match_loop env its ce
      else case filter_attr it ce of
        None \<Rightarrow> False
      | Some ca \<Rightarrow>
          (case sf_op it of
             SfopExists \<Rightarrow> match_loop env its ce
           | SfopNotExists \<Rightarrow> match_loop env its ce
           | SfopEquals \<Rightarrow> if matchEquals it ca = False then False else match_loop env its ce
           | SfopDiffers \<Rightarrow> if matchEquals it ca = True then False else match_loop env its ce
           | SfopGreaterThan \<Rightarrow> if matchGreaterThan it ca = False then False else match_loop env its ce
           | SfopLessThan \<Rightarrow> if matchLessThan it ca = False then False else match_loop env its ce
           | SfopGreaterThanOrEqual \<Rightarrow> if matchLessThan it ca = True then False else match_loop env its ce
           | SfopLessThanOrEqual \<Rightarrow> if matchGreaterThan it ca = True then False else match_loop env its ce
           | SfopMatchPattern \<Rightarrow> matchPattern env it ca))"

definition filter_match :: "sf_env \<Rightarrow> StringFilter \<Rightarrow> ContextElement \<Rightarrow> bool" where
  "filter_match env sf ce = match_loop env (filters sf) ce"

subsection \<open>The invariant of the items\<close>

text \<open>
  What \<^verbatim>\<open>item_parse\<close> promises: the value is of a kind the operator supports, lists are not
  empty and are in the list of their kind, and a pattern is compiled exactly for the pattern operator.
\<close>

fun value_ok :: "StringFilterOp \<Rightarrow> StringFilterValueType \<Rightarrow> bool" where
  "value_ok SfopExists vt = True"
| "value_ok SfopNotExists vt = True"
| "value_ok SfopEquals vt = True"
| "value_ok SfopDiffers vt = True"
| "value_ok SfopMatchPattern vt = (vt \<in> {SfvtString, SfvtBool, SfvtNumber, SfvtNull, SfvtDate})"
| "value_ok operator vt = (vt \<in> {SfvtNumber, SfvtDate, SfvtString})"

definition item_wf :: "sf_env \<Rightarrow> StringFilterItem \<Rightarrow> bool" where
  "item_wf env it \<longleftrightarrow>
     value_ok (sf_op it) (sf_valueType it)
   \<and> (sf_op it \<in> {SfopExists, SfopNotExists} \<longrightarrow> sf_attributeName it \<noteq> [])
   \<and> (sf_op it \<notin> {SfopExists, SfopNotExists} \<longrightarrow> sf_left it \<noteq> [])
   \<and> \<not> forbiddenChars (Some (sf_left it)) (Some [])
   \<and> (sf_compiledPattern it \<longleftrightarrow> sf_op it = SfopMatchPattern)
   \<and> sf_patternValue it = (if sf_compiledPattern it then Some (c_str (sf_stringValue it)) else None)
   \<and> (sf_compiledPattern it \<longrightarrow> regcomp env (c_str (sf_stringValue it)))
   \<and> (sf_valueType it = SfvtStringList \<longrightarrow> sf_stringList it \<noteq> [] \<and> sf_numberList it = [])
   \<and> (sf_valueType it \<in> {SfvtNumberList, SfvtDateList} \<longrightarrow> sf_numberList it \<noteq> [] \<and> sf_stringList it = [])"

text \<open>The state of an item while a list is read.\<close>

definition list_wf :: "StringFilterItem \<Rightarrow> StringFilterItem \<Rightarrow> bool" where
  "list_wf it0 it \<longleftrightarrow>
     (sf_stringList it = [] \<and> sf_numberList it = [] \<or>
      sf_valueType it = SfvtStringList \<and> sf_stringList it \<noteq> [] \<and> sf_numberList it = [] \<or>
      sf_valueType it \<in> {SfvtNumberList, SfvtDateList} \<and> sf_numberList it \<noteq> [] \<and> sf_stringList it = [])
     \<and> it\<lparr>sf_valueType := sf_valueType it0, sf_stringList := sf_stringList it0, sf_numberList := sf_numberList it0\<rparr> = it0"

lemma valueGet_type: "valueGet env s = Inr v \<Longrightarrow> vo_type v \<in> {SfvtString, SfvtBool, SfvtNumber, SfvtNull, SfvtDate}"
  by (auto simp: valueGet_def Let_def split: if_splits option.splits)

lemma listItemAdd_wf:
  "list_wf it0 it \<Longrightarrow> listItemAdd env s it = Inr it' \<Longrightarrow>
     list_wf it0 it' \<and> (sf_stringList it' \<noteq> [] \<or> sf_numberList it' \<noteq> [])"
  by (auto simp: listItemAdd_def list_wf_def Let_def split: if_splits sum.splits)

lemma listParse_loop_wf:
  "list_wf it0 it \<Longrightarrow> listParse_loop env cur s b it = Inr it' \<Longrightarrow> list_wf it0 it'"
proof (induction env cur s b it rule: listParse_loop.induct)
  case (1 env cur b it)
  then show ?case using listItemAdd_wf by (auto split: if_splits)
next
  case (2 env cur c cs b it)
  show ?case
    using "2.prems" listItemAdd_wf
    by (auto split: if_splits sum.splits intro: "2.IH")
qed

lemma listParse_loop_some:
  "list_wf it0 it \<Longrightarrow> listParse_loop env cur s b it = Inr it' \<Longrightarrow>
     cur \<noteq> [] \<or> CHR '','' \<in> set s \<or> sf_stringList it \<noteq> [] \<or> sf_numberList it \<noteq> [] \<Longrightarrow>
     sf_stringList it' \<noteq> [] \<or> sf_numberList it' \<noteq> []"
proof (induction env cur s b it rule: listParse_loop.induct)
  case (1 env cur b it)
  then show ?case using listItemAdd_wf by (auto split: if_splits)
next
  case (2 env cur c cs b it)
  consider (qopen) "c = quote_char" "\<not> b" | (qclose) "c = quote_char" "b"
    | (comma) "c = CHR '',''" "\<not> b" | (other) "c \<noteq> quote_char" "\<not> (c = CHR '','' \<and> b = False)" by blast
  then show ?case
  proof cases
    case qopen
    then show ?thesis using 2 by (auto intro!: "2.IH"(1) simp: tl_append split: list.splits)
  next
    case qclose
    then show ?thesis using 2 by (intro "2.IH"(2)) auto
  next
    case comma
    then obtain it2 where a: "listItemAdd env (c_str cur) it = Inr it2" "cs \<noteq> []" "listParse_loop env [] cs b it2 = Inr it'"
      using "2.prems"(2) by (auto split: sum.splits if_splits)
    then show ?thesis using listItemAdd_wf [OF "2.prems"(1) a(1)] comma by (intro "2.IH"(3)) auto
  next
    case other
    then show ?thesis using 2 by (intro "2.IH"(4)) auto
  qed
qed

definition item_base :: "StringFilterOp \<Rightarrow> string \<Rightarrow> StringFilterItem" where
  "item_base operator l = StringFilterItem_new\<lparr>sf_op := operator, sf_left := l\<rparr>"

definition binary_ok :: "StringFilterOp \<Rightarrow> string \<Rightarrow> bool" where
  "binary_ok operator l \<longleftrightarrow> operator \<notin> {SfopExists, SfopNotExists} \<and> l \<noteq> [] \<and> \<not> forbiddenChars (Some l) (Some [])"

lemmas item_defs = item_base_def binary_ok_def item_wf_def StringFilterItem_new_def

lemma valueParse_wf:
  assumes ok: "binary_ok operator l" and r: "valueParse env s (item_base operator l) = Inr it'"
  shows "item_wf env it'"
proof -
  obtain v where v: "valueGet env s = Inr v" using r by (auto simp: valueParse_def split: sum.splits)
  define it where "it = (item_base operator l)\<lparr>sf_valueType := vo_type v,
      sf_numberValue := assigned (vo_double v) (Fin 0), sf_stringValue := assigned (vo_string v) [],
      sf_boolValue := assigned (vo_bool v) False\<rparr>"
  have it: "sf_op it = operator" "sf_left it = l" "sf_valueType it = vo_type v" "\<not> sf_compiledPattern it"
    "sf_patternValue it = None" "sf_stringList it = []" "sf_numberList it = []"
    by (simp_all add: it_def item_base_def StringFilterItem_new_def)
  have p: "valueParse env s (item_base operator l) =
     (if operator = SfopEquals \<or> operator = SfopDiffers then Inr it
      else if (operator = SfopGreaterThan \<or> operator = SfopGreaterThanOrEqual \<or> operator = SfopLessThan
               \<or> operator = SfopLessThanOrEqual)
           \<and> vo_type v \<noteq> SfvtNumber \<and> vo_type v \<noteq> SfvtDate \<and> vo_type v \<noteq> SfvtString
      then Inl (''values of type /'' @ valueTypeName (vo_type v) @ ''/ not supported for operator /'' @ opName operator @ ''/'')
      else if operator = SfopMatchPattern
      then if \<not> regcomp env (c_str (sf_stringValue it)) then Inl (regex_error (sf_stringValue it))
           else Inr (it\<lparr>sf_patternValue := Some (c_str (sf_stringValue it)), sf_compiledPattern := True\<rparr>)
      else Inr it)"
    by (simp add: valueParse_def v it_def item_base_def StringFilterItem_new_def Let_def)
  have ty: "vo_type v \<in> {SfvtString, SfvtBool, SfvtNumber, SfvtNull, SfvtDate}" by (rule valueGet_type [OF v])
  consider "it' = it" "operator \<noteq> SfopMatchPattern" "value_ok operator (vo_type v)"
    | "operator = SfopMatchPattern" "regcomp env (c_str (sf_stringValue it))"
      "it' = it\<lparr>sf_patternValue := Some (c_str (sf_stringValue it)), sf_compiledPattern := True\<rparr>"
    using r ok unfolding p binary_ok_def by (cases operator) (auto split: if_splits)
  then show ?thesis
    by cases (use ok ty it in \<open>auto simp: item_wf_def binary_ok_def\<close>)
qed

lemma rangeParse_wf:
  "binary_ok operator l \<Longrightarrow> rangeParse env s (item_base operator l) = Inr it' \<Longrightarrow> item_wf env it'"
  by (auto simp: rangeParse_def item_defs Let_def split: if_splits sum.splits option.splits)

lemma listParse_wf:
  assumes ok: "binary_ok operator l" and comma: "CHR '','' \<in> set (wsStrip s)"
    and r: "listParse env s (item_base operator l) = Inr it'"
  shows "item_wf env it'"
proof -
  let ?b = "item_base operator l"
  have l: "listParse_loop env [] (wsStrip s) False ?b = Inr it'" and eq: "operator = SfopEquals \<or> operator = SfopDiffers"
    using r by (auto simp: listParse_def item_defs split: if_splits)
  have b: "list_wf ?b ?b" by (simp add: list_wf_def item_defs)
  note wf = listParse_loop_wf [OF b l]
  then have same: "it'\<lparr>sf_valueType := sf_valueType ?b, sf_stringList := sf_stringList ?b, sf_numberList := sf_numberList ?b\<rparr> = ?b"
    unfolding list_wf_def by blast
  have fields: "sf_op it' = operator" "sf_left it' = l" "\<not> sf_compiledPattern it'" "sf_patternValue it' = None"
    using arg_cong [OF same, of sf_op] arg_cong [OF same, of sf_left] arg_cong [OF same, of sf_compiledPattern]
      arg_cong [OF same, of sf_patternValue] by (simp_all add: item_defs)
  have "sf_stringList it' \<noteq> [] \<or> sf_numberList it' \<noteq> []"
    using listParse_loop_some [OF b l] comma by simp
  then show ?thesis
    using wf fields eq ok by (auto simp: item_wf_def list_wf_def binary_ok_def)
qed

lemma strstr_char: "strstr s [c] \<noteq> None \<Longrightarrow> c \<in> set s"
  by (induction s) (auto simp: strstr.simps [of "[]"] strstr.simps [of "a # s" for a s] split: if_splits)

lemma item_parse_wf:
  assumes "item_parse env s = Inr it"
  shows "item_wf env it"
proof -
  obtain u where u: "unquote (wsStrip (c_str s)) = Inr u"
    using assms by (auto simp: item_parse_def Let_def split: if_splits sum.splits)
  obtain operator lhs rhs where f: "find_op u = (operator, lhs, rhs)" by (metis prod_cases3)
  define l where "l = wsStrip lhs"
  define r where "r = wsStrip rhs"
  have ok: "\<not> forbiddenChars (Some l) (Some [])" "r \<noteq> []"
      "l = [] \<Longrightarrow> operator \<in> {SfopExists, SfopNotExists}"
    and res: "(if operator = SfopNotExists \<or> operator = SfopExists
         then Inr ((item_base operator l)\<lparr>sf_attributeName := r\<rparr>)
         else if strstr r ''..'' \<noteq> None then rangeParse env r (item_base operator l)
         else if strstr r '','' \<noteq> None then listParse env r (item_base operator l)
         else valueParse env r (item_base operator l)) = Inr it"
    using assms u f by (auto simp: item_parse_def Let_def l_def r_def item_base_def split: if_splits)
  show ?thesis
  proof (cases "operator \<in> {SfopExists, SfopNotExists}")
    case True
    then show ?thesis using res ok by (auto simp: item_defs)
  next
    case False
    then have b: "binary_ok operator l" using ok by (auto simp: binary_ok_def)
    have "CHR '','' \<in> set (wsStrip r)" if "strstr r '','' \<noteq> None"
      using strstr_char [OF that] by (simp add: r_def)
    then show ?thesis
      using res False valueParse_wf [OF b] rangeParse_wf [OF b] listParse_wf [OF b]
      by (auto split: if_splits)
  qed
qed

lemma parse_loop_wf:
  "parse_loop env ss fs = Inr fs' \<Longrightarrow> list_all (item_wf env) fs \<Longrightarrow>
     list_all (item_wf env) fs' \<and> length fs' = length fs + length ss"
  by (induction env ss fs rule: parse_loop.induct)
    (auto simp: Let_def item_parse_wf split: if_splits sum.splits)

text \<open>The queries, one list of at most one query per item.\<close>

lemma populate_queries:
  "mongoFilterPopulate_loop its qs = Inr qs' \<Longrightarrow>
     qs' = qs @ concat (map (\<lambda>it. case item_query it of Inl e \<Rightarrow> [] | Inr q \<Rightarrow> q) its)
     \<and> list_all (\<lambda>it. \<exists>q. item_query it = Inr q) its"
  by (induction its qs rule: mongoFilterPopulate_loop.induct) (auto split: sum.splits)

lemma item_query_not_null:
  "item_query it = Inr q \<Longrightarrow> sf_op it \<in> {SfopEquals, SfopDiffers} \<Longrightarrow> sf_valueType it \<noteq> SfvtNull"
  by (auto simp: item_query_def query_equals_def query_differs_def Let_def)

lemma split_on_all_Nil: "\<forall>t \<in> set (split_on d s). t = [] \<Longrightarrow> set s \<subseteq> {d}"
proof (induction s)
  case (Cons c cs)
  then show ?case by (cases "c = d"; cases "split_on d cs") auto
qed simp

lemma filter_parse_steps:
  assumes "filter_parse env q StringFilter_new = Inr sf"
  obtains ss where "ss \<noteq> []" "parse_loop env ss [] = Inr (filters sf)"
    "mongoFilterPopulate_loop (filters sf) [] = Inr (mongoFilters sf)"
proof -
  define str where "str = takeWhile isWs (c_str q) @ wsStrip (c_str q)"
  define ss where "ss = filter (\<lambda>t. t \<noteq> []) (split_on (CHR '';'') str)"
  from assms obtain fs where p: "parse_loop env ss [] = Inr fs" "mongoFilterPopulate \<lparr>filters = fs, mongoFilters = []\<rparr> = Inr sf"
      "c_str q \<noteq> []" "\<not> (wsStrip (c_str q) \<noteq> [] \<and> last (wsStrip (c_str q)) = CHR '';'')"
    by (auto simp: filter_parse_def Let_def ss_def str_def StringFilter_new_def split: if_splits sum.splits)
  then have m: "filters sf = fs" "mongoFilterPopulate_loop fs [] = Inr (mongoFilters sf)"
    by (auto simp: mongoFilterPopulate_def split: sum.splits)
  have "ss \<noteq> []"
  proof
    assume "ss = []"
    then have "set str \<subseteq> {CHR '';''}"
      by (intro split_on_all_Nil) (auto simp: ss_def filter_empty_conv)
    moreover have "\<exists>c \<in> set str. c \<noteq> CHR '';''"
    proof (cases "wsStrip (c_str q) = []")
      case True
      then have "isWs (hd (c_str q))" using p(3) wsStrip_not_Nil by blast
      then show ?thesis using p(3) by (cases "c_str q") (auto simp: str_def isWs_def)
    next
      case False
      then show ?thesis using p(4) by (intro bexI [of _ "last (wsStrip (c_str q))"]) (auto simp: str_def)
    qed
    ultimately show False by blast
  qed
  then show ?thesis using that p(1) m by simp
qed


lemma item_fill_wf: "item_wf env it \<Longrightarrow> item_fill env it = Inr it"
  by (cases it) (auto simp: item_fill_def item_wf_def StringFilterItem_new_def Let_def)

lemma fill_loop_wf: "list_all (item_wf env) its \<Longrightarrow> fill_loop env its fs = Inr (fs @ its)"
  by (induction its arbitrary: fs) (simp_all add: item_fill_wf)

text \<open>Cloning a filter that was parsed, or filling an empty filter from it, never fails and gives
  an equal filter, patterns and database queries included.\<close>

theorem filter_clone_exact:
  assumes "filter_parse env q StringFilter_new = Inr sf"
  shows "filter_clone env sf = Inr sf \<and> filter_fill env sf StringFilter_new = Inr sf"
proof -
  obtain ss where "parse_loop env ss [] = Inr (filters sf)" using filter_parse_steps [OF assms] by metis
  then have "fill_loop env (filters sf) [] = Inr (filters sf)"
    using parse_loop_wf fill_loop_wf [of env "filters sf" "[]"] by simp
  then show ?thesis by (simp add: filter_clone_def filter_fill_def StringFilter_new_def)
qed

subsection \<open>What a filter means\<close>

text \<open>The meaning of one item: the conjunct that it should contribute.\<close>

definition item_holds :: "sf_env \<Rightarrow> ContextElement \<Rightarrow> StringFilterItem \<Rightarrow> bool" where
  "item_holds env ce it = match_loop env [it] ce"

lemma match_loop_Cons:
  "match_loop env (it # its) ce =
     (item_holds env ce it \<and> (sf_op it = SfopMatchPattern \<or> match_loop env its ce))"
  by (cases "sf_op it"; cases "filter_attr it ce") (auto simp: item_holds_def)

lemma match_loop_before:
  "list_all (\<lambda>it. sf_op it \<noteq> SfopMatchPattern) pre \<Longrightarrow>
     match_loop env (pre @ its) ce = (list_all (item_holds env ce) pre \<and> match_loop env its ce)"
  by (induction pre) (simp_all add: match_loop_Cons del: match_loop.simps(2))


text \<open>On an entity for which the left-hand side has a value, unequal is the complement of equal,
  greater-or-equal that of less and less-or-equal that of greater; so where the types are not
  compatible, neither strict comparison holds and both of the others do.\<close>

theorem filter_match_complement:
  assumes "filter_attr it ce = Some ca"
  shows "item_holds env ce (it\<lparr>sf_op := SfopDiffers\<rparr>) = (\<not> item_holds env ce (it\<lparr>sf_op := SfopEquals\<rparr>))
     \<and> item_holds env ce (it\<lparr>sf_op := SfopGreaterThanOrEqual\<rparr>) = (\<not> item_holds env ce (it\<lparr>sf_op := SfopLessThan\<rparr>))
     \<and> item_holds env ce (it\<lparr>sf_op := SfopLessThanOrEqual\<rparr>) = (\<not> item_holds env ce (it\<lparr>sf_op := SfopGreaterThan\<rparr>))
     \<and> (\<not> compatibleType it ca \<longrightarrow>
          \<not> item_holds env ce (it\<lparr>sf_op := SfopLessThan\<rparr>) \<and> \<not> item_holds env ce (it\<lparr>sf_op := SfopGreaterThan\<rparr>)
          \<and> item_holds env ce (it\<lparr>sf_op := SfopLessThanOrEqual\<rparr>) \<and> item_holds env ce (it\<lparr>sf_op := SfopGreaterThanOrEqual\<rparr>))"
proof -
  have "filter_attr (it\<lparr>sf_op := x\<rparr>) ce = filter_attr it ce" for x by (simp add: filter_attr_def)
  then have a: "filter_attr (it\<lparr>sf_op := x\<rparr>) ce = Some ca" for x using assms by simp
  have "compatibleType (it\<lparr>sf_op := x\<rparr>) ca = compatibleType it ca" for x by (simp add: compatibleType_def)
  then show ?thesis
    by (simp add: item_holds_def a matchLessThan_def matchGreaterThan_def matchEquals_def)
qed

subsection \<open>Round trips\<close>

text \<open>Lists: what is added item by item.\<close>

fun add_items :: "sf_env \<Rightarrow> string list \<Rightarrow> StringFilterItem \<Rightarrow> string + StringFilterItem" where
  "add_items env [] it = Inr it"
| "add_items env (x # xs) it =
     (case listItemAdd env x it of Inl e \<Rightarrow> Inl e | Inr it \<Rightarrow> add_items env xs it)"

definition no_chars :: "char list \<Rightarrow> string \<Rightarrow> bool" where
  "no_chars cs s \<longleftrightarrow> list_all (\<lambda>c. c \<notin> set cs) s"

lemma listParse_inside:
  "quote_char \<notin> set x \<Longrightarrow>
     listParse_loop env cur (x @ quote_char # rest) True it = listParse_loop env (cur @ x @ [NUL]) rest False it"
  by (induction x arbitrary: cur) auto

lemma listParse_outside:
  "no_chars [quote_char, CHR '',''] x \<Longrightarrow> listParse_loop env cur (x @ rest) False it = listParse_loop env (cur @ x) rest False it"
  by (induction x arbitrary: cur) (auto simp: no_chars_def)

lemma c_str_closed: "NUL \<notin> set x \<Longrightarrow> c_str (x @ [NUL]) = x"
  unfolding c_str_def by (induction x) auto

lemma listParse_loop_quoted:
  "xs \<noteq> [] \<Longrightarrow> \<forall>x \<in> set xs. no_chars [quote_char, NUL] x \<Longrightarrow>
     listParse_loop env [] (join_with (CHR '','') (map quoted xs)) False it = add_items env xs it"
proof (induction xs arbitrary: it)
  case (Cons x xs)
  have x: "quote_char \<notin> set x" "NUL \<notin> set x" using Cons.prems(2) by (auto simp: no_chars_def list_all_iff)
  show ?case
  proof (cases xs)
    case Nil
    then show ?thesis using listParse_inside [OF x(1), of env "[]" "[]" it] c_str_closed [OF x(2)]
      by (simp add: quoted_def split: sum.splits)
  next
    case (Cons y ys)
    then have j: "join_with (CHR '','') (map quoted (x # xs)) = quote_char # x @ quote_char # CHR '','' # join_with (CHR '','') (map quoted xs)"
      by (simp add: quoted_def)
    have "join_with (CHR '','') (map quoted xs) \<noteq> []" using Cons by (cases ys) (simp_all add: quoted_def)
    then show ?thesis
      using listParse_inside [OF x(1), of env "[]"] c_str_closed [OF x(2)] Cons.IH Cons.prems Cons
      unfolding j by (auto split: sum.splits)
  qed
qed simp

lemma listParse_loop_plain:
  "xs \<noteq> [] \<Longrightarrow> \<forall>x \<in> set xs. x \<noteq> [] \<and> no_chars [quote_char, NUL, CHR '',''] x \<Longrightarrow>
     listParse_loop env [] (join_with (CHR '','') xs) False it = add_items env xs it"
proof (induction xs arbitrary: it)
  case (Cons x xs)
  have x: "no_chars [quote_char, CHR '',''] x" "NUL \<notin> set x" "x \<noteq> []"
    using Cons.prems(2) by (auto simp: no_chars_def list_all_iff)
  show ?case
  proof (cases xs)
    case Nil
    then show ?thesis using listParse_outside [OF x(1), of env "[]" "[]" it] x(2,3) by (simp add: c_str_no_NUL split: sum.splits)
  next
    case (Cons y ys)
    have "join_with (CHR '','') xs \<noteq> []" using Cons Cons.prems(2) by (cases ys) auto
    then show ?thesis
      using listParse_outside [OF x(1), of env "[]"] x(2) Cons.IH Cons.prems Cons
      by (auto simp: c_str_no_NUL split: sum.splits)
  qed
qed simp

definition tidy :: "string \<Rightarrow> bool" where
  "tidy s \<longleftrightarrow> s \<noteq> [] \<and> \<not> isWs (hd s) \<and> \<not> isWs (last s)"

lemma tidy_strip: "tidy s \<Longrightarrow> wsStrip s = s"
  by (simp add: tidy_def wsStrip_fix)

lemma tidy_join:
  assumes "xs \<noteq> []" "\<forall>x \<in> set xs. tidy x"
  shows "tidy (join_with d xs)"
  using assms
proof (induction d xs rule: join_with.induct)
  case (3 d g h gs)
  then show ?case by (auto simp: tidy_def)
qed auto

lemma tidy_quoted: "tidy (quoted x)"
  by (simp add: tidy_def quoted_def isWs_def)

lemma add_items_strings:
  assumes "\<forall>x \<in> set xs. tidy x \<and> (\<exists>v. valueGet env x = Inr v \<and> vo_type v = SfvtString \<and> vo_string v = Some x)"
    and "sf_valueType it = SfvtStringList" "sf_stringList it \<noteq> []"
  shows "add_items env xs it = Inr (it\<lparr>sf_stringList := sf_stringList it @ xs\<rparr>)"
  using assms
proof (induction xs arbitrary: it)
  case (Cons x xs)
  then obtain v where v: "tidy x" "valueGet env x = Inr v" "vo_type v = SfvtString" "vo_string v = Some x" by auto
  then have "listItemAdd env x it = Inr (it\<lparr>sf_stringList := sf_stringList it @ [x]\<rparr>)"
    using Cons.prems(2,3) by (simp add: listItemAdd_def tidy_strip tidy_def assigned_def Let_def)
  then show ?case using Cons by simp
qed simp

text \<open>The quotes of a list (\<^verbatim>\<open>color=='light,green','deep,blue'\<close>) protect the commas
  inside them: if the items are strings the list has exactly them. But they are
  dropped before the items are typed: items without a comma give the same list with or without
  quotes, whatever they look like, so a quoted number is a number.\<close>

theorem listParse_quoted:
  assumes "xs \<noteq> []" and "\<forall>x \<in> set xs. tidy x \<and> no_chars [quote_char, NUL] x"
    and op: "operator = SfopEquals \<or> operator = SfopDiffers"
  shows "((\<forall>x \<in> set xs. \<exists>v. valueGet env x = Inr v \<and> vo_type v = SfvtString \<and> vo_string v = Some x) \<longrightarrow>
      listParse env (join_with (CHR '','') (map quoted xs)) (item_base operator l)
        = Inr ((item_base operator l)\<lparr>sf_valueType := SfvtStringList, sf_stringList := xs\<rparr>))
    \<and> ((\<forall>x \<in> set xs. CHR '','' \<notin> set x) \<longrightarrow>
      listParse env (join_with (CHR '','') (map quoted xs)) (item_base operator l)
        = listParse env (join_with (CHR '','') xs) (item_base operator l))"
proof -
  have qu: "listParse env (join_with (CHR '','') (map quoted xs)) (item_base operator l) = add_items env xs (item_base operator l)"
    using tidy_join [of "map quoted xs"] listParse_loop_quoted [OF assms(1)] assms op
    by (simp add: listParse_def tidy_strip tidy_quoted) (auto simp: item_base_def)
  have "listParse env (join_with (CHR '','') xs) (item_base operator l) = add_items env xs (item_base operator l)"
    if "\<forall>x \<in> set xs. CHR '','' \<notin> set x"
  proof -
    have "\<forall>x \<in> set xs. x \<noteq> [] \<and> no_chars [quote_char, NUL, CHR '',''] x"
      using assms(2) that by (auto simp: no_chars_def tidy_def list_all_iff)
    then show ?thesis
      using tidy_join [of xs] listParse_loop_plain [OF assms(1)] assms op
      by (simp add: listParse_def tidy_strip) (auto simp: item_base_def)
  qed
  moreover have "add_items env xs (item_base operator l) = Inr ((item_base operator l)\<lparr>sf_valueType := SfvtStringList, sf_stringList := xs\<rparr>)"
    if strs: "\<forall>x \<in> set xs. \<exists>v. valueGet env x = Inr v \<and> vo_type v = SfvtString \<and> vo_string v = Some x"
  proof (cases xs)
    case (Cons y ys)
    then obtain v where v: "tidy y" "valueGet env y = Inr v" "vo_type v = SfvtString" "vo_string v = Some y"
      using strs assms(2) by auto
    have "listItemAdd env y (item_base operator l) = Inr ((item_base operator l)\<lparr>sf_valueType := SfvtStringList, sf_stringList := [y]\<rparr>)"
      using v by (simp add: listItemAdd_def tidy_strip tidy_def assigned_def item_base_def StringFilterItem_new_def Let_def)
    then show ?thesis
      using add_items_strings [of ys env "(item_base operator l)\<lparr>sf_valueType := SfvtStringList, sf_stringList := [y]\<rparr>"]
        strs assms(2) Cons by simp
  qed (use assms(1) in simp)
  ultimately show ?thesis using qu by simp
qed

text \<open>A concrete library for the witnesses: numbers are digit strings, a pattern
  without parenthesis compiles and matches the strings that contain it.\<close>

definition env_demo :: sf_env where
  "env_demo = \<lparr>e_strtod = strtod_nat, regcomp = (\<lambda>p. CHR ''('' \<notin> set p),
     regexec = (\<lambda>p s. strstr s p \<noteq> None)\<rparr>"

theorem listParse_quoted_witness:
  "listParse env_demo (join_with (CHR '','') (map quoted [''1'', ''2''])) (item_base SfopEquals ''a'')
     = listParse env_demo ''1,2'' (item_base SfopEquals ''a'')
   \<and> listParse env_demo ''1,2'' (item_base SfopEquals ''a'')
     = Inr ((item_base SfopEquals ''a'')\<lparr>sf_valueType := SfvtNumberList, sf_numberList := [Fin 1, Fin 2]\<rparr>)"
proof
  have "\<forall>x \<in> set [''1'', ''2'']. tidy x \<and> no_chars [quote_char, NUL] x" by code_simp
  moreover have "\<forall>x \<in> set [''1'', ''2'']. CHR '','' \<notin> set x" by code_simp
  ultimately show "listParse env_demo (join_with (CHR '','') (map quoted [''1'', ''2''])) (item_base SfopEquals ''a'')
     = listParse env_demo ''1,2'' (item_base SfopEquals ''a'')"
    using listParse_quoted [of "[''1'', ''2'']" SfopEquals env_demo "''a''"] by simp
  show "listParse env_demo ''1,2'' (item_base SfopEquals ''a'')
     = Inr ((item_base SfopEquals ''a'')\<lparr>sf_valueType := SfvtNumberList, sf_numberList := [Fin 1, Fin 2]\<rparr>)" by code_simp
qed

text \<open>Items.\<close>

fun op_text :: "StringFilterOp \<Rightarrow> string" where
  "op_text SfopEquals = ''==''"
| "op_text SfopDiffers = ''!=''"
| "op_text SfopGreaterThan = ''>''"
| "op_text SfopGreaterThanOrEqual = ''>=''"
| "op_text SfopLessThan = ''<''"
| "op_text SfopLessThanOrEqual = ''<=''"
| "op_text SfopMatchPattern = ''~=''"
| "op_text SfopNotExists = ''!''"
| "op_text SfopExists = []"

abbreviation op_chars :: string where
  "op_chars \<equiv> ''=~!<>:''"

lemma strstr_skip:
  "n \<notin> set l \<Longrightarrow> strstr (l @ r) (n # ns) = map_option (\<lambda>(p, q). (l @ p, q)) (strstr r (n # ns))"
proof (induction l)
  case Nil
  then show ?case by (simp add: option.map_ident_strong split_def)
next
  case (Cons c cs)
  then show ?case by (subst strstr.simps) (auto simp: option.map_comp comp_def split_def)
qed

lemma strstr_absent: "n \<notin> set s \<Longrightarrow> strstr s (n # ns) = None"
  using strstr_skip [of n s "[]" ns] by (simp add: strstr.simps [of "[]"])

lemma strstr_Cons:
  "strstr (c # cs) (n # ns) = (if c = n \<and> take (length ns) cs = ns then Some ([], c # cs)
     else map_option (\<lambda>(p, q). (c # p, q)) (strstr cs (n # ns)))"
  by (subst strstr.simps) simp

lemma find_op_text:
  assumes "operator \<notin> {SfopExists, SfopNotExists}" and "no_chars op_chars l" "no_chars op_chars v" and "v \<noteq> []"
  shows "find_op (l @ op_text operator @ v) = (operator, l, v)"
proof -
  have "n \<notin> set l \<and> n \<notin> set v" if "n \<in> set op_chars" for n
    using assms(2,3) that by (auto simp: no_chars_def list_all_iff)
  then have l: "CHR ''='' \<notin> set l" "CHR ''~'' \<notin> set l" "CHR ''!'' \<notin> set l" "CHR ''<'' \<notin> set l" "CHR ''>'' \<notin> set l" "CHR '':'' \<notin> set l"
    and v: "CHR ''='' \<notin> set v" "CHR ''~'' \<notin> set v" "CHR ''!'' \<notin> set v" "CHR ''<'' \<notin> set v" "CHR ''>'' \<notin> set v" "CHR '':'' \<notin> set v"
    by simp_all
  have hd: "hd v \<noteq> CHR ''=''" "take (Suc 0) v = [hd v]" using v(1) assms(4) by (cases v; auto)+
  show ?thesis
    using assms(1) hd
    by (cases operator) (simp_all add: find_op_def strstr_skip l strstr_Cons strstr_absent v)
qed

text \<open>An item written as name, operator and value parses to that operator with that name, its
  value read by \<^verbatim>\<open>valueParse\<close>, for every binary operator, if the name has no
  forbidden character, neither has a character of an operator, and the value is no list or range;
  the unary forms parse to the test for existence and its negation.\<close>

theorem item_parse_roundtrip:
  assumes l: "tidy l" "no_chars op_chars l" "no_chars [NUL] l" "\<not> forbiddenChars (Some l) (Some [])"
    and v: "tidy v" "no_chars op_chars v" "no_chars [NUL] v" "strstr v ''..'' = None" "strstr v '','' = None"
  shows "(operator \<notin> {SfopExists, SfopNotExists} \<longrightarrow>
        item_parse env (l @ op_text operator @ v) = valueParse env v (item_base operator l))
     \<and> item_parse env l = Inr ((item_base SfopExists l)\<lparr>sf_attributeName := l\<rparr>)
     \<and> item_parse env (CHR ''!'' # l) = Inr ((item_base SfopNotExists [])\<lparr>sf_attributeName := l\<rparr>)"
proof -
  have no_nul: "c_str l = l" "c_str v = v" "c_str (l @ op_text operator @ v) = l @ op_text operator @ v" for operator
  proof -
    have "NUL \<notin> set l" "NUL \<notin> set v" using l(3) v(3) by (auto simp: no_chars_def list_all_iff)
    moreover have "NUL \<notin> set (op_text operator)" by (cases operator) simp_all
    ultimately show "c_str l = l" "c_str v = v" "c_str (l @ op_text operator @ v) = l @ op_text operator @ v"
      by (simp_all add: c_str_no_NUL)
  qed
  have ne: "l \<noteq> []" "v \<noteq> []" using l(1) v(1) by (simp_all add: tidy_def)
  have "\<not> commonForbidden (hd l)"
    using l(4) ne(1) by (simp add: forbiddenChars_def forbiddenChars_loop_iff exempt_def strchr_def)
  then have hd: "hd l \<noteq> quote_char" "l \<noteq> []" "v \<noteq> []" "hd l \<noteq> CHR ''!''"
    using ne l(2) by (cases l; simp add: commonForbidden_def no_chars_def)+
  have t: "tidy (l @ op_text operator @ v)" "tidy (CHR ''!'' # l)" for operator
    using l(1) v(1) by (auto simp: tidy_def isWs_def)
  have none: "strstr l [n] = None" "strstr l (n # ns) = None" if "n \<in> set op_chars" for n ns
    using strstr_absent l(2) that by (auto simp: no_chars_def list_all_iff)
  have neg: "c_str (CHR ''!'' # l) = CHR ''!'' # l" using no_nul(1) by (simp add: c_str_def)
  have "item_parse env (l @ op_text operator @ v) = valueParse env v (item_base operator l)"
    if "operator \<notin> {SfopExists, SfopNotExists}"
    using that find_op_text [OF that l(2) v(2)] hd l v t(1)
    by (simp add: item_parse_def no_nul tidy_strip unquote_def item_base_def Let_def)
  moreover have "item_parse env l = Inr ((item_base SfopExists l)\<lparr>sf_attributeName := l\<rparr>)"
    using hd l by (simp add: item_parse_def no_nul tidy_strip unquote_def item_base_def find_op_def none Let_def)
  moreover have "item_parse env (CHR ''!'' # l) = Inr ((item_base SfopNotExists [])\<lparr>sf_attributeName := l\<rparr>)"
  proof -
    have "take (Suc 0) l \<noteq> ''=''" using l(2) hd(2) by (cases l) (auto simp: no_chars_def)
    then have "find_op (CHR ''!'' # l) = (SfopNotExists, [], l)"
      by (simp add: find_op_def none strstr_Cons)
    then show ?thesis using hd l t(2)
      by (simp add: item_parse_def neg tidy_strip unquote_def Let_def)
        (simp add: wsStrip_def forbiddenChars_def item_base_def StringFilterItem_new_def)
  qed
  ultimately show ?thesis by blast
qed

theorem item_parse_roundtrip_witness:
  "item_parse env_demo ''temp>=40'' = Inr ((item_base SfopGreaterThanOrEqual ''temp'')\<lparr>sf_valueType := SfvtNumber, sf_numberValue := Fin 40\<rparr>)"
proof -
  have l: "tidy ''temp''" "no_chars op_chars ''temp''" "no_chars [NUL] ''temp''" "\<not> forbiddenChars (Some ''temp'') (Some [])"
    by code_simp+
  have v: "tidy ''40''" "no_chars op_chars ''40''" "no_chars [NUL] ''40''" "strstr ''40'' ''..'' = None" "strstr ''40'' '','' = None"
    by code_simp+
  have "valueParse env_demo ''40'' (item_base SfopGreaterThanOrEqual ''temp'')
      = Inr ((item_base SfopGreaterThanOrEqual ''temp'')\<lparr>sf_valueType := SfvtNumber, sf_numberValue := Fin 40\<rparr>)" by code_simp
  then show ?thesis using item_parse_roundtrip [OF l v, of SfopGreaterThanOrEqual env_demo] by simp
qed

definition filter_demo :: StringFilter where
  "filter_demo = (case filter_parse env_demo ''temp>=40;color~=ow;size==1'' StringFilter_new of
     Inl e \<Rightarrow> StringFilter_new | Inr sf \<Rightarrow> sf)"

lemma filter_demo_parse: "filter_parse env_demo ''temp>=40;color~=ow;size==1'' StringFilter_new = Inr filter_demo"
proof -
  have "filter_parse env_demo ''temp>=40;color~=ow;size==1'' StringFilter_new \<noteq> Inl e" for e
  proof -
    have "isl (filter_parse env_demo ''temp>=40;color~=ow;size==1'' StringFilter_new) = False" by code_simp
    then show ?thesis by force
  qed
  then show ?thesis by (simp add: filter_demo_def split: sum.splits)
qed


theorem filter_clone_exact_witness: "filter_clone env_demo filter_demo = Inr filter_demo"
  using filter_clone_exact [OF filter_demo_parse] by simp

definition entity_demo :: ContextElement where
  "entity_demo = ContextElement_new\<lparr>contextAttributeVector :=
      [ContextAttribute_number ''temp'' ''Number'' (Fin 41) True,
       ContextAttribute_string ''color'' ''Text'' ''brown'' True,
       ContextAttribute_number ''size'' ''Number'' (Fin 7) True],
     creDate := Fin 0, modDate := Fin 0\<rparr>"


theorem filter_match_complement_witness:
  "let it = (item_base SfopEquals ''color'')\<lparr>sf_valueType := SfvtNumber\<rparr>
   in item_holds env_demo entity_demo (it\<lparr>sf_op := SfopGreaterThanOrEqual\<rparr>) \<and> \<not> item_holds env_demo entity_demo (it\<lparr>sf_op := SfopGreaterThan\<rparr>)"
proof -
  let ?it = "(item_base SfopEquals ''color'')\<lparr>sf_valueType := SfvtNumber\<rparr>"
  let ?ca = "ContextAttribute_string ''color'' ''Text'' ''brown'' True"
  have "filter_attr ?it entity_demo = Some ?ca" by code_simp
  note c = filter_match_complement [OF this, of env_demo]
  have "\<not> compatibleType ?it ?ca" by code_simp
  then show ?thesis using c by (simp add: Let_def)
qed

end
