(* ===== verification/Orion_SubCache.thy ===== *)
theory Orion_SubCache
  imports Orion_Sem Orion_Formats Orion_StringFilter
begin

section \<open>The subscription cache: cache/subCache.cpp\<close>

text \<open>
  The cache is a singly linked list of heap objects with pointers to its first and last node. The
  heap is a map from addresses to nodes: reading through an address that is not mapped (freed
  memory, a null pointer) is undefined behaviour. The walks along the list are
  \<^verbatim>\<open>partial_function (option)\<close>: their result \<^const>\<open>None\<close> stands for undefined behaviour and for a
  walk that never ends.

  Parameters: \<^verbatim>\<open>regcomp\<close> and \<^verbatim>\<open>regexec\<close> (in \<open>sf_env\<close>), the addresses that the
  allocator returns, and what the database holds (the subscriptions that \<^verbatim>\<open>mongoSubCacheRefresh\<close>
  inserts). Writes to the database (\<^verbatim>\<open>mongoSubCacheUpdate\<close>) are recorded.

  The interface of the list is the locale \<open>sub_store\<close>, a refinement of plain lists of entries.
\<close>

subsection \<open>Subscriptions\<close>

record EntityInfo =
  ein_isPattern :: bool
  ein_entityId :: string
  ein_entityType :: string
  ein_compiled :: bool

text \<open>
  The constructor ignores the result of \<^verbatim>\<open>regcomp\<close>; executing a pattern that did not compile is
  undefined.
\<close>

definition EntityInfo_new :: "sf_env \<Rightarrow> string \<Rightarrow> string \<Rightarrow> string \<Rightarrow> EntityInfo" where
  "EntityInfo_new env entityId entityType isPattern =
     (let pat = isPattern = ''true'' \<or> isPattern = ''TRUE'' \<or> isPattern = ''True''
      in \<lparr>ein_isPattern = pat, ein_entityId = entityId, ein_entityType = entityType,
          ein_compiled = pat \<and> regcomp env (c_str entityId)\<rparr>)"

definition EntityInfo_match :: "sf_env \<Rightarrow> EntityInfo \<Rightarrow> string \<Rightarrow> string \<Rightarrow> bool option" where
  "EntityInfo_match env ei entityId entityType =
     (if entityType \<noteq> [] \<and> ein_entityType ei \<noteq> entityType \<and> ein_entityType ei \<noteq> [] then Some False
      else if ein_isPattern ei
      then if ein_compiled ei then Some (regexec env (c_str (ein_entityId ei)) (c_str entityId)) else None
      else Some (entityId = ein_entityId ei))"

record NotifyCondition =
  nc_type :: string
  nc_condValueList :: "string list"

record SubscriptionExpression =
  ex_q :: string
  ex_geometry :: string
  ex_coords :: string
  ex_georel :: string
  ex_stringFilter :: StringFilter

record CachedSubscription =
  entityIdInfos :: "EntityInfo list"
  attributes :: "string list"
  notifyConditionVector :: "NotifyCondition list"
  cs_tenant :: "string option"
  cs_servicePath :: string
  subscriptionId :: string
  throttling :: int
  expirationTime :: int
  lastNotificationTime :: int
  cs_status :: string
  count :: int
  cs_renderFormat :: RenderFormat
  reference :: string
  expression :: SubscriptionExpression
  nxt :: "nat option"

type_synonym heap = "nat \<rightharpoonup> CachedSubscription"

datatype SubCacheState = ScsIdle | ScsSynchronizing

record SubCache =
  head :: "nat option"
  tail :: "nat option"
  noOfRefreshes :: int
  noOfInserts :: int
  noOfRemoves :: int
  noOfUpdates :: int
  heap :: heap
  subCacheMultitenant :: bool
  subCacheActive :: bool
  subCacheState :: SubCacheState

subsection \<open>Matching\<close>

fun attributeMatch :: "NotifyCondition list \<Rightarrow> string list \<Rightarrow> bool" where
  "attributeMatch [] attrV = False"
| "attributeMatch (nc # ncs) attrV =
     (if nc_condValueList nc = [] then True
      else if list_ex (\<lambda>v. list_ex (\<lambda>a. v = a) attrV) (nc_condValueList nc) then True
      else attributeMatch ncs attrV)"

text \<open>
  \<^verbatim>\<open>servicePathMatch\<close>: \<open>spath\<close> is the service path of the subscription. The character before an
  empty \<open>spath\<close> and the one at index \<^verbatim>\<open>strlen(spath) - 2\<close> of a path of length one are out of range.
\<close>

definition servicePathMatch :: "string \<Rightarrow> string \<Rightarrow> bool option" where
  "servicePathMatch spath servicePath =
     (if servicePath = ''/#'' then Some True
      else if servicePath = [] \<and> spath = [] then Some True
      else let servicePath = (if servicePath = [] then ''/'' else servicePath)
      in if spath = [] then None
      else if last spath \<noteq> CHR ''#'' then Some (servicePath = spath)
      else if length spath < 2 then None
      else let len = length spath - 2
      in if spath ! len = CHR ''/'' \<and> length servicePath = len \<and> take len spath = take len servicePath then Some True
      else let len = length spath - 1
      in Some (take len spath = take len servicePath))"

fun entities_match :: "sf_env \<Rightarrow> EntityInfo list \<Rightarrow> string \<Rightarrow> string \<Rightarrow> bool option" where
  "entities_match env [] entityId entityType = Some False"
| "entities_match env (ei # eis) entityId entityType =
     (case EntityInfo_match env ei entityId entityType of
        None \<Rightarrow> None
      | Some True \<Rightarrow> Some True
      | Some False \<Rightarrow> entities_match env eis entityId entityType)"

definition no_tenant :: "string option \<Rightarrow> bool" where
  "no_tenant t = (t = None \<or> t = Some [])"

definition subMatch ::
    "sf_env \<Rightarrow> bool \<Rightarrow> CachedSubscription \<Rightarrow> string option \<Rightarrow> string \<Rightarrow> string \<Rightarrow> string \<Rightarrow> string list \<Rightarrow> bool option" where
  "subMatch env multitenant c tenant servicePath entityId entityType attrV =
     (if multitenant \<and> (no_tenant (cs_tenant c) \<or> no_tenant tenant) \<and> \<not> no_tenant (cs_tenant c) then Some False
      else if multitenant \<and> (no_tenant (cs_tenant c) \<or> no_tenant tenant) \<and> \<not> no_tenant tenant then Some False
      else if multitenant \<and> \<not> no_tenant (cs_tenant c) \<and> \<not> no_tenant tenant \<and> cs_tenant c \<noteq> tenant then Some False
      else case servicePathMatch (cs_servicePath c) servicePath of
        None \<Rightarrow> None
      | Some False \<Rightarrow> Some False
      | Some True \<Rightarrow>
          if \<not> attributeMatch (notifyConditionVector c) attrV then Some False
          else entities_match env (entityIdInfos c) entityId entityType)"

definition tenantMatch :: "string option \<Rightarrow> string option \<Rightarrow> bool" where
  "tenantMatch tenant1 tenant2 =
     (let t1 = (case tenant1 of None \<Rightarrow> [] | Some t \<Rightarrow> t); t2 = (case tenant2 of None \<Rightarrow> [] | Some t \<Rightarrow> t)
      in if length t1 \<noteq> length t2 then False else if t1 = t2 then True else False)"

subsection \<open>The list\<close>

definition subCacheStatisticsReset :: "SubCache \<Rightarrow> SubCache" where
  "subCacheStatisticsReset sc = sc\<lparr>noOfRefreshes := 0, noOfInserts := 0, noOfRemoves := 0, noOfUpdates := 0\<rparr>"

definition subCacheInit :: "bool \<Rightarrow> SubCache \<Rightarrow> SubCache" where
  "subCacheInit multitenant sc =
     (subCacheStatisticsReset (sc\<lparr>subCacheMultitenant := multitenant, head := None, tail := None\<rparr>))\<lparr>subCacheActive := True\<rparr>"

partial_function (option) items_loop :: "heap \<Rightarrow> nat option \<Rightarrow> int \<Rightarrow> int option" where
  "items_loop h p items =
     (case p of
        None \<Rightarrow> Some items
      | Some a \<Rightarrow> (case h a of None \<Rightarrow> None | Some c \<Rightarrow> items_loop h (nxt c) (items + 1)))"

definition subCacheItems :: "SubCache \<Rightarrow> int option" where
  "subCacheItems sc = items_loop (heap sc) (head sc) 0"

partial_function (option) match_walk ::
    "sf_env \<Rightarrow> bool \<Rightarrow> string option \<Rightarrow> string \<Rightarrow> string \<Rightarrow> string \<Rightarrow> string list \<Rightarrow> heap \<Rightarrow> nat option \<Rightarrow> nat list \<Rightarrow> nat list option" where
  "match_walk env mt tenant servicePath entityId entityType attrV h p subVec =
     (case p of
        None \<Rightarrow> Some subVec
      | Some a \<Rightarrow>
          (case h a of
             None \<Rightarrow> None
           | Some c \<Rightarrow>
               (case subMatch env mt c tenant servicePath entityId entityType attrV of
                  None \<Rightarrow> None
                | Some m \<Rightarrow> match_walk env mt tenant servicePath entityId entityType attrV h (nxt c)
                              (if m then subVec @ [a] else subVec))))"

definition subCacheMatch ::
    "sf_env \<Rightarrow> string option \<Rightarrow> string \<Rightarrow> string \<Rightarrow> string \<Rightarrow> string list \<Rightarrow> SubCache \<Rightarrow> nat list \<Rightarrow> nat list option" where
  "subCacheMatch env tenant servicePath entityId entityType attrV sc subVec =
     match_walk env (subCacheMultitenant sc) tenant servicePath entityId entityType attrV (heap sc) (head sc) subVec"

definition subCacheMatch_attr ::
    "sf_env \<Rightarrow> string option \<Rightarrow> string \<Rightarrow> string \<Rightarrow> string \<Rightarrow> string \<Rightarrow> SubCache \<Rightarrow> nat list \<Rightarrow> nat list option" where
  "subCacheMatch_attr env tenant servicePath entityId entityType attr sc subVec =
     match_walk env (subCacheMultitenant sc) tenant servicePath entityId entityType [attr] (heap sc) (head sc) subVec"

text \<open>
  \<^verbatim>\<open>subCacheDestroy\<close>: each node is destroyed and deleted, the successor being read before; the
  members that \<^verbatim>\<open>subCacheItemDestroy\<close> frees go with the node.
\<close>

partial_function (option) destroy_loop :: "heap \<Rightarrow> nat \<Rightarrow> heap option" where
  "destroy_loop h a =
     (case h a of
        None \<Rightarrow> None
      | Some c \<Rightarrow>
          (case nxt c of
             None \<Rightarrow> Some (h(a := None))
           | Some b \<Rightarrow> destroy_loop (h(a := None)) b))"

definition subCacheDestroy :: "SubCache \<Rightarrow> SubCache option" where
  "subCacheDestroy sc =
     (case head sc of
        None \<Rightarrow> Some sc
      | Some a \<Rightarrow>
          (case destroy_loop (heap sc) a of
             None \<Rightarrow> None
           | Some h \<Rightarrow> Some (sc\<lparr>heap := h, head := None, tail := None\<rparr>)))"

partial_function (option) lookup_loop :: "heap \<Rightarrow> (CachedSubscription \<Rightarrow> bool) \<Rightarrow> nat option \<Rightarrow> nat option option" where
  "lookup_loop h found p =
     (case p of
        None \<Rightarrow> Some None
      | Some a \<Rightarrow> (case h a of None \<Rightarrow> None | Some c \<Rightarrow> if found c then Some (Some a) else lookup_loop h found (nxt c)))"

definition subCacheItemLookup :: "string option \<Rightarrow> string \<Rightarrow> SubCache \<Rightarrow> nat option option" where
  "subCacheItemLookup tenant subId sc =
     lookup_loop (heap sc) (\<lambda>c. tenantMatch tenant (cs_tenant c) \<and> subId = subscriptionId c) (head sc)"

definition subCacheUpdateStatisticsIncrement :: "SubCache \<Rightarrow> SubCache" where
  "subCacheUpdateStatisticsIncrement sc = sc\<lparr>noOfUpdates := noOfUpdates sc + 1\<rparr>"

text \<open>\<^verbatim>\<open>subCacheItemInsert(CachedSubscription*)\<close> of a node that is at the address \<open>a\<close>.\<close>

definition subCacheItemInsert :: "nat \<Rightarrow> SubCache \<Rightarrow> SubCache option" where
  "subCacheItemInsert a sc =
     (case heap sc a of
        None \<Rightarrow> None
      | Some c \<Rightarrow>
          let sc = sc\<lparr>heap := (heap sc)(a \<mapsto> c\<lparr>nxt := None\<rparr>), noOfInserts := noOfInserts sc + 1\<rparr>
          in if head sc = None \<and> tail sc = None then Some (sc\<lparr>head := Some a, tail := Some a\<rparr>)
             else case tail sc of
               None \<Rightarrow> None
             | Some t \<Rightarrow>
                 (case heap sc t of
                    None \<Rightarrow> None
                  | Some ct \<Rightarrow> Some (sc\<lparr>heap := (heap sc)(t \<mapsto> ct\<lparr>nxt := Some a\<rparr>), tail := Some a\<rparr>)))"

text \<open>The walk of \<^verbatim>\<open>subCacheItemRemove\<close>, and the whole function.\<close>

partial_function (option) remove_loop :: "nat \<Rightarrow> SubCache \<Rightarrow> nat option \<Rightarrow> nat option \<Rightarrow> (int \<times> SubCache) option" where
  "remove_loop a sc current prev =
     (case current of
        None \<Rightarrow> Some (- 1, sc)
      | Some b \<Rightarrow>
          (case heap sc b of
             None \<Rightarrow> None
           | Some c \<Rightarrow>
               if b = a then
                 (let sc1 = (if head sc = Some a then sc\<lparr>head := nxt c\<rparr> else sc);
                      sc2 = (if tail sc1 = Some a then sc1\<lparr>tail := prev\<rparr> else sc1)
                  in case prev of
                       None \<Rightarrow> Some (0, sc2\<lparr>noOfRemoves := noOfRemoves sc2 + 1, heap := (heap sc2)(a := None)\<rparr>)
                     | Some q \<Rightarrow>
                         (case heap sc2 q of
                            None \<Rightarrow> None
                          | Some cq \<Rightarrow>
                              Some (0, sc2\<lparr>noOfRemoves := noOfRemoves sc2 + 1,
                                           heap := ((heap sc2)(q \<mapsto> cq\<lparr>nxt := nxt c\<rparr>))(a := None)\<rparr>)))
               else remove_loop a sc (nxt c) (Some b)))"

definition subCacheItemRemove :: "nat \<Rightarrow> SubCache \<Rightarrow> (int \<times> SubCache) option" where
  "subCacheItemRemove a sc = remove_loop a sc (head sc) None"

subsection \<open>Creating and inserting a subscription\<close>

definition onchange :: "NotifyCondition list \<Rightarrow> bool" where
  "onchange ncv = list_ex (\<lambda>nc. map lower_char (c_str (nc_type nc)) = map lower_char ''ONCHANGE'') ncv"

text \<open>The items that \<^verbatim>\<open>StringFilter::fill\<close> has pushed when it fails.\<close>

fun fill_done :: "sf_env \<Rightarrow> StringFilterItem list \<Rightarrow> StringFilterItem list" where
  "fill_done env [] = []"
| "fill_done env (it # its) = (case item_fill env it of Inl e \<Rightarrow> [] | Inr sfi \<Rightarrow> sfi # fill_done env its)"

definition filled_filter :: "sf_env \<Rightarrow> StringFilter option \<Rightarrow> StringFilter" where
  "filled_filter env stringFilterP =
     (case stringFilterP of
        None \<Rightarrow> StringFilter_new
      | Some sf \<Rightarrow>
          (case filter_fill env sf StringFilter_new of
             Inr f \<Rightarrow> f
           | Inl e \<Rightarrow> StringFilter_new\<lparr>filters := fill_done env (filters sf)\<rparr>))"

record sub_args =
  sa_tenant :: string
  sa_servicePath :: string
  sa_url :: string
  sa_entities :: "(string \<times> string \<times> string) list"
  sa_attributes :: "string list"
  sa_notifyConditions :: "NotifyCondition list"
  sa_subscriptionId :: string
  sa_expirationTime :: int
  sa_throttling :: int
  sa_renderFormat :: RenderFormat
  sa_notificationDone :: bool
  sa_lastNotificationTime :: int
  sa_stringFilter :: "StringFilter option"
  sa_status :: string
  sa_q :: string
  sa_geometry :: string
  sa_coords :: string
  sa_georel :: string

definition sub_create :: "sf_env \<Rightarrow> sub_args \<Rightarrow> CachedSubscription" where
  "sub_create env sa =
     \<lparr>entityIdInfos = map (\<lambda>(i, t, p). EntityInfo_new env i t p) (sa_entities sa),
      attributes = sa_attributes sa,
      notifyConditionVector = sa_notifyConditions sa,
      cs_tenant = (if c_str (sa_tenant sa) = [] then None else Some (c_str (sa_tenant sa))),
      cs_servicePath = c_str (sa_servicePath sa),
      subscriptionId = c_str (sa_subscriptionId sa),
      throttling = sa_throttling sa,
      expirationTime = sa_expirationTime sa,
      lastNotificationTime = sa_lastNotificationTime sa,
      cs_status = sa_status sa,
      count = (if sa_notificationDone sa = True then 1 else 0),
      cs_renderFormat = sa_renderFormat sa,
      reference = c_str (sa_url sa),
      expression = \<lparr>ex_q = sa_q sa, ex_geometry = sa_geometry sa, ex_coords = sa_coords sa, ex_georel = sa_georel sa,
                    ex_stringFilter = filled_filter env (sa_stringFilter sa)\<rparr>,
      nxt = None\<rparr>"

text \<open>The longer \<^verbatim>\<open>subCacheItemInsert\<close>: \<open>a\<close> is the address that \<^verbatim>\<open>new\<close> returns.\<close>

definition subCacheItemInsert_new :: "sf_env \<Rightarrow> nat \<Rightarrow> sub_args \<Rightarrow> SubCache \<Rightarrow> SubCache option" where
  "subCacheItemInsert_new env a sa sc =
     (if \<not> onchange (sa_notifyConditions sa) then Some sc
      else subCacheItemInsert a (sc\<lparr>heap := (heap sc)(a \<mapsto> sub_create env sa)\<rparr>))"

subsection \<open>Statistics\<close>

text \<open>
  The list of the identifiers in a buffer of \<open>listSize\<close> bytes. The text \<open>list\<close> and its terminator must
  fit: a longer text is written past the end of the buffer, here \<^const>\<open>None\<close>.
\<close>

definition too_many :: string where
  "too_many = ''too many subscriptions''"

partial_function (option) ids_loop :: "heap \<Rightarrow> nat \<Rightarrow> nat option \<Rightarrow> string \<Rightarrow> string option" where
  "ids_loop h listSize p list =
     (case p of
        None \<Rightarrow> Some list
      | Some a \<Rightarrow>
          (case h a of
             None \<Rightarrow> None
           | Some c \<Rightarrow>
               let msg = take 255 (subscriptionId c); bytesLeft = listSize - length list
               in if length msg + 2 > bytesLeft then Some (take (listSize - 1) too_many)
                  else let list' = (if list \<noteq> [] then list @ '', '' else list) @ msg
                  in if length list' < listSize then ids_loop h listSize (nxt c) list' else None))"

definition subCacheStatisticsGet :: "nat \<Rightarrow> SubCache \<Rightarrow> (int \<times> int \<times> int \<times> int \<times> int \<times> string) option" where
  "subCacheStatisticsGet listSize sc =
     (case subCacheItems sc of
        None \<Rightarrow> None
      | Some items \<Rightarrow>
          (case (if listSize > 128 then ids_loop (heap sc) listSize (head sc) [] else Some (take (listSize - 1) too_many)) of
             None \<Rightarrow> None
           | Some list \<Rightarrow> Some (noOfRefreshes sc, noOfInserts sc, noOfRemoves sc, noOfUpdates sc, items, list)))"

subsection \<open>Refresh and synchronisation\<close>

text \<open>
  \<^verbatim>\<open>subCacheRefresh\<close>: \<open>fetched\<close> are the subscriptions that \<^verbatim>\<open>mongoSubCacheRefresh\<close> makes
  of the databases, in the order in which they are inserted, with the addresses they are allocated at.
\<close>

fun insert_all :: "(nat \<times> CachedSubscription) list \<Rightarrow> SubCache \<Rightarrow> SubCache option" where
  "insert_all [] sc = Some sc"
| "insert_all ((a, c) # es) sc =
     (case subCacheItemInsert a (sc\<lparr>heap := (heap sc)(a \<mapsto> c)\<rparr>) of
        None \<Rightarrow> None
      | Some sc' \<Rightarrow> insert_all es sc')"

definition subCacheRefresh :: "(nat \<times> CachedSubscription) list list \<Rightarrow> SubCache \<Rightarrow> SubCache option" where
  "subCacheRefresh fetched sc =
     (case subCacheDestroy sc of
        None \<Rightarrow> None
      | Some sc1 \<Rightarrow>
          (case insert_all (concat fetched) sc1 of
             None \<Rightarrow> None
           | Some sc2 \<Rightarrow> Some (sc2\<lparr>noOfRefreshes := noOfRefreshes sc2 + 1\<rparr>)))"

record CachedSubSaved =
  sv_lastNotificationTime :: int
  sv_count :: int

type_synonym saved = "string \<rightharpoonup> CachedSubSaved"

text \<open>Step 1. The \<^verbatim>\<open>continue\<close> of the source does not advance.\<close>

partial_function (option) save_loop :: "heap \<Rightarrow> nat option \<Rightarrow> saved \<Rightarrow> saved option" where
  "save_loop h p savedSubV =
     (case p of
        None \<Rightarrow> Some savedSubV
      | Some a \<Rightarrow>
          (case h a of
             None \<Rightarrow> None
           | Some c \<Rightarrow>
               if savedSubV (subscriptionId c) \<noteq> None then save_loop h p savedSubV
               else save_loop h (nxt c) (savedSubV(subscriptionId c \<mapsto>
                      \<lparr>sv_lastNotificationTime = lastNotificationTime c, sv_count = count c\<rparr>))))"

text \<open>Step 3.\<close>

definition clear_saved :: "CachedSubscription \<Rightarrow> saved \<Rightarrow> saved" where
  "clear_saved c savedSubV =
     (case savedSubV (subscriptionId c) of
        None \<Rightarrow> savedSubV
      | Some css \<Rightarrow>
          if sv_lastNotificationTime css \<le> lastNotificationTime c
          then savedSubV(subscriptionId c \<mapsto> css\<lparr>sv_lastNotificationTime := 0\<rparr>) else savedSubV)"

partial_function (option) compare_loop :: "heap \<Rightarrow> nat option \<Rightarrow> saved \<Rightarrow> saved option" where
  "compare_loop h p savedSubV =
     (case p of
        None \<Rightarrow> Some savedSubV
      | Some a \<Rightarrow> (case h a of None \<Rightarrow> None | Some c \<Rightarrow> compare_loop h (nxt c) (clear_saved c savedSubV)))"

text \<open>Steps 4 and 5: the calls of \<^verbatim>\<open>mongoSubCacheUpdate\<close>.\<close>

type_synonym db_update = "string \<times> string \<times> int \<times> int"

definition sub_update :: "saved \<Rightarrow> CachedSubscription \<Rightarrow> db_update list" where
  "sub_update savedSubV c =
     (case savedSubV (subscriptionId c) of
        None \<Rightarrow> []
      | Some css \<Rightarrow> [(case cs_tenant c of None \<Rightarrow> [] | Some t \<Rightarrow> t, subscriptionId c, sv_count css, sv_lastNotificationTime css)])"

partial_function (option) update_loop :: "heap \<Rightarrow> saved \<Rightarrow> nat option \<Rightarrow> db_update list \<Rightarrow> db_update list option" where
  "update_loop h savedSubV p out =
     (case p of
        None \<Rightarrow> Some out
      | Some a \<Rightarrow> (case h a of None \<Rightarrow> None | Some c \<Rightarrow> update_loop h savedSubV (nxt c) (out @ sub_update savedSubV c)))"

declare items_loop.simps [code]
  match_walk.simps [code]
  destroy_loop.simps [code]
  lookup_loop.simps [code]
  remove_loop.simps [code]
  ids_loop.simps [code]
  save_loop.simps [code]
  compare_loop.simps [code]
  update_loop.simps [code]

text \<open>\<^verbatim>\<open>subCacheSync\<close> between taking and giving the cache semaphore.\<close>

definition subCacheSync_body :: "(nat \<times> CachedSubscription) list list \<Rightarrow> SubCache \<Rightarrow> (db_update list \<times> SubCache) option" where
  "subCacheSync_body fetched sc =
     (let sc = sc\<lparr>subCacheState := ScsSynchronizing\<rparr>
      in case save_loop (heap sc) (head sc) Map.empty of
           None \<Rightarrow> None
         | Some savedSubV \<Rightarrow>
             (case subCacheRefresh fetched sc of
                None \<Rightarrow> None
              | Some sc \<Rightarrow>
                  (case compare_loop (heap sc) (head sc) savedSubV of
                     None \<Rightarrow> None
                   | Some savedSubV \<Rightarrow>
                       (case update_loop (heap sc) savedSubV (head sc) [] of
                          None \<Rightarrow> None
                        | Some out \<Rightarrow> Some (out, sc\<lparr>subCacheState := ScsIdle\<rparr>)))))"

definition subCacheSync ::
    "timespec \<times> timespec \<Rightarrow> (nat \<times> CachedSubscription) list list \<Rightarrow> sems \<times> SubCache \<Rightarrow> (db_update list \<times> sems \<times> SubCache) option wait" where
  "subCacheSync clocks fetched = (\<lambda>(s, sc).
     case cacheSemTake clocks s of
       Blocks \<Rightarrow> Blocks
     | Returns (r, s) \<Rightarrow>
         Returns (case subCacheSync_body fetched sc of
                    None \<Rightarrow> None
                  | Some (out, sc) \<Rightarrow> Some (out, snd (cacheSemGive s), sc)))"

subsection \<open>Linked lists and the entries they hold\<close>

text \<open>
  The entries are the addresses with the nodes, their \<^verbatim>\<open>next\<close> pointers blanked out: \<open>lseg h p es q\<close>
  says that the nodes from \<open>p\<close> up to \<open>q\<close> are those of \<open>es\<close>.
\<close>

definition plain :: "CachedSubscription \<Rightarrow> CachedSubscription" where
  "plain c = c\<lparr>nxt := None\<rparr>"

lemma plain_simps [simp]:
  "plain (c\<lparr>nxt := p\<rparr>) = plain c" "plain (plain c) = plain c" "subscriptionId (plain c) = subscriptionId c"
  "cs_tenant (plain c) = cs_tenant c" "lastNotificationTime (plain c) = lastNotificationTime c"
  "count (plain c) = count c" "nxt (plain c) = None" "cs_servicePath (plain c) = cs_servicePath c"
  "notifyConditionVector (plain c) = notifyConditionVector c" "entityIdInfos (plain c) = entityIdInfos c"
  by (simp_all add: plain_def)

fun lseg :: "heap \<Rightarrow> nat option \<Rightarrow> (nat \<times> CachedSubscription) list \<Rightarrow> nat option \<Rightarrow> bool" where
  "lseg h p [] q = (p = q)"
| "lseg h p ((a, c) # es) q =
     (p = Some a \<and> (case h a of None \<Rightarrow> False | Some c' \<Rightarrow> plain c' = c \<and> lseg h (nxt c') es q))"

lemma lseg_append: "lseg h p (es @ fs) q \<longleftrightarrow> (\<exists>r. lseg h p es r \<and> lseg h r fs q)"
  by (induction h p es q rule: lseg.induct) (auto split: option.splits)

lemma lseg_frame: "(\<And>a. a \<in> fst ` set es \<Longrightarrow> h' a = h a) \<Longrightarrow> lseg h' p es q = lseg h p es q"
  by (induction h p es q rule: lseg.induct) (auto split: option.splits)

lemma lseg_upd: "a \<notin> fst ` set es \<Longrightarrow> lseg (h(a := v)) p es q = lseg h p es q"
  by (rule lseg_frame) auto

lemma lseg_start: "lseg h p es None \<Longrightarrow> p = (if es = [] then None else Some (fst (hd es)))"
  by (cases es) auto

definition last_addr :: "(nat \<times> CachedSubscription) list \<Rightarrow> nat option" where
  "last_addr es = (if es = [] then None else Some (fst (last es)))"

definition cache_rel :: "SubCache \<Rightarrow> (nat \<times> CachedSubscription) list \<Rightarrow> bool" where
  "cache_rel sc es \<longleftrightarrow> lseg (heap sc) (head sc) es None \<and> tail sc = last_addr es \<and> distinct (map fst es)"

text \<open>One step of each walk.\<close>

lemma walk_None:
  "items_loop h None n = Some n" "lookup_loop h P None = Some None"
  "match_walk env mt ten sp ei et av h None v = Some v" "compare_loop h None s = Some s"
  "save_loop h None s = Some s" "update_loop h s None out = Some out" "ids_loop h k None l = Some l"
  "remove_loop a sc None prev = Some (- 1, sc)"
  by (subst items_loop.simps lookup_loop.simps match_walk.simps compare_loop.simps save_loop.simps
      update_loop.simps ids_loop.simps remove_loop.simps; simp)+

lemma walk_Some:
  assumes "h a = Some c"
  shows "items_loop h (Some a) n = items_loop h (nxt c) (n + 1)"
    and "lookup_loop h P (Some a) = (if P c then Some (Some a) else lookup_loop h P (nxt c))"
    and "compare_loop h (Some a) s = compare_loop h (nxt c) (clear_saved c s)"
    and "update_loop h s (Some a) out = update_loop h s (nxt c) (out @ sub_update s c)"
    and "s (subscriptionId c) = None \<Longrightarrow> save_loop h (Some a) s = save_loop h (nxt c) (s(subscriptionId c \<mapsto>
           \<lparr>sv_lastNotificationTime = lastNotificationTime c, sv_count = count c\<rparr>))"
    and "match_walk env mt ten sp ei et av h (Some a) v = (case subMatch env mt c ten sp ei et av of None \<Rightarrow> None
           | Some m \<Rightarrow> match_walk env mt ten sp ei et av h (nxt c) (if m then v @ [a] else v))"
  using assms
  by (subst items_loop.simps lookup_loop.simps compare_loop.simps update_loop.simps save_loop.simps match_walk.simps; simp)+

lemma items_walk: "lseg h p es None \<Longrightarrow> items_loop h p n = Some (n + int (length es))"
  by (induction es arbitrary: p n) (auto simp: walk_None walk_Some split: option.splits)

lemma lookup_walk:
  assumes "\<And>c. P (plain c) = P c"
  shows "lseg h p es None \<Longrightarrow> lookup_loop h P p = Some (map_option fst (List.find (\<lambda>e. P (snd e)) es))"
proof (induction es arbitrary: p)
  case (Cons e es)
  then show ?case using assms by (cases e) (auto simp: walk_Some split: option.splits)
qed (simp add: walk_None)

lemma subMatch_plain [simp]: "subMatch env mt (plain c) = subMatch env mt c"
  by (intro ext) (simp only: subMatch_def plain_simps)

lemma match_walk_filter:
  assumes "\<forall>e \<in> set es. subMatch env mt (snd e) ten sp ei et av \<noteq> None"
  shows "lseg h p es None \<Longrightarrow> match_walk env mt ten sp ei et av h p v =
     Some (v @ map fst (filter (\<lambda>e. subMatch env mt (snd e) ten sp ei et av = Some True) es))"
  using assms
proof (induction es arbitrary: p v)
  case (Cons e es)
  obtain a c where e: "e = (a, c)" by fastforce
  from Cons.prems(1) e obtain c' where c': "p = Some a" "h a = Some c'" "plain c' = c" "lseg h (nxt c') es None"
    by (auto split: option.splits)
  obtain m where m: "subMatch env mt c' ten sp ei et av = Some m"
    using Cons.prems(2) e c'(3) subMatch_plain [of env mt c'] by auto
  then show ?case
    using Cons.IH [OF c'(4)] Cons.prems(2) c'(1) e subMatch_plain [of env mt c', unfolded c'(3)]
    by (simp add: walk_Some [of h a c', OF c'(2)])
qed (simp add: walk_None)

lemma destroy_walk:
  "lseg h (Some a) es None \<Longrightarrow> distinct (map fst es) \<Longrightarrow> destroy_loop h a = Some (h |` (- fst ` set es))"
proof (induction es arbitrary: h a)
  case (Cons e es)
  from Cons.prems(1) obtain c c' where c': "e = (a, c)" "h a = Some c'" "lseg h (nxt c') es None"
    by (cases e) (auto split: option.splits)
  have eq: "h(a := None) |` (- fst ` set es) = h |` (- fst ` set (e # es))"
    using c'(1) by (auto simp: restrict_map_def fun_eq_iff)
  have rest: "lseg (h(a := None)) (nxt c') es None"
    using c'(1,3) Cons.prems(2) lseg_upd by auto
  show ?case
  proof (cases es)
    case Nil
    then have "nxt c' = None" using c'(3) by simp
    moreover have "h(a := None) = h |` (- fst ` set (e # es))"
      using c'(1) Nil by (auto simp: restrict_map_def fun_eq_iff)
    ultimately show ?thesis by (subst destroy_loop.simps) (simp only: c'(2) option.case)
  next
    case (Cons f fs)
    then have n: "nxt c' = Some (fst f)" using c'(3) by (cases f) auto
    have "destroy_loop (h(a := None)) (fst f) = Some (h(a := None) |` (- fst ` set es))"
      using Cons.IH [OF rest [unfolded n]] Cons.prems(2) by (simp only: list.map distinct.simps simp_thms)
    then show ?thesis by (subst destroy_loop.simps) (simp only: c'(2) option.case n eq)
  qed
qed simp

text \<open>Insertion and removal.\<close>

lemma filter_absent: "a \<notin> fst ` set es \<Longrightarrow> filter (\<lambda>e. fst e \<noteq> a) es = es"
  by (rule filter_True) force

lemma insert_entries:
  assumes rel: "cache_rel sc es" and new: "a \<notin> fst ` set es"
  shows "\<exists>sc'. subCacheItemInsert a (sc\<lparr>heap := (heap sc)(a \<mapsto> c)\<rparr>) = Some sc' \<and> cache_rel sc' (es @ [(a, plain c)])
     \<and> noOfInserts sc' = noOfInserts sc + 1 \<and> noOfRemoves sc' = noOfRemoves sc \<and> noOfRefreshes sc' = noOfRefreshes sc
     \<and> noOfUpdates sc' = noOfUpdates sc \<and> subCacheMultitenant sc' = subCacheMultitenant sc \<and> subCacheState sc' = subCacheState sc"
proof (cases es rule: rev_cases)
  case Nil
  then have "head sc = None" "tail sc = None" using rel by (auto simp: cache_rel_def last_addr_def)
  then show ?thesis using Nil by (simp add: subCacheItemInsert_def cache_rel_def last_addr_def)
next
  case (snoc fs e)
  obtain t ct where e: "e = (t, ct)" by fastforce
  from rel snoc e obtain ct' where t: "lseg (heap sc) (head sc) fs (Some t)" "heap sc t = Some ct'" "plain ct' = ct"
      "nxt ct' = None" "tail sc = Some t" and d: "t \<notin> fst ` set fs" "distinct (map fst fs)"
    by (auto simp: cache_rel_def last_addr_def lseg_append split: option.splits)
  have a: "a \<noteq> t" "a \<notin> fst ` set fs" using new snoc e by auto
  let ?h = "(heap sc)(a \<mapsto> plain c, t \<mapsto> ct'\<lparr>nxt := Some a\<rparr>)"
  have "lseg ?h (head sc) fs (Some t)" using t(1) a d by (simp add: lseg_upd)
  then have "lseg ?h (head sc) (es @ [(a, plain c)]) None"
    using snoc e a t(3) by (auto simp: lseg_append)
  then show ?thesis
    using t a d snoc e by (simp add: subCacheItemInsert_def cache_rel_def last_addr_def plain_def [symmetric] Let_def)
qed

lemma remove_walk:
  assumes "lseg (heap sc) (head sc) es cur" "lseg (heap sc) cur fs None"
    and "tail sc = last_addr (es @ fs)" "distinct (map fst (es @ fs))" "a \<notin> fst ` set es"
  shows "\<exists>sc'. remove_loop a sc cur (last_addr es) = Some (if a \<in> fst ` set fs then 0 else - 1, sc')
     \<and> cache_rel sc' (filter (\<lambda>e. fst e \<noteq> a) (es @ fs))
     \<and> noOfRemoves sc' = noOfRemoves sc + (if a \<in> fst ` set fs then 1 else 0) \<and> noOfInserts sc' = noOfInserts sc"
  using assms
proof (induction fs arbitrary: es cur)
  case Nil
  then show ?case by (simp add: walk_None cache_rel_def filter_absent)
next
  case (Cons f fs)
  obtain b c where f: "f = (b, c)" by fastforce
  from Cons.prems(2) f obtain c' where b: "cur = Some b" "heap sc b = Some c'" "plain c' = c" "lseg (heap sc) (nxt c') fs None"
    by (auto split: option.splits)
  show ?case
  proof (cases "b = a")
    case False
    have "lseg (heap sc) (head sc) (es @ [f]) (nxt c')"
      using Cons.prems(1) b f by (auto simp: lseg_append)
    moreover have "last_addr (es @ [f]) = Some b" using f by (simp add: last_addr_def)
    ultimately have "\<exists>sc'. remove_loop a sc (nxt c') (Some b) = Some (if a \<in> fst ` set fs then 0 else - 1, sc')
       \<and> cache_rel sc' (filter (\<lambda>e. fst e \<noteq> a) ((es @ [f]) @ fs))
       \<and> noOfRemoves sc' = noOfRemoves sc + (if a \<in> fst ` set fs then 1 else 0) \<and> noOfInserts sc' = noOfInserts sc"
      using Cons.IH [of "es @ [f]" "nxt c'"] Cons.prems b(4) f False by (simp add: last_addr_def)
    moreover have "remove_loop a sc cur (last_addr es) = remove_loop a sc (nxt c') (Some b)"
      using b False by (subst remove_loop.simps) simp
    ultimately show ?thesis using f False by simp
  next
    case True
    note props = Cons.prems
    have da: "a \<notin> fst ` set es" "a \<notin> fst ` set fs" "distinct (map fst (es @ fs))" using props(4) f True by auto
    have flt: "filter (\<lambda>e. fst e \<noteq> a) (es @ f # fs) = es @ fs"
      using da(1,2) f True by (simp add: filter_absent)
    have tl: "(tail sc = Some a) = (fs = [])"
      using props(3) da(2) f True last_in_set [of fs] by (auto simp: last_addr_def)
    show ?thesis
    proof (cases es rule: rev_cases)
      case Nil
      then show ?thesis using b True props(1,3) f da flt tl
        by (subst remove_loop.simps) (auto simp: last_addr_def cache_rel_def lseg_upd)
    next
      case (snoc gs g)
      obtain q cq where g: "g = (q, cq)" by fastforce
      from props(1) snoc g b(1) obtain cq' where q: "lseg (heap sc) (head sc) gs (Some q)" "heap sc q = Some cq'"
          "plain cq' = cq" by (auto simp: lseg_append split: option.splits)
      have dq: "q \<noteq> a" "q \<notin> fst ` set gs" "q \<notin> fst ` set fs" "a \<notin> fst ` set gs" "distinct (map fst gs)"
        using da snoc g by auto
      have hd: "head sc \<noteq> Some a" using q(1) dq snoc by (cases gs) (auto split: option.splits)
      let ?h = "((heap sc)(q \<mapsto> cq'\<lparr>nxt := nxt c'\<rparr>))(a := None)"
      have "lseg ?h (head sc) (es @ fs) None"
        using q dq da b(4) snoc g by (auto simp: lseg_append lseg_upd)
      then show ?thesis
        using b True q dq snoc g hd tl flt da props(3) f
        by (subst remove_loop.simps) (auto simp: last_addr_def cache_rel_def)
    qed
  qed
qed

subsection \<open>The interface of the list\<close>

text \<open>Insertions of nodes at addresses from the allocator, and removals; what they mean for the entries.\<close>

datatype 'c store_op = OpInsert nat 'c | OpRemove nat

fun store_run ::
    "(nat \<Rightarrow> 'c \<Rightarrow> 's \<Rightarrow> 's option) \<Rightarrow> (nat \<Rightarrow> 's \<Rightarrow> (int \<times> 's) option) \<Rightarrow> 'c store_op list \<Rightarrow> 's \<Rightarrow> 's option" where
  "store_run ins rem [] s = Some s"
| "store_run ins rem (OpInsert a c # ops) s =
     (case ins a c s of None \<Rightarrow> None | Some s' \<Rightarrow> store_run ins rem ops s')"
| "store_run ins rem (OpRemove a # ops) s =
     (case rem a s of None \<Rightarrow> None | Some (r, s') \<Rightarrow> store_run ins rem ops s')"

fun list_run :: "('c \<Rightarrow> 'c) \<Rightarrow> 'c store_op list \<Rightarrow> (nat \<times> 'c) list \<Rightarrow> (nat \<times> 'c) list" where
  "list_run blank [] es = es"
| "list_run blank (OpInsert a c # ops) es = list_run blank ops (es @ [(a, blank c)])"
| "list_run blank (OpRemove a # ops) es = list_run blank ops (filter (\<lambda>e. fst e \<noteq> a) es)"

text \<open>The allocator never returns the address of a live node.\<close>

fun fresh_ops :: "'c store_op list \<Rightarrow> nat set \<Rightarrow> bool" where
  "fresh_ops [] A = True"
| "fresh_ops (OpInsert a c # ops) A = (a \<notin> A \<and> fresh_ops ops (insert a A))"
| "fresh_ops (OpRemove a # ops) A = fresh_ops ops (A - {a})"

locale sub_store =
  fixes rel :: "'s \<Rightarrow> (nat \<times> 'c) list \<Rightarrow> bool"
    and blank :: "'c \<Rightarrow> 'c"
    and ins :: "nat \<Rightarrow> 'c \<Rightarrow> 's \<Rightarrow> 's option"
    and rem :: "nat \<Rightarrow> 's \<Rightarrow> (int \<times> 's) option"
    and inserts :: "'s \<Rightarrow> int"
    and removes :: "'s \<Rightarrow> int"
  assumes rel_distinct: "rel s es \<Longrightarrow> distinct (map fst es)"
    and ins_law: "rel s es \<Longrightarrow> a \<notin> fst ` set es \<Longrightarrow> \<exists>s'. ins a c s = Some s' \<and> rel s' (es @ [(a, blank c)])
        \<and> inserts s' = inserts s + 1 \<and> removes s' = removes s"
    and rem_law: "rel s es \<Longrightarrow> \<exists>s'. rem a s = Some (if a \<in> fst ` set es then 0 else - 1, s')
        \<and> rel s' (filter (\<lambda>e. fst e \<noteq> a) es)
        \<and> removes s' = removes s + (if a \<in> fst ` set es then 1 else 0) \<and> inserts s' = inserts s"
begin

lemma length_remove:
  assumes "distinct (map fst es)"
  shows "int (length (filter (\<lambda>e. fst e \<noteq> a) es)) = int (length es) - (if a \<in> fst ` set es then 1 else 0)"
  using assms
proof (induction es)
  case (Cons e es)
  then show ?case by (cases "fst e = a") (auto simp: filter_absent)
qed simp

lemma run_refines:
  assumes "rel s es" "fresh_ops ops (fst ` set es)"
  shows "\<exists>s'. store_run ins rem ops s = Some s' \<and> rel s' (list_run blank ops es)
     \<and> inserts s' - removes s' - int (length (list_run blank ops es)) = inserts s - removes s - int (length es)"
  using assms
proof (induction ops arbitrary: s es)
  case (Cons opn ops)
  show ?case
  proof (cases opn)
    case (OpInsert a c)
    obtain s1 where s1: "ins a c s = Some s1" "rel s1 (es @ [(a, blank c)])" "inserts s1 = inserts s + 1" "removes s1 = removes s"
      using ins_law [OF Cons.prems(1), of a c] Cons.prems(2) by (auto simp: OpInsert)
    have "fresh_ops ops (fst ` set (es @ [(a, blank c)]))" using Cons.prems(2) OpInsert by simp
    from Cons.IH [OF s1(2) this] show ?thesis using s1 OpInsert by (auto simp: algebra_simps)
  next
    case (OpRemove a)
    obtain s1 where s1: "rem a s = Some (if a \<in> fst ` set es then 0 else - 1, s1)" "rel s1 (filter (\<lambda>e. fst e \<noteq> a) es)"
        "removes s1 = removes s + (if a \<in> fst ` set es then 1 else 0)" "inserts s1 = inserts s"
      using rem_law [OF Cons.prems(1)] by metis
    have "fst ` set (filter (\<lambda>e. fst e \<noteq> a) es) = fst ` set es - {a}" by auto
    then have "fresh_ops ops (fst ` set (filter (\<lambda>e. fst e \<noteq> a) es))" using Cons.prems(2) OpRemove by simp
    from Cons.IH [OF s1(2) this] show ?thesis
      using s1 OpRemove length_remove [OF rel_distinct [OF Cons.prems(1)], of a] by auto
  qed
qed simp

end

definition cache_insert :: "nat \<Rightarrow> CachedSubscription \<Rightarrow> SubCache \<Rightarrow> SubCache option" where
  "cache_insert a c sc = subCacheItemInsert a (sc\<lparr>heap := (heap sc)(a \<mapsto> c)\<rparr>)"

interpretation subs: sub_store cache_rel plain cache_insert subCacheItemRemove noOfInserts noOfRemoves
proof
  show "distinct (map fst es)" if "cache_rel s es" for s es
    using that by (simp add: cache_rel_def)
  show "\<exists>s'. cache_insert a c s = Some s' \<and> cache_rel s' (es @ [(a, plain c)])
      \<and> noOfInserts s' = noOfInserts s + 1 \<and> noOfRemoves s' = noOfRemoves s"
    if "cache_rel s es" "a \<notin> fst ` set es" for s es a c
    using insert_entries [OF that] unfolding cache_insert_def by blast
  show "\<exists>s'. subCacheItemRemove a s = Some (if a \<in> fst ` set es then 0 else - 1, s') \<and> cache_rel s' (filter (\<lambda>e. fst e \<noteq> a) es)
      \<and> noOfRemoves s' = noOfRemoves s + (if a \<in> fst ` set es then 1 else 0) \<and> noOfInserts s' = noOfInserts s"
    if "cache_rel s es" for s es a
    using remove_walk [of s "[]" "head s" es a] that by (auto simp: cache_rel_def subCacheItemRemove_def last_addr_def)
qed

lemma init_rel: "cache_rel (subCacheInit mt sc) []"
  by (simp add: subCacheInit_def subCacheStatisticsReset_def cache_rel_def last_addr_def)

lemma destroy_entries:
  assumes "cache_rel sc es"
  shows "\<exists>sc'. subCacheDestroy sc = Some sc' \<and> cache_rel sc' [] \<and> heap sc' = heap sc |` (- fst ` set es)
     \<and> noOfInserts sc' = noOfInserts sc \<and> noOfRefreshes sc' = noOfRefreshes sc \<and> subCacheState sc' = subCacheState sc"
proof (cases es)
  case Nil
  then show ?thesis using assms by (auto simp: subCacheDestroy_def cache_rel_def last_addr_def restrict_map_def fun_eq_iff)
next
  case (Cons e fs)
  then have h: "head sc = Some (fst e)" using assms by (cases e) (auto simp: cache_rel_def)
  have "destroy_loop (heap sc) (fst e) = Some (heap sc |` (- fst ` set es))"
    using assms h destroy_walk [of "heap sc" "fst e" es] by (simp add: cache_rel_def)
  then show ?thesis using h by (simp add: subCacheDestroy_def cache_rel_def last_addr_def)
qed

lemma lookup_entries:
  "cache_rel sc es \<Longrightarrow> subCacheItemLookup ten i sc =
     Some (map_option fst (List.find (\<lambda>e. tenantMatch ten (cs_tenant (snd e)) \<and> i = subscriptionId (snd e)) es))"
  unfolding subCacheItemLookup_def cache_rel_def by (rule lookup_walk) auto

text \<open>C15: after the initialisation and any sequence of insertions and removals in which the allocator
  does not return addresses of live nodes, the linked list is defined (no access to freed memory, no
  endless walk) and holds exactly the entries that the operations leave in a plain list, in their order; the
  number of items is the difference of the counters of insertions and removals; a lookup gives the first
  entry of that tenant and identifier; and the destruction frees exactly the nodes of the list.\<close>

theorem cache_refines_list:
  assumes "fresh_ops ops {}"
  shows "\<exists>sc. store_run cache_insert subCacheItemRemove ops (subCacheInit mt sc0) = Some sc
     \<and> cache_rel sc (list_run plain ops [])
     \<and> subCacheItems sc = Some (noOfInserts sc - noOfRemoves sc)
     \<and> noOfInserts sc - noOfRemoves sc = int (length (list_run plain ops []))
     \<and> subCacheItemLookup ten i sc =
         Some (map_option fst (List.find (\<lambda>e. tenantMatch ten (cs_tenant (snd e)) \<and> i = subscriptionId (snd e)) (list_run plain ops [])))
     \<and> (\<exists>sc'. subCacheDestroy sc = Some sc' \<and> cache_rel sc' [] \<and> heap sc' = heap sc |` (- fst ` set (list_run plain ops [])))"
proof -
  obtain sc where sc: "store_run cache_insert subCacheItemRemove ops (subCacheInit mt sc0) = Some sc"
      "cache_rel sc (list_run plain ops [])"
      "noOfInserts sc - noOfRemoves sc - int (length (list_run plain ops [])) =
       noOfInserts (subCacheInit mt sc0) - noOfRemoves (subCacheInit mt sc0) - int (length ([] :: (nat \<times> CachedSubscription) list))"
    using subs.run_refines [OF init_rel, of ops mt sc0] assms by auto
  have n: "noOfInserts sc - noOfRemoves sc = int (length (list_run plain ops []))"
    using sc(3) by (simp add: subCacheInit_def subCacheStatisticsReset_def)
  have "subCacheItems sc = Some (int (length (list_run plain ops [])))"
    using items_walk [of "heap sc" "head sc" _ 0] sc(2) by (simp add: subCacheItems_def cache_rel_def)
  then show ?thesis using sc(1,2) n lookup_entries [OF sc(2)] destroy_entries [OF sc(2)] by fastforce
qed


subsection \<open>Service paths\<close>

abbreviation default_path :: "string \<Rightarrow> string" where
  "default_path sp \<equiv> (if sp = [] then ''/'' else sp)"

text \<open>C18: a subscription on \<^verbatim>\<open>P/#\<close> matches the service paths \<^verbatim>\<open>P\<close> and those that start
  with \<^verbatim>\<open>P/\<close>, and no others (so \<^verbatim>\<open>/a/b/#\<close> does not match \<^verbatim>\<open>/a/b2\<close>); a subscription on
  a path that does not end in a hash matches that path only; the path \<^verbatim>\<open>/#\<close> in the request
  matches every subscription. A subscription with an empty path or just a hash makes the function
  read outside the string.\<close>

theorem servicePathMatch_spec:
  "servicePathMatch (P @ ''/#'') sp =
      Some (sp = ''/#'' \<or> default_path sp = P \<or> take (length P + 1) (default_path sp) = P @ ''/'')
   \<and> servicePathMatch (Q @ [c]) sp =
      (if sp = ''/#'' then Some True
       else if c \<noteq> CHR ''#'' then Some (default_path sp = Q @ [c])
       else if Q = [] then None
       else Some (last Q = CHR ''/'' \<and> default_path sp = butlast Q \<or> take (length Q) (default_path sp) = Q))
   \<and> servicePathMatch [] sp = (if sp = ''/#'' \<or> sp = [] then Some True else None)"
proof (intro conjI)
  let ?d = "default_path sp"
  have "(take (Suc (length P)) (P @ ''/#'') = take (Suc (length P)) ?d) = (take (length P + 1) ?d = P @ ''/'')" by auto
  moreover have "(length ?d = length P \<and> P = take (length P) ?d) = (?d = P)" by auto
  ultimately show "servicePathMatch (P @ ''/#'') sp = Some (sp = ''/#'' \<or> ?d = P \<or> take (length P + 1) ?d = P @ ''/'')"
    by (simp add: servicePathMatch_def nth_append Let_def)
  show "servicePathMatch (Q @ [c]) sp =
      (if sp = ''/#'' then Some True
       else if c \<noteq> CHR ''#'' then Some (?d = Q @ [c])
       else if Q = [] then None
       else Some (last Q = CHR ''/'' \<and> ?d = butlast Q \<or> take (length Q) ?d = Q))"
  proof (cases Q rule: rev_cases)
    case (snoc R x)
    have "(length ?d = length R \<and> R = take (length R) ?d) = (?d = R)" by auto
    then show ?thesis using snoc by (auto simp: servicePathMatch_def nth_append Let_def)
  qed (auto simp: servicePathMatch_def)
  show "servicePathMatch [] sp = (if sp = ''/#'' \<or> sp = [] then Some True else None)"
    by (simp add: servicePathMatch_def)
qed

subsection \<open>The list of identifiers in the statistics\<close>

lemma ids_step:
  assumes "h a = Some c"
  shows "ids_loop h k (Some a) l =
     (if length (take 255 (subscriptionId c)) + 2 > k - length l then Some (take (k - 1) too_many)
      else let l' = (if l \<noteq> [] then l @ '', '' else l) @ take 255 (subscriptionId c)
           in if length l' < k then ids_loop h k (nxt c) l' else None)"
  using assms by (subst ids_loop.simps) (simp add: Let_def)

lemma ids_safe:
  assumes "lseg h p es None" "\<forall>e \<in> set es. length (subscriptionId (snd e)) = 24"
    and "l = [] \<or> length l mod 26 = 24" "length l < 1024"
  shows "ids_loop h 1024 p l \<noteq> None"
  using assms
proof (induction es arbitrary: p l)
  case (Cons e es)
  obtain a c where e: "e = (a, c)" by fastforce
  from Cons.prems(1) e obtain c' where c': "p = Some a" "h a = Some c'" "plain c' = c" "lseg h (nxt c') es None"
    by (auto split: option.splits)
  have "length (subscriptionId c) = 24" using Cons.prems(2) e by simp
  then have id: "length (subscriptionId c') = 24" using c'(3) by auto
  let ?l = "(if l \<noteq> [] then l @ '', '' else l) @ take 255 (subscriptionId c')"
  have len: "length ?l = (if l = [] then 24 else length l + 26)" using id by simp
  have short: "length ?l < 1024" if "26 \<le> 1024 - length l"
  proof (cases "l = []")
    case False
    then have m: "length l mod 26 = 24" using Cons.prems(3) by simp
    have "length l + 26 \<noteq> 1024"
    proof
      assume "length l + 26 = 1024"
      then have "length l = 998" by simp
      then show False using m by simp
    qed
    then show ?thesis using that False Cons.prems(4) unfolding len by simp
  qed (simp add: len)
  have "ids_loop h 1024 (nxt c') ?l \<noteq> None" if "26 \<le> 1024 - length l"
  proof (rule Cons.IH [OF c'(4)])
    show "length ?l < 1024" using short [OF that] .
    show "?l = [] \<or> length ?l mod 26 = 24" using Cons.prems(3) unfolding len by auto
  qed (use Cons.prems(2) in simp)
  moreover note short
  ultimately show ?case
    unfolding c'(1) ids_step [of h a c', OF c'(2)] using id by (simp add: Let_def)
qed (simp add: walk_None)

text \<open>C20: in the buffer of 1024 bytes that the statistics request uses, the list of identifiers of 24
  characters, the identifiers of the database, never writes past the end; but the room that the
  check leaves does not include the terminator, and four identifiers of 255, 255, 255 and
  253 characters fill the buffer exactly, so that the terminating zero is written behind it.\<close>

theorem subCacheStatistics_list:
  assumes "cache_rel sc es"
  shows "((\<forall>e \<in> set es. length (subscriptionId (snd e)) = 24) \<longrightarrow> subCacheStatisticsGet 1024 sc \<noteq> None)
     \<and> (map (\<lambda>e. length (subscriptionId (snd e))) es = [255, 255, 255, 253] \<longrightarrow> subCacheStatisticsGet 1024 sc = None)"
proof
  have l: "lseg (heap sc) (head sc) es None" using assms by (simp add: cache_rel_def)
  then have items: "subCacheItems sc = Some (int (length es))"
    using items_walk [of _ _ _ 0] by (simp add: subCacheItems_def)
  show "(\<forall>e \<in> set es. length (subscriptionId (snd e)) = 24) \<longrightarrow> subCacheStatisticsGet 1024 sc \<noteq> None"
  proof
    assume "\<forall>e \<in> set es. length (subscriptionId (snd e)) = 24"
    from ids_safe [OF l this, of "[]"] obtain t where "ids_loop (heap sc) 1024 (head sc) [] = Some t" by auto
    then show "subCacheStatisticsGet 1024 sc \<noteq> None" using items by (simp add: subCacheStatisticsGet_def)
  qed
  show "map (\<lambda>e. length (subscriptionId (snd e))) es = [255, 255, 255, 253] \<longrightarrow> subCacheStatisticsGet 1024 sc = None"
  proof
    assume "map (\<lambda>e. length (subscriptionId (snd e))) es = [255, 255, 255, 253]"
    then obtain a1 c1 a2 c2 a3 c3 a4 c4 where es: "es = [(a1, c1), (a2, c2), (a3, c3), (a4, c4)]"
      and n: "length (subscriptionId c1) = 255" "length (subscriptionId c2) = 255" "length (subscriptionId c3) = 255"
        "length (subscriptionId c4) = 253"
      by (auto simp: map_eq_Cons_conv)
    from l es obtain d1 d2 d3 d4 where d: "head sc = Some a1" "heap sc a1 = Some d1" "plain d1 = c1" "nxt d1 = Some a2"
        "heap sc a2 = Some d2" "plain d2 = c2" "nxt d2 = Some a3" "heap sc a3 = Some d3" "plain d3 = c3" "nxt d3 = Some a4"
        "heap sc a4 = Some d4" "plain d4 = c4" by (auto split: option.splits)
    have len: "length (subscriptionId d1) = 255" "length (subscriptionId d2) = 255" "length (subscriptionId d3) = 255"
        "length (subscriptionId d4) = 253" using n d by auto
    then have "subscriptionId d1 \<noteq> []" "subscriptionId d2 \<noteq> []" "subscriptionId d3 \<noteq> []" by auto
    then have "ids_loop (heap sc) 1024 (head sc) [] = None"
      using d len by (simp add: ids_step Let_def)
    then show "subCacheStatisticsGet 1024 sc = None" using items by (simp add: subCacheStatisticsGet_def)
  qed
qed

subsection \<open>Synchronisation\<close>

definition save_one :: "CachedSubscription \<Rightarrow> saved \<Rightarrow> saved" where
  "save_one c s = s(subscriptionId c \<mapsto> \<lparr>sv_lastNotificationTime = lastNotificationTime c, sv_count = count c\<rparr>)"

abbreviation sub_ids :: "(nat \<times> CachedSubscription) list \<Rightarrow> string list" where
  "sub_ids es \<equiv> map (\<lambda>e. subscriptionId (snd e)) es"

lemma plain_calls [simp]:
  "save_one (plain c) = save_one c" "clear_saved (plain c) = clear_saved c"
  by (intro ext; simp only: save_one_def clear_saved_def plain_simps)+

lemma plain_update [simp]: "sub_update s (plain c) = sub_update s c"
  by (simp only: sub_update_def plain_simps)

lemma save_walk:
  "lseg h p es None \<Longrightarrow> distinct (sub_ids es) \<Longrightarrow> dom s \<inter> set (sub_ids es) = {} \<Longrightarrow>
     save_loop h p s = Some (fold (\<lambda>e. save_one (snd e)) es s)"
proof (induction es arbitrary: p s)
  case (Cons e es)
  from Cons.prems(1) obtain a c' where c': "p = Some a" "h a = Some c'" "snd e = plain c'" "lseg h (nxt c') es None"
    by (cases e) (auto split: option.splits)
  have "s (subscriptionId c') = None" using Cons.prems(3) c'(3) by auto
  then have "save_loop h p s = save_loop h (nxt c') (save_one c' s)"
    using c' by (simp add: walk_Some save_one_def)
  moreover have "dom (save_one c' s) \<inter> set (sub_ids es) = {}"
    using Cons.prems(2,3) c'(3) by (auto simp: save_one_def)
  ultimately show ?case using Cons.IH [OF c'(4)] Cons.prems(2) c'(3) by simp
qed (simp add: walk_None)

text \<open>At a node whose identifier is already saved, the walk never returns.\<close>

lemma save_stuck:
  assumes "h a = Some c" "s (subscriptionId c) \<noteq> None"
  shows "save_loop h (Some a) s = None"
proof -
  have "save_loop h p s = Some y \<Longrightarrow> \<not> (\<exists>a c. p = Some a \<and> h a = Some c \<and> s (subscriptionId c) \<noteq> None)" for h p s y
    by (erule save_loop.raw_induct [where P = "\<lambda>h p s y. \<not> (\<exists>a c. p = Some a \<and> h a = Some c \<and> s (subscriptionId c) \<noteq> None)", rotated])
      (auto split: option.splits if_splits; metis option.distinct(1))
  then show ?thesis using assms by (metis not_None_eq)
qed

lemma save_duplicate:
  "lseg h p es None \<Longrightarrow> \<not> distinct (sub_ids es) \<or> dom s \<inter> set (sub_ids es) \<noteq> {} \<Longrightarrow> save_loop h p s = None"
proof (induction es arbitrary: p s)
  case (Cons e es)
  from Cons.prems(1) obtain a c' where c': "p = Some a" "h a = Some c'" "snd e = plain c'" "lseg h (nxt c') es None"
    by (cases e) (auto split: option.splits)
  show ?case
  proof (cases "s (subscriptionId c') = None")
    case True
    then have "save_loop h p s = save_loop h (nxt c') (save_one c' s)"
      using c' by (simp add: walk_Some save_one_def)
    moreover have "\<not> distinct (sub_ids es) \<or> dom (save_one c' s) \<inter> set (sub_ids es) \<noteq> {}"
      using Cons.prems(2) True c'(3) by (auto simp: save_one_def)
    ultimately show ?thesis using Cons.IH [OF c'(4)] by simp
  next
    case False
    then show ?thesis using save_stuck c'(1,2) by simp
  qed
qed simp

lemma compare_walk: "lseg h p es None \<Longrightarrow> compare_loop h p s = Some (fold (\<lambda>e. clear_saved (snd e)) es s)"
  by (induction es arbitrary: p s) (auto simp: walk_None walk_Some split: option.splits)

lemma update_walk: "lseg h p es None \<Longrightarrow> update_loop h s p out = Some (out @ concat (map (\<lambda>e. sub_update s (snd e)) es))"
  by (induction es arbitrary: p out) (auto simp: walk_None walk_Some split: option.splits)

lemma insert_all_entries:
  "cache_rel sc es \<Longrightarrow> distinct (map fst (es @ fs)) \<Longrightarrow>
     \<exists>sc'. insert_all fs sc = Some sc' \<and> cache_rel sc' (es @ map (\<lambda>(a, c). (a, plain c)) fs)
       \<and> noOfRefreshes sc' = noOfRefreshes sc \<and> subCacheState sc' = subCacheState sc"
proof (induction fs arbitrary: sc es)
  case (Cons f fs)
  obtain a c where f: "f = (a, c)" by fastforce
  have "a \<notin> fst ` set es" using Cons.prems(2) f by auto
  then obtain sc1 where sc1: "subCacheItemInsert a (sc\<lparr>heap := (heap sc)(a \<mapsto> c)\<rparr>) = Some sc1" "cache_rel sc1 (es @ [(a, plain c)])"
      "noOfRefreshes sc1 = noOfRefreshes sc" "subCacheState sc1 = subCacheState sc"
    using insert_entries [OF Cons.prems(1)] by metis
  have "distinct (map fst ((es @ [(a, plain c)]) @ fs))" using Cons.prems(2) f by auto
  from Cons.IH [OF sc1(2) this] show ?case using sc1 f by simp
qed simp

lemma refresh_entries:
  assumes "cache_rel sc es" "distinct (map fst (concat fetched))"
  shows "\<exists>sc'. subCacheRefresh fetched sc = Some sc' \<and> cache_rel sc' (map (\<lambda>(a, c). (a, plain c)) (concat fetched))
     \<and> noOfRefreshes sc' = noOfRefreshes sc + 1 \<and> subCacheState sc' = subCacheState sc"
proof -
  obtain sc1 where d: "subCacheDestroy sc = Some sc1" "cache_rel sc1 []" "noOfRefreshes sc1 = noOfRefreshes sc"
      "subCacheState sc1 = subCacheState sc"
    using destroy_entries [OF assms(1)] by metis
  obtain sc2 where "insert_all (concat fetched) sc1 = Some sc2" "cache_rel sc2 (map (\<lambda>(a, c). (a, plain c)) (concat fetched))"
      "noOfRefreshes sc2 = noOfRefreshes sc1" "subCacheState sc2 = subCacheState sc1"
    using insert_all_entries [OF d(2), of "concat fetched"] assms(2) by auto
  then show ?thesis using d by (simp add: subCacheRefresh_def cache_rel_def)
qed

text \<open>What the saved values of a subscription become.\<close>

lemma save_fold:
  "distinct (sub_ids es) \<Longrightarrow> fold (\<lambda>e. save_one (snd e)) es s i =
     (case List.find (\<lambda>e. subscriptionId (snd e) = i) es of
        None \<Rightarrow> s i
      | Some e \<Rightarrow> Some \<lparr>sv_lastNotificationTime = lastNotificationTime (snd e), sv_count = count (snd e)\<rparr>)"
proof (induction es arbitrary: s)
  case (Cons e es)
  have "List.find (\<lambda>e. subscriptionId (snd e) = i) es = None" if "subscriptionId (snd e) = i"
    using Cons.prems that by (auto simp: find_None_iff image_iff)
  then show ?case using Cons by (auto simp: save_one_def)
qed simp

lemma clear_other: "subscriptionId c \<noteq> i \<Longrightarrow> clear_saved c s i = s i"
  by (auto simp: clear_saved_def split: option.splits)

lemma clear_fold_absent: "i \<notin> set (sub_ids fs) \<Longrightarrow> fold (\<lambda>e. clear_saved (snd e)) fs s i = s i"
  by (induction fs arbitrary: s) (auto simp: clear_other)

lemma clear_fold:
  "distinct (sub_ids fs) \<Longrightarrow> f \<in> set fs \<Longrightarrow>
     fold (\<lambda>e. clear_saved (snd e)) fs s (subscriptionId (snd f)) = clear_saved (snd f) s (subscriptionId (snd f))"
proof (induction fs arbitrary: s)
  case (Cons g fs)
  show ?case
  proof (cases "f = g")
    case True
    then show ?thesis using Cons.prems clear_fold_absent [of "subscriptionId (snd f)" fs] by simp
  next
    case False
    then have "subscriptionId (snd g) \<noteq> subscriptionId (snd f)" using Cons.prems by auto
    then have "clear_saved (snd f) (clear_saved (snd g) s) (subscriptionId (snd f)) = clear_saved (snd f) s (subscriptionId (snd f))"
      using clear_other [of "snd g" "subscriptionId (snd f)" s] by (simp add: clear_saved_def split: option.splits)
    then show ?thesis using Cons False by simp
  qed
qed simp

text \<open>The write for a subscription of the refreshed cache, given the entries of the old cache.\<close>

definition sync_write :: "(nat \<times> CachedSubscription) list \<Rightarrow> CachedSubscription \<Rightarrow> db_update list" where
  "sync_write es c =
     (case List.find (\<lambda>e. subscriptionId (snd e) = subscriptionId c) es of
        None \<Rightarrow> []
      | Some (a, old) \<Rightarrow> [(case cs_tenant c of None \<Rightarrow> [] | Some t \<Rightarrow> t, subscriptionId c, count old,
          if lastNotificationTime old \<le> lastNotificationTime c then 0 else lastNotificationTime old)])"

lemma plain_write [simp]: "sync_write es (plain c) = sync_write es c"
  by (simp only: sync_write_def plain_simps)



text \<open>C14: the loop that saves the notification times ends exactly when no identifier is twice in the cache.\<close>

theorem sync_save_terminates:
  assumes "cache_rel sc es"
  shows "save_loop (heap sc) (head sc) Map.empty \<noteq> None \<longleftrightarrow> distinct (sub_ids es)"
proof -
  have l: "lseg (heap sc) (head sc) es None"
    using assms by (simp add: cache_rel_def)
  show ?thesis
    using save_walk [OF l, of Map.empty] save_duplicate [OF l, of Map.empty] by (cases "distinct (sub_ids es)") simp_all
qed

text \<open>Concrete subscriptions and caches.\<close>

definition sub_demo :: "string \<Rightarrow> int \<Rightarrow> int \<Rightarrow> CachedSubscription" where
  "sub_demo i lnt n = \<lparr>entityIdInfos = [EntityInfo_new env_demo ''room'' ''Room'' ''true''], attributes = [],
     notifyConditionVector = [\<lparr>nc_type = ''ONCHANGE'', nc_condValueList = [''temp'']\<rparr>],
     cs_tenant = None, cs_servicePath = ''/a/#'', subscriptionId = i, throttling = 0, expirationTime = 0,
     lastNotificationTime = lnt, cs_status = ''active'', count = n, cs_renderFormat = NO_FORMAT, reference = ''http://h/'',
     expression = \<lparr>ex_q = [], ex_geometry = [], ex_coords = [], ex_georel = [], ex_stringFilter = StringFilter_new\<rparr>, nxt = None\<rparr>"

definition cache_demo :: SubCache where
  "cache_demo = \<lparr>head = None, tail = None, noOfRefreshes = 0, noOfInserts = 0, noOfRemoves = 0, noOfUpdates = 0,
     heap = Map.empty, subCacheMultitenant = False, subCacheActive = False, subCacheState = ScsIdle\<rparr>"

lemma demo_cache:
  assumes "fresh_ops ops {}"
  obtains sc where "store_run cache_insert subCacheItemRemove ops (subCacheInit False cache_demo) = Some sc"
    "cache_rel sc (list_run plain ops [])"
  using subs.run_refines [OF init_rel, of ops False cache_demo] assms by auto

theorem cache_refines_list_witness:
  "\<exists>sc. store_run cache_insert subCacheItemRemove
        [OpInsert 5 (sub_demo ''x'' 1 1), OpInsert 3 (sub_demo ''y'' 2 2), OpRemove 5, OpInsert 5 (sub_demo ''z'' 3 3)]
        (subCacheInit False cache_demo) = Some sc
     \<and> subCacheItems sc = Some 2 \<and> subCacheItemLookup None ''z'' sc = Some (Some 5)"
proof -
  let ?ops = "[OpInsert 5 (sub_demo ''x'' 1 1), OpInsert 3 (sub_demo ''y'' 2 2), OpRemove 5, OpInsert 5 (sub_demo ''z'' 3 3)]"
  have "fresh_ops ?ops {}" by simp
  from cache_refines_list [OF this, of False cache_demo None "''z''"] obtain sc where
    "store_run cache_insert subCacheItemRemove ?ops (subCacheInit False cache_demo) = Some sc"
    "subCacheItems sc = Some (noOfInserts sc - noOfRemoves sc)" "noOfInserts sc - noOfRemoves sc = 2"
    "subCacheItemLookup None ''z'' sc = Some (Some 5)"
    by (auto simp: sub_demo_def tenantMatch_def)
  then show ?thesis by auto
qed


theorem subCacheStatistics_list_witness:
  "\<exists>sc es. cache_rel sc es \<and> map (\<lambda>e. length (subscriptionId (snd e))) es = [255, 255, 255, 253]
     \<and> subCacheStatisticsGet 1024 sc = None"
proof -
  let ?c = "\<lambda>n. sub_demo (replicate n (CHR ''x'')) 1 1"
  let ?ops = "[OpInsert 1 (?c 255), OpInsert 2 (?c 255), OpInsert 3 (?c 255), OpInsert 4 (?c 253)]"
  have id: "length (subscriptionId (?c n)) = n" for n by (simp add: sub_demo_def)
  have "fresh_ops ?ops {}" by simp
  then obtain sc where sc: "cache_rel sc (list_run plain ?ops [])" by (rule demo_cache)
  have m: "map (\<lambda>e. length (subscriptionId (snd e))) (list_run plain ?ops []) = [255, 255, 255, 253]"
    by (simp only: list_run.simps append.simps list.map snd_conv plain_simps id)
  have "subCacheStatisticsGet 1024 sc = None"
    by (rule conjunct2 [OF subCacheStatistics_list [OF sc], THEN mp, OF m])
  then show ?thesis by (intro exI conjI) (rule sc, rule m)
qed



theorem sync_save_terminates_witness:
  "\<exists>sc. cache_rel sc [(1, sub_demo ''x'' 9 4), (2, sub_demo ''y'' 5 0)] \<and> save_loop (heap sc) (head sc) Map.empty \<noteq> None"
proof -
  obtain sc where sc: "cache_rel sc [(1, sub_demo ''x'' 9 4), (2, sub_demo ''y'' 5 0)]"
    using demo_cache [of "[OpInsert 1 (sub_demo ''x'' 9 4), OpInsert 2 (sub_demo ''y'' 5 0)]"] by (auto simp: sub_demo_def plain_def)
  from sync_save_terminates [OF sc] sc show ?thesis by (auto simp: sub_demo_def)
qed

end
