(* ===== verification/Orion_Statistics.thy ===== *)
theory Orion_Statistics
  imports Orion_Tag Orion_Request Orion_Queue Orion_Pool Orion_Sem Orion_SubCache
begin

section \<open>Statistics: common/statistics.cpp, serviceRoutines/statisticsTreat.cpp\<close>

text \<open>
  The counters of requests, their update by every request, their reset, and the JSON documents of
  \<^verbatim>\<open>GET /statistics\<close> and \<^verbatim>\<open>GET /cache/statistics\<close>.

  The global counters are a map from the name of the variable to its value, a 32-bit \<^verbatim>\<open>int\<close>; they
  start at \<open>-1\<close>, which stands for a counter that was never used. The tables list the cases of
  \<^verbatim>\<open>statisticsUpdate\<close>, the assignments of \<^verbatim>\<open>resetStatistics\<close> and the calls of
  \<^verbatim>\<open>renderCounterStats\<close> in the order of the source. The other statistics come from the states of the
  queue, the semaphores, the connection pool and the cache.
\<close>

type_synonym counters = "string \<Rightarrow> int"

definition counter_names :: "string list" where
  "counter_names = [
     ''noOfJsonRequests'',
     ''noOfRequestsWithoutPayload'',
     ''noOfRegistrations'',
     ''noOfRegistrationErrors'',
     ''noOfRegistrationUpdates'',
     ''noOfRegistrationUpdateErrors'',
     ''noOfDiscoveries'',
     ''noOfDiscoveryErrors'',
     ''noOfAvailabilitySubscriptions'',
     ''noOfAvailabilitySubscriptionErrors'',
     ''noOfAvailabilityUnsubscriptions'',
     ''noOfAvailabilityUnsubscriptionErrors'',
     ''noOfAvailabilitySubscriptionUpdates'',
     ''noOfAvailabilitySubscriptionUpdateErrors'',
     ''noOfAvailabilityNotificationsReceived'',
     ''noOfAvailabilityNotificationsSent'',
     ''noOfQueries'',
     ''noOfQueryErrors'',
     ''noOfUpdates'',
     ''noOfUpdateErrors'',
     ''noOfSubscriptions'',
     ''noOfSubscriptionErrors'',
     ''noOfSubscriptionUpdates'',
     ''noOfSubscriptionUpdateErrors'',
     ''noOfUnsubscriptions'',
     ''noOfUnsubscriptionErrors'',
     ''noOfNotificationsReceived'',
     ''noOfNotificationsSent'',
     ''noOfQueryContextResponses'',
     ''noOfUpdateContextResponses'',
     ''noOfContextEntitiesByEntityId'',
     ''noOfContextEntityAttributes'',
     ''noOfEntityByIdAttributeByName'',
     ''noOfContextEntityTypes'',
     ''noOfContextEntityTypeAttributeContainer'',
     ''noOfContextEntityTypeAttribute'',
     ''noOfNgsi9SubscriptionsConvOp'',
     ''noOfIndividualContextEntity'',
     ''noOfIndividualContextEntityAttributes'',
     ''noOfIndividualContextEntityAttribute'',
     ''noOfAttributeValueInstance'',
     ''noOfNgsi10ContextEntityTypes'',
     ''noOfNgsi10ContextEntityTypesAttributeContainer'',
     ''noOfNgsi10ContextEntityTypesAttribute'',
     ''noOfNgsi10SubscriptionsConvOp'',
     ''noOfUpdateContextElement'',
     ''noOfAppendContextElement'',
     ''noOfUpdateContextAttribute'',
     ''noOfAllContextEntitiesRequests'',
     ''noOfAllEntitiesWithTypeAndIdRequests'',
     ''noOfIndividualContextEntityAttributeWithTypeAndId'',
     ''noOfAttributeValueInstanceWithTypeAndId'',
     ''noOfEntityByIdAttributeByNameIdAndType'',
     ''noOfLogTraceRequests'',
     ''noOfLogLevelRequests'',
     ''noOfVersionRequests'',
     ''noOfExitRequests'',
     ''noOfLeakRequests'',
     ''noOfStatisticsRequests'',
     ''noOfInvalidRequests'',
     ''noOfRegisterResponses'',
     ''noOfRtSubscribeContextAvailabilityResponse'',
     ''noOfRtUpdateContextAvailabilitySubscriptionResponse'',
     ''noOfRtUnsubscribeContextAvailabilityResponse'',
     ''noOfRtUnsubscribeContextResponse'',
     ''noOfRtSubscribeResponse'',
     ''noOfRtSubscribeError'',
     ''noOfContextElementResponse'',
     ''noOfContextAttributeResponse'',
     ''noOfEntityTypesRequest'',
     ''noOfEntityTypesResponse'',
     ''noOfAttributesForEntityTypeRequest'',
     ''noOfAttributesForEntityTypeResponse'',
     ''noOfContextEntitiesByEntityIdAndType'',
     ''noOfEntitiesRequests'',
     ''noOfEntitiesResponses'',
     ''noOfEntryPointsRequests'',
     ''noOfEntryPointsResponses'',
     ''noOfEntityRequests'',
     ''noOfEntityResponses'',
     ''noOfEntityAttributeRequests'',
     ''noOfEntityAttributeResponses'',
     ''noOfEntityAttributeValueRequests'',
     ''noOfEntityAttributeValueResponses'',
     ''noOfPostEntity'',
     ''noOfPostAttributes'',
     ''noOfDeleteEntity'',
     ''noOfSubCacheEntries'',
     ''noOfSubCacheLookups'',
     ''noOfSubCacheRemovals'',
     ''noOfSubCacheRemovalFailures'',
     ''noOfEntityTypeRequest'',
     ''noOfEntityAllTypesRequest'',
     ''noOfSubscriptionsRequest'',
     ''noOfIndividualSubscriptionRequest'',
     ''noOfSimulatedNotifications'',
     ''noOfBatchQueryRequest'',
     ''noOfBatchUpdateRequest'']"

definition noOfJsonRequests :: string where
  "noOfJsonRequests = ''noOfJsonRequests''"

definition noOfRequestsWithoutPayload :: string where
  "noOfRequestsWithoutPayload = ''noOfRequestsWithoutPayload''"

definition counters_init :: counters where
  "counters_init = (\<lambda>_. -1)"

definition requestCounter_table :: "(RequestType \<times> string) list" where
  "requestCounter_table = [
     (RegisterContext, ''noOfRegistrations''),
     (DiscoverContextAvailability, ''noOfDiscoveries''),
     (SubscribeContextAvailability, ''noOfAvailabilitySubscriptions''),
     (UpdateContextAvailabilitySubscription, ''noOfAvailabilitySubscriptionUpdates''),
     (UnsubscribeContextAvailability, ''noOfAvailabilityUnsubscriptions''),
     (NotifyContextAvailability, ''noOfAvailabilityNotificationsReceived''),
     (QueryContext, ''noOfQueries''),
     (SubscribeContext, ''noOfSubscriptions''),
     (UpdateContextSubscription, ''noOfSubscriptionUpdates''),
     (UnsubscribeContext, ''noOfUnsubscriptions''),
     (NotifyContext, ''noOfNotificationsReceived''),
     (NotifyContextSent, ''noOfNotificationsSent''),
     (UpdateContext, ''noOfUpdates''),
     (RtQueryContextResponse, ''noOfQueryContextResponses''),
     (RtUpdateContextResponse, ''noOfUpdateContextResponses''),
     (ContextEntitiesByEntityId, ''noOfContextEntitiesByEntityId''),
     (ContextEntityAttributes, ''noOfContextEntityAttributes''),
     (EntityByIdAttributeByName, ''noOfEntityByIdAttributeByName''),
     (ContextEntityTypes, ''noOfContextEntityTypes''),
     (ContextEntityTypeAttributeContainer, ''noOfContextEntityTypeAttributeContainer''),
     (ContextEntityTypeAttribute, ''noOfContextEntityTypeAttribute''),
     (IndividualContextEntity, ''noOfIndividualContextEntity''),
     (IndividualContextEntityAttributes, ''noOfIndividualContextEntityAttributes''),
     (AttributeValueInstance, ''noOfAttributeValueInstance''),
     (IndividualContextEntityAttribute, ''noOfIndividualContextEntityAttribute''),
     (Ngsi9SubscriptionsConvOp, ''noOfNgsi9SubscriptionsConvOp''),
     (UpdateContextElement, ''noOfUpdateContextElement''),
     (AppendContextElement, ''noOfAppendContextElement''),
     (UpdateContextAttribute, ''noOfUpdateContextAttribute''),
     (Ngsi10ContextEntityTypes, ''noOfNgsi10ContextEntityTypes''),
     (Ngsi10ContextEntityTypesAttributeContainer, ''noOfNgsi10ContextEntityTypesAttributeContainer''),
     (Ngsi10ContextEntityTypesAttribute, ''noOfNgsi10ContextEntityTypesAttribute''),
     (Ngsi10SubscriptionsConvOp, ''noOfNgsi10SubscriptionsConvOp''),
     (AllContextEntities, ''noOfAllContextEntitiesRequests''),
     (AllEntitiesWithTypeAndId, ''noOfAllEntitiesWithTypeAndIdRequests''),
     (IndividualContextEntityAttributeWithTypeAndId, ''noOfIndividualContextEntityAttributeWithTypeAndId''),
     (AttributeValueInstanceWithTypeAndId, ''noOfAttributeValueInstanceWithTypeAndId''),
     (ContextEntitiesByEntityIdAndType, ''noOfContextEntitiesByEntityIdAndType''),
     (EntityByIdAttributeByNameIdAndType, ''noOfEntityByIdAttributeByNameIdAndType''),
     (LogTraceRequest, ''noOfLogTraceRequests''),
     (LogLevelRequest, ''noOfLogLevelRequests''),
     (VersionRequest, ''noOfVersionRequests''),
     (ExitRequest, ''noOfExitRequests''),
     (LeakRequest, ''noOfLeakRequests''),
     (StatisticsRequest, ''noOfStatisticsRequests''),
     (InvalidRequest, ''noOfInvalidRequests''),
     (RegisterResponse, ''noOfRegisterResponses''),
     (RtSubscribeContextAvailabilityResponse, ''noOfRtSubscribeContextAvailabilityResponse''),
     (RtUpdateContextAvailabilitySubscriptionResponse, ''noOfRtUpdateContextAvailabilitySubscriptionResponse''),
     (RtUnsubscribeContextAvailabilityResponse, ''noOfRtUnsubscribeContextAvailabilityResponse''),
     (RtUnsubscribeContextResponse, ''noOfRtUnsubscribeContextResponse''),
     (RtSubscribeResponse, ''noOfRtSubscribeResponse''),
     (RtSubscribeError, ''noOfRtSubscribeError''),
     (RtContextElementResponse, ''noOfContextElementResponse''),
     (RtContextAttributeResponse, ''noOfContextAttributeResponse''),
     (EntityTypes, ''noOfEntityTypesRequest''),
     (AttributesForEntityType, ''noOfAttributesForEntityTypeRequest''),
     (RtEntityTypesResponse, ''noOfEntityTypesResponse''),
     (RtAttributesForEntityTypeResponse, ''noOfAttributesForEntityTypeResponse''),
     (EntitiesRequest, ''noOfEntitiesRequests''),
     (EntitiesResponse, ''noOfEntitiesResponses''),
     (EntryPointsRequest, ''noOfEntryPointsRequests''),
     (EntryPointsResponse, ''noOfEntryPointsResponses''),
     (EntityRequest, ''noOfEntityRequests''),
     (EntityResponse, ''noOfEntityResponses''),
     (EntityAttributeRequest, ''noOfEntityAttributeRequests''),
     (EntityAttributeResponse, ''noOfEntityAttributeResponses''),
     (EntityAttributeValueRequest, ''noOfEntityAttributeValueRequests''),
     (EntityAttributeValueResponse, ''noOfEntityAttributeValueResponses''),
     (PostEntity, ''noOfPostEntity''),
     (PostAttributes, ''noOfPostAttributes''),
     (DeleteEntity, ''noOfDeleteEntity''),
     (EntityTypeRequest, ''noOfEntityTypeRequest''),
     (EntityAllTypesRequest, ''noOfEntityAllTypesRequest''),
     (SubscriptionsRequest, ''noOfSubscriptionsRequest''),
     (IndividualSubscriptionRequest, ''noOfIndividualSubscriptionRequest''),
     (BatchQueryRequest, ''noOfBatchQueryRequest''),
     (BatchUpdateRequest, ''noOfBatchUpdateRequest'')]"

definition reset_names :: "string list" where
  "reset_names = [
     ''noOfJsonRequests'',
     ''noOfRegistrations'',
     ''noOfRegistrationErrors'',
     ''noOfRegistrationUpdates'',
     ''noOfRegistrationUpdateErrors'',
     ''noOfDiscoveries'',
     ''noOfDiscoveryErrors'',
     ''noOfAvailabilitySubscriptions'',
     ''noOfAvailabilitySubscriptionErrors'',
     ''noOfAvailabilityUnsubscriptions'',
     ''noOfAvailabilityUnsubscriptionErrors'',
     ''noOfAvailabilitySubscriptionUpdates'',
     ''noOfAvailabilitySubscriptionUpdateErrors'',
     ''noOfAvailabilityNotificationsReceived'',
     ''noOfAvailabilityNotificationsSent'',
     ''noOfQueries'',
     ''noOfQueryErrors'',
     ''noOfUpdates'',
     ''noOfUpdateErrors'',
     ''noOfSubscriptions'',
     ''noOfSubscriptionErrors'',
     ''noOfSubscriptionUpdates'',
     ''noOfSubscriptionUpdateErrors'',
     ''noOfUnsubscriptions'',
     ''noOfUnsubscriptionErrors'',
     ''noOfNotificationsReceived'',
     ''noOfNotificationsSent'',
     ''noOfQueryContextResponses'',
     ''noOfUpdateContextResponses'',
     ''noOfContextEntitiesByEntityId'',
     ''noOfContextEntityAttributes'',
     ''noOfEntityByIdAttributeByName'',
     ''noOfContextEntityTypes'',
     ''noOfContextEntityTypeAttributeContainer'',
     ''noOfContextEntityTypeAttribute'',
     ''noOfIndividualContextEntity'',
     ''noOfIndividualContextEntityAttributes'',
     ''noOfIndividualContextEntityAttribute'',
     ''noOfUpdateContextElement'',
     ''noOfAppendContextElement'',
     ''noOfUpdateContextAttribute'',
     ''noOfNgsi10ContextEntityTypes'',
     ''noOfNgsi10ContextEntityTypesAttributeContainer'',
     ''noOfNgsi10ContextEntityTypesAttribute'',
     ''noOfNgsi10SubscriptionsConvOp'',
     ''noOfAllContextEntitiesRequests'',
     ''noOfAllEntitiesWithTypeAndIdRequests'',
     ''noOfIndividualContextEntityAttributeWithTypeAndId'',
     ''noOfAttributeValueInstanceWithTypeAndId'',
     ''noOfContextEntitiesByEntityIdAndType'',
     ''noOfEntityByIdAttributeByNameIdAndType'',
     ''noOfLogTraceRequests'',
     ''noOfLogLevelRequests'',
     ''noOfVersionRequests'',
     ''noOfExitRequests'',
     ''noOfLeakRequests'',
     ''noOfStatisticsRequests'',
     ''noOfInvalidRequests'',
     ''noOfRegisterResponses'',
     ''noOfSimulatedNotifications'',
     ''noOfBatchQueryRequest'',
     ''noOfBatchUpdateRequest'']"

text \<open>The name in the document, the counter, and whether it is left out when the counter is unused.\<close>

definition rendered_counters :: "(string \<times> string \<times> bool) list" where
  "rendered_counters = [
     (''jsonRequests'', ''noOfJsonRequests'', True),
     (''registrations'', ''noOfRegistrations'', True),
     (''registrationUpdates'', ''noOfRegistrationUpdates'', True),
     (''discoveries'', ''noOfDiscoveries'', True),
     (''availabilitySubscriptions'', ''noOfAvailabilitySubscriptions'', True),
     (''availabilitySubscriptionUpdates'', ''noOfAvailabilitySubscriptionUpdates'', True),
     (''availabilityUnsubscriptions'', ''noOfAvailabilityUnsubscriptions'', True),
     (''availabilityNotificationsReceived'', ''noOfAvailabilityNotificationsReceived'', True),
     (''availabilityNotificationsSent'', ''noOfAvailabilityNotificationsSent'', True),
     (''queries'', ''noOfQueries'', True),
     (''updates'', ''noOfUpdates'', True),
     (''subscriptions'', ''noOfSubscriptions'', True),
     (''subscriptionUpdates'', ''noOfSubscriptionUpdates'', True),
     (''unsubscriptions'', ''noOfUnsubscriptions'', True),
     (''notificationsReceived'', ''noOfNotificationsReceived'', True),
     (''notificationsSent'', ''noOfNotificationsSent'', True),
     (''queryResponsesReceived'', ''noOfQueryContextResponses'', True),
     (''updateResponsesReceived'', ''noOfUpdateContextResponses'', True),
     (''contextEntitiesByEntityId'', ''noOfContextEntitiesByEntityId'', True),
     (''contextEntityAttributes'', ''noOfContextEntityAttributes'', True),
     (''entityByIdAttributeByName'', ''noOfEntityByIdAttributeByName'', True),
     (''ctxEntityTypes'', ''noOfContextEntityTypes'', True),
     (''ctxEntityTypeAttributeContainer'', ''noOfContextEntityTypeAttributeContainer'', True),
     (''ctxEntityTypeAttribute'', ''noOfContextEntityTypeAttribute'', True),
     (''individualContextEntity'', ''noOfIndividualContextEntity'', True),
     (''individualContextEntityAttributes'', ''noOfIndividualContextEntityAttributes'', True),
     (''individualContextEntityAttribute'', ''noOfIndividualContextEntityAttribute'', True),
     (''updateContextElement'', ''noOfUpdateContextElement'', True),
     (''appendContextElement'', ''noOfAppendContextElement'', True),
     (''updateContextAttribute'', ''noOfUpdateContextAttribute'', True),
     (''ctxEntityTypesNgsi10'', ''noOfNgsi10ContextEntityTypes'', True),
     (''ctxEntityTypeAttributeContainerNgsi10'', ''noOfNgsi10ContextEntityTypesAttributeContainer'', True),
     (''ctxEntityTypeAttributeNgsi10'', ''noOfNgsi10ContextEntityTypesAttribute'', True),
     (''subscriptionsNgsi10ConvOp'', ''noOfNgsi10SubscriptionsConvOp'', True),
     (''allContextEntitiesRequests'', ''noOfAllContextEntitiesRequests'', True),
     (''allEntitiesWithTypeAndIdRequests'', ''noOfAllEntitiesWithTypeAndIdRequests'', True),
     (''individualCtxEntityAttributeWithTypeAndId'', ''noOfIndividualContextEntityAttributeWithTypeAndId'', True),
     (''attributeValueInstanceWithTypeAndId'', ''noOfAttributeValueInstanceWithTypeAndId'', True),
     (''contextEntitiesByEntityIdAndType'', ''noOfContextEntitiesByEntityIdAndType'', True),
     (''entityByIdAttributeByNameIdAndType'', ''noOfEntityByIdAttributeByNameIdAndType'', True),
     (''batchQueryRequests'', ''noOfBatchQueryRequest'', True),
     (''batchUpdateRequests'', ''noOfBatchUpdateRequest'', True),
     (''logTraceRequests'', ''noOfLogTraceRequests'', True),
     (''logLevelRequests'', ''noOfLogLevelRequests'', True),
     (''versionRequests'', ''noOfVersionRequests'', False),
     (''exitRequests'', ''noOfExitRequests'', True),
     (''leakRequests'', ''noOfLeakRequests'', True),
     (''statisticsRequests'', ''noOfStatisticsRequests'', True),
     (''invalidRequests'', ''noOfInvalidRequests'', True),
     (''registerResponses'', ''noOfRegisterResponses'', True),
     (''registrationErrors'', ''noOfRegistrationErrors'', True),
     (''registrationUpdateErrors'', ''noOfRegistrationUpdateErrors'', True),
     (''discoveryErrors'', ''noOfDiscoveryErrors'', True)]"

definition count :: "string \<Rightarrow> counters \<Rightarrow> counters" where
  "count c cs = cs(c := wrap32 (cs c + 1))"

definition statisticsUpdate :: "RequestType \<Rightarrow> MimeType \<Rightarrow> counters \<Rightarrow> counters" where
  "statisticsUpdate request inMimeType cs =
     (let cs = (if inMimeType = JSON then count noOfJsonRequests cs
                else if inMimeType = NOMIMETYPE then count noOfRequestsWithoutPayload cs
                else cs)
      in case map_of requestCounter_table request of None \<Rightarrow> cs | Some c \<Rightarrow> count c cs)"

record TimeStat =
  jsonV1ParseTime :: timespec
  jsonV2ParseTime :: timespec
  mongoBackendTime :: timespec
  mongoReadWaitTime :: timespec
  mongoWriteWaitTime :: timespec
  mongoCommandWaitTime :: timespec
  renderTime :: timespec
  reqTime :: timespec

definition TimeStat_zero :: TimeStat where
  "TimeStat_zero = \<lparr>jsonV1ParseTime = ts_zero, jsonV2ParseTime = ts_zero, mongoBackendTime = ts_zero,
     mongoReadWaitTime = ts_zero, mongoWriteWaitTime = ts_zero, mongoCommandWaitTime = ts_zero,
     renderTime = ts_zero, reqTime = ts_zero\<rparr>"

record stats =
  st_counters :: counters
  st_queue :: QueueStatistics
  st_sems :: sems
  st_pool :: conn_pool
  st_accCCMutexTime :: timespec
  accTimeStat :: TimeStat
  lastTimeStat :: TimeStat
  countersStatistics :: bool
  st_semWait :: bool
  timingStatistics :: bool
  notifQueueStatistics :: bool
  notificationMode :: string
  startTime :: int
  statisticsTime :: int

subsection \<open>Reset\<close>

definition timingStatisticsReset :: "stats \<Rightarrow> stats" where
  "timingStatisticsReset s = s\<lparr>accTimeStat := TimeStat_zero\<rparr>"

definition reset_counters :: "counters \<Rightarrow> counters" where
  "reset_counters cs = fold (\<lambda>c cs. cs(c := -1)) reset_names cs"

definition mutexTimeCCReset :: "stats \<Rightarrow> stats" where
  "mutexTimeCCReset s = s\<lparr>st_accCCMutexTime := ts_zero\<rparr>"

definition resetStatistics :: "stats \<Rightarrow> stats" where
  "resetStatistics s =
     timingStatisticsReset (mutexTimeCCReset
       (s\<lparr>st_counters := reset_counters (st_counters s),
          st_queue := queueStatistics_reset (st_queue s),
          st_sems := semTimeTimeStatReset (semTimeCacheReset (semTimeTransReset (semTimeReqReset (st_sems s)))),
          st_pool := mongoPoolConnectionSemWaitingTimeReset (st_pool s)\<rparr>))"

subsection \<open>Rendering\<close>

text \<open>A time in seconds as a \<^verbatim>\<open>float\<close>: the nanoseconds become a \<^verbatim>\<open>float\<close>, the division and
  the sum are done in \<^verbatim>\<open>double\<close>, and the result is a \<^verbatim>\<open>float\<close> again.\<close>

definition timeSpecToFloat :: "timespec \<Rightarrow> dbl" where
  "timeSpecToFloat t =
     Fin (round_bits 24 (round_bits 53 (of_int (tv_sec t) + round_bits 53 (round_bits 24 (of_int (tv_nsec t)) / 1000000000))))"

definition renderUsedCounter :: "string \<Rightarrow> int \<Rightarrow> JsonHelper \<Rightarrow> JsonHelper" where
  "renderUsedCounter field counter js = (if counter \<noteq> -1 then addNumber field (wrap32 (counter + 1)) js else js)"

definition render_counter :: "counters \<Rightarrow> string \<times> string \<times> bool \<Rightarrow> JsonHelper \<Rightarrow> JsonHelper" where
  "render_counter cs r js =
     (case r of (field, c, onlyUsed) \<Rightarrow>
        if onlyUsed then renderUsedCounter field (cs c) js else addNumber field (wrap32 (cs c + 1)) js)"

definition renderCounterStats :: "counters \<Rightarrow> string" where
  "renderCounterStats cs = jh_str (fold (render_counter cs) rendered_counters JsonHelper_new)"

definition renderSemWaitStats :: "stats \<Rightarrow> string" where
  "renderSemWaitStats s =
     (let jh = JsonHelper_new;
          jh = addFloat ''request'' (timeSpecToFloat (accReqSemTime (st_sems s))) jh;
          jh = addFloat ''dbConnectionPool'' (timeSpecToFloat (semWaitingTime (st_pool s))) jh;
          jh = addFloat ''transaction'' (timeSpecToFloat (accTransSemTime (st_sems s))) jh;
          jh = addFloat ''subCache'' (timeSpecToFloat (accCacheSemTime (st_sems s))) jh;
          jh = addFloat ''connectionContext'' (timeSpecToFloat (st_accCCMutexTime s)) jh;
          jh = addFloat ''timeStat'' (timeSpecToFloat (accTimeStatSemTime (st_sems s))) jh
      in jh_str jh)"

fun fl_div :: "dbl \<Rightarrow> int \<Rightarrow> dbl" where
  "fl_div (Fin r) n = Fin (round_bits 24 (r / round_bits 24 (of_int n)))"
| "fl_div d n = d"

definition renderNotifQueueStats :: "stats \<Rightarrow> string" where
  "renderNotifQueueStats s =
     (let q = st_queue s; timeInQ = timeSpecToFloat (timeInQ q); out = sint (noOfNotificationsQueueOut q);
          jh = JsonHelper_new;
          jh = addNumber ''in'' (sint (noOfNotificationsQueueIn q)) jh;
          jh = addNumber ''out'' out jh;
          jh = addNumber ''reject'' (sint (noOfNotificationsQueueReject q)) jh;
          jh = addNumber ''sentOk'' (sint (noOfNotificationsQueueSentOK q)) jh;
          jh = addNumber ''sentError'' (sint (noOfNotificationsQueueSentError q)) jh;
          jh = addFloat ''timeInQueue'' timeInQ jh;
          jh = addFloat ''avgTimeInQueue'' (if out = 0 then Fin 0 else fl_div timeInQ out) jh;
          jh = addNumber ''size'' (int (queueSize q)) jh
      in jh_str jh)"

definition used :: "timespec \<Rightarrow> bool" where
  "used t = (tv_sec t \<noteq> 0 \<or> tv_nsec t \<noteq> 0)"

definition timing_fields :: "TimeStat \<Rightarrow> (string \<times> timespec) list" where
  "timing_fields t =
     [(''jsonV1Parse'', jsonV1ParseTime t), (''jsonV2Parse'', jsonV2ParseTime t), (''mongoBackend'', mongoBackendTime t),
      (''mongoReadWait'', mongoReadWaitTime t), (''mongoWriteWait'', mongoWriteWaitTime t),
      (''mongoCommandWait'', mongoCommandWaitTime t), (''render'', renderTime t), (''total'', reqTime t)]"

definition render_timing :: "TimeStat \<Rightarrow> string" where
  "render_timing t =
     jh_str (fold (\<lambda>(n, ts) jh. if used ts then addFloat n (timeSpecToFloat ts) jh else jh) (timing_fields t) JsonHelper_new)"

text \<open>The test whether there is anything to report leaves out the waits for the database.\<close>

definition any_timing :: "TimeStat \<Rightarrow> bool" where
  "any_timing t = (used (jsonV1ParseTime t) \<or> used (jsonV2ParseTime t) \<or> used (mongoBackendTime t) \<or> used (renderTime t)
     \<or> used (reqTime t))"

definition renderTimingStatistics :: "stats \<Rightarrow> string" where
  "renderTimingStatistics s =
     (if \<not> any_timing (accTimeStat s) \<and> \<not> any_timing (lastTimeStat s) then ''{}''
      else let jh = JsonHelper_new;
               jh = (if any_timing (accTimeStat s) then addRaw ''accumulated'' (render_timing (accTimeStat s)) jh else jh);
               jh = (if any_timing (lastTimeStat s) then addRaw ''last'' (render_timing (lastTimeStat s)) jh else jh)
           in jh_str jh)"

definition statisticsTreat :: "string \<Rightarrow> int \<Rightarrow> stats \<Rightarrow> string \<times> stats" where
  "statisticsTreat method now s =
     (if method = ''DELETE''
      then (jh_str (addString ''message'' ''All statistics counter reset'' JsonHelper_new), resetStatistics s)
      else let js = JsonHelper_new;
               js = (if countersStatistics s then addRaw ''counters'' (renderCounterStats (st_counters s)) js else js);
               js = (if st_semWait s then addRaw ''semWait'' (renderSemWaitStats s) js else js);
               js = (if timingStatistics s then addRaw ''timing'' (renderTimingStatistics s) js else js);
               js = (if notifQueueStatistics s \<and> notificationMode s = ''threadpool''
                     then addRaw ''notifQueue'' (renderNotifQueueStats s) js else js);
               js = addNumber ''uptime_in_secs'' (wrap32 (now - startTime s)) js;
               js = addNumber ''measuring_interval_in_secs'' (wrap32 (now - statisticsTime s)) js;
               js = renderUsedCounter ''simulatedNotifications'' (st_counters s ''noOfSimulatedNotifications'') js
           in (jh_str js, s))"

definition statisticsCacheTreat :: "string \<Rightarrow> SubCache \<Rightarrow> (string \<times> SubCache) option" where
  "statisticsCacheTreat method sc =
     (if method = ''DELETE''
      then Some (jh_str (addString ''message'' ''All statistics counter reset'' JsonHelper_new), subCacheStatisticsReset sc)
      else case subCacheStatisticsGet 1024 sc of
             None \<Rightarrow> None
           | Some (mscRefreshs, mscInserts, mscRemoves, mscUpdates, cacheItems, listBuffer) \<Rightarrow>
               let js = JsonHelper_new;
                   js = addString ''ids'' listBuffer js;
                   js = addNumber ''refresh'' mscRefreshs js;
                   js = addNumber ''inserts'' mscInserts js;
                   js = addNumber ''removes'' mscRemoves js;
                   js = addNumber ''updates'' mscUpdates js;
                   js = addNumber ''items'' cacheItems js
               in Some (jh_str js, sc))"

subsection \<open>The counters of a measuring interval\<close>

fun hits :: "string \<Rightarrow> (RequestType \<times> MimeType) list \<Rightarrow> nat" where
  "hits c [] = 0"
| "hits c ((r, m) # reqs) =
     (if m = JSON \<and> c = noOfJsonRequests \<or> m = NOMIMETYPE \<and> c = noOfRequestsWithoutPayload then 1 else 0)
     + (if map_of requestCounter_table r = Some c then 1 else 0) + hits c reqs"

abbreviation after_requests :: "(RequestType \<times> MimeType) list \<Rightarrow> counters \<Rightarrow> counters" where
  "after_requests reqs cs \<equiv> fold (\<lambda>(r, m). statisticsUpdate r m) reqs cs"

text \<open>The two counters of the format of the payload are not counters of a kind of request.\<close>

lemma format_counters:
  "list_all (\<lambda>(r, c). c \<noteq> noOfJsonRequests \<and> c \<noteq> noOfRequestsWithoutPayload) requestCounter_table"
  "noOfJsonRequests \<noteq> noOfRequestsWithoutPayload"
  by code_simp+

lemma counter_not_format:
  "map_of requestCounter_table r = Some c \<Longrightarrow> c \<noteq> noOfJsonRequests \<and> c \<noteq> noOfRequestsWithoutPayload"
  using format_counters(1) by (auto simp: list_all_iff dest!: map_of_SomeD)

lemma wrap32_step: "-1 \<le> x \<Longrightarrow> x < int_max \<Longrightarrow> wrap32 (x + 1) = x + 1"
  by (rule wrap32_id) simp_all

lemma statisticsUpdate_step:
  assumes "-1 \<le> cs c" and "cs c < int_max"
  shows "statisticsUpdate r m cs c = cs c + int (hits c [(r, m)])"
  using assms counter_not_format [of r] format_counters(2)
  by (auto simp: statisticsUpdate_def count_def Let_def wrap32_step split: option.split)

lemma hits_one: "hits c (q # reqs) = hits c [q] + hits c reqs"
  by (cases q) simp

lemma hits_single: "hits c [q] \<le> 1"
  using counter_not_format format_counters(2) by (cases q) auto

lemma hits_le: "hits c reqs \<le> length reqs"
proof (induction reqs)
  case (Cons q reqs)
  then show ?case using hits_single [of c q] hits_one [of c q reqs] by simp
qed simp

lemma after_requests_counter:
  assumes "-1 \<le> cs c" and "cs c + int (length reqs) \<le> int_max"
  shows "after_requests reqs cs c = cs c + int (hits c reqs)"
  using assms
proof (induction reqs arbitrary: cs)
  case (Cons q reqs)
  obtain r m where q: "q = (r, m)" by (cases q)
  have s: "statisticsUpdate r m cs c = cs c + int (hits c [(r, m)])"
    using Cons.prems by (intro statisticsUpdate_step) simp_all
  have "after_requests reqs (statisticsUpdate r m cs) c = statisticsUpdate r m cs c + int (hits c reqs)"
    using Cons.prems s hits_single [of c q] by (intro Cons.IH) (simp_all add: q del: hits.simps)
  then show ?case using s hits_one [of c q reqs] by (simp add: q del: hits.simps)
qed simp

lemma reset_counters_apply: "reset_counters cs c = (if c \<in> set reset_names then -1 else cs c)"
proof -
  have "fold (\<lambda>c cs. cs(c := -1)) ns cs c = (if c \<in> set ns then -1 else cs c)" for ns
    by (induction ns arbitrary: cs) auto
  then show ?thesis by (simp add: reset_counters_def)
qed

definition counter_ops :: "counters \<Rightarrow> (string \<times> string \<times> bool) list \<Rightarrow> jh_op list" where
  "counter_ops cs rs = concat (map (\<lambda>(f, c, u). if u \<and> cs c = -1 then [] else [AddNumber f (wrap32 (cs c + 1))]) rs)"

lemma fold_render_counter: "fold (render_counter cs) rs js = fold jh_apply (counter_ops cs rs) js"
  by (induction rs arbitrary: js) (auto simp: counter_ops_def render_counter_def renderUsedCounter_def)

lemma rendered_are_reset: "list_all (\<lambda>(f, c, u). c \<in> set reset_names) rendered_counters"
  by code_simp

definition counts_of :: "(RequestType \<times> MimeType) list \<Rightarrow> (string \<times> json) list" where
  "counts_of reqs =
     concat (map (\<lambda>(f, c, u). if u \<and> hits c reqs = 0 then [] else [(f, JNum (Fin (of_nat (hits c reqs))))]) rendered_counters)"



text \<open>Counters that requests increment but that are neither reset nor shown, as those of the second version of the API.\<close>

definition counter_lost :: "RequestType \<Rightarrow> bool" where
  "counter_lost r =
     (case map_of requestCounter_table r of
        None \<Rightarrow> False
      | Some c \<Rightarrow> list_all (\<lambda>d. d \<noteq> c) reset_names \<and> list_all (\<lambda>(f, d, u). d \<noteq> c) rendered_counters)"

lemma counters_lost: "list_all counter_lost [EntitiesRequest, EntityRequest, PostEntity, SubscriptionsRequest]"
  by code_simp

end
