(* ===== verification/Orion_Location.thy ===== *)
theory Orion_Location
  imports Orion_Mongo Orion_Globals
begin

section \<open>The location of an entity: mongoBackend/location.cpp\<close>

text \<open>
  An entity has at most one location, the GeoJSON of the value of one of its attributes. A function that fills the
  builder \<^verbatim>\<open>geoJson\<close> gives the fields it appends, or the text it leaves in \<^verbatim>\<open>errDetail\<close>
  when it returns false. The alarms that \<^const>\<open>string2coords\<close> raises on bad coordinates are not repeated
  here. The functions are defined for any behaviour of the C library's \<^verbatim>\<open>strtod\<close>.
\<close>

definition coords_format_error :: "string \<Rightarrow> string" where
  "coords_format_error s = ''geo coordinates format error [see Orion user manual]: '' @ s"

definition coords_of :: "strtod_fun \<Rightarrow> string \<Rightarrow> (dbl \<times> dbl) option" where
  "coords_of strtod s =
     (case string2coords strtod s \<lparr>latitude = Fin 0, longitude = Fin 0\<rparr> of
        (ok, out, alarms) \<Rightarrow> if ok then Some (latitude out, longitude out) else None)"

fun stringArray2coords_loop :: "strtod_fun \<Rightarrow> CompoundValueNode list \<Rightarrow> string + (dbl \<times> dbl) list" where
  "stringArray2coords_loop strtod [] = Inr []"
| "stringArray2coords_loop strtod (item # items) =
     (if cv_valueType item \<noteq> ValueTypeString
      then Inl ''geo:line, geo:box and geo:polygon needs array of strings but some element is not a string''
      else case coords_of strtod (cv_stringValue item) of
             None \<Rightarrow> Inl (coords_format_error (cv_stringValue item))
           | Some c \<Rightarrow> map_sum id (Cons c) (stringArray2coords_loop strtod items))"

definition stringArray2coords :: "strtod_fun \<Rightarrow> ContextAttribute \<Rightarrow> string + (dbl \<times> dbl) list" where
  "stringArray2coords strtod ca =
     (case ca_compoundValueP ca of
        None \<Rightarrow> Inl ''geo:line, geo:box and geo:polygon needs array of strings as value''
      | Some n \<Rightarrow>
          if cv_valueType n \<noteq> ValueTypeVector
          then Inl ''geo:line, geo:box and geo:polygon needs array of strings as value''
          else stringArray2coords_loop strtod (cv_childV n))"

text \<open>A position of GeoJSON has the longitude first.\<close>

definition position :: "dbl \<Rightarrow> dbl \<Rightarrow> bson" where
  "position lon lat = BArr [BNum lon, BNum lat]"

definition geo_doc :: "string \<Rightarrow> bson \<Rightarrow> doc" where
  "geo_doc shape coordinates = [(''type'', BStr shape), (''coordinates'', coordinates)]"

definition box_doc :: "(dbl \<times> dbl) list \<Rightarrow> string + doc" where
  "box_doc cs =
     (if length cs \<noteq> 2 then Inl ''geo:box uses exactly 2 coordinates''
      else case orderCoordsForBox (fst (cs ! 0)) (fst (cs ! 1)) (snd (cs ! 0)) (snd (cs ! 1)) of
             None \<Rightarrow> Inl ''geo:box coordinates are not defining an actual box''
           | Some (minLat, maxLat, minLon, maxLon) \<Rightarrow>
               Inr (geo_doc ''Polygon'' (BArr [BArr [position minLon minLat, position minLon maxLat,
                 position maxLon maxLat, position maxLon minLat, position minLon minLat]])))"

definition line_doc :: "(dbl \<times> dbl) list \<Rightarrow> string + doc" where
  "line_doc cs =
     (if length cs < 2 then Inl ''geo:line uses at least 2 coordinates''
      else Inr (geo_doc ''LineString'' (BArr (map (\<lambda>(lat, lon). position lon lat) cs))))"

definition polygon_doc :: "(dbl \<times> dbl) list \<Rightarrow> string + doc" where
  "polygon_doc cs =
     (let n = length cs
      in if n < 4 then Inl ''geo:polygon uses at least 4 coordinates''
         else if \<not> deq (fst (cs ! 0)) (fst (cs ! (n - 1))) \<or> \<not> deq (snd (cs ! 0)) (snd (cs ! (n - 1)))
         then Inl ''geo:polygon first and last coordinates must match''
         else Inr (geo_doc ''Polygon'' (BArr [BArr (map (\<lambda>(lat, lon). position lon lat) cs)])))"

definition getGeoJson :: "strtod_fun \<Rightarrow> ContextAttribute \<Rightarrow> string \<Rightarrow> string + doc" where
  "getGeoJson strtod ca apiVersion =
     (if apiVersion = ''v1'' \<or> ca_type ca = ''geo:point''
      then (case coords_of strtod (ca_stringValue ca) of
              None \<Rightarrow> Inl (coords_format_error (ca_stringValue ca))
            | Some (lat, lon) \<Rightarrow> Inr (geo_doc ''Point'' (position lon lat)))
      else if ca_type ca = ''geo:json''
      then (case ca_compoundValueP ca of
              None \<Rightarrow> Inl ''geo:json needs an object as value''
            | Some n \<Rightarrow>
                if cv_valueType n \<noteq> ValueTypeObject then Inl ''geo:json needs an object as value''
                else Inr (getObjectField (valueBson ca) ''value''))
      else case stringArray2coords strtod ca of
             Inl e \<Rightarrow> Inl e
           | Inr cs \<Rightarrow>
               if ca_type ca = ''geo:box'' then box_doc cs
               else if ca_type ca = ''geo:line'' then line_doc cs
               else if ca_type ca = ''geo:polygon'' then polygon_doc cs
               else Inl ''error processing geo location attribute, see log traces'')"

subsection \<open>Creation, update and append\<close>

definition wgs84 :: "string \<Rightarrow> bool" where
  "wgs84 s = (s = ''WGS84'' \<or> s = ''WSG84'')"

fun locationAtCreation_loop ::
    "strtod_fun \<Rightarrow> string \<Rightarrow> string \<Rightarrow> doc \<Rightarrow> ContextAttribute list \<Rightarrow> string + string \<times> doc" where
  "locationAtCreation_loop strtod apiVersion locAttr geoJson [] = Inr (locAttr, geoJson)"
| "locationAtCreation_loop strtod apiVersion locAttr geoJson (ca # caV) =
     (let location = getLocation ca apiVersion
      in if location = [] then locationAtCreation_loop strtod apiVersion locAttr geoJson caV
         else if locAttr \<noteq> []
         then Inl ''You cannot use more than one geo location attribute when creating an entity [see Orion user manual]''
         else if \<not> wgs84 location then Inl (''only WGS84 are supported, found: '' @ location)
         else case getGeoJson strtod ca apiVersion of
                Inl e \<Rightarrow> Inl e
              | Inr g \<Rightarrow> locationAtCreation_loop strtod apiVersion (ca_name ca) (geoJson @ g) caV)"

definition processLocationAtEntityCreation ::
    "strtod_fun \<Rightarrow> ContextAttribute list \<Rightarrow> string \<Rightarrow> string + string \<times> doc" where
  "processLocationAtEntityCreation strtod caV apiVersion = locationAtCreation_loop strtod apiVersion [] [] caV"

definition unsupported_location :: "ContextAttribute \<Rightarrow> string" where
  "unsupported_location ca = ''only WGS84 is supported for location, found: ['' @ getLocation ca ''v1'' @ '']''"

definition second_location :: "string \<Rightarrow> string \<Rightarrow> string" where
  "second_location name current =
     ''attempt to define a geo location attribute ['' @ name @ '']''
     @ '' when another one has been previously defined ['' @ current @ '']''"

text \<open>The name of the location attribute afterwards, with what is appended to \<^verbatim>\<open>geoJson\<close>.\<close>

definition processLocationAtUpdateAttribute ::
    "strtod_fun \<Rightarrow> string \<Rightarrow> ContextAttribute \<Rightarrow> string \<Rightarrow> string + string \<times> doc" where
  "processLocationAtUpdateAttribute strtod current ca apiVersion =
     (let locationString = getLocation ca apiVersion;
          geo = (\<lambda>newName. case getGeoJson strtod ca apiVersion of
                    Inl subErr \<Rightarrow> Inl (''error parsing location attribute: '' @ subErr)
                  | Inr g \<Rightarrow> Inr (newName, g))
      in if locationString \<noteq> [] \<and> \<not> wgs84 locationString then Inl (unsupported_location ca)
         else if locationString \<noteq> []
         then if current = [] then geo (ca_name ca)
              else if current \<noteq> ca_name ca then Inl (second_location (ca_name ca) current)
              else geo current
         else if current = ca_name ca
         then if apiVersion = ''v1'' then geo current else Inr ([], [])
         else Inr (current, []))"

definition processLocationAtAppendAttribute ::
    "strtod_fun \<Rightarrow> string \<Rightarrow> ContextAttribute \<Rightarrow> bool \<Rightarrow> string \<Rightarrow> string + string \<times> doc" where
  "processLocationAtAppendAttribute strtod current ca actualAppend apiVersion =
     (let locationString = getLocation ca apiVersion
      in if locationString \<noteq> [] \<and> \<not> wgs84 locationString then Inl (unsupported_location ca)
         else if actualAppend \<and> locationString \<noteq> []
         then if current \<noteq> [] then Inl (second_location (ca_name ca) current)
              else (case getGeoJson strtod ca apiVersion of
                      Inl subErr \<Rightarrow> Inl (''error parsing location attribute for new attribute: '' @ subErr)
                    | Inr g \<Rightarrow> Inr (ca_name ca, g))
         else if \<not> actualAppend \<and> locationString \<noteq> []
         then if current \<noteq> ca_name ca then Inl (second_location (ca_name ca) current)
              else if current = []
              then (case getGeoJson strtod ca apiVersion of
                      Inl subErr \<Rightarrow> Inl (''error parsing location attribute for existing attribute: '' @ subErr)
                    | Inr g \<Rightarrow> Inr (ca_name ca, g))
              else Inr (current, [])
         else if \<not> actualAppend \<and> locationString = [] \<and> current = ca_name ca then Inr ([], [])
         else Inr (current, []))"

subsection \<open>What is stored is well-formed GeoJSON\<close>

text \<open>
  The shapes of GeoJSON: a point, a line of at least two positions, a polygon whose single ring has at least four
  positions, the first and the last the same. A coordinate is in its range, or NaN.
\<close>

definition in_range :: "rat \<Rightarrow> dbl \<Rightarrow> bool" where
  "in_range bound d = (\<not> dlt (Fin bound) d \<and> \<not> dlt d (Fin (- bound)))"

fun position_ok :: "bson \<Rightarrow> bool" where
  "position_ok (BArr [BNum lon, BNum lat]) = (in_range 180 lon \<and> in_range 90 lat)"
| "position_ok _ = False"

definition ring_ok :: "bson list \<Rightarrow> bool" where
  "ring_ok ps = (4 \<le> length ps \<and> hd ps = last ps \<and> list_all position_ok ps)"

fun shape_ok :: "string \<Rightarrow> bson \<Rightarrow> bool" where
  "shape_ok shape (BArr es) =
     (if shape = ''Point'' then position_ok (BArr es)
      else if shape = ''LineString'' then 2 \<le> length es \<and> list_all position_ok es
      else if shape = ''Polygon'' then (case es of [BArr ps] \<Rightarrow> ring_ok ps | _ \<Rightarrow> False)
      else False)"
| "shape_ok shape _ = False"

definition geojson_ok :: "doc \<Rightarrow> bool" where
  "geojson_ok d = (\<exists>shape coordinates. d = geo_doc shape coordinates \<and> shape_ok shape coordinates)"

definition coord_ok :: "dbl \<times> dbl \<Rightarrow> bool" where
  "coord_ok c = (in_range 90 (fst c) \<and> in_range 180 (snd c))"

lemma position_coord [simp]: "position_ok (position lon lat) = coord_ok (lat, lon)"
  by (auto simp: position_def coord_ok_def)

lemma geojson_ok_geo_doc [simp]: "geojson_ok (geo_doc shape coordinates) = shape_ok shape coordinates"
  by (auto simp: geojson_ok_def geo_doc_def)

lemma deq_eq: "deq a b \<Longrightarrow> a = b"
  by (cases a) auto

lemma coords_of_ok: "coords_of strtod s = Some c \<Longrightarrow> coord_ok c"
  by (auto simp: coords_of_def string2coords_def Let_def coord_ok_def in_range_def
           split: option.splits if_splits prod.splits)

lemma stringArray2coords_loop_ok: "stringArray2coords_loop strtod items = Inr cs \<Longrightarrow> list_all coord_ok cs"
proof (induction items arbitrary: cs)
  case (Cons item items)
  then show ?case
    by (cases "stringArray2coords_loop strtod items") (auto split: if_splits option.splits dest: coords_of_ok)
qed simp

lemma stringArray2coords_ok: "stringArray2coords strtod ca = Inr cs \<Longrightarrow> list_all coord_ok cs"
  by (auto simp: stringArray2coords_def split: option.splits if_splits dest: stringArray2coords_loop_ok)

lemma positions_ok: "list_all coord_ok cs \<Longrightarrow> list_all position_ok (map (\<lambda>(lat, lon). position lon lat) cs)"
  by (induction cs) auto

lemma box_doc_ok:
  assumes "list_all coord_ok cs" "box_doc cs = Inr d"
  shows "geojson_ok d"
proof -
  from assms(2) obtain c1 c2 where cs: "cs = [c1, c2]"
    by (auto simp: box_doc_def length_Suc_conv numeral_2_eq_2 split: if_splits)
  from assms(1) cs have "in_range 90 (fst c1)" "in_range 90 (fst c2)" "in_range 180 (snd c1)" "in_range 180 (snd c2)"
    by (simp_all add: coord_ok_def)
  then show ?thesis using assms(2) cs
    by (auto simp: box_doc_def ring_ok_def orderCoordsForBox_def coord_ok_def split: if_splits)
qed

lemma line_doc_ok: "list_all coord_ok cs \<Longrightarrow> line_doc cs = Inr d \<Longrightarrow> geojson_ok d"
  by (auto simp: line_doc_def positions_ok split: if_splits)

lemma polygon_doc_ok:
  assumes "list_all coord_ok cs" "polygon_doc cs = Inr d"
  shows "geojson_ok d"
proof -
  from assms have n: "4 \<le> length cs" and e: "deq (fst (cs ! 0)) (fst (cs ! (length cs - 1)))"
      "deq (snd (cs ! 0)) (snd (cs ! (length cs - 1)))"
    and d: "d = geo_doc ''Polygon'' (BArr [BArr (map (\<lambda>(lat, lon). position lon lat) cs)])"
    by (auto simp: polygon_doc_def Let_def split: if_splits)
  from n have "cs \<noteq> []" by auto
  moreover from e have "cs ! 0 = cs ! (length cs - 1)" by (simp add: deq_eq prod_eq_iff)
  ultimately have "hd cs = last cs" by (simp add: hd_conv_nth last_conv_nth)
  with n \<open>cs \<noteq> []\<close> d assms(1) show ?thesis
    by (auto simp: ring_ok_def hd_map last_map positions_ok)
qed


definition geo_demo :: ContextAttribute where
  "geo_demo = (ContextAttribute_string ''place'' ''geo:point'' '' 40 , 3 '' True)"

lemma getGeoJson_geo_demo: "getGeoJson strtod_nat geo_demo ''v2'' = Inr (geo_doc ''Point'' (position (Fin 3) (Fin 40)))"
  by (simp add: getGeoJson_def geo_demo_def ContextAttribute_string_def ContextAttribute_new_def coords_of_def
      string2coords_def c_str_def wsStrip_def isWs_def strchr_def str2double_def
      strtod_nat_def isspace_def isdigit_def num_of_def digit_val_def)


subsection \<open>At most one location at creation\<close>

definition is_location :: "string \<Rightarrow> ContextAttribute \<Rightarrow> bool" where
  "is_location apiVersion ca = (getLocation ca apiVersion \<noteq> [])"

lemma locationAtCreation_none:
  "filter (is_location v) caV = [] \<Longrightarrow> locationAtCreation_loop strtod v loc geo caV = Inr (loc, geo)"
  by (induction caV) (auto simp: is_location_def split: if_splits)

lemma locationAtCreation_second:
  "filter (is_location v) caV \<noteq> [] \<Longrightarrow> loc \<noteq> [] \<Longrightarrow>
     locationAtCreation_loop strtod v loc geo caV =
       Inl ''You cannot use more than one geo location attribute when creating an entity [see Orion user manual]''"
  by (induction caV) (auto simp: is_location_def split: if_splits)

lemma locationAtCreation_first:
  "filter (is_location v) caV = ca # rest \<Longrightarrow>
     locationAtCreation_loop strtod v [] geo caV =
       (if \<not> wgs84 (getLocation ca v) then Inl (''only WGS84 are supported, found: '' @ getLocation ca v)
        else case getGeoJson strtod ca v of
               Inl e \<Rightarrow> Inl e
             | Inr g \<Rightarrow> locationAtCreation_loop strtod v (ca_name ca) (geo @ g)
                 (tl (dropWhile (\<lambda>c. \<not> is_location v c) caV)))"
  by (induction caV) (auto simp: is_location_def Let_def split: if_splits sum.splits)

lemma filter_tl_dropWhile: "filter P xs = y # ys \<Longrightarrow> filter P (tl (dropWhile (\<lambda>x. \<not> P x) xs)) = ys"
  by (induction xs) (auto split: if_splits)

text \<open>C27: on creation the location of an entity is that of its only location attribute: an entity is refused when it
  has two, the one it has is stored as GeoJSON under its name, and an entity with none has none.\<close>

theorem creation_location:
  assumes "list_all (\<lambda>ca. ca_name ca \<noteq> []) caV"
  shows "processLocationAtEntityCreation strtod caV v = Inr (locAttr, geo) \<longleftrightarrow>
    (case filter (is_location v) caV of
       [] \<Rightarrow> locAttr = [] \<and> geo = []
     | [ca] \<Rightarrow> wgs84 (getLocation ca v) \<and> locAttr = ca_name ca \<and> getGeoJson strtod ca v = Inr geo
     | _ \<Rightarrow> False)"
proof (cases "filter (is_location v) caV")
  case Nil
  then show ?thesis by (auto simp: processLocationAtEntityCreation_def locationAtCreation_none)
next
  case (Cons ca rest)
  let ?t = "tl (dropWhile (\<lambda>c. \<not> is_location v c) caV)"
  have rest: "filter (is_location v) ?t = rest" using Cons by (rule filter_tl_dropWhile)
  have "ca \<in> set (filter (is_location v) caV)" using Cons by simp
  then have name: "ca_name ca \<noteq> []" using assms by (simp add: list_all_iff)
  show ?thesis
  proof (cases rest)
    case Nil
    with rest have "locationAtCreation_loop strtod v l g ?t = Inr (l, g)" for l g
      by (simp add: locationAtCreation_none)
    then show ?thesis using Cons Nil
      by (auto simp: processLocationAtEntityCreation_def locationAtCreation_first split: sum.splits)
  next
    case (Cons b bs)
    with rest name have "\<exists>e. locationAtCreation_loop strtod v (ca_name ca) g ?t = Inl e" for g
      by (simp add: locationAtCreation_second)
    then show ?thesis using \<open>filter (is_location v) caV = ca # rest\<close> Cons
      by (auto simp: processLocationAtEntityCreation_def locationAtCreation_first split: sum.splits)
         (metis Inl_Inr_False)
  qed
qed

theorem creation_location_witness:
  "processLocationAtEntityCreation strtod_nat [ContextAttribute_string ''t'' ''T'' ''1'' True, geo_demo] ''v2'' =
     Inr (''place'', geo_doc ''Point'' (position (Fin 3) (Fin 40)))"
proof -
  have g: "getGeoJson strtod_nat geo_demo ''v2'' = Inr (geo_doc ''Point'' (position (Fin 3) (Fin 40)))"
    using getGeoJson_geo_demo .
  show ?thesis
    by (subst creation_location)
       (use g in \<open>simp_all add: geo_demo_def ContextAttribute_string_def ContextAttribute_new_def is_location_def
          getLocation_def wgs84_def\<close>)
qed

text \<open>
  Appending a location attribute that the entity already has, with any new value, does not touch the stored
  coordinates, although the attribute is updated; and an attribute of the entity that is not its location cannot
  become it by an append when there is no location yet.
\<close>

lemma append_location_stale:
  assumes "getLocation ca v = ''WGS84''" "ca_name ca \<noteq> []"
  shows "processLocationAtAppendAttribute strtod (ca_name ca) ca False v = Inr (ca_name ca, []) \<and>
    processLocationAtAppendAttribute strtod [] ca False v = Inl (second_location (ca_name ca) [])"
  using assms by (simp add: processLocationAtAppendAttribute_def wgs84_def)

end
