(* ===== verification/Orion_Merge.thy ===== *)
theory Orion_Merge
  imports Orion_Mongo
begin

section \<open>An attribute of a request merged into the database: mongoBackend/MongoCommonUpdate.cpp\<close>

text \<open>
  The attributes of an entity are the fields of the document \<^verbatim>\<open>attrs\<close>; the functions here compute the
  document of one attribute from the one in the database and the attribute of a request, and the updates
  \<^verbatim>\<open>$set\<close>, \<^verbatim>\<open>$push\<close> and \<^verbatim>\<open>$unset\<close> of the entity. A builder that is
  passed by pointer is the list of what it holds. The time that \<^verbatim>\<open>getCurrentTime\<close> gives is the argument
  \<open>now\<close>; \<^const>\<open>None\<close> is the exception that the driver throws on an element that is not a document.
\<close>

definition isNotCustomMetadata :: "string \<Rightarrow> bool" where
  "isNotCustomMetadata md =
     (if md \<noteq> ''ID'' \<and> md \<noteq> ''location'' \<and> md \<noteq> ''creDate'' \<and> md \<noteq> ''modDate'' then False else True)"

fun hasMetadata_loop :: "string \<Rightarrow> Metadata list \<Rightarrow> bool" where
  "hasMetadata_loop name [] = False"
| "hasMetadata_loop name (md # mds) = (if md_name md = name then True else hasMetadata_loop name mds)"

definition hasMetadata :: "string \<Rightarrow> string \<Rightarrow> ContextAttribute \<Rightarrow> bool" where
  "hasMetadata name type ca = hasMetadata_loop name (ca_metadataVector ca)"

subsection \<open>Changes\<close>

definition matchMetadata :: "doc \<Rightarrow> doc \<Rightarrow> bool" where
  "matchMetadata md1 md2 = (getStringField md1 ''name'' = getStringField md2 ''name'')"

text \<open>The comparison of two fields that the two switches have in common: of the same BSON type, and equal.\<close>

fun sameField :: "bson option \<Rightarrow> bson option \<Rightarrow> bool" where
  "sameField (Some (BNum a)) (Some (BNum b)) = deq a b"
| "sameField (Some (BBool a)) (Some (BBool b)) = (a = b)"
| "sameField (Some (BStr a)) (Some (BStr b)) = (a = b)"
| "sameField (Some BNull) (Some BNull) = True"
| "sameField _ _ = False"

definition equalMetadataValues :: "doc \<Rightarrow> doc \<Rightarrow> bool" where
  "equalMetadataValues md1 md2 =
     (let md1TypeExist = hasField md1 ''type''; md2TypeExist = hasField md2 ''type''
      in if md1TypeExist \<and> \<not> md2TypeExist \<or> \<not> md1TypeExist \<and> md2TypeExist then False
         else if md1TypeExist \<and> md2TypeExist \<and> \<not> sameField (getField md1 ''type'') (getField md2 ''type'') then False
         else sameField (getField md1 ''value'') (getField md2 ''value''))"

text \<open>The inner loop of \<^verbatim>\<open>equalMetadataVectors\<close> stops at the first match; a metadata without a match is no difference.\<close>

fun equalMetadata_inner :: "doc \<Rightarrow> doc list \<Rightarrow> bool" where
  "equalMetadata_inner md1 [] = True"
| "equalMetadata_inner md1 (md2 # mds) =
     (if matchMetadata md1 md2 then equalMetadataValues md1 md2 else equalMetadata_inner md1 mds)"

fun equalMetadataVectors :: "doc list \<Rightarrow> doc list \<Rightarrow> bool" where
  "equalMetadataVectors [] mdV2 = True"
| "equalMetadataVectors (md1 # mdV1) mdV2 =
     (if \<not> equalMetadata_inner md1 mdV2 then False else equalMetadataVectors mdV1 mdV2)"

definition attributeValueAbsent :: "ContextAttribute \<Rightarrow> string \<Rightarrow> bool" where
  "attributeValueAbsent ca apiVersion = (ca_valueType ca = ValueTypeNone \<and> apiVersion = ''v1'')"

definition attributeTypeAbsent :: "ContextAttribute \<Rightarrow> bool" where
  "attributeTypeAbsent ca = (ca_type ca = [])"

definition attrValueChanges :: "doc \<Rightarrow> ContextAttribute \<Rightarrow> string \<Rightarrow> bool" where
  "attrValueChanges attr ca apiVersion =
     (if \<not> hasField attr ''value'' then ca_valueType ca \<noteq> ValueTypeString \<or> ca_stringValue ca \<noteq> []
      else if ca_valueType ca = ValueTypeNone \<and> apiVersion \<noteq> ''v2'' then False
      else case getField attr ''value'' of
             Some (BObj d) \<Rightarrow> True
           | Some (BArr es) \<Rightarrow> True
           | Some (BNum d) \<Rightarrow> ca_valueType ca \<noteq> ValueTypeNumber \<or> \<not> deq (ca_numberValue ca) d
           | Some (BBool b) \<Rightarrow> ca_valueType ca \<noteq> ValueTypeBoolean \<or> ca_boolValue ca \<noteq> b
           | Some (BStr s) \<Rightarrow> ca_valueType ca \<noteq> ValueTypeString \<or> ca_stringValue ca \<noteq> s
           | Some BNull \<Rightarrow> ca_valueType ca \<noteq> ValueTypeNone
           | _ \<Rightarrow> False)"

subsection \<open>The merged document\<close>

definition appendMetadata :: "Metadata \<Rightarrow> bool \<Rightarrow> doc list" where
  "appendMetadata md useDefaultType =
     (let type = if \<not> md_typeGiven md \<and> useDefaultType then DEFAULT_TYPE else md_type md;
          entry = (\<lambda>v. [[(''name'', BStr (md_name md))] @ (if type \<noteq> [] then [(''type'', BStr type)] else []) @ [(''value'', v)]])
      in case md_valueType md of
           ValueTypeString \<Rightarrow> entry (BStr (md_stringValue md))
         | ValueTypeNumber \<Rightarrow> entry (BNum (md_numberValue md))
         | ValueTypeBoolean \<Rightarrow> entry (BBool (md_boolValue md))
         | ValueTypeNone \<Rightarrow> entry BNull
         | _ \<Rightarrow> [])"

text \<open>The custom metadata of the request, then those of the database that the request does not have.\<close>

fun request_metadata :: "Metadata list \<Rightarrow> bool \<Rightarrow> doc list" where
  "request_metadata [] useDefaultType = []"
| "request_metadata (md # mds) useDefaultType =
     (if isNotCustomMetadata (md_name md) then request_metadata mds useDefaultType
      else appendMetadata md useDefaultType @ request_metadata mds useDefaultType)"

fun kept_metadata :: "ContextAttribute \<Rightarrow> doc list \<Rightarrow> bool \<Rightarrow> doc list" where
  "kept_metadata ca [] useDefaultType = []"
| "kept_metadata ca (d # ds) useDefaultType =
     (let md = Metadata_bson d
      in (if \<not> hasMetadata (md_name md) (md_type md) ca then appendMetadata md useDefaultType else [])
         @ kept_metadata ca ds useDefaultType)"

text \<open>The value that is copied when the request has none; a field of another type is not copied.\<close>

definition copied_value :: "doc \<Rightarrow> doc" where
  "copied_value attr =
     (case getField attr ''value'' of
        Some (BObj d) \<Rightarrow> [(''value'', BObj d)]
      | Some (BArr es) \<Rightarrow> [(''value'', BArr es)]
      | Some (BNum d) \<Rightarrow> [(''value'', BNum d)]
      | Some (BBool b) \<Rightarrow> [(''value'', BBool b)]
      | Some (BStr s) \<Rightarrow> [(''value'', BStr s)]
      | Some BNull \<Rightarrow> [(''value'', BNull)]
      | _ \<Rightarrow> [])"

definition stored_metadata :: "doc \<Rightarrow> doc list option" where
  "stored_metadata attr =
     (if hasField attr ''md'' then Option.bind (embeddedObject (getField attr ''md'')) embeddedObjects else Some [])"

definition mergeAttrInfo :: "int \<Rightarrow> doc \<Rightarrow> ContextAttribute \<Rightarrow> string \<Rightarrow> (bool \<times> doc) option" where
  "mergeAttrInfo now attr ca apiVersion =
     Option.bind (stored_metadata attr) (\<lambda>mdV.
       let value = if \<not> attributeValueAbsent ca apiVersion then valueBson ca else copied_value attr;
           type = (if ca_type ca \<noteq> [] then [(''type'', BStr (ca_type ca))]
                   else if hasField attr ''type'' then [(''type'', BStr (getStringField attr ''type''))]
                   else []);
           mdNewV = request_metadata (ca_metadataVector ca) (apiVersion = ''v2'') @ kept_metadata ca mdV (apiVersion = ''v2'');
           md = (if 0 < length mdNewV then [(''md'', BArr (map BObj mdNewV))] else []);
           cre = (if hasField attr ''creDate'' then [(''creDate'', BInt (getIntField attr ''creDate''))] else []);
           actualUpdate =
             (if ca_compoundValueP ca = None
              then attrValueChanges attr ca apiVersion
                   \<or> (ca_type ca \<noteq> [] \<and> (\<not> hasField attr ''type'' \<or> getStringField attr ''type'' \<noteq> ca_type ca))
                   \<or> length mdNewV \<noteq> length mdV \<or> \<not> equalMetadataVectors mdV mdNewV
              else True);
           modified = (if actualUpdate then [(''modDate'', BInt now)]
                       else if hasField attr ''modDate'' then [(''modDate'', BInt (getIntField attr ''modDate''))]
                       else [])
       in Some (actualUpdate, value @ type @ md @ cre @ modified))"

definition contextAttributeCustomMetadataToBson :: "ContextAttribute \<Rightarrow> bool \<Rightarrow> doc list option" where
  "contextAttributeCustomMetadataToBson ca useDefaultType =
     (let mdToAdd = request_metadata (ca_metadataVector ca) useDefaultType
      in if 0 < length mdToAdd then Some mdToAdd else None)"

subsection \<open>The documents of metadata\<close>

definition md_doc :: "string \<Rightarrow> string \<Rightarrow> bson \<Rightarrow> doc" where
  "md_doc name type v = [(''name'', BStr name)] @ (if type \<noteq> [] then [(''type'', BStr type)] else []) @ [(''value'', v)]"

definition md_scalar :: "Metadata \<Rightarrow> bson option" where
  "md_scalar md =
     (case md_valueType md of
        ValueTypeString \<Rightarrow> Some (BStr (md_stringValue md))
      | ValueTypeNumber \<Rightarrow> Some (BNum (md_numberValue md))
      | ValueTypeBoolean \<Rightarrow> Some (BBool (md_boolValue md))
      | ValueTypeNone \<Rightarrow> Some BNull
      | _ \<Rightarrow> None)"

fun scalar :: "bson \<Rightarrow> bool" where
  "scalar (BStr _) = True"
| "scalar (BNum d) = (d \<noteq> NaN)"
| "scalar (BBool _) = True"
| "scalar BNull = True"
| "scalar _ = False"

abbreviation mdkey :: "doc \<Rightarrow> string" where
  "mdkey d \<equiv> getStringField d ''name''"

definition md_normal :: "bool \<Rightarrow> doc \<Rightarrow> bool" where
  "md_normal useDefaultType d =
     (\<exists>name type v. d = md_doc name type v \<and> scalar v \<and> (useDefaultType \<longrightarrow> type \<noteq> []))"

definition md_ok :: "Metadata \<Rightarrow> bool" where
  "md_ok md = (\<exists>v. md_scalar md = Some v \<and> scalar v)"

lemma appendMetadata_alt:
  "appendMetadata md useDefaultType =
     (case md_scalar md of
        None \<Rightarrow> []
      | Some v \<Rightarrow> [md_doc (md_name md) (if \<not> md_typeGiven md \<and> useDefaultType then DEFAULT_TYPE else md_type md) v])"
  by (simp add: appendMetadata_def md_scalar_def md_doc_def Let_def split: ValueType.split)

lemma mdkey_md_doc [simp]: "mdkey (md_doc name type v) = name"
  by (simp add: md_doc_def getStringField_getField)

lemma md_name_bson [simp]: "md_name (Metadata_bson d) = mdkey d"
  by (simp add: Metadata_bson_def Metadata_new_def Let_def split: option.split bson.split)

lemma md_type_string: "md_type (Metadata_bson d) = (if hasField d ''type'' then getStringField d ''type'' else [])"
  by (cases "getField d ''value''") (auto simp: Metadata_bson_def Metadata_new_def Let_def split: bson.split)

lemma md_type_bson:
  "md_type (Metadata_bson d) = (case getField d ''type'' of Some (BStr s) \<Rightarrow> s | _ \<Rightarrow> [])"
  "md_typeGiven (Metadata_bson d) = (md_type (Metadata_bson d) \<noteq> [])"
proof -
  show "md_type (Metadata_bson d) = (case getField d ''type'' of Some (BStr s) \<Rightarrow> s | _ \<Rightarrow> [])"
    unfolding md_type_string field_simps_doc by simp
  show "md_typeGiven (Metadata_bson d) = (md_type (Metadata_bson d) \<noteq> [])"
    by (cases "getField d ''value''") (auto simp: Metadata_bson_def Metadata_new_def Let_def split: bson.split)
qed

lemma md_scalar_bson:
  "md_scalar (Metadata_bson d) =
     (case getField d ''value'' of
        Some (BStr s) \<Rightarrow> Some (BStr s) | Some (BNum n) \<Rightarrow> Some (BNum n) | Some (BBool b) \<Rightarrow> Some (BBool b)
      | Some BNull \<Rightarrow> Some BNull | _ \<Rightarrow> None)"
  by (simp add: Metadata_bson_def md_scalar_def Let_def field_simps_doc split: option.split bson.split)

lemma md_doc_fields [simp]:
  "getField (md_doc name type v) ''value'' = Some v"
  "getField (md_doc name type v) ''type'' = (if type \<noteq> [] then Some (BStr type) else None)"
  "hasField (md_doc name type v) ''type'' = (type \<noteq> [])"
  by (simp_all add: md_doc_def)

text \<open>A metadata that was read from the database and written again is in the form in which it stays.\<close>

lemma append_read_normal:
  assumes "md_normal useDefaultType d"
  shows "appendMetadata (Metadata_bson d) useDefaultType = [d]"
proof -
  obtain name type v where d: "d = md_doc name type v" "scalar v" "useDefaultType \<longrightarrow> type \<noteq> []"
    using assms by (auto simp: md_normal_def)
  have "md_scalar (Metadata_bson d) = Some v" using d by (cases v) (simp_all add: md_scalar_bson)
  moreover have "md_type (Metadata_bson d) = type" using d(1) by (simp add: md_type_bson(1))
  ultimately show ?thesis using d(1,3) by (cases "type = []") (simp_all add: appendMetadata_alt md_type_bson(2))
qed

lemma md_normal_doc [simp]: "scalar v \<Longrightarrow> (u \<Longrightarrow> type \<noteq> []) \<Longrightarrow> md_normal u (md_doc name type v)"
  by (auto simp: md_normal_def)

lemma append_normal:
  assumes "appendMetadata md useDefaultType = [d]" "md_ok md" "useDefaultType \<and> md_typeGiven md \<longrightarrow> md_type md \<noteq> []"
  shows "md_normal useDefaultType d \<and> mdkey d = md_name md"
  using assms by (auto simp: appendMetadata_alt md_normal_def md_ok_def split: if_splits)

lemma md_ok_append: "md_ok md \<Longrightarrow> \<exists>d. appendMetadata md useDefaultType = [d]"
  by (auto simp: md_ok_def appendMetadata_alt)

lemma deq_imp_eq: "deq a b \<Longrightarrow> a = b"
  by (cases a) auto

lemma deq_refl: "d \<noteq> NaN \<Longrightarrow> deq d d"
  by (cases d) simp_all

lemma equalMetadataValues_refl: "md_normal useDefaultType d \<Longrightarrow> equalMetadataValues d d"
proof -
  assume "md_normal useDefaultType d"
  then obtain name type v where d: "d = md_doc name type v" "scalar v" by (auto simp: md_normal_def)
  have "sameField (Some v) (Some v)" using d(2) by (cases v rule: scalar.cases) (auto simp: deq_refl)
  with d(1) show ?thesis by (simp add: equalMetadataValues_def)
qed

lemma hasMetadata_iff [simp]: "hasMetadata name type ca \<longleftrightarrow> name \<in> md_name ` set (ca_metadataVector ca)"
proof -
  have "hasMetadata_loop name mds \<longleftrightarrow> name \<in> md_name ` set mds" for mds by (induction mds) auto
  then show ?thesis by (simp add: hasMetadata_def)
qed

abbreviation custom :: "Metadata \<Rightarrow> bool" where
  "custom md \<equiv> \<not> isNotCustomMetadata (md_name md)"

definition req_md_ok :: "bool \<Rightarrow> Metadata \<Rightarrow> bool" where
  "req_md_ok useDefaultType md = (md_ok md \<and> (useDefaultType \<and> md_typeGiven md \<longrightarrow> md_type md \<noteq> []))"

definition db_md_ok :: "doc \<Rightarrow> bool" where
  "db_md_ok d = (getField d ''value'' \<noteq> Some (BNum NaN))"

lemma request_metadata_docs:
  "list_all (req_md_ok useDefaultType) mds \<Longrightarrow>
     list_all (md_normal useDefaultType) (request_metadata mds useDefaultType)
     \<and> map mdkey (request_metadata mds useDefaultType) = map md_name (filter custom mds)"
proof (induction mds)
  case (Cons md mds)
  then obtain d where "appendMetadata md useDefaultType = [d]" by (auto simp: req_md_ok_def dest: md_ok_append)
  moreover from this have "md_normal useDefaultType d \<and> mdkey d = md_name md"
    using Cons.prems append_normal [of md useDefaultType d] by (simp add: req_md_ok_def)
  ultimately show ?case using Cons by simp
qed simp

lemma kept_metadata_normal:
  "list_all (md_normal useDefaultType) ds \<Longrightarrow>
     kept_metadata ca ds useDefaultType = filter (\<lambda>d. mdkey d \<notin> md_name ` set (ca_metadataVector ca)) ds"
  by (induction ds) (auto simp: append_read_normal)

lemma append_read_db:
  assumes "db_md_ok d"
  shows "appendMetadata (Metadata_bson d) useDefaultType = []
    \<or> (\<exists>d'. appendMetadata (Metadata_bson d) useDefaultType = [d'] \<and> md_normal useDefaultType d' \<and> mdkey d' = mdkey d)"
proof (cases "md_scalar (Metadata_bson d)")
  case (Some v)
  have "scalar v" using Some assms
    by (auto simp: md_scalar_bson db_md_ok_def split: option.splits bson.splits)
  with Some have ok: "md_ok (Metadata_bson d)" by (simp add: md_ok_def)
  then obtain d' where d': "appendMetadata (Metadata_bson d) useDefaultType = [d']" by (auto dest: md_ok_append)
  have "useDefaultType \<and> md_typeGiven (Metadata_bson d) \<longrightarrow> md_type (Metadata_bson d) \<noteq> []" by (simp add: md_type_bson(2))
  from append_normal [OF d' ok this] d' show ?thesis by simp
qed (simp add: appendMetadata_alt)

lemma kept_metadata_docs:
  "list_all db_md_ok ds \<Longrightarrow>
     list_all (md_normal useDefaultType) (kept_metadata ca ds useDefaultType)
     \<and> set (map mdkey (kept_metadata ca ds useDefaultType)) \<subseteq> set (map mdkey ds) - md_name ` set (ca_metadataVector ca)
     \<and> (distinct (map mdkey ds) \<longrightarrow> distinct (map mdkey (kept_metadata ca ds useDefaultType)))"
proof (induction ds)
  case (Cons d ds)
  from Cons.prems append_read_db [of d useDefaultType]
  consider "appendMetadata (Metadata_bson d) useDefaultType = []"
    | d' where "appendMetadata (Metadata_bson d) useDefaultType = [d']" "md_normal useDefaultType d'" "mdkey d' = mdkey d"
    by auto
  then show ?case using Cons by cases auto
qed simp

lemma equalMetadata_inner_find:
  "equalMetadata_inner d ds = (case find (matchMetadata d) ds of None \<Rightarrow> True | Some e \<Rightarrow> equalMetadataValues d e)"
  by (induction ds) simp_all

lemma equalMetadataVectors_all: "equalMetadataVectors ds es = list_all (\<lambda>d. equalMetadata_inner d es) ds"
  by (induction ds) simp_all

lemma find_distinct_key: "distinct (map f xs) \<Longrightarrow> x \<in> set xs \<Longrightarrow> find (\<lambda>y. f x = f y) xs = Some x"
  by (induction xs) (auto simp: image_iff)

lemma equalMetadataVectors_refl:
  assumes "distinct (map mdkey ds)" "list_all (md_normal useDefaultType) ds"
  shows "equalMetadataVectors ds ds"
proof -
  have "find (matchMetadata d) ds = Some d" if "d \<in> set ds" for d
    using find_distinct_key [OF assms(1) that] by (simp add: matchMetadata_def [abs_def])
  then show ?thesis using assms(2)
    by (auto simp: equalMetadataVectors_all equalMetadata_inner_find list_all_iff intro: equalMetadataValues_refl)
qed

subsection \<open>Repeating an update\<close>

text \<open>
  What a request and a stored attribute have to be: a value that is not compound, no NaN, the names of metadata not
  repeated (in the request or in the database), and, when version 1 leaves the value out, a value to keep.
\<close>

definition req_ok :: "string \<Rightarrow> ContextAttribute \<Rightarrow> bool" where
  "req_ok apiVersion ca =
     (ca_compoundValueP ca = None
      \<and> (ca_valueType ca = ValueTypeString \<or> ca_valueType ca = ValueTypeBoolean \<or> ca_valueType ca = ValueTypeNone
         \<or> ca_valueType ca = ValueTypeNumber \<and> ca_numberValue ca \<noteq> NaN)
      \<and> list_all (req_md_ok (apiVersion = ''v2'')) (ca_metadataVector ca)
      \<and> distinct (map md_name (filter custom (ca_metadataVector ca))))"

definition attr_doc_ok :: "string \<Rightarrow> ContextAttribute \<Rightarrow> doc \<Rightarrow> bool" where
  "attr_doc_ok apiVersion ca attr =
     ((attributeValueAbsent ca apiVersion \<longrightarrow> copied_value attr \<noteq> [])
      \<and> (case stored_metadata attr of None \<Rightarrow> False
         | Some ds \<Rightarrow> list_all db_md_ok ds \<and> distinct (map mdkey ds)))"

lemma bsonAppendAttrValue_scalar:
  assumes "req_ok apiVersion ca"
  shows "\<exists>v. valueBson ca = [(''value'', v)]"
  using assms by (auto simp: req_ok_def valueBson_def bsonAppendAttrValue_def)

text \<open>The field \<^verbatim>\<open>value\<close> of the merged document is no change for the same request.\<close>

lemma same_value_no_change:
  assumes "req_ok apiVersion ca" "valueBson ca = [(''value'', v)]" "getField m ''value'' = Some v"
  shows "\<not> attrValueChanges m ca apiVersion"
  using assms by (auto simp: req_ok_def valueBson_def bsonAppendAttrValue_def attrValueChanges_def hasField_getField deq_refl)

lemma absent_value_no_change:
  assumes "attributeValueAbsent ca apiVersion" "getField m ''value'' \<noteq> None"
  shows "\<not> attrValueChanges m ca apiVersion"
  using assms by (simp add: attributeValueAbsent_def attrValueChanges_def hasField_getField)

lemma copied_value_cases:
  "copied_value attr = [] \<or> (\<exists>v. copied_value attr = [(''value'', v)] \<and> getField attr ''value'' = Some v
     \<and> (\<forall>d. getField d ''value'' = Some v \<longrightarrow> copied_value d = [(''value'', v)]))"
  by (auto simp: copied_value_def split: option.splits bson.splits)

definition opt_field :: "string \<Rightarrow> bson option \<Rightarrow> doc" where
  "opt_field k v = (case v of None \<Rightarrow> [] | Some b \<Rightarrow> [(k, b)])"

text \<open>A document of an attribute, by its five fields.\<close>

definition attr_doc :: "bson option \<Rightarrow> bson option \<Rightarrow> doc list \<Rightarrow> bson option \<Rightarrow> bson option \<Rightarrow> doc" where
  "attr_doc value type mds cre dmod =
     opt_field ''value'' value @ opt_field ''type'' type
     @ opt_field ''md'' (if mds = [] then None else Some (BArr (map BObj mds)))
     @ opt_field ''creDate'' cre @ opt_field ''modDate'' dmod"

lemma getField_opt_field [simp]: "getField (opt_field k v) k' = (if k = k' then v else None)"
  by (simp add: opt_field_def split: option.split)

lemma attr_doc_fields [simp]:
  "getField (attr_doc value type mds cre dmod) ''value'' = value"
  "getField (attr_doc value type mds cre dmod) ''type'' = type"
  "getField (attr_doc value type mds cre dmod) ''md'' = (if mds = [] then None else Some (BArr (map BObj mds)))"
  "getField (attr_doc value type mds cre dmod) ''creDate'' = cre"
  "getField (attr_doc value type mds cre dmod) ''modDate'' = dmod"
  by (simp_all add: attr_doc_def split: option.split)

lemma attr_doc_metadata [simp]: "stored_metadata (attr_doc value type mds cre dmod) = Some mds"
  using embeddedObjects_array [of 0 mds] by (simp add: stored_metadata_def hasField_getField)

definition merged_value :: "doc \<Rightarrow> ContextAttribute \<Rightarrow> string \<Rightarrow> bson option" where
  "merged_value attr ca apiVersion =
     getField (if \<not> attributeValueAbsent ca apiVersion then valueBson ca else copied_value attr) ''value''"

definition merged_type :: "doc \<Rightarrow> ContextAttribute \<Rightarrow> bson option" where
  "merged_type attr ca =
     (if ca_type ca \<noteq> [] then Some (BStr (ca_type ca))
      else if hasField attr ''type'' then Some (BStr (getStringField attr ''type'')) else None)"

definition merged_metadata :: "doc list \<Rightarrow> ContextAttribute \<Rightarrow> string \<Rightarrow> doc list" where
  "merged_metadata ds ca apiVersion =
     request_metadata (ca_metadataVector ca) (apiVersion = ''v2'') @ kept_metadata ca ds (apiVersion = ''v2'')"

definition int_field :: "doc \<Rightarrow> string \<Rightarrow> bson option" where
  "int_field attr k = (if hasField attr k then Some (BInt (getIntField attr k)) else None)"

definition actual_update :: "doc \<Rightarrow> doc list \<Rightarrow> ContextAttribute \<Rightarrow> string \<Rightarrow> bool" where
  "actual_update attr ds ca apiVersion =
     (ca_compoundValueP ca \<noteq> None
      \<or> attrValueChanges attr ca apiVersion
      \<or> (ca_type ca \<noteq> [] \<and> (\<not> hasField attr ''type'' \<or> getStringField attr ''type'' \<noteq> ca_type ca))
      \<or> length (merged_metadata ds ca apiVersion) \<noteq> length ds
      \<or> \<not> equalMetadataVectors ds (merged_metadata ds ca apiVersion))"

lemma valueBson_field: "valueBson ca = opt_field ''value'' (getField (valueBson ca) ''value'')"
  by (auto simp: valueBson_def bsonAppendAttrValue_def opt_field_def split: option.splits ValueType.splits)

lemma copied_value_field: "copied_value attr = opt_field ''value'' (getField (copied_value attr) ''value'')"
  by (auto simp: copied_value_def opt_field_def split: option.splits bson.splits)

lemma mergeAttrInfo_doc:
  "mergeAttrInfo now attr ca apiVersion =
     map_option (\<lambda>ds.
       (actual_update attr ds ca apiVersion,
        attr_doc (merged_value attr ca apiVersion) (merged_type attr ca) (merged_metadata ds ca apiVersion)
          (int_field attr ''creDate'')
          (if actual_update attr ds ca apiVersion then Some (BInt now) else int_field attr ''modDate'')))
       (stored_metadata attr)"
proof (cases "stored_metadata attr")
  case (Some ds)
  have v: "(if \<not> attributeValueAbsent ca apiVersion then valueBson ca else copied_value attr)
      = opt_field ''value'' (merged_value attr ca apiVersion)"
    using valueBson_field [of ca] copied_value_field [of attr] by (simp add: merged_value_def)
  show ?thesis
    unfolding mergeAttrInfo_def Some attr_doc_def v
    by (simp add: Let_def v merged_type_def merged_metadata_def actual_update_def int_field_def opt_field_def)
qed (simp add: mergeAttrInfo_def)

lemma merged_metadata_docs:
  assumes "req_ok apiVersion ca" "list_all db_md_ok ds" "distinct (map mdkey ds)"
  shows "list_all (md_normal (apiVersion = ''v2'')) (merged_metadata ds ca apiVersion)
    \<and> distinct (map mdkey (merged_metadata ds ca apiVersion))"
proof -
  let ?u = "apiVersion = ''v2''"
  from assms(1) have r: "list_all (md_normal ?u) (request_metadata (ca_metadataVector ca) ?u)"
      "map mdkey (request_metadata (ca_metadataVector ca) ?u) = map md_name (filter custom (ca_metadataVector ca))"
    using request_metadata_docs [of ?u "ca_metadataVector ca"] by (simp_all add: req_ok_def)
  from assms(2) have k: "list_all (md_normal ?u) (kept_metadata ca ds ?u)"
      "set (map mdkey (kept_metadata ca ds ?u)) \<inter> md_name ` set (ca_metadataVector ca) = {}"
      "distinct (map mdkey (kept_metadata ca ds ?u))"
    using kept_metadata_docs [of ds ?u ca] assms(3) by auto
  have "set (map mdkey (request_metadata (ca_metadataVector ca) ?u)) \<inter> set (map mdkey (kept_metadata ca ds ?u)) = {}"
    unfolding r(2) using k(2) by auto
  moreover have "distinct (map mdkey (request_metadata (ca_metadataVector ca) ?u))"
    unfolding r(2) using assms(1) by (simp add: req_ok_def)
  ultimately show ?thesis using r(1) k(1,3) by (simp add: merged_metadata_def)
qed

lemma merged_metadata_again:
  assumes "req_ok apiVersion ca" "list_all db_md_ok ds" "distinct (map mdkey ds)"
  shows "merged_metadata (merged_metadata ds ca apiVersion) ca apiVersion = merged_metadata ds ca apiVersion"
proof -
  let ?u = "apiVersion = ''v2''" and ?r = "request_metadata (ca_metadataVector ca) (apiVersion = ''v2'')"
  have "map mdkey ?r = map md_name (filter custom (ca_metadataVector ca))"
    using assms(1) request_metadata_docs [of ?u "ca_metadataVector ca"] by (simp add: req_ok_def)
  then have "mdkey ` set ?r \<subseteq> md_name ` set (ca_metadataVector ca)"
    by (metis (no_types, lifting) filter_is_subset image_mono set_map)
  then have "filter (\<lambda>d. mdkey d \<notin> md_name ` set (ca_metadataVector ca)) ?r = []"
    by (auto simp: filter_empty_conv)
  moreover have "filter (\<lambda>d. mdkey d \<notin> md_name ` set (ca_metadataVector ca)) (kept_metadata ca ds ?u) = kept_metadata ca ds ?u"
    using kept_metadata_docs [of ds ?u ca] assms(2) by (auto simp: filter_id_conv)
  ultimately show ?thesis
    using kept_metadata_normal [of ?u "merged_metadata ds ca apiVersion" ca] merged_metadata_docs [OF assms]
    by (simp add: merged_metadata_def)
qed


definition request_demo :: ContextAttribute where
  "request_demo = (ContextAttribute_number ''temperature'' ''Number'' (Fin 21) True)
     \<lparr>ca_metadataVector := [Metadata_string ''accuracy'' ''Text'' ''high'']\<rparr>"

definition attr_doc_demo :: doc where
  "attr_doc_demo = attr_doc (Some (BNum (Fin 20))) (Some (BStr ''Number''))
     [md_doc ''accuracy'' ''Text'' (BStr ''low''), md_doc ''unit'' ''Text'' (BStr ''C'')] (Some (BInt 100)) (Some (BInt 100))"

definition merged_demo :: doc where
  "merged_demo = attr_doc (Some (BNum (Fin 21))) (Some (BStr ''Number''))
     [md_doc ''accuracy'' ''none'' (BStr ''high''), md_doc ''unit'' ''Text'' (BStr ''C'')] (Some (BInt 100)) (Some (BInt 200))"

lemma request_demo_ok: "req_ok ''v2'' request_demo"
  by (simp add: request_demo_def req_ok_def req_md_ok_def md_ok_def md_scalar_def ContextAttribute_number_def
      ContextAttribute_new_def Metadata_string_def Metadata_new_def)

lemma attr_doc_demo_ok: "attr_doc_ok ''v2'' request_demo attr_doc_demo"
  by (simp add: attr_doc_ok_def attr_doc_demo_def attributeValueAbsent_def db_md_ok_def)

lemma merge_demo: "mergeAttrInfo 200 attr_doc_demo request_demo ''v2'' = Some (True, merged_demo)"
proof -
  have md: "merged_metadata [md_doc ''accuracy'' ''Text'' (BStr ''low''), md_doc ''unit'' ''Text'' (BStr ''C'')] request_demo ''v2''
      = [md_doc ''accuracy'' ''none'' (BStr ''high''), md_doc ''unit'' ''Text'' (BStr ''C'')]"
    by (simp add: merged_metadata_def request_demo_def ContextAttribute_number_def ContextAttribute_new_def
        Metadata_string_def Metadata_new_def isNotCustomMetadata_def appendMetadata_alt md_scalar_def kept_metadata_normal
        del: kept_metadata.simps)
  have up: "actual_update attr_doc_demo [md_doc ''accuracy'' ''Text'' (BStr ''low''), md_doc ''unit'' ''Text'' (BStr ''C'')] request_demo ''v2''"
    by (simp add: actual_update_def attrValueChanges_def attr_doc_demo_def request_demo_def ContextAttribute_number_def
        ContextAttribute_new_def hasField_getField)
  have v: "merged_value attr_doc_demo request_demo ''v2'' = Some (BNum (Fin 21))" "merged_type attr_doc_demo request_demo = Some (BStr ''Number'')"
    by (simp_all add: merged_value_def merged_type_def attributeValueAbsent_def valueBson_def bsonAppendAttrValue_def
        request_demo_def ContextAttribute_number_def ContextAttribute_new_def)
  have d: "stored_metadata attr_doc_demo = Some [md_doc ''accuracy'' ''Text'' (BStr ''low''), md_doc ''unit'' ''Text'' (BStr ''C'')]"
      "int_field attr_doc_demo ''creDate'' = Some (BInt 100)"
    by (simp_all add: attr_doc_demo_def int_field_def field_simps_doc)
  show ?thesis by (simp add: mergeAttrInfo_doc d up md v merged_demo_def)
qed

lemma merge_repeat_demo: "mergeAttrInfo 300 merged_demo request_demo ''v2'' = Some (False, merged_demo)"
proof -
  let ?ds = "[md_doc ''accuracy'' ''none'' (BStr ''high''), md_doc ''unit'' ''Text'' (BStr ''C'')]"
  have md: "merged_metadata ?ds request_demo ''v2'' = ?ds"
    by (simp add: merged_metadata_def request_demo_def ContextAttribute_number_def ContextAttribute_new_def
        Metadata_string_def Metadata_new_def isNotCustomMetadata_def appendMetadata_alt md_scalar_def kept_metadata_normal
        del: kept_metadata.simps)
  have "equalMetadataVectors ?ds ?ds" by (rule equalMetadataVectors_refl [of _ True]) simp_all
  then have no: "\<not> actual_update merged_demo ?ds request_demo ''v2''"
    using md by (simp add: actual_update_def attrValueChanges_def merged_demo_def request_demo_def ContextAttribute_number_def
        ContextAttribute_new_def field_simps_doc)
  have v: "merged_value merged_demo request_demo ''v2'' = Some (BNum (Fin 21))" "merged_type merged_demo request_demo = Some (BStr ''Number'')"
    by (simp_all add: merged_value_def merged_type_def attributeValueAbsent_def valueBson_def bsonAppendAttrValue_def
        request_demo_def ContextAttribute_number_def ContextAttribute_new_def)
  have d: "stored_metadata merged_demo = Some ?ds" "int_field merged_demo ''creDate'' = Some (BInt 100)"
      "int_field merged_demo ''modDate'' = Some (BInt 200)"
    by (simp_all add: merged_demo_def int_field_def field_simps_doc)
  show ?thesis unfolding mergeAttrInfo_doc d(1) using no md v d by (simp add: merged_demo_def [symmetric])
qed


subsection \<open>An update that is not carried out\<close>

text \<open>
  What the broker has stored itself: the value is not an integer or an object identifier of the database, the type is a string, every metadata
  has a name, an optional type and a scalar value, and no name is reserved or repeated.
\<close>

definition stored_ok :: "doc \<Rightarrow> doc list \<Rightarrow> bool" where
  "stored_ok attr ds =
     ((case getField attr ''value'' of Some (BInt i) \<Rightarrow> False | Some (BLong i) \<Rightarrow> False | Some (BOid s) \<Rightarrow> False | _ \<Rightarrow> True)
      \<and> (case getField attr ''type'' of None \<Rightarrow> True | Some (BStr s) \<Rightarrow> True | _ \<Rightarrow> False)
      \<and> list_all (md_normal False) ds \<and> distinct (map mdkey ds)
      \<and> list_all (\<lambda>d. \<not> isNotCustomMetadata (mdkey d)) ds)"

lemma kept_length:
  "list_all (md_normal False) ds \<Longrightarrow>
     length (kept_metadata ca ds u) = length (filter (\<lambda>d. mdkey d \<notin> md_name ` set (ca_metadataVector ca)) ds)"
proof (induction ds)
  case (Cons d ds)
  obtain name type v where d: "d = md_doc name type v" "scalar v" using Cons.prems by (auto simp: md_normal_def)
  have "md_scalar (Metadata_bson d) = Some v" using d by (cases v) (simp_all add: md_scalar_bson)
  then show ?case using Cons by (simp add: appendMetadata_alt)
qed simp

lemma equal_normal:
  assumes "md_normal False d" "md_normal u e" "mdkey d = mdkey e" "equalMetadataValues d e"
  shows "d = e"
proof -
  obtain n t v where d: "d = md_doc n t v" using assms(1) by (auto simp: md_normal_def)
  obtain n' t' v' where e: "e = md_doc n' t' v'" using assms(2) by (auto simp: md_normal_def)
  have "sameField (Some v) (Some v')" "t = t'" using assms(4) d e
    by (auto simp: equalMetadataValues_def Let_def split: if_splits)
  moreover from this have "v = v'"
    by (cases "(Some v, Some v')" rule: sameField.cases) (auto dest: deq_imp_eq)
  ultimately show ?thesis using d e assms(3) by simp
qed

text \<open>When the numbers of metadata agree, the request has no metadata that the database does not have.\<close>

lemma merged_keys:
  assumes "req_ok apiVersion ca" "stored_ok attr ds" "length (merged_metadata ds ca apiVersion) = length ds"
  shows "mdkey ` set (merged_metadata ds ca apiVersion) = mdkey ` set ds"
proof -
  let ?u = "apiVersion = ''v2''" and ?n = "md_name ` set (ca_metadataVector ca)"
  let ?r = "request_metadata (ca_metadataVector ca) ?u" and ?D = "filter (\<lambda>d. mdkey d \<in> ?n) ds"
  have r: "map mdkey ?r = map md_name (filter custom (ca_metadataVector ca))"
    using assms(1) request_metadata_docs [of ?u "ca_metadataVector ca"] by (simp add: req_ok_def)
  have k: "length (kept_metadata ca ds ?u) = length (filter (\<lambda>d. mdkey d \<notin> ?n) ds)"
    using assms(2) by (simp add: kept_length stored_ok_def)
  have "length ?r = length ?D"
    using assms(3) k sum_length_filter_compl [of "\<lambda>d. mdkey d \<in> ?n" ds] by (simp add: merged_metadata_def)
  moreover have dr: "distinct (map mdkey ?r)" unfolding r using assms(1) by (simp add: req_ok_def)
  moreover have dD: "distinct (map mdkey ?D)" using assms(2) by (simp add: stored_ok_def distinct_map_filter)
  ultimately have card: "card (set (map mdkey ?r)) = card (set (map mdkey ?D))"
    by (simp only: distinct_card length_map)
  have sub: "set (map mdkey ?D) \<subseteq> set (map mdkey ?r)"
    unfolding r using assms(2) by (auto simp: stored_ok_def list_all_iff)
  have same: "set (map mdkey ?D) = set (map mdkey ?r)"
    using card_subset_eq [OF _ sub card [symmetric]] by simp
  have db: "list_all db_md_ok ds" using assms(2)
    by (auto simp: stored_ok_def list_all_iff md_normal_def db_md_ok_def)
  have dis: "distinct (map mdkey ds)" using assms(2) by (simp add: stored_ok_def)
  have dk: "distinct (map mdkey (kept_metadata ca ds ?u))" "set (map mdkey (kept_metadata ca ds ?u)) \<subseteq> set (map mdkey (filter (\<lambda>d. mdkey d \<notin> ?n) ds))"
    using kept_metadata_docs [OF db, of ?u ca] dis by auto
  have "card (set (map mdkey (kept_metadata ca ds ?u))) = card (set (map mdkey (filter (\<lambda>d. mdkey d \<notin> ?n) ds)))"
    using dk(1) k dis distinct_map_filter [OF dis] by (simp only: distinct_card length_map)
  then have "set (map mdkey (kept_metadata ca ds ?u)) = set (map mdkey (filter (\<lambda>d. mdkey d \<notin> ?n) ds))"
    using card_subset_eq [OF _ dk(2)] by simp
  moreover have "mdkey ` set ds = set (map mdkey ?D) \<union> set (map mdkey (filter (\<lambda>d. mdkey d \<notin> ?n) ds))" by auto
  ultimately show ?thesis using same by (auto simp: merged_metadata_def)
qed

lemma merged_metadata_same:
  assumes "req_ok apiVersion ca" "stored_ok attr ds" "length (merged_metadata ds ca apiVersion) = length ds"
    "equalMetadataVectors ds (merged_metadata ds ca apiVersion)"
  shows "set (merged_metadata ds ca apiVersion) = set ds"
proof -
  let ?m = "merged_metadata ds ca apiVersion"
  have db: "list_all db_md_ok ds" "distinct (map mdkey ds)" using assms(2)
    by (auto simp: stored_ok_def list_all_iff md_normal_def db_md_ok_def)
  note m = merged_metadata_docs [OF assms(1) db]
  have sub: "set ds \<subseteq> set ?m"
  proof
    fix d assume d: "d \<in> set ds"
    then have "mdkey d \<in> mdkey ` set ?m" unfolding merged_keys [OF assms(1-3)] by simp
    then obtain e where e: "e \<in> set ?m" "mdkey d = mdkey e" by auto
    have "find (matchMetadata d) ?m = Some e"
      using find_distinct_key [of mdkey ?m e] m e by (simp add: matchMetadata_def [abs_def])
    then have "equalMetadataValues d e"
      using assms(4) d by (auto simp: equalMetadataVectors_all equalMetadata_inner_find list_all_iff)
    moreover have "md_normal False d" "md_normal (apiVersion = ''v2'') e"
      using d e m assms(2) by (auto simp: stored_ok_def list_all_iff)
    ultimately have "d = e" using e(2) by (intro equal_normal)
    with e(1) show "d \<in> set ?m" by simp
  qed
  moreover have "card (set ds) = card (set ?m)"
    using m db assms(3) by (simp add: distinct_card distinct_map)
  ultimately show ?thesis using card_subset_eq [of "set ?m" "set ds"] by simp
qed

lemma same_value_merged:
  assumes "\<not> actual_update attr ds ca apiVersion" "req_ok apiVersion ca" "stored_ok attr ds"
    "apiVersion = ''v1'' \<or> apiVersion = ''v2''"
  shows "merged_value attr ca apiVersion = getField attr ''value''
      \<or> getField attr ''value'' = None \<and> merged_value attr ca apiVersion = Some (BStr [])"
proof (cases "getField attr ''value''")
  case None
  then show ?thesis using assms
    by (auto simp: actual_update_def attrValueChanges_def merged_value_def req_ok_def attributeValueAbsent_def
        hasField_getField valueBson_def bsonAppendAttrValue_def)
next
  case (Some v)
  from assms have "\<not> attrValueChanges attr ca apiVersion" "ca_compoundValueP ca = None"
      "ca_valueType ca \<in> {ValueTypeString, ValueTypeBoolean, ValueTypeNone, ValueTypeNumber}"
      "case v of BInt i \<Rightarrow> False | BLong i \<Rightarrow> False | BOid s \<Rightarrow> False | _ \<Rightarrow> True"
    using Some by (auto simp: actual_update_def req_ok_def stored_ok_def)
  then show ?thesis using assms(4) Some
    by (cases v) (auto simp: attrValueChanges_def merged_value_def attributeValueAbsent_def
        hasField_getField valueBson_def bsonAppendAttrValue_def copied_value_def dest: deq_imp_eq split: if_splits)
qed

text \<open>C24: an update that is found to be no change, and is therefore not written to the database, would not have changed
  anything: the value (a missing one counts as the empty string), the type, the metadata and both dates of the merged
  attribute are those that are stored.\<close>

theorem no_update_lost:
  assumes "req_ok apiVersion ca" "stored_metadata attr = Some ds" "stored_ok attr ds"
    "mergeAttrInfo now attr ca apiVersion = Some (False, m)" "apiVersion = ''v1'' \<or> apiVersion = ''v2''"
  shows "(getField m ''value'' = getField attr ''value''
      \<or> getField attr ''value'' = None \<and> getField m ''value'' = Some (BStr []))
    \<and> getField m ''type'' = getField attr ''type''
    \<and> (\<exists>ds'. stored_metadata m = Some ds' \<and> set ds' = set ds \<and> distinct (map mdkey ds'))
    \<and> int_field m ''creDate'' = int_field attr ''creDate'' \<and> int_field m ''modDate'' = int_field attr ''modDate''"
proof -
  let ?mds = "merged_metadata ds ca apiVersion"
  from assms(2,4) have no: "\<not> actual_update attr ds ca apiVersion"
    and m: "m = attr_doc (merged_value attr ca apiVersion) (merged_type attr ca) ?mds
              (int_field attr ''creDate'') (int_field attr ''modDate'')"
    by (auto simp: mergeAttrInfo_doc)
  have db: "list_all db_md_ok ds" "distinct (map mdkey ds)" using assms(3)
    by (auto simp: stored_ok_def list_all_iff md_normal_def db_md_ok_def)
  have "set ?mds = set ds" using no merged_metadata_same [OF assms(1,3)] by (simp add: actual_update_def)
  moreover have "distinct (map mdkey ?mds)" using merged_metadata_docs [OF assms(1) db] by simp
  moreover have "merged_type attr ca = getField attr ''type''"
    using no assms(3) by (auto simp: actual_update_def merged_type_def stored_ok_def field_simps_doc split: option.splits bson.splits)
  moreover have "merged_value attr ca apiVersion = getField attr ''value''
      \<or> getField attr ''value'' = None \<and> merged_value attr ca apiVersion = Some (BStr [])"
    using no assms(1,3,5) by (rule same_value_merged)
  ultimately show ?thesis using m by (simp add: int_field_def field_simps_doc)
qed

theorem no_update_lost_witness:
  "mergeAttrInfo 300 merged_demo request_demo ''v2'' = Some (False, merged_demo)
   \<and> getField merged_demo ''value'' = Some (BNum (Fin 21)) \<and> getField merged_demo ''modDate'' = Some (BInt 200)
   \<and> (\<exists>ds'. stored_metadata merged_demo = Some ds' \<and> distinct (map mdkey ds'))"
proof -
  have again: "mergeAttrInfo 300 merged_demo request_demo ''v2'' = Some (False, merged_demo)"
    using merge_repeat_demo .
  have st: "stored_metadata merged_demo = Some [md_doc ''accuracy'' ''none'' (BStr ''high''), md_doc ''unit'' ''Text'' (BStr ''C'')]"
    by (simp add: merged_demo_def)
  have "stored_ok merged_demo [md_doc ''accuracy'' ''none'' (BStr ''high''), md_doc ''unit'' ''Text'' (BStr ''C'')]"
    by (simp add: stored_ok_def merged_demo_def isNotCustomMetadata_def)
  from no_update_lost [OF request_demo_ok st this again] show ?thesis
    using again by (auto simp: merged_demo_def)
qed

text \<open>An update of an attribute whose value is an integer in the database is never carried out when only the value changes.\<close>

lemma integer_value_stuck:
  assumes "getField attr ''value'' = Some (BInt i)"
  shows "\<not> attrValueChanges attr ca apiVersion"
  using assms by (simp add: attrValueChanges_def hasField_getField)

end
