(* ===== verification/Orion_Ngsi10.thy ===== *)
theory Orion_Ngsi10
  imports Orion_Element "HOL-Library.Multiset"
begin

section \<open>Requests and responses of updates, queries and notifications: ngsi10, ngsi/UpdateActionType.cpp,
  ngsi/AttributeList.cpp, ngsi/Originator.cpp, ngsi/SubscriptionId.cpp, common/idCheck.cpp\<close>

text \<open>
  The records have the members of the structs. Rendering gives the text with the object, which it can change; a check
  gives its answer with the details of the alarms.
\<close>

subsection \<open>Parts\<close>

definition UpdateActionType_check :: "string \<Rightarrow> string" where
  "UpdateActionType_check s =
     (if s \<in> {''update'', ''UPDATE'', ''Update'', ''append'', ''APPEND'', ''Append'',
              ''append_strict'', ''APPEND_STRICT'', ''Append_Strict'',
              ''delete'', ''DELETE'', ''Delete'', ''replace'', ''REPLACE'', ''Replace''} then ''OK''
      else if s = [] then ''empty update action type''
      else ''invalid update action type: /'' @ s @ ''/'')"

definition UpdateActionType_render :: "string \<Rightarrow> string \<Rightarrow> bool \<Rightarrow> string" where
  "UpdateActionType_render s indent comma =
     (if s = [] then [] else valueTag1 indent ''updateAction'' s comma False False)"

fun AttributeList_render_loop :: "string list \<Rightarrow> string \<Rightarrow> string" where
  "AttributeList_render_loop [] indent = []"
| "AttributeList_render_loop (a # as) indent =
     valueTag1 indent ''attribute'' a (as \<noteq> []) True False @ AttributeList_render_loop as indent"

definition AttributeList_render :: "string list \<Rightarrow> string \<Rightarrow> bool \<Rightarrow> string" where
  "AttributeList_render attributeV indent comma =
     (if attributeV = [] then []
      else startTag2 indent ''attributes'' True True @ AttributeList_render_loop attributeV (indent @ ''  '')
             @ endTag_plain indent comma True)"

fun AttributeList_check :: "string list \<Rightarrow> string" where
  "AttributeList_check [] = ''OK''"
| "AttributeList_check (a # as) = (if a = [] then ''empty attribute name'' else AttributeList_check as)"

fun AttributeList_lookup :: "string list \<Rightarrow> string \<Rightarrow> bool" where
  "AttributeList_lookup [] attributeName = False"
| "AttributeList_lookup (a # as) attributeName = (if a = attributeName then True else AttributeList_lookup as attributeName)"

definition AttributeList_push_back_if_absent :: "string list \<Rightarrow> string \<Rightarrow> string list" where
  "AttributeList_push_back_if_absent attributeV attributeName =
     (if AttributeList_lookup attributeV attributeName = False then attributeV @ [attributeName] else attributeV)"

definition Originator_render :: "string \<Rightarrow> string \<Rightarrow> bool \<Rightarrow> string" where
  "Originator_render s indent comma = (if s = [] then [] else valueTag1 indent ''originator'' s comma False False)"

fun idCheck_loop :: "string \<Rightarrow> string \<times> string list" where
  "idCheck_loop [] = (''OK'', [])"
| "idCheck_loop (c # cs) =
     (if isxdigit c then idCheck_loop cs
      else (''invalid char in ID string'', [''invalid char '' @ quoted [c] @ '' in ID string'']))"

definition idCheck :: "string \<Rightarrow> string \<times> string list" where
  "idCheck s = (if length s \<noteq> 24 then (''bad length - 24 chars expected'', []) else idCheck_loop (c_str s))"

definition SubscriptionId_check :: "string \<Rightarrow> string \<times> string list" where
  "SubscriptionId_check s = (if s \<noteq> [] then idCheck s else (''OK'', []))"

definition subscriptionId_mandatory :: "RequestType \<Rightarrow> bool" where
  "subscriptionId_mandatory container =
     (container \<in> {RtSubscribeContextAvailabilityResponse, RtUpdateContextAvailabilitySubscriptionResponse,
        RtUnsubscribeContextAvailabilityResponse, NotifyContextAvailability, UpdateContextSubscription,
        UnsubscribeContext, RtUnsubscribeContextResponse, NotifyContext, RtSubscribeResponse, RtSubscribeError})"

definition SubscriptionId_render :: "string \<Rightarrow> RequestType \<Rightarrow> string \<Rightarrow> bool \<Rightarrow> string" where
  "SubscriptionId_render s container indent comma =
     (if s = []
      then if subscriptionId_mandatory container
           then valueTag1 indent ''subscriptionId'' ''000000000000000000000000'' comma False False else []
      else valueTag1 indent ''subscriptionId'' s comma False False)"

definition SubscriptionId_rendered :: "string \<Rightarrow> RequestType \<Rightarrow> bool" where
  "SubscriptionId_rendered s container =
     (if s = [] \<or> s = ''000000000000000000000000'' then subscriptionId_mandatory container else True)"

subsection \<open>ngsi10/UpdateContextResponse.cpp\<close>

record UpdateContextResponse =
  ucrs_cerV :: "ContextElementResponse list"
  ucrs_errorCode :: StatusCode

definition UpdateContextResponse_new :: UpdateContextResponse where
  "UpdateContextResponse_new = \<lparr>ucrs_cerV = [], ucrs_errorCode = StatusCode_new ''errorCode''\<rparr>"

definition UpdateContextResponse_error :: "StatusCode \<Rightarrow> UpdateContextResponse" where
  "UpdateContextResponse_error errorCode =
     \<lparr>ucrs_cerV = [], ucrs_errorCode = (StatusCode_fill_from (StatusCode_new ''statusCode'') errorCode)\<lparr>sc_keyName := ''errorCode''\<rparr>\<rparr>"

definition UpdateContextResponse_render ::
    "UpdateContextResponse \<Rightarrow> ConnectionInfo \<Rightarrow> string \<Rightarrow> (string \<times> UpdateContextResponse) option" where
  "UpdateContextResponse_render r ci indent =
     (let ec = ucrs_errorCode r;
          wrap = (\<lambda>out. startTag1 indent ''updateContextResponse'' False False @ out @ endTag_plain indent False False);
          render_error = (\<lambda>ec. map_option (\<lambda>(out, ec). (wrap out, r\<lparr>ucrs_errorCode := ec\<rparr>)) (StatusCode_render ec (indent @ ''  '') False True))
      in if sc_code ec \<noteq> SccNone \<and> sc_code ec \<noteq> SccOk then render_error ec
         else if ucrs_cerV r = [] then render_error (StatusCode_fill ec SccContextElementNotFound (sc_details ec))
         else map_option (\<lambda>(out, vec). (wrap out, r\<lparr>ucrs_cerV := vec\<rparr>))
                (ContextElementResponseVector_render (ucrs_cerV r) ci RtUpdateContextResponse (indent @ ''  '') False False))"

text \<open>When the check of the responses fails, its answer is not assigned: the alarm and the error have empty details.\<close>

definition UpdateContextResponse_check ::
    "bool \<Rightarrow> ConnectionInfo \<Rightarrow> string \<Rightarrow> string \<Rightarrow> UpdateContextResponse \<Rightarrow> (string \<times> string list \<times> UpdateContextResponse) option" where
  "UpdateContextResponse_check idv1 ci indent predetectedError r =
     (if predetectedError \<noteq> []
      then map_option (\<lambda>(out, r). (out, [], r))
             (UpdateContextResponse_render (r\<lparr>ucrs_errorCode := StatusCode_fill (ucrs_errorCode r) SccBadRequest predetectedError\<rparr>) ci indent)
      else case ContextElementResponseVector_check idv1 (ci_apiVersion ci) UpdateContext (ucrs_cerV r) of
             (res, al) \<Rightarrow>
               if res \<noteq> ''OK''
               then map_option (\<lambda>(out, r). (out, al @ [[]], r))
                      (UpdateContextResponse_render (r\<lparr>ucrs_errorCode := StatusCode_fill (ucrs_errorCode r) SccBadRequest []\<rparr>) ci indent)
               else Some (''OK'', al, r))"

definition cer_push :: "ContextAttribute \<Rightarrow> ContextElementResponse \<Rightarrow> ContextElementResponse" where
  "cer_push ca cer =
     cer\<lparr>contextElement := (contextElement cer)\<lparr>contextAttributeVector :=
       contextAttributeVector (contextElement cer) @ [fst (ContextAttribute_copy ca False)]\<rparr>\<rparr>"

definition notFoundPush :: "UpdateContextResponse \<Rightarrow> EntityId \<Rightarrow> ContextAttribute \<Rightarrow> StatusCode option \<Rightarrow> UpdateContextResponse" where
  "notFoundPush r ei ca scP =
     (case cerV_lookup (ucrs_cerV r) ei SccContextElementNotFound of
        None \<Rightarrow>
          (let cer = fst (ContextElementResponse_attr ei (Some ca));
               sc = (case scP of Some sc \<Rightarrow> StatusCode_fill_from (statusCode cer) sc
                     | None \<Rightarrow> StatusCode_fill (statusCode cer) SccContextElementNotFound (ei_id ei))
           in r\<lparr>ucrs_cerV := ucrs_cerV r @ [cer\<lparr>statusCode := sc\<rparr>]\<rparr>)
      | Some ix \<Rightarrow> r\<lparr>ucrs_cerV := (ucrs_cerV r)[ix := cer_push ca (ucrs_cerV r ! ix)]\<rparr>)"

definition foundPush :: "UpdateContextResponse \<Rightarrow> EntityId \<Rightarrow> ContextAttribute \<Rightarrow> UpdateContextResponse" where
  "foundPush r ei ca =
     (case cerV_lookup (ucrs_cerV r) ei SccOk of
        None \<Rightarrow>
          (let cer = fst (ContextElementResponse_attr ei (Some ca))
           in r\<lparr>ucrs_cerV := ucrs_cerV r @ [cer\<lparr>statusCode := StatusCode_fill (statusCode cer) SccOk []\<rparr>]\<rparr>)
      | Some ix \<Rightarrow> r\<lparr>ucrs_cerV := (ucrs_cerV r)[ix := cer_push ca (ucrs_cerV r ! ix)]\<rparr>)"

definition UpdateContextResponse_fill :: "UpdateContextResponse \<Rightarrow> UpdateContextResponse \<Rightarrow> UpdateContextResponse" where
  "UpdateContextResponse_fill this r =
     this\<lparr>ucrs_cerV := fst (ContextElementResponseVector_fill (ucrs_cerV this) (ucrs_cerV r)),
          ucrs_errorCode := StatusCode_fill_from (ucrs_errorCode this) (ucrs_errorCode r)\<rparr>"

definition merge_error :: "UpdateContextResponse \<Rightarrow> UpdateContextResponse \<Rightarrow> UpdateContextResponse" where
  "merge_error this r =
     (let ec = ucrs_errorCode this
      in if ucrs_cerV r = []
         then if sc_code ec = SccNone \<or> sc_code ec = SccOk
              then this\<lparr>ucrs_errorCode := StatusCode_fill_from ec (ucrs_errorCode r)\<rparr>
              else if sc_details ec = [] then this\<lparr>ucrs_errorCode := ec\<lparr>sc_details := sc_details (ucrs_errorCode r)\<rparr>\<rparr>
              else this
         else this)"

definition merge_attr :: "EntityId \<Rightarrow> StatusCode \<Rightarrow> UpdateContextResponse \<Rightarrow> ContextAttribute \<Rightarrow> UpdateContextResponse" where
  "merge_attr ei sc this ca = (if sc_code sc \<noteq> SccOk then notFoundPush this ei ca (Some sc) else foundPush this ei ca)"

definition merge_cer :: "UpdateContextResponse \<Rightarrow> ContextElementResponse \<Rightarrow> UpdateContextResponse" where
  "merge_cer this cer =
     foldl (merge_attr (ce_entityId (contextElement cer)) (statusCode cer)) this (contextAttributeVector (contextElement cer))"

definition UpdateContextResponse_merge :: "UpdateContextResponse \<Rightarrow> UpdateContextResponse \<Rightarrow> UpdateContextResponse" where
  "UpdateContextResponse_merge this r = foldl merge_cer (merge_error this r) (ucrs_cerV r)"

definition StatusCode_fill_response :: "StatusCode \<Rightarrow> UpdateContextResponse \<Rightarrow> StatusCode" where
  "StatusCode_fill_response sc r =
     (if sc_code (ucrs_errorCode r) \<noteq> SccOk \<and> sc_code (ucrs_errorCode r) \<noteq> SccNone then StatusCode_fill_from sc (ucrs_errorCode r)
      else case ucrs_cerV r of
             cer # _ \<Rightarrow> StatusCode_fill_from sc (statusCode cer)
           | [] \<Rightarrow> StatusCode_fill sc SccReceiverInternalError (''can'' @ [CHR 0x27] @ ''t fill StatusCode from UpdateContextResponse''))"

subsection \<open>ngsi10/UpdateContextRequest.cpp\<close>

record UpdateContextRequest =
  ucr_contextElementVector :: "ContextElement list"
  ucr_updateActionType :: string
  ucr_contextProvider :: string

definition UpdateContextRequest_new :: UpdateContextRequest where
  "UpdateContextRequest_new = \<lparr>ucr_contextElementVector = [], ucr_updateActionType = [], ucr_contextProvider = []\<rparr>"

definition UpdateContextRequest_provider :: "string \<Rightarrow> EntityId \<Rightarrow> UpdateContextRequest" where
  "UpdateContextRequest_provider contextProvider ei =
     UpdateContextRequest_new\<lparr>ucr_contextProvider := contextProvider, ucr_contextElementVector := [ContextElement_entity ei]\<rparr>"

definition UpdateContextRequest_render ::
    "UpdateContextRequest \<Rightarrow> ConnectionInfo \<Rightarrow> string \<Rightarrow> string \<times> UpdateContextRequest" where
  "UpdateContextRequest_render r ci indent =
     (let (out, vec) = ContextElementVector_render (ucr_contextElementVector r) ci UpdateContext (indent @ ''  '') True
      in (startTag1 indent ''updateContextRequest'' False False @ out
          @ UpdateActionType_render (ucr_updateActionType r) (indent @ ''  '') False @ endTag_plain indent False False,
          r\<lparr>ucr_contextElementVector := vec\<rparr>))"

definition UpdateContextRequest_check ::
    "bool \<Rightarrow> ConnectionInfo \<Rightarrow> RequestType \<Rightarrow> string \<Rightarrow> string \<Rightarrow> UpdateContextRequest \<Rightarrow> (string \<times> string list) option" where
  "UpdateContextRequest_check idv1 ci request indent predetectedError r =
     (let bad = (\<lambda>(res, al). map_option (\<lambda>(out, _). (out, al))
            (UpdateContextResponse_render (UpdateContextResponse_new\<lparr>ucrs_errorCode :=
               StatusCode_fill (ucrs_errorCode UpdateContextResponse_new) SccBadRequest res\<rparr>) ci indent))
      in if predetectedError \<noteq> [] then bad (predetectedError, [])
         else case ContextElementVector_check idv1 (ci_apiVersion ci) request (ucr_contextElementVector r) of
                (res, al) \<Rightarrow>
                  if res \<noteq> ''OK'' then bad (res, al)
                  else if UpdateActionType_check (ucr_updateActionType r) \<noteq> ''OK''
                  then bad (UpdateActionType_check (ucr_updateActionType r), al)
                  else Some (''OK'', al))"

text \<open>The ways in which a request is filled: from the name of an attribute, from an entity of version 2, from an attribute,
  from several entities, which lose their attributes.\<close>

definition UpdateContextRequest_fill_name ::
    "UpdateContextRequest \<Rightarrow> string \<Rightarrow> string \<Rightarrow> string \<Rightarrow> string \<Rightarrow> string \<Rightarrow> string \<Rightarrow> UpdateContextRequest" where
  "UpdateContextRequest_fill_name r eid type isPattern attributeName metaID action =
     (let ca = (ContextAttribute_string attributeName [] [] True)\<lparr>ca_metadataVector :=
                 (if metaID \<noteq> [] then [Metadata_string ''ID'' [] metaID] else [])\<rparr>;
          ce = (ContextElement_of eid type isPattern)\<lparr>contextAttributeVector := (if attributeName \<noteq> [] then [ca] else [])\<rparr>
      in r\<lparr>ucr_contextElementVector := ucr_contextElementVector r @ [ce], ucr_updateActionType := action\<rparr>)"

definition UpdateContextRequest_fill_entity ::
    "UpdateContextRequest \<Rightarrow> Entity \<Rightarrow> string \<Rightarrow> UpdateContextRequest \<times> Entity" where
  "UpdateContextRequest_fill_entity r ent action =
     (let (vec, src) = ContextAttributeVector_fill [] (e_attributeVector ent) False
      in (r\<lparr>ucr_contextElementVector := ucr_contextElementVector r
              @ [(ContextElement_of (e_id ent) (e_type ent) ''false'')\<lparr>contextAttributeVector := vec\<rparr>],
            ucr_updateActionType := action\<rparr>, ent\<lparr>e_attributeVector := src\<rparr>))"

definition UpdateContextRequest_fill_attr ::
    "UpdateContextRequest \<Rightarrow> string \<Rightarrow> ContextAttribute \<Rightarrow> string \<Rightarrow> string \<Rightarrow> UpdateContextRequest \<times> ContextAttribute" where
  "UpdateContextRequest_fill_attr r eid ca action type =
     (let (c, src) = ContextAttribute_copy ca False
      in (r\<lparr>ucr_contextElementVector := ucr_contextElementVector r
              @ [(ContextElement_of eid type ''false'')\<lparr>contextAttributeVector := [c]\<rparr>],
            ucr_updateActionType := action\<rparr>, src))"

definition UpdateContextRequest_fill_entities ::
    "UpdateContextRequest \<Rightarrow> Entity list \<Rightarrow> string \<Rightarrow> UpdateContextRequest \<times> Entity list" where
  "UpdateContextRequest_fill_entities r es action =
     (r\<lparr>ucr_contextElementVector := ucr_contextElementVector r
          @ map (\<lambda>e. (ContextElement_of (e_id e) (e_type e) (e_isPattern e))\<lparr>contextAttributeVector := e_attributeVector e\<rparr>) es,
        ucr_updateActionType := action\<rparr>,
      map (\<lambda>e. e\<lparr>e_attributeVector := []\<rparr>) es)"

fun attributeLookup :: "ContextElement list \<Rightarrow> EntityId \<Rightarrow> string \<Rightarrow> ContextAttribute option" where
  "attributeLookup [] ei attributeName = None"
| "attributeLookup (ce # vec) ei attributeName =
     (if ei_id (ce_entityId ce) \<noteq> ei_id ei \<or> ei_type (ce_entityId ce) \<noteq> ei_type ei then attributeLookup vec ei attributeName
      else case ca_lookup (contextAttributeVector ce) attributeName of
             Some ca \<Rightarrow> Some ca
           | None \<Rightarrow> attributeLookup vec ei attributeName)"

subsection \<open>ngsi10/QueryContextResponse.cpp\<close>

record QueryContextResponse =
  qcrs_cerV :: "ContextElementResponse list"
  qcrs_errorCode :: StatusCode

definition QueryContextResponse_new :: QueryContextResponse where
  "QueryContextResponse_new = \<lparr>qcrs_cerV = [], qcrs_errorCode = StatusCode_new ''errorCode''\<rparr>"

definition QueryContextResponse_attr :: "EntityId \<Rightarrow> ContextAttribute \<Rightarrow> QueryContextResponse" where
  "QueryContextResponse_attr ei ca =
     (let cer = fst (ContextElementResponse_attr ei (Some ca))
      in \<lparr>qcrs_cerV = [cer\<lparr>statusCode := StatusCode_fill (statusCode cer) SccOk []\<rparr>],
          qcrs_errorCode = StatusCode_fill (StatusCode_new ''statusCode'') SccOk []\<rparr>)"

definition QueryContextResponse_render ::
    "QueryContextResponse \<Rightarrow> ConnectionInfo \<Rightarrow> string \<Rightarrow> (string \<times> QueryContextResponse) option" where
  "QueryContextResponse_render r ci indent =
     (let ec = qcrs_errorCode r;
          vec = qcrs_cerV r;
          errorCodeRendered = (sc_code ec \<noteq> SccNone \<and> sc_code ec \<noteq> SccOk \<or> vec = [] \<or> sc_details ec \<noteq> []);
          ec = (if (sc_code ec = SccNone \<or> sc_code ec = SccOk) \<and> vec \<noteq> [] \<and> sc_details ec \<noteq> [] \<and> sc_code ec = SccNone
                then ec\<lparr>sc_code := SccOk\<rparr> else ec)
      in case ContextElementResponseVector_render vec ci QueryContext (indent @ ''  '') errorCodeRendered False of
           None \<Rightarrow> None
         | Some (vecOut, vec) \<Rightarrow>
             (case (if errorCodeRendered then StatusCode_render ec (indent @ ''  '') False True else Some ([], ec)) of
                None \<Rightarrow> None
              | Some (ecOut, ec) \<Rightarrow>
                  (case (if sc_code ec = SccNone \<and> vec = []
                         then StatusCode_render (StatusCode_fill ec SccReceiverInternalError
                                ''Both the error-code structure and the response vector were empty'') (indent @ ''  '') False True
                         else Some ([], ec)) of
                     None \<Rightarrow> None
                   | Some (safety, ec) \<Rightarrow>
                       Some (startTag1 indent ''queryContextResponse'' False False @ vecOut @ ecOut @ safety
                             @ endTag_plain indent False False, \<lparr>qcrs_cerV = vec, qcrs_errorCode = ec\<rparr>))))"

definition QueryContextResponse_check ::
    "bool \<Rightarrow> ConnectionInfo \<Rightarrow> string \<Rightarrow> string \<Rightarrow> QueryContextResponse \<Rightarrow> (string \<times> string list \<times> QueryContextResponse) option" where
  "QueryContextResponse_check idv1 ci indent predetectedError r =
     (if predetectedError \<noteq> []
      then map_option (\<lambda>(out, r). (out, [], r))
             (QueryContextResponse_render (r\<lparr>qcrs_errorCode := StatusCode_fill (qcrs_errorCode r) SccBadRequest predetectedError\<rparr>) ci indent)
      else case ContextElementResponseVector_check idv1 (ci_apiVersion ci) QueryContext (qcrs_cerV r) of
             (res, al) \<Rightarrow>
               if res \<noteq> ''OK''
               then map_option (\<lambda>(out, r). (out, al @ [res], r))
                      (QueryContextResponse_render (r\<lparr>qcrs_errorCode := StatusCode_fill (qcrs_errorCode r) SccBadRequest res\<rparr>) ci indent)
               else Some (''OK'', al, r))"

definition QueryContextResponse_fill :: "QueryContextResponse \<Rightarrow> QueryContextResponse \<Rightarrow> QueryContextResponse" where
  "QueryContextResponse_fill this r =
     \<lparr>qcrs_cerV = qcrs_cerV this @ map (fst \<circ> ContextElementResponse_copy) (qcrs_cerV r),
      qcrs_errorCode = StatusCode_fill_from (qcrs_errorCode this) (qcrs_errorCode r)\<rparr>"

definition QueryContextResponse_clone :: "QueryContextResponse \<Rightarrow> QueryContextResponse" where
  "QueryContextResponse_clone r = QueryContextResponse_fill QueryContextResponse_new r"

text \<open>A response of one element from the response to a query, with the alarms.\<close>

definition ContextElementResponse_fill_query ::
    "ContextElementResponse \<Rightarrow> QueryContextResponse option \<Rightarrow> string \<Rightarrow> string \<Rightarrow> ContextElementResponse \<times> string list" where
  "ContextElementResponse_fill_query this qcrP eid type =
     (case qcrP of
        None \<Rightarrow> (this\<lparr>statusCode := StatusCode_fill (statusCode this) SccContextElementNotFound []\<rparr>, [])
      | Some q \<Rightarrow>
          (case qcrs_cerV q of
             [] \<Rightarrow>
               (let sc = StatusCode_fill_from (statusCode this) (qcrs_errorCode q);
                    sc = (if sc_code sc \<noteq> SccOk \<and> sc_details sc = [] then sc\<lparr>sc_details := ''Entity id: /'' @ eid @ ''/''\<rparr> else sc);
                    ce = contextElement this
                in (this\<lparr>statusCode := sc, contextElement := ce\<lparr>ce_entityId := EntityId_fill (ce_entityId ce) eid type ''false''\<rparr>\<rparr>, []))
           | cer # cers \<Rightarrow>
               (let ce = fst (ContextElement_fill (contextElement this) (contextElement cer) False);
                    sc = (if sc_code (qcrs_errorCode q) \<noteq> SccNone then StatusCode_fill_from (statusCode this) (qcrs_errorCode q)
                          else statusCode this)
                in (this\<lparr>contextElement := ce, statusCode := sc\<rparr>,
                    if cers \<noteq> [] then [''more than one context element found the this query - selecting the first one''] else []))))"

subsection \<open>ngsi10/NotifyContextRequest.cpp, ngsi10/NotifyContextResponse.cpp\<close>

record NotifyContextRequest =
  ncr_subscriptionId :: string
  ncr_originator :: string
  ncr_cerV :: "ContextElementResponse list"

definition NotifyContextRequest_render ::
    "NotifyContextRequest \<Rightarrow> ConnectionInfo \<Rightarrow> string \<Rightarrow> (string \<times> NotifyContextRequest) option" where
  "NotifyContextRequest_render r ci indent =
     map_option (\<lambda>(out, vec).
       (startTag1 indent ''notifyContextRequest'' False False
        @ SubscriptionId_render (ncr_subscriptionId r) NotifyContext (indent @ ''  '') True
        @ Originator_render (ncr_originator r) (indent @ ''  '') (ncr_cerV r \<noteq> [])
        @ out @ endTag_plain indent False False, r\<lparr>ncr_cerV := vec\<rparr>))
       (ContextElementResponseVector_render (ncr_cerV r) ci NotifyContext (indent @ ''  '') False False)"

definition NotifyContextRequest_toJson ::
    "NotifyContextRequest \<Rightarrow> ConnectionInfo \<Rightarrow> RenderFormat \<Rightarrow> string list \<Rightarrow> (string \<times> string list) option" where
  "NotifyContextRequest_toJson r ci renderFormat attrsFilter =
     (if renderFormat = NGSI_V1_LEGACY then map_option (\<lambda>(out, _). (out, [])) (NotifyContextRequest_render r ci [])
      else if renderFormat \<noteq> NGSI_V2_NORMALIZED \<and> renderFormat \<noteq> NGSI_V2_KEYVALUES \<and> renderFormat \<noteq> NGSI_V2_VALUES
      then Some (fst (OrionError_render (OrionError_of SccBadRequest ''Invalid notification format'' []) ci []),
                 [''Invalid notification format''])
      else Some (''{'' @ JSON_STR ''subscriptionId'' @ '':'' @ JSON_STR (ncr_subscriptionId r) @ '',''
                 @ JSON_STR ''data'' @ '':['' @ ContextElementResponseVector_toJson (ncr_cerV r) renderFormat attrsFilter
                 @ '']'' @ ''}'', []))"

definition NotifyContextResponse_render :: "StatusCode \<Rightarrow> string \<Rightarrow> (string \<times> StatusCode) option" where
  "NotifyContextResponse_render responseCode indent =
     map_option (\<lambda>(out, sc). (startTag1 indent ''notifyContextResponse'' False False @ out @ endTag_plain indent False False, sc))
       (StatusCode_render (responseCode\<lparr>sc_keyName := ''responseCode''\<rparr>) (indent @ ''  '') False True)"

definition NotifyContextRequest_check ::
    "bool \<Rightarrow> ConnectionInfo \<Rightarrow> string \<Rightarrow> string \<Rightarrow> NotifyContextRequest \<Rightarrow> (string \<times> string list) option" where
  "NotifyContextRequest_check idv1 ci indent predetectedError r =
     (let bad = (\<lambda>(res, al). map_option (\<lambda>(out, _). (out, al))
            (NotifyContextResponse_render (StatusCode_fill (StatusCode_new ''statusCode'') SccBadRequest res) indent))
      in if predetectedError \<noteq> [] then bad (predetectedError, [])
         else case SubscriptionId_check (ncr_subscriptionId r) of
                (res, al) \<Rightarrow>
                  if res \<noteq> ''OK'' then bad (res, al)
                  else case ContextElementResponseVector_check idv1 (ci_apiVersion ci) QueryContext (ncr_cerV r) of
                         (res, al2) \<Rightarrow> if res \<noteq> ''OK'' then bad (res, al @ al2) else Some (''OK'', al @ al2))"

subsection \<open>Merging responses loses no attribute\<close>

definition cer_attrs :: "ContextElementResponse \<Rightarrow> (string \<times> string \<times> string) multiset" where
  "cer_attrs cer =
     mset (map (\<lambda>ca. (ei_id (ce_entityId (contextElement cer)), ei_type (ce_entityId (contextElement cer)), ca_name ca))
       (contextAttributeVector (contextElement cer)))"

definition cerV_attrs :: "ContextElementResponse list \<Rightarrow> (string \<times> string \<times> string) multiset" where
  "cerV_attrs vec = \<Sum>\<^sub># (mset (map cer_attrs vec))"

lemma cerV_attrs_simps [simp]:
  "cerV_attrs [] = {#}" "cerV_attrs (cer # vec) = cer_attrs cer + cerV_attrs vec" "cerV_attrs (v @ w) = cerV_attrs v + cerV_attrs w"
  by (simp_all add: cerV_attrs_def)

lemma cer_attrs_push:
  "EntityId_equal (ce_entityId (contextElement cer)) ei \<Longrightarrow>
     cer_attrs (cer_push ca cer) = add_mset (ei_id ei, ei_type ei, ca_name ca) (cer_attrs cer)"
  by (simp add: cer_attrs_def cer_push_def ContextAttribute_copy_def EntityId_equal_def split: if_splits)

lemma cerV_attrs_push:
  "cerV_lookup vec ei code = Some ix \<Longrightarrow>
     cerV_attrs (vec[ix := cer_push ca (vec ! ix)]) = add_mset (ei_id ei, ei_type ei, ca_name ca) (cerV_attrs vec)"
proof (induction vec arbitrary: ix)
  case (Cons cer vec)
  show ?case
  proof (cases "EntityId_equal (ce_entityId (contextElement cer)) ei \<and> (code = SccNone \<or> sc_code (statusCode cer) = code)")
    case True
    with Cons.prems show ?thesis by (auto simp: cer_attrs_push)
  next
    case False
    with Cons.prems obtain j where "cerV_lookup vec ei code = Some j" "ix = Suc j" by auto
    with Cons.IH show ?thesis by simp
  qed
qed simp

lemma cer_attrs_new: "cer_attrs ((fst (ContextElementResponse_attr ei (Some ca)))\<lparr>statusCode := sc\<rparr>) = {#(ei_id ei, ei_type ei, ca_name ca)#}"
  by (simp add: cer_attrs_def ContextElementResponse_attr_def ContextAttribute_copy_def EntityId_fill_from_def)

lemma merge_attr_attrs:
  "cerV_attrs (ucrs_cerV (merge_attr ei sc this ca)) = add_mset (ei_id ei, ei_type ei, ca_name ca) (cerV_attrs (ucrs_cerV this))"
  by (auto simp: merge_attr_def notFoundPush_def foundPush_def Let_def cerV_attrs_push cer_attrs_new split: option.splits)

lemma merge_cer_attrs: "cerV_attrs (ucrs_cerV (merge_cer this cer)) = cerV_attrs (ucrs_cerV this) + cer_attrs cer"
proof -
  have "cerV_attrs (ucrs_cerV (foldl (merge_attr ei sc) this cas))
      = cerV_attrs (ucrs_cerV this) + mset (map (\<lambda>ca. (ei_id ei, ei_type ei, ca_name ca)) cas)" for ei sc cas
    by (induction cas arbitrary: this) (simp_all add: merge_attr_attrs)
  then show ?thesis by (simp add: merge_cer_def cer_attrs_def)
qed

text \<open>Merging the response of a context provider into the response of an update loses no attribute and invents none:
  the attributes of the result, each with its entity, are those of the two responses together, with their multiplicities.\<close>

theorem merge_keeps_attributes:
  "cerV_attrs (ucrs_cerV (UpdateContextResponse_merge this r)) = cerV_attrs (ucrs_cerV this) + cerV_attrs (ucrs_cerV r)"
proof -
  have "cerV_attrs (ucrs_cerV (foldl merge_cer u vec)) = cerV_attrs (ucrs_cerV u) + cerV_attrs vec" for u vec
    by (induction vec arbitrary: u) (simp_all add: merge_cer_attrs add.assoc)
  moreover have "ucrs_cerV (merge_error this r) = ucrs_cerV this" by (simp add: merge_error_def Let_def)
  ultimately show ?thesis by (simp add: UpdateContextResponse_merge_def)
qed

subsection \<open>The payload of a notification\<close>

text \<open>The entity of a response, as it is shown, and what its text stands for.\<close>

definition cer_entity :: "ContextElementResponse \<Rightarrow> Entity" where
  "cer_entity cer =
     (let ei = ce_entityId (contextElement cer)
      in Entity_new\<lparr>e_id := htmlEscape (c_str (ei_id ei)), e_type := htmlEscape (c_str (ei_type ei))\<rparr>)"

definition cer_shown :: "string list \<Rightarrow> ContextElementResponse \<Rightarrow> ContextAttribute list" where
  "cer_shown attrsFilter cer = shown attrsFilter (contextAttributeVector (contextElement cer))"

definition cer_wf :: "RenderFormat \<Rightarrow> string list \<Rightarrow> ContextElementResponse \<Rightarrow> bool" where
  "cer_wf fmt attrsFilter cer =
     (plain (e_id (cer_entity cer)) \<and> plain (e_type (cer_entity cer))
      \<and> list_all ca_wf (contextAttributeVector (contextElement cer))
      \<and> (fmt \<noteq> NGSI_V2_VALUES \<longrightarrow> cer_shown attrsFilter cer \<noteq> []))"

lemma cer_text:
  assumes "cer_wf fmt attrsFilter cer" "fmt \<in> {NGSI_V2_NORMALIZED, NGSI_V2_KEYVALUES, NGSI_V2_VALUES}"
  shows "(if fmt = NGSI_V2_VALUES then ''['' else ''{'') @ ContextElementResponse_toJson cer fmt attrsFilter
      @ (if fmt = NGSI_V2_VALUES then '']'' else ''}'')
    = entity_text fmt (cer_shown attrsFilter cer) (cer_entity cer)"
proof -
  let ?vec = "contextAttributeVector (contextElement cer)" and ?s = "cer_shown attrsFilter cer"
  have cawf: "ca \<in> set ?vec \<Longrightarrow> ca_wf ca" for ca using assms(1) by (simp add: cer_wf_def list_all_iff)
  have nil: "?vec = [] \<Longrightarrow> ?s = []" using shown_subset [of attrsFilter ?vec] by (simp add: cer_shown_def)
  show ?thesis
  proof (cases "fmt = NGSI_V2_VALUES")
    case True
    have "ContextAttributeVector_toJson ?vec fmt attrsFilter = commas (map (jprint \<circ> ca_value) ?s)"
      unfolding cer_shown_def using True by (intro vector_text) (simp_all add: toJson_values_text cawf)
    then show ?thesis using True nil
      by (cases "?vec = []") (simp_all add: ContextElementResponse_toJson_def ContextElement_toJson_def entity_text_def)
  next
    case False
    with assms have f: "fmt = NGSI_V2_NORMALIZED \<or> fmt = NGSI_V2_KEYVALUES" and ne: "?s \<noteq> []"
      by (auto simp: cer_wf_def)
    have "ContextAttributeVector_toJson ?vec fmt attrsFilter = commas (map (\<lambda>ca. member_text (attr_member_text fmt ca)) ?s)"
      unfolding cer_shown_def using f by (intro vector_text) (auto simp: toJson_member_text cawf)
    moreover obtain ca cas where "?s = ca # cas" using ne by (cases ?s) auto
    moreover have "?vec \<noteq> []" using ne nil by auto
    ultimately show ?thesis using False
      by (simp add: ContextElementResponse_toJson_def ContextElement_toJson_def entity_text_def cer_entity_def Let_def
          Entity_new_def EntityId_toJson_def JSON_VALUE_member JSON_pair comp_def)
  qed
qed

lemma cerV_text:
  assumes "fmt \<in> {NGSI_V2_NORMALIZED, NGSI_V2_KEYVALUES, NGSI_V2_VALUES}"
  shows "list_all (cer_wf fmt attrsFilter) vec \<Longrightarrow>
    ContextElementResponseVector_toJson vec fmt attrsFilter
      = commas (map (\<lambda>cer. entity_text fmt (cer_shown attrsFilter cer) (cer_entity cer)) vec)"
proof (induction vec)
  case (Cons cer vec)
  then have c: "(if fmt = NGSI_V2_VALUES then ''['' else ''{'') @ ContextElementResponse_toJson cer fmt attrsFilter
      @ (if fmt = NGSI_V2_VALUES then '']'' else ''}'') @ r
    = entity_text fmt (cer_shown attrsFilter cer) (cer_entity cer) @ r" for r
    using cer_text [of fmt attrsFilter cer] assms by (metis append.assoc list.pred_inject(2))
  show ?case using Cons c by (cases vec) (simp_all only: ContextElementResponseVector_toJson.simps, simp_all)
qed simp


definition cer_demo :: ContextElementResponse where
  "cer_demo = ContextElementResponse_new\<lparr>contextElement := (ContextElement_of ''Room1'' ''Room'' ''false'')
     \<lparr>contextAttributeVector := e_attributeVector room_demo\<rparr>\<rparr>"

definition notify_request_demo :: "ContextElementResponse list \<Rightarrow> NotifyContextRequest" where
  "notify_request_demo cers = \<lparr>ncr_subscriptionId = ''51c0ac9ed714fb3b37d7d5a8'', ncr_originator = ''localhost'', ncr_cerV = cers\<rparr>"


text \<open>The notification of an entity of which no attribute is shown is not JSON: a comma is left after the type.\<close>

lemma notification_no_attribute:
  "(case NotifyContextRequest_toJson (notify_request_demo [cer_demo]) ci_v2 NGSI_V2_KEYVALUES [''humidity''] of
      Some (out, _) \<Rightarrow> json_parse out = None | None \<Rightarrow> False)"
  by code_simp

text \<open>The last check of \<^verbatim>\<open>QueryContextResponse::render\<close> is never reached with success: an empty response with no
  code has been rendered as an error before.\<close>

lemma StatusCode_render_code: "StatusCode_render sc indent comma k = Some (out, sc') \<Longrightarrow> sc_code sc' \<noteq> SccNone"
  by (cases "sc_code sc = SccNone") (auto simp: StatusCode_render_def StatusCode_fill_def Let_def split: option.splits)

lemma query_safety_dead:
  assumes "qcrs_cerV r = []" "StatusCode_render (qcrs_errorCode r) (indent @ ''  '') False True = Some (out, ec)"
  shows "QueryContextResponse_render r ci indent =
    Some (startTag1 indent ''queryContextResponse'' False False @ out @ endTag_plain indent False False, r\<lparr>qcrs_errorCode := ec\<rparr>)"
  using assms StatusCode_render_code [OF assms(2)]
  by (simp add: QueryContextResponse_render_def ContextElementResponseVector_render_def)

text \<open>An identifier of a subscription is accepted exactly when it has 24 characters that are hexadecimal digits (up to a zero byte).\<close>

lemma idCheck_iff: "fst (idCheck s) = ''OK'' \<longleftrightarrow> length s = 24 \<and> list_all isxdigit (c_str s)"
proof -
  have "fst (idCheck_loop t) = ''OK'' \<longleftrightarrow> list_all isxdigit t" for t by (induction t) auto
  then show ?thesis by (simp add: idCheck_def)
qed

end
