(* ===== verification/Orion_Registration.thy ===== *)
theory Orion_Registration
  imports Orion_Element
begin

section \<open>Registrations and context providers: ngsi/ContextRegistration*.cpp, ngsi/ProvidingApplication.cpp,
  mongoBackend/MongoGlobal.cpp\<close>

text \<open>
  A registration says which application provides which attributes of which entities. The registrations that the
  database finds for a request are the documents of a cursor; a document that the driver cannot deliver is skipped,
  and is not in the list here. \<^const>\<open>None\<close> is an exception of the driver. The library functions
  \<^verbatim>\<open>regcomp\<close> and \<^verbatim>\<open>regexec\<close> are parameters: whether a pattern compiles, and whether a
  compiled pattern is found in a text.
\<close>

subsection \<open>Data\<close>

record ContextRegistrationAttribute =
  cra_name :: string
  cra_type :: string
  cra_isDomain :: string
  cra_metadataVector :: "Metadata list"

definition ContextRegistrationAttribute_new :: "string \<Rightarrow> string \<Rightarrow> string \<Rightarrow> ContextRegistrationAttribute" where
  "ContextRegistrationAttribute_new name type isDomain =
     \<lparr>cra_name = name, cra_type = type, cra_isDomain = isDomain, cra_metadataVector = []\<rparr>"

record ContextRegistration =
  cr_entityIdVector :: "EntityId list"
  cr_attributeVector :: "ContextRegistrationAttribute list"
  cr_metadataVector :: "Metadata list"
  cr_providingApplication :: ProvidingApplication
  cr_entityIdVectorPresent :: bool

definition ProvidingApplication_new :: ProvidingApplication where
  "ProvidingApplication_new = \<lparr>pa_string = [], pa_mimeType = NOMIMETYPE\<rparr>"

definition ContextRegistration_new :: ContextRegistration where
  "ContextRegistration_new =
     \<lparr>cr_entityIdVector = [], cr_attributeVector = [], cr_metadataVector = [],
      cr_providingApplication = ProvidingApplication_new, cr_entityIdVectorPresent = False\<rparr>"

record ContextRegistrationResponse =
  crr_contextRegistration :: ContextRegistration
  crr_errorCode :: StatusCode

definition ContextRegistrationResponse_new :: ContextRegistrationResponse where
  "ContextRegistrationResponse_new =
     \<lparr>crr_contextRegistration = ContextRegistration_new, crr_errorCode = StatusCode_new ''errorCode''\<rparr>"

subsection \<open>Rendering\<close>

definition ProvidingApplication_render :: "ProvidingApplication \<Rightarrow> string \<Rightarrow> bool \<Rightarrow> string" where
  "ProvidingApplication_render pa indent comma =
     (if pa_string pa = [] then [] else valueTag1 indent ''providingApplication'' (pa_string pa) comma False False)"

definition ContextRegistrationAttribute_render :: "ContextRegistrationAttribute \<Rightarrow> string \<Rightarrow> bool \<Rightarrow> string" where
  "ContextRegistrationAttribute_render cra indent comma =
     startTag2 indent ''registrationAttribute'' False False
     @ valueTag1 (indent @ ''  '') ''name'' (cra_name cra) True False False
     @ valueTag1 (indent @ ''  '') ''type'' (cra_type cra) True False False
     @ valueTag1 (indent @ ''  '') ''isDomain'' (cra_isDomain cra) (cra_metadataVector cra \<noteq> []) False False
     @ MetadataVector_render (cra_metadataVector cra) (indent @ ''  '') False
     @ endTag_plain indent comma False"

fun craV_render_loop :: "ContextRegistrationAttribute list \<Rightarrow> string \<Rightarrow> string" where
  "craV_render_loop [] indent = []"
| "craV_render_loop (cra # vec) indent = ContextRegistrationAttribute_render cra indent (vec \<noteq> []) @ craV_render_loop vec indent"

definition ContextRegistrationAttributeVector_render :: "ContextRegistrationAttribute list \<Rightarrow> string \<Rightarrow> bool \<Rightarrow> string" where
  "ContextRegistrationAttributeVector_render vec indent comma =
     (if vec = [] then []
      else startTag2 indent ''attributes'' True True @ craV_render_loop vec (indent @ ''  '') @ endTag_plain indent comma True)"

definition ContextRegistration_render :: "ContextRegistration \<Rightarrow> string \<Rightarrow> bool \<Rightarrow> bool \<Rightarrow> string" where
  "ContextRegistration_render cr indent comma isInVector =
     startTag1 indent ''contextRegistration'' (isInVector = False) False
     @ EntityIdVector_render (cr_entityIdVector cr) (indent @ ''  '') True
     @ ContextRegistrationAttributeVector_render (cr_attributeVector cr) (indent @ ''  '') True
     @ MetadataVector_render (cr_metadataVector cr) (indent @ ''  '') True
     @ ProvidingApplication_render (cr_providingApplication cr) (indent @ ''  '') False
     @ endTag_plain indent comma False"

fun crV_render_loop :: "ContextRegistration list \<Rightarrow> string \<Rightarrow> string" where
  "crV_render_loop [] indent = []"
| "crV_render_loop (cr # vec) indent = ContextRegistration_render cr indent (vec \<noteq> []) True @ crV_render_loop vec indent"

text \<open>The end tag gets the comma also as the sign of a vector.\<close>

definition ContextRegistrationVector_render :: "ContextRegistration list \<Rightarrow> string \<Rightarrow> bool \<Rightarrow> string" where
  "ContextRegistrationVector_render vec indent comma =
     (if vec = [] then []
      else startTag2 indent ''contextRegistrations'' True True @ crV_render_loop vec (indent @ ''  '')
             @ endTag_plain indent comma comma)"

definition ContextRegistrationResponse_render ::
    "ContextRegistrationResponse \<Rightarrow> string \<Rightarrow> bool \<Rightarrow> (string \<times> ContextRegistrationResponse) option" where
  "ContextRegistrationResponse_render crr indent comma =
     (let errorCodeRendered = (sc_code (crr_errorCode crr) \<noteq> SccNone);
          wrap = (\<lambda>out. startTag2 indent ''contextRegistration'' False False
                    @ ContextRegistration_render (crr_contextRegistration crr) (indent @ ''  '') errorCodeRendered False
                    @ out @ endTag_plain indent comma False)
      in if errorCodeRendered
         then map_option (\<lambda>(out, sc). (wrap out, crr\<lparr>crr_errorCode := sc\<rparr>))
                (StatusCode_render (crr_errorCode crr) (indent @ ''  '') False True)
         else Some (wrap [], crr))"

fun crrV_render_loop ::
    "ContextRegistrationResponse list \<Rightarrow> string \<Rightarrow> (string \<times> ContextRegistrationResponse list) option" where
  "crrV_render_loop [] indent = Some ([], [])"
| "crrV_render_loop (crr # vec) indent =
     (case ContextRegistrationResponse_render crr indent (vec \<noteq> []) of
        None \<Rightarrow> None
      | Some (out, crr) \<Rightarrow> map_option (\<lambda>(outs, vec). (out @ outs, crr # vec)) (crrV_render_loop vec indent))"

definition ContextRegistrationResponseVector_render ::
    "ContextRegistrationResponse list \<Rightarrow> string \<Rightarrow> bool \<Rightarrow> (string \<times> ContextRegistrationResponse list) option" where
  "ContextRegistrationResponseVector_render vec indent comma =
     (if vec = [] then Some ([], vec)
      else map_option (\<lambda>(out, vec). (startTag2 indent ''contextRegistrationResponses'' True True @ out
             @ endTag_plain indent comma True, vec)) (crrV_render_loop vec (indent @ ''  '')))"

subsection \<open>Checks\<close>

definition ProvidingApplication_check :: "ProvidingApplication \<Rightarrow> string" where
  "ProvidingApplication_check pa = (if pa_string pa = [] then ''no providing application'' else ''OK'')"

definition ContextRegistrationAttribute_check ::
    "bool \<Rightarrow> string \<Rightarrow> ContextRegistrationAttribute \<Rightarrow> string \<times> string list" where
  "ContextRegistrationAttribute_check idv1 apiVersion cra =
     (if cra_name cra = [] then (''missing name for registration attribute'', [])
      else if cra_isDomain cra = [] then (''missing isDomain value for registration attribute'', [])
      else if \<not> isTrue (cra_isDomain cra) \<and> \<not> isFalse (cra_isDomain cra)
      then (''invalid isDomain value for registration attribute: /'' @ cra_isDomain cra @ ''/'', [])
      else MetadataVector_check idv1 apiVersion (cra_metadataVector cra))"

fun ContextRegistrationAttributeVector_check ::
    "bool \<Rightarrow> string \<Rightarrow> ContextRegistrationAttribute list \<Rightarrow> string \<times> string list" where
  "ContextRegistrationAttributeVector_check idv1 apiVersion [] = (''OK'', [])"
| "ContextRegistrationAttributeVector_check idv1 apiVersion (cra # vec) =
     (let r = ContextRegistrationAttribute_check idv1 apiVersion cra
      in if fst r \<noteq> ''OK'' then r else ContextRegistrationAttributeVector_check idv1 apiVersion vec)"

definition ContextRegistration_check :: "bool \<Rightarrow> string \<Rightarrow> RequestType \<Rightarrow> ContextRegistration \<Rightarrow> string \<times> string list" where
  "ContextRegistration_check idv1 apiVersion request cr =
     (let r = EntityIdVector_check request (cr_entityIdVector cr)
      in if fst r \<noteq> ''OK'' then r
         else let r = ContextRegistrationAttributeVector_check idv1 apiVersion (cr_attributeVector cr)
         in if fst r \<noteq> ''OK'' then r
         else let r = MetadataVector_check idv1 apiVersion (cr_metadataVector cr)
         in if fst r \<noteq> ''OK'' then r
         else if ProvidingApplication_check (cr_providingApplication cr) \<noteq> ''OK''
         then (ProvidingApplication_check (cr_providingApplication cr), [])
         else if cr_entityIdVectorPresent cr \<and> cr_entityIdVector cr = [] then (''Empty entityIdVector'', [])
         else (''OK'', []))"

fun ContextRegistrationVector_check ::
    "bool \<Rightarrow> string \<Rightarrow> RequestType \<Rightarrow> ContextRegistration list \<Rightarrow> string \<times> string list" where
  "ContextRegistrationVector_check idv1 apiVersion request [] = (''OK'', [])"
| "ContextRegistrationVector_check idv1 apiVersion request (cr # vec) =
     (let r = ContextRegistration_check idv1 apiVersion request cr
      in if fst r \<noteq> ''OK'' then r else ContextRegistrationVector_check idv1 apiVersion request vec)"

definition ContextRegistrationResponseVector_check ::
    "bool \<Rightarrow> string \<Rightarrow> RequestType \<Rightarrow> ContextRegistrationResponse list \<Rightarrow> string \<times> string list" where
  "ContextRegistrationResponseVector_check idv1 apiVersion request vec =
     ContextRegistrationVector_check idv1 apiVersion request (map crr_contextRegistration vec)"

subsection \<open>Registrations from the database\<close>

record re_env =
  re_comp :: "string \<Rightarrow> bool"
  re_exec :: "string \<Rightarrow> string \<Rightarrow> bool"

text \<open>The result with the details of the alarm of a pattern that does not compile.\<close>

definition matchEntity :: "re_env \<Rightarrow> EntityId \<Rightarrow> EntityId \<Rightarrow> bool \<times> string list" where
  "matchEntity env en1 en2 =
     (let (idMatch, al) =
        (if isTrue (ei_isPattern en2)
         then if \<not> re_comp env (c_str (ei_id en2))
              then (False, [''error compiling regex for id: '' @ quoted (ei_id en2)])
              else (re_exec env (c_str (ei_id en2)) (c_str (ei_id en1)), [])
         else (ei_id en2 = ei_id en1, []))
      in (idMatch \<and> (ei_type en1 = [] \<or> ei_type en2 = [] \<or> ei_type en2 = ei_type en1), al))"

fun includedEntity :: "re_env \<Rightarrow> EntityId \<Rightarrow> EntityId list \<Rightarrow> bool \<times> string list" where
  "includedEntity env en [] = (False, [])"
| "includedEntity env en (e # entityIdV) =
     (case matchEntity env en e of
        (True, al) \<Rightarrow> (True, al)
      | (False, al) \<Rightarrow> map_prod id (append al) (includedEntity env en entityIdV))"

definition includedRegistrationAttribute :: "ContextRegistrationAttribute \<Rightarrow> string list \<Rightarrow> bool" where
  "includedRegistrationAttribute attr attrsV = (if attrsV = [] then True else includedAttribute_loop (cra_name attr) attrsV)"

text \<open>\<^verbatim>\<open>Array\<close> and \<^verbatim>\<open>String\<close> of an element of the driver, which throw when it is of another type.\<close>

fun bson_Array :: "bson option \<Rightarrow> bson list option" where
  "bson_Array (Some (BArr es)) = Some es"
| "bson_Array _ = None"

fun bson_String :: "bson option \<Rightarrow> string option" where
  "bson_String (Some (BStr s)) = Some s"
| "bson_String _ = None"

definition processEntity ::
    "re_env \<Rightarrow> EntityId list \<Rightarrow> doc \<Rightarrow> ContextRegistration \<Rightarrow> ContextRegistration \<times> string list" where
  "processEntity env enV entity cr =
     (let en = EntityId_new (getStringField entity ''id'')
                 (if hasField entity ''type'' then getStringField entity ''type'' else []) ''false''
      in case includedEntity env en enV of
           (inc, al) \<Rightarrow> (if inc then cr\<lparr>cr_entityIdVector := cr_entityIdVector cr @ [en]\<rparr> else cr, al))"

definition processAttribute :: "string list \<Rightarrow> doc \<Rightarrow> ContextRegistration \<Rightarrow> ContextRegistration" where
  "processAttribute attrL attribute cr =
     (let attr = ContextRegistrationAttribute_new (getStringField attribute ''name'') (getStringField attribute ''type'')
                   (getStringField attribute ''isDomain'')
      in if includedRegistrationAttribute attr attrL then cr\<lparr>cr_attributeVector := cr_attributeVector cr @ [attr]\<rparr> else cr)"

fun processEntities ::
    "re_env \<Rightarrow> EntityId list \<Rightarrow> bson list \<Rightarrow> ContextRegistration \<Rightarrow> (ContextRegistration \<times> string list) option" where
  "processEntities env enV [] cr = Some (cr, [])"
| "processEntities env enV (e # es) cr =
     (case embeddedObject (Some e) of
        None \<Rightarrow> None
      | Some d \<Rightarrow>
          (case processEntity env enV d cr of
             (cr, al) \<Rightarrow> map_option (map_prod id (append al)) (processEntities env enV es cr)))"

fun processAttributes :: "string list \<Rightarrow> bson list \<Rightarrow> ContextRegistration \<Rightarrow> ContextRegistration option" where
  "processAttributes attrL [] cr = Some cr"
| "processAttributes attrL (e # es) cr =
     (case embeddedObject (Some e) of None \<Rightarrow> None | Some d \<Rightarrow> processAttributes attrL es (processAttribute attrL d cr))"

definition processContextRegistrationElement ::
    "re_env \<Rightarrow> doc \<Rightarrow> EntityId list \<Rightarrow> string list \<Rightarrow> MimeType \<Rightarrow> ContextRegistrationResponse list
       \<Rightarrow> (ContextRegistrationResponse list \<times> string list) option" where
  "processContextRegistrationElement env d enV attrL mimeType crrV =
     (let cr = ContextRegistration_new\<lparr>cr_providingApplication :=
                 \<lparr>pa_string = getStringField d ''providingApplication'', pa_mimeType = mimeType\<rparr>\<rparr>
      in case Option.bind (bson_Array (getField d ''entities'')) (\<lambda>es. processEntities env enV es cr) of
           None \<Rightarrow> None
         | Some (cr, al) \<Rightarrow>
             (case (if cr_entityIdVector cr \<noteq> [] \<and> hasField d ''attrs''
                    then Option.bind (bson_Array (getField d ''attrs'')) (\<lambda>as. processAttributes attrL as cr) else Some cr) of
                None \<Rightarrow> None
              | Some cr \<Rightarrow>
                  if cr_entityIdVector cr = [] then Some (crrV, al)
                  else if cr_attributeVector cr \<noteq> [] \<or> cr_attributeVector cr = [] \<and> attrL = []
                  then Some (crrV @ [ContextRegistrationResponse_new\<lparr>crr_contextRegistration := cr\<rparr>], al)
                  else Some (crrV, al)))"

fun registration_elements ::
    "re_env \<Rightarrow> bson list \<Rightarrow> EntityId list \<Rightarrow> string list \<Rightarrow> ContextRegistrationResponse list
       \<Rightarrow> (ContextRegistrationResponse list \<times> string list) option" where
  "registration_elements env [] enV attrL crrV = Some (crrV, [])"
| "registration_elements env (e # es) enV attrL crrV =
     (case embeddedObject (Some e) of
        None \<Rightarrow> None
      | Some d \<Rightarrow>
          (case processContextRegistrationElement env d enV attrL JSON crrV of
             None \<Rightarrow> None
           | Some (crrV, al) \<Rightarrow> map_option (map_prod id (append al)) (registration_elements env es enV attrL crrV)))"

text \<open>The loop of \<^verbatim>\<open>registrationsQuery\<close> over the documents that the query finds.\<close>

fun registrations_found ::
    "re_env \<Rightarrow> doc list \<Rightarrow> EntityId list \<Rightarrow> string list \<Rightarrow> ContextRegistrationResponse list
       \<Rightarrow> (ContextRegistrationResponse list \<times> string list) option" where
  "registrations_found env [] enV attrL crrV = Some (crrV, [])"
| "registrations_found env (r # rs) enV attrL crrV =
     (case Option.bind (bson_Array (getField r ''contextRegistration'')) (\<lambda>es. registration_elements env es enV attrL crrV) of
        None \<Rightarrow> None
      | Some (crrV, al) \<Rightarrow> map_option (map_prod id (append al)) (registrations_found env rs enV attrL crrV))"

subsection \<open>Providers of an attribute\<close>

text \<open>
  The search through the entities of one registration: the first result is the provider of the attribute, with which
  the whole search ends, the second the provider of the entity.
\<close>

fun cpr_entities ::
    "EntityId \<Rightarrow> string \<Rightarrow> ContextRegistration \<Rightarrow> EntityId list \<Rightarrow> ProvidingApplication
       \<Rightarrow> ProvidingApplication option \<times> ProvidingApplication" where
  "cpr_entities en attrName cr [] perEnt = (None, perEnt)"
| "cpr_entities en attrName cr (regEn # es) perEnt =
     (if ei_id regEn \<noteq> ei_id en \<or> ei_type regEn \<noteq> ei_type en \<and> ei_type regEn \<noteq> []
      then cpr_entities en attrName cr es perEnt
      else if cr_attributeVector cr = [] then (None, cr_providingApplication cr)
      else if list_ex (\<lambda>a. cra_name a = attrName) (cr_attributeVector cr) then (Some (cr_providingApplication cr), perEnt)
      else cpr_entities en attrName cr es perEnt)"

fun cpr_loop ::
    "EntityId \<Rightarrow> string \<Rightarrow> ContextRegistrationResponse list \<Rightarrow> ProvidingApplication
       \<Rightarrow> ProvidingApplication option \<times> ProvidingApplication" where
  "cpr_loop en attrName [] perEnt = (None, perEnt)"
| "cpr_loop en attrName (crr # crrV) perEnt =
     (let cr = crr_contextRegistration crr
      in case cpr_entities en attrName cr (cr_entityIdVector cr) perEnt of
           (Some p, perEnt) \<Rightarrow> (Some p, perEnt)
         | (None, perEnt) \<Rightarrow> cpr_loop en attrName crrV perEnt)"

definition cprLookupByAttribute ::
    "EntityId \<Rightarrow> string \<Rightarrow> ContextRegistrationResponse list \<Rightarrow> ProvidingApplication \<times> ProvidingApplication" where
  "cprLookupByAttribute en attrName crrV =
     (case cpr_loop en attrName crrV ProvidingApplication_new of
        (Some perAttr, perEnt) \<Rightarrow> (perEnt, perAttr)
      | (None, perEnt) \<Rightarrow> (perEnt, ProvidingApplication_new))"

definition fill_provider :: "EntityId \<Rightarrow> ContextRegistrationResponse list \<Rightarrow> ContextAttribute \<Rightarrow> ContextAttribute" where
  "fill_provider en crrV ca =
     (if ca_found ca then ca
      else case cprLookupByAttribute en (ca_name ca) crrV of
             (perEnt, perAttr) \<Rightarrow>
               (let pa = (if pa_string perAttr = [] then perEnt else perAttr)
                in ca\<lparr>ca_providingApplication := pa, ca_found := (pa_string pa \<noteq> [])\<rparr>))"

definition fillContextProviders ::
    "ContextElementResponse \<Rightarrow> ContextRegistrationResponse list \<Rightarrow> ContextElementResponse" where
  "fillContextProviders cer crrV =
     (let ce = contextElement cer
      in cer\<lparr>contextElement := ce\<lparr>contextAttributeVector :=
           map (fill_provider (ce_entityId ce) crrV) (contextAttributeVector ce)\<rparr>\<rparr>)"

definition someContextElementNotFound :: "ContextElementResponse \<Rightarrow> bool" where
  "someContextElementNotFound cer = list_ex (\<lambda>ca. \<not> ca_found ca) (contextAttributeVector (contextElement cer))"

text \<open>
  \<^verbatim>\<open>searchContextProviders\<close>: \<open>query\<close> gives the registrations that \<^verbatim>\<open>registrationsQuery\<close>
  answers for a list of attribute names, or the text of its error, which is raised as an alarm of the database.
\<close>

definition provider_lookup ::
    "(string list \<Rightarrow> string + ContextRegistrationResponse list) \<Rightarrow> string list \<Rightarrow> ContextElementResponse
       \<Rightarrow> ContextElementResponse \<times> string list" where
  "provider_lookup query attrL cer =
     (if someContextElementNotFound cer
      then case query attrL of
             Inl err \<Rightarrow> (cer, [err])
           | Inr crrV \<Rightarrow> (if crrV \<noteq> [] then fillContextProviders cer crrV else cer, [])
      else (cer, []))"

definition searchContextProviders ::
    "(string list \<Rightarrow> string + ContextRegistrationResponse list) \<Rightarrow> ContextAttribute list \<Rightarrow> ContextElementResponse
       \<Rightarrow> ContextElementResponse \<times> string list" where
  "searchContextProviders query caV cer =
     (let (cer, al) = provider_lookup query (map ca_name caV) cer
      in map_prod id (append al) (provider_lookup query [] cer))"

definition forwardsPending :: "ContextElementResponse list \<Rightarrow> bool" where
  "forwardsPending cerV =
     list_ex (\<lambda>cer. list_ex (\<lambda>ca. pa_string (ca_providingApplication ca) \<noteq> []) (contextAttributeVector (contextElement cer))) cerV"

subsection \<open>Which provider is chosen\<close>

definition reg_covers :: "EntityId \<Rightarrow> ContextRegistration \<Rightarrow> bool" where
  "reg_covers en cr = list_ex (\<lambda>e. ei_id e = ei_id en \<and> (ei_type e = ei_type en \<or> ei_type e = [])) (cr_entityIdVector cr)"

definition provides_attr :: "EntityId \<Rightarrow> string \<Rightarrow> ContextRegistration \<Rightarrow> bool" where
  "provides_attr en attrName cr = (reg_covers en cr \<and> attrName \<in> set (map cra_name (cr_attributeVector cr)))"

definition provides_entity :: "EntityId \<Rightarrow> ContextRegistration \<Rightarrow> bool" where
  "provides_entity en cr = (reg_covers en cr \<and> cr_attributeVector cr = [])"

text \<open>The last element with a property, and what stands for it when there is none.\<close>

definition last_of :: "'a \<Rightarrow> ('b \<Rightarrow> 'a) \<Rightarrow> 'b list \<Rightarrow> 'a" where
  "last_of d f xs = (if xs = [] then d else f (last xs))"

lemma last_of_simps [simp]: "last_of d f [] = d" "last_of d f (x # xs) = last_of (f x) f xs"
  by (simp_all add: last_of_def)

lemma cpr_entities_spec:
  "cpr_entities en a cr es perEnt =
     (if list_ex (\<lambda>e. ei_id e = ei_id en \<and> (ei_type e = ei_type en \<or> ei_type e = [])) es
      then if cr_attributeVector cr = [] then (None, cr_providingApplication cr)
           else if a \<in> set (map cra_name (cr_attributeVector cr)) then (Some (cr_providingApplication cr), perEnt)
           else (None, perEnt)
      else (None, perEnt))"
  by (induction es) (auto simp: list_ex_iff)

lemma cpr_loop_spec:
  "cpr_loop en a crrV perEnt =
     (let crs = map crr_contextRegistration crrV
      in (map_option cr_providingApplication (List.find (provides_attr en a) crs),
          last_of perEnt cr_providingApplication
            (filter (provides_entity en) (takeWhile (\<lambda>cr. \<not> provides_attr en a cr) crs))))"
proof (induction crrV arbitrary: perEnt)
  case (Cons crr crrV)
  let ?cr = "crr_contextRegistration crr"
  have "cpr_entities en a ?cr (cr_entityIdVector ?cr) perEnt =
      (if provides_entity en ?cr then (None, cr_providingApplication ?cr)
       else if provides_attr en a ?cr then (Some (cr_providingApplication ?cr), perEnt) else (None, perEnt))"
    by (auto simp: cpr_entities_spec provides_entity_def provides_attr_def reg_covers_def)
  moreover have "\<not> (provides_entity en ?cr \<and> provides_attr en a ?cr)" by (auto simp: provides_entity_def provides_attr_def)
  ultimately show ?case using Cons.IH by (auto simp: Let_def)
qed simp

text \<open>What the search of a provider means: the first registration of the attribute decides; if there is none, or it
  names no application, the last registration of the whole entity before it.\<close>

definition chosen_provider :: "EntityId \<Rightarrow> string \<Rightarrow> ContextRegistration list \<Rightarrow> ProvidingApplication" where
  "chosen_provider en attrName crs =
     (let ofEntity = last_of ProvidingApplication_new cr_providingApplication
                       (filter (provides_entity en) (takeWhile (\<lambda>cr. \<not> provides_attr en attrName cr) crs))
      in case List.find (provides_attr en attrName) crs of
           None \<Rightarrow> ofEntity
         | Some cr \<Rightarrow> if pa_string (cr_providingApplication cr) = [] then ofEntity else cr_providingApplication cr)"

lemma fill_provider_spec:
  "fill_provider en crrV ca =
     (if ca_found ca then ca
      else let pa = chosen_provider en (ca_name ca) (map crr_contextRegistration crrV)
           in ca\<lparr>ca_providingApplication := pa, ca_found := (pa_string pa \<noteq> [])\<rparr>)"
proof -
  have "cprLookupByAttribute en (ca_name ca) crrV = (perEnt, perAttr)
      \<Longrightarrow> chosen_provider en (ca_name ca) (map crr_contextRegistration crrV) = (if pa_string perAttr = [] then perEnt else perAttr)"
    for perEnt perAttr
    by (cases "List.find (provides_attr en (ca_name ca)) (map crr_contextRegistration crrV)")
       (auto simp: cprLookupByAttribute_def cpr_loop_spec chosen_provider_def ProvidingApplication_new_def Let_def)
  then show ?thesis by (auto simp: fill_provider_def Let_def split: prod.splits)
qed

text \<open>The two lookups of \<^verbatim>\<open>searchContextProviders\<close>, one attribute at a time.\<close>

definition provider_in :: "(string list \<Rightarrow> string + ContextRegistrationResponse list) \<Rightarrow> string list \<Rightarrow> EntityId \<Rightarrow> ContextAttribute \<Rightarrow> ContextAttribute" where
  "provider_in query attrL en ca = (case query attrL of Inl err \<Rightarrow> ca | Inr crrV \<Rightarrow> if crrV = [] then ca else fill_provider en crrV ca)"

lemma provider_in_found [simp]: "ca_found ca \<Longrightarrow> provider_in query attrL en ca = ca"
  by (simp add: provider_in_def fill_provider_def split: sum.split)

lemma provider_lookup_attrs:
  "fst (provider_lookup query attrL cer) =
     (let ce = contextElement cer
      in cer\<lparr>contextElement := ce\<lparr>contextAttributeVector := map (provider_in query attrL (ce_entityId ce)) (contextAttributeVector ce)\<rparr>\<rparr>)"
proof (cases "someContextElementNotFound cer")
  case True
  have "provider_in query attrL en = (\<lambda>ca. ca)" if "query attrL = Inl err \<or> query attrL = Inr []" for en err
    using that by (auto simp: provider_in_def)
  moreover have "provider_in query attrL en = fill_provider en crrV" if "query attrL = Inr crrV" "crrV \<noteq> []" for en crrV
    using that by (auto simp: provider_in_def)
  ultimately show ?thesis using True
    by (auto simp: provider_lookup_def fillContextProviders_def Let_def split: sum.split)
next
  case False
  then have "map (provider_in query attrL en) (contextAttributeVector (contextElement cer)) = contextAttributeVector (contextElement cer)" for en
    by (auto simp: someContextElementNotFound_def list_ex_iff intro!: map_idI)
  with False show ?thesis by (simp add: provider_lookup_def Let_def)
qed

text \<open>C7: the search of context providers changes an attribute of the response only when it was not found locally: it
  gets the application that \<^const>\<open>chosen_provider\<close> gives, first among the registrations that name the
  attributes of the request, and if none of them applies among those of whole entities, and counts as found exactly
  when there is an application.\<close>

theorem search_providers:
  "contextAttributeVector (contextElement (fst (searchContextProviders query caV cer))) =
     map (\<lambda>ca. provider_in query [] (ce_entityId (contextElement cer))
                (provider_in query (map ca_name caV) (ce_entityId (contextElement cer)) ca))
       (contextAttributeVector (contextElement cer))
   \<and> (\<forall>attrL en ca crrV. query attrL = Inr crrV \<longrightarrow>
       provider_in query attrL en ca =
         (if ca_found ca \<or> crrV = [] then ca
          else let pa = chosen_provider en (ca_name ca) (map crr_contextRegistration crrV)
               in ca\<lparr>ca_providingApplication := pa, ca_found := (pa_string pa \<noteq> [])\<rparr>))"
proof -
  have "searchContextProviders query caV cer =
      map_prod id (append (snd (provider_lookup query (map ca_name caV) cer)))
        (provider_lookup query [] (fst (provider_lookup query (map ca_name caV) cer)))"
    by (simp add: searchContextProviders_def Let_def split: prod.split)
  then have "contextAttributeVector (contextElement (fst (searchContextProviders query caV cer))) =
      map (\<lambda>ca. provider_in query [] (ce_entityId (contextElement cer))
                (provider_in query (map ca_name caV) (ce_entityId (contextElement cer)) ca))
       (contextAttributeVector (contextElement cer))"
    by (simp add: provider_lookup_attrs Let_def)
  then show ?thesis by (simp add: provider_in_def fill_provider_spec split: sum.split)
qed

definition reg_demo :: "string \<Rightarrow> string list \<Rightarrow> ContextRegistrationResponse" where
  "reg_demo pa as = ContextRegistrationResponse_new\<lparr>crr_contextRegistration := ContextRegistration_new\<lparr>
     cr_entityIdVector := [EntityId_new ''Room1'' [] ''false''],
     cr_attributeVector := map (\<lambda>a. ContextRegistrationAttribute_new a ''T'' ''false'') as,
     cr_providingApplication := \<lparr>pa_string = pa, pa_mimeType = JSON\<rparr>\<rparr>\<rparr>"

theorem search_providers_witness:
  "map (pa_string \<circ> ca_providingApplication) (contextAttributeVector (contextElement (fst
     (searchContextProviders (\<lambda>attrL. if attrL = [] then Inr [reg_demo ''http://e1'' [], reg_demo ''http://e2'' []]
                               else Inr [reg_demo ''http://t'' [''temperature'']])
        [ContextAttribute_string ''temperature'' [] [] False, ContextAttribute_string ''pressure'' [] [] False]
        (ContextElementResponse_new\<lparr>contextElement := (ContextElement_of ''Room1'' ''Room'' ''false'')\<lparr>contextAttributeVector :=
           [ContextAttribute_string ''temperature'' [] [] False, ContextAttribute_string ''pressure'' [] [] False]\<rparr>\<rparr>)))))
   = [''http://t'', ''http://e2'']"
  by (subst conjunct1 [OF search_providers]) code_simp

subsection \<open>The registrations that are reported\<close>

definition crr_relevant :: "re_env \<Rightarrow> EntityId list \<Rightarrow> string list \<Rightarrow> ContextRegistrationResponse \<Rightarrow> bool" where
  "crr_relevant env enV attrL crr =
     (let cr = crr_contextRegistration crr
      in cr_entityIdVector cr \<noteq> [] \<and> (\<forall>e\<in>set (cr_entityIdVector cr). fst (includedEntity env e enV))
         \<and> (attrL \<noteq> [] \<longrightarrow> cr_attributeVector cr \<noteq> [] \<and> (\<forall>a\<in>set (cr_attributeVector cr). cra_name a \<in> set attrL)))"

lemma includedAttribute_loop_set [simp]: "includedAttribute_loop name as \<longleftrightarrow> name \<in> set as"
  by (induction as) auto

lemma processEntities_included:
  "processEntities env enV es cr = Some (cr', al) \<Longrightarrow>
     \<forall>e\<in>set (cr_entityIdVector cr). fst (includedEntity env e enV) \<Longrightarrow>
     (\<forall>e\<in>set (cr_entityIdVector cr'). fst (includedEntity env e enV)) \<and> cr_attributeVector cr' = cr_attributeVector cr"
proof (induction es arbitrary: cr al)
  case (Cons e es)
  from Cons.prems(1) obtain d cr1 al1 al2 where d: "processEntity env enV d cr = (cr1, al1)"
      "processEntities env enV es cr1 = Some (cr', al2)"
    by (auto split: option.splits prod.splits)
  from d(1) Cons.prems(2) have "(\<forall>e\<in>set (cr_entityIdVector cr1). fst (includedEntity env e enV))
      \<and> cr_attributeVector cr1 = cr_attributeVector cr"
    by (auto simp: processEntity_def Let_def split: prod.splits if_splits)
  with Cons.IH [OF d(2)] show ?case by simp
qed simp

lemma processAttributes_included:
  "processAttributes attrL es cr = Some cr' \<Longrightarrow>
     attrL \<noteq> [] \<longrightarrow> (\<forall>a\<in>set (cr_attributeVector cr). cra_name a \<in> set attrL) \<Longrightarrow>
     cr_entityIdVector cr' = cr_entityIdVector cr \<and>
     (attrL \<noteq> [] \<longrightarrow> (\<forall>a\<in>set (cr_attributeVector cr'). cra_name a \<in> set attrL))"
proof (induction es arbitrary: cr)
  case (Cons e es)
  from Cons.prems(1) obtain d where d: "processAttributes attrL es (processAttribute attrL d cr) = Some cr'"
    by (auto split: option.splits)
  have "cr_entityIdVector (processAttribute attrL d cr) = cr_entityIdVector cr
      \<and> (attrL \<noteq> [] \<longrightarrow> (\<forall>a\<in>set (cr_attributeVector (processAttribute attrL d cr)). cra_name a \<in> set attrL))"
    using Cons.prems(2) by (auto simp: processAttribute_def includedRegistrationAttribute_def Let_def)
  with Cons.IH [OF d] show ?case by simp
qed simp

lemma processElement_relevant:
  assumes "processContextRegistrationElement env d enV attrL m crrV = Some (crrV', al)"
    "\<forall>crr\<in>set crrV. crr_relevant env enV attrL crr"
  shows "\<forall>crr\<in>set crrV'. crr_relevant env enV attrL crr"
proof -
  let ?cr0 = "ContextRegistration_new\<lparr>cr_providingApplication := \<lparr>pa_string = getStringField d ''providingApplication'', pa_mimeType = m\<rparr>\<rparr>"
  from assms(1) obtain es cr1 cr where cr: "processEntities env enV es ?cr0 = Some (cr1, al)"
      "cr = cr1 \<or> (\<exists>as. processAttributes attrL as cr1 = Some cr)"
      "crrV' = crrV \<or> cr_entityIdVector cr \<noteq> [] \<and> (cr_attributeVector cr \<noteq> [] \<or> attrL = [])
         \<and> crrV' = crrV @ [ContextRegistrationResponse_new\<lparr>crr_contextRegistration := cr\<rparr>]"
    by (auto simp: processContextRegistrationElement_def Let_def bind_eq_Some_conv split: option.splits if_splits) metis+
  from processEntities_included [OF cr(1)] have "(\<forall>e\<in>set (cr_entityIdVector cr1). fst (includedEntity env e enV))"
      "cr_attributeVector cr1 = []" by (simp_all add: ContextRegistration_new_def)
  with cr(2) processAttributes_included [of attrL _ cr1 cr]
  have "(\<forall>e\<in>set (cr_entityIdVector cr). fst (includedEntity env e enV))
      \<and> (attrL \<noteq> [] \<longrightarrow> (\<forall>a\<in>set (cr_attributeVector cr). cra_name a \<in> set attrL))" by auto
  with cr(3) assms(2) show ?thesis by (auto simp: crr_relevant_def ContextRegistrationResponse_new_def Let_def)
qed

lemma elements_relevant:
  "registration_elements env es enV attrL crrV = Some (crrV', al) \<Longrightarrow> \<forall>crr\<in>set crrV. crr_relevant env enV attrL crr \<Longrightarrow>
     \<forall>crr\<in>set crrV'. crr_relevant env enV attrL crr"
proof (induction es arbitrary: crrV al)
  case (Cons e es)
  then obtain d crrV1 al1 al2 where "processContextRegistrationElement env d enV attrL JSON crrV = Some (crrV1, al1)"
      "registration_elements env es enV attrL crrV1 = Some (crrV', al2)"
    by (auto split: option.splits)
  with Cons.IH processElement_relevant Cons.prems(2) show ?case by blast
qed simp

lemma registrations_relevant:
  "registrations_found env rs enV attrL crrV = Some (crrV', al) \<Longrightarrow> \<forall>crr\<in>set crrV. crr_relevant env enV attrL crr \<Longrightarrow>
     \<forall>crr\<in>set crrV'. crr_relevant env enV attrL crr"
proof (induction rs arbitrary: crrV al)
  case (Cons r rs)
  then obtain es crrV1 al1 al2 where "registration_elements env es enV attrL crrV = Some (crrV1, al1)"
      "registrations_found env rs enV attrL crrV1 = Some (crrV', al2)"
    by (auto simp: bind_eq_Some_conv split: option.splits)
  with Cons.IH elements_relevant Cons.prems(2) show ?case by blast
qed simp

text \<open>A vector of registrations that is rendered without a comma is closed like an object.\<close>

lemma registrations_bracket: "ContextRegistrationVector_render (cr # vec) indent False =
    startTag2 indent ''contextRegistrations'' True True @ crV_render_loop (cr # vec) (indent @ ''  '') @ indent @ ''}'' @ NL"
  by (simp add: ContextRegistrationVector_render_def endTag_def)

end
