(* ===== verification/Orion_Query.thy ===== *)
theory Orion_Query
  imports Orion_Ngsi10 Orion_Registration Orion_SubCache
begin

section \<open>Queries: mongoBackend/MongoGlobal.cpp\<close>

text \<open>
  What the broker asks the database, and what it makes of the answer. A query document has regular expressions, and
  parts that the driver parses from JSON text, beside values; the documents of the answer come from a cursor, whose
  steps can throw. \<^const>\<open>None\<close> is an exception that nothing catches, or a read or write outside a buffer.
\<close>

subsection \<open>Names of databases\<close>

record db_conf =
  multitenant :: bool
  dbPrefix :: string
  entitiesCollectionName :: string
  registrationsCollectionName :: string
  subscribeContextCollectionName :: string
  subscribeContextAvailabilityCollectionName :: string

definition composeDatabaseName :: "db_conf \<Rightarrow> string \<Rightarrow> string" where
  "composeDatabaseName conf tenant =
     (if \<not> multitenant conf \<or> tenant = [] then dbPrefix conf else dbPrefix conf @ ''-'' @ tenant)"

definition composeCollectionName :: "db_conf \<Rightarrow> string \<Rightarrow> string \<Rightarrow> string" where
  "composeCollectionName conf tenant colName = composeDatabaseName conf tenant @ ''.'' @ colName"

definition getEntitiesCollectionName :: "db_conf \<Rightarrow> string \<Rightarrow> string" where
  "getEntitiesCollectionName conf tenant = composeCollectionName conf tenant (entitiesCollectionName conf)"

definition getRegistrationsCollectionName :: "db_conf \<Rightarrow> string \<Rightarrow> string" where
  "getRegistrationsCollectionName conf tenant = composeCollectionName conf tenant (registrationsCollectionName conf)"

definition getSubscribeContextCollectionName :: "db_conf \<Rightarrow> string \<Rightarrow> string" where
  "getSubscribeContextCollectionName conf tenant = composeCollectionName conf tenant (subscribeContextCollectionName conf)"

definition getSubscribeContextAvailabilityCollectionName :: "db_conf \<Rightarrow> string \<Rightarrow> string" where
  "getSubscribeContextAvailabilityCollectionName conf tenant =
     composeCollectionName conf tenant (subscribeContextAvailabilityCollectionName conf)"

text \<open>The names among those of the server that belong to the broker.\<close>

definition getOrionDatabases :: "db_conf \<Rightarrow> string list \<Rightarrow> string list" where
  "getOrionDatabases conf databases =
     (let prefix = dbPrefix conf @ ''-'' in filter (\<lambda>n. take (length prefix) n = prefix) databases)"

text \<open>The buffer has 50 bytes, and \<^verbatim>\<open>strncpy\<close> leaves it without a terminator when the name has more than 49 characters.\<close>

definition tenantFromDb :: "db_conf \<Rightarrow> string \<Rightarrow> string option" where
  "tenantFromDb conf database =
     (let prefix = dbPrefix conf @ ''-''
      in if take (length prefix) database = prefix
         then let tenant = drop (length prefix) database in if length tenant < 50 then Some tenant else None
         else Some [])"

subsection \<open>Service paths\<close>

fun slashEscape_loop :: "nat \<Rightarrow> string \<Rightarrow> string \<Rightarrow> string" where
  "slashEscape_loop toLen [] to = to"
| "slashEscape_loop toLen (c # cs) to =
     (if toLen - 2 \<le> length to then to
      else slashEscape_loop toLen cs (to @ (if c = CHR ''/'' then [CHR 0x5C] else []) @ [c]))"

text \<open>The text in the buffer; none when the function leaves the buffer as it was or without a terminator.\<close>

definition slashEscape :: "string \<Rightarrow> nat \<Rightarrow> string option" where
  "slashEscape from toLen =
     (let slashes = length (filter (\<lambda>c. c = CHR ''/'') from)
      in if toLen < length from + slashes + 1 then if toLen < 6 then None else Some ''ERROR''
         else if from = [] \<or> toLen = 2 then None
         else Some (slashEscape_loop toLen from []))"

definition sp_token :: "string \<Rightarrow> string option" where
  "sp_token servicePath =
     Option.bind (slashEscape servicePath 10240) (\<lambda>path.
       if path = [] then None
       else if last path = CHR ''#''
       then if length path < 3 then None
            else let path = take (length path - 3) path
                 in Some (''/^'' @ path @ ''$/, '' @ ''/^'' @ path @ [CHR 0x5C] @ ''/.*/'')
       else Some (''/^'' @ path @ ''$/''))"

fun fillQueryServicePath_loop :: "string list \<Rightarrow> bool \<Rightarrow> string option" where
  "fillQueryServicePath_loop [] nullAdded = Some []"
| "fillQueryServicePath_loop (sp # sps) nullAdded =
     (let null = (\<not> nullAdded \<and> (sp = ''/'' \<or> sp = ''/#''))
      in Option.bind (sp_token (c_str sp)) (\<lambda>t.
         map_option (\<lambda>rest. (if null then ''null, '' else []) @ t @ (if sps \<noteq> [] then '', '' else []) @ rest)
           (fillQueryServicePath_loop sps (nullAdded \<or> null))))"

text \<open>The text that is given to \<^verbatim>\<open>fromjson\<close>.\<close>

definition fillQueryServicePath :: "string list \<Rightarrow> string option" where
  "fillQueryServicePath servicePath =
     (case servicePath of
        [] \<Rightarrow> None
      | sp # _ \<Rightarrow>
          if sp = [] then Some (''{$in: [ /^'' @ [CHR 0x5C] @ ''/.*/, null] }'')
          else map_option (\<lambda>t. ''{ $in: [ '' @ t @ '' ] }'') (fillQueryServicePath_loop servicePath False))"

subsection \<open>The query for entities\<close>

datatype query = QVal bson | QRegex string | QJson string | QArr "query list" | QObj "(string \<times> query) list"

definition fillQueryEntity :: "EntityId \<Rightarrow> query" where
  "fillQueryEntity en =
     QObj ([(''_id.id'', if ei_isPattern en = ''true'' then QRegex (ei_id en) else QVal (BStr (ei_id en)))]
           @ (if ei_type en \<noteq> [] then [(''_id.type'', QVal (BStr (ei_type en)))] else []))"

definition sortCriteria :: "string \<Rightarrow> string" where
  "sortCriteria sortToken =
     (if sortToken = ''dateCreated'' then ''creDate''
      else if sortToken = ''dateModified'' then ''modDate''
      else ''attrs.'' @ sortToken @ ''.value'')"

text \<open>The sort order: none for the order by distance. The tokens are those that \<^verbatim>\<open>stringSplit\<close> gives; an
  empty one has no first character other than its terminator.\<close>

definition sort_token :: "string \<Rightarrow> string \<times> int" where
  "sort_token t = (case t of c # cs \<Rightarrow> if c = CHR ''!'' then (sortCriteria cs, - 1) else (sortCriteria t, 1)
                   | [] \<Rightarrow> (sortCriteria t, 1))"

definition sort_order :: "string \<Rightarrow> (string \<times> int) list option" where
  "sort_order sortOrderList =
     (if sortOrderList = [] then Some [(''creDate'', 1)]
      else if sortOrderList = ''geo:distance'' then None
      else case stringSplit sortOrderList CHR '','' [] of (components, sortedV) \<Rightarrow> Some (map sort_token sortedV))"

definition entities_query :: "EntityId list \<Rightarrow> string list \<Rightarrow> string list \<Rightarrow> (string \<times> query) list \<Rightarrow> (string \<times> query) list option" where
  "entities_query enV attrL servicePath scopes =
     map_option (\<lambda>sp.
       [(''$or'', QArr (map fillQueryEntity enV)), (''_id.servicePath'', QJson sp)]
       @ (if attrL \<noteq> [] then [(''attrNames'', QObj [(''$in'', QArr (map (QVal \<circ> BStr) attrL))])] else [])
       @ scopes)
       (fillQueryServicePath servicePath)"

subsection \<open>The answer\<close>

text \<open>One step of the cursor: a document, an assertion of the driver, or another exception with its text.\<close>

datatype cursor_step = CDoc doc | CAssertion string | CException string

record query_opts =
  includeEmpty :: bool
  includeCreDate :: bool
  includeModDate :: bool
  q_apiVersion :: string

text \<open>
  What \<^verbatim>\<open>entitiesQuery\<close> leaves behind: its result, the vector, \<^verbatim>\<open>*err\<close>, \<^verbatim>\<open>*limitReached\<close> when the
  caller asked for it, whether the connection was given back to the pool, and the alarms of the database.
\<close>

record query_result =
  qr_ok :: bool
  qr_cerV :: "ContextElementResponse list"
  qr_err :: string
  qr_limitReached :: bool
  qr_released :: bool
  qr_dbErrors :: "string list"

definition add_not_found :: "ContextElementResponse \<Rightarrow> string \<Rightarrow> ContextElementResponse" where
  "add_not_found cer attrName =
     (let ce = contextElement cer
      in if list_ex (\<lambda>ca. attrName = ca_name ca) (contextAttributeVector ce) then cer
         else cer\<lparr>contextElement := ce\<lparr>contextAttributeVector :=
                contextAttributeVector ce @ [ContextAttribute_string attrName [] [] False]\<rparr>\<rparr>)"

definition document_response :: "query_opts \<Rightarrow> string list \<Rightarrow> doc \<Rightarrow> ContextElementResponse option" where
  "document_response opts attrL r =
     map_option (\<lambda>cer.
       let cer = foldl add_not_found (cer\<lparr>statusCode := StatusCode_fill (statusCode cer) SccOk []\<rparr>) attrL
       in cer\<lparr>statusCode := StatusCode_fill (statusCode cer) SccOk []\<rparr>)
       (ContextElementResponse_bson r attrL (includeEmpty opts) (includeCreDate opts) (includeModDate opts) (q_apiVersion opts))"

definition assertion_text :: "string \<Rightarrow> string" where
  "assertion_text exErr =
     (if take 36 exErr = ''Exterior shell of polygon is invalid'' then ''Exterior shell of polygon is invalid''
      else ''Error at querying MongoDB'')"

definition assertion_response :: "EntityId list \<Rightarrow> string \<Rightarrow> ContextElementResponse" where
  "assertion_response enV exErr =
     (let cer = ContextElementResponse_new; ce = contextElement cer
      in cer\<lparr>contextElement := ce\<lparr>ce_entityId :=
               (case enV of [en] \<Rightarrow> EntityId_fill_from en False | _ \<Rightarrow> EntityId_fill (ce_entityId ce) [] [] [])\<rparr>,
             statusCode := StatusCode_fill (statusCode cer) SccReceiverInternalError (assertion_text exErr)\<rparr>)"

definition added_entity :: "string list \<Rightarrow> EntityId \<Rightarrow> ContextElementResponse" where
  "added_entity attrL en =
     (let cer = ContextElementResponse_new
      in cer\<lparr>contextElement := (contextElement cer)\<lparr>
               ce_entityId := EntityId_new (ei_id en) (ei_type en) ''false'',
               contextAttributeVector := map (\<lambda>a. ContextAttribute_string a [] [] False) attrL\<rparr>,
             cer_prune := True, statusCode := StatusCode_fill (statusCode cer) SccOk []\<rparr>)"

definition add_missing_entity :: "string list \<Rightarrow> ContextElementResponse list \<Rightarrow> EntityId \<Rightarrow> ContextElementResponse list" where
  "add_missing_entity attrL cerV en =
     (if ei_isPattern en \<noteq> ''true''
         \<and> \<not> list_ex (\<lambda>cer. ei_id (ce_entityId (contextElement cer)) = ei_id en
                          \<and> ei_type (ce_entityId (contextElement cer)) = ei_type en) cerV
      then cerV @ [added_entity attrL en] else cerV)"

text \<open>After the cursor: the limit counts as reached when at least \<open>limit\<close> (as an unsigned number) entities were found.\<close>

definition entitiesQuery_end :: "EntityId list \<Rightarrow> string list \<Rightarrow> int option \<Rightarrow> query_result \<Rightarrow> query_result" where
  "entitiesQuery_end enV attrL limitP r =
     (let reached = (case limitP of None \<Rightarrow> False | Some limit \<Rightarrow> limit mod 2 ^ 32 \<le> int (length (qr_cerV r)));
          r = r\<lparr>qr_released := True, qr_limitReached := reached\<rparr>
      in if reached then r else r\<lparr>qr_cerV := foldl (add_missing_entity attrL) (qr_cerV r) enV\<rparr>)"

fun entitiesQuery_loop ::
    "query_opts \<Rightarrow> EntityId list \<Rightarrow> string list \<Rightarrow> int option \<Rightarrow> cursor_step list \<Rightarrow> query_result \<Rightarrow> query_result option" where
  "entitiesQuery_loop opts enV attrL limitP [] r = Some (entitiesQuery_end enV attrL limitP r)"
| "entitiesQuery_loop opts enV attrL limitP (CAssertion exErr # steps) r =
     Some (r\<lparr>qr_cerV := qr_cerV r @ [assertion_response enV exErr], qr_dbErrors := qr_dbErrors r @ [exErr]\<rparr>)"
| "entitiesQuery_loop opts enV attrL limitP (CException what # steps) r =
     Some (r\<lparr>qr_ok := False, qr_err := what, qr_released := True\<rparr>)"
| "entitiesQuery_loop opts enV attrL limitP (CDoc d # steps) r =
     (case document_response opts attrL d of
        None \<Rightarrow> None
      | Some cer \<Rightarrow> entitiesQuery_loop opts enV attrL limitP steps (r\<lparr>qr_cerV := qr_cerV r @ [cer]\<rparr>))"

text \<open>The query on the connection fails with a text, or gives a cursor. The limit is none when the caller passes no
  \<^verbatim>\<open>limitReached\<close>.\<close>

definition entitiesQuery ::
    "query_opts \<Rightarrow> EntityId list \<Rightarrow> string list \<Rightarrow> int option \<Rightarrow> string + cursor_step list \<Rightarrow> ContextElementResponse list
       \<Rightarrow> query_result option" where
  "entitiesQuery opts enV attrL limitP db cerV =
     (let r = \<lparr>qr_ok = True, qr_cerV = cerV, qr_err = [], qr_limitReached = False, qr_released = False, qr_dbErrors = []\<rparr>
      in case db of
           Inl err \<Rightarrow> Some (r\<lparr>qr_ok := False, qr_err := err, qr_released := True\<rparr>)
         | Inr steps \<Rightarrow> entitiesQuery_loop opts enV attrL limitP steps r)"

definition prune_cer :: "ContextElementResponse \<Rightarrow> ContextElementResponse" where
  "prune_cer cer =
     (let new = ContextElementResponse_new
      in new\<lparr>contextElement := (contextElement new)\<lparr>
               ce_entityId := EntityId_fill_from (ce_entityId (contextElement cer)) False,
               ce_providingApplicationList := ce_providingApplicationList (contextElement cer),
               contextAttributeVector :=
                 map (\<lambda>ca. fst (ContextAttribute_copy ca False)) (filter ca_found (contextAttributeVector (contextElement cer)))\<rparr>,
             statusCode := StatusCode_fill_from (statusCode new) (statusCode cer)\<rparr>)"

text \<open>The new vector; the compound values move to it from the old one, which the callers then release.\<close>

fun pruneContextElements :: "ContextElementResponse list \<Rightarrow> ContextElementResponse list \<Rightarrow> ContextElementResponse list" where
  "pruneContextElements [] newCerV = newCerV"
| "pruneContextElements (cer # oldCerV) newCerV =
     (let new = prune_cer cer
      in if cer_prune cer \<and> contextAttributeVector (contextElement new) = []
            \<and> ce_providingApplicationList (contextElement new) = []
         then pruneContextElements oldCerV newCerV
         else pruneContextElements oldCerV (newCerV @ [new]))"

subsection \<open>Conditions of subscriptions\<close>

definition isCondValueInContextElementResponse :: "string list \<Rightarrow> ContextElementResponse list \<Rightarrow> bool" where
  "isCondValueInContextElementResponse condValues cerV =
     (if condValues = [] then True
      else list_ex (\<lambda>v. list_ex (\<lambda>cer. list_ex (\<lambda>ca. ca_name ca = v) (contextAttributeVector (contextElement cer))) cerV) condValues)"

fun someEmptyCondValue_loop :: "bson list \<Rightarrow> bool option" where
  "someEmptyCondValue_loop [] = Some False"
| "someEmptyCondValue_loop (e # es) =
     Option.bind (embeddedObject (Some e)) (\<lambda>cond.
       Option.bind (bson_Array (getField cond ''value'')) (\<lambda>vs. if vs = [] then Some True else someEmptyCondValue_loop es))"

definition someEmptyCondValue :: "doc \<Rightarrow> bool option" where
  "someEmptyCondValue sub = Option.bind (bson_Array (getField sub ''conditions'')) someEmptyCondValue_loop"

fun condValues_match :: "bson list \<Rightarrow> string list \<Rightarrow> bool option" where
  "condValues_match [] modifiedAttrs = Some False"
| "condValues_match (e # es) modifiedAttrs =
     Option.bind (bson_String (Some e)) (\<lambda>v. if v \<in> set modifiedAttrs then Some True else condValues_match es modifiedAttrs)"

fun condValueAttrMatch_loop :: "bson list \<Rightarrow> string list \<Rightarrow> bool option" where
  "condValueAttrMatch_loop [] modifiedAttrs = Some False"
| "condValueAttrMatch_loop (e # es) modifiedAttrs =
     Option.bind (embeddedObject (Some e)) (\<lambda>cond.
       Option.bind (bson_Array (getField cond ''value'')) (\<lambda>vs.
         Option.bind (condValues_match vs modifiedAttrs) (\<lambda>m. if m then Some True else condValueAttrMatch_loop es modifiedAttrs)))"

definition condValueAttrMatch :: "doc \<Rightarrow> string list \<Rightarrow> bool option" where
  "condValueAttrMatch sub modifiedAttrs =
     Option.bind (bson_Array (getField sub ''conditions'')) (\<lambda>es. condValueAttrMatch_loop es modifiedAttrs)"

fun subToEntityIdVector_loop :: "bson list \<Rightarrow> EntityId list option" where
  "subToEntityIdVector_loop [] = Some []"
| "subToEntityIdVector_loop (e # es) =
     Option.bind (embeddedObject (Some e)) (\<lambda>d.
       map_option (Cons (EntityId_new (getStringField d ''id'')
           (if hasField d ''type'' then getStringField d ''type'' else []) (getStringField d ''isPattern'')))
         (subToEntityIdVector_loop es))"

definition subToEntityIdVector :: "doc \<Rightarrow> EntityId list option" where
  "subToEntityIdVector sub = Option.bind (bson_Array (getField sub ''entities'')) subToEntityIdVector_loop"

fun strings_of :: "bson list \<Rightarrow> string list option" where
  "strings_of [] = Some []"
| "strings_of (e # es) = Option.bind (bson_String (Some e)) (\<lambda>s. map_option (Cons s) (strings_of es))"

definition subToAttributeList :: "doc \<Rightarrow> string list option" where
  "subToAttributeList sub = Option.bind (bson_Array (getField sub ''attrs'')) strings_of"

subsection \<open>The first notification of a subscription\<close>

text \<open>A call of \<^verbatim>\<open>sendNotifyContextRequest\<close> of the notifier, with its arguments.\<close>

record notify_call =
  nfc_request :: NotifyContextRequest
  nfc_url :: string
  nfc_tenant :: string
  nfc_xauthToken :: string
  nfc_correlator :: string
  nfc_renderFormat :: RenderFormat
  nfc_attrsOrder :: "string list"

text \<open>\<open>ask\<close> gives what \<^verbatim>\<open>entitiesQuery\<close> leaves for the entities of the subscription, given the attributes and
  whether empty values are wanted; \<open>send\<close> is the call of the notifier for a request.\<close>

definition processOnChangeConditionForSubscription ::
    "(string list \<Rightarrow> bool \<Rightarrow> query_result option) \<Rightarrow> (NotifyContextRequest \<Rightarrow> notify_call) \<Rightarrow> string list \<Rightarrow> string list option \<Rightarrow> string
       \<Rightarrow> (bool \<times> notify_call list) option" where
  "processOnChangeConditionForSubscription ask send attrL condValues subId =
     Option.bind (ask attrL True) (\<lambda>raw.
       if \<not> qr_ok raw then Some (False, [])
       else let ncr = \<lparr>ncr_subscriptionId = subId, ncr_originator = ''localhost'', ncr_cerV = pruneContextElements (qr_cerV raw) []\<rparr>
       in if ncr_cerV ncr = [] then Some (False, [])
       else case condValues of
              None \<Rightarrow> Some (True, [send ncr])
            | Some vs \<Rightarrow>
                Option.bind (ask [] False) (\<lambda>all.
                  if \<not> qr_ok all then Some (False, [])
                  else if isCondValueInContextElementResponse vs (pruneContextElements (qr_cerV all) []) then Some (True, [send ncr])
                  else Some (False, [])))"

fun processConditionVector ::
    "(string list \<Rightarrow> bool \<Rightarrow> query_result option) \<Rightarrow> (NotifyContextRequest \<Rightarrow> notify_call) \<Rightarrow> string list \<Rightarrow> string \<Rightarrow> string
       \<Rightarrow> NotifyCondition list \<Rightarrow> (bson list \<times> bool \<times> notify_call list) option" where
  "processConditionVector ask send attrL subId status [] = Some ([], False, [])"
| "processConditionVector ask send attrL subId status (nc # ncs) =
     (if nc_type nc = ''ONCHANGE''
      then let cond = BObj [(''type'', BStr ''ONCHANGE''), (''value'', BArr (map BStr (nc_condValueList nc)))]
      in Option.bind (if status = ''active''
                      then processOnChangeConditionForSubscription ask send attrL (Some (nc_condValueList nc)) subId
                      else Some (False, [])) (\<lambda>(done, calls).
           map_option (\<lambda>(conds, done', calls'). (cond # conds, done \<or> done', calls @ calls'))
             (processConditionVector ask send attrL subId status ncs))
      else processConditionVector ask send attrL subId status ncs)"

subsection \<open>Names of databases are read back\<close>

lemma tenant_roundtrip:
  assumes "multitenant conf" "tenant \<noteq> []"
  shows "tenantFromDb conf (composeDatabaseName conf tenant) = (if length tenant < 50 then Some tenant else None)
    \<and> getOrionDatabases conf [composeDatabaseName conf tenant] = [composeDatabaseName conf tenant]"
  using assms by (simp add: tenantFromDb_def composeDatabaseName_def getOrionDatabases_def Let_def)

subsection \<open>Escaping slashes\<close>

definition slash_escaped :: "string \<Rightarrow> string" where
  "slash_escaped s = concat (map (\<lambda>c. if c = CHR ''/'' then [CHR 0x5C, c] else [c]) s)"

lemma slash_escaped_simps [simp]:
  "slash_escaped [] = []"
  "slash_escaped (c # s) = (if c = CHR ''/'' then [CHR 0x5C, c] else [c]) @ slash_escaped s"
  "slash_escaped (s @ t) = slash_escaped s @ slash_escaped t"
  by (simp_all add: slash_escaped_def)

lemma slash_escaped_length: "length (slash_escaped s) = length s + length (filter (\<lambda>c. c = CHR ''/'') s)"
  by (induction s) auto

lemma slashEscape_loop_fits:
  "length to + length (slash_escaped s) + 1 < toLen \<Longrightarrow> slashEscape_loop toLen s to = to @ slash_escaped s"
  by (induction s arbitrary: to) auto

text \<open>The escaped text is written when it fits with one byte to spare; the length of what is left in the buffer is
  always within it. A text that fits exactly loses its last character, unless that is a slash.\<close>

lemma slashEscape_loop_bound: "length to < toLen \<Longrightarrow> 2 \<le> toLen \<Longrightarrow> length (slashEscape_loop toLen s to) < toLen"
  by (induction s arbitrary: to) auto

lemma slashEscape_alt:
  "slashEscape s toLen =
     (if toLen \<le> length (slash_escaped s) then if toLen < 6 then None else Some ''ERROR''
      else if s = [] \<or> toLen = 2 then None
      else Some (slashEscape_loop toLen s []))"
  by (auto simp: slashEscape_def slash_escaped_length Let_def)

lemma slash_escaped_nonempty: "s \<noteq> [] \<Longrightarrow> 0 < length (slash_escaped s)"
  by (simp add: slash_escaped_length)

theorem slashEscape_exact:
  assumes "from \<noteq> []"
  shows "(length (slash_escaped from) + 1 < toLen \<longrightarrow> slashEscape from toLen = Some (slash_escaped from))
    \<and> (toLen \<le> length (slash_escaped from) \<and> 6 \<le> toLen \<longrightarrow> slashEscape from toLen = Some ''ERROR'')
    \<and> (\<forall>out. slashEscape from toLen = Some out \<longrightarrow> length out < toLen)"
proof (cases "toLen \<le> length (slash_escaped from)")
  case False
  then have "2 \<le> toLen" using slash_escaped_nonempty [OF assms] by linarith
  then have "length (slashEscape_loop toLen from []) < toLen" by (intro slashEscape_loop_bound) auto
  with False show ?thesis using assms slash_escaped_nonempty [OF assms] slashEscape_loop_fits [of "[]" "from" toLen]
    by (auto simp: slashEscape_alt split: if_splits)
qed (auto simp: slashEscape_alt split: if_splits)

lemma slashEscape_last_lost:
  assumes "from = p @ [c]" "c \<noteq> CHR ''/''" "p \<noteq> []"
  shows "slashEscape from (length (slash_escaped from) + 1) = Some (slash_escaped p)"
proof -
  have "slashEscape_loop n (s @ [c]) to = to @ slash_escaped s" if "n = length to + length (slash_escaped s) + 2" for n s to
    using that by (induction s arbitrary: to) auto
  from this [of _ "[]" p] have "slashEscape_loop (length (slash_escaped p) + 2) (p @ [c]) [] = slash_escaped p" by simp
  then show ?thesis using assms slash_escaped_nonempty [OF assms(3)] by (simp add: slashEscape_alt)
qed

theorem slashEscape_exact_witness:
  "slashEscape ''/a/b'' 7 = Some ''ERROR'' \<or> slashEscape ''/a/b'' 8 = Some (slash_escaped ''/a/b'')"
  using slashEscape_exact [of "''/a/b''" 8] by simp

subsection \<open>What a query answers\<close>

lemma bson_value_found: "bson_value name type ie attr = Some (Some ca) \<Longrightarrow> ca_found ca"
  by (auto simp: bson_value_def ContextAttribute_string_def ContextAttribute_number_def ContextAttribute_bool_def
      split: option.splits bson.splits if_splits)

lemma bson_attribute_found: "bson_attribute loc attrL ie v name e = Some (Some ca) \<Longrightarrow> ca_found ca"
  by (auto simp: bson_attribute_def Let_def dest!: bson_value_found split: option.splits if_splits)

lemma bson_attributes_found: "bson_attributes loc attrL ie v attrs names = Some cas \<Longrightarrow> list_all ca_found cas"
  by (induction names arbitrary: cas) (auto dest: bson_attribute_found split: option.splits)

lemma read_found:
  assumes "ContextElementResponse_bson d attrL ie ic im v = Some cer"
  shows "list_all ca_found (contextAttributeVector (contextElement cer))" "\<not> cer_prune cer"
  using assms by (auto simp: ContextElementResponse_bson_def ContextElementResponse_new_def date_attribute_def
      ContextAttribute_number_def Let_def dest!: bson_attributes_found split: option.splits)

lemma add_not_found_attrs:
  "\<exists>as. foldl add_not_found cer attrL = cer\<lparr>contextElement := (contextElement cer)\<lparr>contextAttributeVector :=
     contextAttributeVector (contextElement cer) @ as\<rparr>\<rparr> \<and> list_all (\<lambda>ca. \<not> ca_found ca) as
     \<and> (\<forall>a\<in>set attrL. \<exists>ca\<in>set (contextAttributeVector (contextElement cer) @ as). ca_name ca = a)"
proof (induction attrL arbitrary: cer)
  case (Cons a attrL)
  let ?vec = "contextAttributeVector (contextElement cer)"
  obtain bs where b: "add_not_found cer a = cer\<lparr>contextElement := (contextElement cer)\<lparr>contextAttributeVector := ?vec @ bs\<rparr>\<rparr>"
      "list_all (\<lambda>ca. \<not> ca_found ca) bs" "\<exists>ca\<in>set (?vec @ bs). ca_name ca = a"
  proof (cases "list_ex (\<lambda>ca. a = ca_name ca) ?vec")
    case True
    then show ?thesis using that [of "[]"] by (auto simp: add_not_found_def list_ex_iff Let_def)
  next
    case False
    then show ?thesis using that [of "[ContextAttribute_string a [] [] False]"]
      by (auto simp: add_not_found_def ContextAttribute_string_def Let_def)
  qed
  from Cons.IH [of "add_not_found cer a"] obtain cs where
    "foldl add_not_found (add_not_found cer a) attrL = cer\<lparr>contextElement := (contextElement cer)\<lparr>contextAttributeVector := ?vec @ bs @ cs\<rparr>\<rparr>"
    "list_all (\<lambda>ca. \<not> ca_found ca) cs" "\<forall>a\<in>set attrL. \<exists>ca\<in>set (?vec @ bs @ cs). ca_name ca = a"
    unfolding b(1) by auto
  with b show ?case by (intro exI [of _ "bs @ cs"]) auto
qed (auto intro: exI [of _ "[]"])

text \<open>The response to a query for one document, after pruning.\<close>

definition query_answer_of :: "ContextElementResponse \<Rightarrow> ContextElementResponse" where
  "query_answer_of cer =
     (let new = ContextElementResponse_new
      in new\<lparr>contextElement := (contextElement new)\<lparr>ce_entityId := ce_entityId (contextElement cer),
               ce_providingApplicationList := ce_providingApplicationList (contextElement cer),
               contextAttributeVector := map (\<lambda>ca. fst (ContextAttribute_copy ca False)) (contextAttributeVector (contextElement cer))\<rparr>,
             statusCode := StatusCode_fill (statusCode new) SccOk []\<rparr>)"

lemma document_response_pruned:
  assumes "ContextElementResponse_bson d attrL (includeEmpty opts) (includeCreDate opts) (includeModDate opts) (q_apiVersion opts) = Some cer"
  shows "\<exists>r. document_response opts attrL d = Some r \<and> prune_cer r = query_answer_of cer \<and> \<not> cer_prune r
    \<and> ce_entityId (contextElement r) = ce_entityId (contextElement cer)
    \<and> (\<forall>a\<in>set attrL. \<exists>ca\<in>set (contextAttributeVector (contextElement r)). ca_name ca = a)"
proof -
  note f = read_found [OF assms]
  obtain as where "foldl add_not_found (cer\<lparr>statusCode := StatusCode_fill (statusCode cer) SccOk []\<rparr>) attrL =
      (cer\<lparr>statusCode := StatusCode_fill (statusCode cer) SccOk []\<rparr>)\<lparr>contextElement := (contextElement cer)\<lparr>contextAttributeVector :=
        contextAttributeVector (contextElement cer) @ as\<rparr>\<rparr>" "list_all (\<lambda>ca. \<not> ca_found ca) as"
      "\<forall>a\<in>set attrL. \<exists>ca\<in>set (contextAttributeVector (contextElement cer) @ as). ca_name ca = a"
    using add_not_found_attrs [of "cer\<lparr>statusCode := StatusCode_fill (statusCode cer) SccOk []\<rparr>" attrL] by auto
  moreover have "filter ca_found (contextAttributeVector (contextElement cer)) = contextAttributeVector (contextElement cer)"
    using f(1) by (simp add: filter_id_conv list_all_iff)
  moreover have "filter ca_found as = []" if "list_all (\<lambda>ca. \<not> ca_found ca) as" using that by (simp add: filter_empty_conv list_all_iff)
  ultimately show ?thesis using f(2)
    by (simp add: document_response_def assms prune_cer_def query_answer_of_def Let_def EntityId_fill_from_def
        StatusCode_fill_from_def StatusCode_fill_def)
qed

lemma prune_append: "pruneContextElements (v @ w) new = pruneContextElements w (pruneContextElements v new)"
  by (induction v arbitrary: new) (simp_all add: Let_def)

lemma prune_kept: "list_all (\<lambda>r. \<not> cer_prune r) v \<Longrightarrow> pruneContextElements v new = new @ map prune_cer v"
  by (induction v arbitrary: new) (simp_all add: Let_def)

lemma prune_added: "pruneContextElements [added_entity attrL en] new = new"
  by (simp add: added_entity_def prune_cer_def ContextElementResponse_new_def ContextElement_new_def ContextElement_of_def
      ContextAttribute_string_def filter_map comp_def Let_def)

lemma prune_missing: "pruneContextElements (foldl (add_missing_entity attrL) v enV) new = pruneContextElements v new"
  by (induction enV arbitrary: v) (simp_all add: add_missing_entity_def prune_append prune_added del: pruneContextElements.simps(2))

lemma query_loop_docs:
  assumes "list_all2 (\<lambda>d r. document_response opts attrL d = Some r) ds rs"
  shows "entitiesQuery_loop opts enV attrL limitP (map CDoc ds) q = Some (entitiesQuery_end enV attrL limitP (q\<lparr>qr_cerV := qr_cerV q @ rs\<rparr>))"
  using assms by (induction arbitrary: q rule: list_all2_induct) simp_all

text \<open>C6: the answer to a query, after the entities and attributes that were not found are pruned, is exactly what the
  documents hold: one response for each document in their order, with its identifier and all attributes that are read
  from it, and the code 200; nothing that was only added for the search of context providers is left.\<close>

theorem query_answer:
  assumes "list_all2 (\<lambda>d cer. ContextElementResponse_bson d attrL (includeEmpty opts) (includeCreDate opts)
      (includeModDate opts) (q_apiVersion opts) = Some cer) ds cers"
  shows "\<exists>r. entitiesQuery opts enV attrL limitP (Inr (map CDoc ds)) [] = Some r \<and> qr_ok r \<and> qr_released r
    \<and> pruneContextElements (qr_cerV r) [] = map query_answer_of cers"
proof -
  have "\<exists>rs. list_all2 (\<lambda>d r. document_response opts attrL d = Some r) ds rs \<and> list_all (\<lambda>r. \<not> cer_prune r) rs
      \<and> map prune_cer rs = map query_answer_of cers"
    using assms
  proof (induction rule: list_all2_induct)
    case (Cons d ds cer cers)
    then obtain rs where rs: "list_all2 (\<lambda>d r. document_response opts attrL d = Some r) ds rs"
        "list_all (\<lambda>r. \<not> cer_prune r) rs" "map prune_cer rs = map query_answer_of cers" by blast
    obtain r where "document_response opts attrL d = Some r" "prune_cer r = query_answer_of cer" "\<not> cer_prune r"
      using document_response_pruned [OF Cons.hyps(1)] by blast
    with rs show ?case by (intro exI [of _ "r # rs"]) simp
  qed simp
  then obtain rs where rs: "list_all2 (\<lambda>d r. document_response opts attrL d = Some r) ds rs"
      "list_all (\<lambda>r. \<not> cer_prune r) rs" "map prune_cer rs = map query_answer_of cers" by blast
  have "pruneContextElements (qr_cerV (entitiesQuery_end enV attrL limitP q)) [] = map query_answer_of cers"
    if "qr_cerV q = rs" for q
    using that rs(2,3) by (auto simp: entitiesQuery_end_def prune_missing prune_kept Let_def)
  then show ?thesis
    by (simp add: entitiesQuery_def query_loop_docs [OF rs(1)]) (simp add: entitiesQuery_end_def Let_def)
qed

definition room_doc :: doc where
  "room_doc = [(''_id'', BObj [(''id'', BStr ''Room1''), (''type'', BStr ''Room''), (''servicePath'', BStr ''/'')]),
     (''attrs'', BObj [(''temperature'', BObj [(''type'', BStr ''Number''), (''value'', BNum (Fin 23))])])]"

definition v2_opts :: query_opts where
  "v2_opts = \<lparr>includeEmpty = True, includeCreDate = False, includeModDate = False, q_apiVersion = ''v2''\<rparr>"

theorem query_answer_witness:
  "\<exists>r. entitiesQuery v2_opts [EntityId_new ''Room1'' ''Room'' ''false'', EntityId_new ''Room2'' [] ''false''] [''temperature'', ''pressure'']
        None (Inr [CDoc room_doc]) [] = Some r
     \<and> map (\<lambda>cer. (ei_id (ce_entityId (contextElement cer)), map ca_name (contextAttributeVector (contextElement cer))))
         (pruneContextElements (qr_cerV r) []) = [(''Room1'', [''temperature''])]"
proof -
  have "map_option (\<lambda>cer. (ei_id (ce_entityId (contextElement cer)), map ca_name (contextAttributeVector (contextElement cer))))
      (ContextElementResponse_bson room_doc [''temperature'', ''pressure''] True False False ''v2'') = Some (''Room1'', [''temperature''])"
    by code_simp
  then obtain cer where cer: "ContextElementResponse_bson room_doc [''temperature'', ''pressure''] True False False ''v2'' = Some cer"
      "(ei_id (ce_entityId (contextElement cer)), map ca_name (contextAttributeVector (contextElement cer))) = (''Room1'', [''temperature''])"
    by (auto simp: map_option_eq_Some)
  have "list_all2 (\<lambda>d cer. ContextElementResponse_bson d [''temperature'', ''pressure''] (includeEmpty v2_opts)
      (includeCreDate v2_opts) (includeModDate v2_opts) (q_apiVersion v2_opts) = Some cer) [room_doc] [cer]"
    using cer(1) by (simp add: v2_opts_def)
  from query_answer [OF this, of "[EntityId_new ''Room1'' ''Room'' ''false'', EntityId_new ''Room2'' [] ''false'']" None]
  show ?thesis using cer(2) by (auto simp: query_answer_of_def ContextAttribute_copy_def Let_def)
qed

text \<open>When the driver throws an assertion while the documents are read, the connection is not given back to the pool.\<close>

lemma assertion_keeps_connection:
  "entitiesQuery opts enV attrL limitP (Inr (CAssertion e # steps)) cerV = Some r \<Longrightarrow> qr_ok r \<and> \<not> qr_released r"
  by (auto simp: entitiesQuery_def Let_def)

end
