(* ===== verification/Orion_Map.thy ===== *)
theory Orion_Map
  imports Orion_Element
begin

section \<open>Ordered maps\<close>

text \<open>
  A \<^verbatim>\<open>std::map\<close> with strings as keys is the list of its pairs in the order of the keys. The lemmas here
  say that \<^const>\<open>map_insert\<close> keeps the order and changes one key, and that the names of the fields of a
  document, collected in a \<^verbatim>\<open>std::set\<close>, are each of them once.
\<close>

lemma str_less_irrefl [simp]: "\<not> str_less s s"
  by (induction s) auto

lemma str_less_trans: "str_less s t \<Longrightarrow> str_less t u \<Longrightarrow> str_less s u"
proof (induction s t arbitrary: u rule: str_less.induct)
  case (2 d t)
  then show ?case by (cases u) auto
next
  case (3 c s d t)
  then show ?case by (cases u) (auto intro: less_trans)
qed simp

lemma str_less_total: "s \<noteq> t \<Longrightarrow> \<not> str_less s t \<Longrightarrow> str_less t s"
proof (induction s t rule: str_less.induct)
  case (1 s)
  then show ?case by (cases s) auto
next
  case (3 c s d t)
  then show ?case by (auto simp: not_less le_less) 
qed simp

definition keys_sorted :: "(string \<times> 'a) list \<Rightarrow> bool" where
  "keys_sorted m = sorted_wrt str_less (map fst m)"

lemma keys_sorted_simps [simp]:
  "keys_sorted []" "keys_sorted ((k, v) # m) \<longleftrightarrow> (\<forall>k'\<in>fst ` set m. str_less k k') \<and> keys_sorted m"
  by (auto simp: keys_sorted_def)

lemma map_insert_keys: "fst ` set (map_insert k f d m) = insert k (fst ` set m)"
  by (induction k f d m rule: map_insert.induct) auto

lemma map_insert_sorted: "keys_sorted m \<Longrightarrow> keys_sorted (map_insert k f d m)"
proof (induction k f d m rule: map_insert.induct)
  case (2 k f d k' v m)
  then show ?case by (auto simp: map_insert_keys intro: str_less_trans str_less_total)
qed simp

lemma map_of_map_insert:
  "keys_sorted m \<Longrightarrow>
     map_of (map_insert k f d m) = (map_of m)(k \<mapsto> (case map_of m k of None \<Rightarrow> f d | Some v \<Rightarrow> f v))"
proof (induction k f d m rule: map_insert.induct)
  case (2 k f d k' v m)
  have "map_of m k = None" if "str_less k k'"
    using 2(2) that by (auto simp: map_of_eq_None_iff dest: str_less_trans)
  then show ?case using 2 by (auto simp: fun_upd_twist)
qed simp

lemma keys_sorted_distinct: "keys_sorted m \<Longrightarrow> distinct (map fst m)"
  by (induction m) fastforce+

lemma foldl_map_insert_sorted: "keys_sorted m \<Longrightarrow> keys_sorted (foldl (\<lambda>m x. map_insert (k x) f (d x) m) m xs)"
  by (induction xs arbitrary: m) (simp_all add: map_insert_sorted)

lemma foldl_map_insert_keys: "fst ` set (foldl (\<lambda>m x. map_insert (k x) f (d x) m) m xs) = fst ` set m \<union> k ` set xs"
  by (induction xs arbitrary: m) (auto simp: map_insert_keys)

lemma field_names_set: "set (field_names d) = fst ` set d"
  using foldl_map_insert_keys [of "\<lambda>k. k" id "\<lambda>k. ()" "[]" "map fst d"] by (simp add: field_names_def image_image)

lemma field_names_distinct: "distinct (field_names d)"
  unfolding field_names_def by (intro keys_sorted_distinct foldl_map_insert_sorted [of _ "\<lambda>k. k" id "\<lambda>k. ()"]) simp

end
