(* ===== verification/Orion_Trigger.thy ===== *)
theory Orion_Trigger
  imports Orion_Query Orion_Map
begin

section \<open>Triggered subscriptions: mongoBackend/TriggeredSubscription.cpp, MongoCommonUpdate.cpp\<close>

text \<open>
  An update triggers subscriptions: those of the cache (or of the database, when the broker runs without a cache) that
  match the entity and the changed attributes are collected in a map by identifier, and after the update of the entity
  each is notified unless throttling or its filter forbid it. Pointers to triggered subscriptions are values, the map is
  the sorted list of its pairs. The calls of the notifier and the writes to the database are recorded. The clock is a
  parameter: \<open>now\<close> where it is read once, and for each subscription the times at which throttling is checked and at
  which the notification has been sent.
\<close>

record TriggeredSubscription =
  ts_throttling :: int
  ts_lastNotification :: int
  ts_renderFormat :: RenderFormat
  ts_reference :: string
  ts_attrL :: "string list"
  ts_cacheSubId :: string
  ts_tenant :: string
  ts_stringFilterP :: "StringFilter option"
  ts_geometry :: string
  ts_coords :: string
  ts_georel :: string

definition TriggeredSubscription_new ::
    "int \<Rightarrow> int \<Rightarrow> RenderFormat \<Rightarrow> string \<Rightarrow> string list \<Rightarrow> string \<Rightarrow> string option \<Rightarrow> TriggeredSubscription" where
  "TriggeredSubscription_new thr lastN fmt ref attrL cacheSubId tenant =
     \<lparr>ts_throttling = thr, ts_lastNotification = lastN, ts_renderFormat = fmt, ts_reference = ref, ts_attrL = attrL,
      ts_cacheSubId = cacheSubId, ts_tenant = (case tenant of None \<Rightarrow> [] | Some t \<Rightarrow> t), ts_stringFilterP = None,
      ts_geometry = [], ts_coords = [], ts_georel = []\<rparr>"

definition TriggeredSubscription_ngsi9 :: "RenderFormat \<Rightarrow> string \<Rightarrow> string list \<Rightarrow> TriggeredSubscription" where
  "TriggeredSubscription_ngsi9 fmt ref attrL = TriggeredSubscription_new (- 1) (- 1) fmt ref attrL [] None"

definition fillExpression :: "TriggeredSubscription \<Rightarrow> string \<Rightarrow> string \<Rightarrow> string \<Rightarrow> TriggeredSubscription" where
  "fillExpression ts georel geometry coords = ts\<lparr>ts_georel := georel, ts_geometry := geometry, ts_coords := coords\<rparr>"

definition TriggeredSubscription_toString :: "TriggeredSubscription \<Rightarrow> string \<Rightarrow> string" where
  "TriggeredSubscription_toString ts delimiter =
     show_int (ts_throttling ts) @ delimiter @ show_int (ts_lastNotification ts) @ delimiter
     @ renderFormatToString (ts_renderFormat ts) True @ delimiter @ ts_reference ts
     @ ts_georel ts @ delimiter @ ts_coords ts @ delimiter @ ts_geometry ts @ delimiter"

text \<open>When the filter cannot be cloned, the error.\<close>

definition stringFilterSet :: "sf_env \<Rightarrow> TriggeredSubscription \<Rightarrow> StringFilter \<Rightarrow> string + TriggeredSubscription" where
  "stringFilterSet env ts sf = map_sum id (\<lambda>f. ts\<lparr>ts_stringFilterP := Some f\<rparr>) (filter_clone env sf)"

type_synonym subs = "(string \<times> TriggeredSubscription) list"

subsection \<open>The service path of the subscriptions in the database\<close>

definition sp_prefix :: "string list \<Rightarrow> string" where
  "sp_prefix components = concat (map (\<lambda>c. [CHR 0x5C] @ ''/'' @ c) components)"

definition servicePathSubscriptionRegex :: "string \<Rightarrow> string" where
  "servicePathSubscriptionRegex servicePath =
     (let (spathComponents, spathV) = (if servicePath \<noteq> [] then stringSplit servicePath CHR ''/'' [] else (0, []))
      in if spathComponents = 0 then ''^$|^'' @ [CHR 0x5C] @ ''/#$|^'' @ [CHR 0x5C] @ ''/$''
         else ''^$|^'' @ [CHR 0x5C] @ ''/#$''
              @ concat (map (\<lambda>ix. ''|^'' @ sp_prefix (take (Suc ix) spathV) @ [CHR 0x5C] @ ''/#$'') [0..<spathComponents])
              @ ''|^'' @ sp_prefix spathV @ ''$'')"

subsection \<open>Which subscriptions are triggered\<close>

definition cache_trigger :: "CachedSubscription \<Rightarrow> TriggeredSubscription" where
  "cache_trigger c =
     fillExpression
       (TriggeredSubscription_new (throttling c) (lastNotificationTime c) (cs_renderFormat c) (reference c) (attributes c)
          (subscriptionId c) (cs_tenant c))
       (ex_geometry (expression c)) (ex_coords (expression c)) (ex_georel (expression c))"

text \<open>What the loop leaves: whether it succeeded, and the map.\<close>

fun withCache_loop :: "sf_env \<Rightarrow> int \<Rightarrow> heap \<Rightarrow> nat list \<Rightarrow> subs \<Rightarrow> (bool \<times> subs) option" where
  "withCache_loop env now h [] subs = Some (True, subs)"
| "withCache_loop env now h (a # as) subs =
     (case h a of
        None \<Rightarrow> None
      | Some c \<Rightarrow>
          if expirationTime c < now then withCache_loop env now h as subs
          else if cs_status c = ''inactive'' then withCache_loop env now h as subs
          else if throttling c \<noteq> - 1 \<and> lastNotificationTime c \<noteq> 0 \<and> now - lastNotificationTime c < throttling c
          then withCache_loop env now h as subs
          else case stringFilterSet env (cache_trigger c) (ex_stringFilter (expression c)) of
                 Inl err \<Rightarrow> Some (False, subs)
               | Inr ts \<Rightarrow> withCache_loop env now h as (map_insert (subscriptionId c) id ts subs))"

definition addTriggeredSubscriptions_withCache ::
    "sf_env \<Rightarrow> int \<Rightarrow> SubCache \<Rightarrow> string \<Rightarrow> string \<Rightarrow> string list \<Rightarrow> subs \<Rightarrow> string \<Rightarrow> string list \<Rightarrow> (bool \<times> subs) option" where
  "addTriggeredSubscriptions_withCache env now sc entityId entityType modifiedAttrs subs tenant servicePathV =
     (let servicePath = (case servicePathV of sp # _ \<Rightarrow> sp | [] \<Rightarrow> [])
      in Option.bind (subCacheMatch env (Some (c_str tenant)) (c_str servicePath) (c_str entityId) (c_str entityType) modifiedAttrs sc [])
           (\<lambda>subVec. withCache_loop env now (heap sc) subVec subs))"

text \<open>
  Without the cache: the documents that the query finds. A document without identifier is skipped, and so is one that
  is in the map already; a filter that does not parse ends the loop with false.
\<close>

definition noCache_trigger :: "sf_env \<Rightarrow> doc \<Rightarrow> (string + TriggeredSubscription) option" where
  "noCache_trigger env sub =
     Option.bind (subToAttributeList sub) (\<lambda>attrL.
       let thr = (if hasField sub ''throttling'' then getIntOrLongFieldAsLong sub ''throttling'' else - 1);
           lastN = (if hasField sub ''lastNotification'' then getIntOrLongFieldAsLong sub ''lastNotification'' else - 1);
           fmt = stringToRenderFormat (if hasField sub ''format'' then getStringField sub ''format'' else []) False;
           ts = TriggeredSubscription_new thr lastN fmt (getStringField sub ''reference'') attrL [] (Some [])
       in if \<not> hasField sub ''expression'' then Some (Inr ts)
          else let expr = getObjectField sub ''expression'';
                   field = (\<lambda>k. if hasField expr k then getStringField expr k else []);
                   ts = fillExpression ts (field ''georel'') (field ''geometry'') (field ''coords'')
          in if field ''q'' = [] then Some (Inr ts)
          else case filter_parse env (field ''q'') StringFilter_new of
                 Inl err \<Rightarrow> Some (Inl err)
               | Inr sf \<Rightarrow> Some (stringFilterSet env ts sf))"

fun noCache_loop :: "sf_env \<Rightarrow> string list \<Rightarrow> doc list \<Rightarrow> subs \<Rightarrow> (bool \<times> subs) option" where
  "noCache_loop env modifiedAttrs [] subs = Some (True, subs)"
| "noCache_loop env modifiedAttrs (sub # docs) subs =
     (case getField sub ''_id'' of
        None \<Rightarrow> noCache_loop env modifiedAttrs docs subs
      | Some (BOid subId) \<Rightarrow>
          if subId \<in> set (map fst subs) then noCache_loop env modifiedAttrs docs subs
          else Option.bind (someEmptyCondValue sub) (\<lambda>any.
            Option.bind (if any then Some True else condValueAttrMatch sub modifiedAttrs) (\<lambda>m.
              if \<not> m then noCache_loop env modifiedAttrs docs subs
              else Option.bind (noCache_trigger env sub) (\<lambda>r.
                case r of
                  Inl err \<Rightarrow> Some (False, subs)
                | Inr ts \<Rightarrow> noCache_loop env modifiedAttrs docs (map_insert subId id ts subs))))
      | Some _ \<Rightarrow> None)"

text \<open>\<open>found\<close> are the documents of the query for the subscriptions, none when the query fails.\<close>

definition addTriggeredSubscriptions_noCache ::
    "sf_env \<Rightarrow> doc list option \<Rightarrow> string list \<Rightarrow> subs \<Rightarrow> (bool \<times> subs) option" where
  "addTriggeredSubscriptions_noCache env found modifiedAttrs subs =
     (case found of None \<Rightarrow> Some (False, subs) | Some docs \<Rightarrow> noCache_loop env modifiedAttrs docs subs)"

record trigger_env =
  te_sf :: sf_env
  te_now :: int
  te_noCache :: bool
  te_csubs :: "string \<Rightarrow> string \<Rightarrow> doc list option"
  te_checkTime :: "string \<Rightarrow> int"
  te_sentTime :: "string \<Rightarrow> int"
  te_dbUpdate :: "string \<Rightarrow> string option"

definition addTriggeredSubscriptions ::
    "trigger_env \<Rightarrow> SubCache \<Rightarrow> string \<Rightarrow> string \<Rightarrow> string list \<Rightarrow> subs \<Rightarrow> string \<Rightarrow> string list \<Rightarrow> (bool \<times> subs) option" where
  "addTriggeredSubscriptions te sc entityId entityType modifiedAttrs subs tenant servicePathV =
     (if te_noCache te
      then addTriggeredSubscriptions_noCache (te_sf te) (te_csubs te entityId entityType) modifiedAttrs subs
      else addTriggeredSubscriptions_withCache (te_sf te) (te_now te) sc entityId entityType modifiedAttrs subs tenant servicePathV)"

subsection \<open>Notifying them\<close>

text \<open>The attributes of the notification: all of them, or those in the list of the subscription that are not deleted.\<close>

definition notified_attrs :: "string list \<Rightarrow> ContextAttribute list \<Rightarrow> ContextAttribute list" where
  "notified_attrs attrL cas =
     concat (map (\<lambda>ca. if attrL = [] then [ca]
                       else concat (map (\<lambda>a. if ca_name ca = a \<and> \<not> ca_skip ca then [ca] else []) attrL)) cas)"

record notify_args =
  na_tenant :: string
  na_xauthToken :: string
  na_correlator :: string

text \<open>The call of the notifier, if there is one.\<close>

definition processOnChangeConditionForUpdateContext ::
    "ContextElementResponse \<Rightarrow> string list \<Rightarrow> string \<Rightarrow> string \<Rightarrow> RenderFormat \<Rightarrow> notify_args \<Rightarrow> string list \<Rightarrow> notify_call option" where
  "processOnChangeConditionForUpdateContext notifyCer attrL subId notifyUrl fmt args attrsOrder =
     (let ce = contextElement notifyCer;
          new = ContextElementResponse_new;
          cer = new\<lparr>contextElement := (contextElement new)\<lparr>ce_entityId := EntityId_fill_from (ce_entityId ce) False,
                      contextAttributeVector := notified_attrs attrL (contextAttributeVector ce)\<rparr>,
                    statusCode := StatusCode_fill (statusCode new) SccOk []\<rparr>
      in if contextAttributeVector (contextElement cer) = [] then None
         else Some \<lparr>nfc_request = \<lparr>ncr_subscriptionId = subId, ncr_originator = ''localhost'', ncr_cerV = [cer]\<rparr>,
                    nfc_url = notifyUrl, nfc_tenant = na_tenant args, nfc_xauthToken = na_xauthToken args,
                    nfc_correlator = na_correlator args, nfc_renderFormat = fmt, nfc_attrsOrder = attrsOrder\<rparr>)"

record process_state =
  ps_ret :: bool
  ps_err :: string
  ps_calls :: "notify_call list"
  ps_writes :: "(string \<times> int) list"
  ps_cache :: SubCache
  ps_lost :: "string list"

definition throttled :: "trigger_env \<Rightarrow> string \<Rightarrow> TriggeredSubscription \<Rightarrow> bool" where
  "throttled te mapSubId ts =
     (ts_throttling ts \<noteq> 1 \<and> ts_lastNotification ts \<noteq> 1
      \<and> te_checkTime te mapSubId - ts_lastNotification ts < ts_throttling ts)"

definition filtered_out :: "trigger_env \<Rightarrow> TriggeredSubscription \<Rightarrow> ContextElementResponse \<Rightarrow> bool" where
  "filtered_out te ts notifyCer =
     (case ts_stringFilterP ts of None \<Rightarrow> False | Some sf \<Rightarrow> \<not> filter_match (te_sf te) sf (contextElement notifyCer))"

text \<open>The accounts of a notification that was sent: in the database when there is no cache, and in the cached subscription.\<close>

definition account_cache :: "int \<Rightarrow> TriggeredSubscription \<Rightarrow> process_state \<Rightarrow> process_state option" where
  "account_cache rightNow ts ps =
     (if ts_cacheSubId ts = [] then Some ps
      else case subCacheItemLookup (Some (c_str (ts_tenant ts))) (c_str (ts_cacheSubId ts)) (ps_cache ps) of
             None \<Rightarrow> None
           | Some None \<Rightarrow> Some (ps\<lparr>ps_lost := ps_lost ps @ [ts_cacheSubId ts]\<rparr>)
           | Some (Some a) \<Rightarrow>
               (case heap (ps_cache ps) a of
                  None \<Rightarrow> None
                | Some c \<Rightarrow>
                    Some (ps\<lparr>ps_cache := (ps_cache ps)\<lparr>heap := (heap (ps_cache ps))(a \<mapsto>
                      c\<lparr>lastNotificationTime := rightNow, count := count c + 1\<rparr>)\<rparr>\<rparr>)))"

definition account_db :: "trigger_env \<Rightarrow> string \<Rightarrow> int \<Rightarrow> process_state \<Rightarrow> process_state" where
  "account_db te mapSubId rightNow ps =
     (if subCacheActive (ps_cache ps) = False
      then case te_dbUpdate te mapSubId of
             None \<Rightarrow> ps\<lparr>ps_ret := True, ps_writes := ps_writes ps @ [(mapSubId, rightNow)]\<rparr>
           | Some err \<Rightarrow> ps\<lparr>ps_ret := False, ps_err := err\<rparr>
      else ps)"

definition process_one ::
    "trigger_env \<Rightarrow> ContextElementResponse \<Rightarrow> notify_args \<Rightarrow> string \<times> TriggeredSubscription \<Rightarrow> process_state \<Rightarrow> process_state option" where
  "process_one te notifyCer args e ps =
     (case e of (mapSubId, ts) \<Rightarrow>
        if throttled te mapSubId ts then Some ps
        else if filtered_out te ts notifyCer then Some ps
        else case processOnChangeConditionForUpdateContext notifyCer (ts_attrL ts) mapSubId (ts_reference ts)
                    (ts_renderFormat ts) args (ts_attrL ts) of
               None \<Rightarrow> Some ps
             | Some call \<Rightarrow>
                 (let rightNow = te_sentTime te mapSubId
                  in account_cache rightNow ts (account_db te mapSubId rightNow (ps\<lparr>ps_calls := ps_calls ps @ [call]\<rparr>))))"

fun process_all ::
    "trigger_env \<Rightarrow> ContextElementResponse \<Rightarrow> notify_args \<Rightarrow> subs \<Rightarrow> process_state \<Rightarrow> process_state option" where
  "process_all te notifyCer args [] ps = Some ps"
| "process_all te notifyCer args (e # subs) ps =
     Option.bind (process_one te notifyCer args e ps) (process_all te notifyCer args subs)"

definition processSubscriptions ::
    "trigger_env \<Rightarrow> ContextElementResponse \<Rightarrow> notify_args \<Rightarrow> subs \<Rightarrow> SubCache \<Rightarrow> process_state option" where
  "processSubscriptions te notifyCer args subs sc =
     process_all te notifyCer args subs
       \<lparr>ps_ret = True, ps_err = [], ps_calls = [], ps_writes = [], ps_cache = sc, ps_lost = []\<rparr>"

subsection \<open>Which subscriptions of the cache are triggered\<close>

definition in_time :: "int \<Rightarrow> CachedSubscription \<Rightarrow> bool" where
  "in_time now c =
     (\<not> expirationTime c < now \<and> cs_status c \<noteq> ''inactive''
      \<and> \<not> (throttling c \<noteq> - 1 \<and> lastNotificationTime c \<noteq> 0 \<and> now - lastNotificationTime c < throttling c))"

definition clonable :: "sf_env \<Rightarrow> CachedSubscription \<Rightarrow> bool" where
  "clonable env c = (\<exists>f. filter_clone env (ex_stringFilter (expression c)) = Inr f)"

definition triggered_as :: "sf_env \<Rightarrow> CachedSubscription \<Rightarrow> TriggeredSubscription" where
  "triggered_as env c = (cache_trigger c)\<lparr>ts_stringFilterP := Some (projr (filter_clone env (ex_stringFilter (expression c))))\<rparr>"

definition insert_triggered :: "sf_env \<Rightarrow> subs \<Rightarrow> nat \<times> CachedSubscription \<Rightarrow> subs" where
  "insert_triggered env m e = map_insert (subscriptionId (snd e)) id (triggered_as env (snd e)) m"

lemma stringFilterSet_clonable: "clonable env c \<Longrightarrow> stringFilterSet env (cache_trigger c) (ex_stringFilter (expression c)) = Inr (triggered_as env c)"
  by (auto simp: clonable_def stringFilterSet_def triggered_as_def)

lemma plain_trigger [simp]:
  "in_time now (Orion_SubCache.plain c) = in_time now c" "clonable env (Orion_SubCache.plain c) = clonable env c"
  "triggered_as env (Orion_SubCache.plain c) = triggered_as env c"
  by (simp_all add: in_time_def clonable_def triggered_as_def cache_trigger_def Orion_SubCache.plain_def)

lemma withCache_loop_entries:
  assumes "\<And>a c. (a, c) \<in> set fs \<Longrightarrow> \<exists>c'. h a = Some c' \<and> Orion_SubCache.plain c' = c" "list_all (\<lambda>e. clonable env (snd e)) fs"
  shows "withCache_loop env now h (map fst fs) subs =
    Some (True, foldl (insert_triggered env) subs
                  (filter (\<lambda>e. in_time now (snd e)) fs))"
  using assms
proof (induction fs arbitrary: subs)
  case (Cons e fs)
  obtain a c where e: "e = (a, c)" by fastforce
  from Cons.prems(1) [of a c] e obtain c' where c': "h a = Some c'" "Orion_SubCache.plain c' = c" by auto
  have s: "stringFilterSet env (cache_trigger c') (ex_stringFilter (expression c')) = Inr (triggered_as env c')"
    using Cons.prems(2) e by (intro stringFilterSet_clonable) (simp flip: c'(2))
  have "withCache_loop env now h (map fst (e # fs)) subs =
      withCache_loop env now h (map fst fs) (if in_time now c' then insert_triggered env subs (a, c') else subs)"
    using e c'(1) s by (simp add: in_time_def insert_triggered_def)
  also have "(if in_time now c' then insert_triggered env subs (a, c') else subs)
      = (if in_time now c then insert_triggered env subs e else subs)"
    by (simp add: e insert_triggered_def flip: c'(2))
  finally show ?case using Cons e by simp
qed simp

lemma lseg_nodes: "lseg h p es q \<Longrightarrow> (a, c) \<in> set es \<Longrightarrow> \<exists>c'. h a = Some c' \<and> Orion_SubCache.plain c' = c"
  by (induction h p es q rule: lseg.induct) (auto split: option.splits)

text \<open>The subscriptions of the cache that an update triggers.\<close>

definition sub_triggers ::
    "sf_env \<Rightarrow> bool \<Rightarrow> int \<Rightarrow> string \<Rightarrow> string list \<Rightarrow> string \<Rightarrow> string \<Rightarrow> string list \<Rightarrow> CachedSubscription \<Rightarrow> bool" where
  "sub_triggers env mt now tenant servicePathV eid etype attrs c =
     (subMatch env mt c (Some (c_str tenant)) (c_str (case servicePathV of sp # _ \<Rightarrow> sp | [] \<Rightarrow> [])) (c_str eid) (c_str etype) attrs = Some True
      \<and> in_time now c)"

definition matchable ::
    "sf_env \<Rightarrow> bool \<Rightarrow> string \<Rightarrow> string list \<Rightarrow> string \<Rightarrow> string \<Rightarrow> string list \<Rightarrow> CachedSubscription \<Rightarrow> bool" where
  "matchable env mt tenant servicePathV eid etype attrs c =
     (subMatch env mt c (Some (c_str tenant)) (c_str (case servicePathV of sp # _ \<Rightarrow> sp | [] \<Rightarrow> [])) (c_str eid) (c_str etype) attrs \<noteq> None
      \<and> clonable env c)"

lemma triggered_entries:
  assumes "cache_rel sc es" "list_all (\<lambda>e. matchable env (subCacheMultitenant sc) tenant spV eid etype attrs (snd e)) es"
  shows "addTriggeredSubscriptions_withCache env now sc eid etype attrs subs tenant spV =
    Some (True, foldl (insert_triggered env) subs
      (filter (\<lambda>e. sub_triggers env (subCacheMultitenant sc) now tenant spV eid etype attrs (snd e)) es))"
proof -
  let ?sp = "case spV of sp # _ \<Rightarrow> sp | [] \<Rightarrow> []"
  let ?m = "\<lambda>c. subMatch env (subCacheMultitenant sc) c (Some (c_str tenant)) (c_str ?sp) (c_str eid) (c_str etype) attrs"
  let ?fs = "filter (\<lambda>e. ?m (snd e) = Some True) es"
  have seg: "lseg (heap sc) (head sc) es None" using assms(1) by (simp add: cache_rel_def)
  have "\<forall>e\<in>set es. ?m (snd e) \<noteq> None" using assms(2) by (simp add: list_all_iff matchable_def)
  from match_walk_filter [OF this seg, of "[]"]
  have "subCacheMatch env (Some (c_str tenant)) (c_str ?sp) (c_str eid) (c_str etype) attrs sc [] = Some (map fst ?fs)"
    by (simp add: subCacheMatch_def)
  moreover have "list_all (\<lambda>e. clonable env (snd e)) ?fs" using assms(2) by (simp add: list_all_iff matchable_def)
  moreover have "filter (\<lambda>e. in_time now (snd e)) ?fs =
      filter (\<lambda>e. sub_triggers env (subCacheMultitenant sc) now tenant spV eid etype attrs (snd e)) es"
    by (simp add: sub_triggers_def conj_commute)
  ultimately show ?thesis
    using withCache_loop_entries [of ?fs "heap sc" env now subs] lseg_nodes [OF seg]
    by (simp add: addTriggeredSubscriptions_withCache_def)
qed

lemma foldl_triggered_sorted: "keys_sorted m \<Longrightarrow> keys_sorted (foldl (insert_triggered env) m fs)"
  by (induction fs arbitrary: m) (simp_all add: insert_triggered_def map_insert_sorted)

lemma set_map_insert_new: "k \<notin> fst ` set m \<Longrightarrow> set (map_insert k id v m) = insert (k, v) (set m)"
  by (induction k "id :: 'a \<Rightarrow> 'a" v m rule: map_insert.induct) auto

lemma foldl_insert_distinct:
  assumes "distinct (sub_ids fs)" "\<forall>e\<in>set fs. subscriptionId (snd e) \<notin> fst ` set m"
  shows "set (foldl (insert_triggered env) m fs) = set m \<union> (\<lambda>e. (subscriptionId (snd e), triggered_as env (snd e))) ` set fs"
  using assms
proof (induction fs arbitrary: m)
  case (Cons e fs)
  have k: "subscriptionId (snd e) \<notin> fst ` set m" using Cons.prems(2) by simp
  have "\<forall>e'\<in>set fs. subscriptionId (snd e') \<notin> fst ` set (insert_triggered env m e)"
    using Cons.prems by (auto simp: insert_triggered_def map_insert_keys image_iff)
  then show ?case using Cons set_map_insert_new [OF k] by (simp add: insert_triggered_def)
qed simp

subsection \<open>The accounts in the cache\<close>

definition cached_wf :: "CachedSubscription \<Rightarrow> bool" where
  "cached_wf c = (subscriptionId c \<noteq> [] \<and> c_str (subscriptionId c) = subscriptionId c
     \<and> (\<forall>t. cs_tenant c = Some t \<longrightarrow> c_str t = t))"

definition bump :: "trigger_env \<Rightarrow> nat \<times> CachedSubscription \<Rightarrow> nat \<times> CachedSubscription" where
  "bump te e = (fst e, (snd e)\<lparr>lastNotificationTime := te_sentTime te (subscriptionId (snd e)), count := count (snd e) + 1\<rparr>)"

lemma bump_simps [simp]:
  "fst (bump te e) = fst e" "subscriptionId (snd (bump te e)) = subscriptionId (snd e)"
  "cs_tenant (snd (bump te e)) = cs_tenant (snd e)" "cached_wf (snd (bump te e)) = cached_wf (snd e)"
  by (simp_all add: bump_def cached_wf_def)

lemma lseg_bump:
  assumes "lseg h p es q" "distinct (map fst es)" "h a = Some c'"
  shows "lseg (h(a \<mapsto> c'\<lparr>lastNotificationTime := t, count := count c' + 1\<rparr>)) p
    (map (\<lambda>e. if fst e = a then (a, (snd e)\<lparr>lastNotificationTime := t, count := count (snd e) + 1\<rparr>) else e) es) q"
  using assms
proof (induction h p es q rule: lseg.induct)
  case (2 h p b c es q)
  then obtain d where d: "p = Some b" "h b = Some d" "Orion_SubCache.plain d = c" "lseg h (nxt d) es q"
    by (auto split: option.splits)
  show ?case
  proof (cases "b = a")
    case True
    then have "a \<notin> fst ` set es" using 2(3) by simp
    then have "lseg (h(a \<mapsto> x)) (nxt d) es q" for x using d(4) by (simp add: lseg_upd)
    moreover have "map (\<lambda>e. if fst e = a then (a, (snd e)\<lparr>lastNotificationTime := t, count := count (snd e) + 1\<rparr>) else e) es = es"
      using \<open>a \<notin> fst ` set es\<close> by (force simp: image_iff intro!: map_idI)
    ultimately show ?thesis using True d 2(4) by (simp add: Orion_SubCache.plain_def fun_upd_def flip: d(3))
  next
    case False
    then show ?thesis using d 2(3,4) 2(1) [OF d(2)] by simp
  qed
qed simp

definition tenant_text :: "CachedSubscription \<Rightarrow> string" where
  "tenant_text c = (case cs_tenant c of None \<Rightarrow> [] | Some t \<Rightarrow> t)"

lemma distinct_id_entry:
  "distinct (sub_ids es) \<Longrightarrow> (a, c) \<in> set es \<Longrightarrow>
     e \<in> set es \<and> subscriptionId (snd e) = subscriptionId c \<longleftrightarrow> e = (a, c)"
  by (induction es) (auto simp: image_iff)

lemma find_unique: "x \<in> set xs \<Longrightarrow> P x \<Longrightarrow> (\<And>y. y \<in> set xs \<Longrightarrow> P y \<Longrightarrow> y = x) \<Longrightarrow> List.find P xs = Some x"
proof (induction xs)
  case (Cons z xs)
  show ?case
  proof (cases "P z")
    case True
    then have "z = x" using Cons.prems(3) by simp
    with True show ?thesis by simp
  next
    case False
    then have "x \<in> set xs" using Cons.prems(1,2) by auto
    then have "List.find P xs = Some x" by (rule Cons.IH [OF _ Cons.prems(2)]) (rule Cons.prems(3), simp_all)
    with False show ?thesis by simp
  qed
qed simp

lemma account_cache_entries:
  assumes rel: "cache_rel (ps_cache ps) es" and d: "distinct (sub_ids es)" and e: "(a, c) \<in> set es"
    and wf: "cached_wf c" and ts: "ts_cacheSubId ts = subscriptionId c" "ts_tenant ts = tenant_text c"
  shows "\<exists>sc'. account_cache (te_sentTime te (subscriptionId c)) ts ps = Some (ps\<lparr>ps_cache := sc'\<rparr>)
    \<and> cache_rel sc' (map (\<lambda>e. if subscriptionId (snd e) = subscriptionId c then bump te e else e) es)
    \<and> subCacheActive sc' = subCacheActive (ps_cache ps) \<and> subCacheMultitenant sc' = subCacheMultitenant (ps_cache ps)"
proof -
  have only: "e' \<in> set es \<Longrightarrow> subscriptionId (snd e') = subscriptionId c \<longleftrightarrow> e' = (a, c)" for e'
    using distinct_id_entry [OF d e] by blast
  have t: "c_str (tenant_text c) = tenant_text c" "tenantMatch (Some (tenant_text c)) (cs_tenant c)"
    using wf by (cases "cs_tenant c"; simp add: tenant_text_def cached_wf_def tenantMatch_def c_str_def)+
  have "List.find (\<lambda>e. tenantMatch (Some (tenant_text c)) (cs_tenant (snd e)) \<and> subscriptionId c = subscriptionId (snd e)) es = Some (a, c)"
    using e t(2) only by (intro find_unique) auto
  then have l: "subCacheItemLookup (Some (c_str (ts_tenant ts))) (c_str (ts_cacheSubId ts)) (ps_cache ps) = Some (Some a)"
    using lookup_entries [OF rel] ts wf t(1) by (simp add: cached_wf_def)
  have seg: "lseg (heap (ps_cache ps)) (head (ps_cache ps)) es None" "distinct (map fst es)" "tail (ps_cache ps) = last_addr es"
    using rel by (simp_all add: cache_rel_def)
  obtain c' where c': "heap (ps_cache ps) a = Some c'" "Orion_SubCache.plain c' = c" using lseg_nodes [OF seg(1) e] by auto
  let ?sc = "(ps_cache ps)\<lparr>heap := (heap (ps_cache ps))(a \<mapsto>
      c'\<lparr>lastNotificationTime := te_sentTime te (subscriptionId c), count := count c' + 1\<rparr>)\<rparr>"
  have m: "map (\<lambda>e. if fst e = a then (a, (snd e)\<lparr>lastNotificationTime := te_sentTime te (subscriptionId c), count := count (snd e) + 1\<rparr>) else e) es
      = map (\<lambda>e. if subscriptionId (snd e) = subscriptionId c then bump te e else e) es"
  proof (rule map_cong [OF refl])
    fix e' assume e': "e' \<in> set es"
    have "fst e' = a \<longleftrightarrow> e' = (a, c)" using e' e seg(2) by (auto simp: distinct_map inj_on_def)
    then show "(if fst e' = a then (a, (snd e')\<lparr>lastNotificationTime := te_sentTime te (subscriptionId c), count := count (snd e') + 1\<rparr>) else e')
      = (if subscriptionId (snd e') = subscriptionId c then bump te e' else e')"
      using only [OF e'] by (auto simp: bump_def)
  qed
  let ?es = "map (\<lambda>e. if subscriptionId (snd e) = subscriptionId c then bump te e else e) es"
  have "lseg (heap ?sc) (head ?sc) ?es None"
    using lseg_bump [OF seg(1,2) c'(1), of "te_sentTime te (subscriptionId c)"] m by simp
  moreover have "map fst ?es = map fst es" by simp
  moreover have "last_addr ?es = last_addr es" by (cases es rule: rev_cases) (simp_all add: last_addr_def)
  ultimately have "cache_rel ?sc ?es" unfolding cache_rel_def using seg by (metis SubCache.select_convs(2) SubCache.surjective SubCache.update_convs(7))
  moreover have "account_cache (te_sentTime te (subscriptionId c)) ts ps = Some (ps\<lparr>ps_cache := ?sc\<rparr>)"
    using l c'(1) ts wf by (simp add: account_cache_def cached_wf_def)
  ultimately show ?thesis by (intro exI [of _ ?sc]) simp
qed

subsection \<open>Exactly the triggered subscriptions are notified\<close>

text \<open>The call of the notifier for a triggered subscription, if it is not held back.\<close>

definition call_for ::
    "trigger_env \<Rightarrow> ContextElementResponse \<Rightarrow> notify_args \<Rightarrow> string \<times> TriggeredSubscription \<Rightarrow> notify_call option" where
  "call_for te notifyCer args e =
     (if throttled te (fst e) (snd e) \<or> filtered_out te (snd e) notifyCer then None
      else processOnChangeConditionForUpdateContext notifyCer (ts_attrL (snd e)) (fst e) (ts_reference (snd e))
             (ts_renderFormat (snd e)) args (ts_attrL (snd e)))"

lemma process_one_call:
  "process_one te cer args e ps =
     (case call_for te cer args e of
        None \<Rightarrow> Some ps
      | Some call \<Rightarrow> account_cache (te_sentTime te (fst e)) (snd e)
          (account_db te (fst e) (te_sentTime te (fst e)) (ps\<lparr>ps_calls := ps_calls ps @ [call]\<rparr>)))"
  by (cases e) (simp add: process_one_def call_for_def Let_def split: option.split)

definition sub_of_entry :: "(nat \<times> CachedSubscription) list \<Rightarrow> string \<times> TriggeredSubscription \<Rightarrow> bool" where
  "sub_of_entry es s = (\<exists>(a, c)\<in>set es. fst s = subscriptionId c \<and> ts_cacheSubId (snd s) = subscriptionId c
     \<and> ts_tenant (snd s) = tenant_text c)"

definition bump_ids :: "trigger_env \<Rightarrow> string set \<Rightarrow> (nat \<times> CachedSubscription) list \<Rightarrow> (nat \<times> CachedSubscription) list" where
  "bump_ids te I es = map (\<lambda>e. if subscriptionId (snd e) \<in> I then bump te e else e) es"

lemma bump_ids_simps [simp]:
  "sub_ids (bump_ids te I es) = sub_ids es"
  "list_all (\<lambda>e. cached_wf (snd e)) (bump_ids te I es) = list_all (\<lambda>e. cached_wf (snd e)) es"
  by (induction es) (simp_all add: bump_ids_def)

lemma sub_of_entry_bump [simp]: "sub_of_entry (bump_ids te I es) s = sub_of_entry es s"
proof -
  have "sub_of_entry (map f es) s = sub_of_entry es s"
    if "\<And>e. subscriptionId (snd (f e)) = subscriptionId (snd e) \<and> cs_tenant (snd (f e)) = cs_tenant (snd e)" for f
    using that by (auto simp: sub_of_entry_def tenant_text_def Bex_def split: prod.splits) (metis snd_conv prod.collapse)+
  then show ?thesis unfolding bump_ids_def by simp
qed

lemma bump_ids_compose: "I \<inter> J = {} \<Longrightarrow> bump_ids te J (bump_ids te I es) = bump_ids te (I \<union> J) es"
  by (auto simp: bump_ids_def)

lemma process_all_entries:
  assumes "cache_rel (ps_cache ps) es" "subCacheActive (ps_cache ps)" "distinct (sub_ids es)"
    "list_all (\<lambda>e. cached_wf (snd e)) es" "list_all (sub_of_entry es) subs" "distinct (map fst subs)"
  shows "\<exists>sc'. process_all te cer args subs ps =
      Some (ps\<lparr>ps_cache := sc', ps_calls := ps_calls ps @ List.map_filter (call_for te cer args) subs\<rparr>)
    \<and> cache_rel sc' (bump_ids te {i. \<exists>s\<in>set subs. fst s = i \<and> call_for te cer args s \<noteq> None} es)"
  using assms
proof (induction subs arbitrary: ps es)
  case Nil
  then show ?case by (intro exI [of _ "ps_cache ps"]) (simp add: bump_ids_def map_filter_simps)
next
  case (Cons s subs)
  let ?I = "\<lambda>subs. {i. \<exists>s\<in>set subs. fst s = i \<and> call_for te cer args s \<noteq> None}"
  show ?case
  proof (cases "call_for te cer args s")
    case None
    then have "process_one te cer args s ps = Some ps" by (simp add: process_one_call)
    moreover have "?I (s # subs) = ?I subs" using None by auto
    ultimately show ?thesis using Cons.IH [OF Cons.prems(1-4)] Cons.prems(5,6) None by (simp add: map_filter_simps)
  next
    case (Some call)
    let ?ps = "ps\<lparr>ps_calls := ps_calls ps @ [call]\<rparr>"
    obtain a c where c: "(a, c) \<in> set es" "fst s = subscriptionId c" "ts_cacheSubId (snd s) = subscriptionId c"
        "ts_tenant (snd s) = tenant_text c" using Cons.prems(5) by (auto simp: sub_of_entry_def)
    have db: "account_db te (fst s) t ?ps = ?ps" for t using Cons.prems(2) by (simp add: account_db_def)
    have wf: "cached_wf c" using Cons.prems(4) c(1) by (auto simp: list_all_iff)
    obtain sc' where sc': "account_cache (te_sentTime te (subscriptionId c)) (snd s) ?ps = Some (?ps\<lparr>ps_cache := sc'\<rparr>)"
        "cache_rel sc' (bump_ids te {subscriptionId c} es)" "subCacheActive sc'"
      using account_cache_entries [of ?ps es a c "snd s" te] Cons.prems(1-3) c wf by (auto simp: bump_ids_def)
    let ?ps2 = "?ps\<lparr>ps_cache := sc'\<rparr>" and ?es2 = "bump_ids te {subscriptionId c} es"
    have one: "process_one te cer args s ps = Some ?ps2" using Some db sc'(1) c(2) by (simp add: process_one_call)
    obtain sc2 where sc2: "process_all te cer args subs ?ps2 =
        Some (?ps2\<lparr>ps_cache := sc2, ps_calls := ps_calls ?ps2 @ List.map_filter (call_for te cer args) subs\<rparr>)"
      "cache_rel sc2 (bump_ids te (?I subs) ?es2)"
      using Cons.IH [of ?ps2 ?es2] Cons.prems(3-6) sc'(2,3) by auto
    have "{subscriptionId c} \<inter> ?I subs = {}" using Cons.prems(6) c(2) by (auto simp: image_iff)
    moreover have "?I (s # subs) = {subscriptionId c} \<union> ?I subs" using Some c(2) by auto
    ultimately have "bump_ids te (?I subs) ?es2 = bump_ids te (?I (s # subs)) es" by (simp add: bump_ids_compose)
    with sc2 one Some show ?thesis by (intro exI [of _ sc2]) (simp add: map_filter_simps)
  qed
qed

lemma triggered_as_simps [simp]:
  "ts_cacheSubId (triggered_as env c) = subscriptionId c" "ts_tenant (triggered_as env c) = tenant_text c"
  "ts_attrL (triggered_as env c) = attributes c" "ts_throttling (triggered_as env c) = throttling c"
  "ts_lastNotification (triggered_as env c) = lastNotificationTime c"
  by (simp_all add: triggered_as_def cache_trigger_def fillExpression_def TriggeredSubscription_new_def tenant_text_def)

lemma call_for_id: "call_for te cer args s = Some call \<Longrightarrow> ncr_subscriptionId (nfc_request call) = fst s"
  by (auto simp: call_for_def processOnChangeConditionForUpdateContext_def Let_def split: if_splits)

lemma set_map_filter: "set (List.map_filter f xs) = {y. \<exists>x\<in>set xs. f x = Some y}"
  by (induction xs) (auto simp: map_filter_simps split: option.splits)

lemma calls_distinct:
  assumes "distinct (map fst subs)"
  shows "distinct (map (ncr_subscriptionId \<circ> nfc_request) (List.map_filter (call_for te cer args) subs))"
  using assms
proof (induction subs)
  case (Cons s subs)
  have "ncr_subscriptionId (nfc_request call) \<in> fst ` set subs" if "call \<in> set (List.map_filter (call_for te cer args) subs)" for call
    using that by (auto simp: set_map_filter dest!: call_for_id)
  then show ?case using Cons by (auto simp: map_filter_simps dest!: call_for_id split: option.splits) metis
qed (simp add: map_filter_simps)

text \<open>A subscription of the cache is notified of an update when it is triggered and not held back.\<close>

definition sub_notified ::
    "trigger_env \<Rightarrow> bool \<Rightarrow> string \<Rightarrow> string list \<Rightarrow> string \<Rightarrow> string \<Rightarrow> string list \<Rightarrow> ContextElementResponse \<Rightarrow> notify_args
       \<Rightarrow> CachedSubscription \<Rightarrow> bool" where
  "sub_notified te mt tenant spV eid etype attrs cer args c =
     (sub_triggers (te_sf te) mt (te_now te) tenant spV eid etype attrs c
      \<and> call_for te cer args (subscriptionId c, triggered_as (te_sf te) c) \<noteq> None)"

lemma update_calls:
  assumes "cache_rel sc es" "subCacheActive sc" "\<not> te_noCache te" "distinct (sub_ids es)"
    "list_all (\<lambda>e. cached_wf (snd e) \<and> matchable (te_sf te) (subCacheMultitenant sc) tenant spV eid etype attrs (snd e)) es"
  shows "\<exists>subs ps. addTriggeredSubscriptions te sc eid etype attrs [] tenant spV = Some (True, subs)
    \<and> processSubscriptions te cer args subs sc = Some ps
    \<and> ps_ret ps \<and> ps_writes ps = [] \<and> ps_lost ps = []
    \<and> cache_rel (ps_cache ps)
        (bump_ids te (subscriptionId ` {c\<in>snd ` set es. sub_notified te (subCacheMultitenant sc) tenant spV eid etype attrs cer args c}) es)
    \<and> distinct (map (ncr_subscriptionId \<circ> nfc_request) (ps_calls ps))
    \<and> set (ps_calls ps) = {call. \<exists>c\<in>snd ` set es. sub_triggers (te_sf te) (subCacheMultitenant sc) (te_now te) tenant spV eid etype attrs c
          \<and> call_for te cer args (subscriptionId c, triggered_as (te_sf te) c) = Some call}"
proof -
  let ?env = "te_sf te" and ?fs = "filter (\<lambda>e. sub_triggers (te_sf te) (subCacheMultitenant sc) (te_now te) tenant spV eid etype attrs (snd e)) es"
  define subs where "subs = foldl (insert_triggered ?env) [] ?fs"
  have wf: "list_all (\<lambda>e. cached_wf (snd e)) es" and m: "list_all (\<lambda>e. matchable ?env (subCacheMultitenant sc) tenant spV eid etype attrs (snd e)) es"
    using assms(5) by (simp_all add: list_all_iff)
  have t: "addTriggeredSubscriptions te sc eid etype attrs [] tenant spV = Some (True, subs)"
    using triggered_entries [OF assms(1) m] assms(3) by (simp add: addTriggeredSubscriptions_def subs_def)
  have "distinct (sub_ids ?fs)" using assms(4) by (rule distinct_map_filter)
  then have set: "set subs = (\<lambda>e. (subscriptionId (snd e), triggered_as ?env (snd e))) ` set ?fs"
    using foldl_insert_distinct [of ?fs "[]" ?env] by (simp add: subs_def)
  have d: "distinct (map fst subs)" unfolding subs_def by (intro keys_sorted_distinct foldl_triggered_sorted) simp
  have "list_all (sub_of_entry es) subs" unfolding list_all_iff set by (force simp: sub_of_entry_def)
  from process_all_entries [OF _ _ assms(4) wf this d, of "\<lparr>ps_ret = True, ps_err = [], ps_calls = [], ps_writes = [], ps_cache = sc, ps_lost = []\<rparr>" te cer args]
  obtain sc' where p: "processSubscriptions te cer args subs sc = Some \<lparr>ps_ret = True, ps_err = [],
        ps_calls = List.map_filter (call_for te cer args) subs, ps_writes = [], ps_cache = sc', ps_lost = []\<rparr>"
      and rel: "cache_rel sc' (bump_ids te {i. \<exists>s\<in>set subs. fst s = i \<and> call_for te cer args s \<noteq> None} es)"
    using assms(1,2) by (auto simp: processSubscriptions_def)
  have "{i. \<exists>s\<in>set subs. fst s = i \<and> call_for te cer args s \<noteq> None} =
      subscriptionId ` {c\<in>snd ` set es. sub_notified te (subCacheMultitenant sc) tenant spV eid etype attrs cer args c}"
    unfolding set by (intro set_eqI iffI; force simp: sub_notified_def image_iff)
  moreover have "distinct (map (ncr_subscriptionId \<circ> nfc_request) (List.map_filter (call_for te cer args) subs))"
    using d by (rule calls_distinct)
  moreover have "set (List.map_filter (call_for te cer args) subs) = {call. \<exists>c\<in>snd ` set es. sub_triggers (te_sf te) (subCacheMultitenant sc) (te_now te) tenant spV eid etype attrs c
          \<and> call_for te cer args (subscriptionId c, triggered_as (te_sf te) c) = Some call}"
    unfolding set_map_filter set by (intro set_eqI iffI; force simp: image_iff)
  ultimately show ?thesis using t p rel by auto
qed



subsection \<open>A concrete update\<close>

definition trig_sub :: CachedSubscription where
  "trig_sub = (sub_demo ''x'' 0 0)\<lparr>throttling := 5, expirationTime := 1000\<rparr>"

definition trig_cache :: SubCache where
  "trig_cache = \<lparr>head = Some 1, tail = Some 1, noOfRefreshes = 0, noOfInserts = 1, noOfRemoves = 0, noOfUpdates = 0,
     heap = [1 \<mapsto> trig_sub], subCacheMultitenant = False, subCacheActive = True, subCacheState = ScsIdle\<rparr>"

definition trig_env :: "int \<Rightarrow> trigger_env" where
  "trig_env now = \<lparr>te_sf = env_demo, te_now = now, te_noCache = False, te_csubs = (\<lambda>_ _. None), te_checkTime = (\<lambda>_. now),
     te_sentTime = (\<lambda>_. now + 1), te_dbUpdate = (\<lambda>_. None)\<rparr>"

definition trig_cer :: ContextElementResponse where
  "trig_cer = ContextElementResponse_new\<lparr>contextElement := (ContextElement_of ''myroom'' ''Room'' ''false'')\<lparr>contextAttributeVector :=
     [ContextAttribute_number ''temp'' ''Number'' (Fin 21) True]\<rparr>\<rparr>"

definition trig_args :: notify_args where
  "trig_args = \<lparr>na_tenant = [], na_xauthToken = [], na_correlator = ''c1''\<rparr>"

lemma trig_cache_rel: "cache_rel trig_cache [(1, trig_sub)]" "subCacheActive trig_cache" "subCacheMultitenant trig_cache = False"
  by (simp_all add: trig_cache_def cache_rel_def last_addr_def trig_sub_def sub_demo_def Orion_SubCache.plain_def)

lemma subMatch_times:
  "subMatch env mt (c\<lparr>throttling := a, expirationTime := b\<rparr>) = subMatch env mt c"
  "subMatch env mt (c\<lparr>lastNotificationTime := t, count := n\<rparr>) = subMatch env mt c"
  by (cases c; intro ext; simp only: subMatch_def CachedSubscription.select_convs CachedSubscription.update_convs)+

lemma trig_match: "subMatch env_demo False trig_sub (Some []) ''/a/b'' ''myroom'' ''Room'' [''temp''] = Some True"
  unfolding trig_sub_def subMatch_times by code_simp

lemma trig_clonable: "clonable env_demo trig_sub" "clonable env_demo (trig_sub\<lparr>lastNotificationTime := t, count := n\<rparr>)"
  by (simp_all add: clonable_def trig_sub_def sub_demo_def filter_clone_def StringFilter_new_def)

lemma trig_matchable:
  "matchable env_demo False [] [''/a/b''] ''myroom'' ''Room'' [''temp''] (trig_sub\<lparr>lastNotificationTime := t, count := n\<rparr>)"
  "matchable env_demo False [] [''/a/b''] ''myroom'' ''Room'' [''temp''] trig_sub"
  "sub_triggers env_demo False 100 [] [''/a/b''] ''myroom'' ''Room'' [''temp''] trig_sub"
proof -
  have c: "c_str [] = []" "c_str ''/a/b'' = ''/a/b''" "c_str ''myroom'' = ''myroom''" "c_str ''Room'' = ''Room''" by (simp_all add: c_str_def)
  have i: "in_time 100 trig_sub" by (simp add: trig_sub_def sub_demo_def in_time_def)
  show "matchable env_demo False [] [''/a/b''] ''myroom'' ''Room'' [''temp''] (trig_sub\<lparr>lastNotificationTime := t, count := n\<rparr>)"
    "matchable env_demo False [] [''/a/b''] ''myroom'' ''Room'' [''temp''] trig_sub"
    "sub_triggers env_demo False 100 [] [''/a/b''] ''myroom'' ''Room'' [''temp''] trig_sub"
    using trig_match i trig_clonable by (simp_all add: matchable_def sub_triggers_def c subMatch_times)
qed

lemma trig_wf: "cached_wf trig_sub" "subscriptionId trig_sub = ''x''" "throttling trig_sub = 5" "count trig_sub = 0"
  by (simp_all add: cached_wf_def trig_sub_def sub_demo_def c_str_def)

lemma trig_call: "\<exists>call. call_for (trig_env 100) trig_cer trig_args (''x'', triggered_as env_demo trig_sub) = Some call"
  by (simp add: call_for_def throttled_def filtered_out_def processOnChangeConditionForUpdateContext_def notified_attrs_def
      trig_env_def trig_cer_def trig_sub_def sub_demo_def triggered_as_def cache_trigger_def fillExpression_def
      TriggeredSubscription_new_def filter_clone_def StringFilter_new_def filter_match_def Let_def)



text \<open>Two oddities of the notification: a throttling of one second is not enforced, and a subscription without a list of
  attributes is also notified of the attributes that the update has deleted, which are marked to be skipped.\<close>

lemma throttling_one_unenforced: "ts_throttling ts = 1 \<Longrightarrow> \<not> throttled te i ts"
  by (simp add: throttled_def)

lemma deleted_attribute_notified: "notified_attrs [] [ca\<lparr>ca_skip := True\<rparr>] = [ca\<lparr>ca_skip := True\<rparr>]"
  by (simp add: notified_attrs_def)

text \<open>The three parts of the expression of a cached subscription are passed on in the wrong order.\<close>

lemma expression_swapped:
  "ts_georel (cache_trigger c) = ex_geometry (expression c) \<and> ts_geometry (cache_trigger c) = ex_coords (expression c)
   \<and> ts_coords (cache_trigger c) = ex_georel (expression c)"
  by (simp add: cache_trigger_def fillExpression_def)

end
