(* ===== verification/Orion_Update.thy ===== *)
theory Orion_Update
  imports Orion_Trigger Orion_Merge Orion_Location
begin

section \<open>Updates of entities: mongoBackend/MongoCommonUpdate.cpp\<close>

text \<open>
  An update goes through the attributes of a request, with the document of the entity at hand, and collects what is to
  be set, unset, pushed to and pulled from the document, the response, and the entity that the subscribers are to see.
  A builder is the list of what it holds. Reads of the clock are parameters: \<open>clock ix\<close> is the time at which the
  attribute at index \<open>ix\<close> is processed. \<^const>\<open>None\<close> is an exception of the driver, or a null pointer.
\<close>

subsection \<open>Actions\<close>

definition isUpdate :: "string \<Rightarrow> bool" where "isUpdate action = strcasecmp_eq action ''update''"
definition isReplace :: "string \<Rightarrow> bool" where "isReplace action = strcasecmp_eq action ''replace''"
definition isAppend :: "string \<Rightarrow> bool" where "isAppend action = strcasecmp_eq action ''append''"
definition isAppendStrict :: "string \<Rightarrow> bool" where "isAppendStrict action = strcasecmp_eq action ''append_strict''"
definition isDelete :: "string \<Rightarrow> bool" where "isDelete action = strcasecmp_eq action ''delete''"

subsection \<open>One attribute\<close>

definition effectiveName :: "ContextAttribute \<Rightarrow> string" where
  "effectiveName ca = dbDotEncode (ca_name ca) @ (if getId ca \<noteq> [] then ''__'' @ getId ca else [])"

definition stored_type :: "ContextAttribute \<Rightarrow> string \<Rightarrow> bson" where
  "stored_type ca apiVersion = BStr (if \<not> ca_typeGiven ca \<and> apiVersion = ''v2'' then DEFAULT_TYPE else ca_type ca)"

definition custom_md :: "ContextAttribute \<Rightarrow> string \<Rightarrow> doc" where
  "custom_md ca apiVersion =
     (case contextAttributeCustomMetadataToBson ca (apiVersion = ''v2'') of
        None \<Rightarrow> [] | Some mdV \<Rightarrow> [(''md'', BArr (map BObj mdV))])"

text \<open>Whether the attribute was found, whether it changes, and what is added to \<open>toSet\<close> and \<open>toPush\<close>. When the
  entity is replaced, the condition of the metadata ends in a semicolon, so they are always written.\<close>

definition updateAttribute ::
    "int \<Rightarrow> doc \<Rightarrow> ContextAttribute \<Rightarrow> bool \<Rightarrow> string \<Rightarrow> (bool \<times> bool \<times> doc \<times> string list) option" where
  "updateAttribute now attrs ca replace apiVersion =
     (if replace
      then Some (True, True,
             [(effectiveName ca,
               BObj ([(''type'', stored_type ca apiVersion), (''creDate'', BInt now), (''modDate'', BInt now)] @ valueBson ca
                     @ [(''md'', BArr (map BObj (request_metadata (ca_metadataVector ca) (apiVersion = ''v2''))))]))],
             [ca_name ca])
      else case getField attrs (effectiveName ca) of
             None \<Rightarrow> Some (False, False, [], [])
           | Some e \<Rightarrow>
               Option.bind (embeddedObject (Some e)) (\<lambda>attr.
                 map_option (\<lambda>(actualUpdate, newAttr).
                   (True, actualUpdate, if actualUpdate then [(''attrs.'' @ effectiveName ca, BObj newAttr)] else [], []))
                   (mergeAttrInfo now attr ca apiVersion)))"

definition appended_attr :: "int \<Rightarrow> ContextAttribute \<Rightarrow> string \<Rightarrow> doc" where
  "appended_attr now ca apiVersion =
     valueBson ca @ [(''type'', stored_type ca apiVersion)] @ custom_md ca apiVersion
     @ [(''creDate'', BInt now), (''modDate'', BInt now)]"

text \<open>Whether the attribute is new, whether anything changes, and what is added.\<close>

definition appendAttribute ::
    "int \<Rightarrow> doc \<Rightarrow> ContextAttribute \<Rightarrow> string \<Rightarrow> (bool \<times> bool \<times> doc \<times> string list) option" where
  "appendAttribute now attrs ca apiVersion =
     (if hasField attrs (effectiveName ca)
      then map_option (\<lambda>(found, actualUpdate, toSet, toPush). (False, actualUpdate, toSet, toPush))
             (updateAttribute now attrs ca False apiVersion)
      else Some (True, True, [(''attrs.'' @ effectiveName ca, BObj (appended_attr now ca apiVersion))], [ca_name ca]))"

definition starts_with :: "string \<Rightarrow> string \<Rightarrow> bool" where
  "starts_with p s = (take (length p) s = p)"

definition legalIdUsage :: "doc \<Rightarrow> ContextAttribute \<Rightarrow> bool" where
  "legalIdUsage attrs ca =
     (let prefix = ca_name ca @ ''__''
      in if getId ca = []
         then \<not> list_ex (\<lambda>attrName. starts_with (ca_name ca) attrName \<and> starts_with prefix attrName) (field_names attrs)
         else \<not> list_ex (\<lambda>attrName. starts_with (ca_name ca) attrName \<and> \<not> starts_with prefix attrName) (field_names attrs))"

definition legalIdUsage_vector :: "ContextAttribute list \<Rightarrow> bool" where
  "legalIdUsage_vector caV =
     list_all (\<lambda>ca. getId ca = [] \<longrightarrow>
       \<not> list_ex (\<lambda>cb. ca_name ca = ca_name cb \<and> ca_type ca = ca_type cb \<and> getId cb \<noteq> []) caV) caV"

text \<open>What is added to \<open>toUnset\<close>, and the counter of the deleted attributes; none when the attribute is not there.\<close>

definition deleteAttribute :: "doc \<Rightarrow> ContextAttribute \<Rightarrow> (string \<times> nat) list \<Rightarrow> (doc \<times> (string \<times> nat) list) option" where
  "deleteAttribute attrs ca deleted =
     (if \<not> hasField attrs (effectiveName ca) then None
      else Some ([(''attrs.'' @ effectiveName ca, BInt 1)], map_insert (ca_name ca) Suc 0 deleted))"

definition setResponseMetadata :: "ContextAttribute \<Rightarrow> ContextAttribute \<Rightarrow> ContextAttribute" where
  "setResponseMetadata caReq caRes =
     caRes\<lparr>ca_metadataVector := ca_metadataVector caRes
       @ (if getId caReq \<noteq> [] then [Metadata_string ''ID'' ''string'' (getId caReq)] else [])
       @ (if getLocation caReq ''v1'' \<noteq> [] \<and> ca_type caReq \<noteq> ''geo:point''
          then [Metadata_string ''location'' ''string'' (getLocation caReq ''v1'')] else [])
       @ map (\<lambda>md. Metadata_copy md False) (filter (\<lambda>md. \<not> isNotCustomMetadata (md_name md)) (ca_metadataVector caReq))\<rparr>"

definition howManyAttrs :: "doc \<Rightarrow> string \<Rightarrow> nat" where
  "howManyAttrs attrs attrName = length (filter (\<lambda>n. basePart n = attrName) (field_names attrs))"

subsection \<open>The entity of the notifications\<close>

definition update_md :: "Metadata \<Rightarrow> Metadata \<Rightarrow> Metadata" where
  "update_md target md =
     (let md = md\<lparr>md_valueType := md_valueType target, md_stringValue := md_stringValue target,
                  md_boolValue := md_boolValue target, md_numberValue := md_numberValue target\<rparr>
      in if md_type target \<noteq> [] then md\<lparr>md_type := md_type target\<rparr> else md)"

fun merge_md :: "bool \<Rightarrow> Metadata \<Rightarrow> Metadata list \<Rightarrow> Metadata list" where
  "merge_md useDefaultType target [] = [Metadata_copy target useDefaultType]"
| "merge_md useDefaultType target (md # mds) =
     (if md_name md = md_name target then update_md target md # mds else md # merge_md useDefaultType target mds)"

definition cloned_value :: "ContextAttribute \<Rightarrow> CompoundValueNode option option" where
  "cloned_value target = (case ca_compoundValueP target of None \<Rightarrow> Some None | Some n \<Rightarrow> map_option Some (cv_clone True n n))"

definition update_notified :: "bool \<Rightarrow> ContextAttribute \<Rightarrow> ContextAttribute \<Rightarrow> ContextAttribute option" where
  "update_notified useDefaultType target ca =
     map_option (\<lambda>ca.
       (let ca = (if ca_type target \<noteq> [] then ca\<lparr>ca_type := ca_type target\<rparr> else ca)
        in ca\<lparr>ca_metadataVector := foldl (\<lambda>mds md. merge_md useDefaultType md mds) (ca_metadataVector ca) (ca_metadataVector target)\<rparr>))
       (if ca_valueType target \<noteq> ValueTypeNone
        then map_option (\<lambda>v. ca\<lparr>ca_valueType := ca_valueType target, ca_stringValue := ca_stringValue target,
               ca_boolValue := ca_boolValue target, ca_numberValue := ca_numberValue target, ca_compoundValueP := v\<rparr>)
               (cloned_value target)
        else Some ca)"

text \<open>The attribute vector afterwards, and the target, which loses its compound value to a new attribute.\<close>

fun update_in_vector ::
    "bool \<Rightarrow> ContextAttribute \<Rightarrow> ContextAttribute list \<Rightarrow> (ContextAttribute list \<times> ContextAttribute) option" where
  "update_in_vector useDefaultType target [] =
     (let (c, src) = ContextAttribute_copy target useDefaultType in Some ([c], src))"
| "update_in_vector useDefaultType target (ca # cas) =
     (if ca_name ca = ca_name target
      then map_option (\<lambda>ca. (ca # cas, target)) (update_notified useDefaultType target ca)
      else map_option (map_prod (Cons ca) id) (update_in_vector useDefaultType target cas))"

definition cer_map :: "(ContextAttribute list \<Rightarrow> ContextAttribute list) \<Rightarrow> ContextElementResponse \<Rightarrow> ContextElementResponse" where
  "cer_map f cer = cer\<lparr>contextElement := (contextElement cer)\<lparr>contextAttributeVector := f (contextAttributeVector (contextElement cer))\<rparr>\<rparr>"

definition updateAttrInNotifyCer ::
    "ContextElementResponse \<Rightarrow> ContextAttribute \<Rightarrow> bool \<Rightarrow> (ContextElementResponse \<times> ContextAttribute) option" where
  "updateAttrInNotifyCer notifyCer target useDefaultType =
     map_option (\<lambda>(cas, target). (cer_map (\<lambda>_. cas) notifyCer, target))
       (update_in_vector useDefaultType target (contextAttributeVector (contextElement notifyCer)))"

definition deleteAttrInNotifyCer :: "ContextElementResponse \<Rightarrow> ContextAttribute \<Rightarrow> ContextElementResponse" where
  "deleteAttrInNotifyCer notifyCer target =
     cer_map (map (\<lambda>ca. if ca_name ca = ca_name target then ca\<lparr>ca_skip := True\<rparr> else ca)) notifyCer"

subsection \<open>The attributes of a request\<close>

record upd =
  u_toSet :: doc
  u_toUnset :: doc
  u_toPush :: "string list"
  u_toPull :: "string list"
  u_cer :: ContextElementResponse
  u_notifyCer :: ContextElementResponse
  u_locAttr :: string
  u_geoJson :: doc
  u_entityModified :: bool
  u_deleted :: "(string \<times> nat) list"
  u_modifiedAttrs :: "string list"
  u_alarms :: "string list"

definition u_status :: "HttpStatusCode \<Rightarrow> string \<Rightarrow> upd \<Rightarrow> upd" where
  "u_status code details u = u\<lparr>u_cer := (u_cer u)\<lparr>statusCode := StatusCode_fill (statusCode (u_cer u)) code details\<rparr>\<rparr>"

text \<open>The attribute that was last added to the response is found, or not.\<close>

definition u_found :: "bool \<Rightarrow> upd \<Rightarrow> upd" where
  "u_found b u = u\<lparr>u_cer := cer_map (\<lambda>cas. butlast cas @ [(last cas)\<lparr>ca_found := b\<rparr>]) (u_cer u)\<rparr>"

definition action_details :: "string \<Rightarrow> upd \<Rightarrow> ContextAttribute \<Rightarrow> string" where
  "action_details action u ca =
     ''action: '' @ action @ '' - entity: ['' @ EntityId_toString (ce_entityId (contextElement (u_cer u))) False '', '' @ '']''
     @ '' - offending attribute: '' @ ca_name ca"

text \<open>
  The result of processing an attribute: whether to go on, whether the attribute has changed, the state, and the
  attribute of the request.
\<close>

type_synonym item_result = "(bool \<times> bool \<times> upd \<times> ContextAttribute) option"

definition notify_item :: "string \<Rightarrow> bool \<Rightarrow> ContextAttribute \<Rightarrow> upd \<Rightarrow> item_result" where
  "notify_item apiVersion actualUpdate target u =
     map_option (\<lambda>(cer, target). (True, actualUpdate, u\<lparr>u_notifyCer := cer\<rparr>, target))
       (updateAttrInNotifyCer (u_notifyCer u) target (apiVersion = ''v2''))"

text \<open>An attribute that is not found does not end the function: location and notification go on with it.\<close>

definition updateContextAttributeItem ::
    "strtod_fun \<Rightarrow> int \<Rightarrow> doc \<Rightarrow> bool \<Rightarrow> string \<Rightarrow> ContextAttribute \<Rightarrow> upd \<Rightarrow> item_result" where
  "updateContextAttributeItem strtod now attrs replace apiVersion target u =
     Option.bind (updateAttribute now attrs target replace apiVersion) (\<lambda>(found, actualUpdate, set, push).
       let u = u\<lparr>u_toSet := u_toSet u @ set, u_toPush := u_toPush u @ push\<rparr>;
           u = (if found then u\<lparr>u_entityModified := actualUpdate \<or> u_entityModified u\<rparr>
                else if \<not> replace then u_found False (u_status SccInvalidParameter (action_details ''UPDATE'' u target) u)
                else u)
       in case processLocationAtUpdateAttribute strtod (u_locAttr u) target apiVersion of
            Inl err \<Rightarrow>
              Some (False, actualUpdate, (u_status SccInvalidParameter (action_details ''UPDATE'' u target @ '' - '' @ err) u)
                \<lparr>u_alarms := u_alarms u @ [err]\<rparr>, target)
          | Inr (locAttr, geo) \<Rightarrow>
              notify_item apiVersion actualUpdate target (u\<lparr>u_locAttr := locAttr, u_geoJson := u_geoJson u @ geo\<rparr>))"

definition appendContextAttributeItem ::
    "strtod_fun \<Rightarrow> int \<Rightarrow> doc \<Rightarrow> string \<Rightarrow> ContextAttribute \<Rightarrow> upd \<Rightarrow> item_result" where
  "appendContextAttributeItem strtod now attrs apiVersion target u =
     (if \<not> legalIdUsage attrs target
      then Some (False, True,
             (u_status SccInvalidParameter (action_details ''APPEND'' u target @ '' - attribute cannot be appended'') u)
             \<lparr>u_alarms := u_alarms u @ [''attribute cannot be appended'']\<rparr>, target)
      else Option.bind (appendAttribute now attrs target apiVersion) (\<lambda>(actualAppend, actualUpdate, set, push).
        let u = u\<lparr>u_toSet := u_toSet u @ set, u_toPush := u_toPush u @ push,
                  u_entityModified := actualUpdate \<or> u_entityModified u\<rparr>
        in case processLocationAtAppendAttribute strtod (u_locAttr u) target actualAppend apiVersion of
             Inl err \<Rightarrow>
               Some (False, actualUpdate, (u_status SccInvalidParameter (action_details ''APPEND'' u target @ '' - '' @ err) u)
                 \<lparr>u_alarms := u_alarms u @ [err]\<rparr>, target)
           | Inr (locAttr, geo) \<Rightarrow>
               notify_item apiVersion actualUpdate target (u\<lparr>u_locAttr := locAttr, u_geoJson := u_geoJson u @ geo\<rparr>)))"

definition deleteContextAttributeItem :: "doc \<Rightarrow> string \<Rightarrow> ContextAttribute \<Rightarrow> upd \<Rightarrow> item_result" where
  "deleteContextAttributeItem attrs apiVersion target u =
     (case deleteAttribute attrs target (u_deleted u) of
        Some (unset, deleted) \<Rightarrow>
          (let u = u\<lparr>u_toUnset := u_toUnset u @ unset, u_deleted := deleted,
                     u_notifyCer := deleteAttrInNotifyCer (u_notifyCer u) target, u_entityModified := True\<rparr>
           in if getLocation target apiVersion \<noteq> []
              then Some (False, True, (u_status SccInvalidParameter (action_details ''DELETE'' u target
                       @ '' - location attribute has to be defined at creation time, with APPEND'') u)
                     \<lparr>u_alarms := u_alarms u @ [''location attribute has to be defined at creation time'']\<rparr>, target)
              else Some (True, True, u_found True (if u_locAttr u = ca_name target then u\<lparr>u_locAttr := []\<rparr> else u), target))
      | None \<Rightarrow>
          Some (False, True, u_found False ((u_status SccInvalidParameter (action_details ''DELETE'' u target
                  @ '' - attribute not found'') u)\<lparr>u_alarms := u_alarms u @ [''attribute to be deleted is not found'']\<rparr>), target))"

definition process_item :: "strtod_fun \<Rightarrow> int \<Rightarrow> doc \<Rightarrow> string \<Rightarrow> string \<Rightarrow> ContextAttribute \<Rightarrow> upd \<Rightarrow> item_result" where
  "process_item strtod now attrs action apiVersion target u =
     (if isUpdate action \<or> isReplace action
      then updateContextAttributeItem strtod now attrs (isReplace action) apiVersion target u
      else if isAppend action \<or> isAppendStrict action then appendContextAttributeItem strtod now attrs apiVersion target u
      else if isDelete action then deleteContextAttributeItem attrs apiVersion target u
      else Some (False, True, u_status SccInvalidParameter (''unknown actionType: '' @ quoted action) u, target))"

fun process_attributes ::
    "strtod_fun \<Rightarrow> (nat \<Rightarrow> int) \<Rightarrow> doc \<Rightarrow> string \<Rightarrow> string \<Rightarrow> nat \<Rightarrow> ContextAttribute list \<Rightarrow> upd
       \<Rightarrow> (bool \<times> upd \<times> ContextAttribute list) option" where
  "process_attributes strtod clock attrs action apiVersion ix [] u = Some (True, u, [])"
| "process_attributes strtod clock attrs action apiVersion ix (target # cas) u =
     (if ca_skip target
      then map_option (\<lambda>(ok, u, cas). (ok, u, target # cas)) (process_attributes strtod clock attrs action apiVersion (Suc ix) cas u)
      else let ca = setResponseMetadata target (ContextAttribute_string (ca_name target) (ca_type target) [] True);
               u = u\<lparr>u_cer := cer_map (\<lambda>cas. cas @ [ca]) (u_cer u)\<rparr>
      in case process_item strtod (clock ix) attrs action apiVersion target u of
           None \<Rightarrow> None
         | Some (ok, actualUpdate, u, target) \<Rightarrow>
             if \<not> ok then Some (False, u, target # cas)
             else let u = (if actualUpdate then u\<lparr>u_modifiedAttrs := u_modifiedAttrs u @ [ca_name ca]\<rparr> else u)
             in map_option (\<lambda>(ok, u, cas). (ok, u, target # cas)) (process_attributes strtod clock attrs action apiVersion (Suc ix) cas u))"

definition pull_deleted :: "doc \<Rightarrow> string \<Rightarrow> upd \<Rightarrow> upd" where
  "pull_deleted attrs action u =
     (if isDelete action
      then u\<lparr>u_toPull := u_toPull u @ map fst (filter (\<lambda>(attrName, deletedTimes). howManyAttrs attrs attrName \<le> deletedTimes) (u_deleted u))\<rparr>
      else u)"

text \<open>The outside of an update: the clock, the subscriptions, the registrations, and the outcomes of the operations on the
  database, which give the text of an error or succeed.\<close>

record update_env =
  ue_strtod :: strtod_fun
  ue_clock :: "nat \<Rightarrow> int"
  ue_now :: int
  ue_te :: trigger_env
  ue_tenant :: string
  ue_spV :: "string list"
  ue_apiVersion :: string
  ue_args :: notify_args
  ue_providers :: "EntityId \<Rightarrow> string list \<Rightarrow> string + ContextRegistrationResponse list"
  ue_remove :: "(string \<times> query) list \<Rightarrow> string option"
  ue_update :: "(string \<times> query) list \<Rightarrow> doc \<Rightarrow> string option"
  ue_insert :: "doc \<Rightarrow> string option"
  ue_count :: "(string \<times> query) list \<Rightarrow> string + nat"
  ue_find :: "(string \<times> query) list \<Rightarrow> string + cursor_step list"
  ue_toString :: "doc \<Rightarrow> string"

definition processContextAttributeVector ::
    "update_env \<Rightarrow> SubCache \<Rightarrow> doc \<Rightarrow> string \<Rightarrow> ContextAttribute list \<Rightarrow> upd \<Rightarrow> (bool \<times> subs \<times> upd \<times> ContextAttribute list) option" where
  "processContextAttributeVector ue sc attrs action caV u =
     Option.bind (process_attributes (ue_strtod ue) (ue_clock ue) attrs action (ue_apiVersion ue) 0 caV u) (\<lambda>(ok, u, caV).
       if \<not> ok then Some (False, [], u, caV)
       else let u = pull_deleted attrs action u; en = ce_entityId (contextElement (u_cer u))
       in Option.bind (addTriggeredSubscriptions (ue_te ue) sc (ei_id en) (ei_type en) (u_modifiedAttrs u) [] (ue_tenant ue) (ue_spV ue))
            (\<lambda>(ok, subs).
              if \<not> ok then Some (False, subs, u_status SccReceiverInternalError [] u, caV)
              else let u = (if sc_code (statusCode (u_cer u)) = SccNone then u_status SccOk [] u else u)
              in Some (u_entityModified u, subs, u, caV)))"

subsection \<open>Creating and removing entities\<close>

definition created_attr :: "int \<Rightarrow> string \<Rightarrow> ContextAttribute \<Rightarrow> string \<times> bson" where
  "created_attr now apiVersion ca =
     (effectiveName ca,
      BObj ([(''type'', stored_type ca apiVersion), (''creDate'', BInt now), (''modDate'', BInt now)] @ valueBson ca
            @ custom_md ca apiVersion))"

definition inserted_doc :: "EntityId \<Rightarrow> ContextAttribute list \<Rightarrow> int \<Rightarrow> string \<Rightarrow> string \<Rightarrow> string \<Rightarrow> doc \<Rightarrow> doc" where
  "inserted_doc en caV now servicePath apiVersion locAttr geoJson =
     [(''_id'', BObj ([(''id'', BStr (ei_id en))]
         @ (if ei_type en = [] then if apiVersion = ''v2'' then [(''type'', BStr DEFAULT_TYPE)] else []
            else [(''type'', BStr (ei_type en))])
         @ [(''servicePath'', BStr (if servicePath = [] then ''/'' else servicePath))])),
      (''attrNames'', BArr (map (BStr \<circ> ca_name) caV)),
      (''attrs'', BObj (map (created_attr now apiVersion) caV)),
      (''creDate'', BInt now), (''modDate'', BInt now)]
     @ (if locAttr \<noteq> [] then [(''location'', BObj [(''attrName'', BStr locAttr), (''coords'', BObj geoJson)])] else [])"

text \<open>The document that is inserted, if the code comes that far, and the details of the error, if there is one. The driver's
  answer to the insertion is the parameter \<open>collectionInsert\<close>. Without a service path the code reads outside its vector.\<close>

definition createEntity ::
    "strtod_fun \<Rightarrow> (doc \<Rightarrow> string option) \<Rightarrow> EntityId \<Rightarrow> ContextAttribute list \<Rightarrow> int \<Rightarrow> string list \<Rightarrow> string
       \<Rightarrow> (doc option \<times> string option) option" where
  "createEntity strtod collectionInsert en caV now servicePathV apiVersion =
     (if \<not> legalIdUsage_vector caV
      then Some (None, Some (''Attributes with same name with ID and not ID at the same time in the same entity are forbidden: entity: [''
                @ EntityId_toString en False '', '' @ '']''))
      else case processLocationAtEntityCreation strtod caV apiVersion of
             Inl err \<Rightarrow> Some (None, Some err)
           | Inr (locAttr, geoJson) \<Rightarrow>
               (case servicePathV of
                  [] \<Rightarrow> None
                | servicePath # _ \<Rightarrow>
                    (let d = inserted_doc en caV now servicePath apiVersion locAttr geoJson in Some (Some d, collectionInsert d))))"

definition not_there :: query where
  "not_there = QObj [(''$exists'', QVal (BBool False))]"

definition entity_key :: "string \<Rightarrow> string \<Rightarrow> (string \<times> query) list" where
  "entity_key entityId entityType =
     [(''_id.id'', QVal (BStr entityId)), (''_id.type'', if entityType = [] then not_there else QVal (BStr entityType))]"

definition removeEntity ::
    "update_env \<Rightarrow> string \<Rightarrow> string \<Rightarrow> string \<Rightarrow> ContextElementResponse \<Rightarrow> (string \<times> query) list \<times> ContextElementResponse" where
  "removeEntity ue entityId entityType servicePath cer =
     (let query = entity_key entityId entityType
            @ [(''_id.servicePath'', if servicePath = [] then not_there else QVal (BStr servicePath))]
      in (query, cer\<lparr>statusCode :=
            (case ue_remove ue query of
               Some err \<Rightarrow> StatusCode_fill (statusCode cer) SccReceiverInternalError err
             | None \<Rightarrow> StatusCode_fill (statusCode cer) SccOk [])\<rparr>))"

subsection \<open>Updating an entity\<close>

datatype db_op = DbRemove "(string \<times> query) list" | DbUpdate "(string \<times> query) list" doc | DbInsert doc

record upd_result =
  r_cerV :: "ContextElementResponse list"
  r_caV :: "ContextAttribute list"
  r_existsError :: bool
  r_existsList :: string
  r_ops :: "db_op list"
  r_calls :: "notify_call list"
  r_subWrites :: "(string \<times> int) list"
  r_cache :: SubCache
  r_alarms :: "string list"
  r_dbErrors :: "string list"

text \<open>Attributes that exist already are skipped by \<^verbatim>\<open>APPEND_STRICT\<close>; the text lists them.\<close>

fun strict_loop :: "doc \<Rightarrow> ContextAttribute list \<Rightarrow> bool \<Rightarrow> string \<Rightarrow> ContextAttribute list \<times> bool \<times> string" where
  "strict_loop attrs [] err list = ([], err, list)"
| "strict_loop attrs (ca # cas) err list =
     (if howManyAttrs attrs (ca_name ca) \<noteq> 0
      then map_prod (Cons (ca\<lparr>ca_skip := True\<rparr>)) id
             (strict_loop attrs cas True ((if list \<noteq> ''[ '' then list @ '', '' else list) @ ca_name ca))
      else map_prod (Cons ca) id (strict_loop attrs cas err list))"

definition strict_check :: "string \<Rightarrow> doc \<Rightarrow> ContextAttribute list \<Rightarrow> ContextAttribute list \<times> bool \<times> string" where
  "strict_check action attrs caV =
     (if isAppendStrict action then map_prod id (map_prod id (\<lambda>l. l @ '' ]'')) (strict_loop attrs caV False ''[ '')
      else (caV, False, ''[ ''))"

definition existing_attrs :: "string \<Rightarrow> doc \<Rightarrow> ContextAttribute list \<Rightarrow> ContextAttribute list" where
  "existing_attrs action attrs caV =
     (if isAppendStrict action then filter (\<lambda>ca. howManyAttrs attrs (ca_name ca) \<noteq> 0) caV else [])"

definition location_doc :: "string \<Rightarrow> doc \<Rightarrow> bson" where
  "location_doc locAttr coords = BObj [(''attrName'', BStr locAttr), (''coords'', BObj coords)]"

text \<open>The update of the document. When the entity is replaced, the location is among the new attributes.\<close>

definition composed_update :: "int \<Rightarrow> string \<Rightarrow> doc \<Rightarrow> upd \<Rightarrow> doc" where
  "composed_update now action currentGeoJson u =
     (let toSet = u_toSet u
            @ (if \<not> isReplace action then [(''modDate'', BInt now)] else [])
            @ (if u_locAttr u \<noteq> []
               then [(''location'', location_doc (u_locAttr u) (if u_geoJson u \<noteq> [] then u_geoJson u else currentGeoJson))] else []);
          toUnset = u_toUnset u @ (if u_locAttr u \<noteq> [] then [] else [(''location'', BInt 1)])
      in if isReplace action
         then [(''$set'', BObj [(''attrs'', BObj toSet), (''attrNames'', BArr (map BStr (u_toPush u))), (''modDate'', BInt now)])]
         else (if toSet \<noteq> [] then [(''$set'', BObj toSet)] else [])
              @ (if toUnset \<noteq> [] then [(''$unset'', BObj toUnset)] else [])
              @ (if u_toPush u \<noteq> [] then [(''$addToSet'', BObj [(''attrNames'', BObj [(''$each'', BArr (map BStr (u_toPush u)))])])] else [])
              @ (if u_toPull u \<noteq> [] then [(''$pullAll'', BObj [(''attrNames'', BArr (map BStr (u_toPull u)))])] else []))"

definition read_date :: "doc \<Rightarrow> string \<Rightarrow> dbl" where
  "read_date r field = Fin (of_int (if hasField r field then getIntOrLongFieldAsLong r field else - 1))"

definition with_dates :: "dbl \<Rightarrow> dbl \<Rightarrow> ContextElementResponse \<Rightarrow> ContextElementResponse" where
  "with_dates cre modified cer = cer\<lparr>contextElement := (contextElement cer)\<lparr>creDate := cre, modDate := modified\<rparr>\<rparr>"

definition updateEntity_write ::
    "update_env \<Rightarrow> string \<Rightarrow> EntityId \<Rightarrow> string \<Rightarrow> string \<Rightarrow> doc \<Rightarrow> doc \<Rightarrow> subs \<Rightarrow> upd \<Rightarrow> upd_result \<Rightarrow> upd_result option" where
  "updateEntity_write ue action en entityId entityType r currentGeoJson subs u res =
     Option.bind (fillQueryServicePath (ue_spV ue)) (\<lambda>sp.
       let update = composed_update (ue_now ue) action currentGeoJson u;
           query = entity_key entityId entityType @ [(''_id.servicePath'', QJson sp)];
           res = res\<lparr>r_ops := r_ops res @ [DbUpdate query update]\<rparr>;
           cer = u_cer u
       in case ue_update ue query update of
            Some err \<Rightarrow>
              Some (res\<lparr>r_cerV := r_cerV res @ [cer\<lparr>statusCode := StatusCode_fill (statusCode cer) SccReceiverInternalError err\<rparr>]\<rparr>)
          | None \<Rightarrow>
              map_option (\<lambda>ps.
                case searchContextProviders (ue_providers ue en) (r_caV res) cer of
                  (cer, errs) \<Rightarrow>
                    res\<lparr>r_cache := ps_cache ps, r_calls := r_calls res @ ps_calls ps,
                        r_subWrites := r_subWrites res @ ps_writes ps, r_dbErrors := r_dbErrors res @ errs,
                        r_cerV := r_cerV res @ [if sc_code (statusCode cer) = SccNone
                          then cer\<lparr>statusCode := StatusCode_fill (statusCode cer) SccOk []\<rparr> else cer]\<rparr>)
                (processSubscriptions (ue_te ue) (with_dates (read_date r ''creDate'') (Fin (of_int (ue_now ue))) (u_notifyCer u))
                   (ue_args ue) subs (r_cache res)))"

definition stored_location :: "doc \<Rightarrow> string \<times> doc" where
  "stored_location r =
     (if hasField r ''location''
      then (getStringField (getObjectField r ''location'') ''attrName'', getObjectField (getObjectField r ''location'') ''coords'')
      else ([], []))"

definition doc_type :: "doc \<Rightarrow> string" where
  "doc_type idField = (if hasField idField ''type'' then getStringField idField ''type'' else [])"

definition entity_response :: "string \<Rightarrow> string \<Rightarrow> ContextElementResponse" where
  "entity_response entityId entityType =
     (let new = ContextElementResponse_new
      in new\<lparr>contextElement := (contextElement new)
            \<lparr>ce_entityId := EntityId_fill (ce_entityId (contextElement new)) entityId entityType ''false''\<rparr>\<rparr>)"

definition start_upd :: "ContextElementResponse \<Rightarrow> ContextElementResponse \<Rightarrow> string \<Rightarrow> upd" where
  "start_upd cer notifyCer locAttr =
     \<lparr>u_toSet = [], u_toUnset = [], u_toPush = [], u_toPull = [], u_cer = cer, u_notifyCer = notifyCer, u_locAttr = locAttr,
      u_geoJson = [], u_entityModified = False, u_deleted = [], u_modifiedAttrs = [], u_alarms = []\<rparr>"

text \<open>The entity was not modified. The response is dropped by every \<^verbatim>\<open>APPEND_STRICT\<close>: the condition of the code
  reads the pointer of the flag of an existing attribute, which is never null.\<close>

definition updateEntity_unmodified :: "update_env \<Rightarrow> string \<Rightarrow> EntityId \<Rightarrow> ContextElementResponse \<Rightarrow> upd_result \<Rightarrow> upd_result" where
  "updateEntity_unmodified ue action en cer res =
     (case searchContextProviders (ue_providers ue en) (r_caV res) cer of
        (cer, errs) \<Rightarrow>
          res\<lparr>r_dbErrors := r_dbErrors res @ errs, r_cerV := (if isAppendStrict action then r_cerV res else r_cerV res @ [cer])\<rparr>)"

definition updateEntity :: "update_env \<Rightarrow> string \<Rightarrow> EntityId \<Rightarrow> doc \<Rightarrow> upd_result \<Rightarrow> upd_result option" where
  "updateEntity ue action en r res =
     Option.bind (embeddedObject (getField r ''_id'')) (\<lambda>idField.
       let entityId = getStringField idField ''id''; entityType = doc_type idField; cer = entity_response entityId entityType;
           res = res\<lparr>r_existsError := False, r_existsList := ''[ ''\<rparr>
       in if isDelete action \<and> r_caV res = []
          then case removeEntity ue entityId entityType (getStringField idField ''servicePath'') cer of
                 (query, cer) \<Rightarrow> Some (res\<lparr>r_ops := r_ops res @ [DbRemove query], r_cerV := r_cerV res @ [cer]\<rparr>)
          else Option.bind (embeddedObject (getField r ''attrs'')) (\<lambda>attrs.
            case stored_location r of
              (locAttr, currentGeoJson) \<Rightarrow>
                (case strict_check action attrs (r_caV res) of
                   (caV, existsError, existsList) \<Rightarrow>
                     (let res = res\<lparr>r_caV := caV, r_existsError := existsError, r_existsList := existsList,
                                   r_alarms := r_alarms res @ map (\<lambda>_. ''attribute already exists'') (existing_attrs action attrs (r_caV res))\<rparr>
                      in Option.bind (ContextElementResponse_bson r [] True False False ''v1'') (\<lambda>notifyCer.
                        let notifyCer = with_dates (read_date r ''creDate'') (read_date r ''modDate'') notifyCer
                        in Option.bind (processContextAttributeVector ue (r_cache res) attrs action caV (start_upd cer notifyCer locAttr))
                             (\<lambda>(modified, subs, u, caV).
                               let res = res\<lparr>r_caV := caV, r_alarms := r_alarms res @ u_alarms u\<rparr>
                               in if \<not> modified then Some (updateEntity_unmodified ue action en (u_cer u) res)
                                  else updateEntity_write ue action en entityId entityType r currentGeoJson subs u res))))))"

subsection \<open>One element of the request\<close>

datatype Ngsiv2Flavour = NGSIV2_NO_FLAVOUR | NGSIV2_FLAVOUR_ONCREATE | NGSIV2_FLAVOUR_ONAPPENDORUPDATE

definition buildGeneralErrorResponse ::
    "EntityId \<Rightarrow> ContextAttribute option \<Rightarrow> HttpStatusCode \<Rightarrow> string \<Rightarrow> upd_result \<Rightarrow> upd_result" where
  "buildGeneralErrorResponse en caP code details res =
     (let new = ContextElementResponse_new
      in res\<lparr>r_cerV := r_cerV res
           @ [new\<lparr>contextElement := (contextElement new)
                     \<lparr>ce_entityId := en, contextAttributeVector := (case caP of None \<Rightarrow> [] | Some ca \<Rightarrow> [ca])\<rparr>,
                  statusCode := StatusCode_fill (statusCode new) code details\<rparr>]\<rparr>)"

text \<open>A copy of the first attribute with a property, and the vector, in which that attribute has lost its compound value.\<close>

fun copy_first ::
    "(ContextAttribute \<Rightarrow> ContextAttribute list \<Rightarrow> bool) \<Rightarrow> ContextAttribute list
       \<Rightarrow> (ContextAttribute \<times> ContextAttribute list) option" where
  "copy_first P [] = None"
| "copy_first P (ca # cas) =
     (if P ca cas then Some (map_prod id (\<lambda>src. src # cas) (ContextAttribute_copy ca False))
      else map_option (map_prod id (Cons ca)) (copy_first P cas))"

definition same_attr :: "ContextAttribute \<Rightarrow> ContextAttribute \<Rightarrow> bool" where
  "same_attr ca cb = (ca_name ca = ca_name cb \<and> getId ca = getId cb)"

definition empty_attr :: "string \<Rightarrow> ContextAttribute \<Rightarrow> bool" where
  "empty_attr apiVersion ca = (attributeValueAbsent ca apiVersion \<and> attributeTypeAbsent ca \<and> ca_metadataVector ca = [])"

text \<open>Whether the element is processed further, and the result, with the error response if not.\<close>

definition contextElementPreconditionsCheck :: "EntityId \<Rightarrow> string \<Rightarrow> string \<Rightarrow> upd_result \<Rightarrow> bool \<times> upd_result" where
  "contextElementPreconditionsCheck en action apiVersion res =
     (case copy_first (\<lambda>ca cas. list_ex (same_attr ca) cas) (r_caV res) of
        Some (ca, caV) \<Rightarrow>
          (False, buildGeneralErrorResponse en (Some ca) SccInvalidModification (''duplicated attribute /'' @ ca_name ca @ ''/'')
             (res\<lparr>r_caV := caV,
                  r_alarms := r_alarms res @ [''duplicated attribute name: name=<'' @ ca_name ca @ ''> id=<'' @ getId ca @ ''>'']\<rparr>))
      | None \<Rightarrow>
          if isTrue (ei_isPattern en) then (False, buildGeneralErrorResponse en None SccNotImplemented [] res)
          else if (isUpdate action \<or> isAppend action \<or> isAppendStrict action \<or> isReplace action) \<and> apiVersion = ''v1''
          then (case copy_first (\<lambda>ca cas. empty_attr apiVersion ca) (r_caV res) of
                  Some (ca, caV) \<Rightarrow>
                    (False, buildGeneralErrorResponse en (Some ca) SccInvalidModification
                       (''action: '' @ action @ '' - entity: ['' @ EntityId_toString en True '', '' @ '']''
                        @ '' - offending attribute: '' @ ca_name ca @ '' - empty attribute not allowed in APPEND or UPDATE'')
                       (res\<lparr>r_caV := caV, r_alarms := r_alarms res @ [''empty attribute not allowed in APPEND or UPDATE'']\<rparr>))
                | None \<Rightarrow> (True, res))
          else (True, res))"

text \<open>The query for the entities. The value of the URI parameter \<^verbatim>\<open>!exist\<close> is \<open>notExist\<close>.\<close>

definition element_query :: "EntityId \<Rightarrow> string list \<Rightarrow> string \<Rightarrow> (string \<times> query) list option" where
  "element_query en servicePathV notExist =
     map_option (\<lambda>sp.
       [(''_id.id'', QVal (BStr (ei_id en)))]
       @ (if ei_type en \<noteq> [] then [(''_id.type'', QVal (BStr (ei_type en)))] else [])
       @ [(''_id.servicePath'', QJson sp)]
       @ (if notExist = ''entity::type'' then [(''_id.type'', not_there)] else []))
       (fillQueryServicePath servicePathV)"

text \<open>The error of the count of the matching entities, if there is one.\<close>

definition v2_error :: "Ngsiv2Flavour \<Rightarrow> string + nat \<Rightarrow> (HttpStatusCode \<times> string) option" where
  "v2_error flavour counted =
     (case counted of
        Inl err \<Rightarrow> Some (SccReceiverInternalError, err)
      | Inr n \<Rightarrow>
          if 0 < n \<and> flavour = NGSIV2_FLAVOUR_ONCREATE then Some (SccInvalidModification, ''Already Exists'')
          else if n = 0 \<and> flavour = NGSIV2_FLAVOUR_ONAPPENDORUPDATE then Some (SccContextElementNotFound, ''Entity does not exist'')
          else if 1 < n then Some (SccConflict, ''More than one matching entity. Please refine your query'')
          else None)"

text \<open>The documents that the cursor gives, and the errors of those without an identifier.\<close>

fun found_docs :: "(doc \<Rightarrow> string) \<Rightarrow> cursor_step list \<Rightarrow> doc list \<times> string list" where
  "found_docs toString [] = ([], [])"
| "found_docs toString (CDoc r # steps) =
     (if hasField r ''_id'' then map_prod (Cons r) id (found_docs toString steps)
      else map_prod id (Cons (''error retrieving _id field in doc: '' @ quoted (toString r))) (found_docs toString steps))"
| "found_docs toString (CAssertion _ # steps) = found_docs toString steps"
| "found_docs toString (CException _ # steps) = found_docs toString steps"

text \<open>The variable \<^verbatim>\<open>err\<close> after the loop over the cursor.\<close>

fun next_error :: "string \<Rightarrow> cursor_step list \<Rightarrow> string" where
  "next_error err [] = err"
| "next_error err (CDoc r # steps) = next_error err steps"
| "next_error err (CAssertion e # steps) = next_error (e @ '' at processContextElement:2905'') steps"
| "next_error err (CException e # steps) = next_error (e @ '' at processContextElement:2905'') steps"

fun update_entities :: "update_env \<Rightarrow> string \<Rightarrow> EntityId \<Rightarrow> doc list \<Rightarrow> upd_result \<Rightarrow> upd_result option" where
  "update_entities ue action en [] res = Some res"
| "update_entities ue action en (r # rs) res = Option.bind (updateEntity ue action en r res) (update_entities ue action en rs)"

text \<open>The response when no entity matches, without its status.\<close>

definition absent_response :: "string \<Rightarrow> EntityId \<Rightarrow> ContextAttribute list \<Rightarrow> ContextElementResponse" where
  "absent_response action en caV =
     (let new = ContextElementResponse_new; foundValue = (isAppend action \<or> isAppendStrict action)
      in new\<lparr>contextElement := (contextElement new)
            \<lparr>ce_entityId := EntityId_fill (ce_entityId (contextElement new)) (ei_id en) (ei_type en) ''false'',
             contextAttributeVector :=
               map (\<lambda>ca. setResponseMetadata ca (ContextAttribute_string (ca_name ca) (ca_type ca) [] foundValue)) caV\<rparr>\<rparr>)"

definition with_status :: "HttpStatusCode \<Rightarrow> string \<Rightarrow> ContextElementResponse \<Rightarrow> ContextElementResponse" where
  "with_status code details cer = cer\<lparr>statusCode := StatusCode_fill (statusCode cer) code details\<rparr>"

definition push_cer :: "upd_result \<Rightarrow> ContextElementResponse \<Rightarrow> upd_result" where
  "push_cer res cer = res\<lparr>r_cerV := r_cerV res @ [cer]\<rparr>"

text \<open>The entity is created, its subscribers are notified.\<close>

definition append_new :: "update_env \<Rightarrow> string \<Rightarrow> ContextElement \<Rightarrow> ContextElementResponse \<Rightarrow> upd_result \<Rightarrow> upd_result option" where
  "append_new ue err ce cer res =
     (let en = ce_entityId ce; caV = r_caV res
      in Option.bind (createEntity (ue_strtod ue) (ue_insert ue) en caV (ue_now ue) (ue_spV ue) (ue_apiVersion ue)) (\<lambda>(doc, error).
        let res = res\<lparr>r_ops := r_ops res @ (case doc of None \<Rightarrow> [] | Some d \<Rightarrow> [DbInsert d])\<rparr>
        in case error of
             Some errDetail \<Rightarrow> Some (push_cer res (with_status SccInvalidParameter errDetail cer))
           | None \<Rightarrow>
               Option.bind (addTriggeredSubscriptions (ue_te ue) (r_cache res) (ei_id en) (ei_type en) (map ca_name caV) [] (ue_tenant ue)
                              (ue_spV ue)) (\<lambda>(ok, subs).
                 let cer = with_status SccOk [] cer
                 in if \<not> ok then Some (push_cer res (with_status SccReceiverInternalError err cer))
                    else case ContextElementResponse_element (ce\<lparr>contextAttributeVector := caV\<rparr>) (ue_apiVersion ue = ''v2'') of
                           (notifyCer, src) \<Rightarrow>
                             (let t = Fin (of_int (ue_now ue));
                                  notifyCer = with_dates t t notifyCer;
                                  sp = (case ue_spV ue of [] \<Rightarrow> [] | sp # _ \<Rightarrow> sp);
                                  notifyCer = notifyCer\<lparr>contextElement := (contextElement notifyCer)
                                    \<lparr>ce_entityId := (ce_entityId (contextElement notifyCer))\<lparr>ei_servicePath := sp\<rparr>\<rparr>\<rparr>
                              in map_option (\<lambda>ps.
                                   push_cer (res\<lparr>r_caV := contextAttributeVector src, r_cache := ps_cache ps,
                                                 r_calls := r_calls res @ ps_calls ps,
                                                 r_subWrites := r_subWrites res @ ps_writes ps\<rparr>) cer)
                                   (processSubscriptions (ue_te ue) notifyCer (ue_args ue) subs (r_cache res))))))"

definition absent_entity :: "update_env \<Rightarrow> string \<Rightarrow> string \<Rightarrow> ContextElement \<Rightarrow> upd_result \<Rightarrow> upd_result option" where
  "absent_entity ue err action ce res =
     (let en = ce_entityId ce; cer = absent_response action en (r_caV res)
      in if isUpdate action \<or> isReplace action
         then case searchContextProviders (ue_providers ue en) (r_caV res) cer of
                (cer, errs) \<Rightarrow>
                  (let cer = with_status SccOk [] cer;
                       cer = (if forwardsPending (r_cerV res @ [cer]) then cer else with_status SccContextElementNotFound [] cer)
                   in Some (push_cer (res\<lparr>r_dbErrors := r_dbErrors res @ errs\<rparr>) cer))
         else if isDelete action then Some (push_cer res (with_status SccContextElementNotFound [] cer))
         else append_new ue err ce cer res)"

definition processContextElement ::
    "update_env \<Rightarrow> string \<Rightarrow> string \<Rightarrow> Ngsiv2Flavour \<Rightarrow> ContextElement \<Rightarrow> ContextElementResponse list \<Rightarrow> SubCache
       \<Rightarrow> upd_result option" where
  "processContextElement ue action notExist flavour ce cerV sc =
     (let en = ce_entityId ce;
          (ok, res) = contextElementPreconditionsCheck en action (ue_apiVersion ue)
            \<lparr>r_cerV = cerV, r_caV = contextAttributeVector ce, r_existsError = False, r_existsList = ''[ '', r_ops = [], r_calls = [],
             r_subWrites = [], r_cache = sc, r_alarms = [], r_dbErrors = []\<rparr>
      in if \<not> ok then Some res
         else Option.bind (element_query en (ue_spV ue) notExist) (\<lambda>query.
           case (if ue_apiVersion ue = ''v2'' then v2_error flavour (ue_count ue query) else None) of
             Some (code, details) \<Rightarrow> Some (buildGeneralErrorResponse en None code details res)
           | None \<Rightarrow>
               (case ue_find ue query of
                  Inl err \<Rightarrow> Some (buildGeneralErrorResponse en None SccReceiverInternalError err res)
                | Inr steps \<Rightarrow>
                    (case found_docs (ue_toString ue) steps of
                       (results, errs) \<Rightarrow>
                         map_option (\<lambda>res.
                           if r_existsError res
                           then buildGeneralErrorResponse en None SccBadRequest
                                  (''one or more of the attributes in the request already exist: '' @ r_existsList res) res
                           else res)
                           (let res = res\<lparr>r_dbErrors := r_dbErrors res @ errs\<rparr>
                            in if results = [] then absent_entity ue (next_error [] steps) action ce res
                               else update_entities ue action en results res)))))"

end
