(* ===== verification/Orion_Created.thy ===== *)
theory Orion_Created
  imports Orion_Update
begin

section \<open>A created entity is read back\<close>

text \<open>
  The document that \<^verbatim>\<open>createEntity\<close> inserts, and the element that the constructor of
  \<^verbatim>\<open>ContextElementResponse\<close> makes of it: the way of an entity from the request that creates it to the first
  query for it.
\<close>

subsection \<open>Values\<close>

lemma encode_decode: "dbDotEncode (dbDotDecode s) = dbDotEncode s"
  by (simp add: dbDotEncode_def dbDotDecode_def)

lemma bson_undot: "bson_of_json (json_undot v) = bson_of_json v"
proof (induction v)
  case (JObj ms)
  then show ?case
    by (auto simp: encode_decode)
qed simp_all

lemma node_bson_again:
  assumes "cv_linked n" "cv_compound n"
  shows "\<exists>b. node_bson n = [b] \<and> node_bson (cv_of_bson b) = [b] \<and> cv_compound (cv_of_bson b)"
proof -
  have "json_compound (json_of_node n)"
    using assms(2) by (cases n) (auto simp: cv_compound_def json_compound_def)
  then show ?thesis
    using assms(1) cv_of_bson_json[of "json_of_node n"] by (auto simp: node_bson_linked bson_undot)
qed

lemma valueBson_compound:
  assumes "ca_compoundValueP ca = Some n" "cv_compound n"
  shows "valueBson ca = map (Pair ''value'') (node_bson n)"
  using assms by (cases n) (auto simp: valueBson_def cv_compound_def compoundValueBson_array_def compoundValueBson_object_def)

definition attr_value_ok :: "ContextAttribute \<Rightarrow> bool" where
  "attr_value_ok ca =
     (case ca_compoundValueP ca of
        None \<Rightarrow> ca_valueType ca \<in> {ValueTypeString, ValueTypeNumber, ValueTypeBoolean, ValueTypeNone}
      | Some n \<Rightarrow> cv_linked n \<and> cv_compound n)"

lemma bson_value_again:
  assumes "attr_value_ok ca" "getField attr ''value'' = getField (valueBson ca) ''value''"
  shows "\<exists>ca'. bson_value name type True attr = Some (Some ca') \<and> ca_name ca' = name \<and> ca_type ca' = type
    \<and> (\<forall>mds. valueBson (ca'\<lparr>ca_metadataVector := mds\<rparr>) = valueBson ca)"
proof (cases "ca_compoundValueP ca")
  case None
  then show ?thesis
    using assms by (cases "ca_valueType ca") (auto simp: attr_value_ok_def bson_value_def valueBson_def bsonAppendAttrValue_def
        ContextAttribute_string_def ContextAttribute_number_def ContextAttribute_bool_def ContextAttribute_new_def)
next
  case (Some n)
  then obtain b where b: "node_bson n = [b]" "node_bson (cv_of_bson b) = [b]" "cv_compound (cv_of_bson b)"
    using assms(1) node_bson_again[of n] by (auto simp: attr_value_ok_def)
  have v: "valueBson ca = [(''value'', b)]"
    using assms(1) Some b valueBson_compound[OF Some] by (simp add: attr_value_ok_def)
  have "bson_value name type True attr
      = Some (Some ((ContextAttribute_string name type [] True)\<lparr>ca_compoundValueP := Some (cv_of_bson b)\<rparr>))"
    using assms(2) b(3) v by (cases b) (simp_all add: bson_value_def cv_of_bson_def cv_compound_def CompoundValueNode_top_def)
  moreover have "valueBson (((ContextAttribute_string name type [] True)\<lparr>ca_compoundValueP := Some (cv_of_bson b)\<rparr>)\<lparr>ca_metadataVector := mds\<rparr>) = valueBson ca" for mds
    using valueBson_compound[OF _ b(3)] b(2) v by simp
  ultimately show ?thesis
    by (simp add: ContextAttribute_string_def)
qed

subsection \<open>One attribute\<close>

text \<open>An attribute whose name and identifier can be told apart in the name of the field, and whose value and metadata have
  known types.\<close>

definition storable :: "string \<Rightarrow> ContextAttribute \<Rightarrow> bool" where
  "storable apiVersion ca =
     (find_sep (dbDotEncode (ca_name ca)) = None \<and> (ca_name ca = [] \<or> last (ca_name ca) \<noteq> CHR ''_'') \<and> CHR ''='' \<notin> set (ca_name ca)
      \<and> attr_value_ok ca \<and> list_all (req_md_ok (apiVersion = ''v2'')) (ca_metadataVector ca))"

text \<open>What is read of an attribute that was stored: its name, identifier and type, and what would be stored of it again
  has the same value and the same metadata.\<close>

definition read_as :: "string \<Rightarrow> ContextAttribute \<Rightarrow> ContextAttribute \<Rightarrow> bool" where
  "read_as apiVersion ca ca' =
     (ca_name ca' = ca_name ca \<and> getId ca' = getId ca \<and> BStr (ca_type ca') = stored_type ca apiVersion
      \<and> valueBson ca' = valueBson ca
      \<and> request_metadata (ca_metadataVector ca') (apiVersion = ''v2'') = request_metadata (ca_metadataVector ca) (apiVersion = ''v2''))"

lemma decode_encode: "CHR ''='' \<notin> set s \<Longrightarrow> dbDotDecode (dbDotEncode s) = s"
  by (induction s) (auto simp: dbDotDecode_def dbDotEncode_def)

lemma effectiveName_parts:
  assumes "storable apiVersion ca"
  shows "dbDotDecode (basePart (effectiveName ca)) = ca_name ca" "idPart (effectiveName ca) = getId ca"
proof -
  have "dbDotEncode (ca_name ca) = [] \<or> last (dbDotEncode (ca_name ca)) \<noteq> CHR ''_''"
    using assms by (auto simp: storable_def dbDotEncode_def last_map split: if_splits)
  then show "dbDotDecode (basePart (effectiveName ca)) = ca_name ca" "idPart (effectiveName ca) = getId ca"
    using effective_name_parts[of "dbDotEncode (ca_name ca)" "getId ca"] assms decode_encode[of "ca_name ca"]
    by (auto simp: effectiveName_def storable_def)
qed

lemma request_metadata_read:
  "list_all (md_normal u) ds \<Longrightarrow> list_all (\<lambda>d. \<not> isNotCustomMetadata (mdkey d)) ds \<Longrightarrow> request_metadata (map Metadata_bson ds) u = ds"
  by (induction ds) (auto simp: append_read_normal)

lemma request_metadata_custom:
  "list_all (req_md_ok u) mds \<Longrightarrow> list_all (\<lambda>d. \<not> isNotCustomMetadata (mdkey d)) (request_metadata mds u)"
proof (induction mds)
  case (Cons md mds)
  then obtain d where "appendMetadata md u = [d]"
    by (auto simp: req_md_ok_def dest: md_ok_append)
  then show ?case
    using Cons append_normal[of md u d] by (auto simp: req_md_ok_def)
qed simp

lemma getId_custom:
  "list_all (\<lambda>d. \<not> isNotCustomMetadata (mdkey d)) ds \<Longrightarrow> getId_loop (map Metadata_bson ds) = []"
  by (induction ds) (auto simp: isNotCustomMetadata_def)

lemma bson_metadata_created:
  "bson_metadata ([(''type'', t), (''creDate'', c), (''modDate'', m)] @ valueBson ca @ custom_md ca apiVersion)
     = Some (map Metadata_bson (request_metadata (ca_metadataVector ca) (apiVersion = ''v2'')))"
proof -
  have "getField (valueBson ca) ''md'' = None"
    by (subst valueBson_field) simp
  then show ?thesis
    by (auto simp: bson_metadata_def custom_md_def contextAttributeCustomMetadataToBson_def Let_def embeddedObjects_array)
qed

lemma attribute_read:
  assumes ok: "storable apiVersion ca"
  shows "\<exists>ca'. bson_attribute locAttr [] True rapi (effectiveName ca) (snd (created_attr now apiVersion ca)) = Some (Some ca')
    \<and> read_as apiVersion ca ca'"
proof -
  define attr where "attr = [(''type'', stored_type ca apiVersion), (''creDate'', BInt now), (''modDate'', BInt now)] @ valueBson ca @ custom_md ca apiVersion"
  define type where "type = getStringField attr ''type''"
  define ds where "ds = request_metadata (ca_metadataVector ca) (apiVersion = ''v2'')"
  have type: "BStr type = stored_type ca apiVersion"
    by (simp add: type_def attr_def getStringField_getField stored_type_def)
  have "getField (custom_md ca apiVersion) ''value'' = None"
    by (simp add: custom_md_def split: option.splits)
  then have "getField attr ''value'' = getField (valueBson ca) ''value''"
    by (simp add: attr_def split: option.splits)
  then obtain ca0 where v: "bson_value (ca_name ca) type True attr = Some (Some ca0)" and n: "ca_name ca0 = ca_name ca" "ca_type ca0 = type"
    and again: "\<And>mds. valueBson (ca0\<lparr>ca_metadataVector := mds\<rparr>) = valueBson ca"
    using bson_value_again[of ca attr "ca_name ca" type] ok by (auto simp: storable_def)
  have md: "bson_metadata attr = Some (map Metadata_bson ds)"
    unfolding attr_def ds_def by (rule bson_metadata_created)
  let ?loc = "if rapi = ''v1'' \<and> locAttr = ca_name ca \<and> type \<noteq> ''geo:point'' then [Metadata_string ''location'' ''string'' ''WGS84''] else []"
  let ?mds = "(if getId ca \<noteq> [] then [Metadata_string ''ID'' ''string'' (getId ca)] else []) @ ?loc @ map Metadata_bson ds"
  have "bson_attribute locAttr [] True rapi (effectiveName ca) (BObj attr) = Some (Some (ca0\<lparr>ca_metadataVector := ?mds\<rparr>))"
    using v effectiveName_parts[OF ok] by (simp add: bson_attribute_def includedAttribute_def type_def[symmetric] md)
  moreover have "list_all (md_normal (apiVersion = ''v2'')) ds" "list_all (\<lambda>d. \<not> isNotCustomMetadata (mdkey d)) ds"
    using request_metadata_docs request_metadata_custom ok by (simp_all add: ds_def storable_def)
  then have "request_metadata ?mds (apiVersion = ''v2'') = ds" "getId_loop ?mds = getId ca"
    using request_metadata_read[of _ ds] getId_custom[of ds]
    by (simp_all add: Metadata_string_def isNotCustomMetadata_def Metadata_new_def)
  ultimately show ?thesis
    using n again type by (auto simp: read_as_def created_attr_def attr_def ds_def getId_def)
qed

subsection \<open>The entity\<close>

lemma bson_attributes_map:
  assumes "\<And>n. n \<in> set names \<Longrightarrow> \<exists>e. getField attrs n = Some e \<and> bson_attribute locAttr attrL ie rapi n e = Some (Some (g n))"
  shows "bson_attributes locAttr attrL ie rapi attrs names = Some (map g names)"
  using assms by (induction names) force+

lemma getField_created:
  "distinct (map effectiveName caV) \<Longrightarrow> ca \<in> set caV \<Longrightarrow>
     getField (map (created_attr now apiVersion) caV) (effectiveName ca) = Some (snd (created_attr now apiVersion ca))"
  by (induction caV) (auto simp: created_attr_def)

lemma names_created: "fst ` set (map (created_attr now apiVersion) caV) = effectiveName ` set caV"
  by (auto simp: created_attr_def image_iff)

lemma attributes_read:
  assumes ok: "list_all (storable apiVersion) caV" and dist: "distinct (map effectiveName caV)"
  shows "\<exists>cas. bson_attributes locAttr [] True rapi (map (created_attr now apiVersion) caV)
      (field_names (map (created_attr now apiVersion) caV)) = Some cas
    \<and> length cas = length caV \<and> (\<forall>ca\<in>set caV. \<exists>ca'\<in>set cas. read_as apiVersion ca ca')"
proof -
  let ?attrs = "map (created_attr now apiVersion) caV" and ?names = "field_names (map (created_attr now apiVersion) caV)"
  have "\<exists>ca'. (\<exists>e. getField ?attrs (effectiveName ca) = Some e
      \<and> bson_attribute locAttr [] True rapi (effectiveName ca) e = Some (Some ca')) \<and> read_as apiVersion ca ca'" if "ca \<in> set caV" for ca
    using attribute_read[of apiVersion ca] getField_created[OF dist that] ok that by (auto simp: list_all_iff)
  then obtain g where g: "\<And>ca. ca \<in> set caV \<Longrightarrow> (\<exists>e. getField ?attrs (effectiveName ca) = Some e
      \<and> bson_attribute locAttr [] True rapi (effectiveName ca) e = Some (Some (g ca))) \<and> read_as apiVersion ca (g ca)"
    by metis
  define f where "f n = g (the (find (\<lambda>ca. n = effectiveName ca) caV))" for n
  have f: "f (effectiveName ca) = g ca" if "ca \<in> set caV" for ca
    using find_distinct_key[OF dist that] by (simp add: f_def)
  have set_names: "set ?names = effectiveName ` set caV"
    by (simp only: field_names_set names_created)
  have "bson_attributes locAttr [] True rapi ?attrs ?names = Some (map f ?names)"
  proof (rule bson_attributes_map)
    fix n assume "n \<in> set ?names"
    then obtain ca where "ca \<in> set caV" "n = effectiveName ca"
      using set_names by blast
    then show "\<exists>e. getField ?attrs n = Some e \<and> bson_attribute locAttr [] True rapi n e = Some (Some (f n))"
      using g f by simp
  qed
  moreover have "length ?names = length caV"
    using distinct_card[OF field_names_distinct, of ?attrs] distinct_card[OF dist] set_names by simp
  moreover have "\<forall>ca\<in>set caV. \<exists>ca'\<in>set (map f ?names). read_as apiVersion ca ca'"
    using g f set_names by (metis image_eqI list.set_map)
  ultimately show ?thesis
    by simp
qed


definition hall :: EntityId where
  "hall = EntityId_new ''hall'' [] ''false''"

definition hall_attrs :: "ContextAttribute list" where
  "hall_attrs =
     [(ContextAttribute_number ''t.in'' ''Number'' (Fin 21) True)\<lparr>ca_metadataVector := [Metadata_string ''ID'' [] ''s1'', Metadata_string ''unit'' ''Text'' ''C'']\<rparr>,
      ContextAttribute_string ''door'' ''Text'' ''open'' True]"

lemma hall_storable: "list_all (storable ''v2'') hall_attrs" "distinct (map effectiveName hall_attrs)"
  by (simp_all add: hall_attrs_def storable_def attr_value_ok_def req_md_ok_def md_ok_def md_scalar_def ContextAttribute_number_def
      ContextAttribute_string_def ContextAttribute_new_def Metadata_string_def Metadata_new_def dbDotEncode_def effectiveName_def getId_def)

lemma hall_created: "\<exists>d. createEntity (\<lambda>s. (Fin 0, s, False)) (\<lambda>_. None) hall hall_attrs 100 [''/a''] ''v2'' = Some (Some d, None)"
  by (simp add: createEntity_def legalIdUsage_vector_def processLocationAtEntityCreation_def hall_attrs_def ContextAttribute_number_def
      ContextAttribute_string_def ContextAttribute_new_def Metadata_string_def Metadata_new_def getId_def getLocation_def Let_def)


text \<open>
  An attribute whose name contains two underscores cannot be told from one with an identifier, and the two are not taken
  for duplicates: their fields in the document have the same name.
\<close>

lemma effectiveName_clash:
  "\<exists>ca cb. \<not> same_attr ca cb \<and> effectiveName ca = effectiveName cb \<and> legalIdUsage_vector [ca, cb]"
  by (intro exI[of _ "ContextAttribute_string ''a__b'' [] [] True"]
      exI[of _ "(ContextAttribute_string ''a'' [] [] True)\<lparr>ca_metadataVector := [Metadata_string ''ID'' [] ''b'']\<rparr>"])
    (simp add: same_attr_def effectiveName_def getId_def dbDotEncode_def legalIdUsage_vector_def ContextAttribute_string_def
      ContextAttribute_new_def Metadata_string_def Metadata_new_def)

end
