(* ===== verification/Orion_UpdateSpec.thy ===== *)
theory Orion_UpdateSpec
  imports Orion_Update
begin

section \<open>What an update does to an entity\<close>

text \<open>
  The attributes of an entity as a map from names to values, and a request as the sequence of its attributes, each of
  which changes one value of the map. \<^verbatim>\<open>MongoCommonUpdate.cpp\<close> computes all of the changes from the old
  document and sends them as one update; what the database makes of it is the parameter \<open>ap\<close>, with the documented
  meaning of \<^verbatim>\<open>$set\<close> and \<^verbatim>\<open>$unset\<close> as the hypothesis \<open>set_unset_law\<close>.
\<close>

subsection \<open>The abstract update\<close>

definition spec_attr :: "string \<Rightarrow> string \<Rightarrow> int \<Rightarrow> ContextAttribute \<Rightarrow> bson option \<Rightarrow> bson option" where
  "spec_attr action apiVersion now ca old =
     (if isDelete action then None
      else case old of
             None \<Rightarrow> if isAppend action \<or> isAppendStrict action then Some (BObj (appended_attr now ca apiVersion)) else None
           | Some e \<Rightarrow>
               (case Option.bind (embeddedObject (Some e)) (\<lambda>attr. mergeAttrInfo now attr ca apiVersion) of
                  Some (True, new) \<Rightarrow> Some (BObj new) | _ \<Rightarrow> Some e))"

fun spec_request ::
    "string \<Rightarrow> string \<Rightarrow> (nat \<Rightarrow> int) \<Rightarrow> nat \<Rightarrow> ContextAttribute list \<Rightarrow> (string \<Rightarrow> bson option) \<Rightarrow> (string \<Rightarrow> bson option)" where
  "spec_request action apiVersion clock ix [] m = m"
| "spec_request action apiVersion clock ix (ca # cas) m =
     spec_request action apiVersion clock (Suc ix) cas
       (if ca_skip ca then m else m(effectiveName ca := spec_attr action apiVersion (clock ix) ca (m (effectiveName ca))))"

subsection \<open>The law of the database\<close>

definition stored_attr :: "doc \<Rightarrow> string \<Rightarrow> bson option" where
  "stored_attr d n = (case getField d ''attrs'' of Some (BObj attrs) \<Rightarrow> getField attrs n | _ \<Rightarrow> None)"

definition op_doc :: "doc \<Rightarrow> string \<Rightarrow> doc" where
  "op_doc update oper = (case getField update oper of Some (BObj d) \<Rightarrow> d | _ \<Rightarrow> [])"

text \<open>What becomes of the field \<open>n\<close> of the attributes when \<open>S\<close> is set and \<open>U\<close> is unset.\<close>

definition outcome :: "doc \<Rightarrow> doc \<Rightarrow> string \<Rightarrow> bson option \<Rightarrow> bson option" where
  "outcome S U n old =
     (if hasField U (''attrs.'' @ n) then None
      else case getField S (''attrs.'' @ n) of Some v \<Rightarrow> Some v | None \<Rightarrow> old)"

definition dotless :: "string \<Rightarrow> bool" where
  "dotless n = (CHR ''.'' \<notin> set n)"

text \<open>The paths of an update: fields of the attributes, or other fields of the document.\<close>

definition plain_path :: "string \<Rightarrow> bool" where
  "plain_path k = (if take 6 k = ''attrs.'' then dotless (drop 6 k) else dotless k \<and> k \<noteq> ''attrs'')"

definition plain_update :: "doc \<Rightarrow> bool" where
  "plain_update update =
     (let ks = map fst (op_doc update ''$set'') @ map fst (op_doc update ''$unset'')
      in distinct ks \<and> list_all plain_path ks)"

definition set_unset_law :: "(doc \<Rightarrow> doc \<Rightarrow> doc) \<Rightarrow> bool" where
  "set_unset_law ap =
     (\<forall>d attrs update n. getField d ''attrs'' = Some (BObj attrs) \<longrightarrow> plain_update update \<longrightarrow> dotless n \<longrightarrow>
        stored_attr (ap d update) n = outcome (op_doc update ''$set'') (op_doc update ''$unset'') n (stored_attr d n))"

subsection \<open>One attribute\<close>

lemma lower_actions:
  "map lower_char (c_str ''update'') = ''update''" "map lower_char (c_str ''replace'') = ''replace''"
  "map lower_char (c_str ''append'') = ''append''" "map lower_char (c_str ''append_strict'') = ''append_strict''"
  "map lower_char (c_str ''delete'') = ''delete''"
  by code_simp+

lemma action_kind:
  "isUpdate action \<longleftrightarrow> map lower_char (c_str action) = ''update''"
  "isReplace action \<longleftrightarrow> map lower_char (c_str action) = ''replace''"
  "isAppend action \<longleftrightarrow> map lower_char (c_str action) = ''append''"
  "isAppendStrict action \<longleftrightarrow> map lower_char (c_str action) = ''append_strict''"
  "isDelete action \<longleftrightarrow> map lower_char (c_str action) = ''delete''"
  by (simp_all only: isUpdate_def isReplace_def isAppend_def isAppendStrict_def isDelete_def strcasecmp_eq_def lower_actions)

lemma actions_disjoint:
  "isUpdate action \<Longrightarrow> \<not> isDelete action \<and> \<not> isAppend action \<and> \<not> isAppendStrict action \<and> \<not> isReplace action"
  "isAppend action \<Longrightarrow> \<not> isDelete action \<and> \<not> isAppendStrict action \<and> \<not> isReplace action"
  "isAppendStrict action \<Longrightarrow> \<not> isDelete action \<and> \<not> isReplace action"
  "isDelete action \<Longrightarrow> \<not> isReplace action"
  unfolding action_kind by simp_all

definition writes :: "doc \<Rightarrow> ContextAttribute \<Rightarrow> bson option \<Rightarrow> doc \<Rightarrow> doc \<Rightarrow> bool" where
  "writes attrs ca new s w =
     ((w = [] \<and> s = [] \<and> new = getField attrs (effectiveName ca))
      \<or> (w = [] \<and> (\<exists>v. s = [(''attrs.'' @ effectiveName ca, v)] \<and> new = Some v))
      \<or> (s = [] \<and> (\<exists>v. w = [(''attrs.'' @ effectiveName ca, v)] \<and> new = None)))"

lemma u_keeps [simp]:
  "u_toSet (u_status c d u) = u_toSet u" "u_toUnset (u_status c d u) = u_toUnset u"
  "u_toSet (u_found b u) = u_toSet u" "u_toUnset (u_found b u) = u_toUnset u"
  by (simp_all add: u_status_def u_found_def)

lemma notify_item_keeps:
  "notify_item apiVersion a target u = Some (ok, a', u', t') \<Longrightarrow> u_toSet u' = u_toSet u \<and> u_toUnset u' = u_toUnset u"
  by (auto simp: notify_item_def)

lemma updateAttribute_writes:
  assumes "updateAttribute now attrs ca False apiVersion = Some (found, actual, s, p)" "\<not> isDelete action"
    "found \<or> \<not> (isAppend action \<or> isAppendStrict action)"
  shows "writes attrs ca (spec_attr action apiVersion now ca (getField attrs (effectiveName ca))) s []"
  using assms by (auto simp: updateAttribute_def writes_def spec_attr_def split: option.splits bool.splits Option.bind_splits)

lemma appendAttribute_writes:
  assumes "appendAttribute now attrs ca apiVersion = Some (new, actual, s, p)" "isAppend action \<or> isAppendStrict action" "\<not> isDelete action"
  shows "writes attrs ca (spec_attr action apiVersion now ca (getField attrs (effectiveName ca))) s []"
proof (cases "hasField attrs (effectiveName ca)")
  case True
  then obtain e where e: "getField attrs (effectiveName ca) = Some e"
    by (auto simp: hasField_getField)
  have "updateAttribute now attrs ca False apiVersion = Some (True, actual, s, p)"
    using assms(1) True e by (auto simp: appendAttribute_def updateAttribute_def split: Option.bind_splits)
  then show ?thesis
    using updateAttribute_writes assms(3) by blast
next
  case False
  then show ?thesis
    using assms by (auto simp: appendAttribute_def writes_def spec_attr_def hasField_getField)
qed

lemma process_item_writes:
  assumes "process_item strtod now attrs action apiVersion target u = Some (True, actual, u', target')" "\<not> isReplace action"
  shows "\<exists>s w. u_toSet u' = u_toSet u @ s \<and> u_toUnset u' = u_toUnset u @ w
    \<and> writes attrs target (spec_attr action apiVersion now target (getField attrs (effectiveName target))) s w"
proof -
  consider "isUpdate action" | "\<not> isUpdate action" "isAppend action \<or> isAppendStrict action"
    | "\<not> isUpdate action" "\<not> isAppend action" "\<not> isAppendStrict action" "isDelete action"
    using assms by (auto simp: process_item_def split: if_splits)
  then show ?thesis
  proof cases
    case 1
    then have d: "\<not> isDelete action" "\<not> isAppend action" "\<not> isAppendStrict action"
      using actions_disjoint by auto
    obtain found a s p where up: "updateAttribute now attrs target False apiVersion = Some (found, a, s, p)"
      using assms 1 by (auto simp: process_item_def updateContextAttributeItem_def split: Option.bind_splits)
    have "u_toSet u' = u_toSet u @ s \<and> u_toUnset u' = u_toUnset u"
      using assms 1 up by (auto simp: process_item_def updateContextAttributeItem_def Let_def dest!: notify_item_keeps
          split: sum.splits if_splits)
    then show ?thesis
      using updateAttribute_writes[OF up d(1)] d by auto
  next
    case 2
    then have d: "\<not> isDelete action"
      using actions_disjoint by auto
    obtain new a s p where ap: "appendAttribute now attrs target apiVersion = Some (new, a, s, p)"
      using assms 2 by (auto simp: process_item_def appendContextAttributeItem_def split: Option.bind_splits if_splits)
    have "u_toSet u' = u_toSet u @ s \<and> u_toUnset u' = u_toUnset u"
      using assms 2 ap by (auto simp: process_item_def appendContextAttributeItem_def Let_def dest!: notify_item_keeps
          split: sum.splits if_splits)
    then show ?thesis
      using appendAttribute_writes[OF ap 2(2) d] by auto
  next
    case 3
    obtain w dl where "deleteAttribute attrs target (u_deleted u) = Some (w, dl)"
      using assms 3 by (auto simp: process_item_def deleteContextAttributeItem_def split: option.splits)
    then have "u_toSet u' = u_toSet u \<and> u_toUnset u' = u_toUnset u @ w" "w = [(''attrs.'' @ effectiveName target, BInt 1)]"
      using assms 3 by (auto simp: process_item_def deleteContextAttributeItem_def Let_def deleteAttribute_def split: if_splits)
    then show ?thesis
      using 3 by (auto simp: writes_def spec_attr_def)
  qed
qed

subsection \<open>All of them\<close>

definition active :: "ContextAttribute list \<Rightarrow> ContextAttribute list" where
  "active caV = filter (\<lambda>ca. \<not> ca_skip ca) caV"

lemma active_simps [simp]:
  "active [] = []" "active (ca # cas) = (if ca_skip ca then active cas else ca # active cas)"
  by (simp_all add: active_def)

definition agrees :: "doc \<Rightarrow> ContextAttribute list \<Rightarrow> (string \<Rightarrow> bson option) \<Rightarrow> bool" where
  "agrees attrs caV m = (\<forall>ca\<in>set (active caV). m (effectiveName ca) = getField attrs (effectiveName ca))"

definition attr_paths :: "ContextAttribute list \<Rightarrow> string set" where
  "attr_paths caV = (\<lambda>ca. ''attrs.'' @ effectiveName ca) ` set (active caV)"

lemma outcome_head:
  assumes "writes attrs ca new s w" "m (effectiveName ca) = getField attrs (effectiveName ca)"
    "''attrs.'' @ effectiveName ca \<notin> fst ` set S" "''attrs.'' @ effectiveName ca \<notin> fst ` set U"
  shows "outcome (s @ S) (w @ U) n (m n) = outcome S U n ((m(effectiveName ca := new)) n)"
proof -
  have none: "getField S (''attrs.'' @ effectiveName ca) = None" "\<not> hasField U (''attrs.'' @ effectiveName ca)"
    using assms(3,4) by (auto simp: hasField_getField getField_def map_of_eq_None_iff)
  show ?thesis
    using assms(1,2) none by (cases "n = effectiveName ca") (auto simp: writes_def outcome_def)
qed

lemma writes_paths: "writes attrs ca new s w \<Longrightarrow> map fst s @ map fst w \<in> {[], [''attrs.'' @ effectiveName ca]}"
  by (auto simp: writes_def)

lemma process_attributes_writes:
  assumes "process_attributes strtod clock attrs action apiVersion ix caV u = Some (True, u', caV')" "\<not> isReplace action"
    "distinct (map effectiveName (active caV))"
  shows "\<exists>S U. u_toSet u' = u_toSet u @ S \<and> u_toUnset u' = u_toUnset u @ U
    \<and> fst ` set S \<union> fst ` set U \<subseteq> attr_paths caV \<and> distinct (map fst S @ map fst U)
    \<and> (\<forall>m n. agrees attrs caV m \<longrightarrow> outcome S U n (m n) = spec_request action apiVersion clock ix caV m n)"
  using assms(1,3)
proof (induction caV arbitrary: ix u caV')
  case Nil
  then show ?case
    by (auto simp: outcome_def attr_paths_def)
next
  case (Cons ca cas)
  show ?case
  proof (cases "ca_skip ca")
    case True
    then show ?thesis
      using Cons.IH[of "Suc ix" u] Cons.prems by (auto simp: agrees_def attr_paths_def)
  next
    case False
    let ?u0 = "u\<lparr>u_cer := cer_map (\<lambda>cas. cas @ [setResponseMetadata ca (ContextAttribute_string (ca_name ca) (ca_type ca) [] True)]) (u_cer u)\<rparr>"
    obtain act u1 t1 where item: "process_item strtod (clock ix) attrs action apiVersion ca ?u0 = Some (True, act, u1, t1)"
      and rest: "\<exists>u2 caV2. (u2 = u1 \<or> (\<exists>names. u2 = u1\<lparr>u_modifiedAttrs := names\<rparr>))
        \<and> process_attributes strtod clock attrs action apiVersion (Suc ix) cas u2 = Some (True, u', caV2)"
      using Cons.prems(1) False by (auto simp: Let_def split: option.splits prod.splits if_splits; blast)
    let ?new = "spec_attr action apiVersion (clock ix) ca (getField attrs (effectiveName ca))"
    obtain s w where sw: "u_toSet u1 = u_toSet u @ s" "u_toUnset u1 = u_toUnset u @ w" and wr: "writes attrs ca ?new s w"
      using process_item_writes[OF item assms(2)] by auto
    obtain u2 caV2 where names: "u2 = u1 \<or> (\<exists>names. u2 = u1\<lparr>u_modifiedAttrs := names\<rparr>)"
      and loop: "process_attributes strtod clock attrs action apiVersion (Suc ix) cas u2 = Some (True, u', caV2)"
      using rest by blast
    have u2: "u_toSet u2 = u_toSet u1" "u_toUnset u2 = u_toUnset u1"
      using names by auto
    have "distinct (map effectiveName (active cas))"
      using Cons.prems(2) False by simp
    then obtain S U where SU: "u_toSet u' = u_toSet u1 @ S" "u_toUnset u' = u_toUnset u1 @ U"
      and sub: "fst ` set S \<union> fst ` set U \<subseteq> attr_paths cas" and dist: "distinct (map fst S @ map fst U)"
      and out: "\<And>m n. agrees attrs cas m \<Longrightarrow> outcome S U n (m n) = spec_request action apiVersion clock (Suc ix) cas m n"
      using Cons.IH[OF loop] unfolding u2 by blast
    have fresh: "''attrs.'' @ effectiveName ca \<notin> fst ` set S" "''attrs.'' @ effectiveName ca \<notin> fst ` set U"
      using sub Cons.prems(2) False by (auto simp: attr_paths_def)
    have "outcome (s @ S) (w @ U) n (m n) = spec_request action apiVersion clock ix (ca # cas) m n"
      if ag: "agrees attrs (ca # cas) m" for m n
    proof -
      have m: "m (effectiveName ca) = getField attrs (effectiveName ca)"
        using ag False by (simp add: agrees_def)
      have "agrees attrs cas (m(effectiveName ca := ?new))"
        using ag Cons.prems(2) False by (auto simp: agrees_def) (metis image_eqI)
      then show ?thesis
        using outcome_head[where m = m and n = n, OF wr m fresh] out[of "m(effectiveName ca := ?new)" n] False m by simp
    qed
    moreover have "fst ` set (s @ S) \<union> fst ` set (w @ U) \<subseteq> attr_paths (ca # cas)"
      using sub wr False by (auto simp: attr_paths_def writes_def)
    moreover have "distinct (map fst (s @ S) @ map fst (w @ U))"
      using dist fresh wr unfolding writes_def by (elim disjE exE conjE) simp_all
    ultimately show ?thesis
      using sw SU by (intro exI[of _ "s @ S"] exI[of _ "w @ U"]) auto
  qed
qed

subsection \<open>The update that is sent\<close>

lemma vector_writes:
  assumes "processContextAttributeVector ue sc attrs action caV u0 = Some (True, subs, u, caV')"
  shows "\<exists>u1. process_attributes (ue_strtod ue) (ue_clock ue) attrs action (ue_apiVersion ue) 0 caV u0 = Some (True, u1, caV')
    \<and> u_toSet u = u_toSet u1 \<and> u_toUnset u = u_toUnset u1"
  using assms
  by (auto simp: processContextAttributeVector_def Let_def pull_deleted_def split: Option.bind_splits if_splits)

lemma composed_ops:
  assumes "\<not> isReplace action"
  shows "op_doc (composed_update now action geo u) ''$set'' = u_toSet u @ [(''modDate'', BInt now)]
      @ (if u_locAttr u \<noteq> [] then [(''location'', location_doc (u_locAttr u) (if u_geoJson u \<noteq> [] then u_geoJson u else geo))] else [])"
    "op_doc (composed_update now action geo u) ''$unset'' = u_toUnset u @ (if u_locAttr u \<noteq> [] then [] else [(''location'', BInt 1)])"
  using assms by (simp_all add: composed_update_def op_doc_def Let_def)

lemma unmodified_ops: "r_ops (updateEntity_unmodified ue action en cer res) = r_ops res"
  by (simp add: updateEntity_unmodified_def split: prod.splits)

lemma write_ops:
  "updateEntity_write ue action en entityId entityType r geo subs u res = Some res' \<Longrightarrow>
     \<exists>q. r_ops res' = r_ops res @ [DbUpdate q (composed_update (ue_now ue) action geo u)]"
  by (cases "searchContextProviders (ue_providers ue en) (r_caV res) (u_cer u)")
    (auto simp: updateEntity_write_def Let_def bind_eq_Some_conv split: option.split_asm)

definition finishes where
  "finishes ue action en r geo idField modified subs u res0 res' =
     ((if \<not> modified then Some (updateEntity_unmodified ue action en (u_cer u) res0)
       else updateEntity_write ue action en (getStringField idField ''id'') (doc_type idField) r geo subs u res0) = Some res')"

lemma updateEntity_shape:
  assumes "updateEntity ue action en r res = Some res'" "isDelete action \<Longrightarrow> r_caV res \<noteq> []"
  shows "\<exists>attrs idField res0 cer notifyCer locAttr geo modified subs u caV'. embeddedObject (getField r ''attrs'') = Some attrs
    \<and> processContextAttributeVector ue (r_cache res) attrs action (fst (strict_check action attrs (r_caV res)))
         (start_upd cer notifyCer locAttr) = Some (modified, subs, u, caV')
    \<and> finishes ue action en r geo idField modified subs u res0 res' \<and> r_ops res0 = r_ops res"
proof -
  have nd: "(isDelete action \<and> r_caV (res\<lparr>r_existsError := False, r_existsList := ''[ ''\<rparr>) = []) = False"
    using assms(2) by auto
  obtain idField attrs where i: "embeddedObject (getField r ''_id'') = Some idField" "embeddedObject (getField r ''attrs'') = Some attrs"
    using assms(1) unfolding updateEntity_def Let_def bind_eq_Some_conv nd if_False by blast
  obtain locAttr geo caV existsError existsList where loc: "stored_location r = (locAttr, geo)"
    and strict: "strict_check action attrs (r_caV (res\<lparr>r_existsError := False, r_existsList := ''[ ''\<rparr>)) = (caV, existsError, existsList)"
    by (cases "stored_location r"; cases "strict_check action attrs (r_caV (res\<lparr>r_existsError := False, r_existsList := ''[ ''\<rparr>))") auto
  have caV: "caV = fst (strict_check action attrs (r_caV res))"
    using strict by simp
  have "\<exists>notifyCer modified subs u caV' res0. finishes ue action en r geo idField modified subs u res0 res' \<and> r_ops res0 = r_ops res
    \<and> processContextAttributeVector ue (r_cache res) attrs action caV
      (start_upd (entity_response (getStringField idField ''id'') (doc_type idField)) notifyCer locAttr) = Some (modified, subs, u, caV')"
    using assms(1)
    unfolding updateEntity_def Let_def nd if_False i Option.bind.simps loc strict bind_eq_Some_conv split_paired_Ex prod.case
    by - (elim exE conjE, intro exI conjI, unfold finishes_def, assumption, simp_all)
  then show ?thesis
    using i(2) caV by blast
qed

lemma updateEntity_sends:
  assumes "updateEntity ue action en r res = Some res'" "r_ops res' = r_ops res @ [DbUpdate q upd]"
    "getField r ''attrs'' = Some (BObj attrs)" "caV = fst (strict_check action attrs (r_caV res))"
  shows "\<exists>u0 subs u caV' geo. upd = composed_update (ue_now ue) action geo u \<and> u_toSet u0 = [] \<and> u_toUnset u0 = []
    \<and> processContextAttributeVector ue (r_cache res) attrs action caV u0 = Some (True, subs, u, caV')"
proof -
  have nd: "isDelete action \<Longrightarrow> r_caV res \<noteq> []"
    using assms(1,2) by (auto simp: updateEntity_def Let_def removeEntity_def bind_eq_Some_conv)
  obtain idField res0 cer notifyCer locAttr geo modified subs u caV' where
    v: "processContextAttributeVector ue (r_cache res) attrs action caV (start_upd cer notifyCer locAttr) = Some (modified, subs, u, caV')"
    and res': "finishes ue action en r geo idField modified subs u res0 res'"
    and ops: "r_ops res0 = r_ops res"
    using updateEntity_shape[OF assms(1) nd] assms(3,4) by auto
  have m: modified
    using res' ops assms(2) unmodified_ops[of ue action en "u_cer u" res0] by (cases modified) (auto simp: finishes_def)
  then have "upd = composed_update (ue_now ue) action geo u"
    using res' ops assms(2) unfolding finishes_def by (auto dest: write_ops)
  then show ?thesis
    using v m by (intro exI[of _ "start_upd cer notifyCer locAttr"]) (auto simp: start_upd_def)
qed

subsection \<open>The document afterwards\<close>

lemma plain_attr_path [simp]: "plain_path (''attrs.'' @ n) \<longleftrightarrow> dotless n"
  by (simp add: plain_path_def)

lemma outcome_extra:
  assumes "\<And>k. k \<in> fst ` set X \<union> fst ` set Y \<Longrightarrow> take 6 k \<noteq> ''attrs.''"
  shows "outcome (S @ X) (U @ Y) n old = outcome S U n old"
proof -
  have "getField X (''attrs.'' @ n) = None" "\<not> hasField Y (''attrs.'' @ n)"
    using assms[of "''attrs.'' @ n"] by (auto simp: hasField_getField getField_def map_of_eq_None_iff)
  then show ?thesis
    by (auto simp: outcome_def split: option.splits)
qed

text \<open>C1: an update that is sent for an entity makes of its attributes what the request says: in any document for which the
  database keeps its law, the attributes of the request that are not skipped have been merged into the old ones, appended
  or deleted, one after the other, each at its time, and every other attribute is what it was.
\<close>

theorem update_stored:
  assumes law: "set_unset_law ap"
    and sent: "updateEntity ue action en r res = Some res'" "r_ops res' = r_ops res @ [DbUpdate q upd]"
    and action: "\<not> isReplace action"
    and attrs: "getField r ''attrs'' = Some (BObj attrs)"
    and caV: "caV = fst (strict_check action attrs (r_caV res))"
    and names: "distinct (map effectiveName (active caV))" "list_all (dotless \<circ> effectiveName) caV"
    and n: "dotless n"
  shows "stored_attr (ap r upd) n = spec_request action (ue_apiVersion ue) (ue_clock ue) 0 caV (stored_attr r) n"
proof -
  obtain u0 subs u caV' geo where upd: "upd = composed_update (ue_now ue) action geo u" and u0: "u_toSet u0 = []" "u_toUnset u0 = []"
    and vec: "processContextAttributeVector ue (r_cache res) attrs action caV u0 = Some (True, subs, u, caV')"
    using updateEntity_sends[OF sent attrs caV] by blast
  obtain u1 where pa: "process_attributes (ue_strtod ue) (ue_clock ue) attrs action (ue_apiVersion ue) 0 caV u0 = Some (True, u1, caV')"
    and u1: "u_toSet u = u_toSet u1" "u_toUnset u = u_toUnset u1"
    using vector_writes[OF vec] by blast
  obtain S U where SU: "u_toSet u = S" "u_toUnset u = U"
    and paths: "fst ` set S \<union> fst ` set U \<subseteq> attr_paths caV" and dist: "distinct (map fst S @ map fst U)"
    and out: "\<And>m n. agrees attrs caV m \<Longrightarrow> outcome S U n (m n) = spec_request action (ue_apiVersion ue) (ue_clock ue) 0 caV m n"
    using process_attributes_writes[OF pa action names(1)] unfolding u0 u1 append_Nil by blast
  have old: "stored_attr r n = getField attrs n" for n
    using attrs by (simp add: stored_attr_def)
  define X where "X = (''modDate'', BInt (ue_now ue))
    # (if u_locAttr u \<noteq> [] then [(''location'', location_doc (u_locAttr u) (if u_geoJson u \<noteq> [] then u_geoJson u else geo))] else [])"
  define Y where "Y = (if u_locAttr u \<noteq> [] then [] else [(''location'', BInt 1)])"
  have ops: "op_doc upd ''$set'' = S @ X" "op_doc upd ''$unset'' = U @ Y"
    using composed_ops[OF action] SU by (simp_all add: upd X_def Y_def)
  have attr_path: "\<exists>ca\<in>set caV. k = ''attrs.'' @ effectiveName ca" if "k \<in> fst ` set S \<union> fst ` set U" for k
    using that paths by (auto simp: attr_paths_def active_def)
  have plain: "plain_path k" if k: "k \<in> fst ` set S \<union> fst ` set U" for k
  proof -
    obtain ca where "ca \<in> set caV" "k = ''attrs.'' @ effectiveName ca"
      using attr_path[OF k] by blast
    then show ?thesis
      using names(2) by (simp only: plain_attr_path list_all_iff comp_def)
  qed
  have extra: "k \<notin> fst ` set X \<union> fst ` set Y" if "k \<in> fst ` set S \<union> fst ` set U" for k
    using attr_path[OF that] by (auto simp: X_def Y_def)
  have XY: "distinct (map fst X @ map fst Y)" "list_all plain_path (map fst X @ map fst Y)"
    by (auto simp: X_def Y_def plain_path_def dotless_def)
  have "distinct (map fst (S @ X) @ map fst (U @ Y))"
    using dist extra XY(1) by (simp only: distinct_append map_append set_append set_map) blast
  moreover have "list_all plain_path (map fst (S @ X) @ map fst (U @ Y))"
    using plain XY(2) by (auto simp: list_all_iff simp del: plain_attr_path)
  ultimately have "plain_update upd"
    unfolding plain_update_def ops Let_def by blast
  then have "stored_attr (ap r upd) n = outcome (S @ X) (U @ Y) n (stored_attr r n)"
    using law attrs n ops unfolding set_unset_law_def by metis
  also have "\<dots> = outcome S U n (stored_attr r n)"
    by (rule outcome_extra) (auto simp: X_def Y_def split: if_splits)
  finally show ?thesis
    using out[of "stored_attr r"] by (simp add: agrees_def old)
qed

subsection \<open>A database that keeps the law\<close>

definition put_field :: "string \<Rightarrow> bson \<Rightarrow> doc \<Rightarrow> doc" where
  "put_field k v d = filter (\<lambda>x. fst x \<noteq> k) d @ [(k, v)]"

definition in_attrs :: "(doc \<Rightarrow> doc) \<Rightarrow> doc \<Rightarrow> doc" where
  "in_attrs f d = (case getField d ''attrs'' of Some (BObj a) \<Rightarrow> put_field ''attrs'' (BObj (f a)) d | _ \<Rightarrow> d)"

definition set_path :: "string \<times> bson \<Rightarrow> doc \<Rightarrow> doc" where
  "set_path kv d =
     (if take 6 (fst kv) = ''attrs.'' then in_attrs (put_field (drop 6 (fst kv)) (snd kv)) d else put_field (fst kv) (snd kv) d)"

definition unset_path :: "string \<times> bson \<Rightarrow> doc \<Rightarrow> doc" where
  "unset_path kv d =
     (if take 6 (fst kv) = ''attrs.'' then in_attrs (filter (\<lambda>x. fst x \<noteq> drop 6 (fst kv))) d
      else filter (\<lambda>x. fst x \<noteq> fst kv) d)"

definition mongo_apply :: "doc \<Rightarrow> doc \<Rightarrow> doc" where
  "mongo_apply d upd = foldr unset_path (op_doc upd ''$unset'') (foldr set_path (op_doc upd ''$set'') d)"

lemma getField_filter: "getField (filter (\<lambda>x. fst x \<noteq> k) d) k' = (if k = k' then None else getField d k')"
  by (induction d) (auto simp: getField_def)

lemma getField_put: "getField (put_field k v d) k' = (if k = k' then Some v else getField d k')"
  by (simp add: put_field_def getField_filter split: option.splits)

definition has_attrs :: "doc \<Rightarrow> bool" where
  "has_attrs d = (\<exists>a. getField d ''attrs'' = Some (BObj a))"

lemma path_split: "take 6 k = ''attrs.'' \<Longrightarrow> drop 6 k = n \<longleftrightarrow> k = ''attrs.'' @ n"
  by (metis append_eq_conv_conj append_take_drop_id length_Cons list.size(3) numeral_nat(7))

lemma foldr_set:
  assumes "has_attrs d" "list_all plain_path (map fst S)"
  shows "has_attrs (foldr set_path S d)
    \<and> stored_attr (foldr set_path S d) n = (case getField S (''attrs.'' @ n) of Some v \<Rightarrow> Some v | None \<Rightarrow> stored_attr d n)"
  using assms
proof (induction S)
  case (Cons kv S)
  then show ?case
    using path_split[of "fst kv" n]
    by (cases kv) (auto simp: set_path_def in_attrs_def has_attrs_def stored_attr_def getField_put plain_path_def)
qed simp

lemma foldr_unset:
  assumes "has_attrs d" "list_all plain_path (map fst U)"
  shows "has_attrs (foldr unset_path U d)
    \<and> stored_attr (foldr unset_path U d) n = (if hasField U (''attrs.'' @ n) then None else stored_attr d n)"
  using assms
proof (induction U)
  case (Cons kv U)
  then show ?case
    using path_split[of "fst kv" n]
    by (cases kv) (auto simp: unset_path_def in_attrs_def has_attrs_def stored_attr_def getField_put getField_filter plain_path_def)
qed simp

lemma mongo_apply_law: "set_unset_law mongo_apply"
  unfolding set_unset_law_def
proof (intro allI impI)
  fix d attrs update n
  assume d: "getField d ''attrs'' = Some (BObj attrs)" and p: "plain_update update"
  have h: "has_attrs d"
    using d by (simp add: has_attrs_def)
  have pS: "list_all plain_path (map fst (op_doc update ''$set''))" and pU: "list_all plain_path (map fst (op_doc update ''$unset''))"
    using p by (simp_all add: plain_update_def Let_def)
  show "stored_attr (mongo_apply d update) n = outcome (op_doc update ''$set'') (op_doc update ''$unset'') n (stored_attr d n)"
    using foldr_set[OF h pS] foldr_unset[OF _ pU] unfolding mongo_apply_def outcome_def by presburger
qed

subsection \<open>An example\<close>

definition upd_env :: "string \<Rightarrow> update_env" where
  "upd_env apiVersion =
     \<lparr>ue_strtod = (\<lambda>s. (Fin 0, s, False)), ue_clock = (\<lambda>_. 200), ue_now = 200, ue_te = (trig_env 100)\<lparr>te_noCache := True, te_csubs := (\<lambda>_ _. Some [])\<rparr>, ue_tenant = [], ue_spV = [''/''],
      ue_apiVersion = apiVersion, ue_args = trig_args, ue_providers = (\<lambda>_ _. Inr []), ue_remove = (\<lambda>_. None), ue_update = (\<lambda>_ _. None),
      ue_insert = (\<lambda>_. None), ue_count = (\<lambda>_. Inr 1), ue_find = (\<lambda>_. Inr []), ue_toString = (\<lambda>_. [])\<rparr>"

definition room1_doc :: doc where
  "room1_doc =
     [(''_id'', BObj [(''id'', BStr ''r1''), (''type'', BStr ''Room''), (''servicePath'', BStr ''/'')]),
      (''attrNames'', BArr [BStr ''t'', BStr ''h'']),
      (''attrs'', BObj [(''t'', BObj [(''type'', BStr ''Number''), (''creDate'', BInt 100), (''modDate'', BInt 100), (''value'', BNum (Fin 20))]),
                       (''h'', BObj [(''type'', BStr ''Number''), (''creDate'', BInt 100), (''modDate'', BInt 100), (''value'', BNum (Fin 50))])]),
      (''creDate'', BInt 100), (''modDate'', BInt 100)]"

definition room_attrs :: "ContextAttribute list" where
  "room_attrs = [ContextAttribute_number ''t'' ''Number'' (Fin 21) True, ContextAttribute_number ''p'' ''Number'' (Fin 7) True]"

definition no_subs :: SubCache where
  "no_subs = \<lparr>head = None, tail = None, noOfRefreshes = 0, noOfInserts = 0, noOfRemoves = 0, noOfUpdates = 0,
     heap = Map.empty, subCacheMultitenant = False, subCacheActive = False, subCacheState = ScsIdle\<rparr>"

definition upd_start :: "ContextAttribute list \<Rightarrow> upd_result" where
  "upd_start caV =
     \<lparr>r_cerV = [], r_caV = caV, r_existsError = False, r_existsList = [], r_ops = [], r_calls = [], r_subWrites = [],
      r_cache = no_subs, r_alarms = [], r_dbErrors = []\<rparr>"

definition room_query :: "(string \<times> query) list" where
  "room_query = entity_key ''r1'' ''Room''
     @ [(''_id.servicePath'', QJson (''{ $in: [ null, /^'' @ [CHR 0x5C] @ ''/$/ ] }''))]"

definition room_update :: doc where
  "room_update =
     [(''$set'', BObj
        [(''attrs.t'', BObj [(''value'', BNum (Fin 21)), (''type'', BStr ''Number''), (''creDate'', BInt 100), (''modDate'', BInt 200)]),
         (''attrs.p'', BObj [(''value'', BNum (Fin 7)), (''type'', BStr DEFAULT_TYPE), (''creDate'', BInt 200), (''modDate'', BInt 200)]),
         (''modDate'', BInt 200)]),
      (''$unset'', BObj [(''location'', BInt 1)]),
      (''$addToSet'', BObj [(''attrNames'', BObj [(''$each'', BArr [BStr ''p''])])])]"

lemma room_ops:
  "map_option r_ops (updateEntity (upd_env ''v2'') ''APPEND'' (EntityId_new ''r1'' ''Room'' ''false'') room1_doc (upd_start room_attrs))
     = Some [DbUpdate room_query room_update]"
  by code_simp

lemma room_names:
  "strict_check ''APPEND'' attrs room_attrs = (room_attrs, False, ''[ '')" "\<not> isReplace ''APPEND''"
  "distinct (map effectiveName (active room_attrs))" "list_all (dotless \<circ> effectiveName) room_attrs"
  by (simp_all add: strict_check_def action_kind, code_simp+)

theorem update_stored_witness:
  "stored_attr (mongo_apply room1_doc room_update) ''t''
     = spec_request ''APPEND'' ''v2'' (\<lambda>_. 200) 0 room_attrs (stored_attr room1_doc) ''t''"
proof -
  obtain res' where "updateEntity (upd_env ''v2'') ''APPEND'' (EntityId_new ''r1'' ''Room'' ''false'') room1_doc (upd_start room_attrs) = Some res'"
    and "r_ops res' = r_ops (upd_start room_attrs) @ [DbUpdate room_query room_update]"
    using room_ops by (auto simp: upd_start_def)
  then show ?thesis
    using update_stored[OF mongo_apply_law, of "upd_env ''v2''" "''APPEND''" "EntityId_new ''r1'' ''Room'' ''false''" room1_doc
        "upd_start room_attrs" res' room_query room_update _ room_attrs "''t''"] room_names
    by (simp add: room1_doc_def upd_start_def upd_env_def dotless_def)
qed

end
