(* ===== verification/Orion_ElementUpdate.thy ===== *)
theory Orion_ElementUpdate
  imports Orion_UpdateSpec
begin

section \<open>What one element of an update request does to the database\<close>

subsection \<open>The operations\<close>

fun is_insert :: "db_op \<Rightarrow> bool" where
  "is_insert (DbInsert d) = True"
| "is_insert _ = False"

lemma updateEntity_ops:
  assumes "updateEntity ue action en r res = Some res'"
  shows "\<exists>ops. r_ops res' = r_ops res @ ops \<and> length ops \<le> 1 \<and> list_all (\<lambda>op. \<not> is_insert op) ops"
proof (cases "isDelete action \<and> r_caV res = []")
  case True
  then show ?thesis
    using assms by (auto simp: updateEntity_def Let_def removeEntity_def bind_eq_Some_conv)
next
  case False
  then obtain idField res0 geo modified subs u where "finishes ue action en r geo idField modified subs u res0 res'" "r_ops res0 = r_ops res"
    using updateEntity_shape[OF assms] by blast
  then show ?thesis
    by (cases modified) (auto simp: finishes_def unmodified_ops dest: write_ops)
qed

lemma append_new_ops:
  assumes "append_new ue err ce cer res = Some res'"
  shows "\<exists>ops. r_ops res' = r_ops res @ ops \<and> length ops \<le> 1 \<and> list_all is_insert ops"
proof -
  obtain d e where d: "createEntity (ue_strtod ue) (ue_insert ue) (ce_entityId ce) (r_caV res) (ue_now ue) (ue_spV ue) (ue_apiVersion ue) = Some (d, e)"
    using assms by (auto simp: append_new_def Let_def bind_eq_Some_conv)
  obtain notifyCer src where n: "ContextElementResponse_element (ce\<lparr>contextAttributeVector := r_caV res\<rparr>) (ue_apiVersion ue = ''v2'') = (notifyCer, src)"
    by fastforce
  have "r_ops res' = r_ops res @ (case d of None \<Rightarrow> [] | Some d \<Rightarrow> [DbInsert d])"
    using assms d n by (cases e) (auto simp: append_new_def Let_def push_cer_def bind_eq_Some_conv split: if_splits)
  then show ?thesis
    by (cases d) auto
qed

lemma absent_entity_ops:
  assumes "absent_entity ue err action ce res = Some res'"
  shows "\<exists>ops. r_ops res' = r_ops res @ ops \<and> length ops \<le> 1 \<and> list_all is_insert ops"
proof (cases "isUpdate action \<or> isReplace action \<or> isDelete action")
  case True
  then show ?thesis
    using assms by (auto simp: absent_entity_def Let_def push_cer_def split: if_splits prod.splits)
next
  case False
  then show ?thesis
    using assms append_new_ops by (simp add: absent_entity_def Let_def)
qed

lemma preconditions_ops: "r_ops (snd (contextElementPreconditionsCheck en action apiVersion res)) = r_ops res"
  by (simp add: contextElementPreconditionsCheck_def buildGeneralErrorResponse_def Let_def split: option.split prod.split)

lemma error_ops [simp]: "r_ops (buildGeneralErrorResponse en ca code details res) = r_ops res"
  by (simp add: buildGeneralErrorResponse_def Let_def)

lemma found_docs_length: "length (fst (found_docs toString steps)) \<le> length steps"
  by (induction toString steps rule: found_docs.induct) auto

text \<open>A cursor that gives the documents of entities, all of them.\<close>

fun entity_step :: "cursor_step \<Rightarrow> bool" where
  "entity_step (CDoc r) = hasField r ''_id''"
| "entity_step _ = False"

lemma found_docs_all: "list_all entity_step steps \<Longrightarrow> length (fst (found_docs toString steps)) = length steps"
  by (induction toString steps rule: found_docs.induct) auto

lemma update_entities_one:
  "update_entities ue action en rs res = Some res' \<Longrightarrow> length rs \<le> 1 \<Longrightarrow>
     \<exists>ops. r_ops res' = r_ops res @ ops \<and> length ops \<le> 1 \<and> list_all (\<lambda>op. \<not> is_insert op) ops"
  by (cases rs) (auto simp: bind_eq_Some_conv dest: updateEntity_ops)

text \<open>The two answers of the database to a query: what it counts is what it finds, and what it finds are entities.\<close>

definition db_consistent :: "update_env \<Rightarrow> bool" where
  "db_consistent ue =
     (\<forall>q steps n. ue_find ue q = Inr steps \<longrightarrow> ue_count ue q = Inr n \<longrightarrow> n = length steps \<and> list_all entity_step steps)"

lemma v2_error_none:
  "v2_error flavour counted = None \<longleftrightarrow>
     (\<exists>n. counted = Inr n \<and> n \<le> 1 \<and> (flavour = NGSIV2_FLAVOUR_ONCREATE \<longrightarrow> n = 0)
        \<and> (flavour = NGSIV2_FLAVOUR_ONAPPENDORUPDATE \<longrightarrow> n \<noteq> 0))"
  by (cases counted) (auto simp: v2_error_def)

text \<open>C3: in version 2 a request changes at most one entity, with one operation on the database. When it is to create an
  entity, the operation inserts one; when it is to change one that exists, it inserts none.
\<close>

theorem v2_one_entity:
  assumes run: "processContextElement ue action notExist flavour ce cerV sc = Some res" and v2: "ue_apiVersion ue = ''v2''"
    and db: "db_consistent ue"
  shows "length (r_ops res) \<le> 1 \<and> (flavour = NGSIV2_FLAVOUR_ONCREATE \<longrightarrow> list_all is_insert (r_ops res))
    \<and> (flavour = NGSIV2_FLAVOUR_ONAPPENDORUPDATE \<longrightarrow> list_all (\<lambda>op. \<not> is_insert op) (r_ops res))"
proof -
  let ?start = "\<lparr>r_cerV = cerV, r_caV = contextAttributeVector ce, r_existsError = False, r_existsList = ''[ '', r_ops = [], r_calls = [],
    r_subWrites = [], r_cache = sc, r_alarms = [], r_dbErrors = []\<rparr>" and ?en = "ce_entityId ce"
  obtain ok res0 where pre: "contextElementPreconditionsCheck ?en action (ue_apiVersion ue) ?start = (ok, res0)"
    by fastforce
  have r0: "r_ops res0 = []"
    using preconditions_ops[of ?en action "ue_apiVersion ue" ?start] pre by simp
  show ?thesis
  proof (cases "r_ops res = []")
    case False
    then have ok
      using run pre r0 by (cases ok) (auto simp: processContextElement_def Let_def)
    then obtain query where q: "element_query ?en (ue_spV ue) notExist = Some query"
      using run pre by (auto simp: processContextElement_def Let_def bind_eq_Some_conv)
    have v: "v2_error flavour (ue_count ue query) = None"
      using run pre q v2 r0 False \<open>ok\<close> by (cases "v2_error flavour (ue_count ue query)") (auto simp: processContextElement_def Let_def)
    obtain steps where st: "ue_find ue query = Inr steps"
      using run pre q v2 v r0 False \<open>ok\<close> by (cases "ue_find ue query") (auto simp: processContextElement_def Let_def)
    obtain results errs where docs: "found_docs (ue_toString ue) steps = (results, errs)"
      by fastforce
    have len: "length results \<le> 1" "flavour = NGSIV2_FLAVOUR_ONCREATE \<longrightarrow> results = []" "flavour = NGSIV2_FLAVOUR_ONAPPENDORUPDATE \<longrightarrow> results \<noteq> []"
      using v db st docs found_docs_all[of steps "ue_toString ue"] unfolding v2_error_none db_consistent_def by fastforce+
    define res1 where "res1 = res0\<lparr>r_dbErrors := r_dbErrors res0 @ errs\<rparr>"
    have r1: "r_ops res1 = []"
      by (simp add: res1_def r0)
    have "\<exists>res2. (if results = [] then absent_entity ue (next_error [] steps) action ce res1
        else update_entities ue action ?en results res1) = Some res2 \<and> r_ops res = r_ops res2"
      using run pre q v2 v st docs \<open>ok\<close> by (auto simp: processContextElement_def Let_def res1_def)
    then obtain res2 where run2: "(if results = [] then absent_entity ue (next_error [] steps) action ce res1
        else update_entities ue action ?en results res1) = Some res2" and ops: "r_ops res = r_ops res2"
      by blast
    show ?thesis
    proof (cases "results = []")
      case True
      then show ?thesis
        using absent_entity_ops[of ue "next_error [] steps" action ce res1 res2] run2 len(3) r1 ops by auto
    next
      case False
      then show ?thesis
        using update_entities_one[of ue action ?en results res1 res2] run2 len(1,2) r1 ops by auto
    qed
  qed simp
qed

definition new_env :: update_env where
  "new_env = (upd_env ''v2'')\<lparr>ue_count := (\<lambda>_. Inr 0), ue_find := (\<lambda>_. Inr [])\<rparr>"

definition new_room :: ContextElement where
  "new_room = (ContextElement_of ''r1'' ''Room'' ''false'')\<lparr>contextAttributeVector := [ContextAttribute_string ''d'' [] ''on'' True]\<rparr>"

lemma new_room_ops:
  "map_option (map is_insert \<circ> r_ops) (processContextElement new_env ''APPEND'' [] NGSIV2_FLAVOUR_ONCREATE new_room [] no_subs) = Some [True]"
  by code_simp

theorem v2_one_entity_witness:
  "\<exists>res. processContextElement new_env ''APPEND'' [] NGSIV2_FLAVOUR_ONCREATE new_room [] no_subs = Some res
     \<and> length (r_ops res) \<le> 1 \<and> list_all is_insert (r_ops res) \<and> r_ops res \<noteq> []"
proof -
  obtain res where res: "processContextElement new_env ''APPEND'' [] NGSIV2_FLAVOUR_ONCREATE new_room [] no_subs = Some res"
    and "map is_insert (r_ops res) = [True]"
    using new_room_ops by auto
  moreover have "ue_apiVersion new_env = ''v2''" "db_consistent new_env"
    by (simp_all add: new_env_def upd_env_def db_consistent_def)
  ultimately show ?thesis
    using v2_one_entity[OF res] by auto
qed

subsection \<open>What the preconditions give\<close>

lemma copy_first_none: "copy_first P cas = None \<Longrightarrow> i < length cas \<Longrightarrow> \<not> P (cas ! i) (drop (Suc i) cas)"
  by (induction P cas arbitrary: i rule: copy_first.induct) (auto simp: less_Suc_eq_0_disj split: if_splits)

lemma same_attr_sym: "same_attr a b = same_attr b a"
  by (auto simp: same_attr_def)

text \<open>
  When the preconditions hold, no two attributes have the same name and identifier. Together with names that can be told
  apart in the document, the fields that are written are distinct, as \<^const>\<open>spec_request\<close> needs it.
\<close>

lemma preconditions_distinct:
  assumes "contextElementPreconditionsCheck en action apiVersion res = (True, res')" "i < j" "j < length (r_caV res)"
  shows "\<not> same_attr (r_caV res ! i) (r_caV res ! j)"
proof -
  have "copy_first (\<lambda>ca cas. list_ex (same_attr ca) cas) (r_caV res) = None"
    using assms(1) by (auto simp: contextElementPreconditionsCheck_def split: option.splits)
  then have "\<not> list_ex (same_attr (r_caV res ! i)) (drop (Suc i) (r_caV res))"
    using copy_first_none[of "\<lambda>ca cas. list_ex (same_attr ca) cas"] assms(2,3) by simp
  moreover have "r_caV res ! j \<in> set (drop (Suc i) (r_caV res))"
    using assms(2,3) by (auto simp: in_set_conv_nth intro!: exI[of _ "j - Suc i"])
  ultimately show ?thesis
    by (auto simp: list_ex_iff)
qed

subsection \<open>Inputs on which the code does something else\<close>

text \<open>The response to an \<^verbatim>\<open>APPEND_STRICT\<close> that fails for another reason than an existing attribute is lost.\<close>

lemma strict_response_lost: "isAppendStrict action \<Longrightarrow> r_cerV (updateEntity_unmodified ue action en cer res) = r_cerV res"
  by (simp add: updateEntity_unmodified_def split: prod.split)

text \<open>The location of an entity that is replaced is stored among its attributes, not beside them, and the old one stays.\<close>

lemma replace_location_inside:
  assumes "isReplace action" "u_locAttr u \<noteq> []"
  shows "\<exists>attrs. getField (op_doc (composed_update now action geo u) ''$set'') ''attrs'' = Some (BObj attrs) \<and> hasField attrs ''location''"
    "\<not> hasField (op_doc (composed_update now action geo u) ''$set'') ''location''" "op_doc (composed_update now action geo u) ''$unset'' = []"
  using assms by (simp_all add: composed_update_def op_doc_def Let_def)

text \<open>An update of an attribute that does not exist makes it the location of the entity.\<close>

lemma update_in_vector_scalar:
  "ca_compoundValueP target = None \<Longrightarrow> \<exists>cas' t'. update_in_vector useDefaultType target cas = Some (cas', t')"
  by (induction useDefaultType target cas rule: update_in_vector.induct)
    (auto simp: ContextAttribute_copy_def update_notified_def cloned_value_def)

lemma update_missing_location:
  assumes "u_locAttr u = []"
  shows "\<exists>u' t. updateContextAttributeItem strtod_nat now [] False ''v2'' geo_demo u = Some (True, False, u', t)
    \<and> u_locAttr u' = ''place'' \<and> u_toSet u' = u_toSet u"
proof -
  have loc: "processLocationAtUpdateAttribute strtod_nat [] geo_demo ''v2'' = Inr (''place'', geo_doc ''Point'' (position (Fin 3) (Fin 40)))"
    using getGeoJson_geo_demo
    by (simp add: processLocationAtUpdateAttribute_def Let_def getLocation_def geo_demo_def ContextAttribute_string_def
        ContextAttribute_new_def wgs84_def)
  have "ca_compoundValueP geo_demo = None"
    by (simp add: geo_demo_def ContextAttribute_string_def ContextAttribute_new_def)
  then obtain cas t where "update_in_vector True geo_demo (contextAttributeVector (contextElement (u_notifyCer u))) = Some (cas, t)"
    using update_in_vector_scalar by blast
  then show ?thesis
    using assms loc by (simp add: updateContextAttributeItem_def updateAttribute_def Let_def notify_item_def updateAttrInNotifyCer_def
        u_status_def u_found_def)
qed

text \<open>A name with an identifier is refused when it begins the name of another attribute.\<close>

lemma legalIdUsage_prefix:
  "\<not> legalIdUsage [(''temperature'', v)] ((ContextAttribute_string ''temp'' [] [] True)\<lparr>ca_metadataVector := [Metadata_string ''ID'' [] ''1'']\<rparr>)"
  by (simp add: legalIdUsage_def field_names_def getId_def starts_with_def ContextAttribute_string_def ContextAttribute_new_def
      Metadata_string_def Metadata_new_def)

text \<open>An attribute with a dot in its name is not found by the check of \<^verbatim>\<open>APPEND_STRICT\<close>.\<close>

lemma strict_dot_missed:
  "howManyAttrs [(effectiveName (ContextAttribute_string ''a.b'' [] [] True), v)] ''a.b'' = 0"
  "hasField [(effectiveName (ContextAttribute_string ''a.b'' [] [] True), v)] (effectiveName (ContextAttribute_string ''a.b'' [] [] True))"
  by (simp_all add: howManyAttrs_def field_names_def effectiveName_def dbDotEncode_def getId_def ContextAttribute_string_def
      ContextAttribute_new_def basePart_def)

text \<open>An element that two entities match is processed with the attributes as the first one left them: a compound value that
  was appended to the first one is not there for the second.\<close>

lemma appended_value_moves:
  assumes "appendContextAttributeItem strtod now attrs apiVersion target u = Some (True, actual, u', t)"
    "ca_name target \<notin> ca_name ` set (contextAttributeVector (contextElement (u_notifyCer u)))"
  shows "ca_compoundValueP t = None"
proof -
  have "ca_compoundValueP t' = None" if "update_in_vector d target cas = Some (cas', t')" "ca_name target \<notin> ca_name ` set cas" for d cas cas' t'
    using that by (induction d target cas arbitrary: cas' t' rule: update_in_vector.induct) (auto simp: ContextAttribute_copy_def)
  moreover obtain new a set push where "appendAttribute now attrs target apiVersion = Some (new, a, set, push)"
    using assms(1) by (auto simp: appendContextAttributeItem_def bind_eq_Some_conv split: if_splits)
  moreover from this obtain loc geo where "processLocationAtAppendAttribute strtod (u_locAttr u) target new apiVersion = Inr (loc, geo)"
    using assms(1) by (cases "processLocationAtAppendAttribute strtod (u_locAttr u) target new apiVersion")
      (auto simp: appendContextAttributeItem_def Let_def split: if_splits)
  ultimately show ?thesis
    using assms by (auto simp: appendContextAttributeItem_def notify_item_def updateAttrInNotifyCer_def Let_def split: if_splits)
qed

end
