(* ===== verification/Orion_Reply.thy ===== *)
theory Orion_Reply
  imports Orion_Ngsi10 Orion_Registration Orion_Globals
begin

section \<open>Responses and error replies: ngsi/Duration.cpp, ngsi/Throttling.cpp, ngsi/RegistrationId.cpp,
  ngsi/SubscribeResponse.cpp, ngsi/SubscribeError.cpp, the responses of ngsi9 and ngsi10, rest/restReply.cpp\<close>

text \<open>
  The responses of version 1 that carry no context elements, and the choice of the response that reports an error.
  Rendering escapes the details of a status code in a buffer; \<^const>\<open>None\<close> is a write past it. A response that is
  rendered once is not used afterwards, so only its text is given.
\<close>

subsection \<open>Durations, throttlings and identifiers\<close>

record Duration =
  du_string :: string
  du_seconds :: int
  du_valid :: bool

definition Duration_new :: Duration where
  "Duration_new = \<lparr>du_string = [], du_seconds = 0, du_valid = False\<rparr>"

text \<open>The parsed object and the alarms of \<^verbatim>\<open>parse8601\<close>; \<open>secs\<close> converts the seconds.\<close>

definition Duration_parse :: "(string \<Rightarrow> int) \<Rightarrow> Duration \<Rightarrow> Duration \<times> string list" where
  "Duration_parse secs d =
     (case parse8601 secs (du_string d) of
        (seconds, al) \<Rightarrow> (d\<lparr>du_seconds := seconds, du_valid := (if seconds = - 1 then False else True)\<rparr>, al))"

definition Duration_set :: "(string \<Rightarrow> int) \<Rightarrow> string \<Rightarrow> Duration \<Rightarrow> Duration \<times> string list" where
  "Duration_set secs s d = Duration_parse secs (d\<lparr>du_string := s\<rparr>)"

definition Duration_isEmpty :: "Duration \<Rightarrow> bool" where
  "Duration_isEmpty d = (du_string d = [])"

definition Duration_check :: "(string \<Rightarrow> int) \<Rightarrow> Duration \<Rightarrow> string \<times> Duration \<times> string list" where
  "Duration_check secs d =
     (if du_string d = [] then (''OK'', d, [])
      else case Duration_parse secs d of
             (d, al) \<Rightarrow>
               if du_seconds d = - 1
               then (''syntax error in duration string'', d\<lparr>du_valid := False\<rparr>, al @ [''syntax error in duration string''])
               else (''OK'', d\<lparr>du_valid := True\<rparr>, al))"

definition Duration_render :: "Duration \<Rightarrow> string \<Rightarrow> bool \<Rightarrow> string" where
  "Duration_render d indent comma =
     (if du_string d = [] then []
      else if du_valid d = False then []
      else valueTag1 indent ''duration'' (du_string d) comma False False)"

definition Throttling_check :: "(string \<Rightarrow> int) \<Rightarrow> string \<Rightarrow> string \<times> string list" where
  "Throttling_check secs s =
     (if s = [] then (''OK'', [])
      else case parse8601 secs s of
             (seconds, al) \<Rightarrow> (if seconds = - 1 then ''syntax error in throttling string'' else ''OK'', al))"

definition Throttling_render :: "string \<Rightarrow> string \<Rightarrow> bool \<Rightarrow> string" where
  "Throttling_render s indent comma = (if s = [] then [] else valueTag1 indent ''throttling'' s comma False False)"

definition RegistrationId_check :: "string \<Rightarrow> string \<times> string list" where
  "RegistrationId_check s = (if s \<noteq> [] then idCheck s else (''OK'', []))"

text \<open>The text and the identifier, which a response sets to zeroes.\<close>

definition RegistrationId_render :: "string \<Rightarrow> RequestType \<Rightarrow> string \<Rightarrow> bool \<Rightarrow> string \<times> string" where
  "RegistrationId_render s container indent comma =
     (if s = [] \<and> container \<noteq> RegisterResponse then ([], s)
      else let s = (if s = [] then ''000000000000000000000000'' else s)
           in (valueTag1 indent ''registrationId'' s comma False False, s))"

subsection \<open>Responses of ngsi9\<close>

record RegisterContextResponse =
  rcrs_duration :: Duration
  rcrs_registrationId :: string
  rcrs_errorCode :: StatusCode

text \<open>The constructor sets the duration to the empty string, which does not parse.\<close>

definition RegisterContextResponse_new :: RegisterContextResponse where
  "RegisterContextResponse_new =
     \<lparr>rcrs_duration = Duration_new\<lparr>du_seconds := - 1\<rparr>, rcrs_registrationId = [],
      rcrs_errorCode = StatusCode_new ''errorCode''\<rparr>"

definition RegisterContextResponse_error :: "string \<Rightarrow> StatusCode \<Rightarrow> RegisterContextResponse" where
  "RegisterContextResponse_error registrationId errorCode =
     \<lparr>rcrs_duration = Duration_new, rcrs_registrationId = registrationId,
      rcrs_errorCode = errorCode\<lparr>sc_keyName := ''errorCode''\<rparr>\<rparr>"

definition tagged :: "string \<Rightarrow> string \<Rightarrow> string \<Rightarrow> string" where
  "tagged indent tag out = startTag1 indent tag False False @ out @ endTag_plain indent False False"

definition RegisterContextResponse_render :: "RegisterContextResponse \<Rightarrow> string \<Rightarrow> string option" where
  "RegisterContextResponse_render r indent =
     (let ec = rcrs_errorCode r;
          errorCodeRendered = (sc_code ec \<noteq> SccNone \<and> sc_code ec \<noteq> SccOk)
      in map_option (\<lambda>ecOut. tagged indent ''registerContextResponse''
             (Duration_render (rcrs_duration r) (indent @ ''  '') True
              @ fst (RegistrationId_render (rcrs_registrationId r) RegisterResponse (indent @ ''  '') errorCodeRendered)
              @ ecOut))
           (if errorCodeRendered then map_option fst (StatusCode_render ec (indent @ ''  '') False True) else Some []))"

text \<open>The check fills the error of another object, which has no registration and no duration, and renders that one.\<close>

definition RegisterContextResponse_check ::
    "(string \<Rightarrow> int) \<Rightarrow> RegisterContextResponse \<Rightarrow> string \<Rightarrow> string \<Rightarrow> string option" where
  "RegisterContextResponse_check secs r indent predetectedError =
     (let failed = (\<lambda>res. RegisterContextResponse_render
            (RegisterContextResponse_new\<lparr>rcrs_errorCode := StatusCode_fill (StatusCode_new ''errorCode'') SccBadRequest res\<rparr>) indent);
          res1 = fst (Duration_check secs (rcrs_duration r));
          res2 = fst (RegistrationId_check (rcrs_registrationId r))
      in if predetectedError \<noteq> [] then failed predetectedError
         else if res1 \<noteq> ''OK'' then failed res1
         else if res2 \<noteq> ''OK'' then failed res2
         else Some ''OK'')"

record DiscoverContextAvailabilityResponse =
  dcars_responseVector :: "ContextRegistrationResponse list"
  dcars_errorCode :: StatusCode

definition DiscoverContextAvailabilityResponse_error :: "StatusCode \<Rightarrow> DiscoverContextAvailabilityResponse" where
  "DiscoverContextAvailabilityResponse_error errorCode =
     \<lparr>dcars_responseVector = [],
      dcars_errorCode = (StatusCode_fill_from (StatusCode_new ''statusCode'') errorCode)\<lparr>sc_keyName := ''errorCode''\<rparr>\<rparr>"

definition DiscoverContextAvailabilityResponse_render ::
    "DiscoverContextAvailabilityResponse \<Rightarrow> string \<Rightarrow> string option" where
  "DiscoverContextAvailabilityResponse_render r indent =
     (let ec = dcars_errorCode r; vec = dcars_responseVector r
      in case (if vec \<noteq> [] then map_option fst (ContextRegistrationResponseVector_render vec (indent @ ''  '') (sc_code ec \<noteq> SccNone))
               else Some []) of
           None \<Rightarrow> None
         | Some vecOut \<Rightarrow>
             map_option (\<lambda>ecOut. tagged indent ''discoverContextAvailabilityResponse'' (vecOut @ ecOut))
               (if sc_code ec \<noteq> SccNone then map_option fst (StatusCode_render ec (indent @ ''  '') False True)
                else if vec = []
                then map_option fst (StatusCode_render (StatusCode_fill ec SccReceiverInternalError
                       ''Both the error-code structure and the response vector were empty'') (indent @ ''  '') False True)
                else Some []))"

record SubscribeContextAvailabilityResponse =
  scars_subscriptionId :: string
  scars_duration :: Duration
  scars_errorCode :: StatusCode

definition SubscribeContextAvailabilityResponse_error :: "string \<Rightarrow> StatusCode \<Rightarrow> SubscribeContextAvailabilityResponse" where
  "SubscribeContextAvailabilityResponse_error subscriptionId errorCode =
     \<lparr>scars_subscriptionId = subscriptionId, scars_duration = Duration_new,
      scars_errorCode = StatusCode_fill_from (StatusCode_new ''errorCode'') errorCode\<rparr>"

text \<open>The identifier, the duration and the error code of the two responses on availability subscriptions.\<close>

definition availability_members ::
    "RequestType \<Rightarrow> string \<Rightarrow> Duration \<Rightarrow> StatusCode \<Rightarrow> string \<Rightarrow> string option" where
  "availability_members container subscriptionId duration ec indent =
     (let durationRendered = (\<not> Duration_isEmpty duration); errorCodeRendered = (sc_code ec \<noteq> SccNone)
      in map_option (\<lambda>ecOut. SubscriptionId_render subscriptionId container (indent @ ''  '') (durationRendered \<or> errorCodeRendered)
              @ Duration_render duration (indent @ ''  '') errorCodeRendered @ ecOut)
           (if errorCodeRendered then map_option fst (StatusCode_render ec (indent @ ''  '') False True) else Some []))"

definition SubscribeContextAvailabilityResponse_render ::
    "SubscribeContextAvailabilityResponse \<Rightarrow> string \<Rightarrow> string option" where
  "SubscribeContextAvailabilityResponse_render r indent =
     map_option (tagged indent ''subscribeContextAvailabilityResponse'')
       (availability_members RtSubscribeContextAvailabilityResponse (scars_subscriptionId r) (scars_duration r)
          (scars_errorCode r) indent)"

record UpdateContextAvailabilitySubscriptionResponse =
  ucass_subscriptionId :: string
  ucass_duration :: Duration
  ucass_errorCode :: StatusCode

definition UpdateContextAvailabilitySubscriptionResponse_error ::
    "StatusCode \<Rightarrow> UpdateContextAvailabilitySubscriptionResponse" where
  "UpdateContextAvailabilitySubscriptionResponse_error errorCode =
     \<lparr>ucass_subscriptionId = [], ucass_duration = Duration_new,
      ucass_errorCode = (StatusCode_fill_from (StatusCode_new ''statusCode'') errorCode)\<lparr>sc_keyName := ''errorCode''\<rparr>\<rparr>"

definition UpdateContextAvailabilitySubscriptionResponse_render ::
    "UpdateContextAvailabilitySubscriptionResponse \<Rightarrow> string \<Rightarrow> string option" where
  "UpdateContextAvailabilitySubscriptionResponse_render r indent =
     map_option (tagged indent ''updateContextAvailabilitySubscriptionResponse'')
       (availability_members RtUpdateContextAvailabilitySubscriptionResponse (ucass_subscriptionId r) (ucass_duration r)
          (ucass_errorCode r) indent)"

definition UpdateContextAvailabilitySubscriptionResponse_check ::
    "(string \<Rightarrow> int) \<Rightarrow> UpdateContextAvailabilitySubscriptionResponse \<Rightarrow> string \<Rightarrow> string \<Rightarrow> string option" where
  "UpdateContextAvailabilitySubscriptionResponse_check secs r indent predetectedError =
     (case Duration_check secs (ucass_duration r) of
        (res2, d, al) \<Rightarrow>
          (let failed = (\<lambda>r res. UpdateContextAvailabilitySubscriptionResponse_render
                 (r\<lparr>ucass_errorCode := StatusCode_fill (ucass_errorCode r) SccBadRequest res\<rparr>) indent);
               res1 = fst (SubscriptionId_check (ucass_subscriptionId r))
           in if predetectedError \<noteq> [] then failed r predetectedError
              else if res1 \<noteq> ''OK'' then failed r res1
              else if res2 \<noteq> ''OK'' then failed (r\<lparr>ucass_duration := d\<rparr>) res2
              else Some ''OK''))"

definition UnsubscribeContextAvailabilityResponse_render :: "string \<Rightarrow> StatusCode \<Rightarrow> string \<Rightarrow> string option" where
  "UnsubscribeContextAvailabilityResponse_render subscriptionId sc indent =
     map_option (\<lambda>(out, _). tagged indent ''unsubscribeContextAvailabilityResponse''
         (SubscriptionId_render subscriptionId RtUnsubscribeContextAvailabilityResponse (indent @ ''  '') True @ out))
       (StatusCode_render sc (indent @ ''  '') False True)"

definition NotifyContextAvailabilityResponse_render :: "StatusCode \<Rightarrow> string \<Rightarrow> string option" where
  "NotifyContextAvailabilityResponse_render responseCode indent =
     map_option (\<lambda>(out, sc). tagged indent ''notifyContextAvailabilityResponse'' out)
       (StatusCode_render (responseCode\<lparr>sc_keyName := ''responseCode''\<rparr>) (indent @ ''  '') False True)"

subsection \<open>Responses of ngsi10\<close>

record SubscribeResponse =
  sr_subscriptionId :: string
  sr_duration :: Duration
  sr_throttling :: string

definition SubscribeResponse_render :: "SubscribeResponse \<Rightarrow> string \<Rightarrow> bool \<Rightarrow> string" where
  "SubscribeResponse_render r indent comma =
     (let durationRendered = (\<not> Duration_isEmpty (sr_duration r)); throttlingRendered = (sr_throttling r \<noteq> [])
      in startTag1 indent ''subscribeResponse'' True False
         @ SubscriptionId_render (sr_subscriptionId r) RtSubscribeResponse (indent @ ''  '') (durationRendered \<or> throttlingRendered)
         @ Duration_render (sr_duration r) (indent @ ''  '') throttlingRendered
         @ Throttling_render (sr_throttling r) (indent @ ''  '') False
         @ endTag_plain indent comma False)"

record SubscribeError =
  se_subscriptionId :: string
  se_errorCode :: StatusCode

definition SubscribeError_render :: "SubscribeError \<Rightarrow> RequestType \<Rightarrow> string \<Rightarrow> bool \<Rightarrow> string option" where
  "SubscribeError_render e container indent comma =
     (let subId = (if container = UpdateContextSubscription
                   then SubscriptionId_render (if se_subscriptionId e = [] then ''000000000000000000000000'' else se_subscriptionId e)
                          container (indent @ ''  '') True
                   else if container = SubscribeContext \<and> se_subscriptionId e \<noteq> ''000000000000000000000000''
                           \<and> se_subscriptionId e \<noteq> []
                   then SubscriptionId_render (se_subscriptionId e) container (indent @ ''  '') True
                   else [])
      in map_option (\<lambda>(out, sc). startTag1 indent ''subscribeError'' True False @ subId @ out @ endTag_plain indent comma False)
           (StatusCode_render (se_errorCode e) (indent @ ''  '') False True))"

text \<open>The responses to a subscription and to its update have the same members.\<close>

record SubscribeContextResponse =
  scrs_subscribeResponse :: SubscribeResponse
  scrs_subscribeError :: SubscribeError

definition SubscribeContextResponse_error :: "StatusCode \<Rightarrow> SubscribeContextResponse" where
  "SubscribeContextResponse_error errorCode =
     \<lparr>scrs_subscribeResponse = \<lparr>sr_subscriptionId = [], sr_duration = Duration_new, sr_throttling = []\<rparr>,
      scrs_subscribeError = \<lparr>se_subscriptionId = ''000000000000000000000000'',
        se_errorCode = (StatusCode_fill_from (StatusCode_new ''statusCode'') errorCode)\<lparr>sc_keyName := ''errorCode''\<rparr>\<rparr>\<rparr>"

definition SubscribeContextResponse_render :: "SubscribeContextResponse \<Rightarrow> string \<Rightarrow> string option" where
  "SubscribeContextResponse_render r indent =
     map_option (tagged indent ''subscribeContextResponse'')
       (if sc_code (se_errorCode (scrs_subscribeError r)) = SccNone
        then Some (SubscribeResponse_render (scrs_subscribeResponse r) (indent @ ''  '') False)
        else SubscribeError_render (scrs_subscribeError r) SubscribeContext (indent @ ''  '') False)"

definition UpdateContextSubscriptionResponse_render :: "SubscribeContextResponse \<Rightarrow> string \<Rightarrow> string option" where
  "UpdateContextSubscriptionResponse_render r indent =
     map_option (tagged indent ''updateContextSubscriptionResponse'')
       (if sc_code (se_errorCode (scrs_subscribeError r)) = SccNone
        then Some (SubscribeResponse_render (scrs_subscribeResponse r) (indent @ ''  '') False)
        else SubscribeError_render (scrs_subscribeError r) UpdateContextSubscription (indent @ ''  '') False)"

definition UnsubscribeContextResponse_render :: "string \<Rightarrow> StatusCode \<Rightarrow> string \<Rightarrow> string option" where
  "UnsubscribeContextResponse_render subscriptionId sc indent =
     map_option (\<lambda>(out, _). tagged indent ''unsubscribeContextResponse''
         (SubscriptionId_render subscriptionId RtUnsubscribeContextResponse (indent @ ''  '') True @ out))
       (StatusCode_render sc (indent @ ''  '') False True)"

subsection \<open>rest/restReply.cpp\<close>

definition tag_table :: "(string list \<times> string) list" where
  "tag_table = [
     ([''registerContext'', ''/ngsi9/registerContext'', ''/NGSI9/registerContext'', ''registerContextRequest'',
       ''/v1/registry/registerContext''], ''registerContextResponse''),
     ([''discoverContextAvailability'', ''/ngsi9/discoverContextAvailability'', ''/NGSI9/discoverContextAvailability'',
       ''discoverContextAvailabilityRequest'', ''/v1/registry/discoverContextAvailability''],
      ''discoverContextAvailabilityResponse''),
     ([''subscribeContextAvailability'', ''/ngsi9/subscribeContextAvailability'', ''/NGSI9/subscribeContextAvailability'',
       ''subscribeContextAvailabilityRequest'', ''/v1/registry/subscribeContextAvailability''],
      ''subscribeContextAvailabilityResponse''),
     ([''updateContextAvailabilitySubscription'', ''/ngsi9/updateContextAvailabilitySubscription'',
       ''/NGSI9/updateContextAvailabilitySubscription'', ''updateContextAvailabilitySubscriptionRequest'',
       ''/v1/registry/updateContextAvailabilitySubscription''], ''updateContextAvailabilitySubscriptionResponse''),
     ([''unsubscribeContextAvailability'', ''/ngsi9/unsubscribeContextAvailability'', ''/NGSI9/unsubscribeContextAvailability'',
       ''unsubscribeContextAvailabilityRequest'', ''/v1/registry/unsubscribeContextAvailability''],
      ''unsubscribeContextAvailabilityResponse''),
     ([''notifyContextAvailability'', ''/ngsi9/notifyContextAvailability'', ''/NGSI9/notifyContextAvailability'',
       ''notifyContextAvailabilityRequest'', ''/v1/registry/notifyContextAvailability''],
      ''notifyContextAvailabilityResponse''),
     ([''queryContext'', ''/ngsi10/queryContext'', ''/NGSI10/queryContext'', ''queryContextRequest'', ''/v1/queryContext''],
      ''queryContextResponse''),
     ([''subscribeContext'', ''/ngsi10/subscribeContext'', ''/NGSI10/subscribeContext'', ''subscribeContextRequest'',
       ''/v1/subscribeContext''], ''subscribeContextResponse''),
     ([''updateContextSubscription'', ''/ngsi10/updateContextSubscription'', ''/NGSI10/updateContextSubscription'',
       ''updateContextSubscriptionRequest'', ''/v1/updateContextSubscription''], ''updateContextSubscriptionResponse''),
     ([''unsubscribeContext'', ''/ngsi10/unsubscribeContext'', ''/NGSI10/unsubscribeContext'', ''unsubscribeContextRequest'',
       ''/v1/unsubscribeContext''], ''unsubscribeContextResponse''),
     ([''updateContext'', ''/ngsi10/updateContext'', ''/NGSI10/updateContext'', ''updateContextRequest'', ''/v1/updateContext''],
      ''updateContextResponse''),
     ([''notifyContext'', ''/ngsi10/notifyContext'', ''/NGSI10/notifyContext'', ''notifyContextRequest'', ''/v1/notifyContext''],
      ''notifyContextResponse''),
     ([''StatusCode''], ''StatusCode'')]"

definition tagGet :: "string \<Rightarrow> string" where
  "tagGet request =
     (case find (\<lambda>(requests, tag). request \<in> set requests) tag_table of None \<Rightarrow> ''UnknownTag'' | Some (_, tag) \<Rightarrow> tag)"

text \<open>The reply and the connection, whose status is first set to \<^const>\<open>SccOk\<close>.\<close>

definition restErrorReplyGet ::
    "ConnectionInfo \<Rightarrow> string \<Rightarrow> string \<Rightarrow> HttpStatusCode \<Rightarrow> string \<Rightarrow> (string \<times> ConnectionInfo) option" where
  "restErrorReplyGet ci indent request code details =
     (let tag = tagGet request;
          errorCode = StatusCode_of code details ''errorCode'';
          filled = StatusCode_fill_from (StatusCode_new ''statusCode'') errorCode;
          zeroes = ''000000000000000000000000'';
          ci = ci\<lparr>ci_httpStatusCode := SccOk\<rparr>;
          keep = map_option (\<lambda>reply. (reply, ci))
      in if tag = ''registerContextResponse''
         then keep (RegisterContextResponse_render (RegisterContextResponse_error zeroes errorCode) indent)
         else if tag = ''discoverContextAvailabilityResponse''
         then keep (DiscoverContextAvailabilityResponse_render (DiscoverContextAvailabilityResponse_error errorCode) indent)
         else if tag = ''subscribeContextAvailabilityResponse''
         then keep (SubscribeContextAvailabilityResponse_render (SubscribeContextAvailabilityResponse_error zeroes errorCode) indent)
         else if tag = ''updateContextAvailabilitySubscriptionResponse''
         then keep (UpdateContextAvailabilitySubscriptionResponse_render
                      (UpdateContextAvailabilitySubscriptionResponse_error errorCode) indent)
         else if tag = ''unsubscribeContextAvailabilityResponse''
         then keep (UnsubscribeContextAvailabilityResponse_render [] filled indent)
         else if tag = ''notifyContextAvailabilityResponse''
         then keep (NotifyContextAvailabilityResponse_render errorCode indent)
         else if tag = ''queryContextResponse''
         then keep (map_option fst (QueryContextResponse_render
                      \<lparr>qcrs_cerV = [], qcrs_errorCode = filled\<lparr>sc_keyName := ''errorCode''\<rparr>\<rparr> ci indent))
         else if tag = ''subscribeContextResponse''
         then keep (SubscribeContextResponse_render (SubscribeContextResponse_error errorCode) indent)
         else if tag = ''updateContextSubscriptionResponse''
         then keep (UpdateContextSubscriptionResponse_render (SubscribeContextResponse_error errorCode) indent)
         else if tag = ''unsubscribeContextResponse''
         then keep (UnsubscribeContextResponse_render zeroes filled indent)
         else if tag = ''updateContextResponse''
         then keep (map_option fst (UpdateContextResponse_render (UpdateContextResponse_error errorCode) ci indent))
         else if tag = ''notifyContextResponse''
         then keep (map_option fst (NotifyContextResponse_render filled indent))
         else if tag = ''StatusCode''
         then keep (map_option fst (StatusCode_render (StatusCode_of code details ''statusCode'') indent False True))
         else Some (OrionError_render (OrionError_status errorCode) ci indent))"

end
