(* ===== verification/Orion_Routes.thy ===== *)
theory Orion_Routes
  imports Orion_Status Orion_Url
begin

section \<open>The table of services: rest/RestService.h, the lookup of rest/RestService.cpp, the tables of
  app/contextBroker/contextBroker.cpp, and the headers of serviceRoutines/badVerb*.cpp\<close>

text \<open>
  A row of the table has a method, the components of a path, where a star stands for any component, and the routine
  that treats the request; a routine is given by its name. The rows are searched in order, and a row with the method
  star takes every method. The array of components of a row has ten elements; \<^const>\<open>None\<close> is a read past them.
\<close>

subsection \<open>Rows\<close>

record RestService =
  rs_verb :: string
  rs_request :: RequestType
  rs_components :: nat
  rs_compV :: "string list"
  rs_payloadWord :: string
  rs_treat :: string

text \<open>A row whose number of components is that of the initialiser; the elements without initialiser are empty.\<close>

definition service :: "string \<Rightarrow> RequestType \<Rightarrow> string list \<Rightarrow> string \<Rightarrow> string \<Rightarrow> RestService" where
  "service verb request comps payloadWord treat =
     \<lparr>rs_verb = verb, rs_request = request, rs_components = length comps,
      rs_compV = comps @ replicate (10 - length comps) [], rs_payloadWord = payloadWord, rs_treat = treat\<rparr>"

subsection \<open>The tables\<close>

definition API_V2 :: "RestService list" where
  "API_V2 = [
      service ''GET'' EntryPointsRequest [''v2''] [] ''entryPointsTreat'',
      service ''*'' EntryPointsRequest [''v2''] [] ''badVerbGetOnly'',
      service ''GET'' EntitiesRequest [''v2'', ''entities''] [] ''getEntities'',
      service ''POST'' EntitiesRequest [''v2'', ''entities''] [] ''postEntities'',
      service ''*'' EntitiesRequest [''v2'', ''entities''] [] ''badVerbGetPostOnly'',
      service ''GET'' EntityRequest [''v2'', ''entities'', ''*''] [] ''getEntity'',
      service ''DELETE'' EntityRequest [''v2'', ''entities'', ''*''] [] ''deleteEntity'',
      service ''*'' EntityRequest [''v2'', ''entities'', ''*''] [] ''badVerbGetDeleteOnly'',
      service ''GET'' EntityRequest [''v2'', ''entities'', ''*'', ''attrs''] [] ''getEntity'',
      service ''POST'' EntityRequest [''v2'', ''entities'', ''*'', ''attrs''] [] ''postEntity'',
      service ''PUT'' EntityRequest [''v2'', ''entities'', ''*'', ''attrs''] [] ''putEntity'',
      service ''PATCH'' EntityRequest [''v2'', ''entities'', ''*'', ''attrs''] [] ''patchEntity'',
      service ''*'' EntityRequest [''v2'', ''entities'', ''*'', ''attrs''] [] ''badVerbAllNotDelete'',
      service ''GET'' EntityAttributeValueRequest [''v2'', ''entities'', ''*'', ''attrs'', ''*'', ''value''] [] ''getEntityAttributeValue'',
      service ''PUT'' EntityAttributeValueRequest [''v2'', ''entities'', ''*'', ''attrs'', ''*'', ''value''] [] ''putEntityAttributeValue'',
      service ''*'' EntityAttributeValueRequest [''v2'', ''entities'', ''*'', ''attrs'', ''*'', ''value''] [] ''badVerbGetPutOnly'',
      service ''GET'' EntityAttributeRequest [''v2'', ''entities'', ''*'', ''attrs'', ''*''] [] ''getEntityAttribute'',
      service ''PUT'' EntityAttributeRequest [''v2'', ''entities'', ''*'', ''attrs'', ''*''] [] ''putEntityAttribute'',
      service ''DELETE'' EntityAttributeRequest [''v2'', ''entities'', ''*'', ''attrs'', ''*''] [] ''deleteEntity'',
      service ''*'' EntityAttributeRequest [''v2'', ''entities'', ''*'', ''attrs'', ''*''] [] ''badVerbGetPutDeleteOnly'',
      service ''GET'' EntityTypeRequest [''v2'', ''types'', ''*''] [] ''getEntityType'',
      service ''*'' EntityTypeRequest [''v2'', ''types'', ''*''] [] ''badVerbGetOnly'',
      service ''GET'' EntityAllTypesRequest [''v2'', ''types''] [] ''getEntityAllTypes'',
      service ''*'' EntityAllTypesRequest [''v2'', ''types''] [] ''badVerbGetOnly'',
      service ''GET'' SubscriptionsRequest [''v2'', ''subscriptions''] [] ''getAllSubscriptions'',
      service ''POST'' SubscriptionsRequest [''v2'', ''subscriptions''] [] ''postSubscriptions'',
      service ''*'' SubscriptionsRequest [''v2'', ''subscriptions''] [] ''badVerbGetPostOnly'',
      service ''GET'' IndividualSubscriptionRequest [''v2'', ''subscriptions'', ''*''] [] ''getSubscription'',
      service ''DELETE'' IndividualSubscriptionRequest [''v2'', ''subscriptions'', ''*''] [] ''deleteSubscription'',
      service ''PATCH'' IndividualSubscriptionRequest [''v2'', ''subscriptions'', ''*''] [] ''patchSubscription'',
      service ''*'' IndividualSubscriptionRequest [''v2'', ''subscriptions'', ''*''] [] ''badVerbGetDeletePatchOnly'',
      service ''POST'' BatchQueryRequest [''v2'', ''op'', ''query''] [] ''postBatchQuery'',
      service ''*'' BatchQueryRequest [''v2'', ''op'', ''query''] [] ''badVerbPostOnly'',
      service ''POST'' BatchUpdateRequest [''v2'', ''op'', ''update''] [] ''postBatchUpdate'',
      service ''*'' BatchUpdateRequest [''v2'', ''op'', ''update''] [] ''badVerbPostOnly'']"

definition REGISTRY_STANDARD_REQUESTS_V0 :: "RestService list" where
  "REGISTRY_STANDARD_REQUESTS_V0 = [
      service ''POST'' RegisterContext [''ngsi9'', ''registerContext''] ''registerContextRequest'' ''postRegisterContext'',
      service ''*'' RegisterContext [''ngsi9'', ''registerContext''] ''registerContextRequest'' ''badVerbPostOnly'',
      service ''POST'' DiscoverContextAvailability [''ngsi9'', ''discoverContextAvailability''] ''discoverContextAvailabilityRequest'' ''postDiscoverContextAvailability'',
      service ''*'' DiscoverContextAvailability [''ngsi9'', ''discoverContextAvailability''] ''discoverContextAvailabilityRequest'' ''badVerbPostOnly'',
      service ''POST'' SubscribeContextAvailability [''ngsi9'', ''subscribeContextAvailability''] ''subscribeContextAvailabilityRequest'' ''postSubscribeContextAvailability'',
      service ''*'' SubscribeContextAvailability [''ngsi9'', ''subscribeContextAvailability''] ''subscribeContextAvailabilityRequest'' ''badVerbPostOnly'',
      service ''POST'' UnsubscribeContextAvailability [''ngsi9'', ''unsubscribeContextAvailability''] ''unsubscribeContextAvailabilityRequest'' ''postUnsubscribeContextAvailability'',
      service ''*'' UnsubscribeContextAvailability [''ngsi9'', ''unsubscribeContextAvailability''] ''unsubscribeContextAvailabilityRequest'' ''badVerbPostOnly'',
      service ''POST'' UpdateContextAvailabilitySubscription [''ngsi9'', ''updateContextAvailabilitySubscription''] ''updateContextAvailabilitySubscriptionRequest'' ''postUpdateContextAvailabilitySubscription'',
      service ''*'' UpdateContextAvailabilitySubscription [''ngsi9'', ''updateContextAvailabilitySubscription''] ''updateContextAvailabilitySubscriptionRequest'' ''badVerbPostOnly'',
      service ''POST'' NotifyContextAvailability [''ngsi9'', ''notifyContextAvailability''] ''notifyContextAvailabilityRequest'' ''postNotifyContextAvailability'',
      service ''*'' NotifyContextAvailability [''ngsi9'', ''notifyContextAvailability''] ''notifyContextAvailabilityRequest'' ''badVerbPostOnly'']"

definition REGISTRY_STANDARD_REQUESTS_V1 :: "RestService list" where
  "REGISTRY_STANDARD_REQUESTS_V1 = [
      service ''POST'' RegisterContext [''v1'', ''registry'', ''registerContext''] ''registerContextRequest'' ''postRegisterContext'',
      service ''*'' RegisterContext [''v1'', ''registry'', ''registerContext''] ''registerContextRequest'' ''badVerbPostOnly'',
      service ''POST'' DiscoverContextAvailability [''v1'', ''registry'', ''discoverContextAvailability''] ''discoverContextAvailabilityRequest'' ''postDiscoverContextAvailability'',
      service ''*'' DiscoverContextAvailability [''v1'', ''registry'', ''discoverContextAvailability''] ''discoverContextAvailabilityRequest'' ''badVerbPostOnly'',
      service ''POST'' SubscribeContextAvailability [''v1'', ''registry'', ''subscribeContextAvailability''] ''subscribeContextAvailabilityRequest'' ''postSubscribeContextAvailability'',
      service ''*'' SubscribeContextAvailability [''v1'', ''registry'', ''subscribeContextAvailability''] ''subscribeContextAvailabilityRequest'' ''badVerbPostOnly'',
      service ''POST'' UnsubscribeContextAvailability [''v1'', ''registry'', ''unsubscribeContextAvailability''] ''unsubscribeContextAvailabilityRequest'' ''postUnsubscribeContextAvailability'',
      service ''*'' UnsubscribeContextAvailability [''v1'', ''registry'', ''unsubscribeContextAvailability''] ''unsubscribeContextAvailabilityRequest'' ''badVerbPostOnly'',
      service ''POST'' UpdateContextAvailabilitySubscription [''v1'', ''registry'', ''updateContextAvailabilitySubscription''] ''updateContextAvailabilitySubscriptionRequest'' ''postUpdateContextAvailabilitySubscription'',
      service ''*'' UpdateContextAvailabilitySubscription [''v1'', ''registry'', ''updateContextAvailabilitySubscription''] ''updateContextAvailabilitySubscriptionRequest'' ''badVerbPostOnly'',
      service ''POST'' NotifyContextAvailability [''v1'', ''registry'', ''notifyContextAvailability''] ''notifyContextAvailabilityRequest'' ''postNotifyContextAvailability'',
      service ''*'' NotifyContextAvailability [''v1'', ''registry'', ''notifyContextAvailability''] ''notifyContextAvailabilityRequest'' ''badVerbPostOnly'']"

definition STANDARD_REQUESTS_V0 :: "RestService list" where
  "STANDARD_REQUESTS_V0 = [
      service ''POST'' UpdateContext [''ngsi10'', ''updateContext''] ''updateContextRequest'' ''postUpdateContext'',
      service ''*'' UpdateContext [''ngsi10'', ''updateContext''] ''updateContextRequest'' ''badVerbPostOnly'',
      service ''POST'' QueryContext [''ngsi10'', ''queryContext''] ''queryContextRequest'' ''postQueryContext'',
      service ''*'' QueryContext [''ngsi10'', ''queryContext''] ''queryContextRequest'' ''badVerbPostOnly'',
      service ''POST'' SubscribeContext [''ngsi10'', ''subscribeContext''] ''subscribeContextRequest'' ''postSubscribeContext'',
      service ''*'' SubscribeContext [''ngsi10'', ''subscribeContext''] ''subscribeContextRequest'' ''badVerbPostOnly'',
      service ''POST'' UpdateContextSubscription [''ngsi10'', ''updateContextSubscription''] ''updateContextSubscriptionRequest'' ''postUpdateContextSubscription'',
      service ''*'' UpdateContextSubscription [''ngsi10'', ''updateContextSubscription''] ''updateContextSubscriptionRequest'' ''badVerbPostOnly'',
      service ''POST'' UnsubscribeContext [''ngsi10'', ''unsubscribeContext''] ''unsubscribeContextRequest'' ''postUnsubscribeContext'',
      service ''*'' UnsubscribeContext [''ngsi10'', ''unsubscribeContext''] ''unsubscribeContextRequest'' ''badVerbPostOnly'',
      service ''POST'' NotifyContext [''ngsi10'', ''notifyContext''] ''notifyContextRequest'' ''postNotifyContext'',
      service ''*'' NotifyContext [''ngsi10'', ''notifyContext''] ''notifyContextRequest'' ''badVerbPostOnly'']"

definition STANDARD_REQUESTS_V1 :: "RestService list" where
  "STANDARD_REQUESTS_V1 = [
      service ''POST'' UpdateContext [''v1'', ''updateContext''] ''updateContextRequest'' ''postUpdateContext'',
      service ''*'' UpdateContext [''v1'', ''updateContext''] ''updateContextRequest'' ''badVerbPostOnly'',
      service ''POST'' QueryContext [''v1'', ''queryContext''] ''queryContextRequest'' ''postQueryContext'',
      service ''*'' QueryContext [''v1'', ''queryContext''] ''queryContextRequest'' ''badVerbPostOnly'',
      service ''POST'' SubscribeContext [''v1'', ''subscribeContext''] ''subscribeContextRequest'' ''postSubscribeContext'',
      service ''*'' SubscribeContext [''v1'', ''subscribeContext''] ''subscribeContextRequest'' ''badVerbPostOnly'',
      service ''POST'' UpdateContextSubscription [''v1'', ''updateContextSubscription''] ''updateContextSubscriptionRequest'' ''postUpdateContextSubscription'',
      service ''*'' UpdateContextSubscription [''v1'', ''updateContextSubscription''] ''updateContextSubscriptionRequest'' ''badVerbPostOnly'',
      service ''POST'' UnsubscribeContext [''v1'', ''unsubscribeContext''] ''unsubscribeContextRequest'' ''postUnsubscribeContext'',
      service ''*'' UnsubscribeContext [''v1'', ''unsubscribeContext''] ''unsubscribeContextRequest'' ''badVerbPostOnly'',
      service ''POST'' NotifyContext [''v1'', ''notifyContext''] ''notifyContextRequest'' ''postNotifyContext'',
      service ''*'' NotifyContext [''v1'', ''notifyContext''] ''notifyContextRequest'' ''badVerbPostOnly'']"

definition REGISTRY_CONVENIENCE_OPERATIONS_V0 :: "RestService list" where
  "REGISTRY_CONVENIENCE_OPERATIONS_V0 = [
      service ''GET'' ContextEntitiesByEntityId [''ngsi9'', ''contextEntities'', ''*''] [] ''getContextEntitiesByEntityId'',
      service ''POST'' ContextEntitiesByEntityId [''ngsi9'', ''contextEntities'', ''*''] ''registerProviderRequest'' ''postContextEntitiesByEntityId'',
      service ''*'' ContextEntitiesByEntityId [''ngsi9'', ''contextEntities'', ''*''] [] ''badVerbGetPostOnly'',
      service ''GET'' ContextEntityAttributes [''ngsi9'', ''contextEntities'', ''*'', ''attributes''] [] ''getContextEntityAttributes'',
      service ''POST'' ContextEntityAttributes [''ngsi9'', ''contextEntities'', ''*'', ''attributes''] ''registerProviderRequest'' ''postContextEntityAttributes'',
      service ''*'' ContextEntityAttributes [''ngsi9'', ''contextEntities'', ''*'', ''attributes''] [] ''badVerbGetPostOnly'',
      service ''GET'' EntityByIdAttributeByName [''ngsi9'', ''contextEntities'', ''*'', ''attributes'', ''*''] [] ''getEntityByIdAttributeByName'',
      service ''POST'' EntityByIdAttributeByName [''ngsi9'', ''contextEntities'', ''*'', ''attributes'', ''*''] ''registerProviderRequest'' ''postEntityByIdAttributeByName'',
      service ''*'' EntityByIdAttributeByName [''ngsi9'', ''contextEntities'', ''*'', ''attributes'', ''*''] [] ''badVerbGetPostOnly'',
      service ''GET'' ContextEntityTypes [''ngsi9'', ''contextEntityTypes'', ''*''] [] ''getContextEntityTypes'',
      service ''POST'' ContextEntityTypes [''ngsi9'', ''contextEntityTypes'', ''*''] ''registerProviderRequest'' ''postContextEntityTypes'',
      service ''*'' ContextEntityTypes [''ngsi9'', ''contextEntityTypes'', ''*''] [] ''badVerbGetPostOnly'',
      service ''GET'' ContextEntityTypeAttributeContainer [''ngsi9'', ''contextEntityTypes'', ''*'', ''attributes''] [] ''getContextEntityTypes'',
      service ''POST'' ContextEntityTypeAttributeContainer [''ngsi9'', ''contextEntityTypes'', ''*'', ''attributes''] ''registerProviderRequest'' ''postContextEntityTypes'',
      service ''*'' ContextEntityTypeAttributeContainer [''ngsi9'', ''contextEntityTypes'', ''*'', ''attributes''] [] ''badVerbGetPostOnly'',
      service ''GET'' ContextEntityTypeAttribute [''ngsi9'', ''contextEntityTypes'', ''*'', ''attributes'', ''*''] [] ''getContextEntityTypeAttribute'',
      service ''POST'' ContextEntityTypeAttribute [''ngsi9'', ''contextEntityTypes'', ''*'', ''attributes'', ''*''] ''registerProviderRequest'' ''postContextEntityTypeAttribute'',
      service ''*'' ContextEntityTypeAttribute [''ngsi9'', ''contextEntityTypes'', ''*'', ''attributes'', ''*''] [] ''badVerbGetPostOnly'',
      service ''POST'' SubscribeContextAvailability [''ngsi9'', ''contextAvailabilitySubscriptions''] ''subscribeContextAvailabilityRequest'' ''postSubscribeContextAvailabilityConvOp'',
      service ''*'' SubscribeContextAvailability [''ngsi9'', ''contextAvailabilitySubscriptions''] [] ''badVerbPostOnly'',
      service ''PUT'' Ngsi9SubscriptionsConvOp [''ngsi9'', ''contextAvailabilitySubscriptions'', ''*''] ''updateContextAvailabilitySubscriptionRequest'' ''putAvailabilitySubscriptionConvOp'',
      service ''DELETE'' Ngsi9SubscriptionsConvOp [''ngsi9'', ''contextAvailabilitySubscriptions'', ''*''] [] ''deleteAvailabilitySubscriptionConvOp'',
      service ''*'' Ngsi9SubscriptionsConvOp [''ngsi9'', ''contextAvailabilitySubscriptions'', ''*''] [] ''badVerbPutDeleteOnly'']"

definition REGISTRY_CONVENIENCE_OPERATIONS_V1 :: "RestService list" where
  "REGISTRY_CONVENIENCE_OPERATIONS_V1 = [
      service ''GET'' ContextEntitiesByEntityId [''v1'', ''registry'', ''contextEntities'', ''*''] [] ''getContextEntitiesByEntityId'',
      service ''POST'' ContextEntitiesByEntityId [''v1'', ''registry'', ''contextEntities'', ''*''] ''registerProviderRequest'' ''postContextEntitiesByEntityId'',
      service ''*'' ContextEntitiesByEntityId [''v1'', ''registry'', ''contextEntities'', ''*''] [] ''badVerbGetPostOnly'',
      service ''GET'' ContextEntityAttributes [''v1'', ''registry'', ''contextEntities'', ''*'', ''attributes''] [] ''getContextEntityAttributes'',
      service ''POST'' ContextEntityAttributes [''v1'', ''registry'', ''contextEntities'', ''*'', ''attributes''] ''registerProviderRequest'' ''postContextEntityAttributes'',
      service ''*'' ContextEntityAttributes [''v1'', ''registry'', ''contextEntities'', ''*'', ''attributes''] [] ''badVerbGetPostOnly'',
      service ''GET'' EntityByIdAttributeByName [''v1'', ''registry'', ''contextEntities'', ''*'', ''attributes'', ''*''] [] ''getEntityByIdAttributeByName'',
      service ''POST'' EntityByIdAttributeByName [''v1'', ''registry'', ''contextEntities'', ''*'', ''attributes'', ''*''] ''registerProviderRequest'' ''postEntityByIdAttributeByName'',
      service ''*'' EntityByIdAttributeByName [''v1'', ''registry'', ''contextEntities'', ''*'', ''attributes'', ''*''] [] ''badVerbGetPostOnly'',
      service ''GET'' ContextEntityTypes [''v1'', ''registry'', ''contextEntityTypes'', ''*''] [] ''getContextEntityTypes'',
      service ''POST'' ContextEntityTypes [''v1'', ''registry'', ''contextEntityTypes'', ''*''] ''registerProviderRequest'' ''postContextEntityTypes'',
      service ''*'' ContextEntityTypes [''v1'', ''registry'', ''contextEntityTypes'', ''*''] [] ''badVerbGetPostOnly'',
      service ''GET'' ContextEntityTypeAttributeContainer [''v1'', ''registry'', ''contextEntityTypes'', ''*'', ''attributes''] [] ''getContextEntityTypes'',
      service ''POST'' ContextEntityTypeAttributeContainer [''v1'', ''registry'', ''contextEntityTypes'', ''*'', ''attributes''] ''registerProviderRequest'' ''postContextEntityTypes'',
      service ''*'' ContextEntityTypeAttributeContainer [''v1'', ''registry'', ''contextEntityTypes'', ''*'', ''attributes''] [] ''badVerbGetPostOnly'',
      service ''GET'' ContextEntityTypeAttribute [''v1'', ''registry'', ''contextEntityTypes'', ''*'', ''attributes'', ''*''] [] ''getContextEntityTypeAttribute'',
      service ''POST'' ContextEntityTypeAttribute [''v1'', ''registry'', ''contextEntityTypes'', ''*'', ''attributes'', ''*''] ''registerProviderRequest'' ''postContextEntityTypeAttribute'',
      service ''*'' ContextEntityTypeAttribute [''v1'', ''registry'', ''contextEntityTypes'', ''*'', ''attributes'', ''*''] [] ''badVerbGetPostOnly'',
      service ''POST'' SubscribeContextAvailability [''v1'', ''registry'', ''contextAvailabilitySubscriptions''] ''subscribeContextAvailabilityRequest'' ''postSubscribeContextAvailability'',
      service ''*'' SubscribeContextAvailability [''v1'', ''registry'', ''contextAvailabilitySubscriptions''] [] ''badVerbPostOnly'',
      service ''PUT'' Ngsi9SubscriptionsConvOp [''v1'', ''registry'', ''contextAvailabilitySubscriptions'', ''*''] ''updateContextAvailabilitySubscriptionRequest'' ''putAvailabilitySubscriptionConvOp'',
      service ''DELETE'' Ngsi9SubscriptionsConvOp [''v1'', ''registry'', ''contextAvailabilitySubscriptions'', ''*''] [] ''deleteAvailabilitySubscriptionConvOp'',
      service ''*'' Ngsi9SubscriptionsConvOp [''v1'', ''registry'', ''contextAvailabilitySubscriptions'', ''*''] [] ''badVerbPutDeleteOnly'']"

definition CONVENIENCE_OPERATIONS_V0 :: "RestService list" where
  "CONVENIENCE_OPERATIONS_V0 = [
      service ''GET'' IndividualContextEntity [''ngsi10'', ''contextEntities'', ''*''] [] ''getIndividualContextEntity'',
      service ''PUT'' IndividualContextEntity [''ngsi10'', ''contextEntities'', ''*''] ''updateContextElementRequest'' ''putIndividualContextEntity'',
      service ''POST'' IndividualContextEntity [''ngsi10'', ''contextEntities'', ''*''] ''appendContextElementRequest'' ''postIndividualContextEntity'',
      service ''DELETE'' IndividualContextEntity [''ngsi10'', ''contextEntities'', ''*''] [] ''deleteIndividualContextEntity'',
      service ''*'' IndividualContextEntity [''ngsi10'', ''contextEntities'', ''*''] [] ''badVerbAllFour'',
      service ''GET'' IndividualContextEntityAttributes [''ngsi10'', ''contextEntities'', ''*'', ''attributes''] [] ''getIndividualContextEntity'',
      service ''PUT'' IndividualContextEntityAttributes [''ngsi10'', ''contextEntities'', ''*'', ''attributes''] ''updateContextElementRequest'' ''putIndividualContextEntity'',
      service ''POST'' IndividualContextEntityAttributes [''ngsi10'', ''contextEntities'', ''*'', ''attributes''] ''appendContextElementRequest'' ''postIndividualContextEntity'',
      service ''DELETE'' IndividualContextEntityAttributes [''ngsi10'', ''contextEntities'', ''*'', ''attributes''] [] ''deleteIndividualContextEntity'',
      service ''*'' IndividualContextEntityAttributes [''ngsi10'', ''contextEntities'', ''*'', ''attributes''] [] ''badVerbAllFour'',
      service ''GET'' IndividualContextEntityAttribute [''ngsi10'', ''contextEntities'', ''*'', ''attributes'', ''*''] [] ''getIndividualContextEntityAttribute'',
      service ''PUT'' IndividualContextEntityAttribute [''ngsi10'', ''contextEntities'', ''*'', ''attributes'', ''*''] ''updateContextAttributeRequest'' ''putIndividualContextEntityAttribute'',
      service ''POST'' IndividualContextEntityAttribute [''ngsi10'', ''contextEntities'', ''*'', ''attributes'', ''*''] ''updateContextAttributeRequest'' ''postIndividualContextEntityAttribute'',
      service ''DELETE'' IndividualContextEntityAttribute [''ngsi10'', ''contextEntities'', ''*'', ''attributes'', ''*''] [] ''deleteIndividualContextEntityAttribute'',
      service ''*'' IndividualContextEntityAttribute [''ngsi10'', ''contextEntities'', ''*'', ''attributes'', ''*''] [] ''badVerbAllFour'',
      service ''GET'' AttributeValueInstance [''ngsi10'', ''contextEntities'', ''*'', ''attributes'', ''*'', ''*''] [] ''getAttributeValueInstance'',
      service ''PUT'' AttributeValueInstance [''ngsi10'', ''contextEntities'', ''*'', ''attributes'', ''*'', ''*''] ''updateContextAttributeRequest'' ''putAttributeValueInstance'',
      service ''DELETE'' AttributeValueInstance [''ngsi10'', ''contextEntities'', ''*'', ''attributes'', ''*'', ''*''] [] ''deleteAttributeValueInstance'',
      service ''*'' AttributeValueInstance [''ngsi10'', ''contextEntities'', ''*'', ''attributes'', ''*'', ''*''] [] ''badVerbGetPutDeleteOnly'',
      service ''GET'' Ngsi10ContextEntityTypes [''ngsi10'', ''contextEntityTypes'', ''*''] [] ''getNgsi10ContextEntityTypes'',
      service ''*'' Ngsi10ContextEntityTypes [''ngsi10'', ''contextEntityTypes'', ''*''] [] ''badVerbGetOnly'',
      service ''GET'' Ngsi10ContextEntityTypesAttributeContainer [''ngsi10'', ''contextEntityTypes'', ''*'', ''attributes''] [] ''getNgsi10ContextEntityTypes'',
      service ''*'' Ngsi10ContextEntityTypesAttributeContainer [''ngsi10'', ''contextEntityTypes'', ''*'', ''attributes''] [] ''badVerbGetOnly'',
      service ''GET'' Ngsi10ContextEntityTypesAttribute [''ngsi10'', ''contextEntityTypes'', ''*'', ''attributes'', ''*''] [] ''getNgsi10ContextEntityTypesAttribute'',
      service ''*'' Ngsi10ContextEntityTypesAttribute [''ngsi10'', ''contextEntityTypes'', ''*'', ''attributes'', ''*''] [] ''badVerbGetOnly'',
      service ''POST'' SubscribeContext [''ngsi10'', ''contextSubscriptions''] ''subscribeContextRequest'' ''postSubscribeContextConvOp'',
      service ''*'' SubscribeContext [''ngsi10'', ''contextSubscriptions''] [] ''badVerbPostOnly'',
      service ''PUT'' Ngsi10SubscriptionsConvOp [''ngsi10'', ''contextSubscriptions'', ''*''] ''updateContextSubscriptionRequest'' ''putSubscriptionConvOp'',
      service ''DELETE'' Ngsi10SubscriptionsConvOp [''ngsi10'', ''contextSubscriptions'', ''*''] [] ''deleteSubscriptionConvOp'',
      service ''*'' Ngsi10SubscriptionsConvOp [''ngsi10'', ''contextSubscriptions'', ''*''] [] ''badVerbPutDeleteOnly'']"

definition CONVENIENCE_OPERATIONS_V1 :: "RestService list" where
  "CONVENIENCE_OPERATIONS_V1 = [
      service ''GET'' IndividualContextEntity [''v1'', ''contextEntities'', ''*''] [] ''getIndividualContextEntity'',
      service ''PUT'' IndividualContextEntity [''v1'', ''contextEntities'', ''*''] ''updateContextElementRequest'' ''putIndividualContextEntity'',
      service ''POST'' IndividualContextEntity [''v1'', ''contextEntities'', ''*''] ''appendContextElementRequest'' ''postIndividualContextEntity'',
      service ''DELETE'' IndividualContextEntity [''v1'', ''contextEntities'', ''*''] [] ''deleteIndividualContextEntity'',
      service ''*'' IndividualContextEntity [''v1'', ''contextEntities'', ''*''] [] ''badVerbAllFour'',
      service ''GET'' IndividualContextEntityAttributes [''v1'', ''contextEntities'', ''*'', ''attributes''] [] ''getIndividualContextEntity'',
      service ''PUT'' IndividualContextEntityAttributes [''v1'', ''contextEntities'', ''*'', ''attributes''] ''updateContextElementRequest'' ''putIndividualContextEntity'',
      service ''POST'' IndividualContextEntityAttributes [''v1'', ''contextEntities'', ''*'', ''attributes''] ''appendContextElementRequest'' ''postIndividualContextEntity'',
      service ''DELETE'' IndividualContextEntityAttributes [''v1'', ''contextEntities'', ''*'', ''attributes''] [] ''deleteIndividualContextEntity'',
      service ''*'' IndividualContextEntityAttributes [''v1'', ''contextEntities'', ''*'', ''attributes''] [] ''badVerbAllFour'',
      service ''GET'' IndividualContextEntityAttribute [''v1'', ''contextEntities'', ''*'', ''attributes'', ''*''] [] ''getIndividualContextEntityAttribute'',
      service ''PUT'' IndividualContextEntityAttribute [''v1'', ''contextEntities'', ''*'', ''attributes'', ''*''] ''updateContextAttributeRequest'' ''putIndividualContextEntityAttribute'',
      service ''POST'' IndividualContextEntityAttribute [''v1'', ''contextEntities'', ''*'', ''attributes'', ''*''] ''updateContextAttributeRequest'' ''postIndividualContextEntityAttribute'',
      service ''DELETE'' IndividualContextEntityAttribute [''v1'', ''contextEntities'', ''*'', ''attributes'', ''*''] [] ''deleteIndividualContextEntityAttribute'',
      service ''*'' IndividualContextEntityAttribute [''v1'', ''contextEntities'', ''*'', ''attributes'', ''*''] [] ''badVerbAllFour'',
      service ''GET'' AttributeValueInstance [''v1'', ''contextEntities'', ''*'', ''attributes'', ''*'', ''*''] [] ''getAttributeValueInstance'',
      service ''PUT'' AttributeValueInstance [''v1'', ''contextEntities'', ''*'', ''attributes'', ''*'', ''*''] ''updateContextAttributeRequest'' ''putAttributeValueInstance'',
      service ''DELETE'' AttributeValueInstance [''v1'', ''contextEntities'', ''*'', ''attributes'', ''*'', ''*''] [] ''deleteAttributeValueInstance'',
      service ''*'' AttributeValueInstance [''v1'', ''contextEntities'', ''*'', ''attributes'', ''*'', ''*''] [] ''badVerbGetPutDeleteOnly'',
      service ''GET'' Ngsi10ContextEntityTypes [''v1'', ''contextEntityTypes'', ''*''] [] ''getNgsi10ContextEntityTypes'',
      service ''*'' Ngsi10ContextEntityTypes [''v1'', ''contextEntityTypes'', ''*''] [] ''badVerbGetOnly'',
      service ''GET'' Ngsi10ContextEntityTypesAttributeContainer [''v1'', ''contextEntityTypes'', ''*'', ''attributes''] [] ''getNgsi10ContextEntityTypes'',
      service ''*'' Ngsi10ContextEntityTypesAttributeContainer [''v1'', ''contextEntityTypes'', ''*'', ''attributes''] [] ''badVerbGetOnly'',
      service ''GET'' Ngsi10ContextEntityTypesAttribute [''v1'', ''contextEntityTypes'', ''*'', ''attributes'', ''*''] [] ''getNgsi10ContextEntityTypesAttribute'',
      service ''*'' Ngsi10ContextEntityTypesAttribute [''v1'', ''contextEntityTypes'', ''*'', ''attributes'', ''*''] [] ''badVerbGetOnly'',
      service ''POST'' SubscribeContext [''v1'', ''contextSubscriptions''] ''subscribeContextRequest'' ''postSubscribeContextConvOp'',
      service ''*'' SubscribeContext [''v1'', ''contextSubscriptions''] [] ''badVerbPostOnly'',
      service ''PUT'' Ngsi10SubscriptionsConvOp [''v1'', ''contextSubscriptions'', ''*''] ''updateContextSubscriptionRequest'' ''putSubscriptionConvOp'',
      service ''DELETE'' Ngsi10SubscriptionsConvOp [''v1'', ''contextSubscriptions'', ''*''] [] ''deleteSubscriptionConvOp'',
      service ''*'' Ngsi10SubscriptionsConvOp [''v1'', ''contextSubscriptions'', ''*''] [] ''badVerbPutDeleteOnly'',
      service ''GET'' EntityTypes [''v1'', ''contextTypes''] [] ''getEntityTypes'',
      service ''*'' EntityTypes [''v1'', ''contextTypes''] [] ''badVerbGetOnly'',
      service ''GET'' AttributesForEntityType [''v1'', ''contextTypes'', ''*''] [] ''getAttributesForEntityType'',
      service ''*'' AttributesForEntityType [''v1'', ''contextTypes'', ''*''] [] ''badVerbGetOnly'',
      service ''GET'' AllContextEntities [''v1'', ''contextEntities''] [] ''getAllContextEntities'',
      service ''POST'' AllContextEntities [''v1'', ''contextEntities''] ''appendContextElementRequest'' ''postIndividualContextEntity'',
      service ''*'' AllContextEntities [''v1'', ''contextEntities''] [] ''badVerbGetPostOnly'',
      service ''GET'' AllEntitiesWithTypeAndId [''v1'', ''contextEntities'', ''type'', ''*'', ''id'', ''*''] [] ''getAllEntitiesWithTypeAndId'',
      service ''POST'' AllEntitiesWithTypeAndId [''v1'', ''contextEntities'', ''type'', ''*'', ''id'', ''*''] ''appendContextElementRequest'' ''postAllEntitiesWithTypeAndId'',
      service ''PUT'' AllEntitiesWithTypeAndId [''v1'', ''contextEntities'', ''type'', ''*'', ''id'', ''*''] ''updateContextElementRequest'' ''putAllEntitiesWithTypeAndId'',
      service ''DELETE'' AllEntitiesWithTypeAndId [''v1'', ''contextEntities'', ''type'', ''*'', ''id'', ''*''] [] ''deleteAllEntitiesWithTypeAndId'',
      service ''*'' AllEntitiesWithTypeAndId [''v1'', ''contextEntities'', ''type'', ''*'', ''id'', ''*''] [] ''badVerbAllFour'',
      service ''GET'' IndividualContextEntityAttributeWithTypeAndId [''v1'', ''contextEntities'', ''type'', ''*'', ''id'', ''*'', ''attributes'', ''*''] [] ''getIndividualContextEntityAttributeWithTypeAndId'',
      service ''POST'' IndividualContextEntityAttributeWithTypeAndId [''v1'', ''contextEntities'', ''type'', ''*'', ''id'', ''*'', ''attributes'', ''*''] ''updateContextAttributeRequest'' ''postIndividualContextEntityAttributeWithTypeAndId'',
      service ''PUT'' IndividualContextEntityAttributeWithTypeAndId [''v1'', ''contextEntities'', ''type'', ''*'', ''id'', ''*'', ''attributes'', ''*''] ''updateContextAttributeRequest'' ''putIndividualContextEntityAttributeWithTypeAndId'',
      service ''DELETE'' IndividualContextEntityAttributeWithTypeAndId [''v1'', ''contextEntities'', ''type'', ''*'', ''id'', ''*'', ''attributes'', ''*''] [] ''deleteIndividualContextEntityAttributeWithTypeAndId'',
      service ''*'' IndividualContextEntityAttributeWithTypeAndId [''v1'', ''contextEntities'', ''type'', ''*'', ''id'', ''*'', ''attributes'', ''*''] [] ''badVerbAllFour'',
      service ''GET'' AttributeValueInstanceWithTypeAndId [''v1'', ''contextEntities'', ''type'', ''*'', ''id'', ''*'', ''attributes'', ''*'', ''*''] [] ''getAttributeValueInstanceWithTypeAndId'',
      service ''POST'' AttributeValueInstanceWithTypeAndId [''v1'', ''contextEntities'', ''type'', ''*'', ''id'', ''*'', ''attributes'', ''*'', ''*''] ''updateContextAttributeRequest'' ''postAttributeValueInstanceWithTypeAndId'',
      service ''PUT'' AttributeValueInstanceWithTypeAndId [''v1'', ''contextEntities'', ''type'', ''*'', ''id'', ''*'', ''attributes'', ''*'', ''*''] ''updateContextAttributeRequest'' ''putAttributeValueInstanceWithTypeAndId'',
      service ''DELETE'' AttributeValueInstanceWithTypeAndId [''v1'', ''contextEntities'', ''type'', ''*'', ''id'', ''*'', ''attributes'', ''*'', ''*''] [] ''deleteAttributeValueInstanceWithTypeAndId'',
      service ''*'' AttributeValueInstanceWithTypeAndId [''v1'', ''contextEntities'', ''type'', ''*'', ''id'', ''*'', ''attributes'', ''*'', ''*''] [] ''badVerbAllFour'',
      service ''GET'' ContextEntitiesByEntityIdAndType [''v1'', ''registry'', ''contextEntities'', ''type'', ''*'', ''id'', ''*''] [] ''getContextEntitiesByEntityIdAndType'',
      service ''POST'' ContextEntitiesByEntityIdAndType [''v1'', ''registry'', ''contextEntities'', ''type'', ''*'', ''id'', ''*''] ''registerProviderRequest'' ''postContextEntitiesByEntityIdAndType'',
      service ''*'' ContextEntitiesByEntityIdAndType [''v1'', ''registry'', ''contextEntities'', ''type'', ''*'', ''id'', ''*''] [] ''badVerbGetPostOnly'',
      service ''GET'' EntityByIdAttributeByNameIdAndType [''v1'', ''registry'', ''contextEntities'', ''type'', ''*'', ''id'', ''*'', ''attributes'', ''*''] [] ''getEntityByIdAttributeByNameWithTypeAndId'',
      service ''POST'' EntityByIdAttributeByNameIdAndType [''v1'', ''registry'', ''contextEntities'', ''type'', ''*'', ''id'', ''*'', ''attributes'', ''*''] ''registerProviderRequest'' ''postEntityByIdAttributeByNameWithTypeAndId'',
      service ''*'' EntityByIdAttributeByNameIdAndType [''v1'', ''registry'', ''contextEntities'', ''type'', ''*'', ''id'', ''*'', ''attributes'', ''*''] [] ''badVerbGetPostOnly'']"

definition LOG_REQUESTS_V0 :: "RestService list" where
  "LOG_REQUESTS_V0 = [
      service ''GET'' LogTraceRequest [''log'', ''trace''] [] ''logTraceTreat'',
      service ''DELETE'' LogTraceRequest [''log'', ''trace''] [] ''logTraceTreat'',
      service ''*'' LogTraceRequest [''log'', ''trace''] [] ''badVerbGetDeleteOnly'',
      service ''PUT'' LogTraceRequest [''log'', ''trace'', ''*''] [] ''logTraceTreat'',
      service ''DELETE'' LogTraceRequest [''log'', ''trace'', ''*''] [] ''logTraceTreat'',
      service ''*'' LogTraceRequest [''log'', ''trace'', ''*''] [] ''badVerbPutDeleteOnly'',
      service ''GET'' LogTraceRequest [''log'', ''traceLevel''] [] ''logTraceTreat'',
      service ''DELETE'' LogTraceRequest [''log'', ''traceLevel''] [] ''logTraceTreat'',
      service ''*'' LogTraceRequest [''log'', ''traceLevel''] [] ''badVerbGetDeleteOnly'',
      service ''PUT'' LogTraceRequest [''log'', ''traceLevel'', ''*''] [] ''logTraceTreat'',
      service ''DELETE'' LogTraceRequest [''log'', ''traceLevel'', ''*''] [] ''logTraceTreat'',
      service ''*'' LogTraceRequest [''log'', ''traceLevel'', ''*''] [] ''badVerbPutDeleteOnly'']"

definition LOG_REQUESTS_V1 :: "RestService list" where
  "LOG_REQUESTS_V1 = [
      service ''GET'' LogTraceRequest [''v1'', ''admin'', ''log'', ''trace''] [] ''logTraceTreat'',
      service ''DELETE'' LogTraceRequest [''v1'', ''admin'', ''log'', ''trace''] [] ''logTraceTreat'',
      service ''*'' LogTraceRequest [''v1'', ''admin'', ''log'', ''trace''] [] ''badVerbGetDeleteOnly'',
      service ''PUT'' LogTraceRequest [''v1'', ''admin'', ''log'', ''trace'', ''*''] [] ''logTraceTreat'',
      service ''DELETE'' LogTraceRequest [''v1'', ''admin'', ''log'', ''trace'', ''*''] [] ''logTraceTreat'',
      service ''*'' LogTraceRequest [''v1'', ''admin'', ''log'', ''trace'', ''*''] [] ''badVerbPutDeleteOnly'',
      service ''GET'' LogTraceRequest [''v1'', ''admin'', ''log'', ''traceLevel''] [] ''logTraceTreat'',
      service ''DELETE'' LogTraceRequest [''v1'', ''admin'', ''log'', ''traceLevel''] [] ''logTraceTreat'',
      service ''*'' LogTraceRequest [''v1'', ''admin'', ''log'', ''traceLevel''] [] ''badVerbGetDeleteOnly'',
      service ''PUT'' LogTraceRequest [''v1'', ''admin'', ''log'', ''traceLevel'', ''*''] [] ''logTraceTreat'',
      service ''DELETE'' LogTraceRequest [''v1'', ''admin'', ''log'', ''traceLevel'', ''*''] [] ''logTraceTreat'',
      service ''*'' LogTraceRequest [''v1'', ''admin'', ''log'', ''traceLevel'', ''*''] [] ''badVerbPutDeleteOnly'']"

definition STAT_REQUESTS_V0 :: "RestService list" where
  "STAT_REQUESTS_V0 = [
      service ''GET'' StatisticsRequest [''statistics''] [] ''statisticsTreat'',
      service ''DELETE'' StatisticsRequest [''statistics''] [] ''statisticsTreat'',
      service ''*'' StatisticsRequest [''statistics''] [] ''badVerbGetDeleteOnly'']"

definition STAT_REQUESTS_V1 :: "RestService list" where
  "STAT_REQUESTS_V1 = [
      service ''GET'' StatisticsRequest [''v1'', ''admin'', ''statistics''] [] ''statisticsTreat'',
      service ''DELETE'' StatisticsRequest [''v1'', ''admin'', ''statistics''] [] ''statisticsTreat'',
      service ''*'' StatisticsRequest [''v1'', ''admin'', ''statistics''] [] ''badVerbGetDeleteOnly'']"

definition STAT_CACHE_REQUESTS_V0 :: "RestService list" where
  "STAT_CACHE_REQUESTS_V0 = [
      service ''GET'' StatisticsRequest [''cache'', ''statistics''] [] ''statisticsCacheTreat'',
      service ''DELETE'' StatisticsRequest [''cache'', ''statistics''] [] ''statisticsCacheTreat'',
      service ''*'' StatisticsRequest [''cache'', ''statistics''] [] ''badVerbGetDeleteOnly'']"

definition STAT_CACHE_REQUESTS_V1 :: "RestService list" where
  "STAT_CACHE_REQUESTS_V1 = [
      service ''GET'' StatisticsRequest [''v1'', ''admin'', ''cache'', ''statistics''] [] ''statisticsCacheTreat'',
      service ''DELETE'' StatisticsRequest [''v1'', ''admin'', ''cache'', ''statistics''] [] ''statisticsCacheTreat'',
      service ''*'' StatisticsRequest [''v1'', ''admin'', ''cache'', ''statistics''] [] ''badVerbGetDeleteOnly'']"

definition VERSION_REQUESTS :: "RestService list" where
  "VERSION_REQUESTS = [
      service ''GET'' VersionRequest [''version''] [] ''versionTreat'',
      service ''*'' VersionRequest [''version''] [] ''badVerbGetOnly'']"

definition LOGLEVEL_REQUESTS_V2 :: "RestService list" where
  "LOGLEVEL_REQUESTS_V2 = [
      service ''PUT'' LogLevelRequest [''admin'', ''log''] [] ''logLevelTreat'',
      service ''*'' LogLevelRequest [''admin'', ''log''] [] ''badVerbPutOnly'']"

definition EXIT_REQUESTS :: "RestService list" where
  "EXIT_REQUESTS = [
      service ''GET'' ExitRequest [''exit'', ''*''] [] ''exitTreat'',
      service ''GET'' ExitRequest [''exit''] [] ''exitTreat'']"

definition LEAK_REQUESTS :: "RestService list" where
  "LEAK_REQUESTS = [
      service ''GET'' LeakRequest [''leak'', ''*''] [] ''leakTreat'',
      service ''GET'' LeakRequest [''leak''] [] ''leakTreat'']"

definition INVALID_REQUESTS :: "RestService list" where
  "INVALID_REQUESTS = [
      service ''*'' InvalidRequest [''ngsi9'', ''*''] [] ''badNgsi9Request'',
      service ''*'' InvalidRequest [''ngsi10'', ''*''] [] ''badNgsi10Request'',
      (service ''*'' InvalidRequest [''*'', ''*'', ''*'', ''*'', ''*'', ''*''] [] ''badRequest'')\<lparr>rs_components := 0\<rparr>]"

text \<open>The table of the broker; the rows for \<^verbatim>\<open>exit\<close> and \<^verbatim>\<open>leak\<close> are in the builds with \<^verbatim>\<open>DEBUG\<close>.\<close>

definition restServiceV :: "bool \<Rightarrow> RestService list" where
  "restServiceV debug =
     API_V2
     @ REGISTRY_STANDARD_REQUESTS_V0 @ REGISTRY_STANDARD_REQUESTS_V1 @ STANDARD_REQUESTS_V0 @ STANDARD_REQUESTS_V1
     @ REGISTRY_CONVENIENCE_OPERATIONS_V0 @ REGISTRY_CONVENIENCE_OPERATIONS_V1
     @ CONVENIENCE_OPERATIONS_V0 @ CONVENIENCE_OPERATIONS_V1
     @ LOG_REQUESTS_V0 @ LOG_REQUESTS_V1 @ STAT_REQUESTS_V0 @ STAT_REQUESTS_V1
     @ STAT_CACHE_REQUESTS_V0 @ STAT_CACHE_REQUESTS_V1 @ VERSION_REQUESTS @ LOGLEVEL_REQUESTS_V2
     @ (if debug then EXIT_REQUESTS @ LEAK_REQUESTS else [])
     @ INVALID_REQUESTS"

subsection \<open>The search\<close>

fun comps_match :: "string list \<Rightarrow> string list \<Rightarrow> bool option" where
  "comps_match _ [] = Some True"
| "comps_match [] (c # cs) = None"
| "comps_match (p # ps) (c # cs) =
     (if p = ''*'' then comps_match ps cs
      else if strcasecmp_eq p c then comps_match ps cs else Some False)"

definition service_tried :: "RestService \<Rightarrow> string \<Rightarrow> string list \<Rightarrow> bool" where
  "service_tried s method compV =
     ((rs_components s = 0 \<or> rs_components s = length compV) \<and> (method = rs_verb s \<or> rs_verb s = ''*''))"

text \<open>The row that is found, and the word of the payload, which is copied from every row that is tried.\<close>

fun service_lookup :: "RestService list \<Rightarrow> string \<Rightarrow> string list \<Rightarrow> string \<Rightarrow> (RestService option \<times> string) option" where
  "service_lookup [] method compV payloadWord = Some (None, payloadWord)"
| "service_lookup (s # ss) method compV payloadWord =
     (if \<not> service_tried s method compV then service_lookup ss method compV payloadWord
      else let payloadWord = take 64 (rs_payloadWord s)
           in case comps_match (rs_compV s) compV of
                None \<Rightarrow> None
              | Some match \<Rightarrow> if match = False then service_lookup ss method compV payloadWord
                              else Some (Some s, payloadWord))"

subsection \<open>The routines for a wrong method\<close>

text \<open>Each of the routines is given by the value of the header \<^verbatim>\<open>Allow\<close> that it sets; the other routines set none.\<close>

definition badVerbAllFive :: string where "badVerbAllFive = ''POST, GET, PUT, DELETE, PATCH''"
definition badVerbAllFour :: string where "badVerbAllFour = ''POST, GET, PUT, DELETE''"
definition badVerbGetDeleteOnly :: string where "badVerbGetDeleteOnly = ''GET, DELETE''"
definition badVerbGetOnly :: string where "badVerbGetOnly = ''GET''"
definition badVerbGetPostDeleteOnly :: string where "badVerbGetPostDeleteOnly = ''GET, POST, DELETE''"
definition badVerbGetPostOnly :: string where "badVerbGetPostOnly = ''POST, GET''"
definition badVerbGetPutDeleteOnly :: string where "badVerbGetPutDeleteOnly = ''GET, PUT, DELETE''"
definition badVerbPostOnly :: string where "badVerbPostOnly = ''POST''"
definition badVerbPutDeleteOnly :: string where "badVerbPutDeleteOnly = ''PUT, DELETE''"
definition badVerbPutOnly :: string where "badVerbPutOnly = ''PUT''"
definition badVerbAllNotDelete :: string where "badVerbAllNotDelete = ''GET, PATCH, POST, PUT''"
definition badVerbGetDeletePatchOnly :: string where "badVerbGetDeletePatchOnly = ''GET, DELETE, PATCH''"
definition badVerbGetPutOnly :: string where "badVerbGetPutOnly = ''GET, PUT''"

definition allow_table :: "(string \<times> string) list" where
  "allow_table = [
     (''badVerbAllFive'', badVerbAllFive),
     (''badVerbAllFour'', badVerbAllFour),
     (''badVerbGetDeleteOnly'', badVerbGetDeleteOnly),
     (''badVerbGetOnly'', badVerbGetOnly),
     (''badVerbGetPostDeleteOnly'', badVerbGetPostDeleteOnly),
     (''badVerbGetPostOnly'', badVerbGetPostOnly),
     (''badVerbGetPutDeleteOnly'', badVerbGetPutDeleteOnly),
     (''badVerbPostOnly'', badVerbPostOnly),
     (''badVerbPutDeleteOnly'', badVerbPutDeleteOnly),
     (''badVerbPutOnly'', badVerbPutOnly),
     (''badVerbAllNotDelete'', badVerbAllNotDelete),
     (''badVerbGetDeletePatchOnly'', badVerbGetDeletePatchOnly),
     (''badVerbGetPutOnly'', badVerbGetPutOnly)]"

definition allow_header :: "string \<Rightarrow> string option" where
  "allow_header treat = map_of allow_table treat"

text \<open>The methods that a header lists.\<close>

definition listed :: "string \<Rightarrow> string list" where
  "listed h = map wsStrip (snd (stringSplit h CHR '','' []))"

subsection \<open>Rows in groups\<close>

text \<open>
  The search without the word of the payload, which does not influence it. The rows for a path stand together and end
  with a row for every method, so the first group whose path fits decides for all methods.
\<close>

fun route :: "RestService list \<Rightarrow> string \<Rightarrow> string list \<Rightarrow> RestService option option" where
  "route [] method compV = Some None"
| "route (s # ss) method compV =
     (if \<not> service_tried s method compV then route ss method compV
      else case comps_match (rs_compV s) compV of
             None \<Rightarrow> None | Some match \<Rightarrow> if match = False then route ss method compV else Some (Some s))"

lemma service_lookup_route: "map_option fst (service_lookup ss method compV w) = route ss method compV"
  by (induction ss arbitrary: w) (auto simp: Let_def split: option.split)

lemma comps_match_defined: "length cs \<le> length ps \<Longrightarrow> \<exists>b. comps_match ps cs = Some b"
  by (induction ps cs rule: comps_match.induct) auto

abbreviation takes :: "string \<Rightarrow> RestService \<Rightarrow> bool" where
  "takes method s \<equiv> method = rs_verb s \<or> rs_verb s = ''*''"

lemma route_same_path:
  assumes "\<forall>s \<in> set g. rs_components s = n \<and> rs_compV s = cv" and "n \<noteq> 0" and "n \<le> length cv"
  shows "route (g @ rest) method compV =
     (if length compV = n \<and> comps_match cv compV = Some True \<and> (\<exists>s \<in> set g. takes method s)
      then Some (find (takes method) g) else route rest method compV)"
  using assms(1)
proof (induction g)
  case (Cons s g)
  have s: "rs_components s = n" "rs_compV s = cv" and IH: "route (g @ rest) method compV =
     (if length compV = n \<and> comps_match cv compV = Some True \<and> (\<exists>s \<in> set g. takes method s)
      then Some (find (takes method) g) else route rest method compV)"
    using Cons by simp_all
  show ?case
  proof (cases "length compV = n \<and> takes method s")
    case True
    then obtain b where "comps_match cv compV = Some b"
      using comps_match_defined [of compV cv] assms(3) by auto
    then show ?thesis
      using True s IH by (cases b) (simp_all add: service_tried_def)
  next
    case False
    then have "\<not> service_tried s method compV" using s assms(2) by (auto simp: service_tried_def)
    then show ?thesis using False IH by auto
  qed
qed simp

definition verb_group :: "RestService list \<Rightarrow> bool" where
  "verb_group g =
     (g \<noteq> [] \<and> (let n = rs_components (last g); cv = rs_compV (last g)
      in n \<noteq> 0 \<and> n \<le> length cv \<and> list_all (\<lambda>s. rs_components s = n \<and> rs_compV s = cv) g)
      \<and> rs_verb (last g) = ''*''
      \<and> list_all (\<lambda>s. rs_verb s \<noteq> ''*'' \<and> allow_header (rs_treat s) = None) (butlast g)
      \<and> (case allow_header (rs_treat (last g)) of
           None \<Rightarrow> False
         | Some h \<Rightarrow> list_all (\<lambda>v. v \<in> set (map rs_verb (butlast g))) (listed h)
                     \<and> list_all (\<lambda>s. rs_verb s \<in> set (listed h)) (butlast g)))"

fun verb_groups :: "RestService list \<Rightarrow> RestService list list" where
  "verb_groups [] = []"
| "verb_groups (s # ss) =
     (if rs_verb s = ''*'' then [s] # verb_groups ss
      else case verb_groups ss of [] \<Rightarrow> [[s]] | g # gs \<Rightarrow> (s # g) # gs)"

lemma concat_verb_groups: "concat (verb_groups ss) = ss"
proof (induction ss)
  case (Cons s ss)
  then show ?case by (cases "verb_groups ss") auto
qed simp

lemma verb_groups_checked:
  "list_all verb_group (verb_groups API_V2)"
  "list_all verb_group (verb_groups REGISTRY_STANDARD_REQUESTS_V0)"
  "list_all verb_group (verb_groups REGISTRY_STANDARD_REQUESTS_V1)"
  "list_all verb_group (verb_groups STANDARD_REQUESTS_V0)"
  "list_all verb_group (verb_groups STANDARD_REQUESTS_V1)"
  "list_all verb_group (verb_groups REGISTRY_CONVENIENCE_OPERATIONS_V0)"
  "list_all verb_group (verb_groups REGISTRY_CONVENIENCE_OPERATIONS_V1)"
  "list_all verb_group (verb_groups CONVENIENCE_OPERATIONS_V0)"
  "list_all verb_group (verb_groups CONVENIENCE_OPERATIONS_V1)"
  "list_all verb_group (verb_groups LOG_REQUESTS_V0)"
  "list_all verb_group (verb_groups LOG_REQUESTS_V1)"
  "list_all verb_group (verb_groups STAT_REQUESTS_V0)"
  "list_all verb_group (verb_groups STAT_REQUESTS_V1)"
  "list_all verb_group (verb_groups STAT_CACHE_REQUESTS_V0)"
  "list_all verb_group (verb_groups STAT_CACHE_REQUESTS_V1)"
  "list_all verb_group (verb_groups VERSION_REQUESTS)"
  "list_all verb_group (verb_groups LOGLEVEL_REQUESTS_V2)"
  by code_simp+

text \<open>The rows that do not belong to a group: none of them answers with the header.\<close>

definition loose_rows :: "bool \<Rightarrow> RestService list" where
  "loose_rows debug = (if debug then EXIT_REQUESTS @ LEAK_REQUESTS else []) @ INVALID_REQUESTS"

lemma loose_rows_checked: "list_all (\<lambda>s. allow_header (rs_treat s) = None) (loose_rows debug)"
proof -
  have "list_all (\<lambda>s. allow_header (rs_treat s) = None) (loose_rows True)"
    "list_all (\<lambda>s. allow_header (rs_treat s) = None) (loose_rows False)"
    by code_simp+
  then show ?thesis by (cases debug) (simp_all only:)
qed

lemma table_groups: "\<exists>gs. restServiceV debug = concat gs @ loose_rows debug \<and> list_all verb_group gs"
proof (intro exI conjI)
  let ?gs = "concat (map verb_groups
     [API_V2, REGISTRY_STANDARD_REQUESTS_V0, REGISTRY_STANDARD_REQUESTS_V1, STANDARD_REQUESTS_V0, STANDARD_REQUESTS_V1,
      REGISTRY_CONVENIENCE_OPERATIONS_V0, REGISTRY_CONVENIENCE_OPERATIONS_V1, CONVENIENCE_OPERATIONS_V0,
      CONVENIENCE_OPERATIONS_V1, LOG_REQUESTS_V0, LOG_REQUESTS_V1, STAT_REQUESTS_V0, STAT_REQUESTS_V1,
      STAT_CACHE_REQUESTS_V0, STAT_CACHE_REQUESTS_V1, VERSION_REQUESTS, LOGLEVEL_REQUESTS_V2])"
  show "restServiceV debug = concat ?gs @ loose_rows debug"
    by (simp add: restServiceV_def loose_rows_def concat_verb_groups)
  show "list_all verb_group ?gs"
    using verb_groups_checked by simp
qed

lemma find_Some_takes: "\<exists>s \<in> set g. takes v s \<Longrightarrow> \<exists>r. find (takes v) g = Some r \<and> r \<in> set g \<and> takes v r"
  by (induction g) auto

text \<open>What a group does with the methods: the last row takes those that no other row names.\<close>

lemma verb_group_find:
  assumes "verb_group g"
  shows "\<exists>r. find (takes v) g = Some r
    \<and> (if \<exists>s \<in> set (butlast g). rs_verb s = v then r \<in> set (butlast g) \<and> rs_verb r = v else r = last g)"
proof -
  define b l where "b = butlast g" and "l = last g"
  have g: "g = b @ [l]" and star: "rs_verb l = ''*''" and plain: "\<And>s. s \<in> set b \<Longrightarrow> rs_verb s \<noteq> ''*''"
    using assms by (auto simp: verb_group_def b_def l_def list_all_iff)
  have split: "find (takes v) (b @ [l]) = (case find (takes v) b of None \<Rightarrow> Some l | Some r \<Rightarrow> Some r)" 
    using star by (induction b) auto
  show ?thesis
  proof (cases "\<exists>s \<in> set b. rs_verb s = v")
    case True
    then obtain r where r: "find (takes v) b = Some r" "r \<in> set b" "takes v r"
      using find_Some_takes [of b v] by blast
    have "find (takes v) g = Some r" using split r(1) by (simp only: g option.case)
    moreover have "rs_verb r = v" using r(3) plain [OF r(2)] by blast
    ultimately show ?thesis
      using True r(2) unfolding b_def by auto
  next
    case False
    then have "find (takes v) b = None" using plain unfolding find_None_iff by metis
    then have "find (takes v) g = Some l" using split by (simp only: g option.case)
    then show ?thesis
      using False unfolding b_def l_def by auto
  qed
qed

lemma route_group:
  assumes "verb_group g"
  shows "route (g @ rest) v compV =
     (if length compV = rs_components (last g) \<and> comps_match (rs_compV (last g)) compV = Some True
      then Some (find (takes v) g) else route rest v compV)"
proof -
  have "last g \<in> set g" "rs_verb (last g) = ''*''"
    using assms unfolding verb_group_def by simp_all
  then have "\<exists>s \<in> set g. takes v s" by blast
  moreover have "\<forall>s \<in> set g. rs_components s = rs_components (last g) \<and> rs_compV s = rs_compV (last g)"
    "rs_components (last g) \<noteq> 0" "rs_components (last g) \<le> length (rs_compV (last g))"
    using assms unfolding verb_group_def list_all_iff Let_def by blast+
  ultimately show ?thesis
    using route_same_path [of g "rs_components (last g)" "rs_compV (last g)" rest v compV] by presburger
qed

text \<open>A request is decided by one group, the same for all methods, or by the loose rows.\<close>

lemma route_groups:
  assumes "list_all verb_group gs"
  shows "(\<exists>g \<in> set gs. \<forall>v. route (concat gs @ rest) v compV = Some (find (takes v) g))
         \<or> (\<forall>v. route (concat gs @ rest) v compV = route rest v compV)"
  using assms
proof (induction gs)
  case (Cons g gs)
  then show ?case
    using route_group [of g "concat gs @ rest"] by (auto split: if_splits)
qed simp

lemma route_in: "route ss v compV = Some (Some r) \<Longrightarrow> r \<in> set ss"
  by (induction ss) (auto split: if_splits option.splits)

text \<open>C13: the header \<^verbatim>\<open>Allow\<close> of the answer to a wrong method is exact: the method is not listed, and the
  methods that are listed are those for which the table has a routine of its own for this path.\<close>

theorem allow_header_exact:
  assumes "service_lookup (restServiceV debug) method compV w = Some (Some r, w')"
    and "allow_header (rs_treat r) = Some h"
  shows "method \<notin> set (listed h)
    \<and> (v \<in> set (listed h) \<longleftrightarrow>
       (\<exists>r' u. service_lookup (restServiceV debug) v compV w = Some (Some r', u) \<and> rs_verb r' = v
              \<and> allow_header (rs_treat r') = None))"
proof -
  obtain gs where table: "restServiceV debug = concat gs @ loose_rows debug" and gs: "list_all verb_group gs"
    using table_groups [of debug] by blast
  have found: "route (restServiceV debug) method compV = Some (Some r)"
    using assms(1) service_lookup_route [of "restServiceV debug" "method" compV w] by simp
  have "route (loose_rows debug) method compV \<noteq> Some (Some r)"
    using route_in [of "loose_rows debug" "method" compV r] loose_rows_checked [of debug] assms(2) by (auto simp: list_all_iff)
  then obtain g where g: "g \<in> set gs" and all: "\<And>v. route (restServiceV debug) v compV = Some (find (takes v) g)"
    using route_groups [OF gs, of "loose_rows debug" compV] found table by auto
  have wf: "verb_group g" using gs g by (simp add: list_all_iff)
  have plain: "\<And>s. s \<in> set (butlast g) \<Longrightarrow> allow_header (rs_treat s) = None"
    using wf by (auto simp: verb_group_def list_all_iff)
  obtain r0 where r0: "find (takes method) g = Some r0"
      "if \<exists>s \<in> set (butlast g). rs_verb s = method then r0 \<in> set (butlast g) \<and> rs_verb r0 = method else r0 = last g"
    using verb_group_find [OF wf] by blast
  have r: "r = last g" and no: "\<not> (\<exists>s \<in> set (butlast g). rs_verb s = method)"
    using r0 all [of "method"] found plain [of r0] assms(2) by (simp_all split: if_splits)
  have verbs: "x \<in> set (listed h) \<longleftrightarrow> (\<exists>s \<in> set (butlast g). rs_verb s = x)" for x
    using wf assms(2) r by (auto simp: verb_group_def list_all_iff)
  obtain rv where rv: "find (takes v) g = Some rv"
      "if \<exists>s \<in> set (butlast g). rs_verb s = v then rv \<in> set (butlast g) \<and> rs_verb rv = v else rv = last g"
    using verb_group_find [OF wf] by blast
  have "map_option fst (service_lookup (restServiceV debug) v compV w) = Some (Some rv)"
    using rv(1) all [of v] by (simp add: service_lookup_route)
  then obtain u where u: "service_lookup (restServiceV debug) v compV w = Some (Some rv, u)" by auto
  show ?thesis
  proof (cases "\<exists>s \<in> set (butlast g). rs_verb s = v")
    case True
    then show ?thesis using verbs [of v] verbs [of "method"] no u rv(2) plain [of rv] by simp
  next
    case False
    then show ?thesis using verbs [of v] verbs [of "method"] no u rv(2) r assms(2) by simp
  qed
qed

theorem allow_header_exact_witness:
  "service_lookup (restServiceV False) ''DELETE'' [''V2'', ''entities'', ''Room1'', ''attrs''] [] =
     Some (Some (service ''*'' EntityRequest [''v2'', ''entities'', ''*'', ''attrs''] [] ''badVerbAllNotDelete''), [])
   \<and> (\<exists>r u. service_lookup (restServiceV False) ''PATCH'' [''V2'', ''entities'', ''Room1'', ''attrs''] [] = Some (Some r, u)
            \<and> rs_verb r = ''PATCH'')"
proof -
  have bad: "service_lookup (restServiceV False) ''DELETE'' [''V2'', ''entities'', ''Room1'', ''attrs''] [] =
     Some (Some (service ''*'' EntityRequest [''v2'', ''entities'', ''*'', ''attrs''] [] ''badVerbAllNotDelete''), [])"
    by code_simp
  have h: "allow_header (rs_treat (service ''*'' EntityRequest [''v2'', ''entities'', ''*'', ''attrs''] [] ''badVerbAllNotDelete''))
      = Some ''GET, PATCH, POST, PUT''"
    by code_simp
  have "''PATCH'' \<in> set (listed ''GET, PATCH, POST, PUT'')" by code_simp
  then show ?thesis
    using allow_header_exact [OF bad h, of "''PATCH''"] bad by blast
qed

subsection \<open>Paths that no row treats\<close>

text \<open>A path of at most six components is always treated, by the last row at the latest.\<close>

lemma stars_match: "length cs \<le> n \<Longrightarrow> comps_match (replicate n ''*'' @ ps) cs = Some True"
proof (induction cs arbitrary: n)
  case (Cons c cs)
  then obtain k where "n = Suc k" by (cases n) auto
  then show ?case using Cons by simp
qed simp

lemma route_tail: "route ss v cs = Some None \<Longrightarrow> route (ss @ rest) v cs = route rest v cs"
  by (induction ss) (auto split: if_splits option.splits)

lemma route_head: "route ss v cs \<noteq> Some None \<Longrightarrow> route (ss @ rest) v cs = route ss v cs"
  by (induction ss) (auto split: if_splits option.splits)

definition last_row :: RestService where
  "last_row = (service ''*'' InvalidRequest [''*'', ''*'', ''*'', ''*'', ''*'', ''*''] [] ''badRequest'')\<lparr>rs_components := 0\<rparr>"

lemma loose_last: "\<exists>ss. loose_rows debug = ss @ [last_row]"
  by (intro exI [of _ "butlast (loose_rows debug)"]) (simp add: loose_rows_def INVALID_REQUESTS_def last_row_def butlast_append)

lemma loose_arrays: "\<forall>s \<in> set (loose_rows debug). length (rs_compV s) = 10"
proof -
  have "list_all (\<lambda>s. length (rs_compV s) = 10) (loose_rows True)"
    "list_all (\<lambda>s. length (rs_compV s) = 10) (loose_rows False)"
    by code_simp+
  then show ?thesis by (cases debug) (simp_all only: list_all_iff)
qed

lemma route_defined:
  "\<forall>s \<in> set ss. length (rs_compV s) = 10 \<Longrightarrow> length cs \<le> 10 \<Longrightarrow> \<exists>r. route ss v cs = Some r"
proof (induction ss)
  case (Cons s ss)
  then show ?case using comps_match_defined [of cs "rs_compV s"] by auto
qed simp

lemma loose_treated:
  assumes "length cs \<le> 6"
  shows "\<exists>r. route (loose_rows debug) v cs = Some (Some r)"
proof -
  obtain ss where rows: "loose_rows debug = ss @ [last_row]" using loose_last by blast
  have "rs_compV last_row = replicate 6 ''*'' @ replicate 4 []" by code_simp
  moreover have "service_tried last_row v cs" by (simp add: service_tried_def last_row_def service_def)
  ultimately have last: "route [last_row] v cs = Some (Some last_row)"
    using stars_match [of cs 6 "replicate 4 []"] assms by simp
  obtain r where r: "route ss v cs = Some r"
    using route_defined [of ss cs v] loose_arrays [of debug] rows assms by auto
  show ?thesis
    using r last route_tail [of ss v cs "[last_row]"] route_head [of ss v cs "[last_row]"] rows by (cases r) auto
qed

lemma short_path_treated:
  assumes "length cs \<le> 6"
  shows "\<exists>r u. service_lookup (restServiceV debug) v cs w = Some (Some r, u)"
proof -
  obtain gs where table: "restServiceV debug = concat gs @ loose_rows debug" and gs: "list_all verb_group gs"
    using table_groups [of debug] by blast
  have "\<exists>r. route (restServiceV debug) v cs = Some (Some r)"
  proof (cases "\<exists>g \<in> set gs. \<forall>v. route (restServiceV debug) v cs = Some (find (takes v) g)")
    case True
    then obtain g where g: "g \<in> set gs" "route (restServiceV debug) v cs = Some (find (takes v) g)" by blast
    have "verb_group g" using gs g(1) by (simp add: list_all_iff)
    then show ?thesis using verb_group_find [of g v] g(2) by auto
  next
    case False
    then have "route (restServiceV debug) v cs = route (loose_rows debug) v cs"
      using route_groups [OF gs, of "loose_rows debug" cs] table by metis
    then show ?thesis using loose_treated [OF assms, of debug v] by simp
  qed
  then show ?thesis using service_lookup_route [of "restServiceV debug" v cs w] by auto
qed

text \<open>A longer path that is not in the table is not: the last row has only six stars.\<close>

lemma long_path_untreated:
  "service_lookup (restServiceV False) ''GET'' [''a'', ''b'', ''c'', ''d'', ''e'', ''f'', ''g''] [] = Some (None, [])"
  by code_simp

text \<open>Eleven components, the last five of them empty, are compared past the end of the array.\<close>

lemma very_long_path:
  "service_lookup (restServiceV False) ''GET'' [''a'', ''b'', ''c'', ''d'', ''e'', ''f'', [], [], [], [], []] [] = None"
  by code_simp

end
