(* ===== verification/Orion_Rest.thy ===== *)
theory Orion_Rest
  imports Orion_Reply Orion_Routes Orion_Statistics Orion_Alarm
begin

section \<open>The REST server: rest/rest.cpp, rest/ConnectionInfo.cpp, rest/RestService.cpp, rest/HttpHeaders.h, rest/Verb.h\<close>

text \<open>
  libmicrohttpd calls \<^verbatim>\<open>connectionTreat\<close> once when the headers are read, once for every piece of the
  payload, and once when the request is complete; the handler keeps the connection between the calls. Its state is
  the record \<open>RestInfo\<close>, which holds the members of \<^verbatim>\<open>class ConnectionInfo\<close> that the server uses, with those of
  the renderers in \<open>rc_ci\<close>. What the calls share beyond the connection is the record \<open>rest_thread\<close>: the buffer and the
  address of the client of the thread, the alarms, the counters, and the replies that are queued. \<^const>\<open>None\<close> is a
  write or read outside a buffer. Allocation succeeds; the log and the transaction of the log are not modelled.
\<close>

subsection \<open>Data\<close>

datatype Verb = GET | PUT | POST | DELETE | PATCH | HEAD | OPTIONS | TRACE | CONNECT | NOVERB

fun verbName :: "Verb \<Rightarrow> string" where
  "verbName GET = ''GET''"
| "verbName PUT = ''PUT''"
| "verbName POST = ''POST''"
| "verbName DELETE = ''DELETE''"
| "verbName PATCH = ''PATCH''"
| "verbName HEAD = ''HEAD''"
| "verbName OPTIONS = ''OPTIONS''"
| "verbName TRACE = ''TRACE''"
| "verbName CONNECT = ''CONNECT''"
| "verbName NOVERB = ''NOVERB''"

record HttpHeaders =
  hh_gotHeaders :: bool
  hh_userAgent :: string
  hh_host :: string
  hh_accept :: string
  hh_expect :: string
  hh_contentType :: string
  hh_origin :: string
  hh_tenant :: string
  hh_servicePath :: string
  hh_xauthToken :: string
  hh_xforwardedFor :: string
  hh_correlator :: string
  hh_servicePathReceived :: bool
  hh_contentLength :: nat
  hh_connection :: string

definition HttpHeaders_new :: HttpHeaders where
  "HttpHeaders_new = \<lparr>hh_gotHeaders = False, hh_userAgent = [], hh_host = [], hh_accept = [], hh_expect = [],
     hh_contentType = [], hh_origin = [], hh_tenant = [], hh_servicePath = [], hh_xauthToken = [], hh_xforwardedFor = [],
     hh_correlator = [], hh_servicePathReceived = False, hh_contentLength = 0, hh_connection = []\<rparr>"

text \<open>The payload is in no buffer, in the one of the thread, or in one of the given size from \<^verbatim>\<open>malloc\<close>. The
  bytes of a buffer are those from its start that have been written.\<close>

datatype payload_buffer = NoBuffer | StaticBuffer | HeapBuffer nat string

record RestInfo =
  rc_ci :: ConnectionInfo
  rc_verb :: Verb
  rc_inMimeType :: MimeType
  rc_url :: string
  rc_method :: string
  rc_charset :: string
  rc_tenantFromHttpHeader :: string
  rc_tenant :: string
  rc_servicePath :: string
  rc_servicePathV :: "string list"
  rc_httpHeaders :: HttpHeaders
  rc_payload :: payload_buffer
  rc_payloadSize :: nat
  rc_payloadWord :: string
  rc_answer :: string
  rc_uriParamTypes :: "string list"
  rc_httpHeader :: "(string \<times> string) list"

definition verb_of :: "string \<Rightarrow> Verb" where
  "verb_of method =
     (if method = ''POST'' then POST
      else if method = ''PUT'' then PUT
      else if method = ''GET'' then GET
      else if method = ''DELETE'' then DELETE
      else if method = ''PATCH'' then PATCH
      else NOVERB)"

definition RestInfo_new :: "string \<Rightarrow> string \<Rightarrow> RestInfo" where
  "RestInfo_new url method =
     \<lparr>rc_ci = ConnectionInfo_new, rc_verb = verb_of method, rc_inMimeType = JSON, rc_url = url, rc_method = method,
      rc_charset = [], rc_tenantFromHttpHeader = [], rc_tenant = [], rc_servicePath = [], rc_servicePathV = [],
      rc_httpHeaders = HttpHeaders_new, rc_payload = NoBuffer, rc_payloadSize = 0, rc_payloadWord = [], rc_answer = [],
      rc_uriParamTypes = [], rc_httpHeader = []\<rparr>"

text \<open>A reply: the status, the answer and the headers.\<close>

type_synonym reply = "HttpStatusCode \<times> string \<times> (string \<times> string) list"

record rest_thread =
  rt_static :: string
  rt_clientIp :: string
  rt_badInputSeen :: bool
  rt_alarms :: AlarmManager
  rt_counters :: counters
  rt_replies :: "reply list"
  rt_allowedOrigin :: string

definition STATIC_BUFFER_SIZE :: nat where "STATIC_BUFFER_SIZE = 32 * 1024"
definition PAYLOAD_MAX_SIZE :: nat where "PAYLOAD_MAX_SIZE = 1 * 1024 * 1024"
definition SERVICE_NAME_MAX_LEN :: nat where "SERVICE_NAME_MAX_LEN = 50"
definition SERVICE_PATH_MAX_COMPONENTS :: nat where "SERVICE_PATH_MAX_COMPONENTS = 10"
definition SERVICE_PATH_MAX_LEVELS :: nat where "SERVICE_PATH_MAX_LEVELS = 10"
definition SERVICE_PATH_MAX_COMPONENT_LEN :: nat where "SERVICE_PATH_MAX_COMPONENT_LEN = 50"

definition bad_input :: "string \<Rightarrow> rest_thread \<Rightarrow> rest_thread" where
  "bad_input details t =
     (case badInput (rt_clientIp t) details (rt_badInputSeen t) (rt_alarms t) of
        (_, seen, am) \<Rightarrow> t\<lparr>rt_badInputSeen := seen, rt_alarms := am\<rparr>)"

text \<open>An error object is rendered for the answer, with the status set before.\<close>

definition set_status :: "HttpStatusCode \<Rightarrow> RestInfo \<Rightarrow> RestInfo" where
  "set_status code ci = ci\<lparr>rc_ci := (rc_ci ci)\<lparr>ci_httpStatusCode := code\<rparr>\<rparr>"

abbreviation status :: "RestInfo \<Rightarrow> HttpStatusCode" where
  "status ci \<equiv> ci_httpStatusCode (rc_ci ci)"

definition set_param :: "string \<Rightarrow> string \<Rightarrow> RestInfo \<Rightarrow> RestInfo" where
  "set_param key v ci = ci\<lparr>rc_ci := (rc_ci ci)\<lparr>ci_uriParam := (ci_uriParam (rc_ci ci))(key := v)\<rparr>\<rparr>"

definition answer_error :: "string \<Rightarrow> RestInfo \<Rightarrow> RestInfo" where
  "answer_error details ci =
     (case OrionError_render (OrionError_of SccBadRequest details []) (rc_ci ci) [] of
        (out, c) \<Rightarrow> ci\<lparr>rc_answer := out, rc_ci := c\<rparr>)"

definition refuse_request :: "string \<Rightarrow> RestInfo \<Rightarrow> RestInfo" where
  "refuse_request details ci = answer_error details (set_status SccBadRequest ci)"

subsection \<open>rest/ConnectionInfo.cpp\<close>

definition validOptions :: "string list" where
  "validOptions = [''count'', ''normalized'', ''values'', ''keyValues'', ''append'', ''unique'', ''dateCreated'', ''dateModified'']"

definition isValidOption :: "string \<Rightarrow> bool" where
  "isValidOption item = (item \<in> set validOptions)"

fun options_loop :: "string list \<Rightarrow> (string \<Rightarrow> bool) \<Rightarrow> bool \<times> (string \<Rightarrow> bool)" where
  "options_loop [] opts = (True, opts)"
| "options_loop (v # vs) opts = (if \<not> isValidOption v then (False, opts) else options_loop vs (opts(v := True)))"

definition uriParamOptionsParse :: "string \<Rightarrow> (string \<Rightarrow> bool) \<Rightarrow> int \<times> (string \<Rightarrow> bool)" where
  "uriParamOptionsParse v opts =
     (case options_loop (snd (stringSplit v CHR '','' [])) opts of
        (ok, opts) \<Rightarrow>
          if \<not> ok then (- 1, opts)
          else if opts ''keyValues'' \<and> opts ''values'' then (- 1, opts)
          else if opts ''keyValues'' \<and> opts ''unique'' then (- 1, opts)
          else if opts ''unique'' \<and> opts ''values'' then (- 1, opts)
          else (0, opts))"

definition uriParamTypesParse :: "string \<Rightarrow> string list \<Rightarrow> string list" where
  "uriParamTypesParse v types = types @ snd (stringSplit v CHR '','' [])"

subsection \<open>Arguments and headers\<close>

text \<open>What follows the tests on the value: the parameter is stored and its characters are checked.\<close>

definition uri_forbidden :: "string \<Rightarrow> string \<Rightarrow> bool" where
  "uri_forbidden key v =
     (if key = ''geometry'' \<or> key = ''georel'' then forbiddenChars (Some v) (Some ''=;'')
      else if key = ''coords'' then forbiddenChars (Some v) (Some '';'')
      else if key \<noteq> ''q'' \<and> key \<noteq> ''idPattern'' then forbiddenChars (Some key) None \<or> forbiddenChars (Some v) None
      else False)"

definition uri_store :: "string \<Rightarrow> string \<Rightarrow> RestInfo \<times> rest_thread \<Rightarrow> RestInfo \<times> rest_thread" where
  "uri_store key v st =
     (case st of (ci, t) \<Rightarrow>
        (let ci = set_param key v ci
         in if uri_forbidden key v = True
            then (refuse_request ''invalid character in URI parameter'' ci,
                  bad_input (''found a forbidden character in URI param '' @ quoted key) t)
            else (ci, t)))"

definition uriArgumentGet :: "string \<Rightarrow> string option \<Rightarrow> RestInfo \<times> rest_thread \<Rightarrow> RestInfo \<times> rest_thread" where
  "uriArgumentGet key val st =
     (case st of (ci, t) \<Rightarrow>
        (case val of
           None \<Rightarrow> (refuse_request (''Empty right-hand-side for URI param /'' @ key @ ''/'') ci, t)
         | Some v \<Rightarrow>
             if v = [] then (refuse_request (''Empty right-hand-side for URI param /'' @ key @ ''/'') ci, t)
             else if key = ''offset''
             then if \<not> list_all isdigit v
                  then (refuse_request (''Bad pagination offset: /'' @ v @ ''/ [must be a decimal number]'') ci, t)
                  else uri_store key v (ci, t)
             else if key = ''limit''
             then if \<not> list_all isdigit v
                  then (refuse_request (''Bad pagination limit: /'' @ v @ ''/ [must be a decimal number]'') ci, t)
                  else if atoi v > 1000
                  then (refuse_request (''Bad pagination limit: /'' @ v @ ''/ [max: 1000]'') ci, t)
                  else if atoi v = 0
                  then (refuse_request (''Bad pagination limit: /'' @ v @ ''/ [a value of ZERO is unacceptable]'') ci, t)
                  else uri_store key v (ci, t)
             else if key = ''details''
             then if \<not> strcasecmp_eq v ''on'' \<and> \<not> strcasecmp_eq v ''off''
                  then (refuse_request (''Bad value for /details/: /'' @ v
                          @ ''/ [accepted: /on/, /ON/, /off/, /OFF/. Default is /off/]'') ci, t)
                  else uri_store key v (ci, t)
             else if key = ''attributesFormat'' then uri_store key v (set_param ''attributeFormat'' v ci, t)
             else if key = ''attributeFormat'' then uri_store key v (set_param ''attributesFormat'' v ci, t)
             else if key = ''options''
             then (let ci = set_param ''options'' v ci;
                       (r, opts) = uriParamOptionsParse v (ci_uriParamOptions (rc_ci ci));
                       ci = ci\<lparr>rc_ci := (rc_ci ci)\<lparr>ci_uriParamOptions := opts\<rparr>\<rparr>
                   in uri_store key v (if r \<noteq> 0 then refuse_request ''Invalid value for URI param /options/'' ci else ci, t))
             else if key = ''type''
             then (let ci = set_param ''type'' v ci
                   in uri_store key v (ci\<lparr>rc_uriParamTypes :=
                        (if CHR '','' \<in> set v then uriParamTypesParse v (rc_uriParamTypes ci) else rc_uriParamTypes ci @ [v])\<rparr>, t))
             else uri_store key v (ci, t)))"

definition httpHeaderGet :: "string \<Rightarrow> string \<Rightarrow> HttpHeaders \<Rightarrow> HttpHeaders" where
  "httpHeaderGet key v h =
     (let h = (if strcasecmp_eq key ''User-Agent'' then h\<lparr>hh_userAgent := v\<rparr>
               else if strcasecmp_eq key ''Host'' then h\<lparr>hh_host := v\<rparr>
               else if strcasecmp_eq key ''Accept'' then h\<lparr>hh_accept := v\<rparr>
               else if strcasecmp_eq key ''Expect'' then h\<lparr>hh_expect := v\<rparr>
               else if strcasecmp_eq key ''Connection'' then h\<lparr>hh_connection := v\<rparr>
               else if strcasecmp_eq key ''Content-Type'' then h\<lparr>hh_contentType := v\<rparr>
               else if strcasecmp_eq key ''Content-Length'' then h\<lparr>hh_contentLength := nat (atoi v mod 2 ^ 32)\<rparr>
               else if strcasecmp_eq key ''Origin'' then h\<lparr>hh_origin := v\<rparr>
               else if strcasecmp_eq key ''Fiware-Service'' then h\<lparr>hh_tenant := v\<rparr>
               else if strcasecmp_eq key ''X-Auth-Token'' then h\<lparr>hh_xauthToken := v\<rparr>
               else if strcasecmp_eq key ''X-Forwarded-For'' then h\<lparr>hh_xforwardedFor := v\<rparr>
               else if strcasecmp_eq key ''Fiware-Correlator'' then h\<lparr>hh_correlator := v\<rparr>
               else if strcasecmp_eq key ''Fiware-Servicepath'' then h\<lparr>hh_servicePath := v, hh_servicePathReceived := True\<rparr>
               else h)
      in h\<lparr>hh_contentType := takeWhile (\<lambda>c. c \<noteq> CHR '';'') (hh_contentType h), hh_gotHeaders := True\<rparr>)"

subsection \<open>Output formats\<close>

text \<open>The items of the header \<^verbatim>\<open>Accept\<close>; an item loses its parameters, but not the white space before them.\<close>

function accept_items :: "string \<Rightarrow> string list" where
  "accept_items s =
     (case strchr s CHR '','' of
        Some (pre, post) \<Rightarrow> wsStrip pre # (if tl post = [] then [] else accept_items (tl post))
      | None \<Rightarrow> (let p = wsStrip s in if p \<noteq> [] then [p] else []))"
  by pat_completeness auto
termination
  by (relation "measure length") (auto dest!: strchr_SomeD)

declare accept_items.simps [simp del]

definition wantedOutputSupported :: "string \<Rightarrow> string \<Rightarrow> rest_thread \<Rightarrow> MimeType \<times> rest_thread" where
  "wantedOutputSupported apiVersion acceptList t =
     (let vec = map (takeWhile (\<lambda>c. c \<noteq> CHR '';'')) (accept_items (if acceptList = [] then ''*/*'' else c_str acceptList));
          json = (\<exists>m \<in> set vec. m \<in> {''*/*'', ''application/*'', ''application/json'', ''*/json''});
          text = True
      in if json = True then (JSON, t)
         else if apiVersion = ''v2'' \<and> text then (TEXT, t)
         else (NOMIMETYPE, bad_input (''no valid '' @ quoted ''Accept-format'' @ '' found'') t))"

subsection \<open>Replies\<close>

definition restReply :: "string \<Rightarrow> RestInfo \<Rightarrow> rest_thread \<Rightarrow> rest_thread" where
  "restReply answer ci t =
     (let mime = (if ci_outMimeType (rc_ci ci) = JSON then [(''Content-Type'', ''application/json'')]
                  else if ci_outMimeType (rc_ci ci) = TEXT then [(''Content-Type'', ''text/plain'')] else []);
          cors = (if rt_allowedOrigin t \<noteq> [] \<and> rc_verb ci = GET
                  then if rt_allowedOrigin t = ''__ALL'' then [(''Access-Control-Allow-Origin'', ''*'')]
                       else if c_str (hh_origin (rc_httpHeaders ci)) = rt_allowedOrigin t
                       then [(''Access-Control-Allow-Origin'', rt_allowedOrigin t)] else []
                  else [])
      in t\<lparr>rt_replies := rt_replies t
             @ [(status ci, answer, rc_httpHeader ci @ (if answer \<noteq> [] then mime @ cors else []))]\<rparr>)"

text \<open>The answer is an error reply; \<^verbatim>\<open>restErrorReplyGet\<close> changes the status, which is then set.\<close>

definition answer_reply :: "string \<Rightarrow> HttpStatusCode \<Rightarrow> string \<Rightarrow> RestInfo \<Rightarrow> RestInfo option" where
  "answer_reply request code details ci =
     (case restErrorReplyGet (rc_ci ci) [] request code details of
        None \<Rightarrow> None
      | Some (out, c) \<Rightarrow> Some (set_status code (ci\<lparr>rc_answer := out, rc_ci := c\<rparr>)))"

definition outMimeTypeCheck :: "RestInfo \<Rightarrow> rest_thread \<Rightarrow> (bool \<times> RestInfo \<times> rest_thread) option" where
  "outMimeTypeCheck ci t =
     (case wantedOutputSupported (ci_apiVersion (rc_ci ci)) (hh_accept (rc_httpHeaders ci)) t of
        (m, t) \<Rightarrow>
          (let ci = ci\<lparr>rc_ci := (rc_ci ci)\<lparr>ci_outMimeType := m\<rparr>\<rparr>
           in if m = NOMIMETYPE
              then (case answer_reply ''OrionError'' SccNotAcceptable
                           (''acceptable MIME types: application/json. Accept header in request: '' @ hh_accept (rc_httpHeaders ci))
                           (set_status SccNotAcceptable ci) of
                      None \<Rightarrow> None
                    | Some ci \<Rightarrow> Some (True, ci\<lparr>rc_ci := (rc_ci ci)\<lparr>ci_outMimeType := JSON\<rparr>\<rparr>, t))
              else Some (False, ci, t)))"

subsection \<open>Service paths\<close>

definition isalnum :: "char \<Rightarrow> bool" where
  "isalnum c = (let n = (of_char c :: nat) in 48 \<le> n \<and> n \<le> 57 \<or> 65 \<le> n \<and> n \<le> 90 \<or> 97 \<le> n \<and> n \<le> 122)"

text \<open>The loop over the components: the number of the error, or 0.\<close>

fun components_check :: "string list \<Rightarrow> nat" where
  "components_check [] = 0"
| "components_check (c # compV) =
     (if length (c_str c) > SERVICE_PATH_MAX_COMPONENT_LEN then 3
      else if compV = [] \<and> c = ''#'' then components_check compV
      else if \<not> list_all (\<lambda>x. isalnum x \<or> x = CHR ''_'') (c_str c) then 4
      else components_check compV)"

definition rest_servicePathCheck :: "RestInfo \<Rightarrow> string \<Rightarrow> nat \<times> RestInfo" where
  "rest_servicePathCheck ci servicePath =
     (if hh_servicePathReceived (rc_httpHeaders ci) = False then (0, ci)
      else if servicePath = [] then (0, ci)
      else if hd servicePath \<noteq> CHR ''/''
      then (1, answer_error ''Only /absolute/ Service Paths allowed [a service path must begin with /]'' ci)
      else case stringSplit servicePath CHR ''/'' [] of
             (components, compV) \<Rightarrow>
               if components > SERVICE_PATH_MAX_LEVELS then (2, answer_error ''too many components in ServicePath'' ci)
               else if components_check compV = 3 then (3, answer_error ''component-name too long in ServicePath'' ci)
               else if components_check compV = 4
               then (4, answer_error ''a component of ServicePath contains an illegal character'' ci)
               else (0, ci))"

definition removeTrailingSlash :: "string \<Rightarrow> string" where
  "removeTrailingSlash p =
     (let r = rev (dropWhile (\<lambda>c. c = CHR ''/'') (rev p)) in if r = [] \<and> p \<noteq> [] then ''/'' else r)"

fun paths_check :: "RestInfo \<Rightarrow> string list \<Rightarrow> nat \<times> RestInfo" where
  "paths_check ci [] = (0, ci)"
| "paths_check ci (p # ps) =
     (case rest_servicePathCheck ci p of (s, ci) \<Rightarrow> if s \<noteq> 0 then (s, ci) else paths_check ci ps)"

text \<open>Whether the service paths are in order; the values of the error codes are not used.\<close>

definition servicePathSplit :: "RestInfo \<Rightarrow> bool \<times> RestInfo" where
  "servicePathSplit ci =
     (case stringSplit (rc_servicePath ci) CHR '','' (rc_servicePathV ci) of
        (servicePaths, v) \<Rightarrow>
          if servicePaths = 0 then (True, ci\<lparr>rc_servicePathV := v @ [[]]\<rparr>)
          else if servicePaths > SERVICE_PATH_MAX_COMPONENTS
          then (False, answer_error ''too many service paths - a maximum of ten service paths is allowed''
                         (ci\<lparr>rc_servicePathV := v\<rparr>))
          else (let v = map (\<lambda>p. removeTrailingSlash (wsStrip p)) (take servicePaths v) @ drop servicePaths v
                in case paths_check (ci\<lparr>rc_servicePathV := v\<rparr>) (take servicePaths v) of (s, ci) \<Rightarrow> (s = 0, ci)))"

subsection \<open>Content type, URL and version\<close>

definition contentTypeCheck :: "RestInfo \<Rightarrow> (bool \<times> RestInfo) option" where
  "contentTypeCheck ci =
     (let ct = hh_contentType (rc_httpHeaders ci); v = ci_apiVersion (rc_ci ci);
          refuse = (\<lambda>details. map_option (Pair True)
             (answer_reply ''OrionError'' SccUnsupportedMediaType details (set_status SccUnsupportedMediaType ci)))
      in if hh_contentLength (rc_httpHeaders ci) = 0 then Some (False, ci)
         else if ct = [] then refuse ''Content-Type header not used, default application/octet-stream is not supported''
         else if v = ''v1'' \<and> ct \<noteq> ''application/json'' then refuse (''not supported content type: '' @ ct)
         else if v = ''v2'' \<and> ct \<noteq> ''application/json'' \<and> ct \<noteq> ''text/plain''
         then refuse (''not supported content type: '' @ ct)
         else Some (False, ci))"

text \<open>
  The slashes at the end are overwritten in place, so the string keeps its length. When only slashes are left the loop
  reads before the start of the string.
\<close>

definition url_strip :: "string \<Rightarrow> string option" where
  "url_strip url =
     (let s = rev (dropWhile (\<lambda>c. c = CHR ''/'') (rev (c_str url)))
      in if s = [] then None else Some (s @ replicate (length (c_str url) - length s) NUL @ drop (length (c_str url)) url))"

definition urlCheck :: "RestInfo \<Rightarrow> (bool \<times> RestInfo) option" where
  "urlCheck ci =
     (if forbiddenChars (Some (c_str (rc_url ci))) None = True then Some (False, refuse_request ''invalid character in URI'' ci)
      else map_option (\<lambda>u. (True, ci\<lparr>rc_url := u\<rparr>)) (url_strip (rc_url ci)))"

definition apiVersionGet :: "string \<Rightarrow> string" where
  "apiVersionGet p =
     (if take 2 (tl p) = ''v2'' then ''v2'' else if p = ''/admin/log'' then ''v2'' else ''v1'')"

subsection \<open>The calls of the handler\<close>

text \<open>
  The first call: the headers and arguments are those that libmicrohttpd hands over one after the other, and
  \<open>generated\<close> is the identifier that \<^verbatim>\<open>correlatorGenerate\<close> makes. \<^const>\<open>None\<close> is the write of
  \<^verbatim>\<open>strToLower\<close> past the buffer of the tenant.
\<close>

definition connection_init :: "string \<Rightarrow> string \<Rightarrow> string \<Rightarrow> (string \<times> string) list \<Rightarrow> RestInfo" where
  "connection_init generated url method headers =
     (let ci = set_param ''details'' ''off'' (set_param ''limit'' ''20'' (set_param ''offset'' ''0'' (RestInfo_new url method)));
          h = fold (\<lambda>(k, v). httpHeaderGet k v) headers (rc_httpHeaders ci);
          h = (if hh_correlator h = [] then h\<lparr>hh_correlator := generated\<rparr> else h)
      in ci\<lparr>rc_httpHeaders := h, rc_httpHeader := [(''Fiware-Correlator'', hh_correlator h)],
            rc_ci := (rc_ci ci)\<lparr>ci_apiVersion := apiVersionGet (c_str url)\<rparr>\<rparr>)"

definition connection_start ::
    "string \<Rightarrow> string \<Rightarrow> string \<Rightarrow> (string \<times> string) list \<Rightarrow> (string \<times> string option) list \<Rightarrow> rest_thread
     \<Rightarrow> (RestInfo \<times> rest_thread) option" where
  "connection_start generated url method headers args t =
     (let ci = connection_init generated url method headers
      in case strToLower (c_str (hh_tenant (rc_httpHeaders ci))) (int SERVICE_NAME_MAX_LEN + 1) of
           None \<Rightarrow> None
         | Some tenant \<Rightarrow>
             (case wantedOutputSupported (ci_apiVersion (rc_ci ci)) (hh_accept (rc_httpHeaders ci)) t of
                (m, t) \<Rightarrow>
                  Some (fold (\<lambda>(k, v). uriArgumentGet k v) args
                    (ci\<lparr>rc_tenantFromHttpHeader := tenant,
                        rc_ci := (rc_ci ci)\<lparr>ci_outMimeType := (if m = NOMIMETYPE then JSON else m)\<rparr>\<rparr>, t))))"

text \<open>The calls with a piece of the payload, which is not empty.\<close>

definition buf_put :: "nat \<Rightarrow> nat \<Rightarrow> string \<Rightarrow> string \<Rightarrow> string option" where
  "buf_put cap off data buf =
     (if off + length data < cap then Some (take off buf @ data @ [NUL] @ drop (off + length data + 1) buf) else None)"

definition connection_data :: "string \<Rightarrow> RestInfo \<times> rest_thread \<Rightarrow> (RestInfo \<times> rest_thread) option" where
  "connection_data data st =
     (case st of (ci, t) \<Rightarrow>
        (let len = hh_contentLength (rc_httpHeaders ci)
         in if len > PAYLOAD_MAX_SIZE then Some (ci, t)
            else (let ci = (if rc_payloadSize ci = 0
                            then ci\<lparr>rc_payload := (if len > STATIC_BUFFER_SIZE then HeapBuffer (len + 1) [] else StaticBuffer)\<rparr>
                            else ci);
                      off = rc_payloadSize ci;
                      grown = ci\<lparr>rc_payloadSize := off + length data\<rparr>
                  in case rc_payload ci of
                       NoBuffer \<Rightarrow> None
                     | StaticBuffer \<Rightarrow>
                         map_option (\<lambda>b. (grown, t\<lparr>rt_static := b\<rparr>)) (buf_put (STATIC_BUFFER_SIZE + 1) off data (rt_static t))
                     | HeapBuffer n b \<Rightarrow>
                         map_option (\<lambda>b. (grown\<lparr>rc_payload := HeapBuffer n b\<rparr>, t)) (buf_put n off data b))))"

text \<open>The buffer of the payload, and the bytes of it that were received.\<close>

definition payload_buf :: "RestInfo \<Rightarrow> rest_thread \<Rightarrow> string option" where
  "payload_buf ci t =
     (case rc_payload ci of NoBuffer \<Rightarrow> None | StaticBuffer \<Rightarrow> Some (rt_static t) | HeapBuffer n b \<Rightarrow> Some b)"

definition payload_bytes :: "RestInfo \<Rightarrow> rest_thread \<Rightarrow> string option" where
  "payload_bytes ci t = map_option (take (rc_payloadSize ci)) (payload_buf ci t)"

text \<open>The last call, up to the first return: the checks that were delayed, with their replies.\<close>

definition connection_checks :: "RestInfo \<Rightarrow> rest_thread \<Rightarrow> (RestInfo \<times> rest_thread) option" where
  "connection_checks ci t =
     (case urlCheck ci of
        None \<Rightarrow> None
      | Some (ok, ci) \<Rightarrow>
          (let t = (if ok = False then restReply (rc_answer ci) ci (bad_input ''error in URI path'' t) else t);
               ci = ci\<lparr>rc_servicePath := hh_servicePath (rc_httpHeaders ci)\<rparr>;
               (ok, ci) = servicePathSplit ci;
               t = (if \<not> ok then restReply (rc_answer ci) ci (bad_input ''error in ServicePath http-header'' t) else t)
           in case contentTypeCheck ci of
                None \<Rightarrow> None
              | Some (bad, ci) \<Rightarrow>
                  if bad
                  then Some (ci, restReply (rc_answer ci) ci (bad_input ''invalid mime-type in Content-Type http-header'' t))
                  else (case outMimeTypeCheck ci t of
                          None \<Rightarrow> None
                        | Some (bad, ci, t) \<Rightarrow>
                            if bad
                            then Some (ci, restReply (rc_answer ci) ci (bad_input ''invalid mime-type in Accept http-header'' t))
                            else Some (ci\<lparr>rc_inMimeType := fst (mimeTypeParse (hh_contentType (rc_httpHeaders ci)))\<rparr>, t))))"

text \<open>A request that needs a payload and has none; the old and the new log requests are exempt.\<close>

definition strncasecmp_eq :: "string \<Rightarrow> string \<Rightarrow> nat \<Rightarrow> bool" where
  "strncasecmp_eq s s' n = (map lower_char (take n (c_str s)) = map lower_char (take n (c_str s')))"

definition payload_missing :: "RestInfo \<Rightarrow> bool" where
  "payload_missing ci =
     (rc_verb ci \<in> {POST, PUT, PATCH} \<and> hh_contentLength (rc_httpHeaders ci) = 0
      \<and> \<not> strncasecmp_eq (rc_url ci) ''/log/'' 5 \<and> \<not> strncasecmp_eq (rc_url ci) ''/admin/log'' 10)"

definition size_details :: "nat \<Rightarrow> string" where
  "size_details len =
     ''payload size: '' @ show_int (wrap32 (int len)) @ '', max size supported: '' @ dec PAYLOAD_MAX_SIZE"

definition connection_treat ::
    "string \<Rightarrow> (RestInfo \<Rightarrow> rest_thread \<Rightarrow> (RestInfo \<times> rest_thread) option) \<Rightarrow> RestInfo \<Rightarrow> rest_thread
     \<Rightarrow> (RestInfo \<times> rest_thread) option" where
  "connection_treat url serve ci t =
     (case connection_checks ci t of
        None \<Rightarrow> None
      | Some (ci, t) \<Rightarrow>
          if status ci \<noteq> SccOk then Some (ci, restReply (rc_answer ci) ci (bad_input ''error in URI parameters'' t))
          else (let len = hh_contentLength (rc_httpHeaders ci);
                    details = size_details len
                in case (if len > PAYLOAD_MAX_SIZE
                         then map_option (\<lambda>ci. (ci, bad_input details t)) (answer_reply (rc_url ci) SccRequestEntityTooLarge details ci)
                         else Some (ci, t)) of
                     None \<Rightarrow> None
                   | Some (ci, t) \<Rightarrow>
                       if payload_missing ci
                       then (case restErrorReplyGet (rc_ci ci) [] url SccLengthRequired
                                    ''Zero/No Content-Length in PUT/POST/PATCH request'' of
                               None \<Rightarrow> None
                             | Some (errorMsg, c) \<Rightarrow>
                                 (let ci = set_status SccLengthRequired (ci\<lparr>rc_ci := c\<rparr>)
                                  in Some (ci, bad_input errorMsg (restReply errorMsg ci t))))
                       else if rc_answer ci \<noteq> [] then Some (ci, restReply (rc_answer ci) ci (bad_input (rc_answer ci) t))
                       else serve ci t))"

subsection \<open>rest/RestService.cpp\<close>

text \<open>
  Of the parsed request only the scopes of its restrictions are touched here: those of the requests for discovery,
  availability subscription and its update, query, subscription and its update. The rest is \<open>pd_payload\<close>. The parsers
  and the service routines are parameters; the routines for wrong methods and unknown services are defined below.
\<close>

record Scope =
  scp_type :: string
  scp_value :: string
  scp_oper :: string

record 'a ParseData =
  pd_dcar :: "Scope list"
  pd_scar :: "Scope list"
  pd_ucas :: "Scope list"
  pd_qcr :: "Scope list"
  pd_scr :: "Scope list"
  pd_ucsr :: "Scope list"
  pd_payload :: 'a

definition existence_scope :: "string \<Rightarrow> Scope" where
  "existence_scope oper = \<lparr>scp_type = ''FIWARE::Filter::Existence'', scp_value = ''entity::type'', scp_oper = oper\<rparr>"

definition commonFilters :: "(string \<Rightarrow> string) \<Rightarrow> RequestType \<Rightarrow> 'a ParseData \<Rightarrow> 'a ParseData" where
  "commonFilters uriParam request pd =
     (let supported = (request = EntityTypes \<or> request = AllContextEntities);
          exist = (\<lambda>pd. if uriParam ''exist'' = ''entity::type'' \<and> supported
                        then pd\<lparr>pd_qcr := pd_qcr pd @ [existence_scope []]\<rparr> else pd)
      in if uriParam ''!exist'' = ''entity::type''
         then if \<not> supported then pd else exist (pd\<lparr>pd_qcr := pd_qcr pd @ [existence_scope ''Not'']\<rparr>)
         else exist pd)"

definition scope_fix :: "Scope \<Rightarrow> Scope" where
  "scope_fix s =
     (if scp_type s = ''FIWARE::Filter::Not::Existence''
      then s\<lparr>scp_type := ''FIWARE::Filter::Existence'', scp_oper := ''Not''\<rparr> else s)"

definition scopeFilter :: "string \<Rightarrow> 'a ParseData \<Rightarrow> 'a ParseData" where
  "scopeFilter payloadWord pd =
     (if payloadWord = ''discoverContextAvailabilityRequest'' then pd\<lparr>pd_dcar := map scope_fix (pd_dcar pd)\<rparr>
      else if payloadWord = ''subscribeContextAvailabilityRequest'' then pd\<lparr>pd_scar := map scope_fix (pd_scar pd)\<rparr>
      else if payloadWord = ''updateContextAvailabilitySubscriptionRequest'' then pd\<lparr>pd_ucas := map scope_fix (pd_ucas pd)\<rparr>
      else if payloadWord = ''queryContextRequest'' then pd\<lparr>pd_qcr := map scope_fix (pd_qcr pd)\<rparr>
      else if payloadWord = ''subscribeContextRequest'' then pd\<lparr>pd_scr := map scope_fix (pd_scr pd)\<rparr>
      else if payloadWord = ''updateContextSubscriptionRequest'' then pd\<lparr>pd_ucsr := map scope_fix (pd_ucsr pd)\<rparr>
      else pd)"

definition tenantCheck :: "string \<Rightarrow> rest_thread \<Rightarrow> string \<times> rest_thread" where
  "tenantCheck tenant t =
     (let name = c_str tenant
      in if length name > SERVICE_NAME_MAX_LEN
         then (''bad length - a tenant name can be max 50 characters long'',
               bad_input (''a tenant name can be max 50 characters long. Length: '' @ dec (length name)) t)
         else case find (\<lambda>c. \<not> isalnum c \<and> c \<noteq> CHR ''_'') name of
                Some c \<Rightarrow>
                  (''bad character in tenant name - only underscore and alphanumeric characters are allowed'',
                   bad_input (''bad character in tenant name - only underscore and alphanumeric characters are allowed.''
                              @ '' Offending character: '' @ [c]) t)
              | None \<Rightarrow> (''OK'', t))"

record 'a service_env =
  sv_services :: "RestService list"
  sv_jsonRequestTreat :: "string \<Rightarrow> RestInfo \<Rightarrow> RequestType \<Rightarrow> string list \<Rightarrow> 'a ParseData \<Rightarrow> string \<times> RestInfo \<times> 'a ParseData"
  sv_jsonTreat :: "string \<Rightarrow> RestInfo \<Rightarrow> RequestType \<Rightarrow> string \<Rightarrow> 'a ParseData \<Rightarrow> string \<times> RestInfo \<times> 'a ParseData"
  sv_textRequestTreat :: "string \<Rightarrow> RestInfo \<Rightarrow> RequestType \<Rightarrow> 'a ParseData \<Rightarrow> string \<times> RestInfo \<times> 'a ParseData"
  sv_treat :: "string \<Rightarrow> RestInfo \<Rightarrow> string list \<Rightarrow> 'a ParseData \<Rightarrow> rest_thread \<Rightarrow> string \<times> RestInfo \<times> rest_thread"

text \<open>The result of the parser; one that is not \<^verbatim>\<open>OK\<close> is replied here.\<close>

definition payloadParse ::
    "'a service_env \<Rightarrow> string \<Rightarrow> RestInfo \<Rightarrow> 'a ParseData \<Rightarrow> RestService \<Rightarrow> string list \<Rightarrow> rest_thread
     \<Rightarrow> (string \<times> RestInfo \<times> 'a ParseData \<times> rest_thread) option" where
  "payloadParse env text ci pd s compV t =
     (let reply = (\<lambda>(result, ci, pd). Some (result, ci, pd, if result \<noteq> ''OK'' then restReply result ci t else t))
      in if rc_inMimeType ci = JSON
         then if compV = [] then None
              else if hd compV = ''v2'' then reply (sv_jsonRequestTreat env text ci (rs_request s) compV pd)
              else reply (sv_jsonTreat env text ci (rs_request s) (rs_payloadWord s) pd)
         else if rc_inMimeType ci = TEXT then reply (sv_textRequestTreat env text ci (rs_request s) pd)
         else Some (''Bad inMimeType'', ci, pd, bad_input ''payload mime-type is not JSON'' t))"

text \<open>The routines for a wrong method; one of them raises no alarm.\<close>

definition bad_verb :: "string \<Rightarrow> string \<Rightarrow> RestInfo \<Rightarrow> rest_thread \<Rightarrow> string \<times> RestInfo \<times> rest_thread" where
  "bad_verb name allow ci t =
     ([], set_status SccBadVerb (ci\<lparr>rc_httpHeader := rc_httpHeader ci @ [(''Allow'', allow)]\<rparr>),
      if name = ''badVerbPutDeleteOnly'' then t
      else bad_input (''bad verb for url '' @ quoted (rc_url ci) @ '', method '' @ quoted (rc_method ci)) t)"

definition bad_service :: "RestInfo \<Rightarrow> rest_thread \<Rightarrow> (string \<times> RestInfo \<times> rest_thread) option" where
  "bad_service ci t =
     map_option (\<lambda>(answer, c). (answer, ci\<lparr>rc_ci := c\<rparr>, bad_input (''service '' @ quoted (rc_url ci) @ '' not found'') t))
       (restErrorReplyGet (rc_ci ci) [] (rc_payloadWord ci) SccBadRequest ''service not found'')"

definition treat_service ::
    "'a service_env \<Rightarrow> string \<Rightarrow> RestInfo \<Rightarrow> string list \<Rightarrow> 'a ParseData \<Rightarrow> rest_thread
     \<Rightarrow> (string \<times> RestInfo \<times> rest_thread) option" where
  "treat_service env name ci compV pd t =
     (case allow_header name of
        Some allow \<Rightarrow> Some (bad_verb name allow ci t)
      | None \<Rightarrow> if name \<in> {''badRequest'', ''badNgsi9Request'', ''badNgsi10Request''} then bad_service ci t
                else Some (sv_treat env name ci compV pd t))"

text \<open>What happens once the payload is parsed, or there is none. The answer \<^verbatim>\<open>DIE\<close> of the debug builds, which ends the
  process, is not modelled.\<close>

definition service_run ::
    "'a service_env \<Rightarrow> RestService \<Rightarrow> string list \<Rightarrow> 'a ParseData \<Rightarrow> RestInfo \<Rightarrow> rest_thread
     \<Rightarrow> (RestInfo \<times> rest_thread) option" where
  "service_run env s compV pd ci t =
     (let ci = (if rc_payloadSize ci = 0 then ci\<lparr>rc_inMimeType := NOMIMETYPE\<rparr> else ci);
          t = t\<lparr>rt_counters := statisticsUpdate (rs_request s) (rc_inMimeType ci) (rt_counters t)\<rparr>;
          ci = ci\<lparr>rc_tenant := rc_tenantFromHttpHeader ci\<rparr>;
          (result, t) = (if rc_tenant ci \<noteq> [] then tenantCheck (rc_tenant ci) t else (''OK'', t))
      in if result \<noteq> ''OK''
         then (case OrionError_render (OrionError_of SccBadRequest result []) (rc_ci ci) [] of
                 (response, c) \<Rightarrow>
                   (let ci = ci\<lparr>rc_ci := c\<rparr>; t = bad_input result t;
                        ci = (if ci_apiVersion (rc_ci ci) \<noteq> ''v1'' then set_status SccBadRequest ci else ci)
                    in Some (ci, restReply response ci t)))
         else (let pd = scopeFilter (rc_payloadWord ci) (commonFilters (ci_uriParam (rc_ci ci)) (rs_request s) pd);
                   t = (if rs_verb s \<noteq> ''*'' then t\<lparr>rt_alarms := snd (badInputReset (rt_clientIp t) (rt_alarms t))\<rparr> else t)
               in map_option (\<lambda>(response, ci, t). (ci, restReply response ci t))
                    (treat_service env (rs_treat s) ci compV pd t)))"

definition restService ::
    "'a service_env \<Rightarrow> 'a ParseData \<Rightarrow> RestInfo \<Rightarrow> rest_thread \<Rightarrow> (RestInfo \<times> rest_thread) option" where
  "restService env pd ci t =
     (if rc_url ci = [] \<or> rc_url ci = ''/''
      then (case OrionError_render (OrionError_of SccBadRequest
                   (''The Orion Context Broker is a REST service, not a '' @ quoted ''web page'') []) (rc_ci ci) [] of
              (response, c) \<Rightarrow>
                (let ci = ci\<lparr>rc_ci := c\<rparr>
                 in Some (ci, restReply response ci
                      (bad_input (''The Orion Context Broker is a REST service, not a '' @ quoted ''web page'') t))))
      else (let ci = set_status SccOk ci; compV = snd (stringSplit (rc_url ci) CHR ''/'' [])
            in case service_lookup (sv_services env) (rc_method ci) compV (rc_payloadWord ci) of
                 None \<Rightarrow> None
               | Some (None, w) \<Rightarrow>
                   (let ci = set_status SccBadRequest (ci\<lparr>rc_payloadWord := w\<rparr>);
                        t = bad_input (''service '' @ quoted (rc_url ci) @ '' not recognized'') t
                    in map_option (\<lambda>(answer, c). (ci\<lparr>rc_ci := c\<rparr>, restReply answer (ci\<lparr>rc_ci := c\<rparr>) t))
                         (restErrorReplyGet (rc_ci ci) [] w SccBadRequest ''unrecognized request''))
               | Some (Some s, w) \<Rightarrow>
                   (let ci = ci\<lparr>rc_payloadWord := w\<rparr>; text = c_str (case payload_bytes ci t of None \<Rightarrow> [] | Some b \<Rightarrow> b)
                    in if text \<noteq> [] \<and> rs_verb s \<noteq> ''*''
                       then (case payloadParse env text ci pd s compV t of
                               None \<Rightarrow> None
                             | Some (response, ci, pd, t) \<Rightarrow>
                                 if response \<noteq> ''OK'' then Some (ci, restReply response ci (bad_input response t))
                                 else service_run env s compV pd ci t)
                       else service_run env s compV pd ci t)))"

end
