(* ===== verification/Orion_RestSpec.thy ===== *)
theory Orion_RestSpec
  imports Orion_Rest
begin

section \<open>What the REST server does with a request\<close>

text \<open>
  The payload of a request arrives as it was sent when its length is announced; the requests that are served are
  exactly those that pass every check, and every other request is answered with an error.
\<close>

subsection \<open>The payload\<close>

fun data_calls :: "string list \<Rightarrow> RestInfo \<times> rest_thread \<Rightarrow> (RestInfo \<times> rest_thread) option" where
  "data_calls [] st = Some st"
| "data_calls (d # ds) st = (case connection_data d st of None \<Rightarrow> None | Some st \<Rightarrow> data_calls ds st)"

abbreviation content_length :: "RestInfo \<Rightarrow> nat" where
  "content_length ci \<equiv> hh_contentLength (rc_httpHeaders ci)"

text \<open>The bytes \<open>pre\<close> have arrived: they are at the start of a buffer with room for the announced length.\<close>

definition arrived :: "string \<Rightarrow> RestInfo \<Rightarrow> rest_thread \<Rightarrow> bool" where
  "arrived pre ci t =
     (rc_payloadSize ci = length pre
      \<and> (case rc_payload ci of
           NoBuffer \<Rightarrow> False
         | StaticBuffer \<Rightarrow> content_length ci \<le> STATIC_BUFFER_SIZE \<and> take (length pre + 1) (rt_static t) = pre @ [NUL]
         | HeapBuffer n b \<Rightarrow> n = content_length ci + 1 \<and> take (length pre + 1) b = pre @ [NUL]))"

text \<open>Two states of a request that differ in the payload only.\<close>

definition only_payload :: "RestInfo \<Rightarrow> rest_thread \<Rightarrow> RestInfo \<Rightarrow> rest_thread \<Rightarrow> bool" where
  "only_payload ci t ci' t' =
     (ci'\<lparr>rc_payload := NoBuffer, rc_payloadSize := 0\<rparr> = ci\<lparr>rc_payload := NoBuffer, rc_payloadSize := 0\<rparr>
      \<and> t'\<lparr>rt_static := []\<rparr> = t\<lparr>rt_static := []\<rparr>)"

lemma only_payload_refl [simp]: "only_payload ci t ci t"
  by (simp add: only_payload_def)

lemma only_payload_trans: "only_payload ci t ci' t' \<Longrightarrow> only_payload ci' t' ci'' t'' \<Longrightarrow> only_payload ci t ci'' t''"
  by (simp add: only_payload_def)

lemma only_payload_headers: "only_payload ci t ci' t' \<Longrightarrow> rc_httpHeaders ci' = rc_httpHeaders ci"
  unfolding only_payload_def
  by (drule conjunct1, drule arg_cong [where f = rc_httpHeaders]) simp

lemma buf_put_next:
  assumes "take (length pre) buf = pre" and "length pre + length d < cap"
  shows "\<exists>b. buf_put cap (length pre) d buf = Some b \<and> take (length (pre @ d) + 1) b = (pre @ d) @ [NUL]"
  using assms by (simp add: buf_put_def)

lemma take_snoc_prefix: "take (length pre + 1) b = pre @ [x] \<Longrightarrow> take (length pre) b = pre"
  by (metis append_eq_conv_conj le_add1 min.absorb1 take_take append_take_drop_id)

lemma first_data:
  assumes "rc_payloadSize ci = 0" and "length d \<le> content_length ci" and "content_length ci \<le> PAYLOAD_MAX_SIZE"
  shows "\<exists>ci' t'. connection_data d (ci, t) = Some (ci', t') \<and> arrived d ci' t' \<and> only_payload ci t ci' t'"
proof (cases "content_length ci > STATIC_BUFFER_SIZE")
  case True
  then show ?thesis
    using assms buf_put_next [of "[]" "[]" d "content_length ci + 1"]
    by (auto simp: connection_data_def arrived_def only_payload_def Let_def)
next
  case False
  then show ?thesis
    using assms buf_put_next [of "[]" "rt_static t" d "STATIC_BUFFER_SIZE + 1"]
    by (auto simp: connection_data_def arrived_def only_payload_def Let_def)
qed

lemma next_data:
  assumes "arrived pre ci t" and "pre \<noteq> []" and "length (pre @ d) \<le> content_length ci" and "content_length ci \<le> PAYLOAD_MAX_SIZE"
  shows "\<exists>ci' t'. connection_data d (ci, t) = Some (ci', t') \<and> arrived (pre @ d) ci' t' \<and> only_payload ci t ci' t'"
proof (cases "rc_payload ci")
  case StaticBuffer
  then show ?thesis
    using assms take_snoc_prefix [of pre "rt_static t" NUL] buf_put_next [of pre "rt_static t" d "STATIC_BUFFER_SIZE + 1"]
    by (auto simp: connection_data_def arrived_def only_payload_def Let_def)
next
  case (HeapBuffer n b)
  then show ?thesis
    using assms take_snoc_prefix [of pre b NUL] buf_put_next [of pre b d n]
    by (auto simp: connection_data_def arrived_def only_payload_def Let_def)
qed (use assms in \<open>simp add: arrived_def\<close>)

lemma rest_data:
  assumes "arrived pre ci t" and "pre \<noteq> []" and "length (pre @ concat ds) \<le> content_length ci"
    and "content_length ci \<le> PAYLOAD_MAX_SIZE"
  shows "\<exists>ci' t'. data_calls ds (ci, t) = Some (ci', t') \<and> arrived (pre @ concat ds) ci' t' \<and> only_payload ci t ci' t'"
  using assms
proof (induction ds arbitrary: pre ci t)
  case (Cons d ds)
  then obtain c1 t1 where 1: "connection_data d (ci, t) = Some (c1, t1)" "arrived (pre @ d) c1 t1" "only_payload ci t c1 t1"
    using next_data [of pre ci t d] by auto
  have "rc_httpHeaders c1 = rc_httpHeaders ci"
    using only_payload_headers [OF 1(3)] .
  then obtain c2 t2 where "data_calls ds (c1, t1) = Some (c2, t2)" "arrived ((pre @ d) @ concat ds) c2 t2" "only_payload c1 t1 c2 t2"
    using Cons.IH [of "pre @ d" c1 t1] Cons.prems 1(2) by auto
  then show ?case using 1 only_payload_trans by fastforce
qed auto

lemma arrived_buf: "arrived pre ci t \<Longrightarrow> \<exists>rest. payload_buf ci t = Some (pre @ NUL # rest)"
proof -
  have *: "\<exists>rest. b = pre @ NUL # rest" if "take (length pre + 1) b = pre @ [NUL]" for b
    using append_take_drop_id [of "length pre + 1" b] that by (metis append.assoc append_Cons append_Nil)
  show "arrived pre ci t \<Longrightarrow> ?thesis"
    by (auto simp: arrived_def payload_buf_def intro!: * split: payload_buffer.splits)
qed

text \<open>C9: a payload whose length was announced, and is not more than the maximum, arrives: the calls with its pieces
  write only inside the buffer, which then holds the pieces in order, followed by the terminator; nothing else of the
  connection and of the thread changes.\<close>

theorem payload_received:
  assumes "rc_payloadSize ci = 0" and "ds \<noteq> []" and "[] \<notin> set ds"
    and "content_length ci = length (concat ds)" and "content_length ci \<le> PAYLOAD_MAX_SIZE"
  shows "\<exists>ci' t' rest. data_calls ds (ci, t) = Some (ci', t') \<and> payload_buf ci' t' = Some (concat ds @ NUL # rest)
    \<and> payload_bytes ci' t' = Some (concat ds) \<and> only_payload ci t ci' t'"
proof -
  obtain d es where ds: "ds = d # es" and "d \<noteq> []" using assms(2,3) by (cases ds) auto
  obtain c1 t1 where 1: "connection_data d (ci, t) = Some (c1, t1)" "arrived d c1 t1" "only_payload ci t c1 t1"
    using first_data [of ci d t] assms(1,4,5) ds by auto
  have "rc_httpHeaders c1 = rc_httpHeaders ci"
    using only_payload_headers [OF 1(3)] .
  then obtain c2 t2 where 2: "data_calls es (c1, t1) = Some (c2, t2)" "arrived (concat ds) c2 t2" "only_payload c1 t1 c2 t2"
    using rest_data [OF 1(2) \<open>d \<noteq> []\<close>, of es] assms(4,5) ds by auto
  obtain rest where rest: "payload_buf c2 t2 = Some (concat ds @ NUL # rest)" using arrived_buf [OF 2(2)] by blast
  have "rc_payloadSize c2 = length (concat ds)" using 2(2) by (simp add: arrived_def)
  then have "payload_bytes c2 t2 = Some (concat ds)" using rest by (simp add: payload_bytes_def)
  then show ?thesis using 1 2 rest only_payload_trans ds by (metis data_calls.simps(2) option.simps(5))
qed

definition thread_demo :: rest_thread where
  "thread_demo = \<lparr>rt_static = [], rt_clientIp = ''127.0.0.1'', rt_badInputSeen = False, rt_alarms = AlarmManager_new,
     rt_counters = (\<lambda>_. - 1), rt_replies = [], rt_allowedOrigin = []\<rparr>"

definition announced :: "nat \<Rightarrow> RestInfo" where
  "announced len = (RestInfo_new ''/v2/entities'' ''POST'')\<lparr>rc_httpHeaders := HttpHeaders_new\<lparr>hh_contentLength := len\<rparr>\<rparr>"

lemma announced_simps [simp]: "content_length (announced len) = len" "rc_payloadSize (announced len) = 0"
  by (simp_all add: announced_def RestInfo_new_def)

theorem payload_received_witness:
  "content_length (announced 6) = length (concat [''abc'', ''de'', ''f''])
   \<and> (\<exists>ci' t'. data_calls [''abc'', ''de'', ''f''] (announced 6, thread_demo) = Some (ci', t')
        \<and> payload_bytes ci' t' = Some ''abcdef'')"
  using payload_received [of "announced 6" "[''abc'', ''de'', ''f'']" thread_demo]
  by (simp add: PAYLOAD_MAX_SIZE_def) blast

text \<open>Without an announced length, as with a chunked transfer, a piece that is longer than the buffer of the thread is
  written past its end.\<close>

lemma chunked_overflow:
  assumes "content_length ci = 0" and "rc_payloadSize ci = 0" and "length d > STATIC_BUFFER_SIZE"
  shows "connection_data d (ci, t) = None"
  using assms by (simp add: connection_data_def buf_put_def PAYLOAD_MAX_SIZE_def)

text \<open>Two connections that one thread serves, as in a thread pool, share the buffer: the second piece of the first
  request finds the bytes of the other one before it.\<close>

lemma shared_buffer_mixed:
  "\<exists>c1 c2 t1 t2 t3 c1'.
     connection_data ''abc'' (announced 6, thread_demo) = Some (c1, t1)
     \<and> connection_data ''XYZ'' (announced 3, t1) = Some (c2, t2)
     \<and> connection_data ''def'' (c1, t2) = Some (c1', t3) \<and> payload_bytes c1' t3 = Some ''XYZdef''"
  by (simp add: connection_data_def buf_put_def PAYLOAD_MAX_SIZE_def STATIC_BUFFER_SIZE_def announced_def RestInfo_new_def
      HttpHeaders_new_def thread_demo_def payload_bytes_def payload_buf_def)

text \<open>A payload that is too long is thrown away, and only reported in the last call.\<close>

lemma oversize_dropped:
  "content_length ci > PAYLOAD_MAX_SIZE \<Longrightarrow> data_calls ds (ci, t) = Some (ci, t)"
  by (induction ds) (simp_all add: connection_data_def)

subsection \<open>The first call\<close>

text \<open>After the first call the status is an error exactly when an argument was refused, with an answer.\<close>

definition fresh :: "RestInfo \<Rightarrow> bool" where
  "fresh ci = (rc_servicePathV ci = [] \<and> ci_apiVersion (rc_ci ci) \<in> {''v1'', ''v2''}
     \<and> status ci = (if rc_answer ci = [] then SccOk else SccBadRequest))"

lemma OrionError_render_out:
  "OrionError_render oe ci indent = (out, ci') \<Longrightarrow> out \<noteq> [] \<and> ci_apiVersion ci' = ci_apiVersion ci
     \<and> ci_httpStatusCode ci' = (if ci_apiVersion ci = ''v2'' \<and> (ci_httpStatusCode ci = SccOk \<or> ci_httpStatusCode ci = SccNone)
                               then SccBadRequest else ci_httpStatusCode ci)"
  by (auto simp: OrionError_render_def Let_def split: if_splits)

lemma answer_error_simps [simp]:
  "rc_answer (answer_error d ci) \<noteq> []" "rc_servicePathV (answer_error d ci) = rc_servicePathV ci"
  "rc_httpHeaders (answer_error d ci) = rc_httpHeaders ci" "rc_url (answer_error d ci) = rc_url ci"
  "rc_verb (answer_error d ci) = rc_verb ci"
  "ci_apiVersion (rc_ci (answer_error d ci)) = ci_apiVersion (rc_ci ci)"
  "status (answer_error d ci) = (if ci_apiVersion (rc_ci ci) = ''v2'' \<and> (status ci = SccOk \<or> status ci = SccNone)
                               then SccBadRequest else status ci)"
proof -
  obtain out c where o: "OrionError_render (OrionError_of SccBadRequest d []) (rc_ci ci) [] = (out, c)" by fastforce
  then have e: "answer_error d ci = ci\<lparr>rc_answer := out, rc_ci := c\<rparr>" by (simp add: answer_error_def)
  show "rc_answer (answer_error d ci) \<noteq> []" "rc_servicePathV (answer_error d ci) = rc_servicePathV ci"
    "rc_httpHeaders (answer_error d ci) = rc_httpHeaders ci" "rc_url (answer_error d ci) = rc_url ci"
    "rc_verb (answer_error d ci) = rc_verb ci"
    "ci_apiVersion (rc_ci (answer_error d ci)) = ci_apiVersion (rc_ci ci)"
    "status (answer_error d ci) = (if ci_apiVersion (rc_ci ci) = ''v2'' \<and> (status ci = SccOk \<or> status ci = SccNone)
                               then SccBadRequest else status ci)"
    using OrionError_render_out [OF o] by (simp_all add: e)
qed

lemma set_status_simps [simp]:
  "rc_answer (set_status s ci) = rc_answer ci" "rc_servicePathV (set_status s ci) = rc_servicePathV ci"
  "rc_httpHeaders (set_status s ci) = rc_httpHeaders ci" "rc_url (set_status s ci) = rc_url ci"
  "rc_verb (set_status s ci) = rc_verb ci" "status (set_status s ci) = s"
  "ci_apiVersion (rc_ci (set_status s ci)) = ci_apiVersion (rc_ci ci)"
  by (simp_all add: set_status_def)

lemma refuse_request_simps [simp]:
  "rc_answer (refuse_request d ci) \<noteq> []" "status (refuse_request d ci) = SccBadRequest"
  "rc_servicePathV (refuse_request d ci) = rc_servicePathV ci" "rc_httpHeaders (refuse_request d ci) = rc_httpHeaders ci"
  "ci_apiVersion (rc_ci (refuse_request d ci)) = ci_apiVersion (rc_ci ci)"
  by (simp_all add: refuse_request_def)

lemma set_param_simps [simp]:
  "rc_answer (set_param k v ci) = rc_answer ci" "status (set_param k v ci) = status ci"
  "rc_servicePathV (set_param k v ci) = rc_servicePathV ci" "ci_apiVersion (rc_ci (set_param k v ci)) = ci_apiVersion (rc_ci ci)"
  by (simp_all add: set_param_def)

lemma uri_store_fresh: "fresh ci \<Longrightarrow> fresh (fst (uri_store k v (ci, t)))"
  by (simp add: uri_store_def fresh_def Let_def)

lemma fresh_if: "(b \<Longrightarrow> fresh (fst x)) \<Longrightarrow> (\<not> b \<Longrightarrow> fresh (fst y)) \<Longrightarrow> fresh (fst (if b then x else y))"
  by simp

lemma fresh_if': "fresh x \<Longrightarrow> fresh y \<Longrightarrow> fresh (if b then x else y)"
  by simp

lemma uriArgumentGet_fresh: "fresh (fst st) \<Longrightarrow> fresh (fst (uriArgumentGet k val st))"
proof (cases st)
  case (Pair ci t)
  assume "fresh (fst st)"
  then have ok: "fresh ci" using Pair by simp
  have store: "fresh (fst (uri_store k v (c, t)))" if "fresh c" for v c using uri_store_fresh that .
  have bad: "fresh (refuse_request d ci)" for d using ok by (simp add: fresh_def)
  have par: "fresh (set_param k' v ci)" for k' v using ok by (simp add: fresh_def)
  show ?thesis
  proof (cases val)
    case None
    then show ?thesis using Pair bad by (simp add: uriArgumentGet_def)
  next
    case (Some v)
    have opts: "fresh (refuse_request d ((set_param k' v ci)\<lparr>rc_ci := (rc_ci (set_param k' v ci))\<lparr>ci_uriParamOptions := o'\<rparr>\<rparr>))"
      "fresh ((set_param k' v ci)\<lparr>rc_ci := (rc_ci (set_param k' v ci))\<lparr>ci_uriParamOptions := o'\<rparr>\<rparr>)"
      "fresh ((set_param k' v ci)\<lparr>rc_uriParamTypes := ts\<rparr>)" for d k' o' ts
      using ok by (simp_all add: fresh_def)
    obtain r o' where r: "uriParamOptionsParse v (ci_uriParamOptions (rc_ci (set_param ''options'' v ci))) = (r, o')"
      by fastforce
    show ?thesis
      unfolding uriArgumentGet_def Let_def Some Pair prod.case option.case r
      by (intro fresh_if; (rule store)?; (rule fresh_if')?; (simp only: fst_conv ok bad par opts)?)
  qed
qed

lemma args_fresh: "fresh (fst st) \<Longrightarrow> fresh (fst (fold (\<lambda>(k, v). uriArgumentGet k v) args st))"
proof (induction args arbitrary: st)
  case (Cons a args)
  then show ?case using uriArgumentGet_fresh [of st "fst a" "snd a"] by (cases a) simp
qed simp

lemma start_fresh:
  assumes "connection_start g url m hs args t0 = Some (ci, t)"
  shows "fresh ci"
proof -
  let ?c = "connection_init g url m hs"
  have "rc_servicePathV ?c = []" "ci_apiVersion (rc_ci ?c) = apiVersionGet (c_str url)" "status ?c = SccOk" "rc_answer ?c = []"
    by (simp_all add: connection_init_def Let_def RestInfo_new_def ConnectionInfo_new_def set_param_def)
  then have "fresh (?c\<lparr>rc_tenantFromHttpHeader := x, rc_ci := (rc_ci ?c)\<lparr>ci_outMimeType := y\<rparr>\<rparr>)" for x y
    by (simp add: fresh_def apiVersionGet_def)
  moreover obtain x where "strToLower (c_str (hh_tenant (rc_httpHeaders ?c))) (int SERVICE_NAME_MAX_LEN + 1) = Some x"
    using assms by (cases "strToLower (c_str (hh_tenant (rc_httpHeaders ?c))) (int SERVICE_NAME_MAX_LEN + 1)")
      (simp_all add: connection_start_def Let_def)
  moreover obtain y t' where "wantedOutputSupported (ci_apiVersion (rc_ci ?c)) (hh_accept (rc_httpHeaders ?c)) t0 = (y, t')"
    by fastforce
  ultimately show ?thesis
    using assms args_fresh [of "(?c\<lparr>rc_tenantFromHttpHeader := x,
      rc_ci := (rc_ci ?c)\<lparr>ci_outMimeType := (if y = NOMIMETYPE then JSON else y)\<rparr>\<rparr>, t')" args]
    by (simp add: connection_start_def Let_def)
qed

subsection \<open>Error replies are always made\<close>

lemma StatusCode_render_defined:
  assumes "NUL \<notin> set (sc_details sc)"
  shows "\<exists>r. StatusCode_render sc indent comma showKey = Some r"
  using assms by (simp add: StatusCode_render_def escape_quotes_eq Let_def)

lemma StatusCode_render_nonempty: "StatusCode_render sc indent comma showKey = Some (out, sc') \<Longrightarrow> out \<noteq> []"
  by (auto simp: StatusCode_render_def startTag1_def Let_def split: option.splits if_splits)

lemma tagged_nonempty [simp]: "tagged indent tag out \<noteq> []"
  by (simp add: tagged_def startTag1_def)

lemma details_simps [simp]:
  "sc_details (StatusCode_of code details key) = details" "sc_code (StatusCode_of code details key) = code"
  "sc_details (StatusCode_fill_from sc sc') = sc_details sc'" "sc_code (StatusCode_fill_from sc sc') = sc_code sc'"
  "sc_details (StatusCode_fill sc code details) = details" "sc_code (StatusCode_fill sc code details) = code"
  by (simp_all add: StatusCode_of_def StatusCode_fill_from_def StatusCode_fill_def)

text \<open>Every response that a tag selects is rendered, and is not empty.\<close>

lemma error_responses_defined:
  assumes "NUL \<notin> set details" and "code \<noteq> SccNone" and "code \<noteq> SccOk"
  defines "ec \<equiv> StatusCode_of code details ''errorCode''"
  defines "filled \<equiv> StatusCode_fill_from (StatusCode_new ''statusCode'') ec"
  shows "\<exists>out. out \<noteq> [] \<and> RegisterContextResponse_render (RegisterContextResponse_error i ec) indent = Some out"
    "\<exists>out. out \<noteq> [] \<and> DiscoverContextAvailabilityResponse_render (DiscoverContextAvailabilityResponse_error ec) indent = Some out"
    "\<exists>out. out \<noteq> [] \<and> SubscribeContextAvailabilityResponse_render (SubscribeContextAvailabilityResponse_error i ec) indent = Some out"
    "\<exists>out. out \<noteq> [] \<and> UpdateContextAvailabilitySubscriptionResponse_render
       (UpdateContextAvailabilitySubscriptionResponse_error ec) indent = Some out"
    "\<exists>out. out \<noteq> [] \<and> UnsubscribeContextAvailabilityResponse_render i filled indent = Some out"
    "\<exists>out. out \<noteq> [] \<and> NotifyContextAvailabilityResponse_render ec indent = Some out"
    "\<exists>out r. out \<noteq> [] \<and> QueryContextResponse_render \<lparr>qcrs_cerV = [], qcrs_errorCode = filled\<lparr>sc_keyName := k\<rparr>\<rparr> ci indent = Some (out, r)"
    "\<exists>out. out \<noteq> [] \<and> SubscribeContextResponse_render (SubscribeContextResponse_error ec) indent = Some out"
    "\<exists>out. out \<noteq> [] \<and> UpdateContextSubscriptionResponse_render (SubscribeContextResponse_error ec) indent = Some out"
    "\<exists>out. out \<noteq> [] \<and> UnsubscribeContextResponse_render i filled indent = Some out"
    "\<exists>out r. out \<noteq> [] \<and> UpdateContextResponse_render (UpdateContextResponse_error ec) ci indent = Some (out, r)"
    "\<exists>out r. out \<noteq> [] \<and> NotifyContextResponse_render filled indent = Some (out, r)"
proof -
  have def: "\<exists>out sc'. StatusCode_render sc i c s = Some (out, sc')" if "sc_details sc = details" for sc i c s
    using StatusCode_render_defined [of sc i c s] that assms(1) by auto
  have d: "sc_details ec = details" "sc_details filled = details" "sc_code ec = code" "sc_code filled = code"
    by (simp_all add: ec_def filled_def)
  note defs = assms(2,3) d
  show "\<exists>out. out \<noteq> [] \<and> RegisterContextResponse_render (RegisterContextResponse_error i ec) indent = Some out"
    using def [of "ec\<lparr>sc_keyName := ''errorCode''\<rparr>" "indent @ ''  ''" False True]
    by (auto simp: RegisterContextResponse_render_def RegisterContextResponse_error_def defs)
  show "\<exists>out. out \<noteq> [] \<and> DiscoverContextAvailabilityResponse_render (DiscoverContextAvailabilityResponse_error ec) indent = Some out"
    using def [of "filled\<lparr>sc_keyName := ''errorCode''\<rparr>" "indent @ ''  ''" False True]
    by (auto simp: DiscoverContextAvailabilityResponse_render_def DiscoverContextAvailabilityResponse_error_def Let_def defs
        simp flip: filled_def)
  show "\<exists>out. out \<noteq> [] \<and> SubscribeContextAvailabilityResponse_render (SubscribeContextAvailabilityResponse_error i ec) indent = Some out"
    using def [of "StatusCode_fill_from (StatusCode_new ''errorCode'') ec" "indent @ ''  ''" False True]
    by (auto simp: SubscribeContextAvailabilityResponse_render_def SubscribeContextAvailabilityResponse_error_def
        availability_members_def Let_def defs)
  show "\<exists>out. out \<noteq> [] \<and> UpdateContextAvailabilitySubscriptionResponse_render
       (UpdateContextAvailabilitySubscriptionResponse_error ec) indent = Some out"
    using def [of "filled\<lparr>sc_keyName := ''errorCode''\<rparr>" "indent @ ''  ''" False True]
    by (auto simp: UpdateContextAvailabilitySubscriptionResponse_render_def UpdateContextAvailabilitySubscriptionResponse_error_def
        availability_members_def Let_def defs simp flip: filled_def)
  show "\<exists>out. out \<noteq> [] \<and> UnsubscribeContextAvailabilityResponse_render i filled indent = Some out"
    using def [of filled "indent @ ''  ''" False True] by (auto simp: UnsubscribeContextAvailabilityResponse_render_def defs)
  show "\<exists>out. out \<noteq> [] \<and> NotifyContextAvailabilityResponse_render ec indent = Some out"
    using def [of "ec\<lparr>sc_keyName := ''responseCode''\<rparr>" "indent @ ''  ''" False True]
    by (auto simp: NotifyContextAvailabilityResponse_render_def defs)
  show "\<exists>out r. out \<noteq> [] \<and> QueryContextResponse_render \<lparr>qcrs_cerV = [], qcrs_errorCode = filled\<lparr>sc_keyName := k\<rparr>\<rparr> ci indent = Some (out, r)"
  proof -
    obtain out sc' where r: "StatusCode_render (filled\<lparr>sc_keyName := k\<rparr>) (indent @ ''  '') False True = Some (out, sc')"
      using def [of "filled\<lparr>sc_keyName := k\<rparr>" "indent @ ''  ''" False True] d by auto
    have "sc_code sc' \<noteq> SccNone"
      using r assms(2) d by (auto simp: StatusCode_render_def Let_def split: option.splits)
    then show ?thesis
      using r defs by (simp add: QueryContextResponse_render_def ContextElementResponseVector_render_def Let_def startTag1_def)
  qed
  show "\<exists>out. out \<noteq> [] \<and> SubscribeContextResponse_render (SubscribeContextResponse_error ec) indent = Some out"
    using def [of "filled\<lparr>sc_keyName := ''errorCode''\<rparr>" "(indent @ ''  '') @ ''  ''" False True]
    by (auto simp: SubscribeContextResponse_render_def SubscribeContextResponse_error_def SubscribeError_render_def Let_def defs
        simp flip: filled_def)
  show "\<exists>out. out \<noteq> [] \<and> UpdateContextSubscriptionResponse_render (SubscribeContextResponse_error ec) indent = Some out"
    using def [of "filled\<lparr>sc_keyName := ''errorCode''\<rparr>" "(indent @ ''  '') @ ''  ''" False True]
    by (auto simp: UpdateContextSubscriptionResponse_render_def SubscribeContextResponse_error_def SubscribeError_render_def Let_def defs
        simp flip: filled_def)
  show "\<exists>out. out \<noteq> [] \<and> UnsubscribeContextResponse_render i filled indent = Some out"
    using def [of filled "indent @ ''  ''" False True] by (auto simp: UnsubscribeContextResponse_render_def defs)
  show "\<exists>out r. out \<noteq> [] \<and> UpdateContextResponse_render (UpdateContextResponse_error ec) ci indent = Some (out, r)"
    using def [of "filled\<lparr>sc_keyName := ''errorCode''\<rparr>" "indent @ ''  ''" False True]
    by (auto simp: UpdateContextResponse_render_def UpdateContextResponse_error_def Let_def startTag1_def defs simp flip: filled_def)
  show "\<exists>out r. out \<noteq> [] \<and> NotifyContextResponse_render filled indent = Some (out, r)"
    using def [of "filled\<lparr>sc_keyName := ''responseCode''\<rparr>" "indent @ ''  ''" False True]
    by (auto simp: NotifyContextResponse_render_def startTag1_def defs)
qed

lemma restErrorReplyGet_defined:
  assumes "NUL \<notin> set details" and "code \<noteq> SccNone" and "code \<noteq> SccOk"
  shows "\<exists>out c. restErrorReplyGet ci [] request code details = Some (out, c) \<and> out \<noteq> [] \<and> ci_apiVersion c = ci_apiVersion ci"
proof -
  note defined = error_responses_defined [OF assms, where indent = "[]"]
  have sc: "\<exists>out r. out \<noteq> [] \<and> StatusCode_render (StatusCode_of code details ''statusCode'') [] False True = Some (out, r)"
    using StatusCode_render_defined [of "StatusCode_of code details ''statusCode''" "[]" False True]
      StatusCode_render_nonempty [of "StatusCode_of code details ''statusCode''" "[]" False True] assms(1) by fastforce
  obtain out c where oe: "OrionError_render (OrionError_status (StatusCode_of code details ''errorCode''))
      (ci\<lparr>ci_httpStatusCode := SccOk\<rparr>) [] = (out, c)" by fastforce
  show ?thesis
    unfolding restErrorReplyGet_def Let_def
    using OrionError_render_out [OF oe] oe sc
      defined(1) [of "''000000000000000000000000''"] defined(2) defined(3) [of "''000000000000000000000000''"] defined(4)
      defined(5) [of "[]"] defined(6) defined(7) [of "''errorCode''" "ci\<lparr>ci_httpStatusCode := SccOk\<rparr>"] defined(8) defined(9)
      defined(10) [of "''000000000000000000000000''"] defined(11) [of "ci\<lparr>ci_httpStatusCode := SccOk\<rparr>"] defined(12)
    by (auto simp: oe)
qed

subsection \<open>The checks\<close>

definition name_component :: "string \<Rightarrow> bool" where
  "name_component c =
     (length (c_str c) \<le> SERVICE_PATH_MAX_COMPONENT_LEN \<and> list_all (\<lambda>x. isalnum x \<or> x = CHR ''_'') (c_str c))"

text \<open>A service path: absolute, with at most ten components, which are short names; the last may be the wildcard.\<close>

definition path_ok :: "string \<Rightarrow> bool" where
  "path_ok p =
     (p = [] \<or> hd p = CHR ''/''
      \<and> (case stringSplit p CHR ''/'' [] of
           (n, cs) \<Rightarrow> n \<le> SERVICE_PATH_MAX_LEVELS \<and> list_all name_component (butlast cs)
                     \<and> (cs = [] \<or> last cs = ''#'' \<or> name_component (last cs))))"

lemma components_check_iff:
  "components_check cs = 0 \<longleftrightarrow> list_all name_component (butlast cs) \<and> (cs = [] \<or> last cs = ''#'' \<or> name_component (last cs))"
proof (induction cs)
  case (Cons c cs)
  have "length (c_str ''#'') \<le> SERVICE_PATH_MAX_COMPONENT_LEN"
    by (simp add: c_str_def SERVICE_PATH_MAX_COMPONENT_LEN_def)
  then show ?case using Cons by (cases "cs = []") (auto simp: name_component_def)
qed simp

lemma components_check_range: "components_check cs \<in> {0, 3, 4}"
  by (induction cs) auto

abbreviation path_received :: "RestInfo \<Rightarrow> bool" where
  "path_received ci \<equiv> hh_servicePathReceived (rc_httpHeaders ci)"

lemma rest_servicePathCheck_exact:
  "if \<not> path_received ci \<or> path_ok p then rest_servicePathCheck ci p = (0, ci)
   else \<exists>s d. rest_servicePathCheck ci p = (s, answer_error d ci) \<and> s \<noteq> 0"
proof -
  obtain n cs where split: "stringSplit p CHR ''/'' [] = (n, cs)" by fastforce
  show ?thesis
    using components_check_iff [of cs] components_check_range [of cs]
    by (auto simp: rest_servicePathCheck_def path_ok_def split)
qed

lemma paths_check_exact:
  "if \<not> path_received ci \<or> list_all path_ok ps then paths_check ci ps = (0, ci)
   else \<exists>s d. paths_check ci ps = (s, answer_error d ci) \<and> s \<noteq> 0"
proof (induction ps)
  case (Cons p ps)
  then show ?case using rest_servicePathCheck_exact [of ci p] by (auto split: if_splits)
qed simp

definition service_paths :: "string \<Rightarrow> string list" where
  "service_paths sp =
     (case stringSplit sp CHR '','' [] of (n, v) \<Rightarrow> if n = 0 then [[]] else map (\<lambda>p. removeTrailingSlash (wsStrip p)) v)"

definition service_paths_ok :: "RestInfo \<Rightarrow> bool" where
  "service_paths_ok ci =
     (fst (stringSplit (hh_servicePath (rc_httpHeaders ci)) CHR '','' []) \<le> SERVICE_PATH_MAX_COMPONENTS
      \<and> (path_received ci \<longrightarrow> list_all path_ok (service_paths (hh_servicePath (rc_httpHeaders ci)))))"

lemma stringSplit_length: "d \<noteq> NUL \<Longrightarrow> stringSplit s d [] = (n, v) \<Longrightarrow> length v = n"
  by (auto simp: stringSplit_eq Let_def split: if_splits)

lemma servicePathSplit_exact:
  assumes "rc_servicePathV ci = []" and "rc_servicePath ci = hh_servicePath (rc_httpHeaders ci)"
  shows "if service_paths_ok ci
    then servicePathSplit ci = (True, ci\<lparr>rc_servicePathV := service_paths (rc_servicePath ci)\<rparr>)
    else \<exists>d v. servicePathSplit ci = (False, answer_error d (ci\<lparr>rc_servicePathV := v\<rparr>))"
proof -
  obtain n v where split: "stringSplit (hh_servicePath (rc_httpHeaders ci)) CHR '','' [] = (n, v)" by fastforce
  have len: "length v = n" using stringSplit_length [OF _ split] by simp
  let ?v = "map (\<lambda>p. removeTrailingSlash (wsStrip p)) v"
  show ?thesis
  proof (cases "n = 0")
    case True
    then show ?thesis
      using split len assms by (simp add: servicePathSplit_def service_paths_ok_def service_paths_def path_ok_def)
  next
    case False
    then show ?thesis
      using split len assms paths_check_exact [of "ci\<lparr>rc_servicePathV := ?v\<rparr>" ?v]
      by (auto simp: servicePathSplit_def service_paths_ok_def service_paths_def Let_def split: if_splits; blast)
  qed
qed

definition content_ok :: "RestInfo \<Rightarrow> bool" where
  "content_ok ci =
     (content_length ci = 0 \<or> hh_contentType (rc_httpHeaders ci) = ''application/json''
      \<or> ci_apiVersion (rc_ci ci) = ''v2'' \<and> hh_contentType (rc_httpHeaders ci) = ''text/plain'')"

lemma tagGet_OrionError: "tagGet ''OrionError'' = ''UnknownTag''"
  by code_simp

lemma answer_reply_orion:
  "\<exists>ci'. answer_reply ''OrionError'' code d ci = Some ci' \<and> rc_answer ci' \<noteq> [] \<and> status ci' = code
    \<and> rc_httpHeaders ci' = rc_httpHeaders ci \<and> ci_apiVersion (rc_ci ci') = ci_apiVersion (rc_ci ci)"
proof -
  obtain out c where o: "OrionError_render (OrionError_status (StatusCode_of code d ''errorCode''))
      ((rc_ci ci)\<lparr>ci_httpStatusCode := SccOk\<rparr>) [] = (out, c)" by fastforce
  have "restErrorReplyGet (rc_ci ci) [] ''OrionError'' code d = Some (out, c)"
    by (simp add: restErrorReplyGet_def tagGet_OrionError Let_def o)
  then show ?thesis using OrionError_render_out [OF o] by (simp add: answer_reply_def)
qed

lemma contentTypeCheck_exact:
  assumes "ci_apiVersion (rc_ci ci) \<in> {''v1'', ''v2''}"
  shows "if content_ok ci then contentTypeCheck ci = Some (False, ci)
    else \<exists>ci'. contentTypeCheck ci = Some (True, ci') \<and> rc_answer ci' \<noteq> [] \<and> status ci' = SccUnsupportedMediaType"
proof -
  let ?ci = "set_status SccUnsupportedMediaType ci"
  have *: "\<exists>ci'. map_option (Pair True) (answer_reply ''OrionError'' SccUnsupportedMediaType d ?ci) = Some (True, ci')
      \<and> rc_answer ci' \<noteq> [] \<and> status ci' = SccUnsupportedMediaType" for d
    using answer_reply_orion [of SccUnsupportedMediaType d ?ci] by auto
  show ?thesis
    unfolding contentTypeCheck_def content_ok_def Let_def using assms * by auto
qed

definition accepts_json :: "string \<Rightarrow> bool" where
  "accepts_json acceptList =
     list_ex (\<lambda>i. takeWhile (\<lambda>c. c \<noteq> CHR '';'') i \<in> {''*/*'', ''application/*'', ''application/json'', ''*/json''})
       (accept_items (if acceptList = [] then ''*/*'' else c_str acceptList))"

lemma wantedOutputSupported_eq:
  "wantedOutputSupported v a t =
     (if accepts_json a then (JSON, t) else if v = ''v2'' then (TEXT, t)
      else (NOMIMETYPE, bad_input (''no valid '' @ quoted ''Accept-format'' @ '' found'') t))"
  by (auto simp: wantedOutputSupported_def accepts_json_def list_ex_iff Let_def)

definition accept_ok :: "RestInfo \<Rightarrow> bool" where
  "accept_ok ci = (ci_apiVersion (rc_ci ci) = ''v2'' \<or> accepts_json (hh_accept (rc_httpHeaders ci)))"

lemma bad_input_replies [simp]: "rt_replies (bad_input d t) = rt_replies t"
  by (simp add: bad_input_def split: prod.split)

text \<open>The format of the answer.\<close>

definition out_format :: "RestInfo \<Rightarrow> MimeType" where
  "out_format ci = (if accepts_json (hh_accept (rc_httpHeaders ci)) then JSON else TEXT)"

lemma outMimeTypeCheck_exact:
  "if accept_ok ci then outMimeTypeCheck ci t = Some (False, ci\<lparr>rc_ci := (rc_ci ci)\<lparr>ci_outMimeType := out_format ci\<rparr>\<rparr>, t)
   else \<exists>ci' t'. outMimeTypeCheck ci t = Some (True, ci', t') \<and> rc_answer ci' \<noteq> [] \<and> status ci' = SccNotAcceptable
          \<and> rt_replies t' = rt_replies t"
proof -
  let ?ci = "set_status SccNotAcceptable (ci\<lparr>rc_ci := (rc_ci ci)\<lparr>ci_outMimeType := NOMIMETYPE\<rparr>\<rparr>)"
  let ?d = "''acceptable MIME types: application/json. Accept header in request: '' @ hh_accept (rc_httpHeaders ci)"
  obtain ci' where "answer_reply ''OrionError'' SccNotAcceptable ?d ?ci = Some ci'" "rc_answer ci' \<noteq> []" "status ci' = SccNotAcceptable"
    using answer_reply_orion [of SccNotAcceptable ?d ?ci] by blast
  then show ?thesis
    by (auto simp: outMimeTypeCheck_def wantedOutputSupported_eq accept_ok_def out_format_def Let_def)
qed

subsection \<open>The last call\<close>

text \<open>The connection as it is served: the slashes at the end of the URL removed, the service paths split.\<close>

definition prepared :: "string \<Rightarrow> RestInfo \<Rightarrow> RestInfo" where
  "prepared u ci = ci\<lparr>rc_url := u, rc_servicePath := hh_servicePath (rc_httpHeaders ci),
     rc_servicePathV := service_paths (hh_servicePath (rc_httpHeaders ci)),
     rc_ci := (rc_ci ci)\<lparr>ci_outMimeType := out_format ci\<rparr>,
     rc_inMimeType := fst (mimeTypeParse (hh_contentType (rc_httpHeaders ci)))\<rparr>"

definition url_ok :: "RestInfo \<Rightarrow> bool" where
  "url_ok ci = (\<not> forbiddenChars (Some (c_str (rc_url ci))) None)"

text \<open>The replies of a call are appended; the first of them has an answer.\<close>

definition replied :: "rest_thread \<Rightarrow> rest_thread \<Rightarrow> bool" where
  "replied t t' = (\<exists>code answer hs rs. rt_replies t' = rt_replies t @ (code, answer, hs) # rs \<and> answer \<noteq> [])"

lemma restReply_replied: "answer \<noteq> [] \<Longrightarrow> rt_replies t = rt_replies t0 \<Longrightarrow> replied t0 (restReply answer ci t)"
  by (simp add: restReply_def replied_def Let_def)

lemma restReply_more: "replied t0 t \<Longrightarrow> replied t0 (restReply answer ci t)"
  by (auto simp: restReply_def replied_def Let_def)

lemma bad_input_replied [simp]: "replied t0 (bad_input d t) = replied t0 t"
  by (simp add: replied_def)

lemma replied_same: "rt_replies t' = rt_replies t \<Longrightarrow> replied t0 t' = replied t0 t"
  by (simp add: replied_def)

text \<open>The checks either pass, and nothing was replied, or fail, with a reply and an answer.\<close>

lemma connection_checks_exact:
  assumes "fresh ci" and "url_ok ci \<Longrightarrow> url_strip (rc_url ci) = Some u"
  shows "if url_ok ci \<and> service_paths_ok ci \<and> content_ok ci \<and> accept_ok ci then connection_checks ci t = Some (prepared u ci, t)
    else \<exists>ci' t'. connection_checks ci t = Some (ci', t') \<and> rc_answer ci' \<noteq> [] \<and> replied t t'"
proof -
  define c1 where "c1 = (if url_ok ci then ci\<lparr>rc_url := u\<rparr> else refuse_request ''invalid character in URI'' ci)"
  define t1 where "t1 = (if url_ok ci then t else restReply (rc_answer c1) c1 (bad_input ''error in URI path'' t))"
  have 1: "urlCheck ci = Some (url_ok ci, c1)"
    using assms(2) by (simp add: urlCheck_def c1_def url_ok_def)
  define c2 where "c2 = c1\<lparr>rc_servicePath := hh_servicePath (rc_httpHeaders c1)\<rparr>"
  have h2: "rc_httpHeaders c2 = rc_httpHeaders ci" "rc_servicePathV c2 = []" "ci_apiVersion (rc_ci c2) = ci_apiVersion (rc_ci ci)"
    using assms(1) by (simp_all add: c2_def c1_def fresh_def)
  obtain ok c3 where 3: "servicePathSplit c2 = (ok, c3)" by fastforce
  have s3: "ok = service_paths_ok ci" "if ok then c3 = c2\<lparr>rc_servicePathV := service_paths (rc_servicePath c2)\<rparr> else rc_answer c3 \<noteq> []"
    and h3: "rc_httpHeaders c3 = rc_httpHeaders ci" "ci_apiVersion (rc_ci c3) = ci_apiVersion (rc_ci ci)"
    using servicePathSplit_exact [of c2] h2 3 by (auto simp: c2_def service_paths_ok_def split: if_splits)
  define t3 where "t3 = (if ok then t1 else restReply (rc_answer c3) c3 (bad_input ''error in ServicePath http-header'' t1))"
  have a1: "rc_answer c1 \<noteq> []" if "\<not> url_ok ci" using that by (simp add: c1_def)
  have a3: "rc_answer c3 \<noteq> []" if "\<not> (url_ok ci \<and> ok)"
    using that s3(2) a1 by (cases ok) (simp_all add: c2_def)
  have t3: "if url_ok ci \<and> ok then t3 = t else replied t t3"
    using a1 a3 restReply_replied [of "rc_answer c1" "bad_input ''error in URI path'' t" t c1]
      restReply_replied [of "rc_answer c3" "bad_input ''error in ServicePath http-header'' t" t c3]
      restReply_more by (auto simp: t3_def t1_def)
  have c3: "content_ok c3 = content_ok ci" "accept_ok c3 = accept_ok ci" "out_format c3 = out_format ci"
    using h3 by (simp_all add: content_ok_def accept_ok_def out_format_def)
  have checks: "connection_checks ci t = (case contentTypeCheck c3 of
        None \<Rightarrow> None
      | Some (bad, ci) \<Rightarrow>
          if bad then Some (ci, restReply (rc_answer ci) ci (bad_input ''invalid mime-type in Content-Type http-header'' t3))
          else (case outMimeTypeCheck ci t3 of
                  None \<Rightarrow> None
                | Some (bad, ci, t) \<Rightarrow>
                    if bad then Some (ci, restReply (rc_answer ci) ci (bad_input ''invalid mime-type in Accept http-header'' t))
                    else Some (ci\<lparr>rc_inMimeType := fst (mimeTypeParse (hh_contentType (rc_httpHeaders ci)))\<rparr>, t)))"
    unfolding connection_checks_def 1 Let_def option.case prod.case t3_def t1_def using 3 unfolding c2_def by simp
  have answered: "replied t (restReply a c (bad_input d t'))" if "a \<noteq> []" "rt_replies t' = rt_replies t3" for a c d t'
    using that t3 restReply_replied [of a "bad_input d t'" t c] restReply_more [of t "bad_input d t'"] replied_same [of t' t3 t]
    by (cases "url_ok ci \<and> ok") auto
  show ?thesis
  proof (cases "content_ok ci")
    case False
    then obtain c4 where "contentTypeCheck c3 = Some (True, c4)" "rc_answer c4 \<noteq> []"
      using contentTypeCheck_exact [of c3] c3 h3 assms(1) by (auto simp: fresh_def)
    then show ?thesis using False checks answered [of "rc_answer c4" t3] by simp
  next
    case content: True
    then have 4: "contentTypeCheck c3 = Some (False, c3)"
      using contentTypeCheck_exact [of c3] c3 h3 assms(1) by (auto simp: fresh_def)
    show ?thesis
    proof (cases "accept_ok ci")
      case False
      then obtain c5 t5 where "outMimeTypeCheck c3 t3 = Some (True, c5, t5)" "rc_answer c5 \<noteq> []" "rt_replies t5 = rt_replies t3"
        using outMimeTypeCheck_exact [of c3 t3] c3 by auto
      then show ?thesis using False checks 4 answered [of "rc_answer c5" t5] by simp
    next
      case accept: True
      then have 5: "outMimeTypeCheck c3 t3 = Some (False, c3\<lparr>rc_ci := (rc_ci c3)\<lparr>ci_outMimeType := out_format ci\<rparr>\<rparr>, t3)"
        using outMimeTypeCheck_exact [of c3 t3] c3 by simp
      show ?thesis
      proof (cases "url_ok ci \<and> ok")
        case True
        then show ?thesis
          using checks 4 5 content accept s3 t3 h2 h3 by (simp add: prepared_def c2_def c1_def)
      next
        case False
        then show ?thesis using checks 4 5 s3(1) a3 t3 by auto
      qed
    qed
  qed
qed

lemma connection_data_fresh: "connection_data d (ci, t) = Some (ci', t') \<Longrightarrow> fresh ci \<Longrightarrow> fresh ci'"
  by (auto simp: connection_data_def fresh_def Let_def split: if_splits payload_buffer.splits)

lemma data_calls_fresh: "data_calls ds (ci, t) = Some (ci', t') \<Longrightarrow> fresh ci \<Longrightarrow> fresh ci'"
proof (induction ds arbitrary: ci t)
  case (Cons d ds)
  then show ?case using connection_data_fresh [of d ci t] by (auto split: option.splits)
qed simp

text \<open>A request that is served: its URL, service paths, headers and arguments are in order, and its payload is there and
  not too long.\<close>

definition request_accepted :: "string \<Rightarrow> RestInfo \<Rightarrow> bool" where
  "request_accepted u ci =
     (url_ok ci \<and> service_paths_ok ci \<and> content_ok ci \<and> accept_ok ci \<and> rc_answer ci = []
      \<and> content_length ci \<le> PAYLOAD_MAX_SIZE \<and> \<not> payload_missing (prepared u ci))"

lemma size_details_no_NUL: "NUL \<notin> set (size_details len)"
  using dec_chars by (auto simp: size_details_def show_int_def)

lemma zero_length_no_NUL: "NUL \<notin> set ''Zero/No Content-Length in PUT/POST/PATCH request''"
  by simp

lemma connection_treat_rejected:
  assumes "fresh ci" and "url_strip (rc_url ci) = Some u" and "\<not> request_accepted u ci"
  shows "\<exists>ci' t'. connection_treat url serve ci t = Some (ci', t') \<and> replied t t'"
proof (cases "url_ok ci \<and> service_paths_ok ci \<and> content_ok ci \<and> accept_ok ci")
  case False
  then obtain c1 t1 where 1: "connection_checks ci t = Some (c1, t1)" "rc_answer c1 \<noteq> []" "replied t t1"
    using connection_checks_exact [OF assms(1), of u t] assms(2) by auto
  let ?details = "size_details (content_length c1)"
  obtain out c where big: "restErrorReplyGet (rc_ci c1) [] (rc_url c1) SccRequestEntityTooLarge ?details = Some (out, c)" "out \<noteq> []"
    using restErrorReplyGet_defined [OF size_details_no_NUL, of SccRequestEntityTooLarge] by blast
  have len: "\<exists>out c. restErrorReplyGet ci' [] url SccLengthRequired ''Zero/No Content-Length in PUT/POST/PATCH request'' = Some (out, c)" for ci'
    using restErrorReplyGet_defined [OF zero_length_no_NUL, of SccLengthRequired ci' url] by blast
  have more: "replied t (restReply a c' (bad_input d t1))" "replied t (bad_input d (restReply a c' t1))"
    "replied t (restReply a c' (bad_input d (bad_input d' t1)))" "replied t (bad_input d (restReply a c' (bad_input d' t1)))" for a c' d d'
    using restReply_more 1(3) by simp_all
  obtain out2 c2 where l1: "restErrorReplyGet (rc_ci c1) [] url SccLengthRequired ''Zero/No Content-Length in PUT/POST/PATCH request'' = Some (out2, c2)"
    using len by blast
  show ?thesis
    using 1 big l1 more by (auto simp: connection_treat_def answer_reply_def Let_def payload_missing_def)
next
  case True
  then have 1: "connection_checks ci t = Some (prepared u ci, t)"
    using connection_checks_exact [OF assms(1), of u t] assms(2) by simp
  have p: "status (prepared u ci) = status ci" "rc_answer (prepared u ci) = rc_answer ci" "content_length (prepared u ci) = content_length ci"
    "rc_url (prepared u ci) = u"
    by (simp_all add: prepared_def)
  let ?details = "size_details (content_length ci)"
  obtain out c where big: "restErrorReplyGet (rc_ci (prepared u ci)) [] u SccRequestEntityTooLarge ?details = Some (out, c)" "out \<noteq> []"
    using restErrorReplyGet_defined [OF size_details_no_NUL, of SccRequestEntityTooLarge] by blast
  obtain out2 c2 where len: "restErrorReplyGet (rc_ci (prepared u ci)) [] url SccLengthRequired
      ''Zero/No Content-Length in PUT/POST/PATCH request'' = Some (out2, c2)" "out2 \<noteq> []"
    using restErrorReplyGet_defined [OF zero_length_no_NUL, of SccLengthRequired] by blast
  have one: "replied t (restReply a c' (bad_input d t))" "replied t (bad_input d (restReply a c' t))"
    "replied t (restReply a c' (bad_input d (bad_input d' t)))" if "a \<noteq> []" for a c' d d'
    using restReply_replied [OF that] by simp_all
  show ?thesis
    using True assms(1,3) 1 p big len one
    by (cases "rc_answer ci = []") (auto simp: connection_treat_def answer_reply_def request_accepted_def fresh_def Let_def payload_missing_def)
qed

text \<open>C8: the gate of the REST server: a request that passed through the first two kinds of calls is served exactly when it is
  accepted (its URL, service paths, content type, accepted formats and arguments are in order, its payload is announced where
  there must be one, and is not too long), with its URL and service paths prepared and nothing replied before; any other
  request is not served, and is answered with a text. The URL must have a character that is not a slash.\<close>

theorem request_gate:
  assumes "connection_start generated url method headers args t0 = Some (ci0, t1)"
    and "data_calls ds (ci0, t1) = Some (ci, t)" and "url_strip (rc_url ci) = Some u"
  shows "if request_accepted u ci
    then connection_treat url serve ci t = serve (prepared u ci) t \<and> status (prepared u ci) = SccOk
    else \<exists>ci' t'. connection_treat url serve ci t = Some (ci', t') \<and> replied t t'"
proof -
  have fresh: "fresh ci" using data_calls_fresh [OF assms(2)] start_fresh [OF assms(1)] by simp
  show ?thesis
  proof (cases "request_accepted u ci")
    case True
    then have "connection_checks ci t = Some (prepared u ci, t)"
      using connection_checks_exact [OF fresh, of u t] assms(3) by (simp add: request_accepted_def)
    moreover have "status (prepared u ci) = SccOk" "rc_answer (prepared u ci) = []" "content_length (prepared u ci) = content_length ci"
      using True fresh by (simp_all add: prepared_def request_accepted_def fresh_def)
    ultimately show ?thesis
      using True by (simp add: connection_treat_def request_accepted_def Let_def)
  qed (use connection_treat_rejected [OF fresh assms(3)] in simp)
qed

abbreviation demo_start :: "(RestInfo \<times> rest_thread) option" where
  "demo_start \<equiv> connection_start ''id'' ''/v2/entities/'' ''GET'' [(''fiware-servicepath'', ''/Madrid/Gardens/#'')]
     [(''limit'', Some ''5''), (''options'', Some ''count'')] thread_demo"

theorem request_gate_witness:
  "\<exists>ci t. demo_start = Some (ci, t) \<and> data_calls [] (ci, t) = Some (ci, t)
     \<and> url_strip (rc_url ci) = Some (''/v2/entities'' @ [NUL]) \<and> request_accepted (''/v2/entities'' @ [NUL]) ci
     \<and> connection_treat ''/v2/entities/'' (\<lambda>ci t. Some (ci, t)) ci t = Some (prepared (''/v2/entities'' @ [NUL]) ci, t)"
proof -
  let ?u = "''/v2/entities'' @ [NUL]"
  have run: "map_option (\<lambda>(ci, t). (url_strip (rc_url ci), (url_ok ci, service_paths_ok ci, content_ok ci, accept_ok ci),
        rc_answer ci, content_length ci, payload_missing (prepared ?u ci))) demo_start
      = Some (Some ?u, (True, True, True, True), [], 0, False)"
    by code_simp
  then obtain ci t where start: "demo_start = Some (ci, t)" by auto
  then have u: "url_strip (rc_url ci) = Some ?u" and ok: "request_accepted ?u ci"
    using run by (simp_all add: request_accepted_def PAYLOAD_MAX_SIZE_def)
  show ?thesis
    using request_gate [OF start, of "[]" ci t ?u "\<lambda>ci t. Some (ci, t)"] start u ok by simp
qed

subsection \<open>Requests that are not treated as they should be\<close>

text \<open>A page size above \<open>2\<^sup>3\<^sup>1\<close> is negative for the check, which only refuses zero and what is above the maximum.\<close>

lemma huge_limit_accepted:
  "status (fst (uriArgumentGet ''limit'' (Some ''2147483648'') (ci, t))) = status ci"
proof -
  have "dec 2147483648 = ''2147483648''" by (simp add: dec.simps digit_char_def char_of_def bit_Suc_0_iff)
  then have "strtol10 ''2147483648'' = 2147483648" using strtol10_dec [of 2147483648 "[]"] by simp
  then have "atoi ''2147483648'' = - 2147483648" by (simp add: atoi_def wrap32_def)
  moreover have "list_all isdigit ''2147483648''" by code_simp
  moreover have "\<not> uri_forbidden ''limit'' ''2147483648''" by code_simp
  ultimately show ?thesis by (simp add: uriArgumentGet_def uri_store_def Let_def)
qed

text \<open>The flag for plain text starts as true, so with version 2 no header \<^verbatim>\<open>Accept\<close> is refused.\<close>

lemma xml_accepted: "wantedOutputSupported ''v2'' ''application/xml'' t = (TEXT, t)"
proof -
  have "\<not> accepts_json ''application/xml''" by code_simp
  then show ?thesis by (simp add: wantedOutputSupported_eq)
qed

text \<open>The URL of only a slash makes the loop that removes slashes leave the string.\<close>

lemma root_url_undefined: "url_strip ''/'' = None"
  by code_simp

text \<open>An error in the service path is replied where it is found, and again at the end.\<close>

lemma path_error_replied_twice:
  assumes "fresh ci" and "url_strip (rc_url ci) = Some u" and "rc_answer ci = []"
    and "url_ok ci" and "\<not> service_paths_ok ci" and "content_ok ci" and "accept_ok ci"
    and "content_length ci \<le> PAYLOAD_MAX_SIZE" and "\<not> payload_missing (prepared u ci)"
  shows "\<exists>ci' t' c1 c2 answer h1 h2. connection_treat url serve ci t = Some (ci', t') \<and> answer \<noteq> []
    \<and> rt_replies t' = rt_replies t @ [(c1, answer, h1), (c2, answer, h2)]"
proof -
  define c2 where "c2 = ci\<lparr>rc_url := u, rc_servicePath := hh_servicePath (rc_httpHeaders ci)\<rparr>"
  have "rc_servicePathV c2 = []" "rc_servicePath c2 = hh_servicePath (rc_httpHeaders c2)" "\<not> service_paths_ok c2"
    using assms(1,5) by (simp_all add: c2_def fresh_def service_paths_ok_def)
  then obtain d v where split: "servicePathSplit c2 = (False, answer_error d (c2\<lparr>rc_servicePathV := v\<rparr>))"
    using servicePathSplit_exact [of c2] by auto
  define c3 where "c3 = answer_error d (c2\<lparr>rc_servicePathV := v\<rparr>)"
  have h: "rc_httpHeaders c3 = rc_httpHeaders ci" "ci_apiVersion (rc_ci c3) = ci_apiVersion (rc_ci ci)" "rc_answer c3 \<noteq> []"
    "rc_verb c3 = rc_verb ci" "rc_url c3 = u"
    by (simp_all add: c3_def c2_def)
  have ok: "content_ok c3" "accept_ok c3" using assms(6,7) h by (simp_all add: content_ok_def accept_ok_def)
  have v: "ci_apiVersion (rc_ci c3) \<in> {''v1'', ''v2''}" using assms(1) h by (simp add: fresh_def)
  define c4 where "c4 = c3\<lparr>rc_ci := (rc_ci c3)\<lparr>ci_outMimeType := out_format c3\<rparr>,
    rc_inMimeType := fst (mimeTypeParse (hh_contentType (rc_httpHeaders c3)))\<rparr>"
  define t3 where "t3 = restReply (rc_answer c3) c3 (bad_input ''error in ServicePath http-header'' t)"
  have checks: "connection_checks ci t = Some (c4, t3)"
    using assms(2,4) split contentTypeCheck_exact [OF v] outMimeTypeCheck_exact [of c3 t3] ok
    by (simp add: connection_checks_def urlCheck_def url_ok_def Let_def t3_def c4_def flip: c2_def c3_def)
  have last: "rc_answer c4 = rc_answer c3" "content_length c4 \<le> PAYLOAD_MAX_SIZE" "\<not> payload_missing c4"
    using assms(8,9) h by (simp_all add: c4_def payload_missing_def prepared_def)
  have "connection_treat url serve ci t = Some (c4, restReply (rc_answer c3) c4
      (bad_input (if status c4 \<noteq> SccOk then ''error in URI parameters'' else rc_answer c3) t3))"
    using checks last h(3) by (simp add: connection_treat_def Let_def)
  then show ?thesis using h(3) by (auto simp: restReply_def t3_def Let_def)
qed

text \<open>A payload that does not parse is replied by the parser and by its caller.\<close>

lemma parse_error_replied_twice:
  assumes "service_lookup (sv_services env) (rc_method ci) compV (rc_payloadWord ci) = Some (Some s, w)" and "rs_verb s \<noteq> ''*''"
    and "compV = snd (stringSplit (rc_url ci) CHR ''/'' [])" and "rc_url ci \<noteq> []" and "rc_url ci \<noteq> ''/''"
    and "payload_bytes ci t = Some b" and "c_str b \<noteq> []" and "rc_inMimeType ci = TEXT"
    and "\<And>c. fst (sv_textRequestTreat env (c_str b) c (rs_request s) pd) = e" and "e \<noteq> ''OK''"
  shows "\<exists>ci' t' h1 h2 c1. restService env pd ci t = Some (ci', t')
    \<and> rt_replies t' = rt_replies t @ [(c1, e, h1), (c1, e, h2)]"
proof -
  let ?c = "(set_status SccOk ci)\<lparr>rc_payloadWord := w\<rparr>"
  have b: "payload_bytes ?c t = Some b"
    using assms(6) by (simp add: payload_bytes_def payload_buf_def set_status_def)
  obtain c' pd' where r: "sv_textRequestTreat env (c_str b) ?c (rs_request s) pd = (e, c', pd')"
    using assms(9) [of ?c] by (cases "sv_textRequestTreat env (c_str b) ?c (rs_request s) pd") auto
  have m: "rc_inMimeType ?c = TEXT" "rc_method (set_status SccOk ci) = rc_method ci" "rc_payloadWord (set_status SccOk ci) = rc_payloadWord ci"
    using assms(8) by (simp_all add: set_status_def)
  have p: "payloadParse env (c_str b) ?c pd s compV t = Some (e, c', pd', restReply e c' t)"
    using m(1) r assms(10) by (simp add: payloadParse_def)
  have "restService env pd ci t = Some (c', restReply e c' (bad_input e (restReply e c' t)))"
    unfolding restService_def Let_def using assms(1,2,4,5,7,10) b p m(2,3) by (simp flip: assms(3))
  then show ?thesis by (auto simp: restReply_def Let_def)
qed

text \<open>A wrong method is answered with one reply, which is empty and has the header of the routine.\<close>

lemma wrong_method_reply:
  assumes "service_lookup (sv_services env) (rc_method ci) compV (rc_payloadWord ci) = Some (Some s, w)"
    and "compV = snd (stringSplit (rc_url ci) CHR ''/'' [])" and "rc_url ci \<noteq> []" and "rc_url ci \<noteq> ''/''"
    and "rs_verb s = ''*''" and "allow_header (rs_treat s) = Some h" and "rc_tenantFromHttpHeader ci = []"
  shows "\<exists>ci' t'. restService env pd ci t = Some (ci', t')
    \<and> rt_replies t' = rt_replies t @ [(SccBadVerb, [], rc_httpHeader ci @ [(''Allow'', h)])]"
proof -
  have m: "rc_url (set_status SccOk ci) = rc_url ci" "rc_method (set_status SccOk ci) = rc_method ci"
    "rc_payloadWord (set_status SccOk ci) = rc_payloadWord ci" "rc_tenantFromHttpHeader (set_status SccOk ci) = []"
    "rc_httpHeader (set_status SccOk ci) = rc_httpHeader ci"
    using assms(7) by (simp_all add: set_status_def)
  have "restService env pd ci t = service_run env s compV pd ((set_status SccOk ci)\<lparr>rc_payloadWord := w\<rparr>) t"
    unfolding restService_def Let_def using assms(1,3,4,5) m by (simp flip: assms(2))
  then show ?thesis
    using assms(5,6) m by (simp add: service_run_def treat_service_def bad_verb_def restReply_def Let_def set_status_def)
qed

end
