(* ===== verification/Orion_SubCacheDb.thy ===== *)
theory Orion_SubCacheDb
  imports Orion_Trigger
begin

section \<open>The subscription cache and the database: mongoBackend/mongoSubCache.cpp\<close>

text \<open>
  The cache is filled from the documents of the subscriptions, each inserted by \<^verbatim>\<open>mongoSubCacheItemInsert\<close>; what it
  has counted goes back by \<^verbatim>\<open>mongoSubCacheUpdate\<close>. \<^const>\<open>None\<close> is an exception of the driver, which is thrown by an element
  of another type than asked for and is not caught. The address of the new item, the printing of a document and what the
  queries query are parameters. The refresh of \<^verbatim>\<open>subCache.cpp\<close> on top of these definitions refines the one on the items.
\<close>

subsection \<open>Reading a document\<close>

fun sub_entities :: "sf_env \<Rightarrow> bson list \<Rightarrow> EntityInfo list option" where
  "sub_entities env [] = Some []"
| "sub_entities env (e # es) =
     Option.bind (embeddedObject (Some e)) (\<lambda>entity.
       if \<not> hasField entity ''id'' then sub_entities env es
       else map_option (Cons (EntityInfo_new env (getStringField entity ''id'')
              (if hasField entity ''type'' then getStringField entity ''type'' else [])
              (if hasField entity ''isPattern'' then getStringField entity ''isPattern'' else ''false'')))
            (sub_entities env es))"

fun sub_conditions :: "bson list \<Rightarrow> NotifyCondition list option" where
  "sub_conditions [] = Some []"
| "sub_conditions (e # es) =
     Option.bind (embeddedObject (Some e)) (\<lambda>condition.
       let condType = getStringField condition ''type''
       in if condType \<noteq> ''ONCHANGE'' then sub_conditions es
          else Option.bind (Option.bind (bson_Array (getField condition ''value'')) strings_of) (\<lambda>condValues.
                 map_option (Cons \<lparr>nc_type = condType, nc_condValueList = condValues\<rparr>) (sub_conditions es)))"

definition SubscriptionExpression_new :: SubscriptionExpression where
  "SubscriptionExpression_new = \<lparr>ex_q = [], ex_geometry = [], ex_coords = [], ex_georel = [], ex_stringFilter = StringFilter_new\<rparr>"

text \<open>A member that is a string, with the value for a document without it; \<^verbatim>\<open>String()\<close> throws on another type.\<close>

definition string_or :: "doc \<Rightarrow> string \<Rightarrow> string \<Rightarrow> string option" where
  "string_or sub field dflt = (if hasField sub field then bson_String (getField sub field) else Some dflt)"

definition long_or :: "doc \<Rightarrow> string \<Rightarrow> int \<Rightarrow> int" where
  "long_or sub field dflt = (if hasField sub field then getIntOrLongFieldAsLong sub field else dflt)"

definition oid_of :: "bson \<Rightarrow> string option" where
  "oid_of e = (case e of BOid s \<Rightarrow> Some s | _ \<Rightarrow> None)"

text \<open>What becomes of a document: a return value other than zero, or the item that is inserted.\<close>

definition sub_of_doc :: "sf_env \<Rightarrow> string \<Rightarrow> bson \<Rightarrow> doc \<Rightarrow> (int + CachedSubscription) option" where
  "sub_of_doc env tenant idField sub =
     Option.bind (string_or sub ''format'' ''legacy'') (\<lambda>renderFormatString.
     Option.bind (bson_Array (getField sub ''entities'')) (\<lambda>eVec.
     Option.bind (bson_Array (getField sub ''attrs'')) (\<lambda>attrVec.
     Option.bind (bson_Array (getField sub ''conditions'')) (\<lambda>condVec.
     Option.bind (oid_of idField) (\<lambda>subId.
     Option.bind (string_or sub ''servicePath'' ''/'') (\<lambda>servicePath.
     Option.bind (string_or sub ''reference'' ''NO REF'') (\<lambda>ref.
     Option.bind (string_or sub ''status'' ''active'') (\<lambda>status.
     Option.bind (sub_entities env eVec) (\<lambda>entities.
       if entities = [] then Some (Inl (- 3))
       else Option.bind (strings_of attrVec) (\<lambda>attrs.
            Option.bind (sub_conditions condVec) (\<lambda>conditions.
              if conditions = [] then Some (Inl (- 4))
              else Some (Inr
                \<lparr>entityIdInfos = entities, attributes = attrs, notifyConditionVector = conditions, cs_tenant = Some (c_str tenant),
                 cs_servicePath = c_str servicePath, subscriptionId = c_str subId, throttling = long_or sub ''throttling'' (- 1),
                 expirationTime = long_or sub ''expiration'' 0, lastNotificationTime = long_or sub ''lastNotification'' (- 1),
                 cs_status = c_str status, count = 0, cs_renderFormat = stringToRenderFormat renderFormatString False,
                 reference = c_str ref, expression = SubscriptionExpression_new, nxt = None\<rparr>))))))))))))"

datatype db_event = DbErrorEvent string | DbErrorResetEvent

definition mongoSubCacheItemInsert ::
    "sf_env \<Rightarrow> (doc \<Rightarrow> string) \<Rightarrow> string \<Rightarrow> nat \<Rightarrow> doc \<Rightarrow> SubCache \<Rightarrow> (int \<times> db_event \<times> SubCache) option" where
  "mongoSubCacheItemInsert env toString tenant a sub sc =
     (case getField sub ''_id'' of
        None \<Rightarrow> Some (- 1, DbErrorEvent (''error retrieving _id field in doc: '' @ quoted (toString sub)), sc)
      | Some idField \<Rightarrow>
          Option.bind (sub_of_doc env tenant idField sub) (\<lambda>r. case r of
            Inl n \<Rightarrow> Some (n, DbErrorResetEvent, sc)
          | Inr c \<Rightarrow> map_option (\<lambda>sc. (0, DbErrorResetEvent, sc)) (subCacheItemInsert a (sc\<lparr>heap := (heap sc)(a \<mapsto> c)\<rparr>))))"

text \<open>The other insertion, of a subscription that was just created or changed; it is given what the document does not have.\<close>

definition mongoSubCacheItemInsert_args ::
    "sf_env \<Rightarrow> string \<Rightarrow> nat \<Rightarrow> doc \<Rightarrow> string option \<Rightarrow> string option \<Rightarrow> int \<Rightarrow> int \<Rightarrow> string \<Rightarrow> string \<Rightarrow> string \<Rightarrow> string \<Rightarrow> string
       \<Rightarrow> StringFilter option \<Rightarrow> RenderFormat \<Rightarrow> SubCache \<Rightarrow> (int \<times> SubCache) option" where
  "mongoSubCacheItemInsert_args env tenant a sub subId servicePath lastNotification expiration status q geometry coords georel
       stringFilterP renderFormat sc =
     (case subId of
        None \<Rightarrow> Some (- 1, sc)
      | Some sid \<Rightarrow>
          if c_str sid = [] then Some (- 1, sc)
          else case servicePath of
                 None \<Rightarrow> Some (- 2, sc)
               | Some spath \<Rightarrow>
                   if c_str spath = [] then Some (- 2, sc)
                   else Option.bind (Option.bind (bson_Array (getField sub ''entities'')) (sub_entities env)) (\<lambda>entities.
                     if entities = [] then Some (- 4, sc)
                     else Option.bind (bson_Array (getField sub ''attrs'')) (\<lambda>attrVec.
                     Option.bind (bson_Array (getField sub ''conditions'')) (\<lambda>condVec.
                     Option.bind (string_or sub ''reference'' ''NO REF'') (\<lambda>ref.
                     Option.bind (strings_of attrVec) (\<lambda>attrs.
                     Option.bind (sub_conditions condVec) (\<lambda>conditions.
                       if conditions = [] then Some (- 5, sc)
                       else let c =
                         \<lparr>entityIdInfos = entities, attributes = attrs, notifyConditionVector = conditions,
                          cs_tenant = (if c_str tenant = [] then None else Some (c_str tenant)),
                          cs_servicePath = c_str spath, subscriptionId = c_str sid, throttling = long_or sub ''throttling'' (- 1),
                          expirationTime = expiration,
                          lastNotificationTime = (if lastNotification = - 1 \<and> hasField sub ''lastNotification''
                                                  then wrap32 (getIntOrLongFieldAsLong sub ''lastNotification'') else lastNotification),
                          cs_status = status, count = 0, cs_renderFormat = renderFormat, reference = c_str ref,
                          expression = \<lparr>ex_q = q, ex_geometry = geometry, ex_coords = coords, ex_georel = georel,
                            ex_stringFilter = filled_filter env stringFilterP\<rparr>, nxt = None\<rparr>
                       in map_option (\<lambda>sc. (0, sc)) (subCacheItemInsert a (sc\<lparr>heap := (heap sc)(a \<mapsto> c)\<rparr>)))))))))"

subsection \<open>The refresh\<close>

text \<open>The documents that the cursor gives, each with the address of the item that is allocated for it.\<close>

fun refresh_loop ::
    "sf_env \<Rightarrow> (doc \<Rightarrow> string) \<Rightarrow> string \<Rightarrow> (nat \<times> cursor_step) list \<Rightarrow> SubCache \<Rightarrow> (db_event list \<times> SubCache) option" where
  "refresh_loop env toString tenant [] sc = Some ([], sc)"
| "refresh_loop env toString tenant ((a, CDoc sub) # steps) sc =
     Option.bind (mongoSubCacheItemInsert env toString tenant a sub sc) (\<lambda>(r, ev, sc).
       map_option (map_prod (Cons ev) id) (refresh_loop env toString tenant steps sc))"
| "refresh_loop env toString tenant ((a, CAssertion err) # steps) sc = refresh_loop env toString tenant steps sc"
| "refresh_loop env toString tenant ((a, CException err) # steps) sc = refresh_loop env toString tenant steps sc"

definition mongoSubCacheRefresh ::
    "db_conf \<Rightarrow> sf_env \<Rightarrow> (doc \<Rightarrow> string) \<Rightarrow> (string \<Rightarrow> string + (nat \<times> cursor_step) list) \<Rightarrow> string \<Rightarrow> SubCache
       \<Rightarrow> (db_event list \<times> SubCache) option" where
  "mongoSubCacheRefresh conf env toString query database sc =
     Option.bind (tenantFromDb conf database) (\<lambda>tenant.
       case query (getSubscribeContextCollectionName conf tenant) of
         Inl err \<Rightarrow> Some ([], sc)
       | Inr steps \<Rightarrow> refresh_loop env toString tenant steps sc)"

fun refresh_databases ::
    "db_conf \<Rightarrow> sf_env \<Rightarrow> (doc \<Rightarrow> string) \<Rightarrow> (string \<Rightarrow> string + (nat \<times> cursor_step) list) \<Rightarrow> string list \<Rightarrow> SubCache
       \<Rightarrow> (db_event list \<times> SubCache) option" where
  "refresh_databases conf env toString query [] sc = Some ([], sc)"
| "refresh_databases conf env toString query (db # dbs) sc =
     Option.bind (mongoSubCacheRefresh conf env toString query db sc) (\<lambda>(evs, sc).
       map_option (map_prod (append evs) id) (refresh_databases conf env toString query dbs sc))"

text \<open>\<open>found\<close> are the databases that the server lists.\<close>

definition refreshed_databases :: "db_conf \<Rightarrow> string list \<Rightarrow> string list" where
  "refreshed_databases conf found = (if multitenant conf then getOrionDatabases conf found else []) @ [dbPrefix conf]"

definition subCacheRefresh_db ::
    "db_conf \<Rightarrow> sf_env \<Rightarrow> (doc \<Rightarrow> string) \<Rightarrow> string list \<Rightarrow> (string \<Rightarrow> string + (nat \<times> cursor_step) list) \<Rightarrow> SubCache
       \<Rightarrow> (db_event list \<times> SubCache) option" where
  "subCacheRefresh_db conf env toString found query sc =
     Option.bind (subCacheDestroy sc) (\<lambda>sc.
       map_option (\<lambda>(evs, sc). (evs, sc\<lparr>noOfRefreshes := noOfRefreshes sc + 1\<rparr>))
         (refresh_databases conf env toString query (refreshed_databases conf found) sc))"

subsection \<open>Writing back\<close>

definition mongoSubCacheUpdate :: "db_conf \<Rightarrow> string \<Rightarrow> string \<Rightarrow> int \<Rightarrow> int \<Rightarrow> (string \<times> doc \<times> doc) list" where
  "mongoSubCacheUpdate conf tenant subId cnt lastNotification =
     (let collection = getSubscribeContextCollectionName conf tenant
      in (if cnt \<noteq> 0 then [(collection, [(''_id'', BOid subId)], [(''$inc'', BObj [(''count'', BLong cnt)])])] else [])
         @ (if lastNotification \<noteq> 0
            then [(collection,
                   [(''_id'', BOid subId),
                    (''$or'', BArr [BObj [(''lastNotification'', BObj [(''$lt'', BLong lastNotification)])],
                                    BObj [(''lastNotification'', BObj [(''$exists'', BBool False)])]])],
                   [(''$set'', BObj [(''lastNotification'', BLong lastNotification)])])]
            else []))"

subsection \<open>The refresh from the database refines the refresh on items\<close>

text \<open>A document is readable if no exception is thrown; the items that the documents of a database give.\<close>

definition step_item :: "sf_env \<Rightarrow> string \<Rightarrow> nat \<times> cursor_step \<Rightarrow> (nat \<times> CachedSubscription) option" where
  "step_item env tenant st =
     (case st of
        (a, CDoc sub) \<Rightarrow>
          (case Option.bind (getField sub ''_id'') (\<lambda>i. sub_of_doc env tenant i sub) of Some (Inr c) \<Rightarrow> Some (a, c) | _ \<Rightarrow> None)
      | _ \<Rightarrow> None)"

definition step_readable :: "sf_env \<Rightarrow> string \<Rightarrow> nat \<times> cursor_step \<Rightarrow> bool" where
  "step_readable env tenant st =
     (case st of (a, CDoc sub) \<Rightarrow> (case getField sub ''_id'' of None \<Rightarrow> True | Some i \<Rightarrow> sub_of_doc env tenant i sub \<noteq> None) | _ \<Rightarrow> True)"

definition db_items :: "db_conf \<Rightarrow> sf_env \<Rightarrow> (string \<Rightarrow> string + (nat \<times> cursor_step) list) \<Rightarrow> string \<Rightarrow> (nat \<times> CachedSubscription) list" where
  "db_items conf env query db =
     (case tenantFromDb conf db of
        None \<Rightarrow> []
      | Some tenant \<Rightarrow>
          (case query (getSubscribeContextCollectionName conf tenant) of
             Inl err \<Rightarrow> [] | Inr steps \<Rightarrow> List.map_filter (step_item env tenant) steps))"

definition db_readable :: "db_conf \<Rightarrow> sf_env \<Rightarrow> (string \<Rightarrow> string + (nat \<times> cursor_step) list) \<Rightarrow> string \<Rightarrow> bool" where
  "db_readable conf env query db =
     (case tenantFromDb conf db of
        None \<Rightarrow> False
      | Some tenant \<Rightarrow>
          (case query (getSubscribeContextCollectionName conf tenant) of
             Inl err \<Rightarrow> True | Inr steps \<Rightarrow> list_all (step_readable env tenant) steps))"

lemma insert_all_append: "insert_all (xs @ ys) sc = Option.bind (insert_all xs sc) (insert_all ys)"
  by (induction xs arbitrary: sc) (auto split: option.splits)

lemma refresh_loop_items:
  assumes "list_all (step_readable env tenant) steps"
  shows "map_option snd (refresh_loop env toString tenant steps sc) = insert_all (List.map_filter (step_item env tenant) steps) sc"
  using assms
proof (induction env toString tenant steps sc rule: refresh_loop.induct)
  case (2 env toString tenant a sub steps sc)
  show ?case
  proof (cases "getField sub ''_id''")
    case None
    then show ?thesis using 2 by (simp add: mongoSubCacheItemInsert_def step_item_def map_filter_simps option.map_comp comp_def)
  next
    case (Some i)
    then obtain r where r: "sub_of_doc env tenant i sub = Some r" using 2(2) by (auto simp: step_readable_def)
    show ?thesis
    proof (cases r)
      case (Inl n)
      then show ?thesis using 2 Some r
        by (simp add: mongoSubCacheItemInsert_def step_item_def map_filter_simps option.map_comp comp_def)
    next
      case (Inr c)
      then show ?thesis using 2 Some r
        by (cases "subCacheItemInsert a (sc\<lparr>heap := (heap sc)(a \<mapsto> c)\<rparr>)")
          (simp_all add: mongoSubCacheItemInsert_def step_item_def map_filter_simps option.map_comp comp_def)
    qed
  qed
qed (simp_all add: step_item_def map_filter_simps)

lemma mongoSubCacheRefresh_items:
  "db_readable conf env query db \<Longrightarrow>
     map_option snd (mongoSubCacheRefresh conf env toString query db sc) = insert_all (db_items conf env query db) sc"
  by (auto simp: db_readable_def mongoSubCacheRefresh_def db_items_def refresh_loop_items split: option.splits sum.splits)

lemma refresh_databases_items:
  "list_all (db_readable conf env query) dbs \<Longrightarrow>
     map_option snd (refresh_databases conf env toString query dbs sc) = insert_all (concat (map (db_items conf env query) dbs)) sc"
proof (induction dbs arbitrary: sc)
  case (Cons db dbs)
  have "insert_all (db_items conf env query db) sc = map_option snd (mongoSubCacheRefresh conf env toString query db sc)"
    using mongoSubCacheRefresh_items Cons.prems by simp
  then show ?case using Cons
    by (cases "mongoSubCacheRefresh conf env toString query db sc")
       (auto simp: insert_all_append option.map_comp comp_def)
qed simp

lemma refresh_refines:
  assumes "list_all (db_readable conf env query) (refreshed_databases conf found)"
  shows "map_option snd (subCacheRefresh_db conf env toString found query sc)
    = subCacheRefresh (map (db_items conf env query) (refreshed_databases conf found)) sc"
proof (cases "subCacheDestroy sc")
  case (Some sc1)
  have "insert_all (concat (map (db_items conf env query) (refreshed_databases conf found))) sc1
      = map_option snd (refresh_databases conf env toString query (refreshed_databases conf found) sc1)"
    using refresh_databases_items [OF assms] by simp
  then show ?thesis using Some
    by (cases "refresh_databases conf env toString query (refreshed_databases conf found) sc1")
       (auto simp: subCacheRefresh_db_def subCacheRefresh_def option.map_comp comp_def)
qed (simp add: subCacheRefresh_db_def subCacheRefresh_def)

text \<open>An item that was made from a document is not linked, has counted nothing, and has no filter, whatever the document says.\<close>

definition unfiltered :: "CachedSubscription \<Rightarrow> bool" where
  "unfiltered c = (expression c = SubscriptionExpression_new \<and> count c = 0 \<and> plain c = c)"

lemma sub_of_doc_unfiltered: "sub_of_doc env tenant i sub = Some (Inr c) \<Longrightarrow> unfiltered c"
  by (auto simp: sub_of_doc_def unfiltered_def plain_def bind_eq_Some_conv split: if_splits)

lemma db_items_unfiltered: "(a, c) \<in> set (db_items conf env query db) \<Longrightarrow> unfiltered c"
  by (auto simp: db_items_def map_filter_def step_item_def bind_eq_Some_conv sub_of_doc_unfiltered
      split: option.splits sum.splits cursor_step.splits)


definition conf_two_tenants :: db_conf where
  "conf_two_tenants = \<lparr>multitenant = True, dbPrefix = ''orion'', entitiesCollectionName = ''entities'',
     registrationsCollectionName = ''registrations'', subscribeContextCollectionName = ''csubs'',
     subscribeContextAvailabilityCollectionName = ''casubs''\<rparr>"

definition room_sub :: "string \<Rightarrow> string \<Rightarrow> doc" where
  "room_sub oid q =
     [(''_id'', BOid oid), (''expiration'', BLong 2000000000), (''reference'', BStr ''http://h/''),
      (''entities'', BArr [BObj [(''id'', BStr ''Room1''), (''type'', BStr ''Room''), (''isPattern'', BStr ''false'')]]),
      (''attrs'', BArr []), (''conditions'', BArr [BObj [(''type'', BStr ''ONCHANGE''), (''value'', BArr [BStr ''temperature''])]]),
      (''expression'', BObj [(''q'', BStr q)])]"

definition found_subs :: "string \<Rightarrow> string + (nat \<times> cursor_step) list" where
  "found_subs collection =
     (if collection = ''orion-t1.csubs'' then Inr [(1, CDoc (room_sub ''x'' ''temperature>20''))]
      else if collection = ''orion.csubs'' then Inr [(2, CException ''e''), (3, CDoc []), (4, CDoc (room_sub ''y'' []))]
      else Inl ''no such collection'')"


text \<open>Without the cache the filter of the same document is used: the update of a room that is cold does not pass it.\<close>

definition cold_room :: ContextElement where
  "cold_room = (ContextElement_of ''Room1'' ''Room'' ''false'')\<lparr>contextAttributeVector :=
     [ContextAttribute_number ''temperature'' ''Number'' (Fin 10) True]\<rparr>"

lemma filter_used_without_cache:
  "(case noCache_trigger env_demo (room_sub ''x'' ''temperature>20'') of
      Some (Inr ts) \<Rightarrow> (case ts_stringFilterP ts of Some sf \<Rightarrow> \<not> filter_match env_demo sf cold_room | None \<Rightarrow> False)
    | _ \<Rightarrow> False)"
  by code_simp

end
