(* ===== verification/Orion_Forward.thy ===== *)
theory Orion_Forward
  imports Orion_Update Orion_Rest
begin

section \<open>Updates with context providers: mongoBackend/mongoUpdateContext.cpp, serviceRoutines/postUpdateContext.cpp,
  orionTypes/UpdateContextRequestVector.cpp\<close>

text \<open>
  An update is first carried out on the database. The attributes that the broker does not have are then reported as not
  found, or, when a registration says who provides them, sent to their providers, whose answers are merged into the
  response. \<^const>\<open>None\<close> is an access outside a vector, or an exception. The transport and the parser of the answers of
  the providers are parameters.
\<close>

subsection \<open>mongoUpdateContext\<close>

text \<open>The elements of a request one after the other; each finds the database as the ones before left it.\<close>

fun process_elements ::
    "(nat \<Rightarrow> update_env) \<Rightarrow> nat \<Rightarrow> string \<Rightarrow> string \<Rightarrow> Ngsiv2Flavour \<Rightarrow> ContextElement list \<Rightarrow> ContextElementResponse list \<Rightarrow> SubCache
       \<Rightarrow> (ContextElementResponse list \<times> SubCache \<times> upd_result list) option" where
  "process_elements ue ix action notExist flavour [] cerV sc = Some (cerV, sc, [])"
| "process_elements ue ix action notExist flavour (ce # ces) cerV sc =
     (case processContextElement (ue ix) action notExist flavour ce cerV sc of
        None \<Rightarrow> None
      | Some res \<Rightarrow> map_option (\<lambda>(cerV, sc, rs). (cerV, sc, res # rs))
                     (process_elements ue (ix + 1) action notExist flavour ces (r_cerV res) (r_cache res)))"

definition mongoUpdateContext ::
    "(nat \<Rightarrow> update_env) \<Rightarrow> string \<Rightarrow> Ngsiv2Flavour \<Rightarrow> string list \<Rightarrow> UpdateContextRequest \<Rightarrow> UpdateContextResponse \<Rightarrow> SubCache
       \<Rightarrow> (UpdateContextResponse \<times> SubCache \<times> upd_result list \<times> string list) option" where
  "mongoUpdateContext ue notExist flavour servicePathV req resp sc =
     (if length servicePathV > 1
      then Some (resp\<lparr>ucrs_errorCode := StatusCode_fill (ucrs_errorCode resp) SccBadRequest
                   ''service path length greater than one in update''\<rparr>, sc, [],
                 [''service path length '' @ dec (length servicePathV) @ '' is greater than the one in update''])
      else map_option (\<lambda>(cerV, sc, rs). (resp\<lparr>ucrs_cerV := cerV, ucrs_errorCode := StatusCode_fill (ucrs_errorCode resp) SccOk []\<rparr>,
                                         sc, rs, []))
             (process_elements ue 0 (ucr_updateActionType req) notExist flavour (ucr_contextElementVector req) (ucrs_cerV resp) sc))"

subsection \<open>Found and not found\<close>

abbreviation cer_id :: "ContextElementResponse \<Rightarrow> string" where
  "cer_id cer \<equiv> ei_id (ce_entityId (contextElement cer))"

abbreviation cer_caV :: "ContextElementResponse \<Rightarrow> ContextAttribute list" where
  "cer_caV cer \<equiv> contextAttributeVector (contextElement cer)"

definition cer_with :: "ContextAttribute list \<Rightarrow> ContextElementResponse \<Rightarrow> ContextElementResponse" where
  "cer_with caV cer = cer\<lparr>contextElement := (contextElement cer)\<lparr>contextAttributeVector := caV\<rparr>\<rparr>"

text \<open>One response of the vector, and the response for its attributes that were not found, if it has both kinds.\<close>

definition separate_cer :: "ContextElementResponse \<Rightarrow> ContextElementResponse \<times> ContextElementResponse list" where
  "separate_cer cer =
     (let noOfFounds = length (filter ca_found (cer_caV cer));
          noOfNotFounds = length (filter (\<lambda>ca. \<not> ca_found ca) (cer_caV cer));
          sc = statusCode cer;
          (cer, notFoundV) =
            (if noOfFounds = 0 \<and> noOfNotFounds > 0
             then (if sc_code sc = SccOk \<or> sc_code sc = SccNone
                   then cer\<lparr>statusCode := StatusCode_fill sc SccContextElementNotFound (cer_id cer)\<rparr> else cer, [])
             else if noOfFounds > 0 \<and> noOfNotFounds > 0
             then (let nf = fst (ContextElementResponse_attr (ce_entityId (contextElement cer)) None);
                       nf = nf\<lparr>statusCode := StatusCode_fill (statusCode nf) SccContextElementNotFound (cer_id cer)\<rparr>
                   in ((cer_with (filter ca_found (cer_caV cer)) cer)\<lparr>statusCode := StatusCode_fill sc SccOk []\<rparr>,
                       [cer_with (filter (\<lambda>ca. \<not> ca_found ca) (cer_caV cer)) nf]))
             else (cer, []));
          sc = statusCode cer
      in (if sc_code sc = SccContextElementNotFound \<and> sc_details sc = []
          then cer\<lparr>statusCode := sc\<lparr>sc_details := cer_id cer\<rparr>\<rparr> else cer, notFoundV))"

definition foundAndNotFoundAttributeSeparation ::
    "string \<Rightarrow> ContextElement list \<Rightarrow> UpdateContextResponse \<Rightarrow> UpdateContextResponse option" where
  "foundAndNotFoundAttributeSeparation method elements r =
     (let seps = map separate_cer (ucrs_cerV r); cerV = map fst seps @ concat (map snd seps); ec = ucrs_errorCode r;
          empty = (method \<noteq> ''DELETE'' \<and> cerV = [] \<and> sc_code ec = SccOk)
      in if empty \<and> elements = [] then None
         else (let ec = (if empty then StatusCode_fill ec SccContextElementNotFound (ei_id (ce_entityId (hd elements))) else ec)
               in if sc_code ec = SccContextElementNotFound \<and> cerV = [] \<and> elements = [] then None
                  else Some \<lparr>ucrs_cerV = cerV, ucrs_errorCode =
                         (if sc_code ec = SccContextElementNotFound
                          then if length cerV = 1 then ec\<lparr>sc_details := cer_id (hd cerV)\<rparr>
                               else if cerV = [] then ec\<lparr>sc_details := ei_id (ce_entityId (hd elements))\<rparr> else ec
                          else ec)\<rparr>))"

definition attributesToNotFound :: "UpdateContextRequest \<Rightarrow> UpdateContextRequest" where
  "attributesToNotFound r =
     r\<lparr>ucr_contextElementVector :=
        map (\<lambda>ce. ce\<lparr>contextAttributeVector := map (\<lambda>ca. ca\<lparr>ca_found := False\<rparr>) (contextAttributeVector ce)\<rparr>)
          (ucr_contextElementVector r)\<rparr>"

subsection \<open>Sorting the attributes by provider\<close>

text \<open>The values come from the request: the database does not give them.\<close>

definition fill_value :: "ContextElement list \<Rightarrow> EntityId \<Rightarrow> ContextAttribute \<Rightarrow> ContextAttribute option" where
  "fill_value elements ei ca =
     (case attributeLookup elements ei (ca_name ca) of
        None \<Rightarrow> Some ca
      | Some a \<Rightarrow>
          (let ca = ca\<lparr>ca_stringValue := ca_stringValue a, ca_numberValue := ca_numberValue a, ca_boolValue := ca_boolValue a,
                      ca_valueType := ca_valueType a\<rparr>
           in case ca_compoundValueP a of
                None \<Rightarrow> Some (ca\<lparr>ca_compoundValueP := None\<rparr>)
              | Some n \<Rightarrow> map_option (\<lambda>m. ca\<lparr>ca_compoundValueP := Some m\<rparr>) (cv_clone True CompoundValueNode_empty n)))"

fun all_some :: "'a option list \<Rightarrow> 'a list option" where
  "all_some [] = Some []"
| "all_some (x # xs) = (case x of None \<Rightarrow> None | Some a \<Rightarrow> map_option ((#) a) (all_some xs))"

definition fill_values :: "ContextElement list \<Rightarrow> ContextElementResponse list \<Rightarrow> ContextElementResponse list option" where
  "fill_values elements cerV =
     all_some (map (\<lambda>cer. map_option (\<lambda>caV. cer_with caV cer)
       (all_some (map (fill_value elements (ce_entityId (contextElement cer))) (cer_caV cer)))) cerV)"

text \<open>The element of the entity in a request, and the request of the provider: each is looked up, or added.\<close>

fun element_push :: "EntityId \<Rightarrow> ContextAttribute \<Rightarrow> ContextElement list \<Rightarrow> ContextElement list" where
  "element_push ei ca [] = [(ContextElement_entity ei)\<lparr>contextAttributeVector := [fst (ContextAttribute_copy ca False)]\<rparr>]"
| "element_push ei ca (ce # ces) =
     (if ei_id (ce_entityId ce) = ei_id ei \<and> ei_type (ce_entityId ce) = ei_type ei
      then ce\<lparr>contextAttributeVector := contextAttributeVector ce @ [fst (ContextAttribute_copy ca False)]\<rparr> # ces
      else ce # element_push ei ca ces)"

fun request_push :: "string \<Rightarrow> EntityId \<Rightarrow> ContextAttribute \<Rightarrow> UpdateContextRequest list \<Rightarrow> UpdateContextRequest list" where
  "request_push provider ei ca [] =
     (let r = (UpdateContextRequest_provider provider ei)\<lparr>ucr_updateActionType := ''UPDATE''\<rparr>
      in [r\<lparr>ucr_contextElementVector := element_push ei ca (ucr_contextElementVector r)\<rparr>])"
| "request_push provider ei ca (r # rs) =
     (if ucr_contextProvider r = provider
      then r\<lparr>ucr_contextElementVector := element_push ei ca (ucr_contextElementVector r)\<rparr> # rs
      else r # request_push provider ei ca rs)"

type_synonym parts = "UpdateContextResponse \<times> UpdateContextRequest list"

definition distribute_attr :: "EntityId \<Rightarrow> parts \<Rightarrow> ContextAttribute \<Rightarrow> parts" where
  "distribute_attr ei parts ca =
     (case parts of (response, requestV) \<Rightarrow>
        if ca_found ca = False then (notFoundPush response ei (fst (ContextAttribute_copy ca False)) None, requestV)
        else if pa_string (ca_providingApplication ca) = []
        then (foundPush response ei (fst (ContextAttribute_copy ca False)), requestV)
        else (response, request_push (pa_string (ca_providingApplication ca)) ei ca requestV))"

definition distribute_cer :: "parts \<Rightarrow> ContextElementResponse \<Rightarrow> parts" where
  "distribute_cer parts cer = foldl (distribute_attr (ce_entityId (contextElement cer))) parts (cer_caV cer)"

definition distribute :: "ContextElementResponse list \<Rightarrow> parts" where
  "distribute cerV =
     foldl distribute_cer (UpdateContextResponse_new\<lparr>ucrs_errorCode := StatusCode_fill (ucrs_errorCode UpdateContextResponse_new) SccOk []\<rparr>, [])
       cerV"

subsection \<open>Forwarding\<close>

text \<open>What is sent to a provider.\<close>

record forward_request =
  fr_host :: string
  fr_port :: int
  fr_protocol :: string
  fr_tenant :: string
  fr_servicePath :: string
  fr_xauthToken :: string
  fr_resource :: string
  fr_payload :: string
  fr_correlator :: string

text \<open>The transport gives its result and the answer; the parser gives its result and the response in the answer.\<close>

record forward_env =
  fw_send :: "forward_request \<Rightarrow> int \<times> string"
  fw_parse :: "string \<Rightarrow> string \<times> UpdateContextResponse"
  fw_limit :: nat

definition forward_failed :: "string \<Rightarrow> UpdateContextResponse" where
  "forward_failed details =
     UpdateContextResponse_new\<lparr>ucrs_errorCode :=
       StatusCode_fill (ucrs_errorCode UpdateContextResponse_new) SccContextElementNotFound details\<rparr>"

definition forward_message :: "RestInfo \<Rightarrow> url_out \<Rightarrow> UpdateContextRequest \<Rightarrow> forward_request" where
  "forward_message ci url req =
     \<lparr>fr_host = host url, fr_port = port url, fr_protocol = protocol url, fr_tenant = rc_tenant ci,
      fr_servicePath = (if hh_servicePathReceived (rc_httpHeaders ci) then hh_servicePath (rc_httpHeaders ci) else []),
      fr_xauthToken = hh_xauthToken (rc_httpHeaders ci), fr_resource = path url @ ''/updateContext'',
      fr_payload = fst (UpdateContextRequest_render req ((rc_ci ci)\<lparr>ci_outMimeType := JSON\<rparr>) []),
      fr_correlator = hh_correlator (rc_httpHeaders ci)\<rparr>"

text \<open>The response with the status code mended.\<close>

definition forward_response :: "UpdateContextResponse \<Rightarrow> UpdateContextResponse" where
  "forward_response parsed =
     (let r = UpdateContextResponse_fill UpdateContextResponse_new parsed;
          r = (if sc_code (ucrs_errorCode r) = SccNone then r\<lparr>ucrs_errorCode := StatusCode_fill (ucrs_errorCode r) SccOk []\<rparr> else r)
      in if length (ucrs_cerV r) = 1 \<and> sc_code (statusCode (hd (ucrs_cerV r))) = SccContextElementNotFound
         then r\<lparr>ucrs_errorCode := StatusCode_fill (ucrs_errorCode r) SccContextElementNotFound []\<rparr> else r)"

definition updateForward ::
    "forward_env \<Rightarrow> UpdateContextRequest \<Rightarrow> RestInfo \<Rightarrow> rest_thread \<Rightarrow> (UpdateContextResponse \<times> RestInfo \<times> rest_thread) option" where
  "updateForward env req ci t =
     (case parseUrl (ucr_contextProvider req) \<lparr>host = [], port = 0, path = [], protocol = []\<rparr> of
        None \<Rightarrow> None
      | Some (ok, url) \<Rightarrow>
          if ok = False
          then Some (forward_failed [], ci, bad_input (''invalid providing application '' @ quoted (ucr_contextProvider req)) t)
          else (case fw_send env (forward_message ci url req) of
                  (r, out) \<Rightarrow>
                    if r \<noteq> 0 then Some (forward_failed ''error forwarding update'', ci, t)
                    else (case strstr (c_str out) ''{'' of
                            None \<Rightarrow> Some (forward_failed ''invalid context provider response'', ci, t)
                          | Some (_, cleanPayload) \<Rightarrow>
                              (let ci = ci\<lparr>rc_verb := POST, rc_method := ''POST''\<rparr>
                               in case fw_parse env cleanPayload of
                                    (s, parsed) \<Rightarrow>
                                      Some (if s \<noteq> ''OK'' then forward_failed [] else forward_response parsed, ci, t)))))"

fun forward_loop ::
    "forward_env \<Rightarrow> UpdateContextRequest list \<Rightarrow> UpdateContextResponse \<Rightarrow> RestInfo \<Rightarrow> rest_thread
       \<Rightarrow> (UpdateContextResponse \<times> RestInfo \<times> rest_thread) option" where
  "forward_loop env [] response ci t = Some (response, ci, t)"
| "forward_loop env (req # reqs) response ci t =
     (if ucr_contextProvider req = [] then forward_loop env reqs response ci t
      else case updateForward env req ci t of
             None \<Rightarrow> None
           | Some (upcrs, ci, t) \<Rightarrow> forward_loop env reqs (UpdateContextResponse_merge response upcrs) ci t)"

subsection \<open>postUpdateContext\<close>

text \<open>The answer, the response as it is left in the parsed data, the connection and the thread.\<close>

definition update_answer ::
    "UpdateContextResponse \<Rightarrow> RestInfo \<Rightarrow> rest_thread \<Rightarrow> (string \<times> UpdateContextResponse \<times> RestInfo \<times> rest_thread) option" where
  "update_answer r ci t = map_option (\<lambda>(answer, r). (answer, r, ci, t)) (UpdateContextResponse_render r (rc_ci ci) [])"

text \<open>After \<^verbatim>\<open>release\<close> the status code of the response has the name of one of an element.\<close>

definition UpdateContextResponse_released :: UpdateContextResponse where
  "UpdateContextResponse_released = \<lparr>ucrs_cerV = [], ucrs_errorCode = StatusCode_new ''statusCode''\<rparr>"

definition update_forwards ::
    "forward_env \<Rightarrow> UpdateContextRequest \<Rightarrow> UpdateContextResponse \<Rightarrow> RestInfo \<Rightarrow> rest_thread
       \<Rightarrow> (string \<times> UpdateContextResponse \<times> RestInfo \<times> rest_thread) option" where
  "update_forwards env req resp ci t =
     (case fill_values (ucr_contextElementVector req) (ucrs_cerV resp) of
        None \<Rightarrow> None
      | Some cerV \<Rightarrow>
          (case distribute cerV of
             (response, requestV) \<Rightarrow>
               (case forward_loop env (take (fw_limit env) requestV) response ci t of
                  None \<Rightarrow> None
                | Some (response, ci, t) \<Rightarrow>
                    map_option (\<lambda>(answer, response, ci, t). (answer, UpdateContextResponse_fill UpdateContextResponse_released response, ci, t))
                      (update_answer response ci t))))"

text \<open>The result of an update also has the cache of subscriptions and what was done for each element of the request.\<close>

definition postUpdateContext ::
    "forward_env \<Rightarrow> (nat \<Rightarrow> update_env) \<Rightarrow> string \<Rightarrow> Ngsiv2Flavour \<Rightarrow> UpdateContextRequest \<Rightarrow> UpdateContextResponse
       \<Rightarrow> RestInfo \<Rightarrow> rest_thread \<Rightarrow> SubCache
       \<Rightarrow> ((string \<times> UpdateContextResponse \<times> RestInfo \<times> rest_thread) \<times> SubCache \<times> upd_result list) option" where
  "postUpdateContext env ue notExist flavour req resp ci t sc =
     (let failed = (\<lambda>details. resp\<lparr>ucrs_errorCode := StatusCode_fill (ucrs_errorCode resp) SccBadRequest details\<rparr>);
          unchanged = map_option (\<lambda>answer. (answer, sc, []))
      in if length (rc_servicePathV ci) > 1
         then unchanged (update_answer (failed ''more than one service path in context update request'') ci
                (bad_input ''more than one service path for an update request'' t))
         else if rc_servicePathV ci = [] then None
         else (let ci = (if hd (rc_servicePathV ci) = [] then ci\<lparr>rc_servicePathV := [''/'']\<rparr> else ci);
                   (res, al) = servicePathCheck (Some (c_str (hd (rc_servicePathV ci))));
                   t = fold bad_input al t
               in if res \<noteq> ''OK'' then unchanged (update_answer (failed res) ci t)
                  else (let resp = resp\<lparr>ucrs_errorCode := StatusCode_fill (ucrs_errorCode resp) SccOk []\<rparr>;
                            req = attributesToNotFound req
                        in case mongoUpdateContext ue notExist flavour (rc_servicePathV ci) req resp sc of
                             None \<Rightarrow> None
                           | Some (resp, sc, rs, al) \<Rightarrow>
                               (let t = fold bad_input al t; ci = (if status ci \<noteq> SccCreated then set_status SccOk ci else ci)
                                in case foundAndNotFoundAttributeSeparation (rc_method ci) (ucr_contextElementVector req) resp of
                                     None \<Rightarrow> None
                                   | Some resp \<Rightarrow>
                                       map_option (\<lambda>answer. (answer, sc, rs))
                                         (if forwardsPending (ucrs_cerV resp) = False then update_answer resp ci t
                                          else update_forwards env req resp ci t)))))"

subsection \<open>Every attribute goes to one place\<close>

definition has_code :: "HttpStatusCode \<Rightarrow> ContextElementResponse \<Rightarrow> bool" where
  "has_code code cer = (sc_code (statusCode cer) = code)"

definition cer_part :: "(ContextAttribute \<Rightarrow> bool) \<Rightarrow> (ContextAttribute \<Rightarrow> 'a) \<Rightarrow> ContextElementResponse \<Rightarrow> (string \<times> string \<times> 'a) multiset" where
  "cer_part P f cer =
     mset (map (\<lambda>ca. (cer_id cer, ei_type (ce_entityId (contextElement cer)), f ca)) (filter P (cer_caV cer)))"

definition cerV_part :: "(ContextAttribute \<Rightarrow> bool) \<Rightarrow> (ContextAttribute \<Rightarrow> 'a) \<Rightarrow> ContextElementResponse list \<Rightarrow> (string \<times> string \<times> 'a) multiset" where
  "cerV_part P f cerV = \<Sum>\<^sub># (mset (map (cer_part P f) cerV))"

definition ce_attrs :: "ContextElement \<Rightarrow> (string \<times> string \<times> ContextAttribute) multiset" where
  "ce_attrs ce = mset (map (\<lambda>ca. (ei_id (ce_entityId ce), ei_type (ce_entityId ce), ca)) (contextAttributeVector ce))"

definition req_attrs :: "UpdateContextRequest \<Rightarrow> (string \<times> string \<times> ContextAttribute) multiset" where
  "req_attrs r = \<Sum>\<^sub># (mset (map ce_attrs (ucr_contextElementVector r)))"

definition sent_to :: "string \<Rightarrow> UpdateContextRequest list \<Rightarrow> (string \<times> string \<times> ContextAttribute) multiset" where
  "sent_to p requestV = \<Sum>\<^sub># (mset (map req_attrs (filter (\<lambda>r. ucr_contextProvider r = p) requestV)))"

abbreviation provider :: "ContextAttribute \<Rightarrow> string" where
  "provider ca \<equiv> pa_string (ca_providingApplication ca)"

abbreviation ca_sent :: "ContextAttribute \<Rightarrow> ContextAttribute" where
  "ca_sent ca \<equiv> fst (ContextAttribute_copy ca False)"

lemma ca_name_copy [simp]: "ca_name (fst (ContextAttribute_copy ca b)) = ca_name ca"
  by (simp add: ContextAttribute_copy_def)

lemma cerV_attrs_push_code:
  "cerV_lookup vec ei code = Some ix \<Longrightarrow> code \<noteq> SccNone \<Longrightarrow>
     cerV_attrs (filter (has_code c) (vec[ix := cer_push ca (vec ! ix)]))
     = (if c = code then add_mset (ei_id ei, ei_type ei, ca_name ca) else id) (cerV_attrs (filter (has_code c) vec))"
proof (induction vec arbitrary: ix)
  case (Cons cer vec)
  have same: "statusCode (cer_push ca cer) = statusCode cer" by (simp add: cer_push_def)
  show ?case
  proof (cases "EntityId_equal (ce_entityId (contextElement cer)) ei \<and> sc_code (statusCode cer) = code")
    case True
    with Cons.prems show ?thesis by (auto simp: cer_attrs_push has_code_def same)
  next
    case False
    with Cons.prems obtain j where "cerV_lookup vec ei code = Some j" "ix = Suc j" by auto
    with Cons.IH Cons.prems(2) show ?thesis by (cases "c = code") simp_all
  qed
qed simp

lemma notFoundPush_code:
  "cerV_attrs (filter (has_code c) (ucrs_cerV (notFoundPush r ei ca None)))
   = (if c = SccContextElementNotFound then add_mset (ei_id ei, ei_type ei, ca_name ca) else id)
       (cerV_attrs (filter (has_code c) (ucrs_cerV r)))"
  by (cases "cerV_lookup (ucrs_cerV r) ei SccContextElementNotFound")
     (auto simp: notFoundPush_def Let_def cerV_attrs_push_code cer_attrs_new has_code_def StatusCode_fill_def)

lemma foundPush_code:
  "cerV_attrs (filter (has_code c) (ucrs_cerV (foundPush r ei ca)))
   = (if c = SccOk then add_mset (ei_id ei, ei_type ei, ca_name ca) else id) (cerV_attrs (filter (has_code c) (ucrs_cerV r)))"
  by (cases "cerV_lookup (ucrs_cerV r) ei SccOk")
     (auto simp: foundPush_def Let_def cerV_attrs_push_code cer_attrs_new has_code_def StatusCode_fill_def)

lemma element_push_attrs:
  "\<Sum>\<^sub># (image_mset ce_attrs (mset (element_push ei ca ces))) =
     add_mset (ei_id ei, ei_type ei, ca_sent ca) (\<Sum>\<^sub># (image_mset ce_attrs (mset ces)))"
  by (induction ces) (auto simp: ce_attrs_def ContextElement_entity_def EntityId_fill_from_def)

lemma request_push_sent:
  "sent_to p (request_push q ei ca rs) = (if p = q then add_mset (ei_id ei, ei_type ei, ca_sent ca) else id) (sent_to p rs)"
  if "distinct (map ucr_contextProvider rs)"
  using that
proof (induction rs)
  case Nil
  have "ce_attrs (ContextElement_entity ei) = {#}" by (simp add: ce_attrs_def ContextElement_entity_def ContextElement_of_def)
  then show ?case
    by (auto simp: sent_to_def req_attrs_def UpdateContextRequest_provider_def Let_def element_push_attrs simp del: element_push.simps)
next
  case (Cons r rs)
  then show ?case by (auto simp: sent_to_def req_attrs_def element_push_attrs)
qed

lemma request_push_providers:
  "map ucr_contextProvider (request_push q ei ca rs)
   = map ucr_contextProvider rs @ (if q \<in> ucr_contextProvider ` set rs then [] else [q])"
  by (induction rs) (auto simp: UpdateContextRequest_provider_def Let_def)

lemma request_push_provider_set: "ucr_contextProvider ` set (request_push q ei ca rs) = insert q (ucr_contextProvider ` set rs)"
  using arg_cong [OF request_push_providers [of q ei ca rs], of set] by auto

text \<open>Where an attribute belongs: to the responses with this code, or to the request for this provider.\<close>

definition answered :: "HttpStatusCode \<Rightarrow> ContextAttribute \<Rightarrow> bool" where
  "answered c ca = (if ca_found ca then c = SccOk \<and> provider ca = [] else c = SccContextElementNotFound)"

definition forwarded :: "string \<Rightarrow> ContextAttribute \<Rightarrow> bool" where
  "forwarded p ca = (ca_found ca \<and> provider ca = p \<and> p \<noteq> [])"

definition placed ::
    "parts \<Rightarrow> (HttpStatusCode \<Rightarrow> (string \<times> string \<times> string) multiset) \<Rightarrow> (string \<Rightarrow> (string \<times> string \<times> ContextAttribute) multiset) \<Rightarrow> bool" where
  "placed parts A S =
     (case parts of (response, requestV) \<Rightarrow>
        distinct (map ucr_contextProvider requestV) \<and> [] \<notin> set (map ucr_contextProvider requestV)
        \<and> (\<forall>c. cerV_attrs (filter (has_code c) (ucrs_cerV response)) = A c) \<and> (\<forall>p. sent_to p requestV = S p))"

lemma placed_eq: "placed parts A S \<Longrightarrow> (\<And>c. A c = A' c) \<Longrightarrow> (\<And>p. S p = S' p) \<Longrightarrow> placed parts A' S'"
  by (simp add: placed_def)

lemma placed_attr:
  assumes "placed parts A S"
  shows "placed (distribute_attr ei parts ca)
    (\<lambda>c. A c + (if answered c ca then {#(ei_id ei, ei_type ei, ca_name ca)#} else {#}))
    (\<lambda>p. S p + (if forwarded p ca then {#(ei_id ei, ei_type ei, ca_sent ca)#} else {#}))"
  using assms
  by (cases "ca_found ca"; cases "provider ca = []")
     (auto simp: placed_def distribute_attr_def answered_def forwarded_def notFoundPush_code foundPush_code
       request_push_sent request_push_providers request_push_provider_set split: prod.splits)

lemma placed_cer:
  assumes "placed parts A S"
  shows "placed (distribute_cer parts cer) (\<lambda>c. A c + cer_part (answered c) ca_name cer) (\<lambda>p. S p + cer_part (forwarded p) ca_sent cer)"
proof -
  have "placed (foldl (distribute_attr ei) parts cas)
      (\<lambda>c. A c + mset (map (\<lambda>ca. (ei_id ei, ei_type ei, ca_name ca)) (filter (answered c) cas)))
      (\<lambda>p. S p + mset (map (\<lambda>ca. (ei_id ei, ei_type ei, ca_sent ca)) (filter (forwarded p) cas)))" for ei cas
    using assms
  proof (induction cas arbitrary: parts A S)
    case (Cons ca cas)
    show ?case by (simp only: foldl_Cons, rule placed_eq [OF Cons.IH [OF placed_attr [OF Cons.prems]]]) simp_all
  qed simp
  then show ?thesis by (simp add: distribute_cer_def cer_part_def)
qed

lemma placed_cerV:
  "placed parts A S \<Longrightarrow> placed (foldl distribute_cer parts cerV)
     (\<lambda>c. A c + cerV_part (answered c) ca_name cerV) (\<lambda>p. S p + cerV_part (forwarded p) ca_sent cerV)"
proof (induction cerV arbitrary: parts A S)
  case (Cons cer cerV)
  from Cons.IH [OF placed_cer [OF Cons.prems]] show ?case by (simp add: cerV_part_def add.assoc)
qed (simp add: cerV_part_def)

text \<open>C10: every attribute of the responses of the database goes to exactly one place, and keeps its entity: those that were not found
  go to the responses with the code 404, those that the broker has to the responses with 200, and the others, with their values,
  to the request for their provider, of which there is one for each provider.\<close>

theorem update_distributed:
  assumes "distribute cerV = (response, requestV)"
  shows "cerV_attrs (filter (has_code c) (ucrs_cerV response)) = cerV_part (answered c) ca_name cerV
    \<and> sent_to p requestV = cerV_part (forwarded p) ca_sent cerV
    \<and> distinct (map ucr_contextProvider requestV) \<and> [] \<notin> set (map ucr_contextProvider requestV)"
proof -
  have "placed (UpdateContextResponse_new\<lparr>ucrs_errorCode := ec\<rparr>, []) (\<lambda>_. {#}) (\<lambda>_. {#})" for ec
    by (simp add: placed_def UpdateContextResponse_new_def sent_to_def)
  from placed_cerV [OF this] have "placed (distribute cerV) (\<lambda>c. {#} + cerV_part (answered c) ca_name cerV) (\<lambda>p. {#} + cerV_part (forwarded p) ca_sent cerV)"
    unfolding distribute_def .
  with assms
  have "placed (response, requestV) (\<lambda>c. cerV_part (answered c) ca_name cerV) (\<lambda>p. cerV_part (forwarded p) ca_sent cerV)"
    by simp
  then show ?thesis by (simp add: placed_def)
qed

definition cer_of :: "string \<Rightarrow> ContextAttribute list \<Rightarrow> ContextElementResponse" where
  "cer_of eid cas = cer_with cas (fst (ContextElementResponse_attr (EntityId_new eid ''Room'' ''false'') None))"

definition attr_of :: "string \<Rightarrow> string \<Rightarrow> bool \<Rightarrow> ContextAttribute" where
  "attr_of n app b = (ContextAttribute_string n ''t'' ''v'' b)\<lparr>ca_providingApplication := \<lparr>pa_string = app, pa_mimeType = JSON\<rparr>\<rparr>"

definition cerV_example :: "ContextElementResponse list" where
  "cerV_example = [cer_of ''Room1'' [attr_of ''a'' [] True, attr_of ''b'' [] False, attr_of ''c'' ''http://p1'' True],
                cer_of ''Room2'' [attr_of ''a'' ''http://p2'' True, attr_of ''c'' ''http://p1'' True]]"

theorem update_distributed_witness:
  "cerV_attrs (filter (has_code SccContextElementNotFound) (ucrs_cerV (fst (distribute cerV_example)))) = {#(''Room1'', ''Room'', ''b'')#}
   \<and> sent_to ''http://p1'' (snd (distribute cerV_example))
       = {#(''Room1'', ''Room'', ca_sent (attr_of ''c'' ''http://p1'' True)), (''Room2'', ''Room'', ca_sent (attr_of ''c'' ''http://p1'' True))#}"
  using update_distributed [of cerV_example "fst (distribute cerV_example)" "snd (distribute cerV_example)" SccContextElementNotFound
      "''http://p1''"]
  by (simp add: cerV_example_def cerV_part_def cer_part_def cer_of_def cer_with_def attr_of_def answered_def forwarded_def
      ContextElementResponse_attr_def EntityId_fill_from_def EntityId_new_def ContextAttribute_string_def ContextAttribute_new_def)

text \<open>The answers of the providers are added to the response: it loses none of its attributes, and gets those of the answers.\<close>

lemma forward_loop_attrs:
  assumes "forward_loop env reqs response ci t = Some (response', ci', t')" "[] \<notin> set (map ucr_contextProvider reqs)"
  shows "\<exists>replies. list_all2 (\<lambda>req r. \<exists>c1 t1 c2 t2. updateForward env req c1 t1 = Some (r, c2, t2)) reqs replies
    \<and> cerV_attrs (ucrs_cerV response') = cerV_attrs (ucrs_cerV response) + \<Sum>\<^sub># (mset (map (\<lambda>r. cerV_attrs (ucrs_cerV r)) replies))"
  using assms
proof (induction reqs arbitrary: response ci t)
  case (Cons req reqs)
  from Cons.prems obtain r c2 t2 where 1: "updateForward env req ci t = Some (r, c2, t2)"
    "forward_loop env reqs (UpdateContextResponse_merge response r) c2 t2 = Some (response', ci', t')"
    by (auto split: option.splits prod.splits)
  from Cons.IH [OF 1(2)] Cons.prems(2) obtain replies where 2:
    "list_all2 (\<lambda>req r. \<exists>c1 t1 c2 t2. updateForward env req c1 t1 = Some (r, c2, t2)) reqs replies"
    "cerV_attrs (ucrs_cerV response') = cerV_attrs (ucrs_cerV (UpdateContextResponse_merge response r))
       + \<Sum>\<^sub># (mset (map (\<lambda>r. cerV_attrs (ucrs_cerV r)) replies))" by auto
  show ?case using 1(1) 2 by (intro exI [of _ "r # replies"]) (auto simp: merge_keeps_attributes)
qed simp

text \<open>The separation keeps all attributes; afterwards a response has only attributes that were found, or only others.\<close>

definition homogeneous :: "ContextElementResponse \<Rightarrow> bool" where
  "homogeneous cer = (list_all ca_found (cer_caV cer) \<or> list_all (\<lambda>ca. \<not> ca_found ca) (cer_caV cer))"

definition mixed :: "ContextElementResponse \<Rightarrow> bool" where
  "mixed cer = (filter ca_found (cer_caV cer) \<noteq> [] \<and> filter (\<lambda>ca. \<not> ca_found ca) (cer_caV cer) \<noteq> [])"

lemma separate_cer_one: "\<not> mixed cer \<Longrightarrow> contextElement (fst (separate_cer cer)) = contextElement cer \<and> snd (separate_cer cer) = []"
  by (simp add: separate_cer_def mixed_def Let_def split: prod.split)

lemma separate_cer_mixed:
  assumes "mixed cer"
  shows "\<exists>nf. snd (separate_cer cer) = [nf] \<and> cer_id nf = cer_id cer
      \<and> ei_type (ce_entityId (contextElement nf)) = ei_type (ce_entityId (contextElement cer))
      \<and> cer_caV nf = filter (\<lambda>ca. \<not> ca_found ca) (cer_caV cer) \<and> has_code SccContextElementNotFound nf"
    and "contextElement (fst (separate_cer cer)) = (contextElement cer)\<lparr>contextAttributeVector := filter ca_found (cer_caV cer)\<rparr>
      \<and> has_code SccOk (fst (separate_cer cer))"
  using assms
  by (simp_all add: separate_cer_def mixed_def Let_def cer_with_def ContextElementResponse_attr_def EntityId_fill_from_def
      StatusCode_fill_def has_code_def)

lemma separate_cer_attrs: "cer_attrs (fst (separate_cer cer)) + cerV_attrs (snd (separate_cer cer)) = cer_attrs cer"
proof (cases "mixed cer")
  case True
  have parts: "mset (map f (filter ca_found xs)) + mset (map f (filter (\<lambda>ca. \<not> ca_found ca) xs)) = mset (map f xs)"
    for f :: "ContextAttribute \<Rightarrow> 'x" and xs
    by (induction xs) auto
  obtain nf where "snd (separate_cer cer) = [nf]" "cer_id nf = cer_id cer"
      "ei_type (ce_entityId (contextElement nf)) = ei_type (ce_entityId (contextElement cer))"
      "cer_caV nf = filter (\<lambda>ca. \<not> ca_found ca) (cer_caV cer)"
    using separate_cer_mixed(1) [OF True] by blast
  then show ?thesis using separate_cer_mixed(2) [OF True] parts by (simp add: cer_attrs_def)
qed (simp add: separate_cer_one cer_attrs_def)

lemma separate_cer_homogeneous: "list_all homogeneous (fst (separate_cer cer) # snd (separate_cer cer))"
proof (cases "mixed cer")
  case True
  obtain nf where "snd (separate_cer cer) = [nf]" "cer_caV nf = filter (\<lambda>ca. \<not> ca_found ca) (cer_caV cer)"
    using separate_cer_mixed(1) [OF True] by blast
  then show ?thesis using separate_cer_mixed(2) [OF True] by (simp add: homogeneous_def list_all_iff)
next
  case False
  then show ?thesis
    by (auto simp: separate_cer_one homogeneous_def list_all_iff mixed_def filter_empty_conv)
qed

lemma separation_keeps_attributes:
  assumes "foundAndNotFoundAttributeSeparation method elements r = Some r'"
  shows "cerV_attrs (ucrs_cerV r') = cerV_attrs (ucrs_cerV r)" "list_all homogeneous (ucrs_cerV r')"
proof -
  have r': "ucrs_cerV r' = map fst (map separate_cer (ucrs_cerV r)) @ concat (map snd (map separate_cer (ucrs_cerV r)))"
    using assms by (auto simp: foundAndNotFoundAttributeSeparation_def Let_def split: if_splits)
  have "cerV_attrs (map fst (map separate_cer v) @ concat (map snd (map separate_cer v))) = cerV_attrs v" for v
  proof (induction v)
    case (Cons cer v)
    then show ?case using separate_cer_attrs [of cer] by (simp add: add_ac flip: Cons.IH)
  qed simp
  then show "cerV_attrs (ucrs_cerV r') = cerV_attrs (ucrs_cerV r)" using r' by simp
  show "list_all homogeneous (ucrs_cerV r')"
    using separate_cer_homogeneous unfolding r' by (auto simp: list_all_iff)
qed

subsection \<open>Forwards that do not do what they should\<close>

text \<open>What would go to a provider beyond the limit is in no response. A provider whose URL has no path is sent a resource with two
  slashes. The connection is left with the method \<^verbatim>\<open>POST\<close>.\<close>

lemma forward_limit_silent:
  assumes "fw_limit env = 0" "fill_values (ucr_contextElementVector req) (ucrs_cerV resp) = Some cerV"
  shows "map_option fst (update_forwards env req resp ci t) = map_option fst (update_answer (fst (distribute cerV)) ci t)"
  using assms by (simp add: update_forwards_def option.map_comp comp_def case_prod_unfold)

lemma provider_root_resource:
  "map_option (\<lambda>(ok, url). (ok, fr_resource (forward_message ci url req))) (parseUrl ''http://p1:80'' \<lparr>host = [], port = 0, path = [], protocol = []\<rparr>)
   = Some (True, ''//updateContext'')"
proof -
  have "map_option (\<lambda>(ok, url). (ok, path url)) (parseUrl ''http://p1:80'' \<lparr>host = [], port = 0, path = [], protocol = []\<rparr>) = Some (True, ''/'')"
    by code_simp
  then show ?thesis by (auto simp: forward_message_def)
qed

lemma forward_verb_lost:
  assumes "parseUrl (ucr_contextProvider req) \<lparr>host = [], port = 0, path = [], protocol = []\<rparr> = Some (True, url)"
    and "fw_send env (forward_message ci url req) = (0, out)" and "strstr (c_str out) ''{'' = Some x"
  shows "\<exists>r. updateForward env req ci t = Some (r, ci\<lparr>rc_verb := POST, rc_method := ''POST''\<rparr>, t)"
  using assms by (simp add: updateForward_def Let_def split: prod.splits)

end
