(* ===== verification/Orion_QueryContext.thy ===== *)
theory Orion_QueryContext
  imports Orion_Forward Orion_Query
begin

section \<open>Queries with context providers: mongoBackend/mongoQueryContext.cpp, serviceRoutines/postQueryContext.cpp,
  ngsi10/QueryContextRequest.cpp, orionTypes/QueryContextRequestVector.cpp, orionTypes/QueryContextResponseVector.cpp\<close>

text \<open>
  A query is answered from the database, completed with the context providers of what is not there; the attributes with a
  provider are then asked for in requests to the providers, and all answers are merged. What the query of the entities
  leaves behind (\<^const>\<open>entitiesQuery\<close>), the registrations that are found, the transport and the parser of the answers are parameters.
\<close>

subsection \<open>Adding context providers\<close>

definition provider_cer :: "EntityId \<Rightarrow> ContextElementResponse" where
  "provider_cer en =
     (let cer = ContextElementResponse_new; ce = contextElement cer
      in cer\<lparr>contextElement := ce\<lparr>ce_entityId := (ce_entityId ce)\<lparr>ei_id := ei_id en, ei_type := ei_type en, ei_isPattern := ''false''\<rparr>\<rparr>,
             statusCode := StatusCode_fill (statusCode cer) SccOk []\<rparr>)"

abbreviation same_entity :: "ContextElementResponse \<Rightarrow> EntityId \<Rightarrow> bool" where
  "same_entity cer en \<equiv> cer_id cer = ei_id en \<and> ei_type (ce_entityId (contextElement cer)) = ei_type en"

definition push_application :: "ProvidingApplication \<Rightarrow> ContextElementResponse \<Rightarrow> ContextElementResponse" where
  "push_application pa cer =
     cer\<lparr>contextElement := (contextElement cer)\<lparr>ce_providingApplicationList := ce_providingApplicationList (contextElement cer) @ [pa]\<rparr>\<rparr>"

fun addContextProviderEntity :: "ContextElementResponse list \<Rightarrow> EntityId \<Rightarrow> ProvidingApplication \<Rightarrow> ContextElementResponse list" where
  "addContextProviderEntity [] en pa = [push_application pa (provider_cer en)]"
| "addContextProviderEntity (cer # cerV) en pa =
     (if same_entity cer en then push_application pa cer # cerV else cer # addContextProviderEntity cerV en pa)"

definition provided_attr :: "string \<Rightarrow> ProvidingApplication \<Rightarrow> ContextAttribute" where
  "provided_attr name pa = (ContextAttribute_string name [] [] True)\<lparr>ca_providingApplication := pa\<rparr>"

fun addContextProviderAttribute ::
    "ContextElementResponse list \<Rightarrow> EntityId \<Rightarrow> ContextRegistrationAttribute \<Rightarrow> ProvidingApplication \<Rightarrow> bool \<Rightarrow> ContextElementResponse list" where
  "addContextProviderAttribute [] en cra pa limitReached =
     (if \<not> limitReached then [cer_with [provided_attr (cra_name cra) pa] (provider_cer en)] else [])"
| "addContextProviderAttribute (cer # cerV) en cra pa limitReached =
     (if \<not> same_entity cer en then cer # addContextProviderAttribute cerV en cra pa limitReached
      else if list_ex (\<lambda>ca. ca_name ca = cra_name cra) (cer_caV cer) then cer # cerV
      else cer_with (cer_caV cer @ [provided_attr (cra_name cra) pa]) cer # cerV)"

fun matchEntityInCrr :: "re_env \<Rightarrow> EntityId list \<Rightarrow> EntityId \<Rightarrow> bool \<times> string list" where
  "matchEntityInCrr env [] en = (False, [])"
| "matchEntityInCrr env (crEn # ens) en =
     (case matchEntity env crEn en of
        (True, al) \<Rightarrow> (True, al)
      | (False, al) \<Rightarrow> map_prod id (append al) (matchEntityInCrr env ens en))"

definition add_registration :: "bool \<Rightarrow> ContextRegistration \<Rightarrow> ContextElementResponse list \<Rightarrow> ContextElementResponse list" where
  "add_registration limitReached cr cerV =
     (if cr_attributeVector cr = []
      then if \<not> limitReached
           then foldl (\<lambda>cerV en. addContextProviderEntity cerV en (cr_providingApplication cr)) cerV (cr_entityIdVector cr) else cerV
      else foldl (\<lambda>cerV en. foldl (\<lambda>cerV cra. addContextProviderAttribute cerV en cra (cr_providingApplication cr) limitReached)
                    cerV (cr_attributeVector cr)) cerV (cr_entityIdVector cr))"

fun addContextProviders ::
    "re_env \<Rightarrow> ContextElementResponse list \<Rightarrow> ContextRegistrationResponse list \<Rightarrow> bool \<Rightarrow> EntityId option
       \<Rightarrow> ContextElementResponse list \<times> string list" where
  "addContextProviders env cerV [] limitReached enP = (cerV, [])"
| "addContextProviders env cerV (crr # crrV) limitReached enP =
     (let cr = crr_contextRegistration crr;
          (matched, al) = (case enP of None \<Rightarrow> (True, []) | Some en \<Rightarrow> matchEntityInCrr env (cr_entityIdVector cr) en)
      in map_prod id (append al)
           (addContextProviders env (if matched then add_registration limitReached cr cerV else cerV) crrV limitReached enP))"

fun processGenericEntities ::
    "re_env \<Rightarrow> EntityId list \<Rightarrow> ContextElementResponse list \<Rightarrow> ContextRegistrationResponse list \<Rightarrow> bool
       \<Rightarrow> ContextElementResponse list \<times> string list" where
  "processGenericEntities env [] cerV crrV limitReached = (cerV, [])"
| "processGenericEntities env (en # enV) cerV crrV limitReached =
     (if ei_type en = [] \<or> isTrue (ei_isPattern en)
      then (case addContextProviders env cerV crrV limitReached (Some en) of
              (cerV, al) \<Rightarrow> map_prod id (append al) (processGenericEntities env enV cerV crrV limitReached))
      else processGenericEntities env enV cerV crrV limitReached)"

subsection \<open>mongoQueryContext\<close>

text \<open>The registrations found for a list of attributes, none when the query of them fails or finds none.\<close>

type_synonym registrations = "string list \<Rightarrow> string + ContextRegistrationResponse list"

definition found_registrations :: "registrations \<Rightarrow> string list \<Rightarrow> ContextRegistrationResponse list" where
  "found_registrations reg attrL = (case reg attrL of Inl err \<Rightarrow> [] | Inr crrV \<Rightarrow> crrV)"

definition complete_answer ::
    "re_env \<Rightarrow> registrations \<Rightarrow> EntityId list \<Rightarrow> string list \<Rightarrow> bool \<Rightarrow> ContextElementResponse list \<Rightarrow> ContextElementResponse list \<times> string list" where
  "complete_answer env reg enV attrL limitReached cerV =
     (let crrV = found_registrations reg attrL;
          fill_all = (\<lambda>cerV crrV. if crrV \<noteq> [] then map (\<lambda>cer. fillContextProviders cer crrV) cerV else cerV);
          generic = (\<lambda>cerV. if crrV \<noteq> [] then processGenericEntities env enV cerV crrV limitReached else (cerV, []));
          (cerV, al1) = (if cerV = [] then generic cerV else (cerV, []));
          (cerV, al2) = (if list_ex someContextElementNotFound cerV then generic (fill_all cerV crrV) else (cerV, []));
          cerV = (if list_ex someContextElementNotFound cerV then fill_all cerV (found_registrations reg []) else cerV);
          (cerV, al3) = (if attrL = [] then addContextProviders env cerV crrV limitReached None else (cerV, []))
      in (cerV, al1 @ al2 @ al3))"

definition query_status :: "int option \<Rightarrow> int \<Rightarrow> ContextElementResponse list \<Rightarrow> StatusCode \<Rightarrow> StatusCode" where
  "query_status countP offset cerV sc =
     (if cerV = []
      then (case countP of
              Some n \<Rightarrow>
                if n > 0 \<and> offset \<ge> n
                then StatusCode_fill sc SccContextElementNotFound
                       (''Number of matching entities: '' @ show_int n @ ''. Offset is '' @ show_int offset)
                else StatusCode_fill sc SccContextElementNotFound []
            | None \<Rightarrow> StatusCode_fill sc SccContextElementNotFound [])
      else case countP of Some n \<Rightarrow> StatusCode_fill sc SccOk (''Count: '' @ show_int n) | None \<Rightarrow> sc)"

text \<open>\<open>raw\<close> is what the query of the entities leaves behind, \<open>isBad\<close> and \<open>countP\<close> what it writes to its other arguments.\<close>

definition mongoQueryContext ::
    "re_env \<Rightarrow> registrations \<Rightarrow> query_result \<Rightarrow> bool \<Rightarrow> int option \<Rightarrow> int \<Rightarrow> EntityId list \<Rightarrow> string list \<Rightarrow> QueryContextResponse
       \<Rightarrow> QueryContextResponse \<times> string list" where
  "mongoQueryContext env reg raw isBad countP offset enV attrL resp =
     (if isBad then (resp\<lparr>qcrs_errorCode := StatusCode_fill (qcrs_errorCode resp) SccBadRequest (qr_err raw)\<rparr>, [])
      else if \<not> qr_ok raw then (resp\<lparr>qcrs_errorCode := StatusCode_fill (qcrs_errorCode resp) SccReceiverInternalError (qr_err raw)\<rparr>, [])
      else case complete_answer env reg enV attrL (qr_limitReached raw) (qr_cerV raw) of
             (cerV, al) \<Rightarrow>
               (let cerV = pruneContextElements cerV (qcrs_cerV resp)
                in (\<lparr>qcrs_cerV = cerV, qcrs_errorCode = query_status countP offset cerV (qcrs_errorCode resp)\<rparr>, al)))"

subsection \<open>Sorting the attributes by provider\<close>

text \<open>The requests that the broker makes have no restriction.\<close>

record QueryContextRequest =
  qcr_entityIdVector :: "EntityId list"
  qcr_attributeList :: "string list"
  qcr_contextProvider :: string

definition QueryContextRequest_attribute :: "string \<Rightarrow> EntityId \<Rightarrow> string \<Rightarrow> QueryContextRequest" where
  "QueryContextRequest_attribute app en attributeName =
     \<lparr>qcr_entityIdVector = [EntityId_fill_from en False], qcr_attributeList = (if attributeName \<noteq> [] then [attributeName] else []),
      qcr_contextProvider = app\<rparr>"

definition QueryContextRequest_list :: "string \<Rightarrow> EntityId \<Rightarrow> string list \<Rightarrow> QueryContextRequest" where
  "QueryContextRequest_list app en attributeList =
     \<lparr>qcr_entityIdVector = [EntityId_fill_from en False], qcr_attributeList = attributeList, qcr_contextProvider = app\<rparr>"

definition QueryContextRequest_render :: "QueryContextRequest \<Rightarrow> string \<Rightarrow> string" where
  "QueryContextRequest_render r indent =
     startTag1 indent ''queryContextRequest'' False False
     @ EntityIdVector_render (qcr_entityIdVector r) (indent @ ''  '') (qcr_attributeList r \<noteq> [])
     @ AttributeList_render (qcr_attributeList r) (indent @ ''  '') False @ endTag_plain indent False False"

definition entityIdMatch :: "EntityId \<Rightarrow> EntityId \<Rightarrow> bool" where
  "entityIdMatch e1 e2 =
     (if ei_id e1 \<noteq> ei_id e2 then False else if ei_type e2 \<noteq> [] \<and> ei_type e1 \<noteq> ei_type e2 then False else True)"

definition request_for :: "string \<Rightarrow> EntityId \<Rightarrow> QueryContextRequest \<Rightarrow> bool" where
  "request_for app en r = (qcr_contextProvider r = app \<and> entityIdMatch (hd (qcr_entityIdVector r)) en)"

text \<open>The request of the provider for the entity is looked up, and extended, or added.\<close>

fun query_push :: "string \<Rightarrow> EntityId \<Rightarrow> string \<Rightarrow> QueryContextRequest list \<Rightarrow> QueryContextRequest list" where
  "query_push app en name [] = [QueryContextRequest_attribute app en name]"
| "query_push app en name (r # rs) =
     (if request_for app en r
      then r\<lparr>qcr_attributeList := AttributeList_push_back_if_absent (qcr_attributeList r) name,
             qcr_entityIdVector := snd (push_back_if_absent (qcr_entityIdVector r) (EntityId_fill_from en False))\<rparr> # rs
      else r # query_push app en name rs)"

definition local_push :: "EntityId \<Rightarrow> ContextAttribute \<Rightarrow> ContextElementResponse list \<Rightarrow> ContextElementResponse list" where
  "local_push en ca cerV =
     (case cerV_lookup cerV en SccNone of
        None \<Rightarrow> cerV @ [fst (ContextElementResponse_attr en (Some ca))]
      | Some ix \<Rightarrow> cerV[ix := cer_push ca (cerV ! ix)])"

type_synonym query_parts = "ContextElementResponse list \<times> QueryContextRequest list"

definition query_attr :: "EntityId \<Rightarrow> query_parts \<Rightarrow> ContextAttribute \<Rightarrow> query_parts" where
  "query_attr en parts ca =
     (case parts of (local, requestV) \<Rightarrow>
        if provider ca = [] then if ca_found ca = False then parts else (local_push en ca local, requestV)
        else (local, query_push (provider ca) en (ca_name ca) requestV))"

definition query_cer :: "string list \<Rightarrow> query_parts \<Rightarrow> ContextElementResponse \<Rightarrow> query_parts" where
  "query_cer attrL parts cer =
     (let en = ce_entityId (contextElement cer)
      in foldl (query_attr en)
           (map_prod id (\<lambda>requestV. requestV @ map (\<lambda>pa. QueryContextRequest_list (pa_string pa) en attrL)
              (ce_providingApplicationList (contextElement cer))) parts) (cer_caV cer))"

definition query_distribute :: "string list \<Rightarrow> ContextElementResponse list \<Rightarrow> query_parts" where
  "query_distribute attrL cerV = foldl (query_cer attrL) ([], []) cerV"

definition query_forwardsPending :: "ContextElementResponse list \<Rightarrow> bool" where
  "query_forwardsPending cerV =
     list_ex (\<lambda>cer. ce_providingApplicationList (contextElement cer) \<noteq> [] \<or> list_ex (\<lambda>ca. provider ca \<noteq> []) (cer_caV cer)) cerV"

subsection \<open>Merging the responses\<close>

text \<open>
  \<^verbatim>\<open>QueryContextResponseVector\<close>: the elements of one response are added to the target; those with an error are left out.
  An attribute that is copied loses its compound value in the source, which is given back as it is left.
\<close>

definition ok_or_none :: "StatusCode \<Rightarrow> bool" where
  "ok_or_none sc = (sc_code sc = SccOk \<or> sc_code sc = SccNone)"

definition merge_one :: "ContextElementResponse list \<Rightarrow> ContextElementResponse \<Rightarrow> ContextElementResponse list \<times> ContextElementResponse" where
  "merge_one target cer =
     (if \<not> ok_or_none (statusCode cer) then (target, cer)
      else case cerV_lookup target (ce_entityId (contextElement cer)) SccNone of
             Some ix \<Rightarrow>
               (let t = target ! ix; copies = map (\<lambda>ca. ContextAttribute_copy ca False) (cer_caV cer)
                in (target[ix := cer_with (cer_caV t @ map fst copies) t], cer_with (map snd copies) cer))
           | None \<Rightarrow>
               (let (new, src) = ContextElementResponse_copy cer
                in (target @ [new\<lparr>statusCode := StatusCode_fill (statusCode new) SccOk []\<rparr>], src)))"

fun merge_cers :: "ContextElementResponse list \<Rightarrow> ContextElementResponse list \<Rightarrow> ContextElementResponse list \<times> ContextElementResponse list" where
  "merge_cers target [] = (target, [])"
| "merge_cers target (cer # cerV) =
     (case merge_one target cer of (target, cer) \<Rightarrow> map_prod id (Cons cer) (merge_cers target cerV))"

definition not_found_cer :: ContextElementResponse where
  "not_found_cer = (let cer = ContextElementResponse_new in cer\<lparr>statusCode := StatusCode_fill (statusCode cer) SccContextElementNotFound []\<rparr>)"

fun merge_responses ::
    "ContextElementResponse list \<Rightarrow> QueryContextResponse list \<Rightarrow> ContextElementResponse list \<times> QueryContextResponse list" where
  "merge_responses target [] = (target, [])"
| "merge_responses target (q # qs) =
     (let target = (if qcrs_cerV q = [] \<and> ok_or_none (qcrs_errorCode q) then target @ [not_found_cer] else target)
      in case merge_cers target (qcrs_cerV q) of
           (target, cerV) \<Rightarrow> map_prod id (Cons (q\<lparr>qcrs_cerV := cerV\<rparr>)) (merge_responses target qs))"

definition not_found :: "StatusCode \<Rightarrow> StatusCode" where
  "not_found sc = StatusCode_fill sc SccContextElementNotFound []"

text \<open>The rendering of the vector: the answer, and the vector as it is left.\<close>

definition vector_status :: "QueryContextResponse list \<Rightarrow> StatusCode \<times> QueryContextResponse list" where
  "vector_status vec =
     (let ec = qcrs_errorCode QueryContextResponse_new
      in case vec of
           [] \<Rightarrow> (not_found ec, [])
         | [q] \<Rightarrow>
             if qcrs_cerV q = []
             then (let q = (if ok_or_none (qcrs_errorCode q) then q\<lparr>qcrs_errorCode := not_found (qcrs_errorCode q)\<rparr> else q);
                       ec = not_found ec
                   in (if sc_code ec = sc_code (qcrs_errorCode q) \<and> sc_details ec = []
                       then ec\<lparr>sc_details := sc_details (qcrs_errorCode q)\<rparr> else ec, [q]))
             else (StatusCode_fill ec SccOk [], vec)
         | _ \<Rightarrow> (StatusCode_fill ec SccOk [], vec))"

definition QueryContextResponseVector_render ::
    "QueryContextResponse list \<Rightarrow> ConnectionInfo \<Rightarrow> bool \<Rightarrow> string \<Rightarrow> (string \<times> QueryContextResponse list) option" where
  "QueryContextResponseVector_render vec ci details detailsString =
     (let (ec, vec) = vector_status vec;
          ec = (if details then StatusCode_fill ec SccOk detailsString else ec);
          (cerV, vec) = merge_responses [] vec
      in map_option (\<lambda>(answer, _). (answer, vec)) (QueryContextResponse_render \<lparr>qcrs_cerV = cerV, qcrs_errorCode = ec\<rparr> ci []))"

definition populate :: "QueryContextResponse list \<Rightarrow> QueryContextResponse \<Rightarrow> QueryContextResponse" where
  "populate vec r =
     (let (ec, vec) =
        (case vec of
           [] \<Rightarrow> (not_found (qcrs_errorCode r), [])
         | [q] \<Rightarrow>
             if qcrs_cerV q = [] then (not_found (qcrs_errorCode r), [q\<lparr>qcrs_errorCode := not_found (qcrs_errorCode q)\<rparr>])
             else (StatusCode_fill (qcrs_errorCode r) SccOk [], vec)
         | _ \<Rightarrow> (StatusCode_fill (qcrs_errorCode r) SccOk [], vec))
      in \<lparr>qcrs_cerV = fst (merge_responses (qcrs_cerV r) vec), qcrs_errorCode = ec\<rparr>)"

subsection \<open>postQueryContext\<close>

record query_forward_env =
  qf_send :: "forward_request \<Rightarrow> int \<times> string"
  qf_parse :: "string \<Rightarrow> string \<times> QueryContextResponse"
  qf_limit :: nat

definition query_message :: "RestInfo \<Rightarrow> url_out \<Rightarrow> QueryContextRequest \<Rightarrow> forward_request" where
  "query_message ci url req =
     \<lparr>fr_host = host url, fr_port = port url, fr_protocol = protocol url, fr_tenant = rc_tenant ci,
      fr_servicePath = (if hh_servicePathReceived (rc_httpHeaders ci) then hh_servicePath (rc_httpHeaders ci) else []),
      fr_xauthToken = hh_xauthToken (rc_httpHeaders ci), fr_resource = path url @ ''/queryContext'',
      fr_payload = QueryContextRequest_render req [], fr_correlator = hh_correlator (rc_httpHeaders ci)\<rparr>"

definition query_failed :: "string \<Rightarrow> QueryContextResponse \<Rightarrow> QueryContextResponse" where
  "query_failed details r = r\<lparr>qcrs_errorCode := StatusCode_fill (qcrs_errorCode r) SccContextElementNotFound details\<rparr>"

definition query_response :: "QueryContextResponse \<Rightarrow> QueryContextResponse \<Rightarrow> QueryContextResponse" where
  "query_response parsed r =
     (let r = QueryContextResponse_fill r parsed;
          r = (if sc_code (qcrs_errorCode r) = SccNone then r\<lparr>qcrs_errorCode := StatusCode_fill (qcrs_errorCode r) SccOk []\<rparr> else r)
      in if length (qcrs_cerV r) = 1 \<and> sc_code (statusCode (hd (qcrs_cerV r))) = SccContextElementNotFound
         then r\<lparr>qcrs_errorCode := not_found (qcrs_errorCode r)\<rparr> else r)"

definition queryForward ::
    "query_forward_env \<Rightarrow> QueryContextRequest \<Rightarrow> QueryContextResponse \<Rightarrow> RestInfo \<Rightarrow> rest_thread
       \<Rightarrow> (QueryContextResponse \<times> RestInfo \<times> rest_thread) option" where
  "queryForward env req qcrs ci t =
     (case parseUrl (qcr_contextProvider req) \<lparr>host = [], port = 0, path = [], protocol = []\<rparr> of
        None \<Rightarrow> None
      | Some (ok, url) \<Rightarrow>
          if ok = False
          then Some (query_failed [] qcrs, ci, bad_input (''invalid providing application '' @ quoted (qcr_contextProvider req)) t)
          else (case qf_send env (query_message ci url req) of
                  (r, out) \<Rightarrow>
                    if r \<noteq> 0 then Some (query_failed ''error forwarding query'' qcrs, ci, t)
                    else (case strstr (c_str out) ''{'' of
                            None \<Rightarrow> Some (query_failed ''invalid context provider response'' qcrs, ci, t)
                          | Some (_, cleanPayload) \<Rightarrow>
                              (let ci = ci\<lparr>rc_verb := POST, rc_method := ''POST''\<rparr>
                               in case qf_parse env cleanPayload of
                                    (s, parsed) \<Rightarrow>
                                      Some (if s \<noteq> ''OK'' then query_failed [] qcrs else query_response parsed qcrs, ci, t)))))"

fun query_forward_loop ::
    "query_forward_env \<Rightarrow> QueryContextRequest list \<Rightarrow> RestInfo \<Rightarrow> rest_thread
       \<Rightarrow> (QueryContextResponse list \<times> RestInfo \<times> rest_thread) option" where
  "query_forward_loop env [] ci t = Some ([], ci, t)"
| "query_forward_loop env (req # reqs) ci t =
     (if qcr_contextProvider req = [] then query_forward_loop env reqs ci t
      else case queryForward env req (QueryContextResponse_new\<lparr>qcrs_errorCode :=
                  StatusCode_fill (qcrs_errorCode QueryContextResponse_new) SccOk []\<rparr>) ci t of
             None \<Rightarrow> None
           | Some (q, ci, t) \<Rightarrow> map_option (map_prod (Cons q) id) (query_forward_loop env reqs ci t))"

definition count_wanted :: "ConnectionInfo \<Rightarrow> bool" where
  "count_wanted ci =
     (ci_apiVersion ci = ''v2'' \<and> ci_uriParamOptions ci ''count'' \<or> ci_apiVersion ci = ''v1'' \<and> ci_uriParam ci ''details'' = ''on'')"

type_synonym query_reply = "string \<times> QueryContextResponse \<times> RestInfo \<times> rest_thread"

definition query_forwards ::
    "query_forward_env \<Rightarrow> string list \<Rightarrow> QueryContextResponse \<Rightarrow> RestInfo \<Rightarrow> rest_thread \<Rightarrow> query_reply option" where
  "query_forwards env attrL qcrs ci t =
     (case query_distribute attrL (qcrs_cerV qcrs) of
        (local, requestV) \<Rightarrow>
          (case query_forward_loop env (take (qf_limit env) requestV) ci t of
             None \<Rightarrow> None
           | Some (replies, ci, t) \<Rightarrow>
               (let responseV = (if local \<noteq> [] then [QueryContextResponse_new\<lparr>qcrs_cerV := local\<rparr>] else []) @ replies
                in map_option (\<lambda>(answer, responseV).
                     (answer, populate responseV \<lparr>qcrs_cerV = [], qcrs_errorCode = StatusCode_new ''statusCode''\<rparr>, ci, t))
                     (QueryContextResponseVector_render responseV (rc_ci ci) (strcasecmp_eq ''on'' (ci_uriParam (rc_ci ci) ''details''))
                        (sc_details (qcrs_errorCode qcrs))))))"

text \<open>\<open>raw\<close> is what the query of the entities leaves behind when it is given, or not, a place for the count.\<close>

definition postQueryContext ::
    "query_forward_env \<Rightarrow> re_env \<Rightarrow> registrations \<Rightarrow> (bool \<Rightarrow> query_result \<times> bool \<times> int) \<Rightarrow> EntityId list \<Rightarrow> string list \<Rightarrow> QueryContextResponse
       \<Rightarrow> RestInfo \<Rightarrow> rest_thread \<Rightarrow> query_reply option" where
  "postQueryContext env re reg raw enV attrL qcrs ci t =
     (let wanted = count_wanted (rc_ci ci);
          (found, isBad, n) = raw wanted;
          (qcrs, al) = mongoQueryContext re reg found isBad (if wanted then Some n else None)
                         (atoi (ci_uriParam (rc_ci ci) ''offset'')) enV attrL
                         (qcrs\<lparr>qcrs_errorCode := StatusCode_fill (qcrs_errorCode qcrs) SccOk []\<rparr>);
          t = fold bad_input al t;
          ci = set_status SccOk ci
      in if sc_code (qcrs_errorCode qcrs) = SccBadRequest
         then (case OrionError_render (OrionError_status (qcrs_errorCode qcrs)) (rc_ci ci) [] of
                 (answer, c) \<Rightarrow> Some (answer, qcrs, ci\<lparr>rc_ci := c\<rparr>, t))
         else let ci = (if ci_apiVersion (rc_ci ci) = ''v2'' \<and> wanted
                        then ci\<lparr>rc_httpHeader := rc_httpHeader ci @ [(''Fiware-Total-Count'', dec (nat (n mod 2 ^ 64)))]\<rparr> else ci)
              in if query_forwardsPending (qcrs_cerV qcrs) = False
                 then map_option (\<lambda>(answer, qcrs). (answer, qcrs, ci, t)) (QueryContextResponse_render qcrs (rc_ci ci) [])
                 else query_forwards env attrL qcrs ci t)"

subsection \<open>Every attribute is answered or asked for\<close>

definition has_entity :: "EntityId \<Rightarrow> EntityId list \<Rightarrow> bool" where
  "has_entity en vec = (EntityIdVector_lookup vec (ei_id en) (ei_type en) (ei_isPattern en) \<noteq> None)"

text \<open>A request of the vector asks this provider for these attributes of the entity.\<close>

definition asked :: "string \<Rightarrow> EntityId \<Rightarrow> string set \<Rightarrow> QueryContextRequest list \<Rightarrow> bool" where
  "asked app en names requestV =
     (\<exists>r\<in>set requestV. qcr_contextProvider r = app \<and> names \<subseteq> set (qcr_attributeList r) \<and> has_entity en (qcr_entityIdVector r))"

lemma AttributeList_push_set: "set (AttributeList_push_back_if_absent as a) = insert a (set as)"
proof -
  have "AttributeList_lookup as a = (a \<in> set as)" by (induction as) auto
  then show ?thesis by (auto simp: AttributeList_push_back_if_absent_def)
qed

lemma EntityId_fill_from_simps [simp]:
  "ei_id (EntityId_fill_from en False) = ei_id en" "ei_type (EntityId_fill_from en False) = ei_type en"
  "ei_isPattern (EntityId_fill_from en False) = ei_isPattern en"
  by (simp_all add: EntityId_fill_from_def)

lemma lookup_append:
  "EntityIdVector_lookup (v @ w) i ty p = (case EntityIdVector_lookup v i ty p of None \<Rightarrow> EntityIdVector_lookup w i ty p | Some e \<Rightarrow> Some e)"
  by (induction v) auto

lemma has_entity_push:
  "has_entity en vec \<Longrightarrow> has_entity en (snd (push_back_if_absent vec item))"
  "has_entity en (snd (push_back_if_absent vec (EntityId_fill_from en False)))"
  by (auto simp: has_entity_def push_back_if_absent_def lookup_append split: option.splits)

lemma has_entity_new: "has_entity en [EntityId_fill_from en False]"
  by (simp add: has_entity_def)

lemma asked_push_mono: "asked app en names rs \<Longrightarrow> asked app en names (query_push app' en' name rs)"
proof (induction rs)
  case (Cons r rs)
  then show ?case using has_entity_push(1) [of en "qcr_entityIdVector r" "EntityId_fill_from en' False"]
    by (auto simp: asked_def AttributeList_push_set)
qed (simp add: asked_def)

lemma asked_push: "name \<noteq> [] \<Longrightarrow> asked app en {name} (query_push app en name rs)"
proof (induction rs)
  case Nil
  then show ?case by (simp add: asked_def QueryContextRequest_attribute_def has_entity_new)
next
  case (Cons r rs)
  then show ?case using has_entity_push(2) [of en "qcr_entityIdVector r"]
    by (auto simp: asked_def AttributeList_push_set request_for_def)
qed

lemma asked_attr_mono: "asked app en names (snd parts) \<Longrightarrow> asked app en names (snd (query_attr e parts ca))"
  by (cases parts) (auto simp: query_attr_def asked_push_mono)

lemma asked_attrs_mono: "asked app en names (snd parts) \<Longrightarrow> asked app en names (snd (foldl (query_attr e) parts cas))"
  by (induction cas arbitrary: parts) (simp_all add: asked_attr_mono)

lemma asked_append: "asked app en names rs \<Longrightarrow> asked app en names (rs @ rs')"
  by (auto simp: asked_def)

lemma asked_cer_mono: "asked app en names (snd parts) \<Longrightarrow> asked app en names (snd (query_cer attrL parts cer))"
  by (simp add: query_cer_def Let_def asked_attrs_mono asked_append)

lemma asked_cers_mono: "asked app en names (snd parts) \<Longrightarrow> asked app en names (snd (foldl (query_cer attrL) parts cerV))"
  by (induction cerV arbitrary: parts) (simp_all add: asked_cer_mono)

lemma query_cer_asks:
  assumes "ca \<in> set (cer_caV cer)" "provider ca \<noteq> []" "ca_name ca \<noteq> []"
  shows "asked (provider ca) (ce_entityId (contextElement cer)) {ca_name ca} (snd (query_cer attrL parts cer))"
proof -
  obtain xs ys where "cer_caV cer = xs @ ca # ys" using assms(1) by (auto simp: in_set_conv_decomp)
  moreover have "asked (provider ca) en {ca_name ca} (snd (query_attr en parts ca))" for en parts
    using assms asked_push by (cases parts) (simp add: query_attr_def)
  ultimately show ?thesis by (simp add: query_cer_def Let_def asked_attrs_mono)
qed

lemma query_cer_asks_entity:
  assumes "pa \<in> set (ce_providingApplicationList (contextElement cer))"
  shows "asked (pa_string pa) (ce_entityId (contextElement cer)) (set attrL) (snd (query_cer attrL parts cer))"
proof -
  have "asked (pa_string pa) (ce_entityId (contextElement cer)) (set attrL)
      (rs @ map (\<lambda>pa. QueryContextRequest_list (pa_string pa) (ce_entityId (contextElement cer)) attrL)
        (ce_providingApplicationList (contextElement cer)))" for rs
    unfolding asked_def using assms
    by (intro bexI [of _ "QueryContextRequest_list (pa_string pa) (ce_entityId (contextElement cer)) attrL"])
       (auto simp: QueryContextRequest_list_def has_entity_new)
  then show ?thesis by (simp add: query_cer_def Let_def asked_attrs_mono)
qed

text \<open>Nothing is asked for without reason: a request is for a provider of the answer, and a name in it is that of an attribute
  of this provider, or one of the request.\<close>

definition justified :: "string list \<Rightarrow> ContextElementResponse list \<Rightarrow> QueryContextRequest \<Rightarrow> bool" where
  "justified attrL cerV r =
     ((\<exists>cer\<in>set cerV. qcr_contextProvider r \<in> pa_string ` set (ce_providingApplicationList (contextElement cer))
          \<or> (\<exists>ca\<in>set (cer_caV cer). provider ca = qcr_contextProvider r))
      \<and> (\<forall>name\<in>set (qcr_attributeList r).
           name \<in> set attrL \<or> (\<exists>cer\<in>set cerV. \<exists>ca\<in>set (cer_caV cer). provider ca = qcr_contextProvider r \<and> ca_name ca = name)))"

lemma justified_more:
  assumes "justified attrL cerV r" "qcr_contextProvider r = provider ca" "cer \<in> set cerV" "ca \<in> set (cer_caV cer)"
  shows "justified attrL cerV (r\<lparr>qcr_attributeList := AttributeList_push_back_if_absent (qcr_attributeList r) (ca_name ca), qcr_entityIdVector := v\<rparr>)"
proof -
  have "\<exists>cer\<in>set cerV. \<exists>ca'\<in>set (cer_caV cer). provider ca' = provider ca \<and> ca_name ca' = ca_name ca" using assms(3,4) by blast
  then show ?thesis using assms(1,2) by (simp add: justified_def AttributeList_push_set)
qed

lemma justified_push:
  assumes "list_all (justified attrL cerV) rs" "cer \<in> set cerV" "ca \<in> set (cer_caV cer)"
  shows "list_all (justified attrL cerV) (query_push (provider ca) en (ca_name ca) rs)"
  using assms(1)
proof (induction rs)
  case Nil
  then show ?case using assms(2,3) by (auto simp: justified_def QueryContextRequest_attribute_def)
next
  case (Cons r rs)
  then show ?case using assms(2,3) justified_more by (simp add: request_for_def)
qed

lemma justified_cer:
  assumes "list_all (justified attrL cerV) (snd parts)" "cer \<in> set cerV"
  shows "list_all (justified attrL cerV) (snd (query_cer attrL parts cer))"
proof -
  have attrs: "list_all (justified attrL cerV) (snd (foldl (query_attr en) parts cas))"
    if "list_all (justified attrL cerV) (snd parts)" "set cas \<subseteq> set (cer_caV cer)" for en cas parts
    using that
  proof (induction cas arbitrary: parts)
    case (Cons ca cas)
    have "list_all (justified attrL cerV) (snd (query_attr en parts ca))"
      using Cons.prems assms(2) by (cases parts) (simp add: query_attr_def justified_push)
    with Cons show ?case by simp
  qed simp
  have "list_all (justified attrL cerV) (map (\<lambda>pa. QueryContextRequest_list (pa_string pa) (ce_entityId (contextElement cer)) attrL)
        (ce_providingApplicationList (contextElement cer)))"
    using assms(2) by (auto simp: list_all_iff justified_def QueryContextRequest_list_def)
  with assms(1) show ?thesis by (simp add: query_cer_def Let_def attrs)
qed

lemma justified_cers:
  "list_all (justified attrL cerV) (snd parts) \<Longrightarrow> set cers \<subseteq> set cerV \<Longrightarrow>
     list_all (justified attrL cerV) (snd (foldl (query_cer attrL) parts cers))"
  by (induction cers arbitrary: parts) (simp_all add: justified_cer)

lemma local_push_attrs:
  "cerV_attrs (local_push en ca cerV) = add_mset (ei_id en, ei_type en, ca_name ca) (cerV_attrs cerV)"
proof -
  have "cer_attrs (fst (ContextElementResponse_attr en (Some ca))) = {#(ei_id en, ei_type en, ca_name ca)#}"
    by (simp add: cer_attrs_def ContextElementResponse_attr_def ContextAttribute_copy_def)
  then show ?thesis by (auto simp: local_push_def cerV_attrs_push split: option.splits)
qed

definition local_attr :: "ContextAttribute \<Rightarrow> bool" where
  "local_attr ca = (provider ca = [] \<and> ca_found ca)"

lemma query_cer_local: "cerV_attrs (fst (query_cer attrL parts cer)) = cerV_attrs (fst parts) + cer_part local_attr ca_name cer"
proof -
  have one: "cerV_attrs (fst (query_attr en parts ca))
      = cerV_attrs (fst parts) + (if local_attr ca then {#(ei_id en, ei_type en, ca_name ca)#} else {#})" for en parts ca
    by (cases parts) (simp add: query_attr_def local_push_attrs local_attr_def)
  have "cerV_attrs (fst (foldl (query_attr en) parts cas))
      = cerV_attrs (fst parts) + mset (map (\<lambda>ca. (ei_id en, ei_type en, ca_name ca)) (filter local_attr cas))" for en cas parts
    by (induction cas arbitrary: parts) (simp_all add: one)
  then show ?thesis by (simp add: query_cer_def Let_def cer_part_def)
qed

lemma query_cers_local:
  "cerV_attrs (fst (foldl (query_cer attrL) parts cerV)) = cerV_attrs (fst parts) + cerV_part local_attr ca_name cerV"
  by (induction cerV arbitrary: parts) (simp_all add: query_cer_local cerV_part_def add.assoc)


definition cerV_query :: "ContextElementResponse list" where
  "cerV_query = [cer_of ''Room1'' [attr_of ''a'' [] True, attr_of ''b'' ''http://p1'' True, attr_of ''c'' [] False],
     push_application \<lparr>pa_string = ''http://p2'', pa_mimeType = JSON\<rparr> (cer_of ''Room2'' [attr_of ''d'' ''http://p1'' True])]"


text \<open>The merge of the responses loses no attribute of the elements without an error.\<close>

definition good_attrs :: "ContextElementResponse list \<Rightarrow> (string \<times> string \<times> string) multiset" where
  "good_attrs cerV = cerV_attrs (filter (\<lambda>cer. ok_or_none (statusCode cer)) cerV)"

lemma cerV_attrs_update:
  "ix < length vec \<Longrightarrow> cerV_attrs (vec[ix := c]) + cer_attrs (vec ! ix) = cerV_attrs vec + cer_attrs c"
proof (induction vec arbitrary: ix)
  case (Cons d vec)
  then show ?case by (cases ix) (simp_all add: add_ac)
qed simp

lemma cerV_lookup_sound: "cerV_lookup vec en code = Some ix \<Longrightarrow> ix < length vec \<and> EntityId_equal (ce_entityId (contextElement (vec ! ix))) en"
  by (induction vec arbitrary: ix) (auto split: if_splits)

lemma merge_one_attrs:
  "cerV_attrs (fst (merge_one target cer)) = cerV_attrs target + (if ok_or_none (statusCode cer) then cer_attrs cer else {#})"
proof (cases "ok_or_none (statusCode cer)")
  case True
  show ?thesis
  proof (cases "cerV_lookup target (ce_entityId (contextElement cer)) SccNone")
    case None
    then show ?thesis using True
      by (simp add: merge_one_def ContextElementResponse_copy_def ContextElementResponse_fill_def ContextElement_fill_def cer_attrs_def
          ContextAttributeVector_fill_def ContextElementResponse_new_def ContextElement_new_def ContextElement_of_def comp_def split: prod.split)
  next
    case (Some ix)
    let ?t = "target ! ix" and ?new = "cer_with (cer_caV (target ! ix) @ map ca_sent (cer_caV cer)) (target ! ix)"
    have ix: "ix < length target" and "EntityId_equal (ce_entityId (contextElement ?t)) (ce_entityId (contextElement cer))"
      using cerV_lookup_sound [OF Some] by simp_all
    then have "cer_attrs ?new = cer_attrs ?t + cer_attrs cer"
      by (simp add: cer_attrs_def cer_with_def EntityId_equal_def comp_def split: if_splits)
    then have "cerV_attrs (target[ix := ?new]) + cer_attrs ?t = cerV_attrs target + cer_attrs cer + cer_attrs ?t"
      using cerV_attrs_update [OF ix, of ?new] by (simp add: add_ac)
    then show ?thesis using True Some by (simp add: merge_one_def Let_def comp_def)
  qed
qed (simp add: merge_one_def)

lemma merge_cers_attrs: "cerV_attrs (fst (merge_cers target cerV)) = cerV_attrs target + good_attrs cerV"
proof (induction cerV arbitrary: target)
  case (Cons cer cerV)
  obtain v c where "merge_one target cer = (v, c)" by fastforce
  then show ?case using Cons merge_one_attrs [of target cer] by (simp add: good_attrs_def)
qed (simp add: good_attrs_def)

lemma merge_responses_attrs:
  "cerV_attrs (fst (merge_responses target qs)) = cerV_attrs target + \<Sum>\<^sub># (mset (map (\<lambda>q. good_attrs (qcrs_cerV q)) qs))"
proof (induction qs arbitrary: target)
  case (Cons q qs)
  have "cer_attrs not_found_cer = {#}"
    by (simp add: not_found_cer_def cer_attrs_def ContextElementResponse_new_def ContextElement_new_def ContextElement_of_def Let_def)
  moreover obtain v cerV where "merge_cers (if qcrs_cerV q = [] \<and> ok_or_none (qcrs_errorCode q) then target @ [not_found_cer] else target)
      (qcrs_cerV q) = (v, cerV)" by fastforce
  ultimately show ?case
    using Cons.IH [of v] merge_cers_attrs [of "if qcrs_cerV q = [] \<and> ok_or_none (qcrs_errorCode q) then target @ [not_found_cer] else target" "qcrs_cerV q"]
    by (simp add: add.assoc)
qed simp

subsection \<open>Queries that are not answered as they should be\<close>

text \<open>A request for all attributes of an entity, made for a provider of the entity, becomes one for a single attribute when
  the same provider is also registered for that attribute.\<close>

lemma all_attributes_narrowed:
  assumes "ce_providingApplicationList (contextElement cer) = [pa]" "cer_caV cer = [ca]" "ca_providingApplication ca = pa" "pa_string pa \<noteq> []"
  shows "map qcr_attributeList (snd (query_distribute [] [cer])) = [[ca_name ca]]"
  using assms
  by (simp add: query_distribute_def query_cer_def query_attr_def Let_def QueryContextRequest_list_def request_for_def entityIdMatch_def
      AttributeList_push_back_if_absent_def)

text \<open>The rendering takes the compound values out of the responses before the response of the caller is made of them.\<close>

lemma rendered_values_gone:
  assumes "merge_one target cer = (target', cer')" "ok_or_none (statusCode cer)" "ca \<in> set (cer_caV cer')"
  shows "ca_compoundValueP ca = None"
  using assms
  by (auto simp: merge_one_def Let_def ContextElementResponse_copy_def ContextElementResponse_fill_def ContextElement_fill_def
      ContextAttributeVector_fill_def cer_with_def ContextAttribute_copy_def split: option.splits prod.splits)

end
