(* ===== verification/Spec2Isabelle.thy ===== *)
theory Spec2Isabelle
  imports Orion_Sem Orion_Alarm Orion_String Orion_Url Orion_Globals Orion_LogSummary Orion_Pool
    Orion_Formats Orion_Queue Orion_StringFilter Orion_SubCache Orion_Entity Orion_Statistics
    Orion_Location Orion_Merge Orion_Ngsi10 Orion_Created Orion_ElementUpdate Orion_RestSpec Orion_SubCacheDb
    Orion_QueryContext
begin

text \<open>
  \<^bold>\<open>The Orion context broker\<close>

  Orion is an NGSI context broker: a server that keeps entities with attributes in a database, answers
  queries, and notifies subscribers of changes. Its sources are under \<^verbatim>\<open>src/src\<close>: the main program in
  \<^verbatim>\<open>app/contextBroker\<close> and the libraries in \<^verbatim>\<open>lib\<close>. A request is received by
  \<^verbatim>\<open>rest\<close>, parsed by \<^verbatim>\<open>jsonParse\<close> or \<^verbatim>\<open>jsonParseV2\<close> into the types of
  \<^verbatim>\<open>ngsi\<close>, and carried out by \<^verbatim>\<open>mongoBackend\<close> on a connection of the pool. An update
  is matched against the subscriptions in \<^verbatim>\<open>cache\<close>, filtered by the \<^verbatim>\<open>q\<close> filter of the
  subscription, and the notifications go through \<^verbatim>\<open>ngsiNotify\<close> to the subscribers. The threads share
  semaphores (\<^verbatim>\<open>common/sem.cpp\<close>), an alarm manager and counters.

  \<^bold>\<open>The theories\<close>, in the order in which they build on each other:

  \<^item> \<^verbatim>\<open>Orion_Prelude\<close>: collections of facts, wrap-around of C integers, C strings and the functions of
    the C library on them.
  \<^item> \<^verbatim>\<open>Orion_Clock\<close>: \<^verbatim>\<open>common/clockFunctions.cpp\<close>; the interface \<open>wait_account\<close> of an
    accumulated waiting time.
  \<^item> \<^verbatim>\<open>Orion_Sem\<close>: \<^verbatim>\<open>common/sem.cpp\<close>, the request, transaction, cache and time-statistics
    semaphores; the interface \<open>binary_lock\<close> gives mutual exclusion in every interleaving, and the
    accounts of the waiting times are exact.
  \<^item> \<^verbatim>\<open>Orion_Alarm\<close>: \<^verbatim>\<open>alarmMgr/AlarmManager.cpp\<close>; the interface \<open>alarm_table\<close>: raised =
    released + active, and the transitions of an alarm alternate. The interleaving of two database errors,
    which does not keep that, is a step relation of its own.
  \<^item> \<^verbatim>\<open>Orion_String\<close>, \<^verbatim>\<open>Orion_Url\<close>: \<^verbatim>\<open>common/string.cpp\<close>, \<^verbatim>\<open>common/wsStrip.cpp\<close>,
    \<^verbatim>\<open>parse/forbiddenChars.cpp\<close>: one definition per function; specifications of the checks, round trips of
    the parsers, and the inputs on which the code leaves its buffers.
  \<^item> \<^verbatim>\<open>Orion_Globals\<close>: \<^verbatim>\<open>common/globals.cpp\<close>: transaction identifiers, durations, boxes.
  \<^item> \<^verbatim>\<open>Orion_LogSummary\<close>: \<^verbatim>\<open>logSummary/logSummary.cpp\<close>, on top of the transaction counter and the
    alarm counters.
  \<^item> \<^verbatim>\<open>Orion_Pool\<close>: \<^verbatim>\<open>mongoBackend/mongoConnectionPool.cpp\<close>; the interface \<open>slot_pool\<close>: in every
    interleaving a connection has one user and none is lost.
  \<^item> \<^verbatim>\<open>Orion_Formats\<close>: \<^verbatim>\<open>common/RenderFormat.cpp\<close>, \<^verbatim>\<open>common/MimeType.cpp\<close>.
  \<^item> \<^verbatim>\<open>Orion_Queue\<close>: \<^verbatim>\<open>common/SyncQOverflow.h\<close> and \<^verbatim>\<open>ngsiNotify\<close>; the interface
    \<open>bounded_fifo\<close>: order, bound and accounting of the queue in every interleaving of producers and
    workers; the accounting of a whole run of notifications, with the alarms.
  \<^item> \<^verbatim>\<open>Orion_Date\<close>: \<^verbatim>\<open>isodate2str\<close> and \<^verbatim>\<open>parse8601Time\<close> on a calendar; dates are read back.
  \<^item> \<^verbatim>\<open>Orion_Number\<close>: how the C++ library prints doubles, and the values of JSON numbers.
  \<^item> \<^verbatim>\<open>Orion_Json\<close>: JSON values, their texts and a parser of them. The relation \<open>reads t v\<close> (the text \<open>t\<close>
    is read as the value \<open>v\<close>, wherever it stands) is closed under arrays and objects, and carries the proofs
    that rendered texts are JSON. The parser stands for rapidjson, which the broker's parsers are built on.
  \<^item> \<^verbatim>\<open>Orion_Tag\<close>: \<^verbatim>\<open>common/tag.cpp\<close>, \<^verbatim>\<open>common/JsonHelper.cpp\<close>: escaping can be undone, and
    the texts of a JsonHelper are JSON.
  \<^item> \<^verbatim>\<open>Orion_Compound\<close>: \<^verbatim>\<open>parse/CompoundValueNode.cpp\<close>, its parser and its conversions to and from
    the documents of the database: a compound value survives the whole way; checks and copies are exact.
  \<^item> \<^verbatim>\<open>Orion_Request\<close>, \<^verbatim>\<open>Orion_Statistics\<close>: \<^verbatim>\<open>ngsi/Request.cpp\<close>,
    \<^verbatim>\<open>common/statistics.cpp\<close>, \<^verbatim>\<open>serviceRoutines/statisticsTreat.cpp\<close>: the counters report the
    requests; those that are lost are listed.
  \<^item> \<^verbatim>\<open>Orion_Status\<close>: status codes, the error objects of both versions of the API and their rendering.
  \<^item> \<^verbatim>\<open>Orion_Metadata\<close>, \<^verbatim>\<open>Orion_Attribute\<close>, \<^verbatim>\<open>Orion_Entity\<close>: the types of
    \<^verbatim>\<open>ngsi\<close> and \<^verbatim>\<open>apiTypesV2\<close> with their checks, renderings and parsers
    (\<^verbatim>\<open>jsonParseV2\<close>): what is rendered is JSON and is parsed back.
  \<^item> \<^verbatim>\<open>Orion_StringFilter\<close>: \<^verbatim>\<open>rest/StringFilter.cpp\<close>: parser, database query, evaluation.
  \<^item> \<^verbatim>\<open>Orion_SubCache\<close>: \<^verbatim>\<open>cache/subCache.cpp\<close>; the interface \<open>sub_store\<close> is the refinement of
    lists of entries by the linked list on the heap; matching; synchronisation with the database.
  \<^item> \<^verbatim>\<open>Orion_Mongo\<close>: \<^verbatim>\<open>mongoBackend/safeMongo.cpp\<close> and the documents of the database: typed access to the members of a document.
  \<^item> \<^verbatim>\<open>Orion_Location\<close>: \<^verbatim>\<open>mongoBackend/location.cpp\<close>: the GeoJSON of a location attribute is well formed; which attribute is
    the location when an entity is created, updated or appended to.
  \<^item> \<^verbatim>\<open>Orion_Merge\<close>: the merge of an attribute of a request with a stored one (\<^verbatim>\<open>mergeAttrInfo\<close>,
    \<^verbatim>\<open>attrValueChanges\<close>): an update that is found to be no change loses nothing, and repeating an update
    changes nothing.
  \<^item> \<^verbatim>\<open>Orion_Element\<close>, \<^verbatim>\<open>Orion_Ngsi10\<close>: context elements and their responses, the requests and responses of
    \<^verbatim>\<open>ngsi10\<close>: the payload of a notification is JSON, and merging responses keeps every attribute.
  \<^item> \<^verbatim>\<open>Orion_Registration\<close>: registrations and the search for the provider of an attribute that was not found.
  \<^item> \<^verbatim>\<open>Orion_Query\<close>: \<^verbatim>\<open>mongoBackend/MongoGlobal.cpp\<close>: the query made for the entities asked for, and what the answer holds.
  \<^item> \<^verbatim>\<open>Orion_Map\<close>: a \<^verbatim>\<open>std::map\<close> as the ordered list of its pairs: insertion keeps the order and changes one key.
  \<^item> \<^verbatim>\<open>Orion_Trigger\<close>: which subscriptions an update triggers, with and without the cache, and which of them are notified:
    exactly those that match, are active and not expired or throttled.
  \<^item> \<^verbatim>\<open>Orion_Update\<close>, \<^verbatim>\<open>Orion_UpdateSpec\<close>, \<^verbatim>\<open>Orion_Created\<close>, \<^verbatim>\<open>Orion_ElementUpdate\<close>: \<^verbatim>\<open>mongoBackend/MongoCommonUpdate.cpp\<close>: an
    element of an update from its check to the operation on the database. The update that is sent refines a sequential
    specification on the attributes; a created entity is read back; an element of version 2 changes one entity.
  \<^item> \<^verbatim>\<open>Orion_Reply\<close>: the responses that an error is rendered in for each kind of request (\<^verbatim>\<open>rest/restReply.cpp\<close>,
    \<^verbatim>\<open>ngsi9\<close>).
  \<^item> \<^verbatim>\<open>Orion_Routes\<close>: the tables of routes of \<^verbatim>\<open>app/contextBroker/contextBroker.cpp\<close> with the look-up of
    \<^verbatim>\<open>rest/RestService.cpp\<close>: the methods that the answer to a wrong method allows are those with a route.
  \<^item> \<^verbatim>\<open>Orion_Rest\<close>, \<^verbatim>\<open>Orion_RestSpec\<close>: \<^verbatim>\<open>rest/rest.cpp\<close>, \<^verbatim>\<open>rest/RestService.cpp\<close>: a request from its first
    line to the call of its service routine. The payload is collected within its buffer, and a routine is only reached by a
    request that passed every check.
  \<^item> \<^verbatim>\<open>Orion_Forward\<close>: \<^verbatim>\<open>serviceRoutines/postUpdateContext.cpp\<close>, \<^verbatim>\<open>mongoBackend/mongoUpdateContext.cpp\<close>: a whole
    update, whose attributes are each answered locally or sent to one provider.
  \<^item> \<^verbatim>\<open>Orion_QueryContext\<close>: \<^verbatim>\<open>serviceRoutines/postQueryContext.cpp\<close>, \<^verbatim>\<open>mongoBackend/mongoQueryContext.cpp\<close>:
    a whole query, completed with context providers; every attribute is answered or asked for, and the answers are merged.
  \<^item> \<^verbatim>\<open>Orion_SubCacheDb\<close>: \<^verbatim>\<open>mongoBackend/mongoSubCache.cpp\<close>: the refresh of the cache from the documents of
    all databases refines the refresh on items of \<^verbatim>\<open>Orion_SubCache\<close>.

  \<^bold>\<open>How the code is represented.\<close> A C++ struct or class is a record with the members as fields, an enum
  a datatype, a function with out-parameters or effects on globals a function from the old to the new
  values. Counters of fixed width are words or are wrapped explicitly; \<^verbatim>\<open>double\<close> is a NaN, an infinity
  or a rational. Strings are lists of characters, with the terminator made explicit where the code
  depends on it. A result \<^const>\<open>None\<close> of an operation stands for undefined behaviour (an access out of
  bounds or to freed memory) or, for the walks over linked lists, for a loop that does not end; that an
  operation is defined is always part of what is proved. A semaphore operation that has to wait
  returns \<open>Blocks\<close>. Threads are interleaved by inductive relations whose steps are the actions between
  two semaphore or atomic operations; the rest of the operations are proved sequentially.

  \<^bold>\<open>Termination.\<close> Loops over strings and vectors are structural recursions; the linked lists are
  \<^verbatim>\<open>partial_function (option)\<close>, and the theorems on the cache show that the walks return.
  Fuel is used in one place, the nesting of JSON texts in \<open>json_parse\<close>: the length of the text is enough,
  since every level consumes a character, and \<open>reads\<close> states success for every fuel of at least that length.

  \<^bold>\<open>Parameters\<close> stand for code outside the repository and for parts that are not modelled:
  \<^verbatim>\<open>strtod\<close> (with the specification \<open>strtod_spec\<close> where it is needed),
  \<^verbatim>\<open>regcomp\<close> and \<^verbatim>\<open>regexec\<close>, the clock, the allocator, thread creation, the database driver,
  \<^verbatim>\<open>httpRequestSend\<close>, libmicrohttpd (the chunks of a payload, its headers and arguments), the parser of the
  payloads of version 1, and the rendering of the payload of a notification. The witnesses instantiate
  them with concrete functions.

  \<^bold>\<open>Not modelled.\<close> What only talks to a library: the start of the servers (\<^verbatim>\<open>restStart\<close>), the requests
  that are sent (\<^verbatim>\<open>httpRequestSend\<close>), the connections to the database, the operations of the driver, threads
  and signals. The parsers of version 1 of the API, which are tables of call-backs over the property trees of Boost, and
  those of subscriptions. The requests of subscriptions and registrations with their operations on the database, the
  scopes (\<^verbatim>\<open>ngsi/Scope.cpp\<close>) and the areas. The service routines but those of statistics, wrong methods, wrong
  requests, updates and queries: they
  translate a request into one of those modelled. The log and command line libraries and the main program but its
  tables of routes. The functions that only write traces (\<^verbatim>\<open>present\<close>, \<^verbatim>\<open>show\<close>).
\<close>

end
